(* ===== verification/Prelude.thy ===== *)
theory Prelude
  imports Main "HOL-Library.Word"
begin

text \<open>
  Shared vocabulary of the development: the result codes the code returns, the C++
  standard-library pieces the sources use (ordered \<^verbatim>\<open>std::map\<close> keyed by
  \<^verbatim>\<open>int32_t\<close>, sub-string search), and the generic lemmas about them.

  \<^item> \<open>errcode\<close>: the \<^verbatim>\<open>int32_t\<close> result codes by their source names. Their numeric
    values live in headers outside the repository; the code only compares and forwards them.
    \<open>RetOther\<close> is any other code handed back by a service the code calls.
  \<^item> \<open>omap\<close>: a \<^verbatim>\<open>std::map\<close> as the list of its entries in iteration order
    (ascending keys); \<open>omap_insert\<close> is \<^verbatim>\<open>insert\<close> (an existing key wins),
    \<open>omap_put\<close> is a write through a pointer to an entry.
  \<^item> \<open>keyed_table\<close>: the contract of such a table, with the client lemmas proved once from it.
\<close>

section \<open>Collections of rewrite rules\<close>

named_theorems conn_simps \<open>effects of connection updates on the other fields\<close>
named_theorems req_defs \<open>definitions of the requests sent to modem, IMS and satellite services\<close>

section \<open>Result codes\<close>

datatype errcode =
    TELEPHONY_SUCCESS
  | TELEPHONY_ERROR
  | TELEPHONY_ERR_SUCCESS
  | TELEPHONY_ERR_ARGUMENT_INVALID
  | TELEPHONY_ERR_LOCAL_PTR_NULL
  | TELEPHONY_ERR_MEMSET_FAIL
  | TELEPHONY_ERR_MEMCPY_FAIL
  | TELEPHONY_ERR_STRCPY_FAIL
  | TELEPHONY_ERR_NETWORK_NOT_IN_SERVICE
  | TELEPHONY_ERR_AIRPLANE_MODE_ON
  | CALL_ERR_RESOURCE_UNAVAILABLE
  | CALL_ERR_PHONE_NUMBER_EMPTY
  | CALL_ERR_GET_RADIO_STATE_FAILED
  | CALL_ERR_UNSUPPORTED_NETWORK_TYPE
  | CALL_ERR_CALL_COUNTS_EXCEED_LIMIT
  | CALL_ERR_CALL_CONNECTION_NOT_EXIST
  | CALL_ERR_CALL_STATE
  | CALL_ERR_PARAMETER_OUT_OF_RANGE
  | CALL_ERR_DIAL_FAILED
  | CALL_ERR_INVALID_SLOT_ID
  | CALL_ERR_UT_NO_CONNECTION
  | IMS_ERROR_UT_NO_CONNECTION
  | IMS_ERROR_UT_CS_FALLBACK
  | TELEPHONY_ERR_FAIL
  | TELEPHONY_ERR_ARGUMENT_MISMATCH
  | TELEPHONY_ERR_RIL_CMD_FAIL
  | TELEPHONY_ERR_DESCRIPTOR_MISMATCH
  | TELEPHONY_ERR_PERMISSION_ERR
  | TELEPHONY_ERR_IPC_CONNECT_STUB_FAIL
  | TELEPHONY_ERR_WRITE_DESCRIPTOR_TOKEN_FAIL
  | TELEPHONY_ERR_WRITE_DATA_FAIL
  | TELEPHONY_ERR_WRITE_REPLY_FAIL
  | TELEPHONY_ERR_SLOTID_INVALID
  | TELEPHONY_ERR_NO_SIM_CARD
  | TELEPHONY_ERR_DATABASE_WRITE_FAIL
  | TELEPHONY_ERR_DATABASE_READ_FAIL
  | CALL_ERR_VOLTE_NOT_SUPPORT
  | CALL_ERR_VOLTE_PROVISIONING_DISABLED
  | RETURN_TYPE_MMI
  | RetOther int

section \<open>Strings\<close>

text \<open>\<^verbatim>\<open>std::string::find\<close> of a pattern at or after a position is used as a test and as a
  split point; \<open>find_sub\<close> returns the first position at which the pattern occurs.\<close>

fun starts_with :: "string \<Rightarrow> string \<Rightarrow> bool" where
  "starts_with [] s = True"
| "starts_with (p # ps) [] = False"
| "starts_with (p # ps) (c # cs) = (p = c \<and> starts_with ps cs)"

fun find_sub :: "string \<Rightarrow> string \<Rightarrow> nat option" where
  "find_sub pat [] = (if pat = [] then Some 0 else None)"
| "find_sub pat (c # cs) =
     (if starts_with pat (c # cs) then Some 0 else map_option Suc (find_sub pat cs))"

lemma starts_with_iff: "starts_with p s \<longleftrightarrow> (\<exists>t. s = p @ t)"
  by (induction p s rule: starts_with.induct) auto

lemma find_sub_Some:
  "find_sub pat s = Some n \<Longrightarrow> n \<le> length s \<and> starts_with pat (drop n s)"
proof (induction s arbitrary: n)
  case Nil
  then show ?case by (auto split: if_splits)
next
  case (Cons c cs)
  then show ?case by (auto split: if_splits)
qed

lemma find_sub_bound: "find_sub pat s = Some n \<Longrightarrow> n + length pat \<le> length s"
  using find_sub_Some [of pat s n] by (auto simp: starts_with_iff) (metis length_append length_drop
    le_diff_conv2 le_add1 add.commute)

text \<open>The digits of the code's \<^verbatim>\<open>c >= '0' && c <= '9'\<close> tests and of the regex class \<open>\d\<close>.\<close>

definition is_digit :: "char \<Rightarrow> bool" where
  "is_digit c \<longleftrightarrow> c \<in> set ''0123456789''"

section \<open>Ordered maps\<close>

type_synonym 'v omap = "(int \<times> 'v) list"

fun omap_insert :: "int \<Rightarrow> 'v \<Rightarrow> 'v omap \<Rightarrow> 'v omap" where
  "omap_insert k v [] = [(k, v)]"
| "omap_insert k v ((k', v') # m) =
     (if k < k' then (k, v) # (k', v') # m
      else if k = k' then (k', v') # m
      else (k', v') # omap_insert k v m)"

fun omap_put :: "int \<Rightarrow> 'v \<Rightarrow> 'v omap \<Rightarrow> 'v omap" where
  "omap_put k v [] = []"
| "omap_put k v ((k', v') # m) =
     (if k = k' then (k, v) # m else (k', v') # omap_put k v m)"

definition omap_ok :: "'v omap \<Rightarrow> bool" where
  "omap_ok m \<longleftrightarrow> sorted_wrt (<) (map fst m)"

lemma omap_ok_Nil [simp]: "omap_ok []"
  by (simp add: omap_ok_def)

lemma omap_ok_Cons [simp]: "omap_ok ((k, v) # m) \<longleftrightarrow> (\<forall>k' \<in> fst ` set m. k < k') \<and> omap_ok m"
  by (auto simp: omap_ok_def)

lemma omap_insert_keys [simp]: "fst ` set (omap_insert k v m) = insert k (fst ` set m)"
  by (induction k v m rule: omap_insert.induct) auto

lemma omap_put_keys [simp]: "map fst (omap_put k v m) = map fst m"
  by (induction k v m rule: omap_put.induct) auto

lemma omap_put_key_set [simp]: "fst ` set (omap_put k v m) = fst ` set m"
  using omap_put_keys [of k v m] by (metis set_map)

lemma omap_ok_insert: "omap_ok m \<Longrightarrow> omap_ok (omap_insert k v m)"
proof (induction k v m rule: omap_insert.induct)
  case (2 k v k' v' m)
  then show ?case
    by (simp only: omap_insert.simps omap_ok_Cons omap_insert_keys split: if_splits) fastforce
qed simp

lemma omap_ok_put: "omap_ok m \<Longrightarrow> omap_ok (omap_put k v m)"
  by (simp add: omap_ok_def)

lemma omap_ok_distinct: "omap_ok m \<Longrightarrow> distinct (map fst m)"
  by (simp add: omap_ok_def strict_sorted_iff)

lemma map_of_omap_insert:
  "omap_ok m \<Longrightarrow>
   map_of (omap_insert k v m) = (if map_of m k = None then (map_of m)(k \<mapsto> v) else map_of m)"
proof (induction k v m rule: omap_insert.induct)
  case (2 k v k' v' m)
  have none: "map_of m k = None" if "k < k'"
    using that "2.prems" by (auto simp: map_of_eq_None_iff image_iff)
  show ?case
  proof (cases "k' < k")
    case True
    with "2" have "map_of (omap_insert k v m) =
        (if map_of m k = None then (map_of m)(k \<mapsto> v) else map_of m)"
      by simp
    with True show ?thesis by (auto simp: fun_eq_iff)
  next
    case False
    with none show ?thesis by (auto simp: fun_eq_iff)
  qed
qed (simp add: fun_eq_iff)

lemma map_of_omap_put:
  "map_of (omap_put k v m) = (if map_of m k = None then map_of m else (map_of m)(k \<mapsto> v))"
  by (induction k v m rule: omap_put.induct) (auto simp: fun_eq_iff)

lemma omap_put_same: "omap_ok m \<Longrightarrow> map_of m k = Some v \<Longrightarrow> omap_put k v m = m"
  by (induction k v m rule: omap_put.induct) (auto split: if_splits)

lemma omap_put_put [simp]: "omap_put k v (omap_put k u m) = omap_put k v m"
  by (induction k u m rule: omap_put.induct) auto

lemma map_of_omap_map:
  "map_of (map (\<lambda>(k, v). (k, f v)) m) k = map_option f (map_of m k)"
  by (induction m) auto

lemma map_of_omap_filter:
  "omap_ok m \<Longrightarrow>
   map_of (filter (\<lambda>(k, v). P v) m) k = (case map_of m k of Some v \<Rightarrow> if P v then Some v else None | None \<Rightarrow> None)"
proof (induction m)
  case (Cons e m)
  obtain k' v' where e: "e = (k', v')" by (cases e)
  have "map_of m k' = None"
    using Cons.prems e by (force simp: map_of_eq_None_iff)
  with Cons e show ?case by (auto split: option.splits)
qed simp

lemma omap_ok_filter: "omap_ok m \<Longrightarrow> omap_ok (filter P m)"
  unfolding omap_ok_def by (induction m) auto

lemma omap_ok_map: "omap_ok m \<Longrightarrow> omap_ok (map (\<lambda>(k, v). (k, f v)) m)"
  unfolding omap_ok_def by (simp add: case_prod_unfold comp_def)

lemma dom_map_of_omap: "dom (map_of m) = fst ` set m"
  by (rule dom_map_of_conv_image_fst)

section \<open>The contract of a keyed table\<close>

text \<open>
  What the clients of a connection table rely on: a look-up after an insertion finds the
  old entry if there was one (\<^verbatim>\<open>std::map::insert\<close> does not overwrite), a write through a
  pointer replaces the entry it points to and no other, and both keep the table well formed.
\<close>

locale keyed_table =
  fixes lookup :: "'t \<Rightarrow> int \<Rightarrow> 'v option"
    and ins :: "int \<Rightarrow> 'v \<Rightarrow> 't \<Rightarrow> 't"
    and put :: "int \<Rightarrow> 'v \<Rightarrow> 't \<Rightarrow> 't"
    and ok :: "'t \<Rightarrow> bool"
  assumes lookup_ins: "ok t \<Longrightarrow>
      lookup (ins k v t) = (if lookup t k = None then (lookup t)(k \<mapsto> v) else lookup t)"
    and lookup_put: "ok t \<Longrightarrow>
      lookup (put k v t) = (if lookup t k = None then lookup t else (lookup t)(k \<mapsto> v))"
    and ok_ins: "ok t \<Longrightarrow> ok (ins k v t)"
    and ok_put: "ok t \<Longrightarrow> ok (put k v t)"
begin

lemma dom_ins: "ok t \<Longrightarrow> dom (lookup (ins k v t)) = insert k (dom (lookup t))"
  by (auto simp: lookup_ins split: if_splits)

lemma dom_put: "ok t \<Longrightarrow> dom (lookup (put k v t)) = dom (lookup t)"
  by (auto simp: lookup_put split: if_splits)

lemma ok_fold_ins: "ok t \<Longrightarrow> ok (fold (\<lambda>(k, v). ins k v) kvs t)"
  by (induction kvs arbitrary: t) (auto simp: ok_ins)

text \<open>A run of insertions keeps what was there and adds, for a new key, its first value.\<close>

lemma lookup_fold_ins:
  "ok t \<Longrightarrow>
   lookup (fold (\<lambda>(k, v). ins k v) kvs t) k =
     (case lookup t k of Some v \<Rightarrow> Some v | None \<Rightarrow> map_of kvs k)"
proof (induction kvs arbitrary: t)
  case (Cons kv kvs)
  obtain k' v' where kv: "kv = (k', v')" by (cases kv)
  from Cons.prems have "ok (ins k' v' t)" by (rule ok_ins)
  from Cons.IH [OF this] kv Cons.prems show ?case
    by (auto simp: lookup_ins split: option.splits)
qed (simp split: option.splits)

lemma ins_put: "ok t \<Longrightarrow> lookup (put k v (ins k u t)) k = Some v"
  by (simp add: lookup_put ok_ins lookup_ins)

end

interpretation om: keyed_table map_of omap_insert omap_put omap_ok
  by unfold_locales (simp_all add: map_of_omap_insert map_of_omap_put omap_ok_insert omap_ok_put)

end
