(* ===== verification/Types.thy ===== *)
theory Types
  imports Prelude
begin

text \<open>
  The data the components exchange: the structures of
  \<^verbatim>\<open>services/common/include/cellular_call_data_struct.h\<close>,
  \<^verbatim>\<open>interfaces/innerkits/ims/ims_call_types.h\<close> and
  \<^verbatim>\<open>interfaces/innerkits/satellite/satellite_call_types.h\<close>, the call-manager structures the
  code fills in (only their fields that the code reads or writes), the requests the code sends
  downwards, and the answers of the surrounding system (\<open>svc_env\<close>).

  An enumeration of another repository is a datatype of the enumerators the code names, plus one
  constructor for the rest; a \<^verbatim>\<open>static_cast\<close> between such an enumeration and its integer
  changes no value and is not written.
\<close>

section \<open>Enumerations\<close>

datatype CLIRMode = DEFAULT | TRANSFER | INHIBITION

datatype PostDialCallState =
    POST_DIAL_CALL_NOT_STARTED
  | POST_DIAL_CALL_STARTED
  | POST_DIAL_CALL_DELAY
  | POST_DIAL_CALL_WILD
  | POST_DIAL_CALL_COMPLETE
  | POST_DIAL_CALL_CANCELED
  | POST_DIAL_CALL_PAUSE

datatype TelCallState =
    CALL_STATUS_ACTIVE
  | CALL_STATUS_HOLDING
  | CALL_STATUS_DIALING
  | CALL_STATUS_ALERTING
  | CALL_STATUS_INCOMING
  | CALL_STATUS_WAITING
  | CALL_STATUS_DISCONNECTED
  | CALL_STATUS_DISCONNECTING
  | CALL_STATUS_UNKNOWN
  | CALL_STATUS_other int

datatype CallType = TYPE_CS | TYPE_IMS | TYPE_SATELLITE | CallType_other int

datatype VideoStateType =
    TYPE_VOICE | TYPE_SEND_ONLY | TYPE_RECEIVE_ONLY | TYPE_VIDEO | VideoState_other int

datatype ImsCallType =
    TEL_IMS_CALL_TYPE_VOICE
  | TEL_IMS_CALL_TYPE_VT_TX
  | TEL_IMS_CALL_TYPE_VT_RX
  | TEL_IMS_CALL_TYPE_VT
  | TEL_IMS_CALL_TYPE_PAUSE
  | ImsCallType_other int

datatype RilDisconnectedReason =
    DISCONNECTED_REASON_INVALID
  | DISCONNECTED_REASON_NORMAL
  | DISCONNECTED_REASON_USER_TERMINATED
  | DISCONNECTED_REASON_USER_DECLINE
  | DISCONNECTED_REASON_other int

datatype CallSupplementType =
    TYPE_DEFAULT
  | TYPE_HANG_UP_HOLD_WAIT
  | TYPE_HANG_UP_ACTIVE
  | TYPE_HANG_UP_ALL
  | CallSupplement_other int

section \<open>Structures\<close>

record DialRequestStruct =
  dr_phoneNum :: string
  dr_clirMode :: CLIRMode

record ImsDialInfoStruct = DialRequestStruct +
  di_videoState :: int
  di_bEmergencyCall :: bool
  di_bImsCallFirst :: bool
  di_bRoaming :: bool
  di_isRTT :: bool

definition ImsDialInfoStruct_init :: ImsDialInfoStruct where
  "ImsDialInfoStruct_init =
     \<lparr>dr_phoneNum = '''', dr_clirMode = DEFAULT, di_videoState = 0, di_bEmergencyCall = False,
      di_bImsCallFirst = False, di_bRoaming = False, di_isRTT = False\<rparr>"

record MMIData =
  fullString :: string
  actionString :: string
  serviceCode :: string
  serviceInfoA :: string
  serviceInfoB :: string
  serviceInfoC :: string
  pwdString :: string
  dialString :: string

definition MMIData_init :: MMIData where
  "MMIData_init =
     \<lparr>fullString = '''', actionString = '''', serviceCode = '''', serviceInfoA = '''',
      serviceInfoB = '''', serviceInfoC = '''', pwdString = '''', dialString = ''''\<rparr>"

record PostDialData =
  pd_callId :: int
  pd_isIms :: bool

text \<open>Call-manager structures: what is reported upwards and what a request carries. A character-array
  field is the text up to its terminating NUL.\<close>

record CallReportInfo =
  r_accountNum :: string
  r_index :: int
  r_accountId :: int
  r_callType :: CallType
  r_callMode :: VideoStateType
  r_state :: TelCallState
  r_voiceDomain :: int
  r_mpty :: int
  r_name :: string
  r_namePresentation :: int
  r_crsType :: int
  r_originalCallType :: int
  r_newCallUseBox :: int
  r_rttState :: int
  r_rttChannelId :: int
  r_imsDomain :: int
  r_reason :: RilDisconnectedReason
  r_message :: string
  r_isPendingHold :: bool

record CallsReportInfo =
  callVec :: "CallReportInfo list"
  cr_slotId :: int

record CellularCallInfo =
  ci_callId :: int
  ci_phoneNum :: string
  ci_slotId :: int
  ci_accountId :: int
  ci_callType :: CallType
  ci_videoState :: int
  ci_index :: int
  ci_isRTT :: bool

text \<open>Call lists of the modem (\<open>CallInfo\<close>), the IMS service and the satellite service. The size
  field is separate from the vector in the sources, and it is kept separate here.\<close>

record CallInfo =
  c_index :: int
  c_dir :: int
  c_state :: TelCallState
  c_mpty :: int
  c_voiceDomain :: int
  c_number :: string
  c_type :: int
  c_name :: string
  c_namePresentation :: int

record CallInfoList =
  callSize :: int
  calls :: "CallInfo list"

record ImsCurrentCall =
  m_index :: int
  m_dir :: int
  m_state :: TelCallState
  m_mode :: int
  m_mpty :: int
  m_voiceDomain :: int
  m_callType :: ImsCallType
  m_number :: string
  m_name :: string
  m_type :: int
  m_alpha :: string
  m_toa :: int
  m_toneType :: int
  m_callInitialType :: int
  m_namePresentation :: int
  m_newCallUseBox :: int
  m_rttState :: int
  m_rttChannelId :: int
  m_imsDomain :: int

record ImsCurrentCallList =
  m_callSize :: int
  m_flag :: int
  m_calls :: "ImsCurrentCall list"

record SatelliteCurrentCall =
  t_index :: int
  t_dir :: int
  t_state :: TelCallState
  t_mode :: int
  t_mpty :: int
  t_voiceDomain :: int
  t_callType :: int
  t_number :: string
  t_type :: int
  t_alpha :: string
  t_toa :: int

record SatelliteCurrentCallList =
  t_callSize :: int
  t_flag :: int
  t_calls :: "SatelliteCurrentCall list"

record ImsCallInfo =
  ic_phoneNum :: string
  ic_slotId :: int
  ic_videoState :: int
  ic_index :: int
  ic_isRTT :: bool

definition ImsCallInfo_zero :: ImsCallInfo where
  "ImsCallInfo_zero =
     \<lparr>ic_phoneNum = '''', ic_slotId = 0, ic_videoState = 0, ic_index = 0, ic_isRTT = False\<rparr>"

record SatelliteCallInfo =
  sc_phoneNum :: string
  sc_slotId :: int
  sc_index :: int

definition SatelliteCallInfo_zero :: SatelliteCallInfo where
  "SatelliteCallInfo_zero = \<lparr>sc_phoneNum = '''', sc_slotId = 0, sc_index = 0\<rparr>"

definition kMaxNumberLength :: int where
  "kMaxNumberLength = 255"

section \<open>Effects\<close>

text \<open>Requests to the modem (\<^verbatim>\<open>CoreManagerInner\<close>), to the IMS service
  (\<^verbatim>\<open>ImsCallClient\<close>) and to the satellite service (\<^verbatim>\<open>SatelliteCallClient\<close>), then
  every effect an operation can have on its surroundings. Logs and HiSysEvent telemetry are
  left out.\<close>

datatype ril_req =
    RilDial int string CLIRMode
  | RilHangup int int
  | RilSetMute int bool
  | RilAnswer int
  | RilReject int
  | RilHoldCall int
  | RilUnHoldCall int
  | RilSwitchCall int
  | RilCombineConference int int
  | RilSeparateConference int int int
  | RilCallSupplement int CallSupplementType
  | RilSendDTMF int char int
  | RilStartDTMF int char int
  | RilStopDTMF int int
  | RilGetCallList int
  | RilGetCallFailReason int
  | RilUpdateRadioOn int
  | RilSetActiveSim int bool

datatype ims_req =
    ImsDial ImsCallInfo CLIRMode
  | ImsHangUp ImsCallInfo
  | ImsAnswer ImsCallInfo
  | ImsReject ImsCallInfo
  | ImsHoldCall int int bool
  | ImsUnHoldCall int int bool
  | ImsSwitchCall int int bool
  | ImsCombineConference int
  | ImsInviteToConference int "string list"
  | ImsKickOutFromConference int int
  | ImsGetCallsData int int
  | ImsSendDtmf int char int
  | ImsStartDtmf int char int
  | ImsStopDtmf int int
  | ImsUpdateRttCallMode int int int
  | ImsGetLastCallFailReason int

datatype sat_req =
    SatDial SatelliteCallInfo CLIRMode
  | SatHangUp int int
  | SatAnswer int
  | SatReject int
  | SatGetCallsData int int

datatype act =
    Ril ril_req
  | Ims ims_req
  | Sat sat_req
  | ReportCallsInfo CallsReportInfo
  | ReportSingleCallInfo CallReportInfo TelCallState
  | ReportPostDialChar char
  | ReportPostDialDelay string
  | SendMmiEvent int MMIData bool
  | SendPostDialEvent int PostDialData int
  | SetMute int bool
  | SetReadyToCallFlag int bool
  | SetClearCode int RilDisconnectedReason
  | ReportCallFailReason RilDisconnectedReason string
  | SetServiceSrvccState int
  | QueryImsSwitch int
  | NullDeref

text \<open>\<open>NullDeref\<close> marks a dereference of a singleton pointer that the code does not test; a run of the
  program ends there, so a trace says nothing about the code after this mark.\<close>

text \<open>
  The answers of the surrounding system within one operation: which singletons and handlers
  exist, what the IMS and satellite clients return, the zeroed and the default-constructed
  \<^verbatim>\<open>CallReportInfo\<close> (its layout is the call manager's), the integer of a video state.
\<close>

record svc_env =
  e_service :: bool
  e_handler :: "int \<Rightarrow> bool"
  e_register :: bool
  e_cbRegistered :: bool
  e_imsClient :: bool
  e_imsProxy :: bool
  e_imsResult :: "ims_req \<Rightarrow> errcode"
  e_satClient :: bool
  e_satResult :: "sat_req \<Rightarrow> errcode"
  e_zeroReport :: CallReportInfo
  e_defaultReport :: CallReportInfo
  e_videoStateInt :: "VideoStateType \<Rightarrow> int"
  e_kMaxNumberLen :: nat

text \<open>\<^verbatim>\<open>ModuleServiceUtils::NeedCallImsService\<close>\<close>

definition NeedCallImsService :: "'x svc_env_scheme \<Rightarrow> bool" where
  "NeedCallImsService e = (if \<not> e_imsClient e then False else e_imsProxy e)"

text \<open>The modem requests of this code share one prologue: no service instance, or no handler for
  the slot, is \<^verbatim>\<open>CALL_ERR_RESOURCE_UNAVAILABLE\<close>; otherwise the requests are issued.\<close>

definition ril_request :: "'x svc_env_scheme \<Rightarrow> int \<Rightarrow> ril_req list \<Rightarrow> errcode \<times> act list" where
  "ril_request e slotId reqs =
     (if \<not> e_service e then (CALL_ERR_RESOURCE_UNAVAILABLE, [])
      else if \<not> e_handler e slotId then (CALL_ERR_RESOURCE_UNAVAILABLE, [])
      else (TELEPHONY_SUCCESS, map Ril reqs))"

text \<open>Likewise the IMS requests: no IMS service is \<^verbatim>\<open>TELEPHONY_ERROR\<close>, no client is
  \<^verbatim>\<open>CALL_ERR_RESOURCE_UNAVAILABLE\<close>, otherwise the client's result is returned.\<close>

definition ims_client :: "'x svc_env_scheme \<Rightarrow> ims_req \<Rightarrow> errcode \<times> act list" where
  "ims_client e req =
     (if \<not> e_imsClient e then (CALL_ERR_RESOURCE_UNAVAILABLE, [])
      else (e_imsResult e req, [Ims req]))"

definition ims_request :: "'x svc_env_scheme \<Rightarrow> ims_req \<Rightarrow> errcode \<times> act list" where
  "ims_request e req = (if NeedCallImsService e then ims_client e req else (TELEPHONY_ERROR, []))"

definition sat_client :: "'x svc_env_scheme \<Rightarrow> sat_req \<Rightarrow> errcode \<times> act list" where
  "sat_client e req =
     (if \<not> e_satClient e then (CALL_ERR_RESOURCE_UNAVAILABLE, [])
      else (e_satResult e req, [Sat req]))"

text \<open>\<^verbatim>\<open>std::string::c_str\<close> read as a C string: up to the first NUL.\<close>

definition c_str :: "string \<Rightarrow> string" where
  "c_str s = takeWhile (\<lambda>c. c \<noteq> CHR 0x00) s"

lemma c_str_id: "CHR 0x00 \<notin> set s \<Longrightarrow> c_str s = s"
  by (simp add: c_str_def takeWhile_eq_all_conv) blast

lemma length_c_str: "length (c_str s) \<le> length s"
  by (simp add: c_str_def length_takeWhile_le)

text \<open>The part of a trace that is reported to the call manager as a list of calls.\<close>

fun reports :: "act list \<Rightarrow> CallsReportInfo list" where
  "reports [] = []"
| "reports (ReportCallsInfo r # as) = r # reports as"
| "reports (_ # as) = reports as"

lemma reports_append [simp]: "reports (as @ bs) = reports as @ reports bs"
  by (induction as rule: reports.induct) auto

end
