(* ===== verification/Standardize.thy ===== *)
theory Standardize
  imports Types
begin

text \<open>
  \<^verbatim>\<open>services/utils/src/standardize_utils.cpp\<close> and its header: separators of phone numbers,
  the international prefix, the split of a dialled string into network address and post-dial
  part, \<^verbatim>\<open>Split\<close>, and the 64-bit FNV-1a hash by which MMI service codes are dispatched.
\<close>

unbundle bit_operations_syntax

section \<open>Phone numbers\<close>

definition is_address_char :: "char \<Rightarrow> bool" where
  "is_address_char c \<longleftrightarrow> is_digit c \<or> c = CHR ''*'' \<or> c = CHR ''#'' \<or> c = CHR ''+'' \<or> c = CHR ''N''"

definition is_post_dial_mark :: "char \<Rightarrow> bool" where
  "is_post_dial_mark c \<longleftrightarrow> c = CHR '','' \<or> c = CHR '';''"

definition RemoveSeparatorsPhoneNumber :: "string \<Rightarrow> string" where
  "RemoveSeparatorsPhoneNumber phoneString =
     filter (\<lambda>c. is_address_char c \<or> is_post_dial_mark c) phoneString"

definition FormatNumberAndToa :: "string \<Rightarrow> int \<Rightarrow> string" where
  "FormatNumberAndToa phoneNumber callToa =
     (if phoneNumber = [] then phoneNumber
      else if callToa = 145 \<and> hd phoneNumber \<noteq> CHR ''+'' then CHR ''+'' # phoneNumber
      else phoneNumber)"

text \<open>The scan loop: address characters are collected up to the first comma or semicolon, other
  characters are skipped; the tail from that mark on is the post-dial part.\<close>

fun address_scan :: "string \<Rightarrow> string \<times> string" where
  "address_scan [] = ([], [])"
| "address_scan (c # cs) =
     (if is_address_char c then (let (a, p) = address_scan cs in (c # a, p))
      else if is_post_dial_mark c then ([], c # cs)
      else address_scan cs)"

text \<open>Both out-parameters are appended to, as the code does with \<^verbatim>\<open>+=\<close>.\<close>

definition ExtractAddressAndPostDial :: "string \<Rightarrow> string \<Rightarrow> string \<Rightarrow> string \<times> string" where
  "ExtractAddressAndPostDial phoneString networkAddress postDial =
     (let (a, p) = address_scan phoneString in (networkAddress @ a, postDial @ p))"

lemma address_scan_clean:
  "\<forall>c \<in> set s. is_address_char c \<or> is_post_dial_mark c \<Longrightarrow>
   fst (address_scan s) @ snd (address_scan s) = s"
  by (induction s) (auto simp: Let_def case_prod_beta)

lemma address_scan_address: "\<forall>c \<in> set (fst (address_scan s)). is_address_char c"
  by (induction s) (simp_all add: Let_def case_prod_beta)

lemma address_scan_post: "snd (address_scan s) = [] \<or> is_post_dial_mark (hd (snd (address_scan s)))"
  by (induction s) (simp_all add: Let_def case_prod_beta)

lemma address_char_not_mark: "is_address_char c \<Longrightarrow> \<not> is_post_dial_mark c"
  by (auto simp: is_address_char_def is_post_dial_mark_def is_digit_def)

lemma RemoveSeparators_clean:
  "\<forall>c \<in> set (RemoveSeparatorsPhoneNumber s). is_address_char c \<or> is_post_dial_mark c"
  by (simp add: RemoveSeparatorsPhoneNumber_def)

lemma RemoveSeparators_idem [simp]:
  "RemoveSeparatorsPhoneNumber (RemoveSeparatorsPhoneNumber s) = RemoveSeparatorsPhoneNumber s"
  by (simp add: RemoveSeparatorsPhoneNumber_def)

section \<open>Splitting\<close>

text \<open>The loop searches the pattern from \<open>start\<close> on and never ends for an empty pattern, so it
  is a partial function: \<open>None\<close> is a call that does not return. The first argument is the part
  of the string from \<open>start\<close> on.\<close>

partial_function (option) split_loop :: "string \<Rightarrow> string \<Rightarrow> string list \<Rightarrow> string list option"
where
  "split_loop rest flag vec =
     (case find_sub flag rest of
        Some pos \<Rightarrow> split_loop (drop (pos + length flag) rest) flag (vec @ [take pos rest])
      | None \<Rightarrow> Some (if rest \<noteq> [] then vec @ [rest] else vec))"

definition Split :: "string \<Rightarrow> string \<Rightarrow> string list option" where
  "Split str flag = split_loop str flag []"

fun join_with :: "string \<Rightarrow> string list \<Rightarrow> string" where
  "join_with flag [] = []"
| "join_with flag [x] = x"
| "join_with flag (x # y # xs) = x @ flag @ join_with flag (y # xs)"

lemma find_sub_prefix:
  "find_sub flag s = Some pos \<Longrightarrow> s = take pos s @ flag @ drop (pos + length flag) s"
  using find_sub_Some [of flag s pos]
  by (auto simp: starts_with_iff) (metis append_take_drop_id append_eq_conv_conj drop_drop add.commute)

lemma find_sub_take:
  "find_sub flag s = Some pos \<Longrightarrow> flag \<noteq> [] \<Longrightarrow> find_sub flag (take pos s) = None"
proof (induction s arbitrary: pos)
  case (Cons c cs)
  show ?case
  proof (cases "starts_with flag (c # cs)")
    case False
    then obtain p where p: "find_sub flag cs = Some p" "pos = Suc p"
      using Cons.prems by (auto split: if_splits)
    have "\<not> starts_with flag (c # take p cs)"
      using False by (auto simp: starts_with_iff) (metis append.assoc append_Cons append_take_drop_id)
    with p Cons.IH [OF p(1) Cons.prems(2)] show ?thesis by simp
  qed (use Cons.prems in auto)
qed (auto split: if_splits)

text \<open>For a non-empty pattern the loop returns; the pieces it appends contain no occurrence of
  the pattern, and joining them gives the string back, up to one trailing pattern.\<close>

lemma split_loop_correct:
  assumes "flag \<noteq> []"
  shows "\<exists>w. split_loop rest flag vec = Some (vec @ w) \<and> (\<forall>x \<in> set w. find_sub flag x = None) \<and>
    (rest = join_with flag w \<or> w \<noteq> [] \<and> rest = join_with flag w @ flag)"
proof (induction "length rest" arbitrary: rest vec rule: less_induct)
  case less
  show ?case
  proof (cases "find_sub flag rest")
    case None
    then have "split_loop rest flag vec = Some (vec @ (if rest \<noteq> [] then [rest] else []))"
      by (simp add: split_loop.simps)
    with None show ?thesis by (intro exI [of _ "if rest \<noteq> [] then [rest] else []"]) auto
  next
    case (Some pos)
    let ?r = "drop (pos + length flag) rest"
    have eq: "rest = take pos rest @ flag @ ?r" by (rule find_sub_prefix [OF Some])
    have "length ?r < length rest"
      using find_sub_bound [OF Some] assms by (cases flag) auto
    from less [OF this] obtain w where w:
        "split_loop ?r flag (vec @ [take pos rest]) = Some ((vec @ [take pos rest]) @ w)"
        "\<forall>x \<in> set w. find_sub flag x = None"
        "?r = join_with flag w \<or> w \<noteq> [] \<and> ?r = join_with flag w @ flag"
      by blast
    have step: "split_loop rest flag vec = Some (vec @ take pos rest # w)"
      using Some w(1) by (subst split_loop.simps) simp
    have "rest = join_with flag (take pos rest # w) \<or> rest = join_with flag (take pos rest # w) @ flag"
      using w(3) eq by (cases w) auto
    moreover have "find_sub flag (take pos rest) = None"
      by (rule find_sub_take [OF Some assms])
    ultimately show ?thesis
      using step w(2) by (intro exI [of _ "take pos rest # w"]) simp
  qed
qed

section \<open>The hash of a service code\<close>

definition cellular_call_p :: "64 word" where
  "cellular_call_p = 0x100000001B3"

definition cellular_call_b :: "64 word" where
  "cellular_call_b = 0xCBF29CE484222325"

text \<open>Both loops stop at the terminating NUL of the C string. The characters hashed by the code are
  ASCII, so no sign extension of \<^verbatim>\<open>char\<close> takes place.\<close>

fun hash_loop :: "64 word \<Rightarrow> string \<Rightarrow> 64 word" where
  "hash_loop result [] = result"
| "hash_loop result (c # cs) =
     (if c = CHR 0x00 then result else hash_loop ((result XOR of_char c) * cellular_call_p) cs)"

definition Hash :: "string \<Rightarrow> 64 word" where
  "Hash hashStr = hash_loop cellular_call_b hashStr"

fun HashCompileTime :: "string \<Rightarrow> 64 word \<Rightarrow> 64 word" where
  "HashCompileTime [] last_value = last_value"
| "HashCompileTime (c # cs) last_value =
     (if c \<noteq> CHR 0x00 then HashCompileTime cs ((of_char c XOR last_value) * cellular_call_p)
      else last_value)"

lemma HashCompileTime_eq: "HashCompileTime s r = hash_loop r s"
  by (induction s arbitrary: r) (simp_all add: xor.commute)

section \<open>Key classes\<close>

definition IsDtmfKey :: "char \<Rightarrow> bool" where
  "IsDtmfKey c \<longleftrightarrow> is_digit c \<or> c \<in> set ''ABCD'' \<or> c = CHR ''*'' \<or> c = CHR ''#''"

definition IsPauseKey :: "char \<Rightarrow> bool" where
  "IsPauseKey c \<longleftrightarrow> c = CHR '',''"

definition IsWaitKey :: "char \<Rightarrow> bool" where
  "IsWaitKey c \<longleftrightarrow> c = CHR '';''"

section \<open>Properties\<close>

text \<open>Splitting a dialled number loses nothing. For a string without its separators, network address
  and post-dial part (into empty out-parameters) put together give the string back; the address has
  only digits, star, hash, plus and N, and the post-dial part is empty or starts with a comma or
  semicolon.\<close>

theorem ExtractAddressAndPostDial_split:
  "\<exists>a p. ExtractAddressAndPostDial (RemoveSeparatorsPhoneNumber s) [] [] = (a, p) \<and>
     a @ p = RemoveSeparatorsPhoneNumber s \<and> list_all is_address_char a \<and>
     (p = [] \<or> is_post_dial_mark (hd p))"
proof -
  let ?n = "RemoveSeparatorsPhoneNumber s"
  obtain a p where ap: "address_scan ?n = (a, p)" by (metis surj_pair)
  then have "ExtractAddressAndPostDial ?n [] [] = (a, p)" by (simp add: ExtractAddressAndPostDial_def)
  moreover have "a @ p = ?n" using address_scan_clean [of ?n] ap by (simp add: RemoveSeparators_clean)
  moreover have "list_all is_address_char a"
    using address_scan_address [of ?n] ap by (simp add: list_all_iff)
  moreover have "p = [] \<or> is_post_dial_mark (hd p)" using address_scan_post [of ?n] ap by simp
  ultimately show ?thesis by blast
qed

text \<open>\<^verbatim>\<open>Split\<close> returns for every non-empty separator, no piece contains the separator, and joining
  the pieces gives the string back, up to one trailing separator. (For an empty separator the loop of
  the source does not end.)\<close>

theorem Split_pieces:
  assumes "flag \<noteq> []"
  shows "\<exists>w. Split str flag = Some w \<and> (\<forall>x \<in> set w. find_sub flag x = None) \<and>
    (str = join_with flag w \<or> str = join_with flag w @ flag)"
  using split_loop_correct [OF assms, of str "[]"] by (auto simp: Split_def)

theorem Split_pieces_witness:
  "\<exists>w. Split ''110,120,119'' '','' = Some w \<and> (\<forall>x \<in> set w. find_sub '','' x = None) \<and>
    (''110,120,119'' = join_with '','' w \<or> ''110,120,119'' = join_with '','' w @ '','')"
  by (rule Split_pieces) simp

end
