(* ===== verification/Regex.thy ===== *)
theory Regex
  imports Types
begin

text \<open>
  The part of \<^verbatim>\<open>std::regex\<close> (ECMAScript grammar) that the MMI pattern uses: character
  classes, sequence, ordered alternative, greedy option, greedy repetition of a class, and
  numbered capture groups. \<open>rx_run\<close> is a backtracking engine in the order the standard
  prescribes (first alternative first, longest repetition first), with the rest of the pattern as
  a continuation; \<open>regex_match\<close> asks for a match of the whole string.

  \<open>rx_lang\<close> is the declarative reading of the same pattern. The engine is proved sound and
  complete for it, and \<open>star_determinate\<close> removes the backtracking where the next
  character decides.
\<close>

type_synonym caps = "nat \<Rightarrow> string option"

datatype rx =
    Eps
  | Cls "char \<Rightarrow> bool"
  | Star "char \<Rightarrow> bool"
  | Seq rx rx
  | Alt rx rx
  | Opt rx
  | Grp nat rx

fun star_run :: "(char \<Rightarrow> bool) \<Rightarrow> caps \<Rightarrow> string \<Rightarrow> (caps \<Rightarrow> string \<Rightarrow> 'a option) \<Rightarrow> 'a option" where
  "star_run P cs [] k = k cs []"
| "star_run P cs (c # s) k =
     (if P c then (case star_run P cs s k of Some x \<Rightarrow> Some x | None \<Rightarrow> k cs (c # s))
      else k cs (c # s))"

primrec rx_run :: "rx \<Rightarrow> caps \<Rightarrow> string \<Rightarrow> (caps \<Rightarrow> string \<Rightarrow> 'a option) \<Rightarrow> 'a option" where
  "rx_run Eps cs s k = k cs s"
| "rx_run (Cls P) cs s k = (case s of [] \<Rightarrow> None | c # s' \<Rightarrow> if P c then k cs s' else None)"
| "rx_run (Star P) cs s k = star_run P cs s k"
| "rx_run (Seq a b) cs s k = rx_run a cs s (\<lambda>cs' s'. rx_run b cs' s' k)"
| "rx_run (Alt a b) cs s k =
     (case rx_run a cs s k of Some x \<Rightarrow> Some x | None \<Rightarrow> rx_run b cs s k)"
| "rx_run (Opt a) cs s k = (case rx_run a cs s k of Some x \<Rightarrow> Some x | None \<Rightarrow> k cs s)"
| "rx_run (Grp n a) cs s k =
     rx_run a cs s (\<lambda>cs' s'. k (cs'(n \<mapsto> take (length s - length s') s)) s')"

definition regex_match :: "rx \<Rightarrow> string \<Rightarrow> caps option" where
  "regex_match r s = rx_run r Map.empty s (\<lambda>cs rest. if rest = [] then Some cs else None)"

text \<open>\<open>results.str(n)\<close>: the text of a group, empty when the group took no part.\<close>

definition cap_str :: "caps \<Rightarrow> nat \<Rightarrow> string" where
  "cap_str cs n = (case cs n of Some t \<Rightarrow> t | None \<Rightarrow> [])"

section \<open>The declarative reading\<close>

inductive rx_lang :: "rx \<Rightarrow> caps \<Rightarrow> string \<Rightarrow> caps \<Rightarrow> bool" where
  eps: "rx_lang Eps cs [] cs"
| cls: "P c \<Longrightarrow> rx_lang (Cls P) cs [c] cs"
| star: "\<forall>c \<in> set w. P c \<Longrightarrow> rx_lang (Star P) cs w cs"
| seq: "rx_lang a cs u cs' \<Longrightarrow> rx_lang b cs' v cs'' \<Longrightarrow> rx_lang (Seq a b) cs (u @ v) cs''"
| alt1: "rx_lang a cs u cs' \<Longrightarrow> rx_lang (Alt a b) cs u cs'"
| alt2: "rx_lang b cs u cs' \<Longrightarrow> rx_lang (Alt a b) cs u cs'"
| opt1: "rx_lang a cs u cs' \<Longrightarrow> rx_lang (Opt a) cs u cs'"
| opt0: "rx_lang (Opt a) cs [] cs"
| grp: "rx_lang a cs u cs' \<Longrightarrow> rx_lang (Grp n a) cs u (cs'(n \<mapsto> u))"

inductive_simps rx_lang_Eps: "rx_lang Eps cs w cs'"
inductive_simps rx_lang_Cls: "rx_lang (Cls P) cs w cs'"
inductive_simps rx_lang_Star: "rx_lang (Star P) cs w cs'"
inductive_simps rx_lang_Seq: "rx_lang (Seq a b) cs w cs'"
inductive_simps rx_lang_Alt: "rx_lang (Alt a b) cs w cs'"
inductive_simps rx_lang_Opt: "rx_lang (Opt a) cs w cs'"
inductive_simps rx_lang_Grp: "rx_lang (Grp n a) cs w cs'"

lemmas rx_lang_simps =
  rx_lang_Eps rx_lang_Cls rx_lang_Star rx_lang_Seq rx_lang_Alt rx_lang_Opt rx_lang_Grp

lemma star_run_sound:
  "star_run P cs s k = Some x \<Longrightarrow> \<exists>u v. s = u @ v \<and> (\<forall>c \<in> set u. P c) \<and> k cs v = Some x"
proof (induction s)
  case (Cons c s)
  show ?case
  proof (cases "P c \<and> star_run P cs s k = Some x")
    case True
    with Cons.IH obtain u v where "s = u @ v" "\<forall>c \<in> set u. P c" "k cs v = Some x" by blast
    with True show ?thesis by (intro exI [of _ "c # u"] exI [of _ v]) simp
  next
    case False
    with Cons.prems have "k cs (c # s) = Some x" by (auto split: if_splits option.splits)
    then show ?thesis by (intro exI [of _ "[]"] exI [of _ "c # s"]) simp
  qed
qed simp

theorem rx_run_sound:
  "rx_run r cs s k = Some x \<Longrightarrow>
   \<exists>u v cs'. s = u @ v \<and> rx_lang r cs u cs' \<and> k cs' v = Some x"
proof (induction r arbitrary: cs s k)
  case (Cls P)
  then obtain c s' where "s = [c] @ s'" "P c" "k cs s' = Some x"
    by (auto split: list.splits if_splits)
  then show ?case
    by (intro exI [of _ "[c]"] exI [of _ s'] exI [of _ cs]) (simp add: rx_lang_Cls)
next
  case (Star P)
  then have "star_run P cs s k = Some x" by simp
  from star_run_sound [OF this] obtain u v where "s = u @ v" "\<forall>c \<in> set u. P c" "k cs v = Some x"
    by blast
  then show ?case
    by (intro exI [of _ u] exI [of _ v] exI [of _ cs]) (simp add: rx_lang.star)
next
  case (Seq a b)
  from Seq.IH(1) [of cs s "\<lambda>cs' s'. rx_run b cs' s' k"] Seq.prems
  obtain u v cs' where 1: "s = u @ v" "rx_lang a cs u cs'" "rx_run b cs' v k = Some x" by auto
  from Seq.IH(2) [OF 1(3)] obtain u' v' cs'' where
    2: "v = u' @ v'" "rx_lang b cs' u' cs''" "k cs'' v' = Some x" by blast
  from 1 2 show ?case
    by (intro exI [of _ "u @ u'"] exI [of _ v'] exI [of _ cs'']) (simp add: rx_lang.seq)
next
  case (Alt a b)
  show ?case
  proof (cases "rx_run a cs s k")
    case None
    with Alt.prems have "rx_run b cs s k = Some x" by simp
    from Alt.IH(2) [OF this] show ?thesis by (elim exE conjE, intro exI conjI) (assumption | rule rx_lang.alt2)+
  next
    case (Some y)
    with Alt.prems have "rx_run a cs s k = Some x" by simp
    from Alt.IH(1) [OF this] show ?thesis by (elim exE conjE, intro exI conjI) (assumption | rule rx_lang.alt1)+
  qed
next
  case (Opt a)
  show ?case
  proof (cases "rx_run a cs s k")
    case None
    with Opt.prems have "k cs s = Some x" by simp
    then show ?thesis
      by (intro exI [of _ "[]"] exI [of _ s] exI [of _ cs]) (simp add: rx_lang.opt0)
  next
    case (Some y)
    with Opt.prems have "rx_run a cs s k = Some x" by simp
    from Opt.IH [OF this] show ?thesis by (elim exE conjE, intro exI conjI) (assumption | rule rx_lang.opt1)+
  qed
next
  case (Grp n a)
  from Grp.IH [of cs s "\<lambda>cs' s'. k (cs'(n \<mapsto> take (length s - length s') s)) s'"] Grp.prems
  obtain u v cs' where s: "s = u @ v" and a: "rx_lang a cs u cs'"
      and k: "k (cs'(n \<mapsto> take (length s - length v) s)) v = Some x"
    by auto
  from k have "k (cs'(n \<mapsto> u)) v = Some x" by (simp add: s)
  with s rx_lang.grp [OF a, of n] show ?case by blast
qed (simp add: rx_lang_Eps)

lemma star_run_complete:
  "\<forall>c \<in> set u. P c \<Longrightarrow> k cs v \<noteq> None \<Longrightarrow> star_run P cs (u @ v) k \<noteq> None"
proof (induction u)
  case Nil
  then show ?case by (cases v) (auto split: option.splits)
qed (auto split: option.splits)

theorem rx_run_complete:
  "rx_lang r cs u cs' \<Longrightarrow> k cs' v \<noteq> None \<Longrightarrow> rx_run r cs (u @ v) k \<noteq> None"
proof (induction arbitrary: v k rule: rx_lang.induct)
  case (star w P cs)
  then show ?case by (simp only: rx_run.simps) (rule star_run_complete)
next
  case (alt1 a cs u cs' b)
  from alt1.IH [of k v] alt1.prems show ?case by (auto split: option.splits)
next
  case (opt1 a cs u cs')
  from opt1.IH [of k v] opt1.prems show ?case by (auto split: option.splits)
qed (auto split: option.splits simp: append.assoc)

theorem regex_match_iff: "(\<exists>cs. regex_match r s = Some cs) \<longleftrightarrow> (\<exists>cs. rx_lang r Map.empty s cs)"
proof
  assume "\<exists>cs. regex_match r s = Some cs"
  then show "\<exists>cs. rx_lang r Map.empty s cs"
    by (auto simp: regex_match_def dest!: rx_run_sound split: if_splits)
next
  assume "\<exists>cs. rx_lang r Map.empty s cs"
  then show "\<exists>cs. regex_match r s = Some cs"
    using rx_run_complete [of r Map.empty s _ "\<lambda>cs rest. if rest = [] then Some cs else None" "[]"]
    by (auto simp: regex_match_def)
qed

lemma regex_match_lang: "regex_match r s = Some cs \<Longrightarrow> rx_lang r Map.empty s cs"
  by (auto simp: regex_match_def dest!: rx_run_sound split: if_splits)

text \<open>Repetition without backtracking: when what follows cannot start with a character of the
  class, only the longest repetition can succeed.\<close>

lemma star_determinate:
  assumes "\<And>c s. P c \<Longrightarrow> k cs (c # s) = None"
  shows "star_run P cs s k = k cs (dropWhile P s)"
  using assms by (induction s) (auto split: option.splits)

end
