(* ===== verification/MmiCode.thy ===== *)
theory MmiCode
  imports Standardize Regex
begin

text \<open>
  \<^verbatim>\<open>services/utils/src/mmi_code_utils.cpp\<close>: recognition of MMI codes in a dialled string
  (\<^verbatim>\<open>IsNeedExecuteMmi\<close>, \<^verbatim>\<open>RegexMatchMmi\<close>, the short-code rules) and their dispatch to the
  supplementary services by a 64-bit hash (\<^verbatim>\<open>ExecuteMmiCode\<close>).

  Which calls exist in the system is an answer of the environment (\<open>mmi_env\<close>): per slot, the
  number of connections of each control, \<open>None\<close> for a control that does not exist.
\<close>

record mmi_env = svc_env +
  e_maxSimCount :: int
  e_imsConns :: "int \<Rightarrow> nat option"
  e_csConns :: "int \<Rightarrow> nat option"
  e_satConns :: "int \<Rightarrow> nat option"
  e_satFeature :: bool

record MMICodeUtils =
  mmiData :: MMIData
  isNeedUseIms :: bool

definition MMICodeUtils_init :: MMICodeUtils where
  "MMICodeUtils_init = \<lparr>mmiData = MMIData_init, isNeedUseIms = False\<rparr>"

section \<open>The pattern\<close>

abbreviation ch :: "char \<Rightarrow> rx" where
  "ch c \<equiv> Cls (\<lambda>x. x = c)"

definition no_sep :: "char \<Rightarrow> bool" where
  "no_sep c \<longleftrightarrow> c \<noteq> CHR ''*'' \<and> c \<noteq> CHR ''#''"

definition not_newline :: "char \<Rightarrow> bool" where
  "not_newline c \<longleftrightarrow> c \<noteq> CHR 0x0A \<and> c \<noteq> CHR 0x0D"

text \<open>\<^verbatim>\<open>(\*([^*#]*) ... )?\<close>, nested; the list holds the number of each outer group, the inner
  group is the next number.\<close>

fun si_rx :: "nat list \<Rightarrow> rx" where
  "si_rx [] = Eps"
| "si_rx (n # ns) =
     Opt (Grp n (Seq (ch CHR ''*'') (Seq (Grp (Suc n) (Star no_sep)) (si_rx ns))))"

definition action_rx :: rx where
  "action_rx =
     Alt (ch CHR ''*'') (Alt (ch CHR ''#'') (Alt (Seq (ch CHR ''*'') (ch CHR ''#''))
       (Alt (Seq (ch CHR ''*'') (ch CHR ''*'')) (Seq (ch CHR ''#'') (ch CHR ''#'')))))"

definition code_rx :: rx where
  "code_rx = Seq (Cls is_digit) (Seq (Cls is_digit) (Opt (Cls is_digit)))"

definition mmi_pattern :: rx where
  "mmi_pattern =
     Seq (Grp 1 (Seq (Grp 2 action_rx) (Seq (Grp 3 code_rx) (Seq (si_rx [4, 6, 8, 10]) (ch CHR ''#'')))))
       (Grp 12 (Star not_newline))"

definition RegexMatchMmi :: "string \<Rightarrow> MMIData option" where
  "RegexMatchMmi analyseString =
     (case regex_match mmi_pattern analyseString of
        None \<Rightarrow> None
      | Some results \<Rightarrow>
          let d = \<lparr>fullString = cap_str results 1, actionString = cap_str results 2,
                   serviceCode = cap_str results 3, serviceInfoA = cap_str results 5,
                   serviceInfoB = cap_str results 7, serviceInfoC = cap_str results 9,
                   pwdString = cap_str results 11, dialString = cap_str results 12\<rparr>
          in Some (if last analyseString = CHR ''#'' \<and> dialString d \<noteq> [] \<and>
                      last (dialString d) = CHR ''#''
                   then d\<lparr>fullString := analyseString\<rparr> else d))"

section \<open>Recognition\<close>

definition HasCellularCallExist :: "'x mmi_env_scheme \<Rightarrow> bool" where
  "HasCellularCallExist e =
     (if e_maxSimCount e = 0 then False
      else if \<not> e_service e then False
      else list_ex (\<lambda>i.
        (case e_imsConns e i of Some n \<Rightarrow> n \<noteq> 0 | None \<Rightarrow> False) \<or>
        (case e_csConns e i of Some n \<Rightarrow> n \<noteq> 0 | None \<Rightarrow> False) \<or>
        (e_satFeature e \<and> (case e_satConns e i of Some n \<Rightarrow> n \<noteq> 0 | None \<Rightarrow> False)))
        [0..e_maxSimCount e - 1])"

text \<open>Reading one past the last character of a \<^verbatim>\<open>std::string\<close> gives NUL, which is no digit.\<close>

definition char_at :: "string \<Rightarrow> nat \<Rightarrow> char" where
  "char_at s i = (if i < length s then s ! i else CHR 0x00)"

definition IsShortCodeWithoutCellularCall :: "string \<Rightarrow> bool" where
  "IsShortCodeWithoutCellularCall s =
     (if length s > 2 then False
      else if char_at s 0 = CHR ''1'' \<and> is_digit (char_at s 1) then False
      else True)"

definition IsShortCodeWithCellularCall :: "string \<Rightarrow> bool" where
  "IsShortCodeWithCellularCall s = (if length s < 1 \<or> length s > 2 then False else True)"

definition IsShortCode :: "'x mmi_env_scheme \<Rightarrow> string \<Rightarrow> bool" where
  "IsShortCode e s =
     (if HasCellularCallExist e then IsShortCodeWithCellularCall s
      else IsShortCodeWithoutCellularCall s)"

definition IsNeedExecuteMmi ::
    "'x mmi_env_scheme \<Rightarrow> MMICodeUtils \<Rightarrow> string \<Rightarrow> bool \<Rightarrow> bool \<times> MMICodeUtils" where
  "IsNeedExecuteMmi e u0 analyseString needIms =
     (let u = u0\<lparr>isNeedUseIms := needIms\<rparr> in
      if analyseString = [] then (False, u)
      else if IsShortCode e analyseString
        then (True, u\<lparr>mmiData := (mmiData u)\<lparr>fullString := analyseString\<rparr>\<rparr>)
      else case RegexMatchMmi analyseString of
        Some d \<Rightarrow> (True, u\<lparr>mmiData := d\<rparr>)
      | None \<Rightarrow>
          if (hd analyseString = CHR ''*'' \<or> hd analyseString = CHR ''#'') \<and>
             last analyseString = CHR ''#''
          then (True, u\<lparr>mmiData := (mmiData u)\<lparr>fullString := analyseString\<rparr>\<rparr>)
          else (False, u))"

section \<open>Dispatch\<close>

datatype SuppHandler =
    HandleCallTransfer
  | HandleCallRestriction
  | HandleClip
  | HandleClir
  | AlterPinPassword
  | UnlockPuk
  | AlterPin2Password
  | UnlockPuk2
  | HandleCallWaiting
  | HandleColp
  | HandleColr

datatype SuppCall = SuppCall SuppHandler int MMIData | SendUssd int string

definition InitCallTransferMmiCodeFunc :: "(string \<times> SuppHandler) list" where
  "InitCallTransferMmiCodeFunc =
     map (\<lambda>c. (c, HandleCallTransfer)) [''21'', ''61'', ''62'', ''67'', ''002'', ''004'']"

definition InitCallRestrictionCodeFunc :: "(string \<times> SuppHandler) list" where
  "InitCallRestrictionCodeFunc =
     map (\<lambda>c. (c, HandleCallRestriction))
       [''33'', ''330'', ''331'', ''332'', ''333'', ''35'', ''351'', ''353'']"

definition InitAdditionalMmiCodeFunc :: "(string \<times> SuppHandler) list" where
  "InitAdditionalMmiCodeFunc =
     [(''30'', HandleClip), (''31'', HandleClir), (''04'', AlterPinPassword), (''05'', UnlockPuk),
      (''042'', AlterPin2Password), (''052'', UnlockPuk2), (''43'', HandleCallWaiting)]"

definition InitImsMmiCodeFunc :: "(string \<times> SuppHandler) list" where
  "InitImsMmiCodeFunc = [(''76'', HandleColp), (''77'', HandleColr)]"

definition mmi_table :: "bool \<Rightarrow> (string \<times> SuppHandler) list" where
  "mmi_table needIms =
     InitCallTransferMmiCodeFunc @ InitCallRestrictionCodeFunc @ InitAdditionalMmiCodeFunc @
     (if needIms then InitImsMmiCodeFunc else [])"

text \<open>\<^verbatim>\<open>mmiCodeFunc["21"_hash] = ...\<close>: the map is keyed by the hash, a later entry with the same
  hash replaces an earlier one.\<close>

definition hashed :: "(string \<times> 'h) list \<Rightarrow> 64 word \<Rightarrow> 'h option" where
  "hashed tab = fold (\<lambda>(c, h) m. m(HashCompileTime c cellular_call_b \<mapsto> h)) tab Map.empty"

definition ExecuteMmiCode :: "MMICodeUtils \<Rightarrow> int \<Rightarrow> bool \<times> SuppCall option" where
  "ExecuteMmiCode u slotId =
     (let d = mmiData u; h = Hash (serviceCode d);
          ussd = (if fullString d \<noteq> [] then (True, Some (SendUssd slotId (fullString d)))
                  else (False, None))
      in if serviceCode d \<noteq> [] then
           if h = HashCompileTime ''03'' cellular_call_b then (True, None)
           else (case hashed (mmi_table (isNeedUseIms u)) h of
                   Some f \<Rightarrow> (True, Some (SuppCall f slotId d))
                 | None \<Rightarrow> ussd)
         else ussd)"

end
