(* ===== verification/MmiHash.thy ===== *)
theory MmiHash
  imports MmiCode
begin

text \<open>
  The dispatch of service codes by hash is a dispatch by code: the 64-bit FNV-1a hash of
  \<^verbatim>\<open>StandardizeUtils\<close> is injective on strings of two or three digits, so no code reaches the
  handler of another one. The argument is arithmetic: xor with a digit moves a word by at most
  63, the multiplier is odd and of the form \<open>2^40 + 435\<close>, so equal hashes give a bounded
  integer equation with a single solution.
\<close>

unbundle bit_operations_syntax

section \<open>Xor with a small word\<close>

lemma xor_plus_and: "(x XOR y) + (x AND y) = x OR y" for x y :: "64 word"
proof -
  have "((x XOR y) AND (x AND y)) + ((x XOR y) OR (x AND y)) = (x XOR y) + (x AND y)"
    by (rule word_plus_and_or)
  moreover have "(x XOR y) AND (x AND y) = 0"
    by (rule bit_eqI) (auto simp: bit_simps)
  moreover have "(x XOR y) OR (x AND y) = x OR y"
    by (rule bit_eqI) (auto simp: bit_simps)
  ultimately show ?thesis by simp
qed

lemma xor_arith: "x XOR y = x + y - 2 * (x AND y)" for x y :: "64 word"
proof -
  have "x + y = (x AND y) + ((x XOR y) + (x AND y))"
    by (simp only: xor_plus_and word_plus_and_or)
  then show ?thesis by (simp only: mult_2) (simp add: algebra_simps)
qed

lemma xor_small:
  fixes x y :: "64 word"
  assumes "uint y < 64"
  obtains k :: int where "- 63 \<le> k" "k \<le> 63" "x XOR y = x + of_int k"
proof
  let ?k = "uint y - 2 * uint (x AND y)"
  have "uint (x AND y) \<le> uint y"
    by (metis word_and_le1 word_le_def)
  then show "- 63 \<le> ?k" "?k \<le> 63"
    using assms uint_ge_0 [of "x AND y"] by linarith+
  show "x XOR y = x + of_int ?k"
    by (simp add: xor_arith)
qed

section \<open>Equations between hashes\<close>

lemma word_eq_of_int:
  "(of_int a :: 64 word) = of_int b \<longleftrightarrow> (2 ^ 64 :: int) dvd a - b"
proof -
  have "(of_int a :: 64 word) = of_int b \<longleftrightarrow> take_bit 64 a = take_bit 64 b"
    by (simp add: word_of_int_eq_iff)
  then show ?thesis by (simp only: take_bit_eq_mod mod_eq_dvd_iff)
qed

lemma p_inverse: "x * cellular_call_p * 0xCE965057AFF6957B = x"
proof -
  have "cellular_call_p * 0xCE965057AFF6957B = 1"
    by (simp add: cellular_call_p_def)
  then show ?thesis by (simp only: mult.assoc mult_1_right)
qed

lemma p_cancel:
  assumes "x * cellular_call_p = y * cellular_call_p"
  shows "x = y"
proof -
  have "x = x * cellular_call_p * 0xCE965057AFF6957B" by (rule p_inverse [symmetric])
  also have "\<dots> = y * cellular_call_p * 0xCE965057AFF6957B" by (simp only: assms)
  also have "\<dots> = y" by (rule p_inverse)
  finally show ?thesis .
qed

lemma digit_small: "is_digit c \<Longrightarrow> uint (of_char c :: 64 word) < 64"
  by (auto simp: is_digit_def)

lemma digit_word_inj:
  assumes "(of_char c :: 64 word) = of_char d"
  shows "c = d"
proof -
  have *: "unat (of_char a :: 64 word) = of_char a" for a
  proof -
    have "(of_char a :: nat) < 256" by (rule nat_of_char_less_256)
    also have "(256 :: nat) \<le> 2 ^ LENGTH(64)" by simp
    finally have "unat (of_nat (of_char a) :: 64 word) = of_char a"
      by (simp only: unat_of_nat mod_less)
    then show ?thesis by (simp only: of_nat_of_char)
  qed
  have "(of_char c :: nat) = unat (of_char c :: 64 word)" by (rule * [symmetric])
  also have "\<dots> = unat (of_char d :: 64 word)" by (simp only: assms)
  also have "\<dots> = of_char d" by (rule *)
  finally show ?thesis by (rule of_char_eq_iff [THEN iffD1])
qed

lemma digit_not_nul: "is_digit c \<Longrightarrow> c \<noteq> CHR 0x00"
  by (auto simp: is_digit_def)

lemma xor_left_cancel:
  assumes "x XOR y = x XOR z"
  shows "y = (z :: 64 word)"
proof -
  from assms have "x XOR (x XOR y) = x XOR (x XOR z)" by (simp only:)
  then show ?thesis by (simp add: xor.assoc [symmetric] del: xor.assoc)
qed

section \<open>Injectivity on digit codes\<close>

text \<open>The state after a digit, as an integer polynomial in the (bounded) displacements.\<close>

lemma hash_digit_step:
  assumes "is_digit c"
  obtains k :: int where "- 63 \<le> k" "k \<le> 63"
    "of_int r XOR of_char c = (of_int (r + k) :: 64 word)"
proof -
  obtain k :: int where "- 63 \<le> k" "k \<le> 63" "(of_int r :: 64 word) XOR of_char c = of_int r + of_int k"
    using xor_small [OF digit_small [OF assms]] by blast
  with that show thesis by simp
qed

lemma dvd_small_zero: "(2 ^ 64 :: int) dvd n \<Longrightarrow> \<bar>n\<bar> < 2 ^ 64 \<Longrightarrow> n = 0"
  using zdvd_imp_le [of "2 ^ 64" "\<bar>n\<bar>"] by (cases "n = 0") auto

abbreviation fnv_basis :: int where "fnv_basis \<equiv> 14695981039346656037"

abbreviation fnv_mul :: int where "fnv_mul \<equiv> 1099511628211"

lemma b_int: "cellular_call_b = of_int fnv_basis"
  by (simp add: cellular_call_b_def)

lemma p_int: "cellular_call_p = of_int fnv_mul"
  by (simp add: cellular_call_p_def)

lemma hash2_form:
  assumes "is_digit c1" "is_digit c2"
  obtains k1 k2 :: int where "\<bar>k1\<bar> \<le> 63" "\<bar>k2\<bar> \<le> 63"
    "of_int fnv_basis XOR of_char c1 = (of_int (fnv_basis + k1) :: 64 word)"
    "of_int ((fnv_basis + k1) * fnv_mul) XOR of_char c2 = (of_int ((fnv_basis + k1) * fnv_mul + k2) :: 64 word)"
    "hash_loop cellular_call_b (c1 # c2 # cs) =
       hash_loop (of_int ((fnv_basis + k1) * fnv_mul + k2) * cellular_call_p) cs"
proof -
  obtain k1 where k1: "- 63 \<le> k1" "k1 \<le> 63" "of_int fnv_basis XOR of_char c1 = (of_int (fnv_basis + k1) :: 64 word)"
    by (rule hash_digit_step [OF assms(1), of fnv_basis])
  obtain k2 where k2: "- 63 \<le> k2" "k2 \<le> 63"
      "of_int ((fnv_basis + k1) * fnv_mul) XOR of_char c2 = (of_int ((fnv_basis + k1) * fnv_mul + k2) :: 64 word)"
    by (rule hash_digit_step [OF assms(2), of "(fnv_basis + k1) * fnv_mul"])
  have "(of_int (fnv_basis + k1) :: 64 word) * cellular_call_p = of_int ((fnv_basis + k1) * fnv_mul)"
    by (simp only: p_int of_int_mult)
  then have "hash_loop cellular_call_b (c1 # c2 # cs) =
      hash_loop (of_int ((fnv_basis + k1) * fnv_mul + k2) * cellular_call_p) cs"
    by (simp only: hash_loop.simps b_int k1(3) k2(3) digit_not_nul [OF assms(1)]
        digit_not_nul [OF assms(2)] if_False)
  moreover have "\<bar>k1\<bar> \<le> 63" "\<bar>k2\<bar> \<le> 63" using k1(1,2) k2(1,2) by linarith+
  ultimately show thesis using that k1(3) k2(3) by blast
qed

lemma hash2_Hash:
  assumes "hash_loop cellular_call_b [c1, c2] = hash_loop (r * cellular_call_p) []"
  shows "Hash [c1, c2] = r * cellular_call_p"
proof -
  have "hash_loop (r * cellular_call_p) [] = r * cellular_call_p" by (rule hash_loop.simps(1))
  with assms show ?thesis by (simp only: Hash_def)
qed

lemma hash3_form:
  assumes "is_digit c1" "is_digit c2" "is_digit c3"
  obtains k1 k2 k3 :: int where "\<bar>k1\<bar> \<le> 63" "\<bar>k2\<bar> \<le> 63" "\<bar>k3\<bar> \<le> 63"
    "of_int fnv_basis XOR of_char c1 = (of_int (fnv_basis + k1) :: 64 word)"
    "of_int ((fnv_basis + k1) * fnv_mul) XOR of_char c2 = (of_int ((fnv_basis + k1) * fnv_mul + k2) :: 64 word)"
    "of_int (((fnv_basis + k1) * fnv_mul + k2) * fnv_mul) XOR of_char c3 = (of_int (((fnv_basis + k1) * fnv_mul + k2) * fnv_mul + k3) :: 64 word)"
    "Hash [c1, c2, c3] = of_int (((fnv_basis + k1) * fnv_mul + k2) * fnv_mul + k3) * cellular_call_p"
proof -
  obtain k1 k2 where k: "\<bar>k1\<bar> \<le> 63" "\<bar>k2\<bar> \<le> 63"
    "of_int fnv_basis XOR of_char c1 = (of_int (fnv_basis + k1) :: 64 word)"
    "of_int ((fnv_basis + k1) * fnv_mul) XOR of_char c2 = (of_int ((fnv_basis + k1) * fnv_mul + k2) :: 64 word)"
    "hash_loop cellular_call_b [c1, c2, c3] =
       hash_loop (of_int ((fnv_basis + k1) * fnv_mul + k2) * cellular_call_p) [c3]"
    by (rule hash2_form [OF assms(1,2), of "[c3]"])
  obtain k3 where k3: "- 63 \<le> k3" "k3 \<le> 63"
      "of_int (((fnv_basis + k1) * fnv_mul + k2) * fnv_mul) XOR of_char c3 = (of_int (((fnv_basis + k1) * fnv_mul + k2) * fnv_mul + k3) :: 64 word)"
    by (rule hash_digit_step [OF assms(3), of "((fnv_basis + k1) * fnv_mul + k2) * fnv_mul"])
  have "(of_int ((fnv_basis + k1) * fnv_mul + k2) :: 64 word) * cellular_call_p = of_int (((fnv_basis + k1) * fnv_mul + k2) * fnv_mul)"
    by (simp only: p_int of_int_mult)
  then have "hash_loop (of_int ((fnv_basis + k1) * fnv_mul + k2) * cellular_call_p) [c3] =
      of_int (((fnv_basis + k1) * fnv_mul + k2) * fnv_mul + k3) * cellular_call_p"
    by (simp only: hash_loop.simps k3(3) digit_not_nul [OF assms(3)] if_False)
  then have "Hash [c1, c2, c3] = of_int (((fnv_basis + k1) * fnv_mul + k2) * fnv_mul + k3) * cellular_call_p"
    by (simp only: Hash_def k(5))
  moreover have "\<bar>k3\<bar> \<le> 63" using k3(1,2) by linarith
  ultimately show thesis using that k(1-4) k3(3) by blast
qed

text \<open>The integer equations. Modulo \<open>2^64\<close>, \<open>fnv_mul * fnv_mul\<close> is \<open>870 * fnv_mul - 189225\<close>, so every
  polynomial with small coefficients stays far below \<open>2^64\<close>.\<close>

lemma small_digit:
  fixes d e :: int
  assumes "d * fnv_mul + e = 0" "\<bar>e\<bar> < fnv_mul"
  shows "d = 0 \<and> e = 0"
proof -
  have "d = 0" using assms by (cases d "0 :: int" rule: linorder_cases) simp_all
  with assms(1) show ?thesis by simp
qed

lemma small_eq2:
  assumes "(2 ^ 64 :: int) dvd ((fnv_basis + k1) * fnv_mul + k2) - ((fnv_basis + l1) * fnv_mul + l2)"
    and "\<bar>k1\<bar> \<le> 63" "\<bar>k2\<bar> \<le> 63" "\<bar>l1\<bar> \<le> 63" "\<bar>l2\<bar> \<le> 63"
  shows "k1 = l1 \<and> k2 = l2"
proof -
  have "((fnv_basis + k1) * fnv_mul + k2) - ((fnv_basis + l1) * fnv_mul + l2) = (k1 - l1) * fnv_mul + (k2 - l2)"
    by (simp add: algebra_simps)
  with assms(1) have "(2 ^ 64 :: int) dvd (k1 - l1) * fnv_mul + (k2 - l2)" by (simp only:)
  moreover have "\<bar>(k1 - l1) * fnv_mul + (k2 - l2)\<bar> < 2 ^ 64" using assms(2-5) by simp
  ultimately have "(k1 - l1) * fnv_mul + (k2 - l2) = 0" by (rule dvd_small_zero)
  moreover have "\<bar>k2 - l2\<bar> < fnv_mul" using assms(3,5) by simp
  ultimately have "k1 - l1 = 0 \<and> k2 - l2 = 0" by (rule small_digit)
  then show ?thesis by simp
qed

lemma small_eq3:
  assumes "(2 ^ 64 :: int) dvd (((fnv_basis + k1) * fnv_mul + k2) * fnv_mul + k3) - (((fnv_basis + l1) * fnv_mul + l2) * fnv_mul + l3)"
    and "\<bar>k1\<bar> \<le> 63" "\<bar>k2\<bar> \<le> 63" "\<bar>k3\<bar> \<le> 63" "\<bar>l1\<bar> \<le> 63" "\<bar>l2\<bar> \<le> 63" "\<bar>l3\<bar> \<le> 63"
  shows "k1 = l1 \<and> k2 = l2 \<and> k3 = l3"
proof -
  let ?n = "(k1 - l1) * 956575116354345 + (k2 - l2) * fnv_mul + (k3 - l3)"
  have "(((fnv_basis + k1) * fnv_mul + k2) * fnv_mul + k3) - (((fnv_basis + l1) * fnv_mul + l2) * fnv_mul + l3) =
      ?n + (k1 - l1) * 65536 * 2 ^ 64"
    by (simp add: algebra_simps)
  with assms(1) have "(2 ^ 64 :: int) dvd ?n + (k1 - l1) * 65536 * 2 ^ 64" by (simp only:)
  then have "(2 ^ 64 :: int) dvd ?n"
    by (simp only: dvd_add_left_iff dvd_triv_right)
  moreover have "\<bar>?n\<bar> < 2 ^ 64" using assms(2-7) by simp
  ultimately have "?n = 0" by (rule dvd_small_zero)
  moreover have "?n = (870 * (k1 - l1) + (k2 - l2)) * fnv_mul + ((k3 - l3) - 189225 * (k1 - l1))"
    by (simp add: algebra_simps)
  ultimately have z: "(870 * (k1 - l1) + (k2 - l2)) * fnv_mul + ((k3 - l3) - 189225 * (k1 - l1)) = 0"
    by simp
  have "\<bar>(k3 - l3) - 189225 * (k1 - l1)\<bar> < fnv_mul" using assms(2-7) by simp
  with z have eq: "870 * (k1 - l1) + (k2 - l2) = 0 \<and> (k3 - l3) - 189225 * (k1 - l1) = 0"
    by (rule small_digit)
  from eq [THEN conjunct1] have "k1 = l1"
    using assms(3,6) by (cases k1 l1 rule: linorder_cases) simp_all
  with eq show ?thesis by simp
qed

lemma small_eq23:
  assumes "\<bar>k1\<bar> \<le> 63" "\<bar>k2\<bar> \<le> 63" "\<bar>l1\<bar> \<le> 63" "\<bar>l2\<bar> \<le> 63" "\<bar>l3\<bar> \<le> 63"
  shows "\<not> (2 ^ 64 :: int) dvd ((fnv_basis + k1) * fnv_mul + k2) - (((fnv_basis + l1) * fnv_mul + l2) * fnv_mul + l3)"
proof
  let ?N = "- 6399275025834817550 :: int"
  let ?n = "?N + k1 * fnv_mul + k2 - l1 * 956575116354345 - l2 * fnv_mul - l3"
  let ?q = "(fnv_basis * fnv_mul - fnv_basis * fnv_mul * fnv_mul - ?N) div 2 ^ 64"
  assume "(2 ^ 64 :: int) dvd ((fnv_basis + k1) * fnv_mul + k2) - (((fnv_basis + l1) * fnv_mul + l2) * fnv_mul + l3)"
  moreover have "((fnv_basis + k1) * fnv_mul + k2) - (((fnv_basis + l1) * fnv_mul + l2) * fnv_mul + l3) =
      ?n + (?q - l1 * 65536) * 2 ^ 64"
    by (simp add: algebra_simps)
  ultimately have "(2 ^ 64 :: int) dvd ?n + (?q - l1 * 65536) * 2 ^ 64" by (simp only:)
  then have "(2 ^ 64 :: int) dvd ?n"
    by (simp only: dvd_add_left_iff dvd_triv_right)
  moreover have "\<bar>?n\<bar> < 2 ^ 64" using assms by simp
  ultimately have "?n = 0" by (rule dvd_small_zero)
  with assms show False by linarith
qed

definition digit_code :: "string \<Rightarrow> bool" where
  "digit_code s \<longleftrightarrow> (length s = 2 \<or> length s = 3) \<and> list_all is_digit s"

lemma digit_code_cases:
  assumes "digit_code s"
  obtains (two) a b where "s = [a, b]" "is_digit a" "is_digit b"
    | (three) a b c where "s = [a, b, c]" "is_digit a" "is_digit b" "is_digit c"
  using assms by (auto simp: digit_code_def length_Suc_conv numeral_2_eq_2 numeral_3_eq_3)

lemma hash_inj22:
  assumes "is_digit a" "is_digit b" "is_digit c" "is_digit d" "Hash [a, b] = Hash [c, d]"
  shows "[a, b] = [c, d]"
proof -
  obtain k1 k2 where k: "\<bar>k1\<bar> \<le> 63" "\<bar>k2\<bar> \<le> 63"
    "of_int fnv_basis XOR of_char a = (of_int (fnv_basis + k1) :: 64 word)"
    "of_int ((fnv_basis + k1) * fnv_mul) XOR of_char b = (of_int ((fnv_basis + k1) * fnv_mul + k2) :: 64 word)"
    "hash_loop cellular_call_b [a, b] = hash_loop (of_int ((fnv_basis + k1) * fnv_mul + k2) * cellular_call_p) []"
    by (rule hash2_form [OF assms(1,2), of "[]"])
  obtain l1 l2 where l: "\<bar>l1\<bar> \<le> 63" "\<bar>l2\<bar> \<le> 63"
    "of_int fnv_basis XOR of_char c = (of_int (fnv_basis + l1) :: 64 word)"
    "of_int ((fnv_basis + l1) * fnv_mul) XOR of_char d = (of_int ((fnv_basis + l1) * fnv_mul + l2) :: 64 word)"
    "hash_loop cellular_call_b [c, d] = hash_loop (of_int ((fnv_basis + l1) * fnv_mul + l2) * cellular_call_p) []"
    by (rule hash2_form [OF assms(3,4), of "[]"])
  from assms(5) have "of_int ((fnv_basis + k1) * fnv_mul + k2) * cellular_call_p =
      of_int ((fnv_basis + l1) * fnv_mul + l2) * cellular_call_p"
    by (simp only: k(5) [THEN hash2_Hash] l(5) [THEN hash2_Hash])
  then have "k1 = l1 \<and> k2 = l2"
    using small_eq2 k(1,2) l(1,2) by (blast dest: p_cancel word_eq_of_int [THEN iffD1])
  with k(3,4) l(3,4) show ?thesis by (metis xor_left_cancel digit_word_inj)
qed

lemma hash_inj33:
  assumes "is_digit a" "is_digit b" "is_digit c" "is_digit a'" "is_digit b'" "is_digit c'"
    and "Hash [a, b, c] = Hash [a', b', c']"
  shows "[a, b, c] = [a', b', c']"
proof -
  obtain k1 k2 k3 where k: "\<bar>k1\<bar> \<le> 63" "\<bar>k2\<bar> \<le> 63" "\<bar>k3\<bar> \<le> 63"
    "of_int fnv_basis XOR of_char a = (of_int (fnv_basis + k1) :: 64 word)"
    "of_int ((fnv_basis + k1) * fnv_mul) XOR of_char b = (of_int ((fnv_basis + k1) * fnv_mul + k2) :: 64 word)"
    "of_int (((fnv_basis + k1) * fnv_mul + k2) * fnv_mul) XOR of_char c = (of_int (((fnv_basis + k1) * fnv_mul + k2) * fnv_mul + k3) :: 64 word)"
    "Hash [a, b, c] = of_int (((fnv_basis + k1) * fnv_mul + k2) * fnv_mul + k3) * cellular_call_p"
    by (rule hash3_form [OF assms(1-3)])
  obtain l1 l2 l3 where l: "\<bar>l1\<bar> \<le> 63" "\<bar>l2\<bar> \<le> 63" "\<bar>l3\<bar> \<le> 63"
    "of_int fnv_basis XOR of_char a' = (of_int (fnv_basis + l1) :: 64 word)"
    "of_int ((fnv_basis + l1) * fnv_mul) XOR of_char b' = (of_int ((fnv_basis + l1) * fnv_mul + l2) :: 64 word)"
    "of_int (((fnv_basis + l1) * fnv_mul + l2) * fnv_mul) XOR of_char c' = (of_int (((fnv_basis + l1) * fnv_mul + l2) * fnv_mul + l3) :: 64 word)"
    "Hash [a', b', c'] = of_int (((fnv_basis + l1) * fnv_mul + l2) * fnv_mul + l3) * cellular_call_p"
    by (rule hash3_form [OF assms(4-6)])
  from assms(7) have "of_int (((fnv_basis + k1) * fnv_mul + k2) * fnv_mul + k3) * cellular_call_p =
      of_int (((fnv_basis + l1) * fnv_mul + l2) * fnv_mul + l3) * cellular_call_p"
    by (simp only: k(7) l(7))
  then have "k1 = l1 \<and> k2 = l2 \<and> k3 = l3"
    using small_eq3 k(1-3) l(1-3) by (blast dest: p_cancel word_eq_of_int [THEN iffD1])
  with k(4-6) l(4-6) show ?thesis by (metis xor_left_cancel digit_word_inj)
qed

lemma hash_differs23:
  assumes "is_digit a" "is_digit b" "is_digit a'" "is_digit b'" "is_digit c'"
  shows "Hash [a, b] \<noteq> Hash [a', b', c']"
proof
  assume eq: "Hash [a, b] = Hash [a', b', c']"
  obtain k1 k2 where k: "\<bar>k1\<bar> \<le> 63" "\<bar>k2\<bar> \<le> 63"
    "hash_loop cellular_call_b [a, b] = hash_loop (of_int ((fnv_basis + k1) * fnv_mul + k2) * cellular_call_p) []"
    by (rule hash2_form [OF assms(1,2), of "[]"])
  obtain l1 l2 l3 where l: "\<bar>l1\<bar> \<le> 63" "\<bar>l2\<bar> \<le> 63" "\<bar>l3\<bar> \<le> 63"
    "Hash [a', b', c'] = of_int (((fnv_basis + l1) * fnv_mul + l2) * fnv_mul + l3) * cellular_call_p"
    by (rule hash3_form [OF assms(3-5)])
  from eq have "of_int ((fnv_basis + k1) * fnv_mul + k2) * cellular_call_p =
      of_int (((fnv_basis + l1) * fnv_mul + l2) * fnv_mul + l3) * cellular_call_p"
    by (simp only: k(3) [THEN hash2_Hash] l(4))
  then show False
    using small_eq23 [OF k(1,2) l(1-3)] by (blast dest: p_cancel word_eq_of_int [THEN iffD1])
qed

lemma Hash_inj_digit_code:
  assumes "digit_code s" "digit_code t" "Hash s = Hash t"
  shows "s = t"
  using assms(1)
proof (cases s rule: digit_code_cases)
  case s: (two a b)
  show ?thesis using assms(2)
    by (cases t rule: digit_code_cases) (use assms(3) s hash_inj22 hash_differs23 in \<open>blast+\<close>)
next
  case s: (three a b c)
  show ?thesis using assms(2)
    by (cases t rule: digit_code_cases) (use assms(3) s hash_inj33 hash_differs23 in \<open>metis+\<close>)
qed

section \<open>The dispatch table\<close>

lemma hashed_fold:
  assumes "\<forall>(c, h) \<in> set tab. digit_code c" "digit_code s"
  shows "fold (\<lambda>(c, h) m. m(HashCompileTime c cellular_call_b \<mapsto> h)) tab m0 (Hash s) =
    (case map_of (rev tab) s of Some h \<Rightarrow> Some h | None \<Rightarrow> m0 (Hash s))"
  using assms(1)
proof (induction tab arbitrary: m0)
  case (Cons ch tab)
  obtain c h where ch: "ch = (c, h)" by (cases ch)
  have "Hash s = Hash c \<longleftrightarrow> s = c"
    using Hash_inj_digit_code [OF assms(2), of c] Cons.prems ch by auto
  with Cons ch show ?case
    by (auto simp: HashCompileTime_eq Hash_def map_add_def split: option.splits)
qed simp

lemma mmi_table_codes: "\<forall>(c, h) \<in> set (mmi_table needIms). digit_code c"
  by (cases needIms) (simp_all add: mmi_table_def InitCallTransferMmiCodeFunc_def
      InitCallRestrictionCodeFunc_def InitAdditionalMmiCodeFunc_def InitImsMmiCodeFunc_def digit_code_def is_digit_def)

lemma mmi_table_distinct: "distinct (map fst (mmi_table needIms))"
  by (cases needIms) (simp_all add: mmi_table_def InitCallTransferMmiCodeFunc_def
      InitCallRestrictionCodeFunc_def InitAdditionalMmiCodeFunc_def InitImsMmiCodeFunc_def)

lemma hashed_mmi_table:
  assumes "digit_code s"
  shows "hashed (mmi_table needIms) (Hash s) = map_of (mmi_table needIms) s"
proof -
  have "map_of (rev (mmi_table needIms)) = map_of (mmi_table needIms)"
    by (rule map_of_inject_set [THEN iffD2]) (simp_all add: mmi_table_distinct rev_map [symmetric])
  then show ?thesis
    by (simp add: hashed_def hashed_fold [OF mmi_table_codes assms] split: option.splits)
qed

end
