(* ===== verification/MmiSyntax.thy ===== *)
theory MmiSyntax
  imports MmiHash
begin

text \<open>
  The MMI string format that \<^verbatim>\<open>RegexMatchMmi\<close> accepts (3GPP TS 22.030, 6.5.2), as a printer
  \<open>mmi_print\<close> over action, service code, up to four information fields and a trailing dial
  string, and the proof that matching is exactly the inverse of printing: every well-formed string
  is recognised with its own fields, and nothing else is recognised.
\<close>

section \<open>Printing\<close>

definition is_action :: "string \<Rightarrow> bool" where
  "is_action a \<longleftrightarrow> a \<in> set [''*'', ''#'', ''*#'', ''**'', ''##'']"

fun si_print :: "string list \<Rightarrow> string" where
  "si_print [] = []"
| "si_print (f # fs) = CHR ''*'' # f @ si_print fs"

definition mmi_head :: "string \<Rightarrow> string \<Rightarrow> string list \<Rightarrow> string" where
  "mmi_head a code fs = a @ code @ si_print fs @ [CHR ''#'']"

definition mmi_print :: "string \<Rightarrow> string \<Rightarrow> string list \<Rightarrow> string \<Rightarrow> string" where
  "mmi_print a code fs dial = mmi_head a code fs @ dial"

definition mmi_wf :: "string \<Rightarrow> string \<Rightarrow> string list \<Rightarrow> string \<Rightarrow> bool" where
  "mmi_wf a code fs dial \<longleftrightarrow>
     is_action a \<and> digit_code code \<and> length fs \<le> 4 \<and> list_all (list_all no_sep) fs \<and>
     list_all not_newline dial"

definition field :: "string list \<Rightarrow> nat \<Rightarrow> string" where
  "field fs i = (if i < length fs then fs ! i else [])"

definition mmi_data :: "string \<Rightarrow> string \<Rightarrow> string list \<Rightarrow> string \<Rightarrow> MMIData" where
  "mmi_data a code fs dial =
     \<lparr>fullString = (if dial \<noteq> [] \<and> last dial = CHR ''#'' then mmi_print a code fs dial
                    else mmi_head a code fs),
      actionString = a, serviceCode = code, serviceInfoA = field fs 0, serviceInfoB = field fs 1,
      serviceInfoC = field fs 2, pwdString = field fs 3, dialString = dial\<rparr>"

section \<open>The pattern describes the printed strings\<close>

fun si_caps :: "nat list \<Rightarrow> string list \<Rightarrow> caps \<Rightarrow> caps" where
  "si_caps (n # ns) (f # fs) cs =
     (si_caps ns fs (cs(Suc n \<mapsto> f)))(n \<mapsto> CHR ''*'' # f @ si_print fs)"
| "si_caps _ _ cs = cs"

lemma si_step:
  "rx_lang (si_rx (n # ns)) cs w cs' \<longleftrightarrow> w = [] \<and> cs' = cs \<or>
    (\<exists>f u cs''. list_all no_sep f \<and> rx_lang (si_rx ns) (cs(Suc n \<mapsto> f)) u cs'' \<and>
       w = CHR ''*'' # f @ u \<and> cs' = cs''(n \<mapsto> w))" (is "?L \<longleftrightarrow> ?N \<or> ?S")
proof (intro iffI)
  assume ?L
  then show "?N \<or> ?S"
    by (auto simp: rx_lang_Opt rx_lang_Grp rx_lang_Seq rx_lang_Cls rx_lang_Star list_all_iff)
next
  assume "?N \<or> ?S"
  then show ?L
  proof
    assume ?N
    then show ?thesis by (simp add: rx_lang.opt0)
  next
    assume ?S
    then obtain f u cs'' where f: "list_all no_sep f"
        and u: "rx_lang (si_rx ns) (cs(Suc n \<mapsto> f)) u cs''"
        and w: "w = CHR ''*'' # f @ u" "cs' = cs''(n \<mapsto> w)" by blast
    have "rx_lang (Grp (Suc n) (Star no_sep)) cs f (cs(Suc n \<mapsto> f))"
      using f by (intro rx_lang.grp rx_lang.star) (simp add: list_all_iff)
    moreover have "rx_lang (ch CHR ''*'') cs [CHR ''*''] cs" by (intro rx_lang.cls) simp
    ultimately have "rx_lang (si_rx (n # ns)) cs ([CHR ''*''] @ (f @ u)) (cs''(n \<mapsto> [CHR ''*''] @ (f @ u)))"
      using u unfolding si_rx.simps by (intro rx_lang.opt1 rx_lang.grp rx_lang.seq)
    with w show ?thesis by simp
  qed
qed

lemma si_lang:
  "rx_lang (si_rx ns) cs w cs' \<longleftrightarrow>
   (\<exists>fs. length fs \<le> length ns \<and> list_all (list_all no_sep) fs \<and> w = si_print fs \<and>
         cs' = si_caps ns fs cs)"
proof (induction ns arbitrary: cs w cs')
  case Nil
  show ?case by (auto simp: rx_lang_Eps)
next
  case (Cons n ns)
  let ?R = "\<lambda>fs. length fs \<le> length (n # ns) \<and> list_all (list_all no_sep) fs \<and>
    w = si_print fs \<and> cs' = si_caps (n # ns) fs cs"
  have "rx_lang (si_rx (n # ns)) cs w cs' \<longleftrightarrow> w = [] \<and> cs' = cs \<or>
    (\<exists>f u cs''. list_all no_sep f \<and> rx_lang (si_rx ns) (cs(Suc n \<mapsto> f)) u cs'' \<and>
       w = CHR ''*'' # f @ u \<and> cs' = cs''(n \<mapsto> w))" (is "_ \<longleftrightarrow> ?N \<or> ?S")
    by (rule si_step)
  also have "?S \<longleftrightarrow> (\<exists>f fs. ?R (f # fs))"
    unfolding Cons.IH
    by (simp only: si_caps.simps si_print.simps list.size Suc_le_mono list.pred_inject
        add_Suc_right add_0_right Suc_eq_plus1 [symmetric]) blast
  also have "?N \<longleftrightarrow> ?R []" by auto
  finally show ?case by (metis list.exhaust)
qed

lemma action_lang: "rx_lang action_rx cs w cs' \<longleftrightarrow> is_action w \<and> cs' = cs"
  by (auto simp: action_rx_def is_action_def rx_lang_Alt rx_lang_Seq rx_lang_Cls)

lemma code_lang: "rx_lang code_rx cs w cs' \<longleftrightarrow> digit_code w \<and> cs' = cs"
proof
  assume "rx_lang code_rx cs w cs'"
  then show "digit_code w \<and> cs' = cs"
    by (auto simp: code_rx_def rx_lang_Seq rx_lang_Cls rx_lang_Opt digit_code_def)
next
  assume "digit_code w \<and> cs' = cs"
  then have w: "digit_code w" and [simp]: "cs' = cs" by simp_all
  from w show "rx_lang code_rx cs w cs'"
  proof (cases w rule: digit_code_cases)
    case (two a b)
    have "rx_lang code_rx cs ([a] @ [b] @ []) cs"
      unfolding code_rx_def
      by (rule rx_lang.seq [OF rx_lang.cls [where P = is_digit, OF two(2)]
            rx_lang.seq [OF rx_lang.cls [where P = is_digit, OF two(3)] rx_lang.opt0]])
    with two(1) show ?thesis by simp
  next
    case (three a b c)
    have "rx_lang code_rx cs ([a] @ [b] @ [c]) cs"
      unfolding code_rx_def
      by (rule rx_lang.seq [OF rx_lang.cls [where P = is_digit, OF three(2)]
            rx_lang.seq [OF rx_lang.cls [where P = is_digit, OF three(3)]
            rx_lang.opt1 [OF rx_lang.cls [where P = is_digit, OF three(4)]]]])
    with three(1) show ?thesis by simp
  qed
qed

definition mmi_caps :: "string \<Rightarrow> string \<Rightarrow> string list \<Rightarrow> string \<Rightarrow> caps" where
  "mmi_caps a code fs dial =
     (si_caps [4, 6, 8, 10] fs (Map.empty(2 \<mapsto> a, 3 \<mapsto> code)))
       (1 \<mapsto> mmi_head a code fs, 12 \<mapsto> dial)"

lemma mmi_lang:
  "rx_lang mmi_pattern Map.empty s cs \<longleftrightarrow>
   (\<exists>a code fs dial. mmi_wf a code fs dial \<and> s = mmi_print a code fs dial \<and>
      cs = mmi_caps a code fs dial)" (is "?L \<longleftrightarrow> ?R")
proof
  assume ?L
  then obtain h dial cs1 where s: "s = h @ dial"
      and h: "rx_lang (Seq (Grp 2 action_rx) (Seq (Grp 3 code_rx)
        (Seq (si_rx [4, 6, 8, 10]) (ch CHR ''#'')))) Map.empty h cs1"
      and d: "list_all not_newline dial" "cs = cs1(1 \<mapsto> h, 12 \<mapsto> dial)"
    unfolding mmi_pattern_def
    by (simp only: rx_lang_Seq [of "Grp 1 _"] rx_lang_Grp rx_lang_Star list_all_iff) blast
  from h obtain a h' where a: "h = a @ h'" "is_action a"
      and h': "rx_lang (Seq (Grp 3 code_rx) (Seq (si_rx [4, 6, 8, 10]) (ch CHR ''#'')))
        (Map.empty(2 \<mapsto> a)) h' cs1"
    by (auto simp: rx_lang_Seq [of "Grp 2 _"] rx_lang_Grp action_lang)
  from h' obtain code h'' where code: "h' = code @ h''" "digit_code code"
      and h'': "rx_lang (Seq (si_rx [4, 6, 8, 10]) (ch CHR ''#''))
        (Map.empty(2 \<mapsto> a, 3 \<mapsto> code)) h'' cs1"
    by (auto simp: rx_lang_Seq [of "Grp 3 _"] rx_lang_Grp code_lang)
  from h'' obtain fs where fs: "length fs \<le> length [4 :: nat, 6, 8, 10]" "list_all (list_all no_sep) fs"
      "h'' = si_print fs @ [CHR ''#'']"
      "cs1 = si_caps [4, 6, 8, 10] fs (Map.empty(2 \<mapsto> a, 3 \<mapsto> code))"
    by (auto simp: rx_lang_Seq si_lang rx_lang_Cls simp del: si_rx.simps si_caps.simps)
  have "mmi_wf a code fs dial \<and> s = mmi_print a code fs dial \<and> cs = mmi_caps a code fs dial"
    unfolding mmi_wf_def mmi_print_def mmi_head_def mmi_caps_def
    using s a code fs d by (simp del: si_caps.simps)
  then show ?R by blast
next
  assume ?R
  then obtain a code fs dial where *: "mmi_wf a code fs dial" and s: "s = mmi_print a code fs dial"
      and cs: "cs = mmi_caps a code fs dial" by blast
  let ?c2 = "Map.empty(2 \<mapsto> a, 3 \<mapsto> code)"
  let ?c3 = "si_caps [4, 6, 8, 10] fs ?c2"
  have 1: "rx_lang (Grp 2 action_rx) Map.empty a (Map.empty(2 \<mapsto> a))"
    using * by (intro rx_lang.grp) (simp add: action_lang mmi_wf_def)
  have 2: "rx_lang (Grp 3 code_rx) (Map.empty(2 \<mapsto> a)) code ?c2"
    using * by (intro rx_lang.grp) (simp add: code_lang mmi_wf_def)
  have 3: "rx_lang (si_rx [4, 6, 8, 10]) ?c2 (si_print fs) ?c3"
    using * unfolding si_lang by (intro exI [of _ fs]) (simp add: mmi_wf_def)
  have 4: "rx_lang (ch CHR ''#'') ?c3 [CHR ''#''] ?c3" by (intro rx_lang.cls) simp
  have 5: "rx_lang (Grp 1 (Seq (Grp 2 action_rx) (Seq (Grp 3 code_rx)
      (Seq (si_rx [4, 6, 8, 10]) (ch CHR ''#''))))) Map.empty (mmi_head a code fs)
      (?c3(1 \<mapsto> mmi_head a code fs))"
    unfolding mmi_head_def
    by (rule rx_lang.grp [OF rx_lang.seq [OF 1 rx_lang.seq [OF 2 rx_lang.seq [OF 3 4]]]])
  have 6: "rx_lang (Grp 12 (Star not_newline)) (?c3(1 \<mapsto> mmi_head a code fs)) dial
      (?c3(1 \<mapsto> mmi_head a code fs, 12 \<mapsto> dial))"
    using * by (intro rx_lang.grp rx_lang.star) (simp add: mmi_wf_def list_all_iff)
  show ?L
    unfolding mmi_pattern_def s cs mmi_print_def mmi_caps_def by (rule rx_lang.seq [OF 5 6])
qed


section \<open>Printing is injective\<close>

lemma si_print_head: "\<exists>c r. si_print fs @ CHR ''#'' # d = c # r \<and> \<not> no_sep c \<and> \<not> is_digit c"
  by (cases fs) (auto simp: no_sep_def is_digit_def)

lemma takeWhile_split:
  assumes "list_all P u" "\<exists>c r. v = c # r \<and> \<not> P c"
  shows "takeWhile P (u @ v) = u" "dropWhile P (u @ v) = v"
  using assms by (auto simp: list_all_iff takeWhile_append2 dropWhile_append2)

lemma si_print_inj:
  assumes "list_all (list_all no_sep) fs" "list_all (list_all no_sep) fs'"
    "si_print fs @ CHR ''#'' # d = si_print fs' @ CHR ''#'' # d'"
  shows "fs = fs' \<and> d = d'"
  using assms
proof (induction fs arbitrary: fs')
  case Nil
  then show ?case by (cases fs') auto
next
  case (Cons f fs)
  then obtain f' fs'' where [simp]: "fs' = f' # fs''" by (cases fs') auto
  let ?r = "si_print fs @ CHR ''#'' # d" and ?r' = "si_print fs'' @ CHR ''#'' # d'"
  have eq: "f @ ?r = f' @ ?r'" using Cons.prems(3) by simp
  have sep: "\<exists>c r. ?r = c # r \<and> \<not> no_sep c" "\<exists>c r. ?r' = c # r \<and> \<not> no_sep c"
    using si_print_head [of fs d] si_print_head [of fs'' d'] by blast+
  have f: "list_all no_sep f" "list_all no_sep f'" using Cons.prems by simp_all
  have "f = f'" by (metis takeWhile_split(1) eq sep f)
  moreover have "?r = ?r'" by (metis takeWhile_split(2) eq sep f)
  ultimately show ?case using Cons.IH [of fs''] Cons.prems by simp
qed

lemma mmi_print_inj:
  assumes wf: "mmi_wf a code fs dial" "mmi_wf a' code' fs' dial'"
    and eq: "mmi_print a code fs dial = mmi_print a' code' fs' dial'"
  shows "a = a' \<and> code = code' \<and> fs = fs' \<and> dial = dial'"
proof -
  let ?nd = "\<lambda>c. \<not> is_digit c"
  let ?r = "si_print fs @ CHR ''#'' # dial" and ?r' = "si_print fs' @ CHR ''#'' # dial'"
  have s: "a @ (code @ ?r) = a' @ (code' @ ?r')"
    using eq by (simp add: mmi_print_def mmi_head_def)
  have nd: "list_all ?nd a" "list_all ?nd a'"
    using wf by (auto simp: mmi_wf_def is_action_def is_digit_def)
  have code: "\<exists>c r. code @ ?r = c # r \<and> \<not> ?nd c" "\<exists>c r. code' @ ?r' = c # r \<and> \<not> ?nd c"
    using wf by (auto simp: mmi_wf_def elim!: digit_code_cases)
  have dig: "list_all is_digit code" "list_all is_digit code'"
    using wf by (auto simp: mmi_wf_def elim!: digit_code_cases)
  have a: "a = a'" "code @ ?r = code' @ ?r'"
    by (metis takeWhile_split(1) s nd code, metis takeWhile_split(2) s nd code)
  have c: "code = code'" "?r = ?r'"
    by (metis takeWhile_split(1) a(2) dig si_print_head, metis takeWhile_split(2) a(2) dig si_print_head)
  have "fs = fs' \<and> dial = dial'"
    using si_print_inj [OF _ _ c(2)] wf by (simp add: mmi_wf_def)
  with a c show ?thesis by simp
qed

section \<open>Matching inverts printing\<close>

lemma mmi_caps_str:
  assumes "length fs \<le> 4"
  shows "cap_str (mmi_caps a code fs dial) 1 = mmi_head a code fs"
    "cap_str (mmi_caps a code fs dial) 2 = a"
    "cap_str (mmi_caps a code fs dial) 3 = code"
    "cap_str (mmi_caps a code fs dial) 5 = field fs 0"
    "cap_str (mmi_caps a code fs dial) 7 = field fs 1"
    "cap_str (mmi_caps a code fs dial) 9 = field fs 2"
    "cap_str (mmi_caps a code fs dial) 11 = field fs 3"
    "cap_str (mmi_caps a code fs dial) 12 = dial"
proof -
  consider "fs = []" | f where "fs = [f]" | f g where "fs = [f, g]" | f g h where "fs = [f, g, h]"
    | f g h k where "fs = [f, g, h, k]"
    using assms by (auto simp: numeral_eq_Suc le_Suc_eq length_Suc_conv)
  then show "cap_str (mmi_caps a code fs dial) 1 = mmi_head a code fs"
    "cap_str (mmi_caps a code fs dial) 2 = a"
    "cap_str (mmi_caps a code fs dial) 3 = code"
    "cap_str (mmi_caps a code fs dial) 5 = field fs 0"
    "cap_str (mmi_caps a code fs dial) 7 = field fs 1"
    "cap_str (mmi_caps a code fs dial) 9 = field fs 2"
    "cap_str (mmi_caps a code fs dial) 11 = field fs 3"
    "cap_str (mmi_caps a code fs dial) 12 = dial"
    by (cases; simp add: mmi_caps_def cap_str_def field_def)+
qed

lemma RegexMatchMmi_caps:
  assumes "mmi_wf a code fs dial"
    "regex_match mmi_pattern (mmi_print a code fs dial) = Some (mmi_caps a code fs dial)"
  shows "RegexMatchMmi (mmi_print a code fs dial) = Some (mmi_data a code fs dial)"
proof -
  have "length fs \<le> 4" using assms(1) by (simp add: mmi_wf_def)
  note caps = mmi_caps_str [OF this]
  show ?thesis
    unfolding RegexMatchMmi_def mmi_data_def assms(2)
    by (simp only: caps option.case Let_def) (auto simp: mmi_print_def)
qed

lemma regex_match_mmi_print:
  assumes "mmi_wf a code fs dial"
  shows "regex_match mmi_pattern (mmi_print a code fs dial) = Some (mmi_caps a code fs dial)"
proof -
  have "rx_lang mmi_pattern Map.empty (mmi_print a code fs dial) (mmi_caps a code fs dial)"
    using assms by (auto simp only: mmi_lang)
  then obtain cs where cs: "regex_match mmi_pattern (mmi_print a code fs dial) = Some cs"
    using regex_match_iff by blast
  from regex_match_lang [OF this] obtain a' code' fs' dial' where
      "mmi_wf a' code' fs' dial'" "mmi_print a code fs dial = mmi_print a' code' fs' dial'"
      "cs = mmi_caps a' code' fs' dial'"
    by (auto simp only: mmi_lang)
  with mmi_print_inj [OF assms] cs show ?thesis by blast
qed

lemma RegexMatchMmi_print:
  "mmi_wf a code fs dial \<Longrightarrow> RegexMatchMmi (mmi_print a code fs dial) = Some (mmi_data a code fs dial)"
  by (rule RegexMatchMmi_caps [OF _ regex_match_mmi_print])

section \<open>Properties\<close>

text \<open>C4: recognition of MMI codes is the inverse of their syntax. \<^verbatim>\<open>RegexMatchMmi\<close> accepts a dialled
  string exactly when it is an action, a service code of two or three digits, at most four information
  fields and a trailing dial string in the layout of TS 22.030, and the fields it returns are those of
  the string (\<^verbatim>\<open>fullString\<close> being the whole string only when the trailing part ends in \<^verbatim>\<open>#\<close>).\<close>

theorem RegexMatchMmi_iff:
  "RegexMatchMmi s = Some d \<longleftrightarrow>
   (\<exists>a code fs dial. mmi_wf a code fs dial \<and> s = mmi_print a code fs dial \<and>
      d = mmi_data a code fs dial)" (is "?L \<longleftrightarrow> ?R")
proof
  assume L: ?L
  then obtain cs where "regex_match mmi_pattern s = Some cs"
    by (auto simp: RegexMatchMmi_def split: option.splits)
  from regex_match_lang [OF this] obtain a code fs dial where
      "mmi_wf a code fs dial" "s = mmi_print a code fs dial"
    by (auto simp only: mmi_lang)
  with L RegexMatchMmi_print show ?R by (metis option.inject)
next
  assume ?R
  with RegexMatchMmi_print show ?L by blast
qed

text \<open>Dispatch by the 64-bit hash is dispatch by the code. For every service code of two or three
  digits \<^verbatim>\<open>ExecuteMmiCode\<close> calls the handler that the source registers for this code and no other: no
  two codes collide; an unknown code is sent as USSD, the password code \<^verbatim>\<open>03\<close> is swallowed.\<close>

theorem ExecuteMmiCode_by_code:
  assumes "digit_code (serviceCode (mmiData u))"
  shows "ExecuteMmiCode u slotId =
    (if serviceCode (mmiData u) = ''03'' then (True, None)
     else case map_of (mmi_table (isNeedUseIms u)) (serviceCode (mmiData u)) of
       Some f \<Rightarrow> (True, Some (SuppCall f slotId (mmiData u)))
     | None \<Rightarrow> if fullString (mmiData u) \<noteq> [] then (True, Some (SendUssd slotId (fullString (mmiData u))))
               else (False, None))"
proof -
  have ne: "serviceCode (mmiData u) \<noteq> []" using assms by (auto simp: digit_code_def)
  have "digit_code ''03''" by (simp add: digit_code_def is_digit_def)
  then have "Hash (serviceCode (mmiData u)) = HashCompileTime ''03'' cellular_call_b \<longleftrightarrow>
      serviceCode (mmiData u) = ''03''"
    using Hash_inj_digit_code [OF assms, of "''03''"]
    by (auto simp: HashCompileTime_eq Hash_def [symmetric] simp del: HashCompileTime.simps hash_loop.simps)
  with ne show ?thesis
    by (simp add: ExecuteMmiCode_def Let_def hashed_mmi_table [OF assms] split: option.splits)
qed

theorem ExecuteMmiCode_by_code_witness:
  "ExecuteMmiCode \<lparr>mmiData = mmi_data ''*'' ''21'' [''10086''] [], isNeedUseIms = False\<rparr> 0 =
   (True, Some (SuppCall HandleCallTransfer 0 (mmi_data ''*'' ''21'' [''10086''] [])))"
proof -
  have "digit_code (serviceCode (mmiData \<lparr>mmiData = mmi_data ''*'' ''21'' [''10086''] [], isNeedUseIms = False\<rparr>))"
    by (simp add: mmi_data_def digit_code_def is_digit_def)
  from ExecuteMmiCode_by_code [OF this, of 0] show ?thesis
    by (simp add: mmi_data_def mmi_table_def InitCallTransferMmiCodeFunc_def)
qed

end
