(* ===== verification/Emergency.thy ===== *)
theory Emergency
  imports MmiSyntax
begin

text \<open>
  \<^verbatim>\<open>services/utils/src/emergency_utils.cpp\<close>: which dialled strings are emergency numbers. The
  configuration (\<^verbatim>\<open>CellularCallConfig\<close>: the ECC list and the MCC of a slot), the network country
  code, the \<^verbatim>\<open>DYNAMIC_POWEROFF_MODEM\<close> system parameter and the phone-number library's
  \<^verbatim>\<open>ShortNumberInfo::IsEmergencyNumber\<close> are answers of the environment.
\<close>

record EmergencyCall =
  eccNum :: string
  mcc :: string
  eccType :: int
  simpresent :: int
  abnormalService :: int

record ecc_env = mmi_env +
  e_netCountry :: "int \<Rightarrow> string"
  e_simCountry :: "int \<Rightarrow> string"
  e_eccList :: "int \<Rightarrow> EmergencyCall list"
  e_mcc :: "int \<Rightarrow> string"
  e_dynPoweroff :: bool
  e_isEmergencyNumber :: "string \<Rightarrow> string \<Rightarrow> bool"

definition to_upper :: "char \<Rightarrow> char" where
  "to_upper c = (if c \<in> set ''abcdefghijklmnopqrstuvwxyz'' then char_of (of_char c - (32 :: nat)) else c)"

definition builtin_ecc :: "string list" where
  "builtin_ecc = [''110'', ''120'', ''119'', ''122'', ''112'', ''000'', ''911'', ''08'', ''118'', ''999'']"

text \<open>The out-parameter \<^verbatim>\<open>enabled\<close> is returned beside the result code.\<close>

definition IsEmergencyCallProcessing :: "'x ecc_env_scheme \<Rightarrow> int \<Rightarrow> string \<Rightarrow> errcode \<times> bool" where
  "IsEmergencyCallProcessing e slotId formatString =
     (let countryIsoCode = e_netCountry e slotId; eccCallList = e_eccList e slotId in
      if eccCallList = [] then
        if list_ex (\<lambda>n. n = formatString) builtin_ecc then (TELEPHONY_ERR_SUCCESS, True)
        else if countryIsoCode \<noteq> [] then
          (TELEPHONY_ERR_SUCCESS, e_isEmergencyNumber e formatString (map to_upper countryIsoCode))
        else (TELEPHONY_ERR_SUCCESS, False)
      else if list_ex (\<lambda>it. (e_mcc e slotId = mcc it \<or> e_dynPoweroff e) \<and> formatString = eccNum it)
                eccCallList
        then (TELEPHONY_ERR_SUCCESS, True)
        else (TELEPHONY_ERR_SUCCESS, False))"

definition IsEmergencyCall :: "'x ecc_env_scheme \<Rightarrow> int \<Rightarrow> string \<Rightarrow> bool \<Rightarrow> errcode \<times> bool" where
  "IsEmergencyCall e slotId phoneNum enabled =
     (if phoneNum = [] then (TELEPHONY_ERR_ARGUMENT_INVALID, enabled)
      else if CHR ''@'' \<in> set phoneNum \<or> find_sub ''%40'' phoneNum \<noteq> None
        then (TELEPHONY_ERR_ARGUMENT_INVALID, enabled)
      else if hd phoneNum = CHR ''+'' then (TELEPHONY_ERR_ARGUMENT_INVALID, enabled)
      else IsEmergencyCallProcessing e slotId phoneNum)"

text \<open>\<^verbatim>\<open>ControlBase::IsEmergencyCall\<close>: the out-parameter starts as false.\<close>

definition ControlBase_IsEmergencyCall :: "'x ecc_env_scheme \<Rightarrow> int \<Rightarrow> string \<Rightarrow> bool" where
  "ControlBase_IsEmergencyCall e slotId phoneString = snd (IsEmergencyCall e slotId phoneString False)"

section \<open>Properties\<close>

lemma builtin_ecc_dialable: "\<forall>n \<in> set builtin_ecc. list_all is_digit n \<and> n \<noteq> []"
  by (simp add: builtin_ecc_def is_digit_def)

lemma not_digit: "\<not> is_digit CHR ''@''" "\<not> is_digit CHR ''+''" "\<not> is_digit CHR ''%''"
  by (simp_all add: is_digit_def)

lemma digits_no_pct: "list_all is_digit s \<Longrightarrow> find_sub ''%40'' s = None"
proof (induction s)
  case (Cons c s)
  then have "c \<noteq> CHR ''%''" using not_digit by auto
  with Cons show ?case by simp
qed simp

text \<open>Without a configured list the built-in numbers are always emergency numbers.\<close>

lemma builtin_is_emergency:
  assumes "e_eccList e slotId = []" "n \<in> set builtin_ecc"
  shows "IsEmergencyCall e slotId n b = (TELEPHONY_ERR_SUCCESS, True)"
proof -
  have d: "list_all is_digit n" "n \<noteq> []" using assms(2) builtin_ecc_dialable by auto
  have at: "CHR ''@'' \<notin> set n" using d(1) not_digit by (metis list_all_iff)
  have plus: "hd n \<noteq> CHR ''+''" using d not_digit by (metis hd_in_set list_all_iff)
  have "list_ex (\<lambda>x. x = n) builtin_ecc" using assms(2) by (simp add: list_ex_iff)
  with assms(1) d(2) at plus digits_no_pct [OF d(1)] show ?thesis
    by (simp add: IsEmergencyCall_def IsEmergencyCallProcessing_def)
qed

text \<open>With a configured list, exactly its numbers for the slot's MCC are emergency numbers (all of
  them on devices that power the modem off).\<close>

lemma configured_emergency:
  assumes "e_eccList e slotId \<noteq> []"
  shows "IsEmergencyCall e slotId n False =
    (if n = [] \<or> CHR ''@'' \<in> set n \<or> find_sub ''%40'' n \<noteq> None \<or> hd n = CHR ''+''
     then (TELEPHONY_ERR_ARGUMENT_INVALID, False)
     else (TELEPHONY_ERR_SUCCESS,
       \<exists>it \<in> set (e_eccList e slotId). (mcc it = e_mcc e slotId \<or> e_dynPoweroff e) \<and> eccNum it = n))"
  using assms
  by (auto simp: IsEmergencyCall_def IsEmergencyCallProcessing_def list_ex_iff Let_def)

end
