(* ===== verification/Connection.thy ===== *)
theory Connection
  imports Standardize
begin

text \<open>
  \<^verbatim>\<open>services/connection/src/base_connection.cpp\<close>: the state every connection has, and the
  post-dial state machine. A subclass is an extension of the record; the virtual
  \<^verbatim>\<open>ProcessPostDialCallChar\<close> is an argument of \<^verbatim>\<open>ProcessNextChar\<close>. Getters and setters of one
  field are the record's selectors and updates.

  The lemmas describe \<^verbatim>\<open>ProcessNextChar\<close> on every state and show that repeated calls walk
  through the post-dial string once, in order.
\<close>

record BaseConnection =
  phoneNumber :: string
  flag :: bool
  index :: int
  number :: string
  callReportInfo :: CallReportInfo
  postDialCallState :: PostDialCallState
  nextPostDialCallCode :: nat
  postDialCallString :: string

definition IsRingingState :: "'c BaseConnection_scheme \<Rightarrow> bool" where
  "IsRingingState c \<longleftrightarrow>
     r_state (callReportInfo c) = CALL_STATUS_INCOMING \<or>
     r_state (callReportInfo c) = CALL_STATUS_WAITING \<or>
     r_state (callReportInfo c) = CALL_STATUS_ALERTING"

definition SetStatus :: "TelCallState \<Rightarrow> 'c BaseConnection_scheme \<Rightarrow> 'c BaseConnection_scheme" where
  "SetStatus s c = c\<lparr>callReportInfo := (callReportInfo c)\<lparr>r_state := s\<rparr>\<rparr>"

definition UpdatePendingHoldFlag :: "bool \<Rightarrow> 'c BaseConnection_scheme \<Rightarrow> 'c BaseConnection_scheme" where
  "UpdatePendingHoldFlag b c = c\<lparr>callReportInfo := (callReportInfo c)\<lparr>r_isPendingHold := b\<rparr>\<rparr>"

definition UpdateCallNumber :: "string \<Rightarrow> 'c BaseConnection_scheme \<Rightarrow> 'c BaseConnection_scheme" where
  "UpdateCallNumber phoneNum c =
     (let (a, p) = ExtractAddressAndPostDial phoneNum (phoneNumber c) (postDialCallString c)
      in c\<lparr>phoneNumber := a, postDialCallString := p\<rparr>)"

definition GetLeftPostDialCallString :: "'c BaseConnection_scheme \<Rightarrow> string" where
  "GetLeftPostDialCallString c =
     (if postDialCallString c = [] \<or> length (postDialCallString c) \<le> nextPostDialCallCode c then []
      else drop (nextPostDialCallCode c) (postDialCallString c))"

text \<open>The hook stands for the subclass's \<^verbatim>\<open>ProcessPostDialCallChar\<close>; its result code is dropped.
  The out-parameter keeps its value where the code does not assign it.\<close>

definition ProcessNextChar ::
    "('c BaseConnection_scheme \<Rightarrow> char \<Rightarrow> errcode \<times> 'c BaseConnection_scheme \<times> act list) \<Rightarrow>
     'c BaseConnection_scheme \<Rightarrow> char \<Rightarrow>
     PostDialCallState \<times> 'c BaseConnection_scheme \<times> char \<times> act list" where
  "ProcessNextChar hook conn c0 =
     (if postDialCallState conn = POST_DIAL_CALL_CANCELED then (POST_DIAL_CALL_CANCELED, conn, c0, [])
      else if postDialCallString conn = [] \<or>
              length (postDialCallString conn) \<le> nextPostDialCallCode conn
        then (POST_DIAL_CALL_COMPLETE, conn\<lparr>postDialCallState := POST_DIAL_CALL_COMPLETE\<rparr>, c0, [])
      else let conn1 = conn\<lparr>postDialCallState := POST_DIAL_CALL_STARTED\<rparr>;
               c = postDialCallString conn1 ! nextPostDialCallCode conn1;
               conn2 = conn1\<lparr>nextPostDialCallCode := nextPostDialCallCode conn1 + 1\<rparr>;
               (_, conn3, acts) = hook conn2 c
           in (postDialCallState conn3, conn3, c, acts))"

text \<open>The subclasses' \<^verbatim>\<open>ProcessPostDialCallChar\<close> differ in how a DTMF key is sent and in the
  \<^verbatim>\<open>isIms\<close> mark of the delayed event. \<^verbatim>\<open>PAUSE_DELAY_TIME\<close> is three seconds.\<close>

definition PAUSE_DELAY_TIME :: int where
  "PAUSE_DELAY_TIME = 3000"

definition post_dial_char ::
    "(int \<Rightarrow> char \<Rightarrow> int \<Rightarrow> errcode \<times> act list) \<Rightarrow> bool \<Rightarrow> 'x svc_env_scheme \<Rightarrow> int \<Rightarrow>
     'c BaseConnection_scheme \<Rightarrow> char \<Rightarrow> errcode \<times> 'c BaseConnection_scheme \<times> act list" where
  "post_dial_char sendDtmf ims e slotId conn c =
     (if IsDtmfKey c then (TELEPHONY_SUCCESS, conn, snd (sendDtmf slotId c (index conn)))
      else if IsPauseKey c then
        let conn' = conn\<lparr>postDialCallState := POST_DIAL_CALL_PAUSE\<rparr> in
        if \<not> e_service e then (CALL_ERR_RESOURCE_UNAVAILABLE, conn', [NullDeref])
        else if \<not> e_handler e slotId then (CALL_ERR_RESOURCE_UNAVAILABLE, conn', [])
        else (TELEPHONY_SUCCESS, conn',
              [SendPostDialEvent slotId \<lparr>pd_callId = index conn', pd_isIms = ims\<rparr> PAUSE_DELAY_TIME])
      else if IsWaitKey c then
        (TELEPHONY_SUCCESS, conn\<lparr>postDialCallState := POST_DIAL_CALL_DELAY\<rparr>, [])
      else (TELEPHONY_SUCCESS, conn, []))"

section \<open>What the updates leave alone\<close>

lemma SetStatus_simps [simp]:
  "flag (SetStatus s c) = flag c" "index (SetStatus s c) = index c"
  "r_state (callReportInfo (SetStatus s c)) = s"
  "postDialCallString (SetStatus s c) = postDialCallString c"
  by (simp_all add: SetStatus_def)

lemma UpdatePendingHoldFlag_simps [simp]:
  "flag (UpdatePendingHoldFlag b c) = flag c" "index (UpdatePendingHoldFlag b c) = index c"
  "r_isPendingHold (callReportInfo (UpdatePendingHoldFlag b c)) = b"
  "r_state (callReportInfo (UpdatePendingHoldFlag b c)) = r_state (callReportInfo c)"
  by (simp_all add: UpdatePendingHoldFlag_def)

lemma UpdateCallNumber_simps [simp]:
  "flag (UpdateCallNumber p c) = flag c" "index (UpdateCallNumber p c) = index c"
  "callReportInfo (UpdateCallNumber p c) = callReportInfo c"
  "number (UpdateCallNumber p c) = number c"
  "phoneNumber (UpdateCallNumber p c) = phoneNumber c @ fst (address_scan p)"
  "postDialCallString (UpdateCallNumber p c) = postDialCallString c @ snd (address_scan p)"
  "nextPostDialCallCode (UpdateCallNumber p c) = nextPostDialCallCode c"
  by (simp_all add: UpdateCallNumber_def ExtractAddressAndPostDial_def case_prod_beta)

lemma post_dial_char_keeps [simp]:
  "nextPostDialCallCode (fst (snd (post_dial_char f ims e s c x))) = nextPostDialCallCode c"
  "postDialCallString (fst (snd (post_dial_char f ims e s c x))) = postDialCallString c"
  "flag (fst (snd (post_dial_char f ims e s c x))) = flag c"
  "index (fst (snd (post_dial_char f ims e s c x))) = index c"
  "callReportInfo (fst (snd (post_dial_char f ims e s c x))) = callReportInfo c"
  by (simp_all add: post_dial_char_def Let_def)

lemma post_dial_char_more: "BaseConnection.more (fst (snd (post_dial_char f ims e s c x))) = BaseConnection.more c"
  by (simp add: post_dial_char_def Let_def)

text \<open>The state a character leaves behind, when processing started from \<^verbatim>\<open>STARTED\<close>.\<close>

definition char_state :: "char \<Rightarrow> PostDialCallState" where
  "char_state c =
     (if IsDtmfKey c then POST_DIAL_CALL_STARTED
      else if IsPauseKey c then POST_DIAL_CALL_PAUSE
      else if IsWaitKey c then POST_DIAL_CALL_DELAY
      else POST_DIAL_CALL_STARTED)"

lemma post_dial_char_state:
  "postDialCallState c = POST_DIAL_CALL_STARTED \<Longrightarrow>
   postDialCallState (fst (snd (post_dial_char f ims e s c x))) = char_state x"
  by (simp add: post_dial_char_def char_state_def Let_def)

section \<open>The post-dial state machine\<close>

lemma left_empty_iff: "GetLeftPostDialCallString c = [] \<longleftrightarrow>
    length (postDialCallString c) \<le> nextPostDialCallCode c"
  by (auto simp: GetLeftPostDialCallString_def)

lemma left_drop: "GetLeftPostDialCallString c = drop (nextPostDialCallCode c) (postDialCallString c)"
  by (auto simp: GetLeftPostDialCallString_def)

lemma ProcessNextChar_step:
  assumes "postDialCallState c \<noteq> POST_DIAL_CALL_CANCELED"
    and "GetLeftPostDialCallString c = x # xs"
  shows "\<exists>c' acts. ProcessNextChar (post_dial_char f ims e s) c x0 = (char_state x, c', x, acts) \<and>
    GetLeftPostDialCallString c' = xs \<and> postDialCallState c' = char_state x \<and>
    flag c' = flag c \<and> index c' = index c \<and> callReportInfo c' = callReportInfo c"
proof -
  let ?n = "nextPostDialCallCode c"
  have lt: "?n < length (postDialCallString c)" and d: "drop ?n (postDialCallString c) = x # xs"
    using assms(2) by (auto simp: GetLeftPostDialCallString_def split: if_splits)
  have x: "postDialCallString c ! ?n = x" and xs: "drop (Suc ?n) (postDialCallString c) = xs"
    using d Cons_nth_drop_Suc [OF lt] by simp_all
  let ?c2 = "c\<lparr>postDialCallState := POST_DIAL_CALL_STARTED, nextPostDialCallCode := Suc ?n\<rparr>"
  let ?r = "post_dial_char f ims e s ?c2 x"
  have "ProcessNextChar (post_dial_char f ims e s) c x0 =
      (postDialCallState (fst (snd ?r)), fst (snd ?r), x, snd (snd ?r))"
    using assms(1) lt x by (auto simp: ProcessNextChar_def Let_def case_prod_beta)
  moreover have "postDialCallState (fst (snd ?r)) = char_state x"
    by (rule post_dial_char_state) simp
  moreover have "GetLeftPostDialCallString (fst (snd ?r)) = xs"
    by (simp add: left_drop xs)
  ultimately show ?thesis by simp
qed

lemma ProcessNextChar_done:
  assumes "postDialCallState c \<noteq> POST_DIAL_CALL_CANCELED" "GetLeftPostDialCallString c = []"
  shows "ProcessNextChar h c x0 =
    (POST_DIAL_CALL_COMPLETE, c\<lparr>postDialCallState := POST_DIAL_CALL_COMPLETE\<rparr>, x0, [])"
  using assms by (auto simp: ProcessNextChar_def left_empty_iff)

lemma ProcessNextChar_keeps:
  assumes "ProcessNextChar (post_dial_char f ims e s) c x0 = (st, c', x, acts)"
  shows "flag c' = flag c" "index c' = index c" "callReportInfo c' = callReportInfo c"
  using assms
  by (auto simp: ProcessNextChar_def Let_def case_prod_beta split: if_splits)

end
