(* ===== verification/ControlBase.thy ===== *)
theory ControlBase
  imports Emergency Connection
begin

text \<open>
  \<^verbatim>\<open>services/control/src/control_base.cpp\<close> and the templates of \<^verbatim>\<open>control_base.h\<close>: the checks before
  dialling, MMI interception, look-ups in a connection table, DTMF. A table is an ordered map from
  call index to connection; a pointer into it is the pair of key and connection, and a write
  through the pointer is \<open>omap_put\<close> at that key.

  \<open>table_ok\<close> is the invariant of every connection table: entries sorted by key, each connection
  stored under its own index. \<open>call_sync\<close> is the contract of one iteration of the three
  \<^verbatim>\<open>ReportUpdateInfo\<close> loops and of their \<^verbatim>\<open>DeleteConnection\<close>; what the loops achieve is proved once
  from it.
\<close>

section \<open>Checks before dialling\<close>

text \<open>One wake-up of the wait in \<^verbatim>\<open>HandleEcc\<close>: the five seconds are over, or the condition variable
  was notified (or woke up spuriously) and the ready flag is read again.\<close>

datatype wake = WakeTimeout | WakeNotify bool

datatype RegServiceState = REG_STATE_IN_SERVICE | RegState_other int

datatype PhoneType = PHONE_TYPE_IS_GSM | PHONE_TYPE_IS_CDMA | PhoneType_other int

text \<open>The answers dialling asks for, in addition: radio, registration and network type, airplane
  mode, SIM presence and activity, what the activation requests return, the ready-to-call flag and
  the wake-ups while waiting for it, the vendor's MMI filter, the outcome of posting an event, and
  whether \<^verbatim>\<open>BASE_POWER_IMPROVEMENT_FEATURE\<close> is compiled in.\<close>

record dial_env = ecc_env +
  e_basePower :: bool
  e_radioOnFlag :: "int \<Rightarrow> bool"
  e_radioState :: "int \<Rightarrow> bool"
  e_csReg :: "int \<Rightarrow> RegServiceState"
  e_psReg :: "int \<Rightarrow> RegServiceState"
  e_phoneType :: "int \<Rightarrow> PhoneType"
  e_airplane :: "errcode \<times> bool"
  e_hasSim :: "int \<Rightarrow> bool"
  e_simActive :: "int \<Rightarrow> bool"
  e_updateRadioOn :: "int \<Rightarrow> errcode"
  e_setActiveSim :: "int \<Rightarrow> errcode"
  e_readyToCall :: "int \<Rightarrow> bool"
  e_wakes :: "wake list"
  e_isMmiCode :: "(int \<Rightarrow> string \<Rightarrow> bool) option"
  e_sendEvent :: bool

definition CheckAirplaneModeScene :: "'x dial_env_scheme \<Rightarrow> bool" where
  "CheckAirplaneModeScene e \<longleftrightarrow> fst (e_airplane e) = TELEPHONY_SUCCESS \<and> snd (e_airplane e)"

definition CheckActivateSimScene :: "'x dial_env_scheme \<Rightarrow> int \<Rightarrow> bool" where
  "CheckActivateSimScene e slotId = (if e_hasSim e slotId then e_simActive e slotId else True)"

text \<open>The wait loop over the wake-ups that happen; \<open>None\<close> is a thread that is still waiting when the
  list of wake-ups ends.\<close>

fun ecc_wait :: "bool \<Rightarrow> wake list \<Rightarrow> errcode option" where
  "ecc_wait True ws = Some TELEPHONY_SUCCESS"
| "ecc_wait False [] = None"
| "ecc_wait False (WakeTimeout # ws) = Some CALL_ERR_DIAL_FAILED"
| "ecc_wait False (WakeNotify r # ws) = ecc_wait r ws"

definition HandleEcc ::
    "'x dial_env_scheme \<Rightarrow> CellularCallInfo \<Rightarrow> bool \<Rightarrow> bool \<Rightarrow> bool \<Rightarrow> (errcode \<times> act list) option" where
  "HandleEcc e callInfo isEcc isAirplaneModeOn isActivateSim =
     (if \<not> isEcc then Some (TELEPHONY_ERR_AIRPLANE_MODE_ON, [])
      else
        let slot = ci_slotId callInfo;
            radioActs = (if isAirplaneModeOn then [Ril (RilUpdateRadioOn slot)] else []) in
        if isAirplaneModeOn \<and> e_updateRadioOn e slot \<noteq> TELEPHONY_SUCCESS
          then Some (e_updateRadioOn e slot, radioActs)
        else
          let other = (if slot = 0 then 1 else 0);
              wakeOther = \<not> CheckActivateSimScene e other;
              simActs = (if isActivateSim then []
                         else Ril (RilSetActiveSim slot True) #
                              (if e_setActiveSim e slot = TELEPHONY_SUCCESS \<and> wakeOther
                               then [Ril (RilSetActiveSim other True)] else []));
              acts = radioActs @ simActs in
          if \<not> isActivateSim \<and> e_setActiveSim e slot \<noteq> TELEPHONY_SUCCESS
            then Some (e_setActiveSim e slot, acts)
          else if \<not> isActivateSim \<and> wakeOther \<and> e_setActiveSim e other \<noteq> TELEPHONY_SUCCESS
            then Some (e_setActiveSim e other, acts)
          else map_option (\<lambda>r. (r, acts)) (ecc_wait (e_readyToCall e slot) (e_wakes e)))"

definition SetReadyToCall :: "(int \<Rightarrow> bool) \<Rightarrow> int \<Rightarrow> bool \<Rightarrow> errcode \<times> (int \<Rightarrow> bool) \<times> bool" where
  "SetReadyToCall ready slotId isReadyToCall =
     (if \<not> ready slotId \<and> isReadyToCall then (TELEPHONY_SUCCESS, ready(slotId := isReadyToCall), True)
      else (TELEPHONY_SUCCESS, ready, False))"

text \<open>\<^verbatim>\<open>DialPreJudgment\<close> drops the result of \<^verbatim>\<open>HandleEcc\<close>, but waits for it.\<close>

definition DialPreJudgment ::
    "'x dial_env_scheme \<Rightarrow> CellularCallInfo \<Rightarrow> bool \<Rightarrow> (errcode \<times> act list) option" where
  "DialPreJudgment e callInfo isEcc =
     (case HandleEcc e callInfo isEcc (CheckAirplaneModeScene e)
             (CheckActivateSimScene e (ci_slotId callInfo)) of
        None \<Rightarrow> None
      | Some (_, acts) \<Rightarrow>
          if ci_phoneNum callInfo = [] then Some (CALL_ERR_PHONE_NUMBER_EMPTY, acts)
          else if e_basePower e \<and> \<not> e_service e then Some (TELEPHONY_ERR_LOCAL_PTR_NULL, acts)
          else
            let isRadioOn = (if e_basePower e then e_radioOnFlag e (ci_slotId callInfo)
                             else e_radioState e (ci_slotId callInfo)) in
            if \<not> isRadioOn then Some (CALL_ERR_GET_RADIO_STATE_FAILED, acts)
            else Some (TELEPHONY_SUCCESS, acts))"

section \<open>MMI interception\<close>

text \<open>The string and the CLIR mode are in-out parameters.\<close>

definition IsNeedExecuteMMI ::
    "'x dial_env_scheme \<Rightarrow> int \<Rightarrow> string \<Rightarrow> CLIRMode \<Rightarrow> bool \<Rightarrow>
     bool \<times> string \<times> CLIRMode \<times> act list" where
  "IsNeedExecuteMMI e slotId phoneString clirMode needIms =
     (if ControlBase_IsEmergencyCall e slotId phoneString then (False, phoneString, clirMode, [])
      else if (case e_isMmiCode e of Some f \<Rightarrow> \<not> f slotId phoneString | None \<Rightarrow> False)
        then (False, phoneString, clirMode, [])
      else
        let (need, u) = IsNeedExecuteMmi e MMICodeUtils_init phoneString needIms; d = mmiData u in
        if \<not> need then (False, phoneString, clirMode, [])
        else if serviceCode d \<noteq> [] \<and> dialString d \<noteq> [] \<and> actionString d = ''*''
          then (False, dialString d, if serviceCode d = ''31'' then INHIBITION else clirMode, [])
        else if serviceCode d \<noteq> [] \<and> dialString d \<noteq> [] \<and> actionString d = ''#''
          then (False, dialString d, if serviceCode d = ''31'' then TRANSFER else clirMode, [])
        else if \<not> e_service e then (False, phoneString, clirMode, [])
        else if \<not> e_handler e slotId then (False, phoneString, clirMode, [])
        else (e_sendEvent e, phoneString, clirMode, [SendMmiEvent slotId d needIms]))"

section \<open>Connection tables\<close>

definition IsConnectedOut :: "TelCallState \<Rightarrow> TelCallState \<Rightarrow> bool" where
  "IsConnectedOut preState curState \<longleftrightarrow>
     (preState = CALL_STATUS_DIALING \<or> preState = CALL_STATUS_ALERTING) \<and>
     \<not> (curState = CALL_STATUS_DIALING \<or> curState = CALL_STATUS_ALERTING)"

definition CanCall :: "'c omap \<Rightarrow> bool" where
  "CanCall t \<longleftrightarrow> length t \<le> 6"

fun FindConnectionByState ::
    "'c BaseConnection_scheme omap \<Rightarrow> TelCallState \<Rightarrow> (int \<times> 'c BaseConnection_scheme) option" where
  "FindConnectionByState [] s = None"
| "FindConnectionByState ((k, c) # t) s =
     (if r_state (callReportInfo c) = s then Some (k, c) else FindConnectionByState t s)"

fun FindConnectionByIndex ::
    "'c BaseConnection_scheme omap \<Rightarrow> int \<Rightarrow> (int \<times> 'c BaseConnection_scheme) option" where
  "FindConnectionByIndex [] i = None"
| "FindConnectionByIndex ((k, c) # t) i = (if index c = i then Some (k, c) else FindConnectionByIndex t i)"

definition SetConnectionData :: "'c omap \<Rightarrow> int \<Rightarrow> 'c \<Rightarrow> bool \<times> 'c omap" where
  "SetConnectionData t key con = (map_of t key = None, omap_insert key con t)"

definition IsInState :: "'c BaseConnection_scheme omap \<Rightarrow> TelCallState \<Rightarrow> bool" where
  "IsInState t s = list_ex (\<lambda>(k, c). r_state (callReportInfo c) = s) t"

text \<open>DTMF; the subclass's request is the first argument.\<close>

definition StartDtmf ::
    "(int \<Rightarrow> char \<Rightarrow> int \<Rightarrow> errcode \<times> act list) \<Rightarrow> 'c BaseConnection_scheme omap \<Rightarrow> char \<Rightarrow>
     CellularCallInfo \<Rightarrow> errcode \<times> act list" where
  "StartDtmf request t cDtmfCode callInfo =
     (case FindConnectionByIndex t (ci_index callInfo) of
        None \<Rightarrow> (CALL_ERR_CALL_CONNECTION_NOT_EXIST, [])
      | Some (_, c) \<Rightarrow>
          if \<not> IsDtmfKey cDtmfCode then (CALL_ERR_PARAMETER_OUT_OF_RANGE, [])
          else request (ci_slotId callInfo) cDtmfCode (index c))"

definition SendDtmf ::
    "(int \<Rightarrow> char \<Rightarrow> int \<Rightarrow> errcode \<times> act list) \<Rightarrow> 'c BaseConnection_scheme omap \<Rightarrow> char \<Rightarrow>
     CellularCallInfo \<Rightarrow> errcode \<times> act list" where
  "SendDtmf request t cDtmfCode callInfo =
     (case FindConnectionByIndex t (ci_index callInfo) of
        None \<Rightarrow> (CALL_ERR_CALL_CONNECTION_NOT_EXIST, [])
      | Some (_, c) \<Rightarrow>
          if \<not> IsDtmfKey cDtmfCode then (CALL_ERR_PARAMETER_OUT_OF_RANGE, [])
          else request (ci_slotId callInfo) cDtmfCode (index c))"

definition StopDtmf ::
    "(int \<Rightarrow> int \<Rightarrow> errcode \<times> act list) \<Rightarrow> 'c BaseConnection_scheme omap \<Rightarrow> CellularCallInfo \<Rightarrow>
     errcode \<times> act list" where
  "StopDtmf request t callInfo =
     (case FindConnectionByIndex t (ci_index callInfo) of
        None \<Rightarrow> (CALL_ERR_CALL_CONNECTION_NOT_EXIST, [])
      | Some (_, c) \<Rightarrow> request (ci_slotId callInfo) (index c))"

section \<open>The table invariant\<close>

definition table_ok :: "'c BaseConnection_scheme omap \<Rightarrow> bool" where
  "table_ok t \<longleftrightarrow> omap_ok t \<and> list_all (\<lambda>(k, c). index c = k) t"

definition settled :: "'c BaseConnection_scheme omap \<Rightarrow> bool" where
  "settled t \<longleftrightarrow> list_all (\<lambda>(k, c). \<not> flag c) t"

definition keys :: "'c omap \<Rightarrow> int set" where
  "keys t = fst ` set t"

lemma table_ok_Nil [simp]: "table_ok []" "settled []"
  by (simp_all add: table_ok_def settled_def)

lemma table_ok_Cons [simp]:
  "table_ok ((k, c) # t) \<longleftrightarrow> index c = k \<and> (\<forall>k' \<in> fst ` set t. k < k') \<and> table_ok t"
  by (auto simp: table_ok_def)

lemma table_ok_omap: "table_ok t \<Longrightarrow> omap_ok t"
  by (simp add: table_ok_def)

lemma FindConnectionByIndex_map_of:
  assumes "table_ok t"
  shows "FindConnectionByIndex t i = map_option (Pair i) (map_of t i)"
  using assms by (induction t i rule: FindConnectionByIndex.induct) auto

lemma FindConnectionByState_Some:
  "FindConnectionByState t s = Some (k, c) \<Longrightarrow> (k, c) \<in> set t \<and> r_state (callReportInfo c) = s"
  by (induction t s rule: FindConnectionByState.induct) (auto split: if_splits)

lemma FindConnectionByState_None: "FindConnectionByState t s = None \<longleftrightarrow> \<not> IsInState t s"
  by (induction t s rule: FindConnectionByState.induct) (auto simp: IsInState_def)

lemma map_of_ok: "omap_ok t \<Longrightarrow> (k, c) \<in> set t \<longleftrightarrow> map_of t k = Some c"
  using omap_ok_distinct by fastforce

lemma table_ok_iff:
  "table_ok t \<longleftrightarrow> omap_ok t \<and> (\<forall>k c. map_of t k = Some c \<longrightarrow> index c = k)"
proof -
  have "list_all (\<lambda>(k, c). index c = k) t \<longleftrightarrow> (\<forall>k c. map_of t k = Some c \<longrightarrow> index c = k)"
    if "omap_ok t"
    using that by (auto simp: list_all_iff map_of_ok [symmetric])
  then show ?thesis by (auto simp: table_ok_def)
qed

lemma settled_iff: "omap_ok t \<Longrightarrow> settled t \<longleftrightarrow> (\<forall>k c. map_of t k = Some c \<longrightarrow> \<not> flag c)"
  by (auto simp: settled_def list_all_iff map_of_ok [symmetric])

lemma table_ok_put: "table_ok t \<Longrightarrow> index c = k \<Longrightarrow> table_ok (omap_put k c t)"
  by (auto simp: table_ok_iff omap_ok_put map_of_omap_put split: if_splits)

lemma table_ok_insert: "table_ok t \<Longrightarrow> index c = k \<Longrightarrow> table_ok (omap_insert k c t)"
  by (auto simp: table_ok_iff omap_ok_insert map_of_omap_insert split: if_splits)

lemma settled_put: "omap_ok t \<Longrightarrow> settled t \<Longrightarrow> \<not> flag c \<Longrightarrow> settled (omap_put k c t)"
  by (auto simp: settled_iff omap_ok_put map_of_omap_put split: if_splits)

lemma settled_insert: "omap_ok t \<Longrightarrow> settled t \<Longrightarrow> \<not> flag c \<Longrightarrow> settled (omap_insert k c t)"
  by (auto simp: settled_iff omap_ok_insert map_of_omap_insert split: if_splits)

lemma table_ok_map:
  "table_ok t \<Longrightarrow> (\<And>c. index (f c) = index c) \<Longrightarrow> table_ok (map (\<lambda>(k, c). (k, f c)) t)"
  by (auto simp: table_ok_def omap_ok_map list_all_iff)

lemma settled_map:
  "settled t \<Longrightarrow> (\<And>c. flag (f c) = flag c) \<Longrightarrow> settled (map (\<lambda>(k, c). (k, f c)) t)"
  by (auto simp: settled_def list_all_iff)

lemma keys_put [simp]: "keys (omap_put k c t) = keys t"
  by (simp add: keys_def)

lemma keys_insert [simp]: "keys (omap_insert k c t) = insert k (keys t)"
  by (simp add: keys_def)

lemma keys_map [simp]: "keys (map (\<lambda>(k, c). (k, f c)) t) = keys t"
  by (force simp: keys_def)

lemma keys_map_of: "k \<in> keys t \<longleftrightarrow> (\<exists>c. map_of t k = Some c)"
  by (auto simp: keys_def map_of_eq_None_iff dest: weak_map_of_SomeI)
    (metis fst_conv image_eqI map_of_SomeD)

lemma length_unreported:
  assumes "table_ok t"
  shows "length (filter (\<lambda>(k, c). k \<notin> A) t) = card (keys t - A)"
proof -
  let ?f = "filter (\<lambda>(k, c). k \<notin> A) t"
  have "distinct (map fst ?f)"
    by (intro omap_ok_distinct omap_ok_filter table_ok_omap assms)
  then have "length ?f = card (fst ` set ?f)" by (metis distinct_card length_map set_map)
  also have "fst ` set ?f = keys t - A" by (force simp: keys_def)
  finally show ?thesis .
qed

end
