(* ===== verification/CallSync.thy ===== *)
theory CallSync
  imports ControlBase
begin

text \<open>
  The contract of the report loops. \<^verbatim>\<open>ReportUpdateInfo\<close> of the CS, IMS and satellite controls has
  the same shape: for every reported call create or update the connection with that index and set
  its flag, then \<^verbatim>\<open>DeleteConnection\<close> removes the connections whose flag is not set and clears the
  flag of the others. \<open>call_sync\<close> states what one iteration and the sweep promise; the locale's
  lemmas show that afterwards the table holds exactly the reported calls, with their reports, and
  that the sweep reports exactly the calls that are gone.

  \<open>execute_post_dial\<close> is the text the three \<^verbatim>\<open>ExecutePostDial\<close> share.
\<close>

section \<open>What the controls share\<close>

record Control =
  isIgnoredIncomingCall :: bool

text \<open>\<^verbatim>\<open>ReportSingleCallInfo\<close>, when the register exists.\<close>

definition report_single :: "'x svc_env_scheme \<Rightarrow> CallReportInfo \<Rightarrow> TelCallState \<Rightarrow> act list" where
  "report_single e r s = (if e_register e then [ReportSingleCallInfo r s] else [])"

section \<open>Post dial\<close>

definition execute_post_dial ::
    "('c BaseConnection_scheme \<Rightarrow> char \<Rightarrow> errcode \<times> 'c BaseConnection_scheme \<times> act list) \<Rightarrow>
     'x svc_env_scheme \<Rightarrow> 'c BaseConnection_scheme omap \<Rightarrow> int \<Rightarrow> char \<Rightarrow>
     errcode \<times> 'c BaseConnection_scheme omap \<times> act list" where
  "execute_post_dial hook e t callId c0 =
     (if t = [] then (TELEPHONY_ERROR, t, [])
      else case FindConnectionByIndex t callId of
        None \<Rightarrow> (TELEPHONY_ERR_LOCAL_PTR_NULL, t, [])
      | Some (k, conn) \<Rightarrow>
          let (state, conn', currentChar, acts) = ProcessNextChar hook conn c0;
              rep = (case state of
                       POST_DIAL_CALL_STARTED \<Rightarrow>
                         if e_register e then [ReportPostDialChar currentChar] else [NullDeref]
                     | POST_DIAL_CALL_DELAY \<Rightarrow>
                         if e_register e then [ReportPostDialDelay (GetLeftPostDialCallString conn')]
                         else [NullDeref]
                     | _ \<Rightarrow> [])
          in (TELEPHONY_SUCCESS, omap_put k conn' t, acts @ rep))"

text \<open>The uninitialised \<^verbatim>\<open>currentChar\<close> of the caller is never read.\<close>

lemma execute_post_dial_indep:
  assumes "\<And>c x. postDialCallState c = POST_DIAL_CALL_STARTED \<Longrightarrow>
      postDialCallState (fst (snd (hook c x))) \<noteq> POST_DIAL_CALL_CANCELED"
  shows "execute_post_dial hook e t callId c0 = execute_post_dial hook e t callId c1"
  by (auto simp: execute_post_dial_def ProcessNextChar_def Let_def case_prod_beta
      split: option.splits PostDialCallState.splits)

lemma execute_post_dial_table:
  assumes "table_ok t" "map_of t i = Some c"
    and "execute_post_dial (post_dial_char f ims e s) e t i x0 = (r, t', acts)"
  shows "\<exists>c'. t' = omap_put i c' t \<and> index c' = index c \<and> flag c' = flag c \<and>
    callReportInfo c' = callReportInfo c"
proof -
  obtain st c' x a where p: "ProcessNextChar (post_dial_char f ims e s) c x0 = (st, c', x, a)"
    by (metis prod_cases4)
  have "t \<noteq> []" using assms(2) by auto
  then have "t' = omap_put i c' t"
    using assms p by (auto simp: execute_post_dial_def FindConnectionByIndex_map_of Let_def)
  with ProcessNextChar_keeps [OF p] show ?thesis by blast
qed

lemma execute_post_dial_other:
  assumes "table_ok t" "map_of t i = None"
  shows "fst (snd (execute_post_dial h e t i x0)) = t"
  using assms by (simp add: execute_post_dial_def FindConnectionByIndex_map_of)

lemma execute_post_dial_settled:
  assumes "table_ok t" "settled t"
  shows "table_ok (fst (snd (execute_post_dial (post_dial_char f ims e s) e t i x0))) \<and>
    settled (fst (snd (execute_post_dial (post_dial_char f ims e s) e t i x0))) \<and>
    keys (fst (snd (execute_post_dial (post_dial_char f ims e s) e t i x0))) = keys t"
proof (cases "map_of t i")
  case None
  with assms show ?thesis by (simp add: execute_post_dial_other)
next
  case (Some c)
  obtain r t' a where x: "execute_post_dial (post_dial_char f ims e s) e t i x0 = (r, t', a)"
    by (metis prod_cases3)
  from execute_post_dial_table [OF assms(1) Some x] obtain c' where
      c': "t' = omap_put i c' t" "index c' = index c" "flag c' = flag c" by blast
  have "index c = i" "\<not> flag c"
    using assms Some by (auto simp: table_ok_iff settled_iff)
  with c' assms x show ?thesis
    by (simp add: table_ok_put settled_put table_ok_omap)
qed

lemma reports_ril [simp]: "reports (map Ril xs) = []"
  by (induction xs) simp_all

lemma post_dial_char_reports:
  "(\<And>c i. reports (snd (f s c i)) = []) \<Longrightarrow> reports (snd (snd (post_dial_char f ims e s conn x))) = []"
  by (simp add: post_dial_char_def Let_def)

lemma execute_post_dial_reports:
  assumes "\<And>c x. reports (snd (snd (hook c x))) = []"
  shows "reports (snd (snd (execute_post_dial hook e t i x0))) = []"
  using assms
  by (auto simp: execute_post_dial_def ProcessNextChar_def Let_def case_prod_beta
      split: option.splits PostDialCallState.splits)

section \<open>Sorted tables are determined by their look-ups\<close>

lemma omap_eqI:
  fixes a b :: "'v omap"
  assumes "omap_ok a" "omap_ok b" "map_of a = map_of b"
  shows "a = b"
proof -
  have eq: "set a = set b"
    using assms map_of_ok by (metis subset_antisym subrelI)
  have s: "sorted (map fst x) \<and> distinct (map fst x)" if "omap_ok x" for x :: "'v omap"
    using that by (simp add: omap_ok_def strict_sorted_iff)
  have "inj_on fst (set a)" using s [OF assms(1)] by (simp add: distinct_map)
  then show ?thesis
    using map_sorted_distinct_set_unique [of fst a b] s [OF assms(1)] s [OF assms(2)] eq by simp
qed

section \<open>The contract\<close>

locale call_sync =
  fixes key :: "'call \<Rightarrow> int"
    and enc :: "'call \<Rightarrow> CallReportInfo"
    and upd :: "'call \<Rightarrow> 'c BaseConnection_scheme omap \<times> 's \<Rightarrow> 'c BaseConnection_scheme omap \<times> 's"
    and vec_of :: "'s \<Rightarrow> CallReportInfo list"
    and acts_of :: "'s \<Rightarrow> act list"
    and gone :: "'c BaseConnection_scheme \<Rightarrow> CallReportInfo"
    and sweep :: "'c BaseConnection_scheme omap \<Rightarrow> CallReportInfo list \<Rightarrow>
      CallReportInfo list \<times> 'c BaseConnection_scheme omap"
  assumes upd_ok: "table_ok t \<Longrightarrow> table_ok (fst (upd call (t, s)))"
    and upd_own: "table_ok t \<Longrightarrow>
      \<exists>c. map_of (fst (upd call (t, s))) (key call) = Some c \<and> flag c \<and> callReportInfo c = enc call"
    and upd_other: "table_ok t \<Longrightarrow> k \<noteq> key call \<Longrightarrow>
      map_of (fst (upd call (t, s))) k = map_of t k"
    and upd_vec: "vec_of (snd (upd call (t, s))) = vec_of s @ [enc call]"
    and upd_reports: "reports (acts_of s) = [] \<Longrightarrow> reports (acts_of (snd (upd call (t, s)))) = []"
    and sweep_eq: "sweep t vec =
      (vec @ map (\<lambda>(k, c). gone c) (filter (\<lambda>(k, c). \<not> flag c) t),
       map (\<lambda>(k, c). (k, c\<lparr>flag := False\<rparr>)) (filter (\<lambda>(k, c). flag c) t))"
begin

abbreviation run :: "'call list \<Rightarrow> 'c BaseConnection_scheme omap \<Rightarrow> 's \<Rightarrow> 'c BaseConnection_scheme omap"
  where "run xs t s \<equiv> fst (fold upd xs (t, s))"

lemma run_ok: "table_ok t \<Longrightarrow> table_ok (run xs t s)"
proof (induction xs arbitrary: t s)
  case (Cons call xs)
  then show ?case using upd_ok [of t call s] by (metis fold_simps(2) prod.collapse)
qed simp

lemma run_other:
  "table_ok t \<Longrightarrow> k \<notin> key ` set xs \<Longrightarrow> map_of (run xs t s) k = map_of t k"
proof (induction xs arbitrary: t s)
  case (Cons call xs)
  then show ?case using upd_ok [of t call s] upd_other [of t k call s]
    by (metis fold_simps(2) prod.collapse list.set_intros image_insert insert_iff list.simps(15))
qed simp

lemma run_own:
  "table_ok t \<Longrightarrow> k \<in> key ` set xs \<Longrightarrow>
   \<exists>c call. map_of (run xs t s) k = Some c \<and> flag c \<and> call \<in> set xs \<and> key call = k \<and>
     callReportInfo c = enc call"
proof (induction xs arbitrary: t s)
  case (Cons call xs)
  obtain t1 s1 where u: "upd call (t, s) = (t1, s1)" by (metis surj_pair)
  have ok: "table_ok t1" using upd_ok [OF Cons.prems(1), of call s] u by simp
  show ?case
  proof (cases "k \<in> key ` set xs")
    case True
    from Cons.IH [OF ok this, of s1] u show ?thesis by auto
  next
    case False
    with Cons.prems have k: "k = key call" by simp
    with upd_own [OF Cons.prems(1), of call s] u obtain c where
      "map_of t1 k = Some c" "flag c" "callReportInfo c = enc call" by auto
    with run_other [OF ok False, of s1] k u show ?thesis by auto
  qed
qed simp

lemma run_keys: "table_ok t \<Longrightarrow> keys (run xs t s) = keys t \<union> key ` set xs"
  using run_own [of t _ xs s] run_other [of t _ xs s]
  by (auto simp: keys_map_of) (metis imageI option.distinct(1) option.exhaust)+

lemma run_flag:
  assumes "table_ok t" "settled t" "map_of (run xs t s) k = Some c"
  shows "flag c \<longleftrightarrow> k \<in> key ` set xs"
proof (cases "k \<in> key ` set xs")
  case True
  with run_own [OF assms(1) True, of s] assms(3) show ?thesis by auto
next
  case False
  with run_other [OF assms(1) False, of s] assms(3) have "map_of t k = Some c" by simp
  with assms(1,2) False show ?thesis by (auto simp: settled_iff table_ok_omap)
qed

lemma sweep_ok:
  assumes "table_ok t"
  shows "table_ok (snd (sweep t [])) \<and> settled (snd (sweep t []))"
proof -
  have "table_ok (filter (\<lambda>(k, c). flag c) t)"
    using assms by (auto simp: table_ok_def omap_ok_filter list_all_iff)
  then show ?thesis
    by (auto simp: sweep_eq table_ok_def omap_ok_map settled_def list_all_iff)
qed

text \<open>After a round the table holds exactly the reported calls, no flag is left set, and the calls
  reported as disconnected are exactly those of the old table that were not reported.\<close>

lemma round_table:
  assumes "table_ok t" "settled t"
  shows "table_ok (snd (sweep (run xs t s) []))" "settled (snd (sweep (run xs t s) []))"
    "keys (snd (sweep (run xs t s) [])) = key ` set xs"
proof -
  have ok: "table_ok (run xs t s)" by (rule run_ok [OF assms(1)])
  from sweep_ok [OF ok] show "table_ok (snd (sweep (run xs t s) []))"
    and "settled (snd (sweep (run xs t s) []))" by simp_all
  have "keys (snd (sweep (run xs t s) [])) = {k. \<exists>c. map_of (run xs t s) k = Some c \<and> flag c}"
    using map_of_ok [OF table_ok_omap [OF ok]] by (force simp: sweep_eq keys_def)
  also have "\<dots> = key ` set xs"
    using run_flag [OF assms, of xs s] run_own [OF assms(1), of _ xs s] by blast
  finally show "keys (snd (sweep (run xs t s) [])) = key ` set xs" .
qed

lemma round_gone:
  assumes "table_ok t" "settled t"
  shows "fst (sweep (run xs t s) []) = map (\<lambda>(k, c). gone c) (filter (\<lambda>(k, c). k \<notin> key ` set xs) t)"
proof -
  let ?r = "run xs t s"
  have ok: "omap_ok ?r" "omap_ok t" using run_ok [OF assms(1)] assms(1) by (auto intro: table_ok_omap)
  have "map_of (filter (\<lambda>(k, c). \<not> flag c) ?r) k = map_of (filter (\<lambda>(k, c). k \<notin> key ` set xs) t) k" for k
  proof (cases "k \<in> key ` set xs")
    case True
    with run_flag [OF assms, of xs s] have "map_of (filter (\<lambda>(k, c). \<not> flag c) ?r) k = None"
      using map_of_omap_filter [OF ok(1), of "\<lambda>c. \<not> flag c"] by (auto split: option.splits)
    moreover have "map_of (filter (\<lambda>(k, c). k \<notin> key ` set xs) t) k = None"
      using True by (auto simp: map_of_eq_None_iff)
    ultimately show ?thesis by simp
  next
    case False
    have "map_of (filter (\<lambda>(k, c). \<not> flag c) ?r) k = map_of ?r k"
      using run_flag [OF assms, of xs s] False map_of_omap_filter [OF ok(1), of "\<lambda>c. \<not> flag c"]
      by (auto split: option.splits)
    also have "\<dots> = map_of t k" by (rule run_other [OF assms(1) False])
    also have "\<dots> = map_of (filter (\<lambda>(k, c). k \<notin> key ` set xs) t) k"
      using False by (induction t) auto
    finally show ?thesis .
  qed
  then have "filter (\<lambda>(k, c). \<not> flag c) ?r = filter (\<lambda>(k, c). k \<notin> key ` set xs) t"
    by (intro omap_eqI omap_ok_filter ok ext)
  then show ?thesis by (simp add: sweep_eq)
qed

lemma round_reports:
  assumes "table_ok t" "settled t" "distinct (map key xs)" "call \<in> set xs"
  shows "\<exists>c. map_of (snd (sweep (run xs t s) [])) (key call) = Some c \<and> callReportInfo c = enc call"
proof -
  have ok: "omap_ok (run xs t s)" using run_ok [OF assms(1)] by (rule table_ok_omap)
  from assms(4) obtain c call' where c: "map_of (run xs t s) (key call) = Some c" "flag c"
      "call' \<in> set xs" "key call' = key call" "callReportInfo c = enc call'"
    using run_own [OF assms(1), of "key call" xs s] by blast
  have "call' = call" using assms(3,4) c(3,4) by (metis distinct_map inj_onD)
  moreover have "map_of (snd (sweep (run xs t s) [])) (key call) = Some (c\<lparr>flag := False\<rparr>)"
    using c(1,2) by (simp add: sweep_eq map_of_omap_map map_of_omap_filter [OF ok])
  ultimately show ?thesis using c(5) by simp
qed

lemma run_vec: "vec_of (snd (fold upd xs (t, s))) = vec_of s @ map enc xs"
proof (induction xs arbitrary: t s)
  case (Cons x xs)
  obtain t1 s1 where u: "upd x (t, s) = (t1, s1)" by (metis surj_pair)
  with Cons.IH [of t1 s1] upd_vec [of x t s] show ?case by simp
qed simp

lemma run_reports: "reports (acts_of s) = [] \<Longrightarrow> reports (acts_of (snd (fold upd xs (t, s)))) = []"
proof (induction xs arbitrary: t s)
  case (Cons x xs)
  obtain t1 s1 where u: "upd x (t, s) = (t1, s1)" by (metis surj_pair)
  with Cons.IH [of s1 t1] upd_reports [OF Cons.prems, of x t] show ?case by simp
qed simp

text \<open>The whole round, as the code runs it.\<close>

lemma round:
  assumes "table_ok t" "settled t" "vec_of s = []" "reports (acts_of s) = []"
    and f: "fold upd xs (t, s) = (t1, s1)" and d: "sweep t1 (vec_of s1) = (v, t')"
  shows "table_ok t'" "settled t'" "keys t' = key ` set xs"
    "v = map enc xs @ map (\<lambda>(k, c). gone c) (filter (\<lambda>(k, c). k \<notin> key ` set xs) t)"
    "reports (acts_of s1) = []"
proof -
  have t': "snd (sweep t1 []) = t'" "v = vec_of s1 @ fst (sweep t1 [])"
    using d by (auto simp: sweep_eq)
  show "table_ok t'" "settled t'" "keys t' = key ` set xs"
    using round_table [OF assms(1,2), of xs s] f t'(1) by simp_all
  show "v = map enc xs @ map (\<lambda>(k, c). gone c) (filter (\<lambda>(k, c). k \<notin> key ` set xs) t)"
    using round_gone [OF assms(1,2), of xs s] run_vec [of xs t s] f t'(2) assms(3) by simp
  show "reports (acts_of s1) = []"
    using run_reports [OF assms(4), of xs t] f by simp
qed

end

section \<open>The loop with post dial\<close>

text \<open>The loops of the CS and the IMS control run the post-dial string of a call that has just been
  connected. \<open>sync_step\<close> is their common shape; the contract of \<^verbatim>\<open>ExecutePostDial\<close> gives the
  contract of the loop.\<close>

definition sync_step ::
    "('call \<Rightarrow> int) \<Rightarrow> ('call \<Rightarrow> string) \<Rightarrow> ('call \<Rightarrow> CallReportInfo) \<Rightarrow> 'c BaseConnection_scheme \<Rightarrow>
     (int \<Rightarrow> 'c BaseConnection_scheme omap \<Rightarrow> errcode \<times> 'c BaseConnection_scheme omap \<times> act list) \<Rightarrow> 'call \<Rightarrow>
     'c BaseConnection_scheme omap \<times> string \<times> CallReportInfo list \<times> act list \<Rightarrow>
     'c BaseConnection_scheme omap \<times> string \<times> CallReportInfo list \<times> act list" where
  "sync_step key num enc fresh exec call = (\<lambda>(t, pending, vec, acts).
     (case map_of t (key call) of
        None \<Rightarrow>
          (omap_insert (key call)
             (fresh\<lparr>callReportInfo := enc call, flag := True, index := key call, number := num call\<rparr>) t,
           pending, vec @ [enc call], acts)
      | Some c \<Rightarrow>
          let c1 = c\<lparr>flag := True, index := key call, callReportInfo := enc call, number := num call\<rparr> in
          if IsConnectedOut (r_state (callReportInfo c)) (r_state (enc call)) then
            let (_, t', pacts) = exec (key call) (omap_put (key call) (UpdateCallNumber pending c1) t)
            in (t', [], vec @ [enc call], acts @ pacts)
          else (omap_put (key call) c1 t, pending, vec @ [enc call], acts)))"

locale post_dial_loop =
  fixes key :: "'call \<Rightarrow> int"
    and num :: "'call \<Rightarrow> string"
    and enc :: "'call \<Rightarrow> CallReportInfo"
    and fresh :: "'c BaseConnection_scheme"
    and exec :: "int \<Rightarrow> 'c BaseConnection_scheme omap \<Rightarrow> errcode \<times> 'c BaseConnection_scheme omap \<times> act list"
    and upd :: "'call \<Rightarrow> 'c BaseConnection_scheme omap \<times> string \<times> CallReportInfo list \<times> act list \<Rightarrow>
      'c BaseConnection_scheme omap \<times> string \<times> CallReportInfo list \<times> act list"
    and gone :: "'c BaseConnection_scheme \<Rightarrow> CallReportInfo"
    and sweep :: "'c BaseConnection_scheme omap \<Rightarrow> CallReportInfo list \<Rightarrow>
      CallReportInfo list \<times> 'c BaseConnection_scheme omap"
  assumes exec_table: "table_ok t \<Longrightarrow> map_of t i = Some c \<Longrightarrow>
      \<exists>c'. fst (snd (exec i t)) = omap_put i c' t \<and> index c' = index c \<and> flag c' = flag c \<and>
        callReportInfo c' = callReportInfo c"
    and exec_reports: "reports (snd (snd (exec i t))) = []"
    and upd_step: "table_ok t \<Longrightarrow> upd call (t, s) = sync_step key num enc fresh exec call (t, s)"
    and upd_snd: "fst (snd (snd (upd call (t, s)))) = fst (snd s) @ [enc call]"
      "reports (snd (snd s)) = [] \<Longrightarrow> reports (snd (snd (snd (upd call (t, s))))) = []"
    and delete_eq: "sweep t vec =
      (vec @ map (\<lambda>(k, c). gone c) (filter (\<lambda>(k, c). \<not> flag c) t),
       map (\<lambda>(k, c). (k, c\<lparr>flag := False\<rparr>)) (filter (\<lambda>(k, c). flag c) t))"
begin

lemma step_table:
  assumes "table_ok t"
  shows "\<exists>c. flag c \<and> index c = key call \<and> callReportInfo c = enc call \<and>
    fst (upd call (t, s)) =
      (if map_of t (key call) = None then omap_insert (key call) c t else omap_put (key call) c t)"
proof (cases "map_of t (key call)")
  case None
  let ?c = "fresh\<lparr>callReportInfo := enc call, flag := True, index := key call, number := num call\<rparr>"
  from None show ?thesis
    by (intro exI [of _ ?c]) (simp add: upd_step [OF assms] sync_step_def case_prod_beta)
next
  case (Some c)
  obtain pending vec acts where s: "s = (pending, vec, acts)" by (metis prod_cases3)
  let ?k = "key call"
  let ?c1 = "c\<lparr>flag := True, index := ?k, callReportInfo := enc call, number := num call\<rparr>"
  let ?c2 = "UpdateCallNumber pending ?c1"
  show ?thesis
  proof (cases "IsConnectedOut (r_state (callReportInfo c)) (r_state (enc call))")
    case True
    have ok: "table_ok (omap_put ?k ?c2 t)" using assms by (intro table_ok_put) simp_all
    have m: "map_of (omap_put ?k ?c2 t) ?k = Some ?c2" using Some by (simp add: map_of_omap_put)
    from exec_table [OF ok m] obtain c' where
      c': "fst (snd (exec ?k (omap_put ?k ?c2 t))) = omap_put ?k c' (omap_put ?k ?c2 t)"
        "index c' = index ?c2" "flag c' = flag ?c2" "callReportInfo c' = callReportInfo ?c2" by blast
    with True Some show ?thesis
      by (intro exI [of _ c']) (simp add: upd_step [OF assms] sync_step_def s case_prod_beta)
  next
    case False
    with Some show ?thesis
      by (intro exI [of _ ?c1]) (simp add: upd_step [OF assms] sync_step_def s)
  qed
qed

lemma step_ok: "table_ok t \<Longrightarrow> table_ok (fst (upd call (t, s)))"
  using step_table [of t call s] by (auto simp: table_ok_insert table_ok_put)

lemma step_own:
  "table_ok t \<Longrightarrow>
   \<exists>c. map_of (fst (upd call (t, s))) (key call) = Some c \<and> flag c \<and> callReportInfo c = enc call"
  using step_table [of t call s] by (auto simp: map_of_omap_insert map_of_omap_put table_ok_omap)

lemma step_other: "table_ok t \<Longrightarrow> k \<noteq> key call \<Longrightarrow> map_of (fst (upd call (t, s))) k = map_of t k"
  using step_table [of t call s] by (auto simp: map_of_omap_insert map_of_omap_put table_ok_omap)

end

sublocale post_dial_loop \<subseteq> call_sync key enc upd "\<lambda>s. fst (snd s)" "\<lambda>s. snd (snd s)" gone sweep
  by unfold_locales (rule step_ok step_own step_other upd_snd delete_eq; assumption?)+

text \<open>The contract of \<^verbatim>\<open>ExecutePostDial\<close>, for the shared text.\<close>

lemma execute_post_dial_contract:
  assumes "table_ok t" "map_of t i = Some c"
  shows "\<exists>c'. fst (snd (execute_post_dial (post_dial_char f ims e s) e t i x0)) = omap_put i c' t \<and>
    index c' = index c \<and> flag c' = flag c \<and> callReportInfo c' = callReportInfo c"
  using execute_post_dial_table [OF assms, of f ims e s x0] by (metis prod.collapse)

section \<open>Walking through the post-dial string\<close>

text \<open>What one character causes, the rest of the string being left, with all singletons present.\<close>

definition char_acts ::
    "(int \<Rightarrow> char \<Rightarrow> int \<Rightarrow> errcode \<times> act list) \<Rightarrow> bool \<Rightarrow> 'x svc_env_scheme \<Rightarrow> int \<Rightarrow> int \<Rightarrow> char \<Rightarrow> string \<Rightarrow> act list"
where
  "char_acts f ims e slotId i x rest =
     (if IsDtmfKey x then snd (f slotId x i) @ [ReportPostDialChar x]
      else if IsPauseKey x then
        (if e_handler e slotId then [SendPostDialEvent slotId \<lparr>pd_callId = i, pd_isIms = ims\<rparr> PAUSE_DELAY_TIME]
         else [])
      else if IsWaitKey x then [ReportPostDialDelay rest]
      else [ReportPostDialChar x])"

fun post_dial_trace ::
    "(int \<Rightarrow> char \<Rightarrow> int \<Rightarrow> errcode \<times> act list) \<Rightarrow> bool \<Rightarrow> 'x svc_env_scheme \<Rightarrow> int \<Rightarrow> int \<Rightarrow> string \<Rightarrow> act list"
where
  "post_dial_trace f ims e slotId i [] = []"
| "post_dial_trace f ims e slotId i (x # xs) =
     char_acts f ims e slotId i x xs @ post_dial_trace f ims e slotId i xs"

fun post_dial_iter :: "nat \<Rightarrow> ('t \<Rightarrow> errcode \<times> 't \<times> act list) \<Rightarrow> 't \<Rightarrow> 't \<times> act list" where
  "post_dial_iter 0 step t = (t, [])"
| "post_dial_iter (Suc n) step t =
     (let (_, t1, acts) = step t; (t2, acts') = post_dial_iter n step t1 in (t2, acts @ acts'))"

lemma key_classes:
  "\<not> (IsDtmfKey x \<and> IsPauseKey x)" "\<not> (IsDtmfKey x \<and> IsWaitKey x)" "\<not> (IsPauseKey x \<and> IsWaitKey x)"
  by (auto simp: IsDtmfKey_def IsPauseKey_def IsWaitKey_def is_digit_def)

lemma execute_post_dial_step:
  assumes ok: "table_ok t" and m: "map_of t i = Some c" and nc: "postDialCallState c \<noteq> POST_DIAL_CALL_CANCELED"
    and left: "GetLeftPostDialCallString c = x # xs" and env: "e_service e" "e_register e"
  shows "\<exists>c'. execute_post_dial (post_dial_char f ims e s) e t i x0 =
      (TELEPHONY_SUCCESS, omap_put i c' t, char_acts f ims e s i x xs) \<and>
    index c' = i \<and> GetLeftPostDialCallString c' = xs \<and> postDialCallState c' = char_state x"
proof -
  let ?n = "nextPostDialCallCode c"
  have i: "index c = i" and ne: "t \<noteq> []" using ok m by (auto simp: table_ok_iff)
  have lt: "?n < length (postDialCallString c)" and d: "drop ?n (postDialCallString c) = x # xs"
    using left by (auto simp: GetLeftPostDialCallString_def split: if_splits)
  have x: "postDialCallString c ! ?n = x" and xs: "drop (Suc ?n) (postDialCallString c) = xs"
    using d Cons_nth_drop_Suc [OF lt] by simp_all
  let ?c2 = "c\<lparr>postDialCallState := POST_DIAL_CALL_STARTED, nextPostDialCallCode := Suc ?n\<rparr>"
  obtain r c' a where r: "post_dial_char f ims e s ?c2 x = (r, c', a)" by (metis prod_cases3)
  have c': "postDialCallState c' = char_state x" "GetLeftPostDialCallString c' = xs" "index c' = i"
    using post_dial_char_state [of ?c2 f ims e s x] post_dial_char_keeps [of f ims e s ?c2 x] r i
    by (simp_all add: left_drop xs)
  have p: "ProcessNextChar (post_dial_char f ims e s) c x0 = (char_state x, c', x, a)"
    using nc lt x r c'(1) by (auto simp: ProcessNextChar_def Let_def)
  have "execute_post_dial (post_dial_char f ims e s) e t i x0 =
      (TELEPHONY_SUCCESS, omap_put i c' t, char_acts f ims e s i x xs)"
    using r i env c'(2) key_classes [of x] ne m
    by (auto simp: execute_post_dial_def FindConnectionByIndex_map_of [OF ok] p char_state_def char_acts_def
        post_dial_char_def Let_def split: if_splits)
  with c' show ?thesis by blast
qed

lemma execute_post_dial_walk:
  assumes "table_ok t" "map_of t i = Some c" "postDialCallState c \<noteq> POST_DIAL_CALL_CANCELED"
    and "e_service e" "e_register e" and "GetLeftPostDialCallString c = xs"
  shows "\<exists>t' c'. post_dial_iter (length xs) (\<lambda>t. execute_post_dial (post_dial_char f ims e s) e t i x0) t =
      (t', post_dial_trace f ims e s i xs) \<and>
    map_of t' i = Some c' \<and> GetLeftPostDialCallString c' = [] \<and> keys t' = keys t \<and>
    execute_post_dial (post_dial_char f ims e s) e t' i x0 =
      (TELEPHONY_SUCCESS, omap_put i (c'\<lparr>postDialCallState := POST_DIAL_CALL_COMPLETE\<rparr>) t', [])"
  using assms(1-3,6)
proof (induction xs arbitrary: t c)
  case Nil
  then have "t \<noteq> []" by auto
  with Nil show ?case
    by (intro exI [of _ t] exI [of _ c])
      (simp add: execute_post_dial_def FindConnectionByIndex_map_of ProcessNextChar_done)
next
  case (Cons x xs)
  from execute_post_dial_step [OF Cons.prems(1-4) assms(4,5), of f ims s x0] obtain c1 where
    c1: "execute_post_dial (post_dial_char f ims e s) e t i x0 =
        (TELEPHONY_SUCCESS, omap_put i c1 t, char_acts f ims e s i x xs)"
      "index c1 = i" "GetLeftPostDialCallString c1 = xs" "postDialCallState c1 = char_state x" by blast
  have "table_ok (omap_put i c1 t)" using Cons.prems(1) c1(2) by (simp add: table_ok_put)
  moreover have "map_of (omap_put i c1 t) i = Some c1" using Cons.prems(2) by (simp add: map_of_omap_put)
  moreover have "postDialCallState c1 \<noteq> POST_DIAL_CALL_CANCELED"
    by (simp add: c1(4) char_state_def)
  ultimately obtain t' c' where
    "post_dial_iter (length xs) (\<lambda>t. execute_post_dial (post_dial_char f ims e s) e t i x0) (omap_put i c1 t) =
        (t', post_dial_trace f ims e s i xs)"
      "map_of t' i = Some c'" "GetLeftPostDialCallString c' = []" "keys t' = keys t"
      "execute_post_dial (post_dial_char f ims e s) e t' i x0 =
        (TELEPHONY_SUCCESS, omap_put i (c'\<lparr>postDialCallState := POST_DIAL_CALL_COMPLETE\<rparr>) t', [])"
    using Cons.IH [of "omap_put i c1 t" c1] c1(3) by auto
  with c1(1) show ?case by (intro exI [of _ t'] exI [of _ c']) simp
qed

end
