(* ===== verification/Samples.thy ===== *)
theory Samples
  imports CallSync
begin

text \<open>
  Concrete answers of the surroundings and concrete calls, on which the properties are applied: a
  device with one slot where every service exists and every request succeeds.
\<close>

definition zero_report :: CallReportInfo where
  "zero_report =
     \<lparr>r_accountNum = [], r_index = 0, r_accountId = 0, r_callType = TYPE_CS, r_callMode = TYPE_VOICE,
      r_state = CALL_STATUS_ACTIVE, r_voiceDomain = 0, r_mpty = 0, r_name = [], r_namePresentation = 0,
      r_crsType = 0, r_originalCallType = 0, r_newCallUseBox = 0, r_rttState = 0, r_rttChannelId = 0,
      r_imsDomain = 0, r_reason = DISCONNECTED_REASON_INVALID, r_message = [], r_isPendingHold = False\<rparr>"

definition sample_env :: dial_env where
  "sample_env =
     \<lparr>e_service = True, e_handler = (\<lambda>_. True), e_register = True, e_cbRegistered = True,
      e_imsClient = True, e_imsProxy = True, e_imsResult = (\<lambda>_. TELEPHONY_SUCCESS),
      e_satClient = True, e_satResult = (\<lambda>_. TELEPHONY_SUCCESS),
      e_zeroReport = zero_report, e_defaultReport = zero_report, e_videoStateInt = (\<lambda>_. 0),
      e_kMaxNumberLen = 100,
      e_maxSimCount = 1, e_imsConns = (\<lambda>_. Some 0), e_csConns = (\<lambda>_. Some 0), e_satConns = (\<lambda>_. None),
      e_satFeature = False,
      e_netCountry = (\<lambda>_. ''cn''), e_simCountry = (\<lambda>_. ''cn''), e_eccList = (\<lambda>_. []),
      e_mcc = (\<lambda>_. ''460''), e_dynPoweroff = False, e_isEmergencyNumber = (\<lambda>_ _. False),
      e_basePower = False, e_radioOnFlag = (\<lambda>_. True), e_radioState = (\<lambda>_. True),
      e_csReg = (\<lambda>_. REG_STATE_IN_SERVICE), e_psReg = (\<lambda>_. REG_STATE_IN_SERVICE),
      e_phoneType = (\<lambda>_. PHONE_TYPE_IS_GSM), e_airplane = (TELEPHONY_SUCCESS, False),
      e_hasSim = (\<lambda>_. True), e_simActive = (\<lambda>_. True), e_updateRadioOn = (\<lambda>_. TELEPHONY_SUCCESS),
      e_setActiveSim = (\<lambda>_. TELEPHONY_SUCCESS), e_readyToCall = (\<lambda>_. True), e_wakes = [],
      e_isMmiCode = None, e_sendEvent = True\<rparr>"

lemma sample_env_simps [simp]:
  "e_service sample_env" "e_handler sample_env s" "e_register sample_env" "e_cbRegistered sample_env"
  "e_imsClient sample_env" "e_imsProxy sample_env" "e_imsResult sample_env q = TELEPHONY_SUCCESS"
  "e_satClient sample_env" "e_satResult sample_env sq = TELEPHONY_SUCCESS"
  "e_zeroReport sample_env = zero_report" "e_defaultReport sample_env = zero_report"
  "e_kMaxNumberLen sample_env = 100" "e_eccList sample_env s = []" "e_netCountry sample_env s = ''cn''"
  "\<not> e_isEmergencyNumber sample_env n c" "\<not> e_basePower sample_env" "e_radioState sample_env s"
  "e_csReg sample_env s = REG_STATE_IN_SERVICE" "e_psReg sample_env s = REG_STATE_IN_SERVICE"
  "e_phoneType sample_env s = PHONE_TYPE_IS_GSM" "e_airplane sample_env = (TELEPHONY_SUCCESS, False)"
  "e_hasSim sample_env s" "e_simActive sample_env s" "e_readyToCall sample_env s"
  "e_isMmiCode sample_env = None" "e_sendEvent sample_env" "e_maxSimCount sample_env = 1"
  "e_imsConns sample_env s = Some 0" "e_csConns sample_env s = Some 0" "\<not> e_satFeature sample_env"
  "e_wakes sample_env = []" "\<not> e_dynPoweroff sample_env"
  by (simp_all add: sample_env_def)

definition sample_info :: CellularCallInfo where
  "sample_info =
     \<lparr>ci_callId = 1, ci_phoneNum = ''13800000000'', ci_slotId = 0, ci_accountId = 0, ci_callType = TYPE_CS,
      ci_videoState = 0, ci_index = 1, ci_isRTT = False\<rparr>"

definition sample_call :: "int \<Rightarrow> TelCallState \<Rightarrow> CallInfo" where
  "sample_call i s =
     \<lparr>c_index = i, c_dir = 0, c_state = s, c_mpty = 0, c_voiceDomain = 0, c_number = ''10086'', c_type = 129,
      c_name = [], c_namePresentation = 0\<rparr>"

definition sample_ims_call :: "int \<Rightarrow> TelCallState \<Rightarrow> ImsCurrentCall" where
  "sample_ims_call i s =
     \<lparr>m_index = i, m_dir = 0, m_state = s, m_mode = 0, m_mpty = 0, m_voiceDomain = 1, m_callType = TEL_IMS_CALL_TYPE_VOICE,
      m_number = ''10086'', m_name = [], m_type = 0, m_alpha = [], m_toa = 129, m_toneType = 0, m_callInitialType = 0,
      m_namePresentation = 0, m_newCallUseBox = 0, m_rttState = 0, m_rttChannelId = 0, m_imsDomain = 0\<rparr>"

definition sample_sat_call :: "int \<Rightarrow> TelCallState \<Rightarrow> SatelliteCurrentCall" where
  "sample_sat_call i s =
     \<lparr>t_index = i, t_dir = 0, t_state = s, t_mode = 0, t_mpty = 0, t_voiceDomain = 0, t_callType = 0,
      t_number = ''10086'', t_type = 0, t_alpha = [], t_toa = 129\<rparr>"

text \<open>A connection with a given index and state and post-dial string.\<close>

definition sample_base :: "int \<Rightarrow> TelCallState \<Rightarrow> string \<Rightarrow> BaseConnection" where
  "sample_base i s p =
     \<lparr>phoneNumber = [], flag = False, index = i, number = ''10086'',
      callReportInfo = zero_report\<lparr>r_index := i, r_state := s\<rparr>,
      postDialCallState = POST_DIAL_CALL_NOT_STARTED, nextPostDialCallCode = 0, postDialCallString = p\<rparr>"

lemmas sample_defs = sample_info_def sample_call_def sample_ims_call_def sample_sat_call_def
  sample_base_def zero_report_def

end
