(* ===== verification/Interception.thy ===== *)
theory Interception
  imports Samples
begin

text \<open>
  Properties of the checks before dialling (\<^verbatim>\<open>DialPreJudgment\<close>, \<^verbatim>\<open>HandleEcc\<close>) and of the MMI
  interception (\<^verbatim>\<open>IsNeedExecuteMMI\<close>) of \<open>ControlBase\<close>.
\<close>

section \<open>Dialling checks\<close>

lemma ecc_wait_returns:
  "WakeTimeout \<in> set ws \<or> WakeNotify True \<in> set ws \<or> r \<Longrightarrow> \<exists>x. ecc_wait r ws = Some x"
  by (induction r ws rule: ecc_wait.induct) auto

lemma DialPreJudgment_not_ecc:
  "DialPreJudgment e i False = Some
     (if ci_phoneNum i = [] then CALL_ERR_PHONE_NUMBER_EMPTY
      else if e_basePower e \<and> \<not> e_service e then TELEPHONY_ERR_LOCAL_PTR_NULL
      else if \<not> (if e_basePower e then e_radioOnFlag e (ci_slotId i) else e_radioState e (ci_slotId i))
        then CALL_ERR_GET_RADIO_STATE_FAILED
      else TELEPHONY_SUCCESS, [])"
  by (simp add: DialPreJudgment_def HandleEcc_def Let_def)

lemma HandleEcc_requests:
  "HandleEcc e i ecc a s = Some (r, acts) \<Longrightarrow> x \<in> set acts \<Longrightarrow>
   x = Ril (RilUpdateRadioOn (ci_slotId i)) \<or> (\<exists>slot. x = Ril (RilSetActiveSim slot True))"
  by (auto simp: HandleEcc_def Let_def split: if_splits)

lemma HandleEcc_returns:
  assumes "WakeTimeout \<in> set (e_wakes e) \<or> WakeNotify True \<in> set (e_wakes e) \<or> e_readyToCall e (ci_slotId i)"
  shows "\<exists>x. HandleEcc e i ecc a s = Some x"
  using ecc_wait_returns [OF assms] by (auto simp: HandleEcc_def Let_def)

text \<open>C10: the check before dialling always returns, whatever the emergency wait does: as soon as one wake-up
  is a time-out or finds the ready flag set. It accepts exactly when a number was given and the radio is
  on - the outcome of the emergency preparation is not looked at -, and the only requests it makes are to
  switch the radio on and to activate SIM cards, none of them for a normal call.\<close>

theorem DialPreJudgment_returns:
  assumes "WakeTimeout \<in> set (e_wakes e) \<or> WakeNotify True \<in> set (e_wakes e) \<or> e_readyToCall e (ci_slotId i)"
  shows "\<exists>r acts. DialPreJudgment e i isEcc = Some (r, acts) \<and>
    (r = TELEPHONY_SUCCESS \<longleftrightarrow> ci_phoneNum i \<noteq> [] \<and> (e_basePower e \<longrightarrow> e_service e) \<and>
       (if e_basePower e then e_radioOnFlag e (ci_slotId i) else e_radioState e (ci_slotId i))) \<and>
    (\<not> isEcc \<longrightarrow> acts = []) \<and>
    (\<forall>x \<in> set acts. x = Ril (RilUpdateRadioOn (ci_slotId i)) \<or> (\<exists>slot. x = Ril (RilSetActiveSim slot True)))"
proof -
  obtain x acts where h: "HandleEcc e i isEcc (CheckAirplaneModeScene e)
      (CheckActivateSimScene e (ci_slotId i)) = Some (x, acts)"
    using HandleEcc_returns [OF assms] by (metis surj_pair)
  have "acts = []" if "\<not> isEcc" using h that by (simp add: HandleEcc_def)
  moreover have "\<forall>x \<in> set acts. x = Ril (RilUpdateRadioOn (ci_slotId i)) \<or> (\<exists>slot. x = Ril (RilSetActiveSim slot True))"
    using HandleEcc_requests [OF h] by blast
  ultimately show ?thesis by (simp add: DialPreJudgment_def h Let_def)
qed

theorem DialPreJudgment_returns_witness:
  "\<exists>r acts. DialPreJudgment (sample_env\<lparr>e_airplane := (TELEPHONY_SUCCESS, True),
      e_readyToCall := \<lambda>_. False, e_wakes := [WakeNotify False, WakeTimeout]\<rparr>) sample_info True = Some (r, acts) \<and>
    r = TELEPHONY_SUCCESS"
  using DialPreJudgment_returns [of "sample_env\<lparr>e_airplane := (TELEPHONY_SUCCESS, True),
      e_readyToCall := \<lambda>_. False, e_wakes := [WakeNotify False, WakeTimeout]\<rparr>" sample_info True]
  by (auto simp: sample_info_def)

section \<open>MMI interception\<close>

lemma IsNeedExecuteMmi_parsed:
  assumes "mmi_wf a code fs dial"
  shows "IsNeedExecuteMmi e u (mmi_print a code fs dial) ims =
    (True, u\<lparr>isNeedUseIms := ims, mmiData := mmi_data a code fs dial\<rparr>)"
proof -
  have len: "length (mmi_print a code fs dial) > 2"
    using assms by (auto simp: mmi_print_def mmi_head_def mmi_wf_def digit_code_def is_action_def)
  then have "\<not> IsShortCode e (mmi_print a code fs dial)"
    by (simp add: IsShortCode_def IsShortCodeWithCellularCall_def IsShortCodeWithoutCellularCall_def)
  moreover have "mmi_print a code fs dial \<noteq> []" using len by auto
  ultimately show ?thesis
    using RegexMatchMmi_print [OF assms] by (simp add: IsNeedExecuteMmi_def Let_def)
qed

text \<open>A call with a CLIR prefix (\<^verbatim>\<open>*31#number\<close>, \<^verbatim>\<open>#31#number\<close>) is not taken for a supplementary-service
  request: the number behind the prefix is dialled with the caller's number hidden or shown, and no
  event is sent.\<close>

theorem clir_prefix:
  assumes wf: "mmi_wf a ''31'' [] num" and a: "a = ''*'' \<or> a = ''#''" and num: "num \<noteq> []"
    and ecc: "\<not> ControlBase_IsEmergencyCall e slotId (mmi_print a ''31'' [] num)" and ext: "e_isMmiCode e = None"
  shows "IsNeedExecuteMMI e slotId (mmi_print a ''31'' [] num) m ims =
    (False, num, if a = ''*'' then INHIBITION else TRANSFER, [])"
proof -
  have d: "serviceCode (mmi_data a ''31'' [] num) = ''31''" "dialString (mmi_data a ''31'' [] num) = num"
    "actionString (mmi_data a ''31'' [] num) = a"
    by (simp_all add: mmi_data_def)
  show ?thesis
    using a num ecc ext d
    by (auto simp: IsNeedExecuteMMI_def IsNeedExecuteMmi_parsed [OF wf] Let_def)
qed

theorem clir_prefix_witness:
  "IsNeedExecuteMMI sample_env 0 (mmi_print ''*'' ''31'' [] ''10086'') DEFAULT False = (False, ''10086'', INHIBITION, [])"
proof -
  have "mmi_wf ''*'' ''31'' [] ''10086''"
    by (simp add: mmi_wf_def is_action_def digit_code_def is_digit_def not_newline_def)
  moreover have "\<not> ControlBase_IsEmergencyCall sample_env 0 (mmi_print ''*'' ''31'' [] ''10086'')"
    by (simp add: ControlBase_IsEmergencyCall_def IsEmergencyCall_def IsEmergencyCallProcessing_def
        mmi_print_def mmi_head_def builtin_ecc_def)
  ultimately show ?thesis using clir_prefix [of "''*''" "''10086''" sample_env 0 DEFAULT False] by simp
qed

end
