(* ===== verification/ConnectionCs.thy ===== *)
theory ConnectionCs
  imports Interception
begin

text \<open>
  \<^verbatim>\<open>services/connection/src/cellular_call_connection_cs.cpp\<close>: the requests of a circuit-switched
  connection to the modem. Every request has the prologue \<open>ril_request\<close>; the record adds the
  disconnect reason to the base connection. \<open>\<dots>_cs\<close> names the operation of this class.
\<close>

record CellularCallConnectionCS = BaseConnection +
  csDisconnectReason :: RilDisconnectedReason

definition CellularCallConnectionCS_init :: "'x svc_env_scheme \<Rightarrow> CellularCallConnectionCS" where
  "CellularCallConnectionCS_init e =
     \<lparr>phoneNumber = [], flag = False, index = 1, number = [], callReportInfo = e_zeroReport e,
      postDialCallState = POST_DIAL_CALL_NOT_STARTED, nextPostDialCallCode = 0, postDialCallString = [],
      csDisconnectReason = DISCONNECTED_REASON_INVALID\<rparr>"

definition DialRequest_cs ::
    "'x svc_env_scheme \<Rightarrow> int \<Rightarrow> DialRequestStruct \<Rightarrow> CellularCallConnectionCS \<Rightarrow>
     errcode \<times> CellularCallConnectionCS \<times> act list" where
  "DialRequest_cs e slotId dialRequest c =
     (if \<not> e_service e then (CALL_ERR_RESOURCE_UNAVAILABLE, c, [])
      else if \<not> e_handler e slotId then (CALL_ERR_RESOURCE_UNAVAILABLE, c, [])
      else let c' = UpdateCallNumber (dr_phoneNum dialRequest) c in
        (TELEPHONY_SUCCESS, c'\<lparr>phoneNumber := []\<rparr>,
         [Ril (RilDial slotId (phoneNumber c') (dr_clirMode dialRequest))]))"

definition HangUpRequest_cs :: "'x svc_env_scheme \<Rightarrow> int \<Rightarrow> CellularCallConnectionCS \<Rightarrow> errcode \<times> act list" where
  [req_defs]: "HangUpRequest_cs e slotId c = ril_request e slotId [RilHangup slotId (index c)]"

definition AnswerRequest_cs :: "'x svc_env_scheme \<Rightarrow> int \<Rightarrow> errcode \<times> act list" where
  [req_defs]: "AnswerRequest_cs e slotId = ril_request e slotId [RilSetMute slotId False, RilAnswer slotId]"

definition RejectRequest_cs :: "'x svc_env_scheme \<Rightarrow> int \<Rightarrow> errcode \<times> act list" where
  [req_defs]: "RejectRequest_cs e slotId = ril_request e slotId [RilReject slotId]"

definition HoldRequest_cs :: "'x svc_env_scheme \<Rightarrow> int \<Rightarrow> errcode \<times> act list" where
  [req_defs]: "HoldRequest_cs e slotId = ril_request e slotId [RilHoldCall slotId]"

definition UnHoldCallRequest_cs :: "'x svc_env_scheme \<Rightarrow> int \<Rightarrow> errcode \<times> act list" where
  [req_defs]: "UnHoldCallRequest_cs e slotId = ril_request e slotId [RilUnHoldCall slotId]"

definition SwitchCallRequest_cs :: "'x svc_env_scheme \<Rightarrow> int \<Rightarrow> errcode \<times> act list" where
  [req_defs]: "SwitchCallRequest_cs e slotId = ril_request e slotId [RilSwitchCall slotId]"

definition CombineConferenceRequest_cs :: "'x svc_env_scheme \<Rightarrow> int \<Rightarrow> int \<Rightarrow> errcode \<times> act list" where
  [req_defs]: "CombineConferenceRequest_cs e slotId voiceCall =
     ril_request e slotId [RilCombineConference slotId voiceCall]"

definition SeparateConferenceRequest_cs :: "'x svc_env_scheme \<Rightarrow> int \<Rightarrow> int \<Rightarrow> int \<Rightarrow> errcode \<times> act list" where
  [req_defs]: "SeparateConferenceRequest_cs e slotId i voiceCall =
     ril_request e slotId [RilSeparateConference slotId i voiceCall]"

definition CallSupplementRequest_cs :: "'x svc_env_scheme \<Rightarrow> int \<Rightarrow> CallSupplementType \<Rightarrow> errcode \<times> act list" where
  [req_defs]: "CallSupplementRequest_cs e slotId ty = ril_request e slotId [RilCallSupplement slotId ty]"

definition SendCDMAThreeWayDialRequest_cs :: "int \<Rightarrow> errcode \<times> act list" where
  "SendCDMAThreeWayDialRequest_cs slotId = (TELEPHONY_SUCCESS, [])"

definition SendDtmfRequest_cs :: "'x svc_env_scheme \<Rightarrow> int \<Rightarrow> char \<Rightarrow> int \<Rightarrow> errcode \<times> act list" where
  [req_defs]: "SendDtmfRequest_cs e slotId c i = ril_request e slotId [RilSendDTMF slotId c i]"

definition StartDtmfRequest_cs :: "'x svc_env_scheme \<Rightarrow> int \<Rightarrow> char \<Rightarrow> int \<Rightarrow> errcode \<times> act list" where
  [req_defs]: "StartDtmfRequest_cs e slotId c i = ril_request e slotId [RilStartDTMF slotId c i]"

definition StopDtmfRequest_cs :: "'x svc_env_scheme \<Rightarrow> int \<Rightarrow> int \<Rightarrow> errcode \<times> act list" where
  [req_defs]: "StopDtmfRequest_cs e slotId i = ril_request e slotId [RilStopDTMF slotId i]"

definition GetCsCallsDataRequest_cs :: "'x svc_env_scheme \<Rightarrow> int \<Rightarrow> errcode \<times> act list" where
  [req_defs]: "GetCsCallsDataRequest_cs e slotId = ril_request e slotId [RilGetCallList slotId]"

definition GetCallFailReasonRequest_cs :: "'x svc_env_scheme \<Rightarrow> int \<Rightarrow> errcode \<times> act list" where
  [req_defs]: "GetCallFailReasonRequest_cs e slotId = ril_request e slotId [RilGetCallFailReason slotId]"

definition ProcessPostDialCallChar_cs ::
    "'x svc_env_scheme \<Rightarrow> int \<Rightarrow> CellularCallConnectionCS \<Rightarrow> char \<Rightarrow>
     errcode \<times> CellularCallConnectionCS \<times> act list" where
  "ProcessPostDialCallChar_cs e = post_dial_char (SendDtmfRequest_cs e) False e"

section \<open>Properties\<close>

text \<open>A request to the modem is issued exactly when service and handler exist.\<close>

lemma ril_request_cases:
  "ril_request e s reqs =
     (if e_service e \<and> e_handler e s then (TELEPHONY_SUCCESS, map Ril reqs)
      else (CALL_ERR_RESOURCE_UNAVAILABLE, []))"
  by (simp add: ril_request_def)

text \<open>The number given to the modem is the network address of the dialled string: without the
  post-dial part, which stays in the connection.\<close>

lemma DialRequest_cs_fresh:
  assumes "e_service e" "e_handler e slotId"
  shows "DialRequest_cs e slotId \<lparr>dr_phoneNum = n, dr_clirMode = m\<rparr> (CellularCallConnectionCS_init e) =
    (TELEPHONY_SUCCESS,
     (CellularCallConnectionCS_init e)\<lparr>postDialCallString := snd (address_scan n)\<rparr>,
     [Ril (RilDial slotId (fst (address_scan n)) m)])"
  using assms
  by (simp add: DialRequest_cs_def CellularCallConnectionCS_init_def UpdateCallNumber_def
      ExtractAddressAndPostDial_def case_prod_beta)

end
