(* ===== verification/CsControl.thy ===== *)
theory CsControl
  imports ConnectionCs
begin

text \<open>
  \<^verbatim>\<open>services/control/src/cs_control.cpp\<close>: the circuit-switched control of one slot. The state is the
  table of connections, the number being dialled and the mark of an ignored incoming call; an
  operation maps the answers of the surroundings and the state to a result code, the new state and
  the trace of effects. The recursive lock that makes each operation atomic is not a part of the
  state. \<open>\<dots>_cs\<close> names the operation of this class.
\<close>

record CSControl = Control +
  csConnectionMap :: "CellularCallConnectionCS omap"
  csPendingPhoneNumber :: string

section \<open>Dialling\<close>

definition EncapsulateDialCommon_cs ::
    "'x svc_env_scheme \<Rightarrow> int \<Rightarrow> string \<Rightarrow> CLIRMode \<Rightarrow> CSControl \<Rightarrow> errcode \<times> CSControl \<times> act list" where
  "EncapsulateDialCommon_cs e slotId phoneNum clirMode ctl =
     (let ctl' = ctl\<lparr>csPendingPhoneNumber := phoneNum\<rparr>;
          dialRequest = \<lparr>dr_phoneNum = phoneNum, dr_clirMode = clirMode\<rparr> in
      if \<not> e_service e then (CALL_ERR_RESOURCE_UNAVAILABLE, ctl', [])
      else
        let (ret, _, acts) = DialRequest_cs e slotId dialRequest (CellularCallConnectionCS_init e)
        in (ret, ctl', SetMute slotId False # acts))"

definition DialCdma ::
    "'x dial_env_scheme \<Rightarrow> CellularCallInfo \<Rightarrow> CSControl \<Rightarrow> errcode \<times> CSControl \<times> act list" where
  "DialCdma e callInfo ctl =
     (let slotId = ci_slotId callInfo;
          (mmi, newPhoneNum, clirMode, macts) =
            IsNeedExecuteMMI e slotId (RemoveSeparatorsPhoneNumber (ci_phoneNum callInfo)) DEFAULT False in
      if mmi then (RETURN_TYPE_MMI, ctl, macts)
      else if \<not> CanCall (csConnectionMap ctl) then (CALL_ERR_CALL_COUNTS_EXCEED_LIMIT, ctl, macts)
      else if IsInState (csConnectionMap ctl) CALL_STATUS_ACTIVE then
        let (ret, acts) = SendCDMAThreeWayDialRequest_cs slotId in (ret, ctl, macts @ acts)
      else
        let (ret, ctl', acts) = EncapsulateDialCommon_cs e slotId newPhoneNum clirMode ctl
        in (ret, ctl', macts @ acts))"

definition DialGsm ::
    "'x dial_env_scheme \<Rightarrow> CellularCallInfo \<Rightarrow> CSControl \<Rightarrow> errcode \<times> CSControl \<times> act list" where
  "DialGsm e callInfo ctl =
     (let slotId = ci_slotId callInfo;
          (mmi, newPhoneNum, clirMode, macts) =
            IsNeedExecuteMMI e slotId (RemoveSeparatorsPhoneNumber (ci_phoneNum callInfo)) DEFAULT False in
      if mmi then (RETURN_TYPE_MMI, ctl, macts)
      else if \<not> CanCall (csConnectionMap ctl) then (CALL_ERR_CALL_COUNTS_EXCEED_LIMIT, ctl, macts)
      else
        let sacts = (if IsInState (csConnectionMap ctl) CALL_STATUS_ACTIVE
                     then snd (SwitchCallRequest_cs e slotId) else []);
            (ret, ctl', acts) = EncapsulateDialCommon_cs e slotId newPhoneNum clirMode ctl
        in (ret, ctl', macts @ sacts @ acts))"

text \<open>\<open>None\<close>: still waiting in \<^verbatim>\<open>HandleEcc\<close>.\<close>

definition Dial_cs ::
    "'x dial_env_scheme \<Rightarrow> CellularCallInfo \<Rightarrow> bool \<Rightarrow> CSControl \<Rightarrow> (errcode \<times> CSControl \<times> act list) option" where
  "Dial_cs e callInfo isEcc ctl =
     (case DialPreJudgment e callInfo isEcc of
        None \<Rightarrow> None
      | Some (ret, pacts) \<Rightarrow>
          if ret \<noteq> TELEPHONY_SUCCESS then Some (ret, ctl, pacts)
          else if \<not> (e_csReg e (ci_slotId callInfo) = REG_STATE_IN_SERVICE \<or> isEcc)
            then Some (TELEPHONY_ERR_NETWORK_NOT_IN_SERVICE, ctl, pacts)
          else if e_phoneType e (ci_slotId callInfo) = PHONE_TYPE_IS_GSM then
            let (r, c, acts) = DialGsm e callInfo ctl in Some (r, c, pacts @ acts)
          else if e_phoneType e (ci_slotId callInfo) = PHONE_TYPE_IS_CDMA then
            let (r, c, acts) = DialCdma e callInfo ctl in Some (r, c, pacts @ acts)
          else Some (CALL_ERR_UNSUPPORTED_NETWORK_TYPE, ctl, pacts))"

section \<open>Requests on existing calls\<close>

fun UpdateCallDisconnectReason_cs ::
    "int \<Rightarrow> RilDisconnectedReason \<Rightarrow> CellularCallConnectionCS omap \<Rightarrow> CellularCallConnectionCS omap" where
  "UpdateCallDisconnectReason_cs callId reason [] = []"
| "UpdateCallDisconnectReason_cs callId reason ((k, c) # t) =
     (if index c = callId then (k, c\<lparr>csDisconnectReason := reason\<rparr>) # t
      else (k, c) # UpdateCallDisconnectReason_cs callId reason t)"

definition HangUp_cs ::
    "'x svc_env_scheme \<Rightarrow> CellularCallInfo \<Rightarrow> CallSupplementType \<Rightarrow> CSControl \<Rightarrow>
     errcode \<times> CSControl \<times> act list" where
  "HangUp_cs e callInfo ty ctl =
     (case ty of
        TYPE_DEFAULT \<Rightarrow>
          (case FindConnectionByIndex (csConnectionMap ctl) (ci_index callInfo) of
             None \<Rightarrow> (CALL_ERR_CALL_CONNECTION_NOT_EXIST, ctl, [])
           | Some (k, c) \<Rightarrow>
               let racts = report_single e (callReportInfo c) CALL_STATUS_DISCONNECTING;
                   c' = c\<lparr>csDisconnectReason := DISCONNECTED_REASON_USER_TERMINATED\<rparr>;
                   (ret, acts) = HangUpRequest_cs e (ci_slotId callInfo) c'
               in (ret, ctl\<lparr>csConnectionMap := omap_put k c' (csConnectionMap ctl)\<rparr>, racts @ acts))
      | TYPE_HANG_UP_HOLD_WAIT \<Rightarrow>
          let (ret, acts) = CallSupplementRequest_cs e (ci_slotId callInfo) ty
          in (ret, ctl\<lparr>csConnectionMap := UpdateCallDisconnectReason_cs (ci_callId callInfo)
                          DISCONNECTED_REASON_USER_TERMINATED (csConnectionMap ctl)\<rparr>, acts)
      | TYPE_HANG_UP_ACTIVE \<Rightarrow>
          let (ret, acts) = CallSupplementRequest_cs e (ci_slotId callInfo) ty
          in (ret, ctl\<lparr>csConnectionMap := UpdateCallDisconnectReason_cs (ci_callId callInfo)
                          DISCONNECTED_REASON_USER_TERMINATED (csConnectionMap ctl)\<rparr>, acts)
      | TYPE_HANG_UP_ALL \<Rightarrow>
          let (ret, acts) = RejectRequest_cs e (ci_slotId callInfo)
          in (ret, ctl\<lparr>csConnectionMap :=
                map (\<lambda>(k, c). (k, c\<lparr>csDisconnectReason := DISCONNECTED_REASON_USER_TERMINATED\<rparr>))
                  (csConnectionMap ctl)\<rparr>, acts)
      | _ \<Rightarrow> (TELEPHONY_ERR_ARGUMENT_INVALID, ctl, []))"

fun CheckAndHangupHoldingCall_cs ::
    "'x svc_env_scheme \<Rightarrow> CellularCallConnectionCS omap \<Rightarrow> errcode \<times> act list" where
  "CheckAndHangupHoldingCall_cs e [] = (TELEPHONY_SUCCESS, [])"
| "CheckAndHangupHoldingCall_cs e ((k, c) # t) =
     (if r_state (callReportInfo c) = CALL_STATUS_HOLDING then
        let (result, acts) = HangUpRequest_cs e (r_accountId (callReportInfo c)) c in
        if result \<noteq> TELEPHONY_SUCCESS then (result, acts)
        else let (r, acts') = CheckAndHangupHoldingCall_cs e t in (r, acts @ acts')
      else CheckAndHangupHoldingCall_cs e t)"

definition Answer_cs ::
    "'x svc_env_scheme \<Rightarrow> CellularCallInfo \<Rightarrow> CSControl \<Rightarrow> errcode \<times> CSControl \<times> act list" where
  "Answer_cs e callInfo ctl =
     (let t = csConnectionMap ctl; slotId = ci_slotId callInfo in
      case FindConnectionByIndex t (ci_index callInfo) of
        None \<Rightarrow> (CALL_ERR_CALL_CONNECTION_NOT_EXIST, ctl, [])
      | Some (k, c) \<Rightarrow>
          let (hret, hacts) = (if IsInState t CALL_STATUS_HOLDING \<and> IsInState t CALL_STATUS_ACTIVE
                               then CheckAndHangupHoldingCall_cs e t else (TELEPHONY_SUCCESS, [])) in
          if hret \<noteq> TELEPHONY_SUCCESS then (hret, ctl, hacts)
          else
            let st = r_state (callReportInfo c);
                sacts = (if IsInState t CALL_STATUS_ACTIVE \<or> st = CALL_STATUS_WAITING then
                           (case FindConnectionByState t CALL_STATUS_ACTIVE of
                              Some _ \<Rightarrow> snd (SwitchCallRequest_cs e slotId) | None \<Rightarrow> [])
                         else []) in
            if st = CALL_STATUS_INCOMING \<or> st = CALL_STATUS_ALERTING \<or> st = CALL_STATUS_WAITING then
              let (ret, acts) = AnswerRequest_cs e slotId in (ret, ctl, hacts @ sacts @ acts)
            else (CALL_ERR_CALL_STATE, ctl, hacts @ sacts))"

definition Reject_cs ::
    "'x svc_env_scheme \<Rightarrow> CellularCallInfo \<Rightarrow> CSControl \<Rightarrow> errcode \<times> CSControl \<times> act list" where
  "Reject_cs e callInfo ctl =
     (case FindConnectionByIndex (csConnectionMap ctl) (ci_index callInfo) of
        None \<Rightarrow> (CALL_ERR_CALL_CONNECTION_NOT_EXIST, ctl, [])
      | Some (k, c) \<Rightarrow>
          if \<not> IsRingingState c then (CALL_ERR_CALL_STATE, ctl, [])
          else
            let racts = report_single e (callReportInfo c) CALL_STATUS_DISCONNECTING;
                c' = c\<lparr>csDisconnectReason := DISCONNECTED_REASON_USER_DECLINE\<rparr>;
                (ret, acts) = RejectRequest_cs e (ci_slotId callInfo)
            in (ret, ctl\<lparr>csConnectionMap := omap_put k c' (csConnectionMap ctl)\<rparr>, racts @ acts))"

definition HoldCall_cs :: "'x svc_env_scheme \<Rightarrow> int \<Rightarrow> CSControl \<Rightarrow> errcode \<times> act list" where
  "HoldCall_cs e slotId ctl =
     (if IsInState (csConnectionMap ctl) CALL_STATUS_INCOMING then (CALL_ERR_CALL_STATE, [])
      else HoldRequest_cs e slotId)"

definition UnHoldCall_cs :: "'x svc_env_scheme \<Rightarrow> int \<Rightarrow> CSControl \<Rightarrow> errcode \<times> act list" where
  "UnHoldCall_cs e slotId ctl =
     (if IsInState (csConnectionMap ctl) CALL_STATUS_INCOMING then (CALL_ERR_CALL_STATE, [])
      else UnHoldCallRequest_cs e slotId)"

definition SwitchCall_cs :: "'x svc_env_scheme \<Rightarrow> int \<Rightarrow> CSControl \<Rightarrow> errcode \<times> act list" where
  "SwitchCall_cs e slotId ctl =
     (if IsInState (csConnectionMap ctl) CALL_STATUS_INCOMING then (CALL_ERR_CALL_STATE, [])
      else SwitchCallRequest_cs e slotId)"

definition VOICE_CALL :: int where
  "VOICE_CALL = 0"

definition SeparateConference_cs :: "'x svc_env_scheme \<Rightarrow> int \<Rightarrow> string \<Rightarrow> int \<Rightarrow> CSControl \<Rightarrow> errcode \<times> act list" where
  "SeparateConference_cs e slotId splitString i ctl =
     (case FindConnectionByIndex (csConnectionMap ctl) i of
        Some (_, c) \<Rightarrow> SeparateConferenceRequest_cs e slotId (index c) VOICE_CALL
      | None \<Rightarrow> SeparateConferenceRequest_cs e slotId i VOICE_CALL)"

definition CombineConference_cs :: "'x svc_env_scheme \<Rightarrow> int \<Rightarrow> errcode \<times> act list" where
  "CombineConference_cs e slotId = CombineConferenceRequest_cs e slotId VOICE_CALL"

definition HangUpAllConnection_cs :: "'x svc_env_scheme \<Rightarrow> int \<Rightarrow> errcode \<times> act list" where
  "HangUpAllConnection_cs e slotId = RejectRequest_cs e slotId"

definition CalculateInternationalRoaming :: "'x ecc_env_scheme \<Rightarrow> int \<Rightarrow> bool" where
  "CalculateInternationalRoaming e slotId =
     (let op = e_netCountry e slotId; sim = e_simCountry e slotId in
      if op \<noteq> [] \<and> sim \<noteq> [] \<and> op \<noteq> sim then
        if sim = ''us'' then op \<noteq> ''vi''
        else if sim = ''vi'' then op \<noteq> ''us''
        else True
      else False)"

definition GetCallFailReason_cs :: "'x svc_env_scheme \<Rightarrow> int \<Rightarrow> errcode \<times> act list" where
  "GetCallFailReason_cs e slotId = GetCallFailReasonRequest_cs e slotId"

section \<open>Post dial\<close>

definition ExecutePostDial_cs ::
    "'x svc_env_scheme \<Rightarrow> int \<Rightarrow> int \<Rightarrow> CellularCallConnectionCS omap \<Rightarrow>
     errcode \<times> CellularCallConnectionCS omap \<times> act list" where
  "ExecutePostDial_cs e slotId callId t =
     execute_post_dial (ProcessPostDialCallChar_cs e slotId) e t callId CHR 0x00"

definition PostDialProceed_cs ::
    "'x svc_env_scheme \<Rightarrow> CellularCallInfo \<Rightarrow> bool \<Rightarrow> CSControl \<Rightarrow> errcode \<times> CSControl \<times> act list" where
  "PostDialProceed_cs e callInfo proceed ctl =
     (case FindConnectionByIndex (csConnectionMap ctl) (ci_index callInfo) of
        None \<Rightarrow> (TELEPHONY_ERR_LOCAL_PTR_NULL, ctl, [])
      | Some (k, c) \<Rightarrow>
          if proceed then
            let (_, t', acts) = ExecutePostDial_cs e (ci_slotId callInfo) (index c) (csConnectionMap ctl)
            in (TELEPHONY_SUCCESS, ctl\<lparr>csConnectionMap := t'\<rparr>, acts)
          else (TELEPHONY_SUCCESS,
                ctl\<lparr>csConnectionMap := omap_put k (c\<lparr>postDialCallState := POST_DIAL_CALL_CANCELED\<rparr>)
                      (csConnectionMap ctl)\<rparr>, []))"

section \<open>Reports of the modem\<close>

definition EncapsulationCallReportInfo_cs :: "'x svc_env_scheme \<Rightarrow> int \<Rightarrow> CallInfo \<Rightarrow> CallReportInfo" where
  "EncapsulationCallReportInfo_cs e slotId callInfo =
     (let newString = FormatNumberAndToa (c_number callInfo) (c_type callInfo) in
      if length (c_str newString) + 1 > e_kMaxNumberLen e + 1 then e_zeroReport e
      else (e_zeroReport e)
        \<lparr>r_accountNum := c_str newString, r_index := c_index callInfo, r_accountId := slotId,
         r_voiceDomain := c_voiceDomain callInfo, r_state := c_state callInfo, r_callType := TYPE_CS,
         r_callMode := TYPE_VOICE, r_mpty := c_mpty callInfo,
         r_name := (if c_number callInfo = [] then [] else c_name callInfo),
         r_namePresentation := c_namePresentation callInfo\<rparr>)"

fun DeleteConnection_cs ::
    "CellularCallConnectionCS omap \<Rightarrow> CallReportInfo list \<Rightarrow> CallReportInfo list \<times> CellularCallConnectionCS omap" where
  "DeleteConnection_cs [] vec = (vec, [])"
| "DeleteConnection_cs ((k, c) # t) vec =
     (if \<not> flag c then
        DeleteConnection_cs t
          (vec @ [(callReportInfo c)\<lparr>r_state := CALL_STATUS_DISCONNECTED, r_reason := csDisconnectReason c\<rparr>])
      else let (v, t') = DeleteConnection_cs t vec in (v, (k, c\<lparr>flag := False\<rparr>) # t'))"

text \<open>The report of a call inside \<^verbatim>\<open>ReportUpdateInfo\<close>: a lone waiting call is an incoming call.\<close>

definition update_report_cs :: "'x svc_env_scheme \<Rightarrow> int \<Rightarrow> bool \<Rightarrow> CallInfo \<Rightarrow> CallReportInfo" where
  "update_report_cs e slotId single call =
     (let r = EncapsulationCallReportInfo_cs e slotId call in
      if single \<and> r_state r = CALL_STATUS_WAITING then r\<lparr>r_state := CALL_STATUS_INCOMING\<rparr> else r)"

text \<open>One iteration of the loop; beside the table it carries the pending number, the report vector
  and the effects.\<close>

definition update_call_cs ::
    "'x svc_env_scheme \<Rightarrow> int \<Rightarrow> bool \<Rightarrow> CallInfo \<Rightarrow>
     CellularCallConnectionCS omap \<times> string \<times> CallReportInfo list \<times> act list \<Rightarrow>
     CellularCallConnectionCS omap \<times> string \<times> CallReportInfo list \<times> act list" where
  "update_call_cs e slotId single call = (\<lambda>(t, pending, vec, acts).
     (let reportInfo = update_report_cs e slotId single call in
      case FindConnectionByIndex t (c_index call) of
        None \<Rightarrow>
          (snd (SetConnectionData t (c_index call)
             ((CellularCallConnectionCS_init e)\<lparr>callReportInfo := reportInfo, flag := True,
                index := c_index call, number := c_number call\<rparr>)),
           pending, vec @ [reportInfo], acts)
      | Some (k, c) \<Rightarrow>
          let preCallState = r_state (callReportInfo c);
              c1 = c\<lparr>flag := True, index := c_index call, callReportInfo := reportInfo,
                     number := c_number call\<rparr>;
              curCallState = r_state (callReportInfo c1) in
          if IsConnectedOut preCallState curCallState then
            let c2 = UpdateCallNumber pending c1;
                (_, t', pacts) = ExecutePostDial_cs e slotId (index c2) (omap_put k c2 t)
            in (t', [], vec @ [reportInfo], acts @ pacts)
          else (omap_put k c1 t, pending, vec @ [reportInfo], acts)))"

definition ReportUpdateInfo_cs ::
    "'x svc_env_scheme \<Rightarrow> int \<Rightarrow> CallInfoList \<Rightarrow> CSControl \<Rightarrow> errcode \<times> CSControl \<times> act list" where
  "ReportUpdateInfo_cs e slotId callInfoList ctl =
     (let (t, pending, vec, acts) =
            fold (update_call_cs e slotId (length (calls callInfoList) = 1)) (calls callInfoList)
              (csConnectionMap ctl, csPendingPhoneNumber ctl, [], []);
          (vec', t') = DeleteConnection_cs t vec;
          ctl' = ctl\<lparr>csConnectionMap := t', csPendingPhoneNumber := pending\<rparr> in
      if \<not> e_register e then (TELEPHONY_ERR_LOCAL_PTR_NULL, ctl', acts)
      else (TELEPHONY_SUCCESS, ctl',
            acts @ (if \<not> isIgnoredIncomingCall ctl
                    then [ReportCallsInfo \<lparr>callVec = vec', cr_slotId = slotId\<rparr>] else [])))"

definition incoming_call_cs ::
    "'x svc_env_scheme \<Rightarrow> int \<Rightarrow> CallInfo \<Rightarrow> CellularCallConnectionCS omap \<Rightarrow> CellularCallConnectionCS omap" where
  "incoming_call_cs e slotId call t =
     snd (SetConnectionData t (c_index call)
       ((SetStatus (c_state call) (CellularCallConnectionCS_init e))\<lparr>index := c_index call,
          callReportInfo := EncapsulationCallReportInfo_cs e slotId call, number := c_number call\<rparr>))"

definition ReportIncomingInfo_cs ::
    "'x svc_env_scheme \<Rightarrow> int \<Rightarrow> CallInfoList \<Rightarrow> CSControl \<Rightarrow> errcode \<times> CSControl \<times> act list" where
  "ReportIncomingInfo_cs e slotId callInfoList ctl =
     (let vec = map (EncapsulationCallReportInfo_cs e slotId) (calls callInfoList);
          t' = fold (incoming_call_cs e slotId) (calls callInfoList) (csConnectionMap ctl);
          ctl' = ctl\<lparr>csConnectionMap := t'\<rparr> in
      if \<not> e_register e then (TELEPHONY_ERR_ARGUMENT_INVALID, ctl', [])
      else if \<not> e_cbRegistered e \<and> vec \<noteq> [] \<and> r_state (hd vec) = CALL_STATUS_INCOMING
        then (TELEPHONY_SUCCESS, ctl'\<lparr>isIgnoredIncomingCall := True\<rparr>, [])
      else (TELEPHONY_SUCCESS, ctl', [ReportCallsInfo \<lparr>callVec = vec, cr_slotId = slotId\<rparr>]))"

definition ReportHangUpInfo_cs ::
    "'x svc_env_scheme \<Rightarrow> int \<Rightarrow> CSControl \<Rightarrow> errcode \<times> CSControl \<times> act list" where
  "ReportHangUpInfo_cs e slotId ctl =
     (let vec = map (\<lambda>(k, c). (callReportInfo c)\<lparr>r_state := CALL_STATUS_DISCONNECTED,
                      r_accountId := slotId, r_reason := csDisconnectReason c\<rparr>) (csConnectionMap ctl);
          vec' = (if csConnectionMap ctl = []
                  then vec @ [(e_defaultReport e)\<lparr>r_state := CALL_STATUS_DISCONNECTED, r_accountId := slotId\<rparr>]
                  else vec) in
      if \<not> e_register e then (TELEPHONY_ERR_LOCAL_PTR_NULL, ctl, [])
      else if isIgnoredIncomingCall ctl
        then (TELEPHONY_SUCCESS, ctl\<lparr>isIgnoredIncomingCall := False, csConnectionMap := []\<rparr>, [])
      else (TELEPHONY_SUCCESS, ctl\<lparr>csConnectionMap := []\<rparr>,
            [ReportCallsInfo \<lparr>callVec = vec', cr_slotId = slotId\<rparr>]))"

definition ReportCallsData_cs ::
    "'x svc_env_scheme \<Rightarrow> int \<Rightarrow> CallInfoList \<Rightarrow> CSControl \<Rightarrow> errcode \<times> CSControl \<times> act list" where
  "ReportCallsData_cs e slotId callInfoList ctl =
     (if callSize callInfoList \<le> 0 then ReportHangUpInfo_cs e slotId ctl
      else if callSize callInfoList > 0 \<and> csConnectionMap ctl = []
        then ReportIncomingInfo_cs e slotId callInfoList ctl
      else if callSize callInfoList > 0 \<and> csConnectionMap ctl \<noteq> []
        then ReportUpdateInfo_cs e slotId callInfoList ctl
      else (TELEPHONY_ERROR, ctl, []))"

text \<open>\<^verbatim>\<open>UpdateDisconnectedReason\<close>, \<^verbatim>\<open>HasEndCallWithoutReason\<close>: the calls of the table that have no
  reason yet and are not in the modem's list.\<close>

definition ended_without_reason_cs :: "CallInfoList \<Rightarrow> CellularCallConnectionCS \<Rightarrow> bool" where
  "ended_without_reason_cs callInfoList c \<longleftrightarrow>
     csDisconnectReason c = DISCONNECTED_REASON_INVALID \<and>
     \<not> list_ex (\<lambda>call. index c = c_index call) (calls callInfoList)"

definition UpdateDisconnectedReason_cs :: "CallInfoList \<Rightarrow> RilDisconnectedReason \<Rightarrow> CSControl \<Rightarrow> CSControl" where
  "UpdateDisconnectedReason_cs callInfoList reason ctl =
     ctl\<lparr>csConnectionMap :=
       map (\<lambda>(k, c). (k, if ended_without_reason_cs callInfoList c
                         then c\<lparr>csDisconnectReason := reason\<rparr> else c)) (csConnectionMap ctl)\<rparr>"

definition HasEndCallWithoutReason_cs :: "CallInfoList \<Rightarrow> CSControl \<Rightarrow> bool" where
  "HasEndCallWithoutReason_cs callInfoList ctl =
     list_ex (\<lambda>(k, c). ended_without_reason_cs callInfoList c) (csConnectionMap ctl)"

definition ReportCsCallsData ::
    "'x svc_env_scheme \<Rightarrow> int \<Rightarrow> CallInfoList \<Rightarrow> bool \<Rightarrow> CSControl \<Rightarrow> errcode \<times> CSControl \<times> act list" where
  "ReportCsCallsData e slotId callInfoList isNeedQuery ctl =
     (if callSize callInfoList \<le> 0 then
        if isNeedQuery \<and> HasEndCallWithoutReason_cs callInfoList ctl
          then (TELEPHONY_SUCCESS, ctl, snd (GetCallFailReason_cs e slotId))
        else ReportHangUpInfo_cs e slotId ctl
      else if callSize callInfoList > 0 \<and> csConnectionMap ctl = []
        then ReportIncomingInfo_cs e slotId callInfoList ctl
      else if callSize callInfoList > 0 \<and> csConnectionMap ctl \<noteq> [] then
        if isNeedQuery \<and> HasEndCallWithoutReason_cs callInfoList ctl
          then (TELEPHONY_SUCCESS, ctl, snd (GetCallFailReason_cs e slotId))
        else ReportUpdateInfo_cs e slotId callInfoList ctl
      else (TELEPHONY_ERROR, ctl, []))"

definition hangup_report_cs :: "'x svc_env_scheme \<Rightarrow> CellularCallInfo \<Rightarrow> CallReportInfo" where
  "hangup_report_cs e info =
     (e_defaultReport e)
       \<lparr>r_accountNum := take (e_kMaxNumberLen e) (ci_phoneNum info), r_index := ci_index info,
        r_accountId := ci_slotId info, r_callType := TYPE_CS, r_callMode := TYPE_VOICE,
        r_state := CALL_STATUS_DISCONNECTED\<rparr>"

definition ReportHangUp_cs ::
    "'x svc_env_scheme \<Rightarrow> CellularCallInfo list \<Rightarrow> int \<Rightarrow> CSControl \<Rightarrow> errcode \<times> CSControl \<times> act list" where
  "ReportHangUp_cs e infos slotId ctl =
     (let vec = map (hangup_report_cs e)
                  (filter (\<lambda>info. ci_callType info = TYPE_CS \<and> ci_slotId info = slotId) infos) in
      if \<not> e_register e then (TELEPHONY_ERR_LOCAL_PTR_NULL, ctl, [])
      else (TELEPHONY_SUCCESS, ctl\<lparr>csConnectionMap := []\<rparr>,
            [ReportCallsInfo \<lparr>callVec = vec, cr_slotId = slotId\<rparr>]))"

section \<open>The report loop synchronises the table\<close>

definition gone_cs :: "CellularCallConnectionCS \<Rightarrow> CallReportInfo" where
  "gone_cs c = (callReportInfo c)\<lparr>r_state := CALL_STATUS_DISCONNECTED, r_reason := csDisconnectReason c\<rparr>"

lemma DeleteConnection_cs_eq:
  "DeleteConnection_cs t vec =
     (vec @ map (\<lambda>(k, c). gone_cs c) (filter (\<lambda>(k, c). \<not> flag c) t),
      map (\<lambda>(k, c). (k, c\<lparr>flag := False\<rparr>)) (filter (\<lambda>(k, c). flag c) t))"
  by (induction t vec rule: DeleteConnection_cs.induct) (simp_all add: gone_cs_def)

lemma ExecutePostDial_cs_reports: "reports (snd (snd (ExecutePostDial_cs e slotId i t))) = []"
  unfolding ExecutePostDial_cs_def ProcessPostDialCallChar_cs_def
  by (intro execute_post_dial_reports post_dial_char_reports)
    (simp add: SendDtmfRequest_cs_def ril_request_cases)

lemma update_call_cs_step:
  "table_ok t \<Longrightarrow> update_call_cs e slotId single call (t, s) =
   sync_step c_index c_number (update_report_cs e slotId single) (CellularCallConnectionCS_init e)
     (ExecutePostDial_cs e slotId) call (t, s)"
  by (auto simp: update_call_cs_def sync_step_def FindConnectionByIndex_map_of SetConnectionData_def Let_def
      split: prod.splits option.splits)

interpretation cs: post_dial_loop c_index c_number "update_report_cs e slotId single"
    "CellularCallConnectionCS_init e" "ExecutePostDial_cs e slotId" "update_call_cs e slotId single"
    gone_cs DeleteConnection_cs
  for e :: "'x svc_env_scheme" and slotId :: int and single :: bool
proof unfold_locales
  show "\<exists>c'. fst (snd (ExecutePostDial_cs e slotId i t)) = omap_put i c' t \<and> index c' = index c \<and>
      flag c' = flag c \<and> callReportInfo c' = callReportInfo c"
    if "table_ok t" "map_of t i = Some c" for t :: "CellularCallConnectionCS omap" and i c
    unfolding ExecutePostDial_cs_def ProcessPostDialCallChar_cs_def
    by (rule execute_post_dial_contract [OF that])
  show "fst (snd (snd (update_call_cs e slotId single call (t, s)))) =
      fst (snd s) @ [update_report_cs e slotId single call]" for call t s
    by (auto simp: update_call_cs_def Let_def split: option.splits prod.splits)
  show "reports (snd (snd (snd (update_call_cs e slotId single call (t, s))))) = []"
    if "reports (snd (snd s)) = []" for call t s
    using that ExecutePostDial_cs_reports
    by (auto simp: update_call_cs_def Let_def case_prod_beta split: option.splits)
qed (simp_all add: ExecutePostDial_cs_reports update_call_cs_step DeleteConnection_cs_eq)

definition cs_inv :: "CSControl \<Rightarrow> bool" where
  "cs_inv ctl \<longleftrightarrow> table_ok (csConnectionMap ctl) \<and> settled (csConnectionMap ctl)"

lemma ReportUpdateInfo_cs_result:
  assumes inv: "cs_inv ctl"
    and r: "ReportUpdateInfo_cs e slotId l ctl = (ret, ctl', acts)"
  shows "ret = (if e_register e then TELEPHONY_SUCCESS else TELEPHONY_ERR_LOCAL_PTR_NULL)" "cs_inv ctl'"
    "keys (csConnectionMap ctl') = c_index ` set (calls l)"
    "isIgnoredIncomingCall ctl' = isIgnoredIncomingCall ctl"
    "reports acts = (if isIgnoredIncomingCall ctl \<or> \<not> e_register e then [] else
       [\<lparr>callVec = map (update_report_cs e slotId (length (calls l) = 1)) (calls l) @
           map (\<lambda>(k, c). gone_cs c) (filter (\<lambda>(k, c). k \<notin> c_index ` set (calls l)) (csConnectionMap ctl)),
         cr_slotId = slotId\<rparr>])"
proof -
  let ?s = "length (calls l) = 1" and ?i = "(csPendingPhoneNumber ctl, [], [])"
  have ok: "table_ok (csConnectionMap ctl)" "settled (csConnectionMap ctl)"
    using inv by (simp_all add: cs_inv_def)
  obtain t s where f: "fold (update_call_cs e slotId ?s) (calls l) (csConnectionMap ctl, ?i) = (t, s)"
    by (metis surj_pair)
  obtain v t' where d: "DeleteConnection_cs t (fst (snd s)) = (v, t')" by (metis surj_pair)
  note round = cs.round [OF ok _ _ f d, simplified]
  note res = r [unfolded ReportUpdateInfo_cs_def f Let_def prod.case case_prod_beta d fst_conv snd_conv]
  show "ret = (if e_register e then TELEPHONY_SUCCESS else TELEPHONY_ERR_LOCAL_PTR_NULL)"
    "isIgnoredIncomingCall ctl' = isIgnoredIncomingCall ctl"
    using res by (auto split: if_splits)
  have c: "csConnectionMap ctl' = t'" using res by (auto split: if_splits)
  show "cs_inv ctl'" "keys (csConnectionMap ctl') = c_index ` set (calls l)"
    using round by (simp_all add: cs_inv_def c)
  show "reports acts = (if isIgnoredIncomingCall ctl \<or> \<not> e_register e then [] else
       [\<lparr>callVec = map (update_report_cs e slotId ?s) (calls l) @
           map (\<lambda>(k, c). gone_cs c) (filter (\<lambda>(k, c). k \<notin> c_index ` set (calls l)) (csConnectionMap ctl)),
         cr_slotId = slotId\<rparr>])"
    using round(4,5) res by (auto split: if_splits)
qed

text \<open>Each reported call is in the table afterwards, with the report that was sent.\<close>

lemma ReportUpdateInfo_cs_entry:
  assumes inv: "cs_inv ctl" and d: "distinct (map c_index (calls l))" and call: "call \<in> set (calls l)"
    and r: "ReportUpdateInfo_cs e slotId l ctl = (ret, ctl', acts)"
  shows "\<exists>c. map_of (csConnectionMap ctl') (c_index call) = Some c \<and>
    callReportInfo c = update_report_cs e slotId (length (calls l) = 1) call"
proof -
  let ?s = "length (calls l) = 1" and ?i = "(csPendingPhoneNumber ctl, [], [])"
  have ok: "table_ok (csConnectionMap ctl)" "settled (csConnectionMap ctl)"
    using inv by (simp_all add: cs_inv_def)
  obtain t p v a where f: "fold (update_call_cs e slotId ?s) (calls l)
      (csConnectionMap ctl, ?i) = (t, p, v, a)" by (metis prod_cases4)
  have "csConnectionMap ctl' = snd (DeleteConnection_cs t [])"
    using r f by (auto simp: ReportUpdateInfo_cs_def DeleteConnection_cs_eq Let_def split: if_splits)
  with cs.round_reports [OF ok d call, of e slotId ?s ?i] f show ?thesis by simp
qed

section \<open>Every operation keeps the table well formed\<close>

lemma cs_inv_map:
  assumes "cs_inv ctl" "\<And>c. index (f c) = index c" "\<And>c. flag (f c) = flag c"
  shows "cs_inv (ctl\<lparr>csConnectionMap := map (\<lambda>(k, c). (k, f c)) (csConnectionMap ctl)\<rparr>)"
  using assms by (simp add: cs_inv_def table_ok_map settled_map)

lemma cs_inv_put:
  assumes "cs_inv ctl" "FindConnectionByIndex (csConnectionMap ctl) i = Some (k, c)"
    "index c' = index c" "flag c' = flag c"
  shows "cs_inv (ctl\<lparr>csConnectionMap := omap_put k c' (csConnectionMap ctl)\<rparr>)"
proof -
  have ok: "table_ok (csConnectionMap ctl)" "settled (csConnectionMap ctl)"
    using assms(1) by (simp_all add: cs_inv_def)
  then have "index c = k" "\<not> flag c"
    using assms(2) by (auto simp: FindConnectionByIndex_map_of table_ok_iff settled_iff)
  with ok assms(3,4) show ?thesis
    by (simp add: cs_inv_def table_ok_put settled_put table_ok_omap)
qed

lemma UpdateCallDisconnectReason_cs_put:
  "table_ok t \<Longrightarrow> UpdateCallDisconnectReason_cs i r t =
     (case map_of t i of None \<Rightarrow> t | Some c \<Rightarrow> omap_put i (c\<lparr>csDisconnectReason := r\<rparr>) t)"
  by (induction i r t rule: UpdateCallDisconnectReason_cs.induct) (auto split: option.splits)

lemma cs_inv_UpdateCallDisconnectReason:
  assumes "cs_inv ctl"
  shows "cs_inv (ctl\<lparr>csConnectionMap := UpdateCallDisconnectReason_cs i r (csConnectionMap ctl)\<rparr>)"
proof -
  have ok: "table_ok (csConnectionMap ctl)" using assms by (simp add: cs_inv_def)
  show ?thesis
  proof (cases "map_of (csConnectionMap ctl) i")
    case None
    with assms ok show ?thesis by (simp add: UpdateCallDisconnectReason_cs_put cs_inv_def)
  next
    case (Some c)
    with ok have "FindConnectionByIndex (csConnectionMap ctl) i = Some (i, c)"
      by (simp add: FindConnectionByIndex_map_of)
    from cs_inv_put [OF assms this, of "c\<lparr>csDisconnectReason := r\<rparr>"] Some ok show ?thesis
      by (simp add: UpdateCallDisconnectReason_cs_put)
  qed
qed

lemma HangUp_cs_inv: "cs_inv ctl \<Longrightarrow> cs_inv (fst (snd (HangUp_cs e i ty ctl)))"
  by (auto simp: HangUp_cs_def Let_def case_prod_beta cs_inv_put cs_inv_map cs_inv_UpdateCallDisconnectReason
      split: CallSupplementType.splits option.splits)

lemma Reject_cs_inv: "cs_inv ctl \<Longrightarrow> cs_inv (fst (snd (Reject_cs e i ctl)))"
  by (auto simp: Reject_cs_def Let_def case_prod_beta cs_inv_put split: option.splits)

lemma Answer_cs_same: "fst (snd (Answer_cs e i ctl)) = ctl"
  by (auto simp: Answer_cs_def Let_def case_prod_beta split: option.splits)

lemma Dial_cs_map: "Dial_cs e i ecc ctl = Some (r, ctl', acts) \<Longrightarrow> csConnectionMap ctl' = csConnectionMap ctl"
  by (auto simp: Dial_cs_def DialGsm_def DialCdma_def EncapsulateDialCommon_cs_def Let_def case_prod_beta
      split: option.splits if_splits)

lemma ExecutePostDial_cs_inv:
  assumes "cs_inv ctl"
  shows "cs_inv (ctl\<lparr>csConnectionMap := fst (snd (ExecutePostDial_cs e s i (csConnectionMap ctl)))\<rparr>)"
  using assms execute_post_dial_settled
  unfolding ExecutePostDial_cs_def ProcessPostDialCallChar_cs_def cs_inv_def by (simp, blast)

lemma PostDialProceed_cs_inv: "cs_inv ctl \<Longrightarrow> cs_inv (fst (snd (PostDialProceed_cs e i p ctl)))"
  by (auto simp: PostDialProceed_cs_def Let_def case_prod_beta cs_inv_put ExecutePostDial_cs_inv
      split: option.splits)

lemma incoming_call_cs_table:
  "table_ok t \<and> settled t \<Longrightarrow>
   table_ok (fold (incoming_call_cs e s) xs t) \<and> settled (fold (incoming_call_cs e s) xs t)"
proof (induction xs arbitrary: t)
  case (Cons x xs)
  then have "table_ok (incoming_call_cs e s x t) \<and> settled (incoming_call_cs e s x t)"
    by (simp add: incoming_call_cs_def SetConnectionData_def table_ok_insert settled_insert table_ok_omap
        CellularCallConnectionCS_init_def SetStatus_def)
  from Cons.IH [OF this] show ?case by simp
qed simp

lemma ReportIncomingInfo_cs_inv: "cs_inv ctl \<Longrightarrow> cs_inv (fst (snd (ReportIncomingInfo_cs e s l ctl)))"
  using incoming_call_cs_table [of "csConnectionMap ctl" e s "calls l"]
  by (auto simp: ReportIncomingInfo_cs_def cs_inv_def Let_def)

lemma ReportHangUpInfo_cs_inv: "cs_inv ctl \<Longrightarrow> cs_inv (fst (snd (ReportHangUpInfo_cs e s ctl)))"
  by (auto simp: ReportHangUpInfo_cs_def cs_inv_def Let_def)

lemma ReportUpdateInfo_cs_inv: "cs_inv ctl \<Longrightarrow> cs_inv (fst (snd (ReportUpdateInfo_cs e s l ctl)))"
  using ReportUpdateInfo_cs_result(2) [of ctl e s l] by (metis prod.collapse)

lemma ReportCallsData_cs_inv: "cs_inv ctl \<Longrightarrow> cs_inv (fst (snd (ReportCallsData_cs e s l ctl)))"
  by (simp add: ReportCallsData_cs_def ReportIncomingInfo_cs_inv ReportHangUpInfo_cs_inv ReportUpdateInfo_cs_inv)

lemma ReportCsCallsData_inv: "cs_inv ctl \<Longrightarrow> cs_inv (fst (snd (ReportCsCallsData e s l q ctl)))"
  by (simp add: ReportCsCallsData_def ReportIncomingInfo_cs_inv ReportHangUpInfo_cs_inv ReportUpdateInfo_cs_inv)

lemma ReportHangUp_cs_inv: "cs_inv ctl \<Longrightarrow> cs_inv (fst (snd (ReportHangUp_cs e infos s ctl)))"
  by (simp add: ReportHangUp_cs_def cs_inv_def Let_def)

lemma UpdateDisconnectedReason_cs_inv: "cs_inv ctl \<Longrightarrow> cs_inv (UpdateDisconnectedReason_cs l r ctl)"
  unfolding UpdateDisconnectedReason_cs_def by (intro cs_inv_map) simp_all

text \<open>The life of a control: from the empty state, any operation with any answers of the
  surroundings.\<close>

definition CSControl_init :: CSControl where
  "CSControl_init = \<lparr>isIgnoredIncomingCall = False, csConnectionMap = [], csPendingPhoneNumber = []\<rparr>"

inductive cs_step :: "CSControl \<Rightarrow> CSControl \<Rightarrow> bool" where
  dial: "Dial_cs (e :: dial_env) i ecc ctl = Some (r, ctl', acts) \<Longrightarrow> cs_step ctl ctl'"
| hangup: "HangUp_cs (e :: dial_env) i ty ctl = (r, ctl', acts) \<Longrightarrow> cs_step ctl ctl'"
| answer: "Answer_cs (e :: dial_env) i ctl = (r, ctl', acts) \<Longrightarrow> cs_step ctl ctl'"
| reject: "Reject_cs (e :: dial_env) i ctl = (r, ctl', acts) \<Longrightarrow> cs_step ctl ctl'"
| proceed: "PostDialProceed_cs (e :: dial_env) i p ctl = (r, ctl', acts) \<Longrightarrow> cs_step ctl ctl'"
| post_dial: "ExecutePostDial_cs (e :: dial_env) s k (csConnectionMap ctl) = (r, t, acts) \<Longrightarrow>
    cs_step ctl (ctl\<lparr>csConnectionMap := t\<rparr>)"
| report: "ReportCallsData_cs (e :: dial_env) s l ctl = (r, ctl', acts) \<Longrightarrow> cs_step ctl ctl'"
| report_cs: "ReportCsCallsData (e :: dial_env) s l q ctl = (r, ctl', acts) \<Longrightarrow> cs_step ctl ctl'"
| report_hangup: "ReportHangUp_cs (e :: dial_env) infos s ctl = (r, ctl', acts) \<Longrightarrow> cs_step ctl ctl'"
| reason: "cs_step ctl (UpdateDisconnectedReason_cs l rr ctl)"
| release: "cs_step ctl (ctl\<lparr>csConnectionMap := []\<rparr>)"

inductive cs_reachable :: "CSControl \<Rightarrow> bool" where
  init: "cs_reachable CSControl_init"
| step: "cs_reachable ctl \<Longrightarrow> cs_step ctl ctl' \<Longrightarrow> cs_reachable ctl'"

lemma cs_step_inv: "cs_step ctl ctl' \<Longrightarrow> cs_inv ctl \<Longrightarrow> cs_inv ctl'"
proof (induction rule: cs_step.induct)
  case (dial e i ecc ctl r ctl' acts)
  then show ?case by (simp add: cs_inv_def Dial_cs_map)
next
  case (hangup e i ty ctl r ctl' acts)
  then show ?case using HangUp_cs_inv [of ctl e i ty] by simp
next
  case (answer e i ctl r ctl' acts)
  then show ?case using Answer_cs_same [of e i ctl] by simp
next
  case (reject e i ctl r ctl' acts)
  then show ?case using Reject_cs_inv [of ctl e i] by simp
next
  case (proceed e i p ctl r ctl' acts)
  then show ?case using PostDialProceed_cs_inv [of ctl e i p] by simp
next
  case (post_dial e s k ctl r t acts)
  then show ?case using ExecutePostDial_cs_inv [of ctl e s k] by simp
next
  case (report e s l ctl r ctl' acts)
  then show ?case using ReportCallsData_cs_inv [of ctl e s l] by simp
next
  case (report_cs e s l q ctl r ctl' acts)
  then show ?case using ReportCsCallsData_inv [of ctl e s l q] by simp
next
  case (report_hangup e infos s ctl r ctl' acts)
  then show ?case using ReportHangUp_cs_inv [of ctl e infos s] by simp
next
  case (reason ctl l rr)
  then show ?case by (rule UpdateDisconnectedReason_cs_inv)
next
  case (release ctl)
  then show ?case by (simp add: cs_inv_def)
qed

lemma cs_reachable_inv: "cs_reachable ctl \<Longrightarrow> cs_inv ctl"
  by (induction rule: cs_reachable.induct) (auto simp: cs_inv_def CSControl_init_def dest: cs_step_inv)

section \<open>Disconnect reasons\<close>

lemma UpdateDisconnectedReason_cs_resolves:
  assumes "reason \<noteq> DISCONNECTED_REASON_INVALID"
  shows "\<not> HasEndCallWithoutReason_cs l (UpdateDisconnectedReason_cs l reason ctl)"
  using assms
  by (auto simp: HasEndCallWithoutReason_cs_def UpdateDisconnectedReason_cs_def list_ex_iff
      ended_without_reason_cs_def split: if_splits)

lemma ended_reason:
  assumes "table_ok t" "\<not> list_ex (\<lambda>(k, c). ended_without_reason_cs l c) t"
    "(k, c) \<in> set t" "k \<notin> c_index ` set (calls l)"
  shows "csDisconnectReason c \<noteq> DISCONNECTED_REASON_INVALID"
proof -
  have "index c = k" using assms(1,3) by (auto simp: table_ok_def list_all_iff)
  with assms(2-4) show ?thesis by (force simp: list_ex_iff ended_without_reason_cs_def)
qed

section \<open>Properties\<close>

lemma digits_address:
  assumes "list_all is_digit n"
  shows "RemoveSeparatorsPhoneNumber n = n" "address_scan n = (n, [])"
proof -
  have *: "list_all is_address_char n" using assms by (auto simp: list_all_iff is_address_char_def)
  then show "RemoveSeparatorsPhoneNumber n = n"
    by (auto simp: RemoveSeparatorsPhoneNumber_def filter_id_conv list_all_iff)
  from * show "address_scan n = (n, [])" by (induction n) (simp_all add: Let_def)
qed

lemma EncapsulateDialCommon_cs_ok:
  assumes "e_service e" "e_handler e slotId"
  shows "EncapsulateDialCommon_cs e slotId n m ctl =
    (TELEPHONY_SUCCESS, ctl\<lparr>csPendingPhoneNumber := n\<rparr>,
     [SetMute slotId False, Ril (RilDial slotId (fst (address_scan n)) m)])"
  using assms DialRequest_cs_fresh [OF assms, of n m]
  by (simp add: EncapsulateDialCommon_cs_def Let_def)

text \<open>An emergency call over CS always reaches the modem. With a built-in emergency number, the radio on
  and a GSM network, dialling as an emergency call ends in the dial request for exactly this number,
  whatever the registration state, the airplane mode and the SIM states are, and whatever the activation
  requests return; the number is never taken for an MMI code.\<close>

theorem emergency_dial_cs:
  assumes num: "ci_phoneNum i \<in> set builtin_ecc" and list: "e_eccList e (ci_slotId i) = []"
    and wait: "WakeTimeout \<in> set (e_wakes e) \<or> WakeNotify True \<in> set (e_wakes e) \<or> e_readyToCall e (ci_slotId i)"
    and radio: "\<not> e_basePower e" "e_radioState e (ci_slotId i)" and gsm: "e_phoneType e (ci_slotId i) = PHONE_TYPE_IS_GSM"
    and svc: "e_service e" "e_handler e (ci_slotId i)" and can: "CanCall (csConnectionMap ctl)"
  shows "\<exists>acts. Dial_cs e i True ctl = Some (TELEPHONY_SUCCESS, ctl\<lparr>csPendingPhoneNumber := ci_phoneNum i\<rparr>, acts) \<and>
    acts \<noteq> [] \<and> last acts = Ril (RilDial (ci_slotId i) (ci_phoneNum i) DEFAULT)"
proof -
  have d: "list_all is_digit (ci_phoneNum i)" "ci_phoneNum i \<noteq> []" using num builtin_ecc_dialable by auto
  obtain x acts where h: "HandleEcc e i True (CheckAirplaneModeScene e)
      (CheckActivateSimScene e (ci_slotId i)) = Some (x, acts)"
    using HandleEcc_returns [OF wait] by (metis surj_pair)
  have p: "DialPreJudgment e i True = Some (TELEPHONY_SUCCESS, acts)"
    using h d(2) radio by (simp add: DialPreJudgment_def Let_def)
  have "ControlBase_IsEmergencyCall e (ci_slotId i) (ci_phoneNum i)"
    using builtin_is_emergency [OF list num, of False] by (simp add: ControlBase_IsEmergencyCall_def)
  then have m: "IsNeedExecuteMMI e (ci_slotId i) (ci_phoneNum i) DEFAULT False = (False, ci_phoneNum i, DEFAULT, [])"
    by (simp add: IsNeedExecuteMMI_def)
  show ?thesis
    by (simp add: Dial_cs_def p gsm DialGsm_def digits_address [OF d(1)] m can
        EncapsulateDialCommon_cs_ok [OF svc] Let_def)
qed

theorem emergency_dial_cs_witness:
  "\<exists>acts. Dial_cs (sample_env\<lparr>e_csReg := \<lambda>_. RegState_other 0\<rparr>) (sample_info\<lparr>ci_phoneNum := ''112''\<rparr>) True CSControl_init =
      Some (TELEPHONY_SUCCESS, CSControl_init\<lparr>csPendingPhoneNumber := ''112''\<rparr>, acts) \<and>
    acts \<noteq> [] \<and> last acts = Ril (RilDial 0 ''112'' DEFAULT)"
  using emergency_dial_cs [of "sample_info\<lparr>ci_phoneNum := ''112''\<rparr>"
      "sample_env\<lparr>e_csReg := \<lambda>_. RegState_other 0\<rparr>" CSControl_init]
  by (simp add: sample_info_def builtin_ecc_def CSControl_init_def CanCall_def)

definition held :: "CellularCallConnectionCS omap \<Rightarrow> int list" where
  "held t = map (\<lambda>(k, c). k) (filter (\<lambda>(k, c). r_state (callReportInfo c) = CALL_STATUS_HOLDING) t)"

lemma CheckAndHangupHoldingCall_cs_ok:
  assumes "table_ok t" "e_service e" "\<forall>s. e_handler e s"
    and "\<forall>(k, c) \<in> set t. r_accountId (callReportInfo c) = slotId"
  shows "CheckAndHangupHoldingCall_cs e t =
    (TELEPHONY_SUCCESS, map (\<lambda>k. Ril (RilHangup slotId k)) (held t))"
  using assms
  by (induction e t rule: CheckAndHangupHoldingCall_cs.induct)
    (auto simp: HangUpRequest_cs_def ril_request_cases held_def)

text \<open>Answering beside an active call. Answering a ringing call while another one is active first hangs
  up every held call, in table order, then switches the active call to hold, un-mutes and answers; the
  control's state is not touched.\<close>

theorem answer_cs_three_way:
  assumes inv: "cs_inv ctl" and c: "map_of (csConnectionMap ctl) (ci_index i) = Some c"
    and ring: "r_state (callReportInfo c) \<in> {CALL_STATUS_INCOMING, CALL_STATUS_ALERTING, CALL_STATUS_WAITING}"
    and active: "IsInState (csConnectionMap ctl) CALL_STATUS_ACTIVE"
    and env: "e_service e" "\<forall>s. e_handler e s"
    and slot: "\<forall>(k, c) \<in> set (csConnectionMap ctl). r_accountId (callReportInfo c) = ci_slotId i"
  shows "Answer_cs e i ctl = (TELEPHONY_SUCCESS, ctl,
    map (\<lambda>k. Ril (RilHangup (ci_slotId i) k)) (held (csConnectionMap ctl)) @
    [Ril (RilSwitchCall (ci_slotId i)), Ril (RilSetMute (ci_slotId i) False), Ril (RilAnswer (ci_slotId i))])"
proof -
  let ?t = "csConnectionMap ctl"
  have ok: "table_ok ?t" using inv by (simp add: cs_inv_def)
  have f: "FindConnectionByIndex ?t (ci_index i) = Some (ci_index i, c)"
    using c by (simp add: FindConnectionByIndex_map_of [OF ok])
  have h: "held ?t = [] \<longleftrightarrow> \<not> IsInState ?t CALL_STATUS_HOLDING"
    by (auto simp: held_def IsInState_def list_ex_iff filter_empty_conv)
  obtain k' c' where a: "FindConnectionByState ?t CALL_STATUS_ACTIVE = Some (k', c')"
    using active FindConnectionByState_None by (metis option.exhaust surj_pair)
  show ?thesis
    using CheckAndHangupHoldingCall_cs_ok [OF ok env slot] h ring active env a
    by (auto simp: Answer_cs_def f SwitchCallRequest_cs_def AnswerRequest_cs_def ril_request_cases Let_def)
qed

definition sample_cs :: "int \<Rightarrow> TelCallState \<Rightarrow> string \<Rightarrow> CellularCallConnectionCS" where
  "sample_cs i s p =
     \<lparr>phoneNumber = [], flag = False, index = i, number = ''10086'',
      callReportInfo = zero_report\<lparr>r_index := i, r_state := s\<rparr>,
      postDialCallState = POST_DIAL_CALL_NOT_STARTED, nextPostDialCallCode = 0, postDialCallString = p,
      csDisconnectReason = DISCONNECTED_REASON_INVALID\<rparr>"

definition sample_cs_ctl :: CSControl where
  "sample_cs_ctl =
     \<lparr>isIgnoredIncomingCall = False,
      csConnectionMap = [(1, sample_cs 1 CALL_STATUS_HOLDING []), (2, sample_cs 2 CALL_STATUS_ACTIVE []),
                         (3, sample_cs 3 CALL_STATUS_WAITING [])],
      csPendingPhoneNumber = []\<rparr>"

lemma sample_cs_ctl_inv: "cs_inv sample_cs_ctl"
  by (simp add: cs_inv_def sample_cs_ctl_def sample_cs_def settled_def)

theorem answer_cs_three_way_witness:
  "Answer_cs sample_env (sample_info\<lparr>ci_index := 3\<rparr>) sample_cs_ctl = (TELEPHONY_SUCCESS, sample_cs_ctl,
    [Ril (RilHangup 0 1), Ril (RilSwitchCall 0), Ril (RilSetMute 0 False), Ril (RilAnswer 0)])"
  using answer_cs_three_way [OF sample_cs_ctl_inv, of "sample_info\<lparr>ci_index := 3\<rparr>"
      "sample_cs 3 CALL_STATUS_WAITING []" sample_env]
  by (simp add: sample_cs_ctl_def sample_cs_def sample_defs IsInState_def held_def)

text \<open>C2: the table mirrors the modem. After \<^verbatim>\<open>ReportUpdateInfo\<close> the connection table is well formed and
  holds exactly the calls of the modem's list; unless the incoming call is being ignored, exactly one
  report goes up, with the reports of the listed calls in their order followed by one disconnected report
  for every call that is no longer listed, in index order.\<close>

theorem cs_table_mirrors_modem:
  assumes "cs_inv ctl" "e_register e" "ReportUpdateInfo_cs e slotId l ctl = (ret, ctl', acts)"
  shows "ret = TELEPHONY_SUCCESS \<and> cs_inv ctl' \<and> keys (csConnectionMap ctl') = c_index ` set (calls l) \<and>
    reports acts = (if isIgnoredIncomingCall ctl then [] else
       [\<lparr>callVec = map (update_report_cs e slotId (length (calls l) = 1)) (calls l) @
           map (\<lambda>(k, c). (callReportInfo c)\<lparr>r_state := CALL_STATUS_DISCONNECTED, r_reason := csDisconnectReason c\<rparr>)
             (filter (\<lambda>(k, c). k \<notin> c_index ` set (calls l)) (csConnectionMap ctl)),
         cr_slotId = slotId\<rparr>])"
  using ReportUpdateInfo_cs_result [OF assms(1,3)] assms(2) by (simp add: gone_cs_def)

theorem cs_table_mirrors_modem_witness:
  "\<exists>ret ctl' acts.
     ReportUpdateInfo_cs sample_env 0 \<lparr>callSize = 2, calls = [sample_call 2 CALL_STATUS_ACTIVE,
       sample_call 7 CALL_STATUS_DIALING]\<rparr> sample_cs_ctl = (ret, ctl', acts) \<and>
     ret = TELEPHONY_SUCCESS \<and> keys (csConnectionMap ctl') = {2, 7}"
proof -
  let ?l = "\<lparr>callSize = 2, calls = [sample_call 2 CALL_STATUS_ACTIVE, sample_call 7 CALL_STATUS_DIALING]\<rparr>"
  obtain ret ctl' acts where r: "ReportUpdateInfo_cs sample_env 0 ?l sample_cs_ctl = (ret, ctl', acts)"
    by (metis prod_cases3)
  with cs_table_mirrors_modem [OF sample_cs_ctl_inv _ r] show ?thesis by (simp add: sample_call_def)
qed

text \<open>C7: the invariant of the CS control. In every state that operations can reach, with any answers of
  modem, register and service, the connections are sorted by their index, stored under their own index,
  and no report flag is left set.\<close>

theorem cs_control_invariant:
  assumes "cs_reachable ctl"
  shows "sorted_wrt (<) (map fst (csConnectionMap ctl)) \<and>
    (\<forall>(k, c) \<in> set (csConnectionMap ctl). index c = k \<and> \<not> flag c)"
  using cs_reachable_inv [OF assms]
  by (auto simp: cs_inv_def table_ok_def omap_ok_def settled_def list_all_iff)

theorem cs_control_invariant_witness:
  "sorted_wrt (<) (map fst (csConnectionMap (UpdateDisconnectedReason_cs \<lparr>callSize = 0, calls = []\<rparr>
     DISCONNECTED_REASON_NORMAL CSControl_init)))"
  using cs_control_invariant [OF cs_reachable.step [OF cs_reachable.init cs_step.reason]] by blast

text \<open>C1: no disconnected call is announced without its reason. While a call of the table that ended has no reason, a report
  with query only asks the modem for the reason and leaves the table as it is, whether the modem still lists other calls
  or none at all. Once the reason is known, the same report goes through: the table then holds the listed calls, one
  report names them and announces every call that is gone as disconnected, each with a reason. A control without
  calls asks for nothing.\<close>

theorem cs_reason_protocol:
  assumes inv: "cs_inv ctl" and size: "callSize l \<le> 0 \<longrightarrow> calls l = []"
    and reason: "reason \<noteq> DISCONNECTED_REASON_INVALID"
    and env: "e_register e" "\<not> isIgnoredIncomingCall ctl"
  shows "(HasEndCallWithoutReason_cs l ctl \<longrightarrow>
      ReportCsCallsData e s l True ctl = (TELEPHONY_SUCCESS, ctl, snd (GetCallFailReason_cs e s))) \<and>
    (csConnectionMap ctl = [] \<longrightarrow> ReportCsCallsData e s l True ctl = ReportCsCallsData e s l False ctl) \<and>
    (csConnectionMap ctl \<noteq> [] \<longrightarrow> (\<exists>ctl' acts gone.
      ReportCsCallsData e s l True (UpdateDisconnectedReason_cs l reason ctl) = (TELEPHONY_SUCCESS, ctl', acts) \<and>
      cs_inv ctl' \<and> keys (csConnectionMap ctl') = c_index ` set (calls l) \<and>
      reports acts = [\<lparr>callVec = map (update_report_cs e s (length (calls l) = 1)) (calls l) @ gone,
                       cr_slotId = s\<rparr>] \<and>
      length gone = card (keys (csConnectionMap ctl) - c_index ` set (calls l)) \<and>
      (\<forall>r \<in> set gone. r_state r = CALL_STATUS_DISCONNECTED \<and> r_reason r \<noteq> DISCONNECTED_REASON_INVALID)))"
proof (intro conjI impI)
  assume "HasEndCallWithoutReason_cs l ctl"
  then show "ReportCsCallsData e s l True ctl = (TELEPHONY_SUCCESS, ctl, snd (GetCallFailReason_cs e s))"
    by (auto simp: ReportCsCallsData_def HasEndCallWithoutReason_cs_def)
next
  assume "csConnectionMap ctl = []"
  then show "ReportCsCallsData e s l True ctl = ReportCsCallsData e s l False ctl"
    by (simp add: ReportCsCallsData_def HasEndCallWithoutReason_cs_def)
next
  let ?u = "UpdateDisconnectedReason_cs l reason ctl"
  let ?old = "filter (\<lambda>(k, c). k \<notin> c_index ` set (calls l)) (csConnectionMap ?u)"
  let ?acc = "\<lambda>r. if callSize l \<le> 0 then r\<lparr>r_accountId := s\<rparr> else r"
  assume ne: "csConnectionMap ctl \<noteq> []"
  have no: "\<not> HasEndCallWithoutReason_cs l ?u" by (rule UpdateDisconnectedReason_cs_resolves [OF reason])
  have inv': "cs_inv ?u" by (rule UpdateDisconnectedReason_cs_inv [OF inv])
  have keys: "keys (csConnectionMap ?u) = keys (csConnectionMap ctl)" "csConnectionMap ?u \<noteq> []"
    "isIgnoredIncomingCall ?u = isIgnoredIncomingCall ctl"
    using ne by (simp_all add: UpdateDisconnectedReason_cs_def)
  have ok: "table_ok (csConnectionMap ?u)" using inv' by (simp add: cs_inv_def)
  have len: "length ?old = card (keys (csConnectionMap ctl) - c_index ` set (calls l))"
    using length_unreported [OF ok] by (simp add: keys(1))
  have gone: "r_state x = CALL_STATUS_DISCONNECTED \<and> r_reason x \<noteq> DISCONNECTED_REASON_INVALID"
    if "x \<in> set (map (\<lambda>(k, c). ?acc (gone_cs c)) ?old)" for x
    using that ended_reason [OF ok, of l] no
    by (auto simp: gone_cs_def HasEndCallWithoutReason_cs_def split: if_split_asm)
  obtain ctl' acts where
    "ReportCsCallsData e s l True ?u = (TELEPHONY_SUCCESS, ctl', acts)"
    "cs_inv ctl'" "keys (csConnectionMap ctl') = c_index ` set (calls l)"
    "reports acts = [\<lparr>callVec = map (update_report_cs e s (length (calls l) = 1)) (calls l) @
        map (\<lambda>(k, c). ?acc (gone_cs c)) ?old, cr_slotId = s\<rparr>]"
  proof (cases "callSize l \<le> 0")
    case True
    with size have e: "calls l = []" by simp
    with True no env keys show ?thesis
      by (intro that [of "?u\<lparr>csConnectionMap := []\<rparr>"])
        (auto simp: ReportCsCallsData_def ReportHangUpInfo_cs_def gone_cs_def keys_def cs_inv_def Let_def)
  next
    case False
    obtain ret ctl' acts where r: "ReportUpdateInfo_cs e s l ?u = (ret, ctl', acts)" by (metis prod_cases3)
    note res = ReportUpdateInfo_cs_result [OF inv' r, simplified keys(3) env if_True if_False]
    have "ReportCsCallsData e s l True ?u = (ret, ctl', acts)"
      using False no keys(2) r by (simp add: ReportCsCallsData_def)
    with False res show ?thesis by (intro that) simp_all
  qed
  with len gone show "\<exists>ctl' acts gone. ReportCsCallsData e s l True ?u = (TELEPHONY_SUCCESS, ctl', acts) \<and>
      cs_inv ctl' \<and> keys (csConnectionMap ctl') = c_index ` set (calls l) \<and>
      reports acts = [\<lparr>callVec = map (update_report_cs e s (length (calls l) = 1)) (calls l) @ gone,
                       cr_slotId = s\<rparr>] \<and>
      length gone = card (keys (csConnectionMap ctl) - c_index ` set (calls l)) \<and>
      (\<forall>r \<in> set gone. r_state r = CALL_STATUS_DISCONNECTED \<and> r_reason r \<noteq> DISCONNECTED_REASON_INVALID)"
    by (intro exI [of _ ctl'] exI [of _ acts] exI [of _ "map (\<lambda>(k, c). ?acc (gone_cs c)) ?old"]) simp
qed

text \<open>The modem lists one call of the three, then none.\<close>

theorem cs_reason_protocol_witness:
  "list_all (\<lambda>l. ReportCsCallsData sample_env 0 l True sample_cs_ctl = (TELEPHONY_SUCCESS, sample_cs_ctl, [Ril (RilGetCallFailReason 0)]) \<and>
     (\<exists>ctl' acts u gone. ReportCsCallsData sample_env 0 l True
         (UpdateDisconnectedReason_cs l DISCONNECTED_REASON_NORMAL sample_cs_ctl) = (TELEPHONY_SUCCESS, ctl', acts) \<and>
       reports acts = [\<lparr>callVec = u @ gone, cr_slotId = 0\<rparr>] \<and> length gone = 3 - length (calls l) \<and>
       (\<forall>r \<in> set gone. r_state r = CALL_STATUS_DISCONNECTED \<and> r_reason r \<noteq> DISCONNECTED_REASON_INVALID)))
     [\<lparr>callSize = 1, calls = [sample_call 2 CALL_STATUS_ACTIVE]\<rparr>, \<lparr>callSize = 0, calls = []\<rparr>]"
  unfolding list_all_iff
proof
  fix l assume l: "l \<in> set [\<lparr>callSize = 1, calls = [sample_call 2 CALL_STATUS_ACTIVE]\<rparr>, \<lparr>callSize = 0, calls = []\<rparr>]"
  have k: "keys (csConnectionMap sample_cs_ctl) = {1, 2, 3}" "csConnectionMap sample_cs_ctl \<noteq> []"
    "\<not> isIgnoredIncomingCall sample_cs_ctl" "c_index (sample_call 2 CALL_STATUS_ACTIVE) = 2"
    by (auto simp: sample_cs_ctl_def keys_def sample_call_def)
  have "HasEndCallWithoutReason_cs l sample_cs_ctl" "snd (GetCallFailReason_cs sample_env 0) = [Ril (RilGetCallFailReason 0)]"
    "callSize l \<le> 0 \<longrightarrow> calls l = []"
    using l by (auto simp: HasEndCallWithoutReason_cs_def ended_without_reason_cs_def sample_cs_ctl_def sample_cs_def sample_call_def
        GetCallFailReason_cs_def GetCallFailReasonRequest_cs_def ril_request_cases)
  moreover have "card ({1, 2, 3 :: int} - c_index ` set (calls l)) = 3 - length (calls l)"
    using l k(4) by (auto simp: insert_Diff_if)
  ultimately show "ReportCsCallsData sample_env 0 l True sample_cs_ctl = (TELEPHONY_SUCCESS, sample_cs_ctl, [Ril (RilGetCallFailReason 0)]) \<and>
     (\<exists>ctl' acts u gone. ReportCsCallsData sample_env 0 l True
         (UpdateDisconnectedReason_cs l DISCONNECTED_REASON_NORMAL sample_cs_ctl) = (TELEPHONY_SUCCESS, ctl', acts) \<and>
       reports acts = [\<lparr>callVec = u @ gone, cr_slotId = 0\<rparr>] \<and> length gone = 3 - length (calls l) \<and>
       (\<forall>r \<in> set gone. r_state r = CALL_STATUS_DISCONNECTED \<and> r_reason r \<noteq> DISCONNECTED_REASON_INVALID))"
    using cs_reason_protocol [OF sample_cs_ctl_inv, of l DISCONNECTED_REASON_NORMAL sample_env 0] k by simp blast
qed

section \<open>Hang-up, refusal, unknown calls\<close>

lemma find_cs:
  "cs_inv ctl \<Longrightarrow> FindConnectionByIndex (csConnectionMap ctl) i = map_option (Pair i) (map_of (csConnectionMap ctl) i)"
  by (simp add: cs_inv_def FindConnectionByIndex_map_of)

text \<open>An update of the reason of one call shows in the disconnected report of exactly this call.\<close>

lemma put_unreported:
  assumes "cs_inv ctl" "map_of (csConnectionMap ctl) i = Some c" "index c' = index c" "flag c' = flag c"
    and "\<not> isIgnoredIncomingCall ctl" "e_register e" "i \<notin> c_index ` set (calls l)"
    and "ReportUpdateInfo_cs e s l (ctl\<lparr>csConnectionMap := omap_put i c' (csConnectionMap ctl)\<rparr>) = (ret, ctl2, acts)"
  shows "i \<notin> keys (csConnectionMap ctl2) \<and> (\<exists>vec. reports acts = [\<lparr>callVec = vec, cr_slotId = s\<rparr>] \<and> gone_cs c' \<in> set vec)"
proof -
  let ?ctl1 = "ctl\<lparr>csConnectionMap := omap_put i c' (csConnectionMap ctl)\<rparr>"
  have inv: "cs_inv ?ctl1" using cs_inv_put [OF assms(1) _ assms(3,4)] assms(1,2) by (simp add: find_cs)
  have "map_of (omap_put i c' (csConnectionMap ctl)) i = Some c'" using assms(2) by (simp add: map_of_omap_put)
  then have "(i, c') \<in> set (omap_put i c' (csConnectionMap ctl))" by (rule map_of_SomeD)
  with assms(7) have "gone_cs c' \<in> (\<lambda>(k, c). gone_cs c) `
      {x \<in> set (omap_put i c' (csConnectionMap ctl)). case x of (k, c) \<Rightarrow> k \<notin> c_index ` set (calls l)}"
    by force
  with ReportUpdateInfo_cs_result(3,5) [OF inv assms(8)] assms(5-7) show ?thesis by auto
qed

text \<open>C9: hanging up a CS call. The request names the call by its index, after a \<^verbatim>\<open>DISCONNECTING\<close> report of
  this call; and when the modem's list no longer holds the call, its disconnected report says that the user
  ended it. No reason has to be asked for this call.\<close>

theorem hang_up_cs:
  assumes inv: "cs_inv ctl" and c: "map_of (csConnectionMap ctl) (ci_index i) = Some c"
    and env: "e_service e" "e_handler e (ci_slotId i)" "e_register e" and ign: "\<not> isIgnoredIncomingCall ctl"
  shows "\<exists>ctl1. HangUp_cs e i TYPE_DEFAULT ctl =
      (TELEPHONY_SUCCESS, ctl1,
       [ReportSingleCallInfo (callReportInfo c) CALL_STATUS_DISCONNECTING, Ril (RilHangup (ci_slotId i) (ci_index i))]) \<and>
    keys (csConnectionMap ctl1) = keys (csConnectionMap ctl) \<and>
    (\<forall>l s ret ctl2 acts. ci_index i \<notin> c_index ` set (calls l) \<longrightarrow>
       ReportUpdateInfo_cs e s l ctl1 = (ret, ctl2, acts) \<longrightarrow>
       ci_index i \<notin> keys (csConnectionMap ctl2) \<and>
       (\<exists>vec. reports acts = [\<lparr>callVec = vec, cr_slotId = s\<rparr>] \<and>
          (callReportInfo c)\<lparr>r_state := CALL_STATUS_DISCONNECTED,
             r_reason := DISCONNECTED_REASON_USER_TERMINATED\<rparr> \<in> set vec))"
proof -
  let ?c = "c\<lparr>csDisconnectReason := DISCONNECTED_REASON_USER_TERMINATED\<rparr>"
  let ?ctl1 = "ctl\<lparr>csConnectionMap := omap_put (ci_index i) ?c (csConnectionMap ctl)\<rparr>"
  have ix: "index c = ci_index i" using inv c by (auto simp: cs_inv_def table_ok_iff)
  have "HangUp_cs e i TYPE_DEFAULT ctl = (TELEPHONY_SUCCESS, ?ctl1,
      [ReportSingleCallInfo (callReportInfo c) CALL_STATUS_DISCONNECTING, Ril (RilHangup (ci_slotId i) (ci_index i))])"
    using env c ix by (simp add: HangUp_cs_def find_cs [OF inv] report_single_def HangUpRequest_cs_def ril_request_cases)
  moreover have "ci_index i \<notin> keys (csConnectionMap ctl2) \<and>
       (\<exists>vec. reports acts = [\<lparr>callVec = vec, cr_slotId = s\<rparr>] \<and>
          (callReportInfo c)\<lparr>r_state := CALL_STATUS_DISCONNECTED,
             r_reason := DISCONNECTED_REASON_USER_TERMINATED\<rparr> \<in> set vec)"
    if "ci_index i \<notin> c_index ` set (calls l)" "ReportUpdateInfo_cs e s l ?ctl1 = (ret, ctl2, acts)"
    for l s ret ctl2 acts
    using put_unreported [OF inv c _ _ ign env(3) that] by (simp add: gone_cs_def)
  ultimately show ?thesis by (intro exI [of _ ?ctl1]) simp
qed

theorem hang_up_cs_witness:
  "\<exists>ctl1. HangUp_cs sample_env (sample_info\<lparr>ci_index := 2\<rparr>) TYPE_DEFAULT sample_cs_ctl =
      (TELEPHONY_SUCCESS, ctl1,
       [ReportSingleCallInfo (callReportInfo (sample_cs 2 CALL_STATUS_ACTIVE [])) CALL_STATUS_DISCONNECTING, Ril (RilHangup 0 2)]) \<and>
    (\<exists>ret ctl2 acts vec. ReportUpdateInfo_cs sample_env 0 \<lparr>callSize = 1, calls = [sample_call 3 CALL_STATUS_ACTIVE]\<rparr> ctl1 =
       (ret, ctl2, acts) \<and> reports acts = [\<lparr>callVec = vec, cr_slotId = 0\<rparr>] \<and>
       (callReportInfo (sample_cs 2 CALL_STATUS_ACTIVE []))\<lparr>r_state := CALL_STATUS_DISCONNECTED,
             r_reason := DISCONNECTED_REASON_USER_TERMINATED\<rparr> \<in> set vec)"
proof -
  let ?c = "sample_cs 2 CALL_STATUS_ACTIVE []"
  let ?l = "\<lparr>callSize = 1, calls = [sample_call 3 CALL_STATUS_ACTIVE]\<rparr>"
  have m: "map_of (csConnectionMap sample_cs_ctl) (ci_index (sample_info\<lparr>ci_index := 2\<rparr>)) = Some ?c"
    "\<not> isIgnoredIncomingCall sample_cs_ctl" by (simp_all add: sample_cs_ctl_def)
  from hang_up_cs [OF sample_cs_ctl_inv m(1), of sample_env] m(2) obtain ctl1 where
    1: "HangUp_cs sample_env (sample_info\<lparr>ci_index := 2\<rparr>) TYPE_DEFAULT sample_cs_ctl = (TELEPHONY_SUCCESS, ctl1,
       [ReportSingleCallInfo (callReportInfo ?c) CALL_STATUS_DISCONNECTING, Ril (RilHangup 0 2)])" and
    2: "\<And>l s ret ctl2 acts. 2 \<notin> c_index ` set (calls l) \<Longrightarrow>
       ReportUpdateInfo_cs sample_env s l ctl1 = (ret, ctl2, acts) \<Longrightarrow>
       \<exists>vec. reports acts = [\<lparr>callVec = vec, cr_slotId = s\<rparr>] \<and>
          (callReportInfo ?c)\<lparr>r_state := CALL_STATUS_DISCONNECTED,
             r_reason := DISCONNECTED_REASON_USER_TERMINATED\<rparr> \<in> set vec"
    by (auto simp: sample_info_def)
  obtain ret ctl2 acts where r: "ReportUpdateInfo_cs sample_env 0 ?l ctl1 = (ret, ctl2, acts)" by (metis prod_cases3)
  have "2 \<notin> c_index ` set (calls ?l)" by (simp add: sample_call_def)
  from 2 [OF this r] obtain vec where "reports acts = [\<lparr>callVec = vec, cr_slotId = 0\<rparr>]"
    "(callReportInfo ?c)\<lparr>r_state := CALL_STATUS_DISCONNECTED,
             r_reason := DISCONNECTED_REASON_USER_TERMINATED\<rparr> \<in> set vec" by blast
  with 1 r show ?thesis by (intro exI conjI) assumption+
qed

text \<open>The end of the last call. A list without calls, once every call has its reason, reports every call of
  the table once, in index order, as disconnected with the reason it carries, and empties the table; when
  the incoming call was ignored nothing is reported and the mark is cleared. An empty table still reports
  one disconnected call, so that the client always learns of the end.\<close>

theorem last_call_ends_cs:
  assumes "callSize l \<le> 0" "\<not> q \<or> \<not> HasEndCallWithoutReason_cs l ctl" "e_register e"
  shows "ReportCsCallsData e s l q ctl =
    (TELEPHONY_SUCCESS, ctl\<lparr>csConnectionMap := [], isIgnoredIncomingCall := False\<rparr>,
     if isIgnoredIncomingCall ctl then []
     else [ReportCallsInfo \<lparr>callVec =
        (if csConnectionMap ctl = [] then [(e_defaultReport e)\<lparr>r_state := CALL_STATUS_DISCONNECTED, r_accountId := s\<rparr>]
         else map (\<lambda>(k, c). (gone_cs c)\<lparr>r_accountId := s\<rparr>) (csConnectionMap ctl)), cr_slotId = s\<rparr>])"
  using assms by (auto simp: ReportCsCallsData_def ReportHangUpInfo_cs_def gone_cs_def Let_def)

theorem last_call_ends_cs_witness:
  "\<exists>v1 v2 v3. ReportCsCallsData sample_env 0 \<lparr>callSize = 0, calls = []\<rparr> False sample_cs_ctl =
     (TELEPHONY_SUCCESS, CSControl_init, [ReportCallsInfo \<lparr>callVec = [v1, v2, v3], cr_slotId = 0\<rparr>]) \<and>
   r_index v1 = 1 \<and> r_state v1 = CALL_STATUS_DISCONNECTED"
  using last_call_ends_cs [of "\<lparr>callSize = 0, calls = []\<rparr>" False sample_cs_ctl sample_env 0]
  by (simp add: sample_cs_ctl_def CSControl_init_def sample_cs_def zero_report_def gone_cs_def)

text \<open>Only a ringing call can be declined. \<^verbatim>\<open>Reject\<close> of a call that does not ring is refused with
  \<^verbatim>\<open>CALL_ERR_CALL_STATE\<close> and has no effect; a ringing call is reported as disconnecting, the modem is
  asked to reject, and its later disconnected report says that the user declined it.\<close>

theorem reject_cs:
  assumes inv: "cs_inv ctl" and c: "map_of (csConnectionMap ctl) (ci_index i) = Some c"
    and env: "e_service e" "e_handler e (ci_slotId i)" "e_register e" and ign: "\<not> isIgnoredIncomingCall ctl"
  shows "(\<not> IsRingingState c \<longrightarrow> Reject_cs e i ctl = (CALL_ERR_CALL_STATE, ctl, [])) \<and>
    (IsRingingState c \<longrightarrow> (\<exists>ctl1. Reject_cs e i ctl =
      (TELEPHONY_SUCCESS, ctl1,
       [ReportSingleCallInfo (callReportInfo c) CALL_STATUS_DISCONNECTING, Ril (RilReject (ci_slotId i))]) \<and>
    (\<forall>l s ret ctl2 acts. ci_index i \<notin> c_index ` set (calls l) \<longrightarrow>
       ReportUpdateInfo_cs e s l ctl1 = (ret, ctl2, acts) \<longrightarrow>
       (\<exists>vec. reports acts = [\<lparr>callVec = vec, cr_slotId = s\<rparr>] \<and>
          (callReportInfo c)\<lparr>r_state := CALL_STATUS_DISCONNECTED,
             r_reason := DISCONNECTED_REASON_USER_DECLINE\<rparr> \<in> set vec))))"
proof (intro conjI impI)
  assume "\<not> IsRingingState c"
  then show "Reject_cs e i ctl = (CALL_ERR_CALL_STATE, ctl, [])"
    using c by (simp add: Reject_cs_def find_cs [OF inv])
next
  assume ring: "IsRingingState c"
  let ?c = "c\<lparr>csDisconnectReason := DISCONNECTED_REASON_USER_DECLINE\<rparr>"
  let ?ctl1 = "ctl\<lparr>csConnectionMap := omap_put (ci_index i) ?c (csConnectionMap ctl)\<rparr>"
  have "Reject_cs e i ctl = (TELEPHONY_SUCCESS, ?ctl1,
      [ReportSingleCallInfo (callReportInfo c) CALL_STATUS_DISCONNECTING, Ril (RilReject (ci_slotId i))])"
    using env c ring by (simp add: Reject_cs_def find_cs [OF inv] report_single_def RejectRequest_cs_def ril_request_cases)
  moreover have "\<exists>vec. reports acts = [\<lparr>callVec = vec, cr_slotId = s\<rparr>] \<and>
          (callReportInfo c)\<lparr>r_state := CALL_STATUS_DISCONNECTED,
             r_reason := DISCONNECTED_REASON_USER_DECLINE\<rparr> \<in> set vec"
    if "ci_index i \<notin> c_index ` set (calls l)" "ReportUpdateInfo_cs e s l ?ctl1 = (ret, ctl2, acts)"
    for l s ret ctl2 acts
    using put_unreported [OF inv c _ _ ign env(3) that] by (simp add: gone_cs_def)
  ultimately show "\<exists>ctl1. Reject_cs e i ctl =
      (TELEPHONY_SUCCESS, ctl1,
       [ReportSingleCallInfo (callReportInfo c) CALL_STATUS_DISCONNECTING, Ril (RilReject (ci_slotId i))]) \<and>
    (\<forall>l s ret ctl2 acts. ci_index i \<notin> c_index ` set (calls l) \<longrightarrow>
       ReportUpdateInfo_cs e s l ctl1 = (ret, ctl2, acts) \<longrightarrow>
       (\<exists>vec. reports acts = [\<lparr>callVec = vec, cr_slotId = s\<rparr>] \<and>
          (callReportInfo c)\<lparr>r_state := CALL_STATUS_DISCONNECTED,
             r_reason := DISCONNECTED_REASON_USER_DECLINE\<rparr> \<in> set vec))"
    by (intro exI [of _ ?ctl1]) simp
qed

theorem reject_cs_witness:
  "Reject_cs sample_env (sample_info\<lparr>ci_index := 2\<rparr>) sample_cs_ctl = (CALL_ERR_CALL_STATE, sample_cs_ctl, [])"
  using reject_cs [OF sample_cs_ctl_inv, of "sample_info\<lparr>ci_index := 2\<rparr>" "sample_cs 2 CALL_STATUS_ACTIVE []" sample_env]
  by (simp add: sample_cs_ctl_def IsRingingState_def sample_cs_def)

text \<open>A call that is not in the table. Every operation on a single call refuses an index without a
  connection, with the state unchanged and without any request or report.\<close>

theorem unknown_call_cs:
  assumes "cs_inv ctl" "ci_index i \<notin> keys (csConnectionMap ctl)"
  shows "HangUp_cs e i TYPE_DEFAULT ctl = (CALL_ERR_CALL_CONNECTION_NOT_EXIST, ctl, []) \<and>
    Answer_cs e i ctl = (CALL_ERR_CALL_CONNECTION_NOT_EXIST, ctl, []) \<and>
    Reject_cs e i ctl = (CALL_ERR_CALL_CONNECTION_NOT_EXIST, ctl, []) \<and>
    PostDialProceed_cs e i p ctl = (TELEPHONY_ERR_LOCAL_PTR_NULL, ctl, [])"
proof -
  have "map_of (csConnectionMap ctl) (ci_index i) = None"
    using assms(2) by (simp add: keys_def map_of_eq_None_iff)
  then show ?thesis
    by (simp add: HangUp_cs_def Answer_cs_def Reject_cs_def PostDialProceed_cs_def find_cs [OF assms(1)] Let_def)
qed

theorem unknown_call_cs_witness:
  "Answer_cs sample_env (sample_info\<lparr>ci_index := 9\<rparr>) sample_cs_ctl =
    (CALL_ERR_CALL_CONNECTION_NOT_EXIST, sample_cs_ctl, [])"
  using unknown_call_cs [OF sample_cs_ctl_inv, of "sample_info\<lparr>ci_index := 9\<rparr>" sample_env True]
  by (simp add: keys_def sample_cs_ctl_def)

section \<open>Post dial of an outgoing call\<close>

lemma single_update_cs:
  assumes inv: "cs_inv ctl" and c: "map_of (csConnectionMap ctl) (c_index call) = Some c"
    and conn: "IsConnectedOut (r_state (callReportInfo c)) (r_state (update_report_cs e s True call))"
    and env: "e_register e" "\<not> isIgnoredIncomingCall ctl" and l: "calls l = [call]"
    and c2: "c2 = UpdateCallNumber (csPendingPhoneNumber ctl) (c\<lparr>flag := True, index := c_index call,
       callReportInfo := update_report_cs e s True call, number := c_number call\<rparr>)"
    and x: "ExecutePostDial_cs e s (c_index call) (omap_put (c_index call) c2 (csConnectionMap ctl)) = (r, t', pacts)"
  shows "\<exists>ctl' vec. ReportUpdateInfo_cs e s l ctl =
      (TELEPHONY_SUCCESS, ctl', pacts @ [ReportCallsInfo \<lparr>callVec = vec, cr_slotId = s\<rparr>]) \<and>
    csPendingPhoneNumber ctl' = [] \<and>
    csConnectionMap ctl' = map (\<lambda>(k, c). (k, c\<lparr>flag := False\<rparr>)) (filter (\<lambda>(k, c). flag c) t')"
proof -
  have u: "update_call_cs e s True call (csConnectionMap ctl, csPendingPhoneNumber ctl, [], []) =
      (t', [], [update_report_cs e s True call], pacts)"
    using c conn x by (simp add: update_call_cs_def find_cs [OF inv] c2 Let_def)
  show ?thesis
    using env by (simp add: ReportUpdateInfo_cs_def l u DeleteConnection_cs_eq)
qed

lemma left_UpdateCallNumber:
  "postDialCallString c = [] \<Longrightarrow> nextPostDialCallCode c = 0 \<Longrightarrow>
   GetLeftPostDialCallString (UpdateCallNumber p c) = snd (address_scan p)"
  by (simp add: left_drop)

text \<open>C6: post dial from the connect on. When the outgoing call that is dialled with a post-dial string is
  reported as active, the report round itself processes the first character and clears the pending number;
  every further event processes one more, so that the characters have their effects one by one, in the order of the
  dialled string, and after the last one further events do nothing.\<close>

theorem post_dial_cs:
  assumes inv: "cs_inv ctl" and c: "map_of (csConnectionMap ctl) (c_index call) = Some c"
    and conn: "IsConnectedOut (r_state (callReportInfo c)) (r_state (update_report_cs e s True call))"
    and fresh: "postDialCallString c = []" "nextPostDialCallCode c = 0" "postDialCallState c \<noteq> POST_DIAL_CALL_CANCELED"
    and env: "e_service e" "e_register e" "\<not> isIgnoredIncomingCall ctl" and l: "calls l = [call]"
    and p: "snd (address_scan (csPendingPhoneNumber ctl)) = x # xs"
  shows "\<exists>ctl' vec t'. ReportUpdateInfo_cs e s l ctl =
      (TELEPHONY_SUCCESS, ctl', char_acts (SendDtmfRequest_cs e) False e s (c_index call) x xs @
         [ReportCallsInfo \<lparr>callVec = vec, cr_slotId = s\<rparr>]) \<and>
    csPendingPhoneNumber ctl' = [] \<and>
    post_dial_iter (length xs) (ExecutePostDial_cs e s (c_index call)) (csConnectionMap ctl') =
      (t', post_dial_trace (SendDtmfRequest_cs e) False e s (c_index call) xs) \<and>
    snd (snd (ExecutePostDial_cs e s (c_index call) t')) = []"
proof -
  let ?i = "c_index call" and ?t = "csConnectionMap ctl"
  define c2 where "c2 = UpdateCallNumber (csPendingPhoneNumber ctl) (c\<lparr>flag := True, index := ?i,
       callReportInfo := update_report_cs e s True call, number := c_number call\<rparr>)"
  have ok: "table_ok ?t" using inv by (simp add: cs_inv_def)
  have "index c2 = ?i" "flag c2" by (simp_all add: c2_def)
  then have ok2: "table_ok (omap_put ?i c2 ?t)" and m2: "map_of (omap_put ?i c2 ?t) ?i = Some c2"
    using ok c by (simp_all add: table_ok_put map_of_omap_put)
  have nc: "postDialCallState c2 \<noteq> POST_DIAL_CALL_CANCELED"
    using fresh by (simp add: c2_def UpdateCallNumber_def Let_def case_prod_beta)
  have left: "GetLeftPostDialCallString c2 = x # xs"
    unfolding c2_def using fresh p by (subst left_UpdateCallNumber) simp_all
  obtain c3 where
    x3: "ExecutePostDial_cs e s ?i (omap_put ?i c2 ?t) =
      (TELEPHONY_SUCCESS, omap_put ?i c3 (omap_put ?i c2 ?t), char_acts (SendDtmfRequest_cs e) False e s ?i x xs)" and
    c3: "index c3 = ?i" "GetLeftPostDialCallString c3 = xs" "postDialCallState c3 = char_state x"
    using execute_post_dial_step [OF ok2 m2 nc left env(1,2), of "SendDtmfRequest_cs e" False s "CHR 0x00"]
    unfolding ExecutePostDial_cs_def ProcessPostDialCallChar_cs_def by blast
  have "flag c3"
    using execute_post_dial_table [OF ok2 m2 x3 [unfolded ExecutePostDial_cs_def ProcessPostDialCallChar_cs_def]]
      \<open>flag c2\<close> c by (auto simp: omap_put_put dest!: arg_cong [where f = "\<lambda>t. map_of t ?i"] simp: map_of_omap_put)
  from single_update_cs [OF inv c conn env(2,3) l c2_def x3] obtain ctl' vec where
    r: "ReportUpdateInfo_cs e s l ctl = (TELEPHONY_SUCCESS, ctl', char_acts (SendDtmfRequest_cs e) False e s ?i x xs @
         [ReportCallsInfo \<lparr>callVec = vec, cr_slotId = s\<rparr>])" and
    ctl': "csPendingPhoneNumber ctl' = []"
      "csConnectionMap ctl' = map (\<lambda>(k, c). (k, c\<lparr>flag := False\<rparr>))
        (filter (\<lambda>(k, c). flag c) (omap_put ?i c3 (omap_put ?i c2 ?t)))" by blast
  have ok3: "table_ok (csConnectionMap ctl')"
    using ReportUpdateInfo_cs_result(2) [OF inv r] by (simp add: cs_inv_def)
  have "(?i, c3) \<in> set (omap_put ?i c3 (omap_put ?i c2 ?t))"
    using c by (intro map_of_SomeD) (simp add: map_of_omap_put)
  then have "(?i, c3\<lparr>flag := False\<rparr>) \<in> set (csConnectionMap ctl')"
    using \<open>flag c3\<close> by (force simp: ctl'(2))
  then have m3: "map_of (csConnectionMap ctl') ?i = Some (c3\<lparr>flag := False\<rparr>)"
    using map_of_ok [OF table_ok_omap [OF ok3]] by simp
  have "GetLeftPostDialCallString (c3\<lparr>flag := False\<rparr>) = xs" "postDialCallState (c3\<lparr>flag := False\<rparr>) \<noteq> POST_DIAL_CALL_CANCELED"
    using c3(2,3) by (simp_all add: left_drop char_state_def)
  from execute_post_dial_walk [OF ok3 m3 this(2) env(1,2) this(1), of "SendDtmfRequest_cs e" False s "CHR 0x00"]
  show ?thesis using r ctl'(1)
    unfolding ExecutePostDial_cs_def ProcessPostDialCallChar_cs_def by fastforce
qed

theorem post_dial_cs_witness:
  "\<exists>ctl' vec t'.
    ReportUpdateInfo_cs sample_env 0 \<lparr>callSize = 1, calls = [sample_call 1 CALL_STATUS_ACTIVE]\<rparr>
       \<lparr>isIgnoredIncomingCall = False, csConnectionMap = [(1, sample_cs 1 CALL_STATUS_DIALING [])],
        csPendingPhoneNumber = ''10086,7;8''\<rparr> =
      (TELEPHONY_SUCCESS, ctl', [SendPostDialEvent 0 \<lparr>pd_callId = 1, pd_isIms = False\<rparr> 3000,
         ReportCallsInfo \<lparr>callVec = vec, cr_slotId = 0\<rparr>]) \<and>
    post_dial_iter 3 (ExecutePostDial_cs sample_env 0 1) (csConnectionMap ctl') =
      (t', [Ril (RilSendDTMF 0 CHR ''7'' 1), ReportPostDialChar CHR ''7'', ReportPostDialDelay ''8'',
            Ril (RilSendDTMF 0 CHR ''8'' 1), ReportPostDialChar CHR ''8''])"
proof -
  let ?call = "sample_call 1 CALL_STATUS_ACTIVE" and ?c = "sample_cs 1 CALL_STATUS_DIALING []"
  let ?ctl = "\<lparr>isIgnoredIncomingCall = False, csConnectionMap = [(1, ?c)], csPendingPhoneNumber = ''10086,7;8''\<rparr>"
  have inv: "cs_inv ?ctl" by (simp add: cs_inv_def settled_def sample_cs_def)
  have st: "r_state (update_report_cs sample_env 0 True ?call) = CALL_STATUS_ACTIVE"
    by (simp add: update_report_cs_def EncapsulationCallReportInfo_cs_def FormatNumberAndToa_def c_str_def
        sample_call_def Let_def)
  show ?thesis
    using post_dial_cs [OF inv, of ?call ?c sample_env 0 "\<lparr>callSize = 1, calls = [?call]\<rparr>" "CHR '',''" "''7;8''"] st
    by (simp add: sample_call_def sample_cs_def zero_report_def IsConnectedOut_def is_address_char_def is_digit_def
        is_post_dial_mark_def Let_def char_acts_def IsDtmfKey_def IsPauseKey_def IsWaitKey_def PAUSE_DELAY_TIME_def
        SendDtmfRequest_cs_def ril_request_cases numeral_3_eq_3 del: post_dial_iter.simps) blast
qed

section \<open>When a dial request leaves\<close>

lemma HandleEcc_no_dial: "HandleEcc e i ecc a b = Some (r, acts) \<Longrightarrow> Ril (RilDial s n m) \<notin> set acts"
  by (auto simp: HandleEcc_def Let_def split: if_splits)

lemma DialPreJudgment_no_dial: "DialPreJudgment e i ecc = Some (r, acts) \<Longrightarrow> Ril (RilDial s n m) \<notin> set acts"
  by (auto simp: DialPreJudgment_def Let_def dest: HandleEcc_no_dial split: option.splits if_splits)

lemma DialPreJudgment_number: "DialPreJudgment e i ecc = Some (TELEPHONY_SUCCESS, acts) \<Longrightarrow> ci_phoneNum i \<noteq> []"
  by (auto simp: DialPreJudgment_def Let_def split: option.splits if_splits)

lemma IsNeedExecuteMMI_no_dial: "IsNeedExecuteMMI e s0 p c b = (mmi, n0, m0, acts) \<Longrightarrow> Ril (RilDial s n m) \<notin> set acts"
  by (auto simp: IsNeedExecuteMMI_def Let_def case_prod_beta split: if_splits)

lemma EncapsulateDialCommon_cs_dial:
  assumes "EncapsulateDialCommon_cs e s0 p c ctl = (r, ctl', acts)" "Ril (RilDial s n m) \<in> set acts"
  shows "s = s0 \<and> r = TELEPHONY_SUCCESS \<and> e_service e \<and> e_handler e s \<and> m = c \<and>
    n = fst (address_scan p) \<and> ctl' = ctl\<lparr>csPendingPhoneNumber := p\<rparr>"
proof (cases "e_service e \<and> e_handler e s0")
  case True
  with assms EncapsulateDialCommon_cs_ok [of e s0 p c ctl] show ?thesis by auto
next
  case False
  with assms show ?thesis
    by (auto simp: EncapsulateDialCommon_cs_def DialRequest_cs_def Let_def split: if_splits)
qed

lemma DialGsm_dial:
  assumes "DialGsm e i ctl = (r, ctl', acts)" "Ril (RilDial s n m) \<in> set acts"
  shows "s = ci_slotId i \<and> r = TELEPHONY_SUCCESS \<and> e_service e \<and> e_handler e s \<and> CanCall (csConnectionMap ctl) \<and>
    n = fst (address_scan (csPendingPhoneNumber ctl')) \<and> csConnectionMap ctl' = csConnectionMap ctl"
proof -
  obtain mmi n0 m0 ma where x: "IsNeedExecuteMMI e (ci_slotId i) (RemoveSeparatorsPhoneNumber (ci_phoneNum i)) DEFAULT False =
      (mmi, n0, m0, ma)" by (metis prod_cases4)
  obtain r1 c1 a1 where d: "EncapsulateDialCommon_cs e (ci_slotId i) n0 m0 ctl = (r1, c1, a1)" by (metis prod_cases3)
  have "Ril (RilDial s n m) \<in> set a1" "CanCall (csConnectionMap ctl)" "r = r1" "ctl' = c1"
    using assms x d IsNeedExecuteMMI_no_dial [OF x, of s n m]
    by (auto simp: DialGsm_def SwitchCallRequest_cs_def ril_request_cases Let_def split: if_splits)
  with EncapsulateDialCommon_cs_dial [OF d this(1)] show ?thesis by auto
qed

lemma DialCdma_dial:
  assumes "DialCdma e i ctl = (r, ctl', acts)" "Ril (RilDial s n m) \<in> set acts"
  shows "s = ci_slotId i \<and> r = TELEPHONY_SUCCESS \<and> e_service e \<and> e_handler e s \<and> CanCall (csConnectionMap ctl) \<and>
    n = fst (address_scan (csPendingPhoneNumber ctl')) \<and> csConnectionMap ctl' = csConnectionMap ctl"
proof -
  obtain mmi n0 m0 ma where x: "IsNeedExecuteMMI e (ci_slotId i) (RemoveSeparatorsPhoneNumber (ci_phoneNum i)) DEFAULT False =
      (mmi, n0, m0, ma)" by (metis prod_cases4)
  obtain r1 c1 a1 where d: "EncapsulateDialCommon_cs e (ci_slotId i) n0 m0 ctl = (r1, c1, a1)" by (metis prod_cases3)
  have "Ril (RilDial s n m) \<in> set a1" "CanCall (csConnectionMap ctl)" "r = r1" "ctl' = c1"
    using assms x d IsNeedExecuteMMI_no_dial [OF x, of s n m]
    by (auto simp: DialCdma_def SendCDMAThreeWayDialRequest_cs_def Let_def split: if_splits)
  with EncapsulateDialCommon_cs_dial [OF d this(1)] show ?thesis by auto
qed

text \<open>C8: what stands behind a dial request. When \<^verbatim>\<open>Dial\<close> sends a dial request to the modem, it is
  for the slot of the call, the number is not empty, at most six connections exist, the network is in service or the
  call is an emergency call, and the operation succeeds; the table is unchanged, and the number in the request is the network address of
  the number that is kept as pending for post dial.\<close>

theorem dial_request_cs:
  assumes "Dial_cs e i ecc ctl = Some (r, ctl', acts)" "Ril (RilDial s n m) \<in> set acts"
  shows "s = ci_slotId i \<and> ci_phoneNum i \<noteq> [] \<and> length (csConnectionMap ctl) \<le> 6 \<and>
    (e_csReg e s = REG_STATE_IN_SERVICE \<or> ecc) \<and> e_service e \<and> e_handler e s \<and> r = TELEPHONY_SUCCESS \<and>
    csConnectionMap ctl' = csConnectionMap ctl \<and> n = fst (address_scan (csPendingPhoneNumber ctl'))"
proof -
  obtain ret pacts where p: "DialPreJudgment e i ecc = Some (ret, pacts)"
    using assms(1) by (auto simp: Dial_cs_def split: option.splits)
  note nd = DialPreJudgment_no_dial [OF p, of s n m]
  obtain r1 c1 a1 where g: "DialGsm e i ctl = (r1, c1, a1)" by (metis prod_cases3)
  obtain r2 c2 a2 where c: "DialCdma e i ctl = (r2, c2, a2)" by (metis prod_cases3)
  have "ret = TELEPHONY_SUCCESS" "e_csReg e (ci_slotId i) = REG_STATE_IN_SERVICE \<or> ecc"
    "(r, ctl') = (r1, c1) \<and> Ril (RilDial s n m) \<in> set a1 \<or> (r, ctl') = (r2, c2) \<and> Ril (RilDial s n m) \<in> set a2"
    using assms p g c nd by (auto simp: Dial_cs_def split: if_splits)
  with DialGsm_dial [OF g] DialCdma_dial [OF c] DialPreJudgment_number [of e i ecc pacts] p show ?thesis
    by (auto simp: CanCall_def)
qed

lemma IsNeedExecuteMMI_plain:
  "e_isMmiCode e = Some f \<Longrightarrow> \<not> f s p \<Longrightarrow> IsNeedExecuteMMI e s p c b = (False, p, c, [])"
  by (simp add: IsNeedExecuteMMI_def)

theorem dial_request_cs_witness:
  "\<exists>ctl' acts. Dial_cs (sample_env\<lparr>e_isMmiCode := Some (\<lambda>_ _. False)\<rparr>) sample_info False
      (CSControl_init\<lparr>csConnectionMap := map (\<lambda>k. (k, sample_cs k CALL_STATUS_HOLDING [])) [1, 2, 3, 4, 5, 6]\<rparr>) =
      Some (TELEPHONY_SUCCESS, ctl', acts) \<and>
    Ril (RilDial 0 ''13800000000'' DEFAULT) \<in> set acts \<and> length (csConnectionMap ctl') = 6"
proof -
  let ?e = "sample_env\<lparr>e_isMmiCode := Some (\<lambda>_ _. False)\<rparr>"
  let ?ctl = "CSControl_init\<lparr>csConnectionMap := map (\<lambda>k. (k, sample_cs k CALL_STATUS_HOLDING [])) [1, 2, 3, 4, 5, 6]\<rparr>"
  have p: "DialPreJudgment ?e sample_info False = Some (TELEPHONY_SUCCESS, [])"
    by (simp add: DialPreJudgment_def HandleEcc_def sample_info_def)
  have n: "list_all is_digit (ci_phoneNum sample_info)" by (simp add: sample_info_def is_digit_def)
  have "ci_slotId sample_info = 0" "ci_phoneNum sample_info = ''13800000000''" by (simp_all add: sample_info_def)
  then obtain ctl' acts where d: "Dial_cs ?e sample_info False ?ctl = Some (TELEPHONY_SUCCESS, ctl', acts)"
    "Ril (RilDial 0 ''13800000000'' DEFAULT) \<in> set acts"
    using digits_address [OF n]
    by (simp add: Dial_cs_def p DialGsm_def IsNeedExecuteMMI_plain [of ?e "\<lambda>_ _. False"] CanCall_def
        EncapsulateDialCommon_cs_ok CSControl_init_def IsInState_def sample_cs_def Let_def)
  from dial_request_cs [OF this] this show ?thesis by simp
qed

end
