(* ===== verification/ConnectionIms.thy ===== *)
theory ConnectionIms
  imports Interception
begin

text \<open>
  \<^verbatim>\<open>services/connection/src/cellular_call_connection_ims.cpp\<close>: the requests of an IMS connection to
  the IMS service. All but \<^verbatim>\<open>DialRequest\<close> and \<^verbatim>\<open>CallSupplementRequest\<close> have the prologue
  \<open>ims_request\<close>. The record adds the hold-to-dial information, the pending hang-up mark, the
  disconnect reason and message. \<open>\<dots>_ims\<close> names the operation of this class.

  \<^verbatim>\<open>memset_s\<close> and \<^verbatim>\<open>strcpy_s\<close> are called with the exact sizes, so their failure branches cannot be
  taken and are not written; a number that does not fit is refused before the copy.
\<close>

record CellularCallConnectionIMS = BaseConnection +
  isNeedToDial :: bool
  holdToDialInfo :: ImsDialInfoStruct
  isPendingHangup :: bool
  imsDisconnectReason :: RilDisconnectedReason
  disconnectMessage :: string

definition CellularCallConnectionIMS_init :: "'x svc_env_scheme \<Rightarrow> CellularCallConnectionIMS" where
  "CellularCallConnectionIMS_init e =
     \<lparr>phoneNumber = [], flag = False, index = 1, number = [], callReportInfo = e_zeroReport e,
      postDialCallState = POST_DIAL_CALL_NOT_STARTED, nextPostDialCallCode = 0, postDialCallString = [],
      isNeedToDial = False, holdToDialInfo = ImsDialInfoStruct_init, isPendingHangup = False,
      imsDisconnectReason = DISCONNECTED_REASON_INVALID, disconnectMessage = []\<rparr>"

definition DialRequest_ims ::
    "'x svc_env_scheme \<Rightarrow> int \<Rightarrow> ImsDialInfoStruct \<Rightarrow> CellularCallConnectionIMS \<Rightarrow>
     errcode \<times> CellularCallConnectionIMS \<times> act list" where
  "DialRequest_ims e slotId dialRequest c =
     (let c1 = UpdateCallNumber (dr_phoneNum dialRequest) c;
          c2 = c1\<lparr>phoneNumber := []\<rparr> in
      if int (length (c_str (phoneNumber c1)) + 1) > kMaxNumberLength then (TELEPHONY_ERR_STRCPY_FAIL, c2, [])
      else
        let callInfo = ImsCallInfo_zero
              \<lparr>ic_phoneNum := c_str (phoneNumber c1), ic_videoState := di_videoState dialRequest,
               ic_slotId := slotId, ic_isRTT := di_isRTT dialRequest\<rparr>;
            (ret, acts) = ims_client e (ImsDial callInfo (dr_clirMode dialRequest))
        in (ret, c2, acts))"

definition HangUpRequest_ims :: "'x svc_env_scheme \<Rightarrow> int \<Rightarrow> string \<Rightarrow> int \<Rightarrow> errcode \<times> act list" where
  "HangUpRequest_ims e slotId phoneNum i =
     (if NeedCallImsService e then
        if int (length phoneNum + 1) > kMaxNumberLength then (TELEPHONY_ERR_STRCPY_FAIL, [])
        else ims_client e (ImsHangUp (ImsCallInfo_zero
               \<lparr>ic_phoneNum := c_str phoneNum, ic_slotId := slotId, ic_index := i\<rparr>))
      else (TELEPHONY_ERROR, []))"

definition AnswerRequest_ims ::
    "'x svc_env_scheme \<Rightarrow> int \<Rightarrow> string \<Rightarrow> int \<Rightarrow> int \<Rightarrow> bool \<Rightarrow> errcode \<times> act list" where
  "AnswerRequest_ims e slotId phoneNum videoState i isRTT =
     (if NeedCallImsService e then
        if int (length phoneNum + 1) > kMaxNumberLength then (TELEPHONY_ERR_STRCPY_FAIL, [])
        else ims_client e (ImsAnswer (ImsCallInfo_zero
               \<lparr>ic_phoneNum := c_str phoneNum, ic_videoState := videoState, ic_slotId := slotId,
                ic_index := i, ic_isRTT := isRTT\<rparr>))
      else (TELEPHONY_ERROR, []))"

definition RejectRequest_ims :: "'x svc_env_scheme \<Rightarrow> int \<Rightarrow> string \<Rightarrow> int \<Rightarrow> errcode \<times> act list" where
  "RejectRequest_ims e slotId phoneNum i =
     (if NeedCallImsService e then
        if int (length phoneNum + 1) > kMaxNumberLength then (TELEPHONY_ERR_STRCPY_FAIL, [])
        else ims_client e (ImsReject (ImsCallInfo_zero
               \<lparr>ic_phoneNum := c_str phoneNum, ic_slotId := slotId, ic_index := i\<rparr>))
      else (TELEPHONY_ERROR, []))"

definition HoldCallRequest_ims ::
    "'x svc_env_scheme \<Rightarrow> int \<Rightarrow> bool \<Rightarrow> CellularCallConnectionIMS \<Rightarrow> errcode \<times> act list" where
  [req_defs]: "HoldCallRequest_ims e slotId isRTT c =
     ims_request e (ImsHoldCall slotId (e_videoStateInt e (r_callMode (callReportInfo c))) isRTT)"

definition UnHoldCallRequest_ims ::
    "'x svc_env_scheme \<Rightarrow> int \<Rightarrow> bool \<Rightarrow> CellularCallConnectionIMS \<Rightarrow> errcode \<times> act list" where
  [req_defs]: "UnHoldCallRequest_ims e slotId isRTT c =
     ims_request e (ImsUnHoldCall slotId (e_videoStateInt e (r_callMode (callReportInfo c))) isRTT)"

definition SwitchCallRequest_ims ::
    "'x svc_env_scheme \<Rightarrow> int \<Rightarrow> int \<Rightarrow> bool \<Rightarrow> CellularCallConnectionIMS \<Rightarrow>
     errcode \<times> CellularCallConnectionIMS \<times> act list" where
  "SwitchCallRequest_ims e slotId videoState isRTT c =
     (if NeedCallImsService e then
        if \<not> e_imsClient e then (CALL_ERR_RESOURCE_UNAVAILABLE, c, [])
        else
          let ret = e_imsResult e (ImsSwitchCall slotId videoState isRTT)
          in (ret, if ret = TELEPHONY_SUCCESS then UpdatePendingHoldFlag True c else c,
              [Ims (ImsSwitchCall slotId videoState isRTT)])
      else (TELEPHONY_ERROR, c, []))"

definition CombineConferenceRequest_ims :: "'x svc_env_scheme \<Rightarrow> int \<Rightarrow> int \<Rightarrow> errcode \<times> act list" where
  [req_defs]: "CombineConferenceRequest_ims e slotId voiceCall = ims_request e (ImsCombineConference slotId)"

definition InviteToConferenceRequest_ims :: "'x svc_env_scheme \<Rightarrow> int \<Rightarrow> string list \<Rightarrow> errcode \<times> act list" where
  [req_defs]: "InviteToConferenceRequest_ims e slotId numberList = ims_request e (ImsInviteToConference slotId numberList)"

definition KickOutFromConferenceRequest_ims :: "'x svc_env_scheme \<Rightarrow> int \<Rightarrow> int \<Rightarrow> errcode \<times> act list" where
  [req_defs]: "KickOutFromConferenceRequest_ims e slotId i = ims_request e (ImsKickOutFromConference slotId i)"

definition CallSupplementRequest_ims :: "'x svc_env_scheme \<Rightarrow> int \<Rightarrow> CallSupplementType \<Rightarrow> errcode \<times> act list" where
  [req_defs]: "CallSupplementRequest_ims e slotId ty = ril_request e slotId [RilCallSupplement slotId ty]"

definition GetImsCallsDataRequest_ims :: "'x svc_env_scheme \<Rightarrow> int \<Rightarrow> int \<Rightarrow> errcode \<times> act list" where
  [req_defs]: "GetImsCallsDataRequest_ims e slotId lastCallsDataFlag = ims_request e (ImsGetCallsData slotId lastCallsDataFlag)"

definition SendDtmfRequest_ims :: "'x svc_env_scheme \<Rightarrow> int \<Rightarrow> char \<Rightarrow> int \<Rightarrow> errcode \<times> act list" where
  [req_defs]: "SendDtmfRequest_ims e slotId c i = ims_request e (ImsSendDtmf slotId c i)"

definition StartDtmfRequest_ims :: "'x svc_env_scheme \<Rightarrow> int \<Rightarrow> char \<Rightarrow> int \<Rightarrow> errcode \<times> act list" where
  [req_defs]: "StartDtmfRequest_ims e slotId c i = ims_request e (ImsStartDtmf slotId c i)"

definition StopDtmfRequest_ims :: "'x svc_env_scheme \<Rightarrow> int \<Rightarrow> int \<Rightarrow> errcode \<times> act list" where
  [req_defs]: "StopDtmfRequest_ims e slotId i = ims_request e (ImsStopDtmf slotId i)"

definition UpdateImsRttCallModeRequest_ims :: "'x svc_env_scheme \<Rightarrow> int \<Rightarrow> int \<Rightarrow> int \<Rightarrow> errcode \<times> act list" where
  [req_defs]: "UpdateImsRttCallModeRequest_ims e slotId callId mode = ims_request e (ImsUpdateRttCallMode slotId callId mode)"

definition GetCallFailReasonRequest_ims :: "'x svc_env_scheme \<Rightarrow> int \<Rightarrow> errcode \<times> act list" where
  [req_defs]: "GetCallFailReasonRequest_ims e slotId = ims_request e (ImsGetLastCallFailReason slotId)"

definition ProcessPostDialCallChar_ims ::
    "'x svc_env_scheme \<Rightarrow> int \<Rightarrow> CellularCallConnectionIMS \<Rightarrow> char \<Rightarrow>
     errcode \<times> CellularCallConnectionIMS \<times> act list" where
  "ProcessPostDialCallChar_ims e = post_dial_char (SendDtmfRequest_ims e) True e"

definition SetHoldToDialInfo ::
    "string \<Rightarrow> CLIRMode \<Rightarrow> int \<Rightarrow> bool \<Rightarrow> CellularCallConnectionIMS \<Rightarrow> CellularCallConnectionIMS" where
  "SetHoldToDialInfo holdToDialNum holdToDialClirMode holdToDialVideoState isEmergency c =
     c\<lparr>holdToDialInfo := (holdToDialInfo c)
        \<lparr>dr_phoneNum := holdToDialNum, dr_clirMode := holdToDialClirMode,
         di_videoState := holdToDialVideoState, di_bEmergencyCall := isEmergency\<rparr>\<rparr>"

section \<open>Properties\<close>

lemma ims_request_cases:
  "ims_request e req =
     (if e_imsClient e \<and> e_imsProxy e then (e_imsResult e req, [Ims req]) else (TELEPHONY_ERROR, []))"
  by (simp add: ims_request_def ims_client_def NeedCallImsService_def)

lemma SetHoldToDialInfo_simps [simp]:
  "flag (SetHoldToDialInfo n m v b c) = flag c" "index (SetHoldToDialInfo n m v b c) = index c"
  "callReportInfo (SetHoldToDialInfo n m v b c) = callReportInfo c"
  by (simp_all add: SetHoldToDialInfo_def)

lemma SwitchCallRequest_ims_keeps [simp]:
  "flag (fst (snd (SwitchCallRequest_ims e s v r c))) = flag c"
  "index (fst (snd (SwitchCallRequest_ims e s v r c))) = index c"
  by (simp_all add: SwitchCallRequest_ims_def Let_def)

lemma address_scan_no_nul: "CHR 0x00 \<notin> set (fst (address_scan n))"
proof -
  have "\<not> is_address_char CHR 0x00" by (simp add: is_address_char_def is_digit_def)
  then show ?thesis using address_scan_address by metis
qed

lemma DialRequest_ims_fresh:
  assumes "e_imsClient e"
  shows "DialRequest_ims e slotId d (CellularCallConnectionIMS_init e) =
    (let c' = (CellularCallConnectionIMS_init e)\<lparr>postDialCallString := snd (address_scan (dr_phoneNum d))\<rparr>;
         n = fst (address_scan (dr_phoneNum d)) in
     if length n < 255 then
       let req = ImsDial \<lparr>ic_phoneNum = n, ic_slotId = slotId, ic_videoState = di_videoState d, ic_index = 0,
                          ic_isRTT = di_isRTT d\<rparr> (dr_clirMode d)
       in (e_imsResult e req, c', [Ims req])
     else (TELEPHONY_ERR_STRCPY_FAIL, c', []))"
proof -
  have s: "c_str (fst (address_scan (dr_phoneNum d))) = fst (address_scan (dr_phoneNum d))"
    by (rule c_str_id [OF address_scan_no_nul])
  show ?thesis
    using assms s
    by (auto simp: DialRequest_ims_def CellularCallConnectionIMS_init_def UpdateCallNumber_def
        ExtractAddressAndPostDial_def ims_client_def kMaxNumberLength_def ImsCallInfo_zero_def
        case_prod_beta Let_def)
qed

end
