(* ===== verification/ImsControl.thy ===== *)
theory ImsControl
  imports ConnectionIms
begin

text \<open>
  \<^verbatim>\<open>services/control/src/ims_control.cpp\<close>: the IMS control of one slot. To the table and the pending
  number it adds the mark of a silent redial over CS and, under
  \<^verbatim>\<open>BASE_POWER_IMPROVEMENT_FEATURE\<close>, the emergency call that waits for the radio. \<open>\<dots>_ims\<close> names the
  operation of this class.
\<close>

record IMSControl = Control +
  imsConnectionMap :: "CellularCallConnectionIMS omap"
  imsPendingPhoneNumber :: string
  isSilentCsRedial :: bool
  pendingEmcDialCallInfo :: CellularCallInfo
  isPendingEmc :: bool
  waitForRadioOn :: bool

section \<open>Dialling\<close>

definition EncapsulateDial ::
    "'x ecc_env_scheme \<Rightarrow> int \<Rightarrow> string \<Rightarrow> CLIRMode \<Rightarrow> int \<Rightarrow> bool \<Rightarrow> errcode \<times> act list" where
  "EncapsulateDial e slotId phoneNum clirMode videoState isRTT =
     (let dialInfo = ImsDialInfoStruct_init
            \<lparr>di_videoState := videoState, di_isRTT := isRTT,
             di_bEmergencyCall := snd (IsEmergencyCall e slotId phoneNum False),
             dr_phoneNum := phoneNum, dr_clirMode := clirMode\<rparr>;
          (ret, _, acts) = DialRequest_ims e slotId dialInfo (CellularCallConnectionIMS_init e)
      in (ret, acts))"

fun hold_to_dial ::
    "'x ecc_env_scheme \<Rightarrow> int \<Rightarrow> string \<Rightarrow> CLIRMode \<Rightarrow> int \<Rightarrow> CellularCallConnectionIMS omap \<Rightarrow>
     (errcode \<times> CellularCallConnectionIMS omap \<times> act list) option" where
  "hold_to_dial e slotId phoneNum clirMode videoState [] = None"
| "hold_to_dial e slotId phoneNum clirMode videoState ((k, c) # t) =
     (if r_state (callReportInfo c) = CALL_STATUS_ACTIVE \<and> \<not> isPendingHangup c then
        let isEmergency = snd (IsEmergencyCall e slotId phoneNum False);
            c1 = (SetHoldToDialInfo phoneNum clirMode videoState isEmergency c)\<lparr>isNeedToDial := True\<rparr>;
            (ret, c2, acts) = SwitchCallRequest_ims e slotId videoState False c1
        in Some (ret, (k, c2) # t, acts)
      else map_option (\<lambda>(ret, t', acts). (ret, (k, c) # t', acts))
             (hold_to_dial e slotId phoneNum clirMode videoState t))"

definition DialJudgment ::
    "'x ecc_env_scheme \<Rightarrow> int \<Rightarrow> string \<Rightarrow> CLIRMode \<Rightarrow> int \<Rightarrow> bool \<Rightarrow> IMSControl \<Rightarrow>
     errcode \<times> IMSControl \<times> act list" where
  "DialJudgment e slotId phoneNum clirMode videoState isRTT ctl =
     (if \<not> CanCall (imsConnectionMap ctl) then (CALL_ERR_CALL_COUNTS_EXCEED_LIMIT, ctl, [])
      else
        let ctl' = ctl\<lparr>imsPendingPhoneNumber := phoneNum\<rparr> in
        case hold_to_dial e slotId phoneNum clirMode videoState (imsConnectionMap ctl) of
          Some (ret, t', acts) \<Rightarrow> (ret, ctl'\<lparr>imsConnectionMap := t'\<rparr>, acts)
        | None \<Rightarrow>
            let (ret, acts) = EncapsulateDial e slotId phoneNum clirMode videoState isRTT
            in (ret, ctl', acts))"

definition SavePendingEmcCallInfo :: "'x svc_env_scheme \<Rightarrow> CellularCallInfo \<Rightarrow> IMSControl \<Rightarrow> errcode \<times> IMSControl" where
  "SavePendingEmcCallInfo e callInfo ctl =
     (TELEPHONY_SUCCESS,
      ctl\<lparr>pendingEmcDialCallInfo := (pendingEmcDialCallInfo ctl)
            \<lparr>ci_callId := ci_callId callInfo, ci_slotId := ci_slotId callInfo,
             ci_accountId := ci_accountId callInfo, ci_callType := ci_callType callInfo,
             ci_videoState := ci_videoState callInfo, ci_index := ci_index callInfo,
             ci_phoneNum := take (e_kMaxNumberLen e) (ci_phoneNum callInfo)\<rparr>,
          isPendingEmc := True, waitForRadioOn := True\<rparr>)"

text \<open>A SIP URI loses its separators.\<close>

definition ims_dial_number :: "string \<Rightarrow> string" where
  "ims_dial_number num =
     (if CHR ''@'' \<in> set num \<or> find_sub ''%40'' num \<noteq> None then RemoveSeparatorsPhoneNumber num else num)"

definition Dial_ims ::
    "'x dial_env_scheme \<Rightarrow> CellularCallInfo \<Rightarrow> bool \<Rightarrow> IMSControl \<Rightarrow> (errcode \<times> IMSControl \<times> act list) option" where
  "Dial_ims e callInfo isEcc ctl =
     (case DialPreJudgment e callInfo isEcc of
        None \<Rightarrow> None
      | Some (ret, pacts) \<Rightarrow>
          if e_basePower e \<and> ret = CALL_ERR_GET_RADIO_STATE_FAILED \<and> isEcc then
            let (r, ctl') = SavePendingEmcCallInfo e callInfo ctl in Some (r, ctl', pacts)
          else if ret \<noteq> TELEPHONY_SUCCESS then Some (ret, ctl, pacts)
          else if \<not> (e_psReg e (ci_slotId callInfo) = REG_STATE_IN_SERVICE \<or> isEcc)
            then Some (TELEPHONY_ERR_NETWORK_NOT_IN_SERVICE, ctl, pacts)
          else
            let newPhoneNum = ims_dial_number (ci_phoneNum callInfo);
                (mmi, dialNum, clirMode, macts) =
                  IsNeedExecuteMMI e (ci_slotId callInfo) newPhoneNum DEFAULT True in
            if mmi then Some (RETURN_TYPE_MMI, ctl, pacts @ macts)
            else
              let (r, ctl', acts) = DialJudgment e (ci_slotId callInfo) dialNum clirMode
                                      (ci_videoState callInfo) (ci_isRTT callInfo) ctl
              in Some (r, ctl', pacts @ macts @ acts))"

section \<open>Requests on existing calls\<close>

fun UpdateCallDisconnectReason_ims ::
    "int \<Rightarrow> RilDisconnectedReason \<Rightarrow> string \<Rightarrow> CellularCallConnectionIMS omap \<Rightarrow> CellularCallConnectionIMS omap" where
  "UpdateCallDisconnectReason_ims callId reason message [] = []"
| "UpdateCallDisconnectReason_ims callId reason message ((k, c) # t) =
     (if index c = callId then (k, c\<lparr>imsDisconnectReason := reason, disconnectMessage := message\<rparr>) # t
      else (k, c) # UpdateCallDisconnectReason_ims callId reason message t)"

definition HangUp_ims ::
    "'x svc_env_scheme \<Rightarrow> CellularCallInfo \<Rightarrow> CallSupplementType \<Rightarrow> IMSControl \<Rightarrow>
     errcode \<times> IMSControl \<times> act list" where
  "HangUp_ims e callInfo ty ctl =
     (case ty of
        TYPE_DEFAULT \<Rightarrow>
          (case FindConnectionByIndex (imsConnectionMap ctl) (ci_index callInfo) of
             None \<Rightarrow> (CALL_ERR_CALL_CONNECTION_NOT_EXIST, ctl, [])
           | Some (k, c) \<Rightarrow>
               let racts = report_single e (callReportInfo c) CALL_STATUS_DISCONNECTING;
                   c' = c\<lparr>isPendingHangup := True, imsDisconnectReason := DISCONNECTED_REASON_USER_TERMINATED,
                          disconnectMessage := []\<rparr>;
                   (ret, acts) = HangUpRequest_ims e (ci_slotId callInfo) (ci_phoneNum callInfo) (ci_index callInfo)
               in (ret, ctl\<lparr>imsConnectionMap := omap_put k c' (imsConnectionMap ctl)\<rparr>, racts @ acts))
      | TYPE_HANG_UP_HOLD_WAIT \<Rightarrow>
          let (ret, acts) = CallSupplementRequest_ims e (ci_slotId callInfo) ty
          in (ret, ctl\<lparr>imsConnectionMap := UpdateCallDisconnectReason_ims (ci_callId callInfo)
                          DISCONNECTED_REASON_USER_TERMINATED [] (imsConnectionMap ctl)\<rparr>, acts)
      | TYPE_HANG_UP_ACTIVE \<Rightarrow>
          let (ret, acts) = CallSupplementRequest_ims e (ci_slotId callInfo) ty
          in (ret, ctl\<lparr>imsConnectionMap := UpdateCallDisconnectReason_ims (ci_callId callInfo)
                          DISCONNECTED_REASON_USER_TERMINATED [] (imsConnectionMap ctl)\<rparr>, acts)
      | TYPE_HANG_UP_ALL \<Rightarrow>
          let (ret, acts) = RejectRequest_ims e (ci_slotId callInfo) (ci_phoneNum callInfo) (ci_index callInfo)
          in (ret, ctl\<lparr>imsConnectionMap :=
                map (\<lambda>(k, c). (k, c\<lparr>imsDisconnectReason := DISCONNECTED_REASON_USER_TERMINATED,
                                   disconnectMessage := []\<rparr>)) (imsConnectionMap ctl)\<rparr>, acts)
      | _ \<Rightarrow> (TELEPHONY_ERR_ARGUMENT_INVALID, ctl, []))"

fun CheckAndHangupHoldingCall_ims ::
    "'x svc_env_scheme \<Rightarrow> CellularCallConnectionIMS omap \<Rightarrow> errcode \<times> act list" where
  "CheckAndHangupHoldingCall_ims e [] = (TELEPHONY_SUCCESS, [])"
| "CheckAndHangupHoldingCall_ims e ((k, c) # t) =
     (if r_state (callReportInfo c) = CALL_STATUS_HOLDING then
        let r = callReportInfo c;
            (result, acts) = HangUpRequest_ims e (r_accountId r) (r_accountNum r) (r_index r) in
        if result \<noteq> TELEPHONY_SUCCESS then (result, acts)
        else let (r, acts') = CheckAndHangupHoldingCall_ims e t in (r, acts @ acts')
      else CheckAndHangupHoldingCall_ims e t)"

definition Answer_ims ::
    "'x svc_env_scheme \<Rightarrow> CellularCallInfo \<Rightarrow> IMSControl \<Rightarrow> errcode \<times> IMSControl \<times> act list" where
  "Answer_ims e callInfo ctl =
     (let t = imsConnectionMap ctl; slotId = ci_slotId callInfo in
      case FindConnectionByIndex t (ci_index callInfo) of
        None \<Rightarrow> (CALL_ERR_CALL_CONNECTION_NOT_EXIST, ctl, [])
      | Some (k, c) \<Rightarrow>
          let (hret, hacts) = (if IsInState t CALL_STATUS_HOLDING \<and> IsInState t CALL_STATUS_ACTIVE
                               then CheckAndHangupHoldingCall_ims e t else (TELEPHONY_SUCCESS, [])) in
          if hret \<noteq> TELEPHONY_SUCCESS then (hret, ctl, hacts)
          else
            let st = r_state (callReportInfo c);
                ring = (if st = CALL_STATUS_ALERTING \<or> st = CALL_STATUS_INCOMING \<or> st = CALL_STATUS_WAITING then
                          let (ret, acts) = AnswerRequest_ims e slotId (ci_phoneNum callInfo)
                                (ci_videoState callInfo) (ci_index callInfo) (ci_isRTT callInfo)
                          in (ret, ctl, hacts @ acts)
                        else (CALL_ERR_CALL_STATE, ctl, hacts)) in
            case FindConnectionByState t CALL_STATUS_ACTIVE of
              None \<Rightarrow> ring
            | Some (k', con) \<Rightarrow>
                if \<not> r_isPendingHold (callReportInfo con) \<and> st = CALL_STATUS_WAITING then
                  let (ret, con', acts) = SwitchCallRequest_ims e slotId (ci_videoState callInfo) False con
                  in (ret, ctl\<lparr>imsConnectionMap := omap_put k' con' t\<rparr>, hacts @ acts)
                else ring)"

definition Reject_ims ::
    "'x svc_env_scheme \<Rightarrow> CellularCallInfo \<Rightarrow> IMSControl \<Rightarrow> errcode \<times> IMSControl \<times> act list" where
  "Reject_ims e callInfo ctl =
     (case FindConnectionByIndex (imsConnectionMap ctl) (ci_index callInfo) of
        None \<Rightarrow> (CALL_ERR_CALL_CONNECTION_NOT_EXIST, ctl, [])
      | Some (k, c) \<Rightarrow>
          if \<not> IsRingingState c then (CALL_ERR_CALL_STATE, ctl, [])
          else
            let racts = report_single e (callReportInfo c) CALL_STATUS_DISCONNECTING;
                c' = c\<lparr>imsDisconnectReason := DISCONNECTED_REASON_USER_DECLINE\<rparr>;
                (ret, acts) = RejectRequest_ims e (ci_slotId callInfo) (ci_phoneNum callInfo) (ci_index callInfo)
            in (ret, ctl\<lparr>imsConnectionMap := omap_put k c' (imsConnectionMap ctl)\<rparr>, racts @ acts))"

definition HoldCall_ims :: "'x svc_env_scheme \<Rightarrow> int \<Rightarrow> bool \<Rightarrow> IMSControl \<Rightarrow> errcode \<times> act list" where
  "HoldCall_ims e slotId isRTT ctl =
     (if IsInState (imsConnectionMap ctl) CALL_STATUS_INCOMING then (CALL_ERR_CALL_STATE, [])
      else HoldCallRequest_ims e slotId isRTT (CellularCallConnectionIMS_init e))"

fun unhold_scan ::
    "'x svc_env_scheme \<Rightarrow> int \<Rightarrow> bool \<Rightarrow> CellularCallConnectionIMS omap \<Rightarrow> errcode \<times> act list" where
  "unhold_scan e slotId isRTT [] = (TELEPHONY_ERROR, [])"
| "unhold_scan e slotId isRTT ((k, c) # t) =
     (if slotId = r_accountId (callReportInfo c) \<and> r_state (callReportInfo c) = CALL_STATUS_HOLDING
      then UnHoldCallRequest_ims e slotId isRTT c
      else unhold_scan e slotId isRTT t)"

definition UnHoldCall_ims :: "'x svc_env_scheme \<Rightarrow> int \<Rightarrow> bool \<Rightarrow> IMSControl \<Rightarrow> errcode \<times> act list" where
  "UnHoldCall_ims e slotId isRTT ctl = unhold_scan e slotId isRTT (imsConnectionMap ctl)"

fun slot_call_mode :: "int \<Rightarrow> CellularCallConnectionIMS omap \<Rightarrow> VideoStateType" where
  "slot_call_mode slotId [] = TYPE_VOICE"
| "slot_call_mode slotId ((k, c) # t) =
     (if slotId = r_accountId (callReportInfo c) then r_callMode (callReportInfo c) else slot_call_mode slotId t)"

definition SwitchCall_ims :: "'x svc_env_scheme \<Rightarrow> int \<Rightarrow> bool \<Rightarrow> IMSControl \<Rightarrow> errcode \<times> act list" where
  "SwitchCall_ims e slotId isRTT ctl =
     (let (ret, _, acts) = SwitchCallRequest_ims e slotId
            (e_videoStateInt e (slot_call_mode slotId (imsConnectionMap ctl))) isRTT
            (CellularCallConnectionIMS_init e)
      in (ret, acts))"

definition CombineConference_ims :: "'x svc_env_scheme \<Rightarrow> int \<Rightarrow> errcode \<times> act list" where
  "CombineConference_ims e slotId = CombineConferenceRequest_ims e slotId 0"

definition HangUpAllConnection_ims :: "'x svc_env_scheme \<Rightarrow> int \<Rightarrow> IMSControl \<Rightarrow> errcode \<times> act list" where
  "HangUpAllConnection_ims e slotId ctl =
     (if imsConnectionMap ctl = [] then (TELEPHONY_ERROR, [])
      else (TELEPHONY_SUCCESS,
            concat (map (\<lambda>(k, c). snd (RejectRequest_ims e slotId (number c) (index c))) (imsConnectionMap ctl))))"

definition InviteToConference_ims :: "'x svc_env_scheme \<Rightarrow> int \<Rightarrow> string list \<Rightarrow> errcode \<times> act list" where
  "InviteToConference_ims e slotId numberList = InviteToConferenceRequest_ims e slotId numberList"

definition KickOutFromConference_ims ::
    "'x svc_env_scheme \<Rightarrow> int \<Rightarrow> string \<Rightarrow> int \<Rightarrow> IMSControl \<Rightarrow> errcode \<times> act list" where
  "KickOutFromConference_ims e slotId kickOutString i ctl =
     (case FindConnectionByIndex (imsConnectionMap ctl) i of
        Some (_, c) \<Rightarrow> KickOutFromConferenceRequest_ims e slotId (index c)
      | None \<Rightarrow> KickOutFromConferenceRequest_ims e slotId i)"

definition UpdateImsRttCallMode_ims :: "'x svc_env_scheme \<Rightarrow> int \<Rightarrow> int \<Rightarrow> int \<Rightarrow> errcode \<times> act list" where
  "UpdateImsRttCallMode_ims e slotId callId mode = UpdateImsRttCallModeRequest_ims e slotId callId mode"

definition GetCallFailReason_ims :: "'x svc_env_scheme \<Rightarrow> int \<Rightarrow> errcode \<times> act list" where
  "GetCallFailReason_ims e slotId = GetCallFailReasonRequest_ims e slotId"

section \<open>Post dial\<close>

definition ExecutePostDial_ims ::
    "'x svc_env_scheme \<Rightarrow> int \<Rightarrow> int \<Rightarrow> CellularCallConnectionIMS omap \<Rightarrow>
     errcode \<times> CellularCallConnectionIMS omap \<times> act list" where
  "ExecutePostDial_ims e slotId callId t =
     execute_post_dial (ProcessPostDialCallChar_ims e slotId) e t callId CHR 0x00"

definition PostDialProceed_ims ::
    "'x svc_env_scheme \<Rightarrow> CellularCallInfo \<Rightarrow> bool \<Rightarrow> IMSControl \<Rightarrow> errcode \<times> IMSControl \<times> act list" where
  "PostDialProceed_ims e callInfo proceed ctl =
     (case FindConnectionByIndex (imsConnectionMap ctl) (ci_index callInfo) of
        None \<Rightarrow> (TELEPHONY_ERR_LOCAL_PTR_NULL, ctl, [])
      | Some (k, c) \<Rightarrow>
          if proceed then
            let (_, t', acts) = ExecutePostDial_ims e (ci_slotId callInfo) (index c) (imsConnectionMap ctl)
            in (TELEPHONY_SUCCESS, ctl\<lparr>imsConnectionMap := t'\<rparr>, acts)
          else (TELEPHONY_SUCCESS,
                ctl\<lparr>imsConnectionMap := omap_put k (c\<lparr>postDialCallState := POST_DIAL_CALL_CANCELED\<rparr>)
                      (imsConnectionMap ctl)\<rparr>, []))"

section \<open>Reports of the IMS service\<close>

definition GetCallMode :: "ImsCallType \<Rightarrow> VideoStateType" where
  "GetCallMode callType =
     (case callType of
        TEL_IMS_CALL_TYPE_VOICE \<Rightarrow> TYPE_VOICE
      | TEL_IMS_CALL_TYPE_VT_TX \<Rightarrow> TYPE_SEND_ONLY
      | TEL_IMS_CALL_TYPE_VT_RX \<Rightarrow> TYPE_RECEIVE_ONLY
      | TEL_IMS_CALL_TYPE_VT \<Rightarrow> TYPE_VIDEO
      | _ \<Rightarrow> TYPE_VOICE)"

definition EncapsulationCallReportInfo_ims :: "'x svc_env_scheme \<Rightarrow> int \<Rightarrow> ImsCurrentCall \<Rightarrow> CallReportInfo" where
  "EncapsulationCallReportInfo_ims e slotId callInfo =
     (let r0 = (e_zeroReport e)\<lparr>r_name := (if m_number callInfo = [] then [] else m_name callInfo)\<rparr>;
          newString = FormatNumberAndToa (m_number callInfo) (m_toa callInfo) in
      if length (c_str newString) + 1 > e_kMaxNumberLen e + 1 then r0
      else r0
        \<lparr>r_accountNum := c_str newString, r_index := m_index callInfo, r_accountId := slotId,
         r_state := m_state callInfo, r_voiceDomain := m_voiceDomain callInfo, r_callType := TYPE_IMS,
         r_callMode := GetCallMode (m_callType callInfo), r_mpty := m_mpty callInfo,
         r_crsType := m_toneType callInfo, r_originalCallType := m_callInitialType callInfo,
         r_namePresentation := m_namePresentation callInfo, r_newCallUseBox := m_newCallUseBox callInfo,
         r_rttState := m_rttState callInfo, r_rttChannelId := m_rttChannelId callInfo,
         r_imsDomain := m_imsDomain callInfo\<rparr>)"

fun DeleteConnection_ims ::
    "CellularCallConnectionIMS omap \<Rightarrow> CallReportInfo list \<Rightarrow> CallReportInfo list \<times> CellularCallConnectionIMS omap" where
  "DeleteConnection_ims [] vec = (vec, [])"
| "DeleteConnection_ims ((k, c) # t) vec =
     (if \<not> flag c then
        DeleteConnection_ims t
          (vec @ [(callReportInfo c)\<lparr>r_state := CALL_STATUS_DISCONNECTED, r_reason := imsDisconnectReason c,
                    r_message := disconnectMessage c\<rparr>])
      else let (v, t') = DeleteConnection_ims t vec in (v, (k, c\<lparr>flag := False\<rparr>) # t'))"

definition update_report_ims :: "'x svc_env_scheme \<Rightarrow> int \<Rightarrow> bool \<Rightarrow> ImsCurrentCall \<Rightarrow> CallReportInfo" where
  "update_report_ims e slotId single call =
     (let r = EncapsulationCallReportInfo_ims e slotId call in
      if single \<and> r_state r = CALL_STATUS_WAITING then r\<lparr>r_state := CALL_STATUS_INCOMING\<rparr> else r)"

definition update_call_ims ::
    "'x svc_env_scheme \<Rightarrow> int \<Rightarrow> bool \<Rightarrow> ImsCurrentCall \<Rightarrow>
     CellularCallConnectionIMS omap \<times> string \<times> CallReportInfo list \<times> act list \<Rightarrow>
     CellularCallConnectionIMS omap \<times> string \<times> CallReportInfo list \<times> act list" where
  "update_call_ims e slotId single call = (\<lambda>(t, pending, vec, acts).
     (let reportInfo = update_report_ims e slotId single call in
      case FindConnectionByIndex t (m_index call) of
        None \<Rightarrow>
          (snd (SetConnectionData t (m_index call)
             ((CellularCallConnectionIMS_init e)\<lparr>callReportInfo := reportInfo, flag := True,
                index := m_index call, number := m_number call\<rparr>)),
           pending, vec @ [reportInfo], acts)
      | Some (k, c) \<Rightarrow>
          let preCallState = r_state (callReportInfo c);
              c1 = c\<lparr>flag := True, index := m_index call, number := m_number call,
                     callReportInfo := reportInfo\<rparr>;
              curCallState = r_state (callReportInfo c1) in
          if IsConnectedOut preCallState curCallState then
            let c2 = UpdateCallNumber pending c1;
                (_, t', pacts) = ExecutePostDial_ims e slotId (index c2) (omap_put k c2 t)
            in (t', [], vec @ [reportInfo], acts @ pacts)
          else (omap_put k c1 t, pending, vec @ [reportInfo], acts)))"

definition ReportUpdateInfo_ims ::
    "'x svc_env_scheme \<Rightarrow> int \<Rightarrow> ImsCurrentCallList \<Rightarrow> IMSControl \<Rightarrow> errcode \<times> IMSControl \<times> act list" where
  "ReportUpdateInfo_ims e slotId l ctl =
     (let (t, pending, vec, acts) =
            fold (update_call_ims e slotId (length (m_calls l) = 1)) (m_calls l)
              (imsConnectionMap ctl, imsPendingPhoneNumber ctl, [], []);
          (vec', t') = DeleteConnection_ims t vec;
          ctl' = ctl\<lparr>imsConnectionMap := t', imsPendingPhoneNumber := pending\<rparr> in
      if \<not> e_register e then (TELEPHONY_ERR_LOCAL_PTR_NULL, ctl', acts)
      else if isIgnoredIncomingCall ctl
        then (TELEPHONY_SUCCESS, ctl'\<lparr>isIgnoredIncomingCall := False\<rparr>, acts)
      else (TELEPHONY_SUCCESS, ctl', acts @ [ReportCallsInfo \<lparr>callVec = vec', cr_slotId = slotId\<rparr>]))"

definition incoming_call_ims ::
    "'x svc_env_scheme \<Rightarrow> int \<Rightarrow> ImsCurrentCall \<Rightarrow> CellularCallConnectionIMS omap \<Rightarrow> CellularCallConnectionIMS omap" where
  "incoming_call_ims e slotId call t =
     snd (SetConnectionData t (m_index call)
       ((SetStatus (m_state call) (CellularCallConnectionIMS_init e))\<lparr>index := m_index call,
          number := m_number call, callReportInfo := EncapsulationCallReportInfo_ims e slotId call\<rparr>))"

definition ReportIncomingInfo_ims ::
    "'x svc_env_scheme \<Rightarrow> int \<Rightarrow> ImsCurrentCallList \<Rightarrow> IMSControl \<Rightarrow> errcode \<times> IMSControl \<times> act list" where
  "ReportIncomingInfo_ims e slotId l ctl =
     (let vec = map (EncapsulationCallReportInfo_ims e slotId) (m_calls l);
          t' = fold (incoming_call_ims e slotId) (m_calls l) (imsConnectionMap ctl);
          ctl' = ctl\<lparr>imsConnectionMap := t'\<rparr> in
      if \<not> e_register e then (TELEPHONY_ERR_ARGUMENT_INVALID, ctl', [])
      else if \<not> e_cbRegistered e \<and> vec \<noteq> [] \<and> r_state (hd vec) = CALL_STATUS_INCOMING
        then (TELEPHONY_SUCCESS, ctl'\<lparr>isIgnoredIncomingCall := True\<rparr>, [])
      else (TELEPHONY_SUCCESS, ctl', [ReportCallsInfo \<lparr>callVec = vec, cr_slotId = slotId\<rparr>]))"

definition ReportHangUpInfo_ims ::
    "'x svc_env_scheme \<Rightarrow> int \<Rightarrow> IMSControl \<Rightarrow> errcode \<times> IMSControl \<times> act list" where
  "ReportHangUpInfo_ims e slotId ctl =
     (let vec = map (\<lambda>(k, c). (callReportInfo c)\<lparr>r_state := CALL_STATUS_DISCONNECTED,
                      r_accountId := slotId, r_reason := imsDisconnectReason c,
                      r_message := disconnectMessage c\<rparr>) (imsConnectionMap ctl);
          vec' = (if imsConnectionMap ctl = []
                  then vec @ [(e_defaultReport e)\<lparr>r_state := CALL_STATUS_DISCONNECTED, r_accountId := slotId\<rparr>]
                  else vec) in
      if \<not> e_register e then (TELEPHONY_ERR_LOCAL_PTR_NULL, ctl, [])
      else if isIgnoredIncomingCall ctl \<or> isSilentCsRedial ctl
        then (TELEPHONY_SUCCESS,
              ctl\<lparr>isIgnoredIncomingCall := False, isSilentCsRedial := False, imsConnectionMap := []\<rparr>, [])
      else (TELEPHONY_SUCCESS, ctl\<lparr>imsConnectionMap := []\<rparr>,
            [ReportCallsInfo \<lparr>callVec = vec', cr_slotId = slotId\<rparr>]))"

definition ReportImsCallsData ::
    "'x svc_env_scheme \<Rightarrow> int \<Rightarrow> ImsCurrentCallList \<Rightarrow> bool \<Rightarrow> IMSControl \<Rightarrow> errcode \<times> IMSControl \<times> act list" where
  "ReportImsCallsData e slotId l isNeedQuery ctl =
     (if m_callSize l \<le> 0 then
        if isNeedQuery then (TELEPHONY_SUCCESS, ctl, snd (GetCallFailReason_ims e slotId))
        else ReportHangUpInfo_ims e slotId ctl
      else if m_callSize l > 0 \<and> imsConnectionMap ctl = [] then ReportIncomingInfo_ims e slotId l ctl
      else if m_callSize l > 0 \<and> imsConnectionMap ctl \<noteq> [] then
        if isNeedQuery then (TELEPHONY_SUCCESS, ctl, snd (GetCallFailReason_ims e slotId))
        else ReportUpdateInfo_ims e slotId l ctl
      else (TELEPHONY_ERROR, ctl, []))"

text \<open>The inherited \<^verbatim>\<open>ReportCallsData\<close> of a CS call list is refused.\<close>

definition ReportCallsData_ims :: "int \<Rightarrow> CallInfoList \<Rightarrow> IMSControl \<Rightarrow> errcode \<times> IMSControl \<times> act list" where
  "ReportCallsData_ims slotId callInfoList ctl = (TELEPHONY_ERROR, ctl, [])"

section \<open>Restoring, hold-to-dial, disconnect reasons\<close>

definition restore_call ::
    "'x svc_env_scheme \<Rightarrow> int \<Rightarrow> CellularCallInfo \<Rightarrow> CellularCallConnectionIMS omap \<Rightarrow> CellularCallConnectionIMS omap" where
  "restore_call e slotId info t =
     (if ci_callType info = TYPE_IMS \<and> ci_slotId info = slotId
      then snd (SetConnectionData t (ci_index info)
             ((CellularCallConnectionIMS_init e)\<lparr>index := ci_index info, number := ci_phoneNum info\<rparr>))
      else t)"

definition RestoreConnection ::
    "'x svc_env_scheme \<Rightarrow> CellularCallInfo list \<Rightarrow> int \<Rightarrow> IMSControl \<Rightarrow> errcode \<times> IMSControl" where
  "RestoreConnection e infos slotId ctl =
     (TELEPHONY_SUCCESS, ctl\<lparr>imsConnectionMap := fold (restore_call e slotId) infos (imsConnectionMap ctl)\<rparr>)"

text \<open>\<^verbatim>\<open>static_cast<bool>(info.callType)\<close>: whether the enumerator is not the first one, \<^verbatim>\<open>TYPE_CS\<close>.\<close>

definition call_type_nonzero :: "CallType \<Rightarrow> bool" where
  "call_type_nonzero t = (case t of TYPE_CS \<Rightarrow> False | CallType_other n \<Rightarrow> n \<noteq> 0 | _ \<Rightarrow> True)"

definition hangup_report_ims :: "'x svc_env_scheme \<Rightarrow> CellularCallInfo \<Rightarrow> CallReportInfo" where
  "hangup_report_ims e info =
     (e_defaultReport e)
       \<lparr>r_accountNum := take (e_kMaxNumberLen e) (ci_phoneNum info), r_index := ci_index info,
        r_accountId := ci_slotId info, r_callType := TYPE_IMS,
        r_callMode := (if call_type_nonzero (ci_callType info) then TYPE_VIDEO else TYPE_VOICE),
        r_state := CALL_STATUS_DISCONNECTED\<rparr>"

definition ReportHangUp_ims ::
    "'x svc_env_scheme \<Rightarrow> CellularCallInfo list \<Rightarrow> int \<Rightarrow> IMSControl \<Rightarrow> errcode \<times> IMSControl \<times> act list" where
  "ReportHangUp_ims e infos slotId ctl =
     (let vec = map (hangup_report_ims e)
                  (filter (\<lambda>info. ci_callType info = TYPE_IMS \<and> ci_slotId info = slotId) infos) in
      if \<not> e_register e then (TELEPHONY_ERR_LOCAL_PTR_NULL, ctl, [])
      else (TELEPHONY_SUCCESS, ctl, [ReportCallsInfo \<lparr>callVec = vec, cr_slotId = slotId\<rparr>]))"

fun dial_after_hold ::
    "'x svc_env_scheme \<Rightarrow> int \<Rightarrow> CellularCallConnectionIMS omap \<Rightarrow> CellularCallConnectionIMS omap \<times> act list" where
  "dial_after_hold e slotId [] = ([], [])"
| "dial_after_hold e slotId ((k, c) # t) =
     (if isNeedToDial c then
        let (_, _, acts) = DialRequest_ims e slotId (holdToDialInfo c) (CellularCallConnectionIMS_init e)
        in ((k, c\<lparr>isNeedToDial := False\<rparr>) # t, acts)
      else let (t', acts) = dial_after_hold e slotId t in ((k, c) # t', acts))"

definition DialAfterHold :: "'x svc_env_scheme \<Rightarrow> int \<Rightarrow> IMSControl \<Rightarrow> IMSControl \<times> act list" where
  "DialAfterHold e slotId ctl =
     (let (t', acts) = dial_after_hold e slotId (imsConnectionMap ctl) in (ctl\<lparr>imsConnectionMap := t'\<rparr>, acts))"

fun recover_pending_hold :: "CellularCallConnectionIMS omap \<Rightarrow> CellularCallConnectionIMS omap" where
  "recover_pending_hold [] = []"
| "recover_pending_hold ((k, c) # t) =
     (if r_isPendingHold (callReportInfo c) then (k, UpdatePendingHoldFlag False c) # t
      else (k, c) # recover_pending_hold t)"

definition RecoverPendingHold :: "IMSControl \<Rightarrow> IMSControl" where
  "RecoverPendingHold ctl = ctl\<lparr>imsConnectionMap := recover_pending_hold (imsConnectionMap ctl)\<rparr>"

definition ended_without_reason_ims :: "ImsCurrentCallList \<Rightarrow> CellularCallConnectionIMS \<Rightarrow> bool" where
  "ended_without_reason_ims l c \<longleftrightarrow>
     imsDisconnectReason c = DISCONNECTED_REASON_INVALID \<and>
     \<not> list_ex (\<lambda>call. index c = m_index call) (m_calls l)"

definition UpdateDisconnectedReason_ims ::
    "ImsCurrentCallList \<Rightarrow> RilDisconnectedReason \<Rightarrow> string \<Rightarrow> IMSControl \<Rightarrow> IMSControl" where
  "UpdateDisconnectedReason_ims l reason message ctl =
     ctl\<lparr>imsConnectionMap :=
       map (\<lambda>(k, c). (k, if ended_without_reason_ims l c
                         then c\<lparr>imsDisconnectReason := reason, disconnectMessage := message\<rparr> else c))
         (imsConnectionMap ctl)\<rparr>"

definition HasEndCallWithoutReason_ims :: "ImsCurrentCallList \<Rightarrow> IMSControl \<Rightarrow> bool" where
  "HasEndCallWithoutReason_ims l ctl =
     list_ex (\<lambda>(k, c). ended_without_reason_ims l c) (imsConnectionMap ctl)"

text \<open>The task of \<^verbatim>\<open>SavePendingEmcCallInfo\<close> when its ten seconds are over, and its cancellation.\<close>

definition WaitForRadioOnTimeout ::
    "'x svc_env_scheme \<Rightarrow> IMSControl \<Rightarrow> IMSControl \<times> act list" where
  "WaitForRadioOnTimeout e ctl =
     (let (_, ctl', acts) = ReportHangUpInfo_ims e (ci_slotId (pendingEmcDialCallInfo ctl)) ctl
      in (ctl'\<lparr>isPendingEmc := False\<rparr>, acts))"

definition SkipWaitForRadioOn :: "IMSControl \<Rightarrow> IMSControl" where
  "SkipWaitForRadioOn ctl = (if waitForRadioOn ctl then ctl\<lparr>waitForRadioOn := False\<rparr> else ctl)"

section \<open>The report loop synchronises the table\<close>

definition gone_ims :: "CellularCallConnectionIMS \<Rightarrow> CallReportInfo" where
  "gone_ims c = (callReportInfo c)\<lparr>r_state := CALL_STATUS_DISCONNECTED, r_reason := imsDisconnectReason c,
     r_message := disconnectMessage c\<rparr>"

lemma DeleteConnection_ims_eq:
  "DeleteConnection_ims t vec =
     (vec @ map (\<lambda>(k, c). gone_ims c) (filter (\<lambda>(k, c). \<not> flag c) t),
      map (\<lambda>(k, c). (k, c\<lparr>flag := False\<rparr>)) (filter (\<lambda>(k, c). flag c) t))"
  by (induction t vec rule: DeleteConnection_ims.induct) (simp_all add: gone_ims_def)

lemma ExecutePostDial_ims_reports: "reports (snd (snd (ExecutePostDial_ims e slotId i t))) = []"
  unfolding ExecutePostDial_ims_def ProcessPostDialCallChar_ims_def
  by (intro execute_post_dial_reports post_dial_char_reports)
    (simp add: SendDtmfRequest_ims_def ims_request_cases)

lemma number_report_commute:
  "c\<lparr>flag := True, index := i, number := n, callReportInfo := r\<rparr> =
   c\<lparr>flag := True, index := i, callReportInfo := r, number := n\<rparr>" for c :: CellularCallConnectionIMS
  by simp

lemma update_call_ims_step:
  "table_ok t \<Longrightarrow> update_call_ims e slotId single call (t, s) =
   sync_step m_index m_number (update_report_ims e slotId single) (CellularCallConnectionIMS_init e)
     (ExecutePostDial_ims e slotId) call (t, s)"
  by (auto simp: update_call_ims_def sync_step_def FindConnectionByIndex_map_of SetConnectionData_def Let_def
      number_report_commute
      split: prod.splits option.splits)

interpretation ims: post_dial_loop m_index m_number "update_report_ims e slotId single"
    "CellularCallConnectionIMS_init e" "ExecutePostDial_ims e slotId" "update_call_ims e slotId single"
    gone_ims DeleteConnection_ims
  for e :: "'x svc_env_scheme" and slotId :: int and single :: bool
proof unfold_locales
  show "\<exists>c'. fst (snd (ExecutePostDial_ims e slotId i t)) = omap_put i c' t \<and> index c' = index c \<and>
      flag c' = flag c \<and> callReportInfo c' = callReportInfo c"
    if "table_ok t" "map_of t i = Some c" for t :: "CellularCallConnectionIMS omap" and i c
    unfolding ExecutePostDial_ims_def ProcessPostDialCallChar_ims_def
    by (rule execute_post_dial_contract [OF that])
  show "fst (snd (snd (update_call_ims e slotId single call (t, s)))) =
      fst (snd s) @ [update_report_ims e slotId single call]" for call t s
    by (auto simp: update_call_ims_def Let_def split: option.splits prod.splits)
  show "reports (snd (snd (snd (update_call_ims e slotId single call (t, s))))) = []"
    if "reports (snd (snd s)) = []" for call t s
    using that ExecutePostDial_ims_reports
    by (auto simp: update_call_ims_def Let_def case_prod_beta split: option.splits)
qed (simp_all add: ExecutePostDial_ims_reports update_call_ims_step DeleteConnection_ims_eq)

definition ims_inv :: "IMSControl \<Rightarrow> bool" where
  "ims_inv ctl \<longleftrightarrow> table_ok (imsConnectionMap ctl) \<and> settled (imsConnectionMap ctl)"

lemma ReportUpdateInfo_ims_result:
  assumes inv: "ims_inv ctl"
    and r: "ReportUpdateInfo_ims e slotId l ctl = (ret, ctl', acts)"
  shows "ret = (if e_register e then TELEPHONY_SUCCESS else TELEPHONY_ERR_LOCAL_PTR_NULL)" "ims_inv ctl'"
    "keys (imsConnectionMap ctl') = m_index ` set (m_calls l)"
    "isIgnoredIncomingCall ctl' = (isIgnoredIncomingCall ctl \<and> \<not> e_register e)"
    "reports acts = (if isIgnoredIncomingCall ctl \<or> \<not> e_register e then [] else
       [\<lparr>callVec = map (update_report_ims e slotId (length (m_calls l) = 1)) (m_calls l) @
           map (\<lambda>(k, c). gone_ims c) (filter (\<lambda>(k, c). k \<notin> m_index ` set (m_calls l)) (imsConnectionMap ctl)),
         cr_slotId = slotId\<rparr>])"
proof -
  let ?s = "length (m_calls l) = 1" and ?i = "(imsPendingPhoneNumber ctl, [], [])"
  have ok: "table_ok (imsConnectionMap ctl)" "settled (imsConnectionMap ctl)"
    using inv by (simp_all add: ims_inv_def)
  obtain t s where f: "fold (update_call_ims e slotId ?s) (m_calls l) (imsConnectionMap ctl, ?i) = (t, s)"
    by (metis surj_pair)
  obtain v t' where d: "DeleteConnection_ims t (fst (snd s)) = (v, t')" by (metis surj_pair)
  note round = ims.round [OF ok _ _ f d, simplified]
  note res = r [unfolded ReportUpdateInfo_ims_def f Let_def prod.case case_prod_beta d fst_conv snd_conv]
  show "ret = (if e_register e then TELEPHONY_SUCCESS else TELEPHONY_ERR_LOCAL_PTR_NULL)"
    "isIgnoredIncomingCall ctl' = (isIgnoredIncomingCall ctl \<and> \<not> e_register e)"
    using res by (auto split: if_splits)
  have c: "imsConnectionMap ctl' = t'" using res by (auto split: if_splits)
  show "ims_inv ctl'" "keys (imsConnectionMap ctl') = m_index ` set (m_calls l)"
    using round by (simp_all add: ims_inv_def c)
  show "reports acts = (if isIgnoredIncomingCall ctl \<or> \<not> e_register e then [] else
       [\<lparr>callVec = map (update_report_ims e slotId ?s) (m_calls l) @
           map (\<lambda>(k, c). gone_ims c) (filter (\<lambda>(k, c). k \<notin> m_index ` set (m_calls l)) (imsConnectionMap ctl)),
         cr_slotId = slotId\<rparr>])"
    using round(4,5) res by (auto split: if_splits)
qed

text \<open>Each reported call is in the table afterwards, with the report that was sent.\<close>

lemma ReportUpdateInfo_ims_entry:
  assumes inv: "ims_inv ctl" and d: "distinct (map m_index (m_calls l))" and call: "call \<in> set (m_calls l)"
    and r: "ReportUpdateInfo_ims e slotId l ctl = (ret, ctl', acts)"
  shows "\<exists>c. map_of (imsConnectionMap ctl') (m_index call) = Some c \<and>
    callReportInfo c = update_report_ims e slotId (length (m_calls l) = 1) call"
proof -
  let ?s = "length (m_calls l) = 1" and ?i = "(imsPendingPhoneNumber ctl, [], [])"
  have ok: "table_ok (imsConnectionMap ctl)" "settled (imsConnectionMap ctl)"
    using inv by (simp_all add: ims_inv_def)
  obtain t p v a where f: "fold (update_call_ims e slotId ?s) (m_calls l)
      (imsConnectionMap ctl, ?i) = (t, p, v, a)" by (metis prod_cases4)
  have "imsConnectionMap ctl' = snd (DeleteConnection_ims t [])"
    using r f by (auto simp: ReportUpdateInfo_ims_def DeleteConnection_ims_eq Let_def split: if_splits)
  with ims.round_reports [OF ok d call, of e slotId ?s ?i] f show ?thesis by simp
qed

section \<open>Every operation keeps the table well formed\<close>

lemma ims_inv_map:
  assumes "ims_inv ctl" "\<And>c. index (f c) = index c" "\<And>c. flag (f c) = flag c"
  shows "ims_inv (ctl\<lparr>imsConnectionMap := map (\<lambda>(k, c). (k, f c)) (imsConnectionMap ctl)\<rparr>)"
  using assms by (simp add: ims_inv_def table_ok_map settled_map)

lemma ims_inv_put:
  assumes "ims_inv ctl" "FindConnectionByIndex (imsConnectionMap ctl) i = Some (k, c)"
    "index c' = index c" "flag c' = flag c"
  shows "ims_inv (ctl\<lparr>imsConnectionMap := omap_put k c' (imsConnectionMap ctl)\<rparr>)"
proof -
  have ok: "table_ok (imsConnectionMap ctl)" "settled (imsConnectionMap ctl)"
    using assms(1) by (simp_all add: ims_inv_def)
  then have "index c = k" "\<not> flag c"
    using assms(2) by (auto simp: FindConnectionByIndex_map_of table_ok_iff settled_iff)
  with ok assms(3,4) show ?thesis
    by (simp add: ims_inv_def table_ok_put settled_put table_ok_omap)
qed

lemma UpdateCallDisconnectReason_ims_put:
  "table_ok t \<Longrightarrow> UpdateCallDisconnectReason_ims i r msg t =
     (case map_of t i of None \<Rightarrow> t | Some c \<Rightarrow> omap_put i (c\<lparr>imsDisconnectReason := r, disconnectMessage := msg\<rparr>) t)"
  by (induction i r msg t rule: UpdateCallDisconnectReason_ims.induct) (auto split: option.splits)

lemma ims_inv_UpdateCallDisconnectReason:
  assumes "ims_inv ctl"
  shows "ims_inv (ctl\<lparr>imsConnectionMap := UpdateCallDisconnectReason_ims i r msg (imsConnectionMap ctl)\<rparr>)"
proof -
  have ok: "table_ok (imsConnectionMap ctl)" using assms by (simp add: ims_inv_def)
  show ?thesis
  proof (cases "map_of (imsConnectionMap ctl) i")
    case None
    with assms ok show ?thesis by (simp add: UpdateCallDisconnectReason_ims_put ims_inv_def)
  next
    case (Some c)
    with ok have "FindConnectionByIndex (imsConnectionMap ctl) i = Some (i, c)"
      by (simp add: FindConnectionByIndex_map_of)
    from ims_inv_put [OF assms this, of "c\<lparr>imsDisconnectReason := r, disconnectMessage := msg\<rparr>"] Some ok show ?thesis
      by (simp add: UpdateCallDisconnectReason_ims_put)
  qed
qed

lemma ExecutePostDial_ims_inv:
  assumes "ims_inv ctl"
  shows "ims_inv (ctl\<lparr>imsConnectionMap := fst (snd (ExecutePostDial_ims e s i (imsConnectionMap ctl)))\<rparr>)"
  using assms execute_post_dial_settled
  unfolding ExecutePostDial_ims_def ProcessPostDialCallChar_ims_def ims_inv_def by (simp, blast)

lemma PostDialProceed_ims_inv: "ims_inv ctl \<Longrightarrow> ims_inv (fst (snd (PostDialProceed_ims e i p ctl)))"
  by (auto simp: PostDialProceed_ims_def Let_def case_prod_beta ims_inv_put ExecutePostDial_ims_inv
      split: option.splits)

lemma incoming_call_ims_table:
  "table_ok t \<and> settled t \<Longrightarrow>
   table_ok (fold (incoming_call_ims e s) xs t) \<and> settled (fold (incoming_call_ims e s) xs t)"
proof (induction xs arbitrary: t)
  case (Cons x xs)
  then have "table_ok (incoming_call_ims e s x t) \<and> settled (incoming_call_ims e s x t)"
    by (simp add: incoming_call_ims_def SetConnectionData_def table_ok_insert settled_insert table_ok_omap
        CellularCallConnectionIMS_init_def SetStatus_def)
  from Cons.IH [OF this] show ?case by simp
qed simp

lemma ReportIncomingInfo_ims_inv: "ims_inv ctl \<Longrightarrow> ims_inv (fst (snd (ReportIncomingInfo_ims e s l ctl)))"
  using incoming_call_ims_table [of "imsConnectionMap ctl" e s "m_calls l"]
  by (auto simp: ReportIncomingInfo_ims_def ims_inv_def Let_def)

lemma ReportHangUpInfo_ims_inv: "ims_inv ctl \<Longrightarrow> ims_inv (fst (snd (ReportHangUpInfo_ims e s ctl)))"
  by (auto simp: ReportHangUpInfo_ims_def ims_inv_def Let_def)

lemma ReportUpdateInfo_ims_inv: "ims_inv ctl \<Longrightarrow> ims_inv (fst (snd (ReportUpdateInfo_ims e s l ctl)))"
  using ReportUpdateInfo_ims_result(2) [of ctl e s l] by (metis prod.collapse)

lemma ims_inv_flags [simp]:
  "ims_inv (ctl\<lparr>isSilentCsRedial := a\<rparr>) = ims_inv ctl"
  "ims_inv (ctl\<lparr>isPendingEmc := b\<rparr>) = ims_inv ctl"
  "ims_inv (ctl\<lparr>waitForRadioOn := b\<rparr>) = ims_inv ctl"
  "ims_inv (ctl\<lparr>imsPendingPhoneNumber := n\<rparr>) = ims_inv ctl"
  by (simp_all add: ims_inv_def)

lemma HangUp_ims_inv: "ims_inv ctl \<Longrightarrow> ims_inv (fst (snd (HangUp_ims e i ty ctl)))"
  by (auto simp: HangUp_ims_def Let_def case_prod_beta ims_inv_put ims_inv_map ims_inv_UpdateCallDisconnectReason
      split: CallSupplementType.splits option.splits)

lemma Reject_ims_inv: "ims_inv ctl \<Longrightarrow> ims_inv (fst (snd (Reject_ims e i ctl)))"
  by (auto simp: Reject_ims_def Let_def case_prod_beta ims_inv_put split: option.splits)

lemma ims_inv_put_in:
  assumes "ims_inv ctl" "(k, c) \<in> set (imsConnectionMap ctl)" "index c' = index c" "flag c' = flag c"
  shows "ims_inv (ctl\<lparr>imsConnectionMap := omap_put k c' (imsConnectionMap ctl)\<rparr>)"
proof -
  have ok: "table_ok (imsConnectionMap ctl)" using assms(1) by (simp add: ims_inv_def)
  then have "FindConnectionByIndex (imsConnectionMap ctl) k = Some (k, c)"
    using assms(2) map_of_ok [OF table_ok_omap [OF ok]] by (simp add: FindConnectionByIndex_map_of)
  from ims_inv_put [OF assms(1) this assms(3,4)] show ?thesis .
qed

lemma Answer_ims_inv: "ims_inv ctl \<Longrightarrow> ims_inv (fst (snd (Answer_ims e i ctl)))"
  by (auto simp: Answer_ims_def Let_def case_prod_beta split: option.splits
      dest!: FindConnectionByState_Some intro!: ims_inv_put_in)

text \<open>Updates of a table that keep keys, indexes and flags entry by entry.\<close>

definition same_shape :: "'c BaseConnection_scheme omap \<Rightarrow> 'c BaseConnection_scheme omap \<Rightarrow> bool" where
  "same_shape t t' \<longleftrightarrow> map (\<lambda>(k, c). (k, index c, flag c)) t' = map (\<lambda>(k, c). (k, index c, flag c)) t"

lemma same_shape_Nil [simp]: "same_shape [] t' \<longleftrightarrow> t' = []"
  by (simp add: same_shape_def)

lemma same_shape_Cons [simp]:
  "same_shape ((k, c) # t) ((k', c') # t') \<longleftrightarrow> k' = k \<and> index c' = index c \<and> flag c' = flag c \<and> same_shape t t'"
  by (auto simp: same_shape_def)

lemma same_shape_refl [simp]: "same_shape t t"
  by (simp add: same_shape_def)

lemma same_shape_table:
  assumes "same_shape t t'"
  shows "table_ok t' = table_ok t" "settled t' = settled t"
proof -
  have "map fst t' = map fst t \<and> list_all (\<lambda>(k, c). index c = k) t' = list_all (\<lambda>(k, c). index c = k) t \<and>
      settled t' = settled t"
    using assms
  proof (induction t arbitrary: t')
    case (Cons a t)
    obtain k c where a: "a = (k, c)" by (cases a)
    obtain k' c' u where t': "t' = (k', c') # u" using Cons.prems by (cases t') (auto simp: same_shape_def)
    have e: "k' = k" "index c' = index c" "flag c' = flag c" "same_shape t u"
      using Cons.prems a t' by simp_all
    from Cons.IH [OF e(4)] e(1-3) show ?case by (simp add: a t' settled_def)
  qed simp
  then show "table_ok t' = table_ok t" "settled t' = settled t"
    by (auto simp: table_ok_def omap_ok_def)
qed

lemma hold_to_dial_shape:
  "hold_to_dial e s n m v t = Some (r, t', acts) \<Longrightarrow> same_shape t t'"
proof (induction t arbitrary: t' r acts)
  case (Cons a t)
  obtain k c where a: "a = (k, c)" by (cases a)
  show ?case
  proof (cases "r_state (callReportInfo c) = CALL_STATUS_ACTIVE \<and> \<not> isPendingHangup c")
    case True
    with Cons.prems a show ?thesis by (auto simp: Let_def case_prod_beta)
  next
    case False
    with Cons.prems a obtain u where "t' = (k, c) # u" "hold_to_dial e s n m v t = Some (r, u, acts)"
      by auto
    with Cons.IH a show ?thesis by simp
  qed
qed simp

lemma ims_inv_shape:
  "ims_inv ctl \<Longrightarrow> same_shape (imsConnectionMap ctl) t' \<Longrightarrow> ims_inv (ctl\<lparr>imsConnectionMap := t'\<rparr>)"
  by (simp add: ims_inv_def same_shape_table)

lemma DialJudgment_inv: "ims_inv ctl \<Longrightarrow> ims_inv (fst (snd (DialJudgment e s n m v r ctl)))"
proof (cases "hold_to_dial e s n m v (imsConnectionMap ctl)")
  case (Some x)
  obtain ret t' acts where "x = (ret, t', acts)" by (metis prod_cases3)
  with Some have h: "hold_to_dial e s n m v (imsConnectionMap ctl) = Some (ret, t', acts)" by simp
  moreover assume "ims_inv ctl"
  then have "ims_inv (ctl\<lparr>imsConnectionMap := t'\<rparr>)" by (rule ims_inv_shape [OF _ hold_to_dial_shape [OF h]])
  ultimately show ?thesis using \<open>ims_inv ctl\<close> by (simp add: DialJudgment_def Let_def ims_inv_def)
qed (simp add: DialJudgment_def Let_def case_prod_beta)

lemma Dial_ims_cases:
  assumes "Dial_ims e i ecc ctl = Some (r, ctl', acts)"
  shows "ctl' = ctl \<or> ctl' = snd (SavePendingEmcCallInfo e i ctl) \<or>
    (\<exists>n m. ctl' = fst (snd (DialJudgment e (ci_slotId i) n m (ci_videoState i) (ci_isRTT i) ctl)))"
proof -
  obtain ret pacts where p: "DialPreJudgment e i ecc = Some (ret, pacts)"
    using assms by (auto simp: Dial_ims_def split: option.splits)
  obtain mmi n m ma where x: "IsNeedExecuteMMI e (ci_slotId i) (ims_dial_number (ci_phoneNum i)) DEFAULT True = (mmi, n, m, ma)"
    by (metis prod_cases4)
  obtain r' c' a' where d: "DialJudgment e (ci_slotId i) n m (ci_videoState i) (ci_isRTT i) ctl = (r', c', a')"
    by (metis prod_cases3)
  obtain r'' c'' where s: "SavePendingEmcCallInfo e i ctl = (r'', c'')" by (metis surj_pair)
  have "ctl' = ctl \<or> ctl' = c'' \<or> ctl' = c'"
    using assms p x d s by (simp add: Dial_ims_def Let_def split: if_splits)
  with d s show ?thesis by (metis fst_conv snd_conv)
qed

lemma Dial_ims_inv:
  assumes "ims_inv ctl" "Dial_ims e i ecc ctl = Some (r, ctl', acts)"
  shows "ims_inv ctl'"
proof -
  have "ims_inv (snd (SavePendingEmcCallInfo e i ctl))"
    using assms(1) by (simp add: SavePendingEmcCallInfo_def ims_inv_def)
  with Dial_ims_cases [OF assms(2)] DialJudgment_inv [OF assms(1)] assms(1) show ?thesis by blast
qed

lemma dial_after_hold_shape: "same_shape t (fst (dial_after_hold e s t))"
  by (induction e s t rule: dial_after_hold.induct) (auto simp: case_prod_beta Let_def)

lemma DialAfterHold_inv: "ims_inv ctl \<Longrightarrow> ims_inv (fst (DialAfterHold e s ctl))"
  by (simp add: DialAfterHold_def case_prod_beta ims_inv_shape dial_after_hold_shape)

lemma recover_pending_hold_shape: "same_shape t (recover_pending_hold t)"
  by (induction t rule: recover_pending_hold.induct) auto

lemma RecoverPendingHold_inv: "ims_inv ctl \<Longrightarrow> ims_inv (RecoverPendingHold ctl)"
  by (simp add: RecoverPendingHold_def ims_inv_shape recover_pending_hold_shape)

lemma restore_call_table:
  "table_ok t \<and> settled t \<Longrightarrow>
   table_ok (fold (restore_call e s) xs t) \<and> settled (fold (restore_call e s) xs t)"
proof (induction xs arbitrary: t)
  case (Cons x xs)
  then have "table_ok (restore_call e s x t) \<and> settled (restore_call e s x t)"
    by (simp add: restore_call_def SetConnectionData_def table_ok_insert settled_insert table_ok_omap
        CellularCallConnectionIMS_init_def)
  from Cons.IH [OF this] show ?case by simp
qed simp

lemma RestoreConnection_inv: "ims_inv ctl \<Longrightarrow> ims_inv (snd (RestoreConnection e infos s ctl))"
  using restore_call_table [of "imsConnectionMap ctl" e s infos]
  by (simp add: RestoreConnection_def ims_inv_def)

lemma ReportImsCallsData_inv: "ims_inv ctl \<Longrightarrow> ims_inv (fst (snd (ReportImsCallsData e s l q ctl)))"
  by (simp add: ReportImsCallsData_def ReportIncomingInfo_ims_inv ReportHangUpInfo_ims_inv ReportUpdateInfo_ims_inv)

lemma UpdateDisconnectedReason_ims_inv: "ims_inv ctl \<Longrightarrow> ims_inv (UpdateDisconnectedReason_ims l r m ctl)"
  unfolding UpdateDisconnectedReason_ims_def by (intro ims_inv_map) simp_all

lemma WaitForRadioOnTimeout_inv: "ims_inv ctl \<Longrightarrow> ims_inv (fst (WaitForRadioOnTimeout e ctl))"
  by (simp add: WaitForRadioOnTimeout_def case_prod_beta Let_def ReportHangUpInfo_ims_inv)

definition IMSControl_init :: "CellularCallInfo \<Rightarrow> IMSControl" where
  "IMSControl_init emc =
     \<lparr>isIgnoredIncomingCall = False, imsConnectionMap = [], imsPendingPhoneNumber = [],
      isSilentCsRedial = False, pendingEmcDialCallInfo = emc, isPendingEmc = False, waitForRadioOn = False\<rparr>"

text \<open>The life of a control: from the empty state, any operation with any answers of the
  surroundings.\<close>

inductive ims_step :: "IMSControl \<Rightarrow> IMSControl \<Rightarrow> bool" where
  dial: "Dial_ims (e :: dial_env) i ecc ctl = Some (r, ctl', acts) \<Longrightarrow> ims_step ctl ctl'"
| hangup: "HangUp_ims (e :: dial_env) i ty ctl = (r, ctl', acts) \<Longrightarrow> ims_step ctl ctl'"
| answer: "Answer_ims (e :: dial_env) i ctl = (r, ctl', acts) \<Longrightarrow> ims_step ctl ctl'"
| reject: "Reject_ims (e :: dial_env) i ctl = (r, ctl', acts) \<Longrightarrow> ims_step ctl ctl'"
| proceed: "PostDialProceed_ims (e :: dial_env) i p ctl = (r, ctl', acts) \<Longrightarrow> ims_step ctl ctl'"
| post_dial: "ExecutePostDial_ims (e :: dial_env) s k (imsConnectionMap ctl) = (r, t, acts) \<Longrightarrow>
    ims_step ctl (ctl\<lparr>imsConnectionMap := t\<rparr>)"
| report: "ReportImsCallsData (e :: dial_env) s l q ctl = (r, ctl', acts) \<Longrightarrow> ims_step ctl ctl'"
| restore: "RestoreConnection (e :: dial_env) infos s ctl = (r, ctl') \<Longrightarrow> ims_step ctl ctl'"
| after_hold: "DialAfterHold (e :: dial_env) s ctl = (ctl', acts) \<Longrightarrow> ims_step ctl ctl'"
| recover: "ims_step ctl (RecoverPendingHold ctl)"
| reason: "ims_step ctl (UpdateDisconnectedReason_ims l rr msg ctl)"
| redial: "ims_step ctl (ctl\<lparr>isSilentCsRedial := b\<rparr>)"
| emc: "ims_step ctl (ctl\<lparr>isPendingEmc := b\<rparr>)"
| timeout: "WaitForRadioOnTimeout (e :: dial_env) ctl = (ctl', acts) \<Longrightarrow> ims_step ctl ctl'"
| skip: "ims_step ctl (SkipWaitForRadioOn ctl)"
| release: "ims_step ctl (ctl\<lparr>imsConnectionMap := []\<rparr>)"

inductive ims_reachable :: "IMSControl \<Rightarrow> bool" where
  init: "ims_reachable (IMSControl_init emc)"
| step: "ims_reachable ctl \<Longrightarrow> ims_step ctl ctl' \<Longrightarrow> ims_reachable ctl'"

lemma ims_step_inv: "ims_step ctl ctl' \<Longrightarrow> ims_inv ctl \<Longrightarrow> ims_inv ctl'"
proof (induction rule: ims_step.induct)
  case (dial e i ecc ctl r ctl' acts)
  from Dial_ims_inv [OF dial(2,1)] show ?case .
next
  case (hangup e i ty ctl r ctl' acts)
  then show ?case using HangUp_ims_inv [of ctl e i ty] by simp
next
  case (answer e i ctl r ctl' acts)
  then show ?case using Answer_ims_inv [of ctl e i] by simp
next
  case (reject e i ctl r ctl' acts)
  then show ?case using Reject_ims_inv [of ctl e i] by simp
next
  case (proceed e i p ctl r ctl' acts)
  then show ?case using PostDialProceed_ims_inv [of ctl e i p] by simp
next
  case (post_dial e s k ctl r t acts)
  then show ?case using ExecutePostDial_ims_inv [of ctl e s k] by simp
next
  case (report e s l q ctl r ctl' acts)
  then show ?case using ReportImsCallsData_inv [of ctl e s l q] by simp
next
  case (restore e infos s ctl r ctl')
  then show ?case using RestoreConnection_inv [of ctl e infos s] by simp
next
  case (after_hold e s ctl ctl' acts)
  then show ?case using DialAfterHold_inv [of ctl e s] by simp
next
  case (timeout e ctl ctl' acts)
  then show ?case using WaitForRadioOnTimeout_inv [of ctl e] by simp
next
  case (release ctl)
  then show ?case by (simp add: ims_inv_def)
qed (simp_all add: RecoverPendingHold_inv UpdateDisconnectedReason_ims_inv SkipWaitForRadioOn_def)

lemma ims_reachable_inv: "ims_reachable ctl \<Longrightarrow> ims_inv ctl"
  by (induction rule: ims_reachable.induct) (auto simp: ims_inv_def IMSControl_init_def dest: ims_step_inv)

section \<open>Hold to dial\<close>

abbreviation holdable :: "CellularCallConnectionIMS \<Rightarrow> bool" where
  "holdable c \<equiv> r_state (callReportInfo c) = CALL_STATUS_ACTIVE \<and> \<not> isPendingHangup c"

lemma hold_to_dial_None: "hold_to_dial e s n m v t = None \<longleftrightarrow> \<not> (\<exists>(k, c) \<in> set t. holdable c)"
  by (induction t) (auto simp: Let_def split: prod.splits)

lemma hold_to_dial_append:
  assumes "\<forall>(k, c) \<in> set t1. \<not> holdable c" "holdable c"
  shows "hold_to_dial e s n m v (t1 @ (k, c) # t2) =
    (let c1 = (SetHoldToDialInfo n m v (snd (IsEmergencyCall e s n False)) c)\<lparr>isNeedToDial := True\<rparr>;
         (ret, c2, acts) = SwitchCallRequest_ims e s v False c1
     in Some (ret, t1 @ (k, c2) # t2, acts))"
  using assms by (induction t1) (auto simp: Let_def split: prod.splits)

lemma dial_after_hold_append:
  assumes "\<forall>(k, c) \<in> set t1. \<not> isNeedToDial c" "isNeedToDial c"
  shows "dial_after_hold e s (t1 @ (k, c) # t2) =
    (t1 @ (k, c\<lparr>isNeedToDial := False\<rparr>) # t2,
     snd (snd (DialRequest_ims e s (holdToDialInfo c) (CellularCallConnectionIMS_init e))))"
  using assms by (induction t1) (auto simp: Let_def split: prod.splits)

lemma dial_after_hold_none:
  "\<forall>(k, c) \<in> set t. \<not> isNeedToDial c \<Longrightarrow> dial_after_hold e s t = (t, [])"
  by (induction t) auto

lemma first_holdable:
  assumes "\<exists>(k, c) \<in> set t. holdable c"
  obtains t1 k c t2 where "t = t1 @ (k, c) # t2" "\<forall>(k, c) \<in> set t1. \<not> holdable c" "holdable c"
  using split_list_first_prop [of t "\<lambda>(k, c). holdable c"] assms by fastforce

text \<open>Dialling while a call is active holds that call first and dials nothing; once the hold is
  done, \<^verbatim>\<open>DialAfterHold\<close> dials the remembered number, once.\<close>

lemma hold_to_dial_round:
  assumes act: "\<exists>(k, c) \<in> set (imsConnectionMap ctl). holdable c" and can: "CanCall (imsConnectionMap ctl)"
    and none: "\<forall>(k, c) \<in> set (imsConnectionMap ctl). \<not> isNeedToDial c"
    and env: "e_imsClient e" "e_imsProxy e"
  shows "\<exists>c ctl1 ctl2. c \<in> snd ` set (imsConnectionMap ctl) \<and> holdable c \<and>
    DialJudgment e slotId n m v rtt ctl =
      (e_imsResult e (ImsSwitchCall slotId v False), ctl1, [Ims (ImsSwitchCall slotId v False)]) \<and>
    DialAfterHold e slotId ctl1 =
      (ctl2, snd (snd (DialRequest_ims e slotId
         ((holdToDialInfo c)\<lparr>dr_phoneNum := n, dr_clirMode := m, di_videoState := v,
            di_bEmergencyCall := snd (IsEmergencyCall e slotId n False)\<rparr>)
         (CellularCallConnectionIMS_init e)))) \<and>
    DialAfterHold e slotId ctl2 = (ctl2, [])"
proof -
  from first_holdable [OF act] obtain t1 k c t2 where
    t: "imsConnectionMap ctl = t1 @ (k, c) # t2" and h: "\<forall>(k, c) \<in> set t1. \<not> holdable c" "holdable c" .
  let ?c1 = "(SetHoldToDialInfo n m v (snd (IsEmergencyCall e slotId n False)) c)\<lparr>isNeedToDial := True\<rparr>"
  let ?s = "SwitchCallRequest_ims e slotId v False ?c1"
  let ?c2 = "fst (snd ?s)"
  have s: "?s = (e_imsResult e (ImsSwitchCall slotId v False), ?c2, [Ims (ImsSwitchCall slotId v False)])"
    "isNeedToDial ?c2" "holdToDialInfo ?c2 = holdToDialInfo ?c1"
    using env by (simp_all add: SwitchCallRequest_ims_def NeedCallImsService_def Let_def UpdatePendingHoldFlag_def)
  let ?ctl1 = "ctl\<lparr>imsPendingPhoneNumber := n, imsConnectionMap := t1 @ (k, ?c2) # t2\<rparr>"
  let ?ctl2 = "?ctl1\<lparr>imsConnectionMap := t1 @ (k, ?c2\<lparr>isNeedToDial := False\<rparr>) # t2\<rparr>"
  have "DialJudgment e slotId n m v rtt ctl =
      (e_imsResult e (ImsSwitchCall slotId v False), ?ctl1, [Ims (ImsSwitchCall slotId v False)])"
    using can s(1) hold_to_dial_append [OF h, of e slotId n m v k t2]
    by (simp add: DialJudgment_def t Let_def split: prod.splits)
  moreover have "\<forall>(k, c) \<in> set t1. \<not> isNeedToDial c" using none t by auto
  then have "DialAfterHold e slotId ?ctl1 =
      (?ctl2, snd (snd (DialRequest_ims e slotId (holdToDialInfo ?c1) (CellularCallConnectionIMS_init e))))"
    using dial_after_hold_append [of t1 ?c2 e slotId k t2] s(2,3) by (simp add: DialAfterHold_def)
  moreover have "DialAfterHold e slotId ?ctl2 = (?ctl2, [])"
    using dial_after_hold_none [of "imsConnectionMap ?ctl2" e slotId] none t
    by (simp add: DialAfterHold_def)
  moreover have "holdToDialInfo ?c1 = (holdToDialInfo c)\<lparr>dr_phoneNum := n, dr_clirMode := m, di_videoState := v,
      di_bEmergencyCall := snd (IsEmergencyCall e slotId n False)\<rparr>"
    by (simp add: SetHoldToDialInfo_def)
  moreover have "c \<in> snd ` set (imsConnectionMap ctl)" by (simp add: t)
  ultimately show ?thesis using h(2) by metis
qed

section \<open>Properties\<close>

lemma find_ims:
  "ims_inv ctl \<Longrightarrow> FindConnectionByIndex (imsConnectionMap ctl) i = map_option (Pair i) (map_of (imsConnectionMap ctl) i)"
  by (simp add: ims_inv_def FindConnectionByIndex_map_of)

definition sample_ims :: "int \<Rightarrow> TelCallState \<Rightarrow> CellularCallConnectionIMS" where
  "sample_ims i s =
     \<lparr>phoneNumber = [], flag = False, index = i, number = ''10086'',
      callReportInfo = zero_report\<lparr>r_index := i, r_state := s\<rparr>,
      postDialCallState = POST_DIAL_CALL_NOT_STARTED, nextPostDialCallCode = 0, postDialCallString = [],
      isNeedToDial = False, holdToDialInfo = ImsDialInfoStruct_init, isPendingHangup = False,
      imsDisconnectReason = DISCONNECTED_REASON_INVALID, disconnectMessage = []\<rparr>"

definition sample_ims_ctl :: IMSControl where
  "sample_ims_ctl = (IMSControl_init sample_info)\<lparr>imsConnectionMap :=
     [(1, sample_ims 1 CALL_STATUS_ACTIVE), (2, sample_ims 2 CALL_STATUS_WAITING)]\<rparr>"

lemma sample_ims_ctl_inv: "ims_inv sample_ims_ctl"
  by (simp add: ims_inv_def sample_ims_ctl_def sample_ims_def settled_def)

text \<open>C3: the table mirrors the IMS service. After \<^verbatim>\<open>ReportUpdateInfo\<close> the connection table is well
  formed and holds exactly the calls of the service's list; unless an incoming call was being ignored,
  exactly one report goes up: the listed calls in their order, then one disconnected report, with reason and
  message, for every call that is no longer listed.\<close>

theorem ims_table_mirrors_service:
  assumes "ims_inv ctl" "e_register e" "ReportUpdateInfo_ims e s l ctl = (ret, ctl', acts)"
  shows "ret = TELEPHONY_SUCCESS \<and> ims_inv ctl' \<and> keys (imsConnectionMap ctl') = m_index ` set (m_calls l) \<and>
    \<not> isIgnoredIncomingCall ctl' \<and>
    reports acts = (if isIgnoredIncomingCall ctl then [] else
       [\<lparr>callVec = map (update_report_ims e s (length (m_calls l) = 1)) (m_calls l) @
           map (\<lambda>(k, c). (callReportInfo c)\<lparr>r_state := CALL_STATUS_DISCONNECTED, r_reason := imsDisconnectReason c,
                  r_message := disconnectMessage c\<rparr>)
             (filter (\<lambda>(k, c). k \<notin> m_index ` set (m_calls l)) (imsConnectionMap ctl)),
         cr_slotId = s\<rparr>])"
  using ReportUpdateInfo_ims_result [OF assms(1,3)] assms(2) by (simp add: gone_ims_def)

theorem ims_table_mirrors_service_witness:
  "\<exists>ret ctl' acts.
     ReportUpdateInfo_ims sample_env 0 \<lparr>m_callSize = 2, m_flag = 0, m_calls = [sample_ims_call 2 CALL_STATUS_ACTIVE,
       sample_ims_call 5 CALL_STATUS_DIALING]\<rparr> sample_ims_ctl = (ret, ctl', acts) \<and>
     ret = TELEPHONY_SUCCESS \<and> keys (imsConnectionMap ctl') = {2, 5}"
proof -
  let ?l = "\<lparr>m_callSize = 2, m_flag = 0, m_calls = [sample_ims_call 2 CALL_STATUS_ACTIVE, sample_ims_call 5 CALL_STATUS_DIALING]\<rparr>"
  obtain ret ctl' acts where r: "ReportUpdateInfo_ims sample_env 0 ?l sample_ims_ctl = (ret, ctl', acts)"
    by (metis prod_cases3)
  with ims_table_mirrors_service [OF sample_ims_ctl_inv _ r] show ?thesis by (simp add: sample_ims_call_def)
qed

text \<open>The invariant of the IMS control. In every state that operations can reach, with any answers of
  the IMS service, register, radio and timers, the connections are sorted by their index, stored under
  their own index, and no report flag is left set.\<close>

theorem ims_control_invariant:
  assumes "ims_reachable ctl"
  shows "sorted_wrt (<) (map fst (imsConnectionMap ctl)) \<and>
    (\<forall>(k, c) \<in> set (imsConnectionMap ctl). index c = k \<and> \<not> flag c)"
  using ims_reachable_inv [OF assms]
  by (auto simp: ims_inv_def table_ok_def omap_ok_def settled_def list_all_iff)

theorem ims_control_invariant_witness:
  "sorted_wrt (<) (map fst (imsConnectionMap (snd (RestoreConnection sample_env
     [sample_info\<lparr>ci_callType := TYPE_IMS\<rparr>] 0 (IMSControl_init sample_info)))))"
  using ims_control_invariant [OF ims_reachable.step [OF ims_reachable.init ims_step.restore
      [of sample_env "[sample_info\<lparr>ci_callType := TYPE_IMS\<rparr>]" 0]], OF surjective_pairing]
  by blast

text \<open>C5: hold to dial. While a call is active, dialling sends no dial request: it switches the active call
  to hold and keeps the number, the CLIR mode, the video state and the emergency mark with that call. When
  the switch has succeeded, exactly this number is dialled, and it is dialled once: a second success dials nothing. The RTT wish of the dialled call is not kept.\<close>

theorem hold_to_dial_once:
  assumes act: "\<exists>(k, c) \<in> set (imsConnectionMap ctl). r_state (callReportInfo c) = CALL_STATUS_ACTIVE \<and> \<not> isPendingHangup c"
    and can: "length (imsConnectionMap ctl) \<le> 6"
    and none: "\<forall>(k, c) \<in> set (imsConnectionMap ctl). \<not> isNeedToDial c"
    and env: "e_imsClient e" "e_imsProxy e" and short: "length (fst (address_scan n)) < 255"
  shows "\<exists>ctl1 ctl2 d. DialJudgment e s n m v rtt ctl =
      (e_imsResult e (ImsSwitchCall s v False), ctl1, [Ims (ImsSwitchCall s v False)]) \<and>
    DialAfterHold e s ctl1 = (ctl2, [Ims (ImsDial d m)]) \<and>
    ic_phoneNum d = fst (address_scan n) \<and> ic_slotId d = s \<and> ic_videoState d = v \<and>
    DialAfterHold e s ctl2 = (ctl2, []) \<and>
    DialJudgment e s n m v True ctl = DialJudgment e s n m v False ctl"
proof -
  have can': "CanCall (imsConnectionMap ctl)" using can by (simp add: CanCall_def)
  from hold_to_dial_round [OF act can' none env, of s n m v rtt] obtain c :: CellularCallConnectionIMS and ctl1 ctl2 where
    r: "DialJudgment e s n m v rtt ctl =
      (e_imsResult e (ImsSwitchCall s v False), ctl1, [Ims (ImsSwitchCall s v False)])"
    "DialAfterHold e s ctl1 =
      (ctl2, snd (snd (DialRequest_ims e s
         ((holdToDialInfo c)\<lparr>dr_phoneNum := n, dr_clirMode := m, di_videoState := v,
            di_bEmergencyCall := snd (IsEmergencyCall e s n False)\<rparr>)
         (CellularCallConnectionIMS_init e))))"
    "DialAfterHold e s ctl2 = (ctl2, [])" by blast
  let ?d = "\<lparr>ic_phoneNum = fst (address_scan n), ic_slotId = s, ic_videoState = v, ic_index = 0,
               ic_isRTT = di_isRTT (holdToDialInfo c)\<rparr>"
  have "DialAfterHold e s ctl1 = (ctl2, [Ims (ImsDial ?d m)])"
    using r(2) short by (simp add: DialRequest_ims_fresh [OF env(1)] Let_def)
  moreover have "hold_to_dial e s n m v (imsConnectionMap ctl) \<noteq> None" using act by (simp add: hold_to_dial_None)
  then have "DialJudgment e s n m v True ctl = DialJudgment e s n m v False ctl"
    by (auto simp: DialJudgment_def Let_def split: option.splits)
  ultimately show ?thesis using r(1,3) by (intro exI [of _ ctl1] exI [of _ ctl2] exI [of _ ?d]) simp
qed

theorem hold_to_dial_once_witness:
  "\<exists>ctl1 ctl2 d. DialJudgment sample_env 0 ''10010'' DEFAULT 0 True sample_ims_ctl =
      (TELEPHONY_SUCCESS, ctl1, [Ims (ImsSwitchCall 0 0 False)]) \<and>
    DialAfterHold sample_env 0 ctl1 = (ctl2, [Ims (ImsDial d DEFAULT)]) \<and> ic_phoneNum d = ''10010''"
proof -
  have "fst (address_scan ''10010'') = ''10010''" by (simp add: is_address_char_def is_digit_def)
  moreover have "\<exists>(k, c) \<in> set (imsConnectionMap sample_ims_ctl).
      r_state (callReportInfo c) = CALL_STATUS_ACTIVE \<and> \<not> isPendingHangup c"
    "length (imsConnectionMap sample_ims_ctl) \<le> 6" "\<forall>(k, c) \<in> set (imsConnectionMap sample_ims_ctl). \<not> isNeedToDial c"
    by (simp_all add: sample_ims_ctl_def sample_ims_def)
  ultimately show ?thesis
    using hold_to_dial_once [of sample_ims_ctl sample_env "''10010''" 0 DEFAULT 0 True] by fastforce
qed

lemma FindConnectionByState_put:
  assumes "omap_ok t" "FindConnectionByState t st = Some (k, c)" "r_state (callReportInfo c') = st"
  shows "FindConnectionByState (omap_put k c' t) st = Some (k, c')"
  using assms by (induction t st rule: FindConnectionByState.induct) (auto split: if_splits dest: FindConnectionByState_Some)

lemma IsInState_put:
  assumes "omap_ok t" "map_of t k = Some c" "r_state (callReportInfo c') = r_state (callReportInfo c)"
  shows "IsInState (omap_put k c' t) st = IsInState t st"
  using assms by (induction t) (auto simp: IsInState_def split: if_splits)

text \<open>Answering a waiting IMS call takes two steps. While another call is active and its hold is not
  pending, answering only asks to switch, and the active call is marked as pending hold; answering again, with the hold pending, sends
  the answer for exactly this call and changes nothing more.\<close>

theorem answer_waiting_ims:
  assumes inv: "ims_inv ctl" and c: "map_of (imsConnectionMap ctl) (ci_index i) = Some c"
    and wait: "r_state (callReportInfo c) = CALL_STATUS_WAITING"
    and act: "FindConnectionByState (imsConnectionMap ctl) CALL_STATUS_ACTIVE = Some (k, a)"
    and nohold: "\<not> r_isPendingHold (callReportInfo a)" "\<not> IsInState (imsConnectionMap ctl) CALL_STATUS_HOLDING"
    and env: "e_imsClient e" "e_imsProxy e" and short: "length (ci_phoneNum i) < 255"
    and ok: "e_imsResult e (ImsSwitchCall (ci_slotId i) (ci_videoState i) False) = TELEPHONY_SUCCESS"
  shows "\<exists>ctl1 d. Answer_ims e i ctl =
      (TELEPHONY_SUCCESS, ctl1, [Ims (ImsSwitchCall (ci_slotId i) (ci_videoState i) False)]) \<and>
    ctl1 = ctl\<lparr>imsConnectionMap := omap_put k (UpdatePendingHoldFlag True a) (imsConnectionMap ctl)\<rparr> \<and>
    Answer_ims e i ctl1 = (e_imsResult e (ImsAnswer d), ctl1, [Ims (ImsAnswer d)]) \<and>
    ic_index d = ci_index i \<and> ic_slotId d = ci_slotId i \<and> ic_phoneNum d = c_str (ci_phoneNum i)"
proof -
  let ?t = "imsConnectionMap ctl" and ?a = "UpdatePendingHoldFlag True a"
  let ?ctl1 = "ctl\<lparr>imsConnectionMap := omap_put k ?a ?t\<rparr>"
  have tok: "omap_ok ?t" and table: "table_ok ?t" using inv by (simp_all add: ims_inv_def table_ok_omap)
  have ka: "map_of ?t k = Some a" "r_state (callReportInfo a) = CALL_STATUS_ACTIVE"
    using FindConnectionByState_Some [OF act] by (simp_all add: map_of_ok [OF tok])
  have ne: "k \<noteq> ci_index i" using ka c wait by auto
  have 1: "Answer_ims e i ctl = (TELEPHONY_SUCCESS, ?ctl1, [Ims (ImsSwitchCall (ci_slotId i) (ci_videoState i) False)])"
    using c wait act nohold env ok
    by (simp add: Answer_ims_def find_ims [OF inv] SwitchCallRequest_ims_def NeedCallImsService_def Let_def)
  have inv1: "ims_inv ?ctl1" using ims_inv_put [OF inv, of k k a ?a] ka by (simp add: find_ims [OF inv])
  have "map_of (omap_put k ?a ?t) (ci_index i) = Some c" using c ne by (simp add: map_of_omap_put)
  moreover have "FindConnectionByState (omap_put k ?a ?t) CALL_STATUS_ACTIVE = Some (k, ?a)"
    by (rule FindConnectionByState_put [OF tok act]) (simp add: ka)
  moreover have "\<not> IsInState (omap_put k ?a ?t) CALL_STATUS_HOLDING"
    using nohold(2) by (subst IsInState_put [OF tok ka(1)]) simp_all
  ultimately have "\<exists>d. Answer_ims e i ?ctl1 = (e_imsResult e (ImsAnswer d), ?ctl1, [Ims (ImsAnswer d)]) \<and>
      ic_index d = ci_index i \<and> ic_slotId d = ci_slotId i \<and> ic_phoneNum d = c_str (ci_phoneNum i)"
    using wait env short
    by (simp add: Answer_ims_def find_ims [OF inv1, simplified] AnswerRequest_ims_def NeedCallImsService_def ims_client_def
        kMaxNumberLength_def Let_def)
  with 1 show ?thesis by blast
qed

theorem answer_waiting_ims_witness:
  "\<exists>ctl1 d. Answer_ims sample_env (sample_info\<lparr>ci_index := 2\<rparr>) sample_ims_ctl =
      (TELEPHONY_SUCCESS, ctl1, [Ims (ImsSwitchCall 0 0 False)]) \<and>
    Answer_ims sample_env (sample_info\<lparr>ci_index := 2\<rparr>) ctl1 = (TELEPHONY_SUCCESS, ctl1, [Ims (ImsAnswer d)]) \<and>
    ic_index d = 2"
proof -
  have "map_of (imsConnectionMap sample_ims_ctl) 2 = Some (sample_ims 2 CALL_STATUS_WAITING)"
    "FindConnectionByState (imsConnectionMap sample_ims_ctl) CALL_STATUS_ACTIVE = Some (1, sample_ims 1 CALL_STATUS_ACTIVE)"
    "\<not> IsInState (imsConnectionMap sample_ims_ctl) CALL_STATUS_HOLDING"
    "\<not> r_isPendingHold (callReportInfo (sample_ims 1 CALL_STATUS_ACTIVE))"
    "r_state (callReportInfo (sample_ims 2 CALL_STATUS_WAITING)) = CALL_STATUS_WAITING"
    by (simp_all add: sample_ims_ctl_def sample_ims_def IsInState_def zero_report_def)
  with answer_waiting_ims [OF sample_ims_ctl_inv, of "sample_info\<lparr>ci_index := 2\<rparr>" "sample_ims 2 CALL_STATUS_WAITING"
      1 "sample_ims 1 CALL_STATUS_ACTIVE" sample_env] show ?thesis
    by (auto simp: sample_info_def)
qed

text \<open>An emergency call that waits for the radio. On a device with the power feature, an emergency
  call over IMS with the radio off is accepted without any request; it is kept as pending with its number and
  slot, and when the radio does not come in time the client is told, for the slot of this call, that no call is left.\<close>

theorem pending_emergency_ims:
  assumes pre: "DialPreJudgment e i True = Some (CALL_ERR_GET_RADIO_STATE_FAILED, pacts)" and power: "e_basePower e"
    and reg: "e_register e" and ign: "\<not> isIgnoredIncomingCall ctl" "\<not> isSilentCsRedial ctl" and empty: "imsConnectionMap ctl = []"
  shows "\<exists>ctl1. Dial_ims e i True ctl = Some (TELEPHONY_SUCCESS, ctl1, pacts) \<and>
    isPendingEmc ctl1 \<and> waitForRadioOn ctl1 \<and> imsConnectionMap ctl1 = [] \<and>
    ci_phoneNum (pendingEmcDialCallInfo ctl1) = take (e_kMaxNumberLen e) (ci_phoneNum i) \<and>
    WaitForRadioOnTimeout e ctl1 = (ctl1\<lparr>isPendingEmc := False\<rparr>,
      [ReportCallsInfo \<lparr>callVec = [(e_defaultReport e)\<lparr>r_state := CALL_STATUS_DISCONNECTED, r_accountId := ci_slotId i\<rparr>],
         cr_slotId = ci_slotId i\<rparr>])"
  using assms
  by (simp add: Dial_ims_def SavePendingEmcCallInfo_def WaitForRadioOnTimeout_def ReportHangUpInfo_ims_def Let_def)

theorem pending_emergency_ims_witness:
  "\<exists>ctl1. Dial_ims (sample_env\<lparr>e_basePower := True, e_radioOnFlag := \<lambda>_. False\<rparr>) (sample_info\<lparr>ci_phoneNum := ''112''\<rparr>)
      True (IMSControl_init sample_info) = Some (TELEPHONY_SUCCESS, ctl1, []) \<and>
    isPendingEmc ctl1 \<and> ci_phoneNum (pendingEmcDialCallInfo ctl1) = ''112''"
proof -
  let ?e = "sample_env\<lparr>e_basePower := True, e_radioOnFlag := \<lambda>_. False\<rparr>"
  let ?i = "sample_info\<lparr>ci_phoneNum := ''112''\<rparr>"
  have "DialPreJudgment ?e ?i True = Some (CALL_ERR_GET_RADIO_STATE_FAILED, [])"
    by (simp add: DialPreJudgment_def HandleEcc_def CheckAirplaneModeScene_def CheckActivateSimScene_def
        sample_info_def Let_def)
  from pending_emergency_ims [OF this, of "IMSControl_init sample_info"] show ?thesis
    by (auto simp: IMSControl_init_def)
qed

end
