(* ===== verification/SatControl.thy ===== *)
theory SatControl
  imports Interception
begin

text \<open>
  \<^verbatim>\<open>services/connection/src/cellular_call_connection_satellite.cpp\<close> and
  \<^verbatim>\<open>services/control/src/satellite_control.cpp\<close>: the satellite connection (nothing beyond the base
  connection) and the satellite control. \<open>\<dots>_sat\<close> names the operation of these classes.
\<close>

section \<open>The connection\<close>

type_synonym CellularCallConnectionSatellite = BaseConnection

definition CellularCallConnectionSatellite_init :: "'x svc_env_scheme \<Rightarrow> BaseConnection" where
  "CellularCallConnectionSatellite_init e =
     \<lparr>phoneNumber = [], flag = False, index = 1, number = [], callReportInfo = e_zeroReport e,
      postDialCallState = POST_DIAL_CALL_NOT_STARTED, nextPostDialCallCode = 0, postDialCallString = []\<rparr>"

definition DialRequest_sat ::
    "'x svc_env_scheme \<Rightarrow> int \<Rightarrow> DialRequestStruct \<Rightarrow> BaseConnection \<Rightarrow>
     errcode \<times> BaseConnection \<times> act list" where
  "DialRequest_sat e slotId dialRequest c =
     (let c1 = UpdateCallNumber (dr_phoneNum dialRequest) c;
          c2 = c1\<lparr>phoneNumber := []\<rparr> in
      if int (length (c_str (phoneNumber c1)) + 1) > kMaxNumberLength then (TELEPHONY_ERR_STRCPY_FAIL, c2, [])
      else
        let callInfo = SatelliteCallInfo_zero\<lparr>sc_phoneNum := c_str (phoneNumber c1), sc_slotId := slotId\<rparr>;
            (ret, acts) = sat_client e (SatDial callInfo (dr_clirMode dialRequest))
        in (ret, c2, acts))"

definition HangUpRequest_sat :: "'x svc_env_scheme \<Rightarrow> int \<Rightarrow> BaseConnection \<Rightarrow> errcode \<times> act list" where
  [req_defs]: "HangUpRequest_sat e slotId c = sat_client e (SatHangUp slotId (index c))"

definition AnswerRequest_sat :: "'x svc_env_scheme \<Rightarrow> int \<Rightarrow> errcode \<times> act list" where
  [req_defs]: "AnswerRequest_sat e slotId = sat_client e (SatAnswer slotId)"

definition RejectRequest_sat :: "'x svc_env_scheme \<Rightarrow> int \<Rightarrow> errcode \<times> act list" where
  [req_defs]: "RejectRequest_sat e slotId = sat_client e (SatReject slotId)"

definition GetSatelliteCallsDataRequest_sat :: "'x svc_env_scheme \<Rightarrow> int \<Rightarrow> int \<Rightarrow> errcode \<times> act list" where
  [req_defs]: "GetSatelliteCallsDataRequest_sat e slotId lastCallsDataFlag =
     sat_client e (SatGetCallsData slotId lastCallsDataFlag)"

definition GetCallFailReasonRequest_sat :: "int \<Rightarrow> errcode" where
  "GetCallFailReasonRequest_sat slotId = CALL_ERR_RESOURCE_UNAVAILABLE"

definition SendDtmfRequest_sat :: "'x svc_env_scheme \<Rightarrow> int \<Rightarrow> char \<Rightarrow> int \<Rightarrow> errcode \<times> act list" where
  [req_defs]: "SendDtmfRequest_sat e slotId c i = ril_request e slotId [RilSendDTMF slotId c i]"

definition StartDtmfRequest_sat :: "'x svc_env_scheme \<Rightarrow> int \<Rightarrow> char \<Rightarrow> int \<Rightarrow> errcode \<times> act list" where
  [req_defs]: "StartDtmfRequest_sat e slotId c i = ril_request e slotId [RilStartDTMF slotId c i]"

definition StopDtmfRequest_sat :: "'x svc_env_scheme \<Rightarrow> int \<Rightarrow> int \<Rightarrow> errcode \<times> act list" where
  [req_defs]: "StopDtmfRequest_sat e slotId i = ril_request e slotId [RilStopDTMF slotId i]"

definition ProcessPostDialCallChar_sat ::
    "'x svc_env_scheme \<Rightarrow> int \<Rightarrow> BaseConnection \<Rightarrow> char \<Rightarrow> errcode \<times> BaseConnection \<times> act list" where
  "ProcessPostDialCallChar_sat e = post_dial_char (SendDtmfRequest_sat e) False e"

section \<open>The control\<close>

record SatelliteControl = Control +
  satConnectionMap :: "BaseConnection omap"
  satPendingPhoneNumber :: string

definition EncapsulateDialCommon_sat ::
    "'x svc_env_scheme \<Rightarrow> int \<Rightarrow> string \<Rightarrow> CLIRMode \<Rightarrow> SatelliteControl \<Rightarrow>
     errcode \<times> SatelliteControl \<times> act list" where
  "EncapsulateDialCommon_sat e slotId phoneNum clirMode ctl =
     (let (ret, _, acts) = DialRequest_sat e slotId \<lparr>dr_phoneNum = phoneNum, dr_clirMode = clirMode\<rparr>
            (CellularCallConnectionSatellite_init e)
      in (ret, ctl\<lparr>satPendingPhoneNumber := phoneNum\<rparr>, acts))"

definition Dial_sat ::
    "'x dial_env_scheme \<Rightarrow> CellularCallInfo \<Rightarrow> bool \<Rightarrow> SatelliteControl \<Rightarrow>
     (errcode \<times> SatelliteControl \<times> act list) option" where
  "Dial_sat e callInfo isEcc ctl =
     (case DialPreJudgment e callInfo False of
        None \<Rightarrow> None
      | Some (ret, pacts) \<Rightarrow>
          if ret \<noteq> TELEPHONY_SUCCESS then Some (ret, ctl, pacts)
          else
            let (mmi, newPhoneNum, clirMode, macts) =
                  IsNeedExecuteMMI e (ci_slotId callInfo) (RemoveSeparatorsPhoneNumber (ci_phoneNum callInfo))
                    DEFAULT False in
            if mmi then Some (RETURN_TYPE_MMI, ctl, pacts @ macts)
            else if \<not> CanCall (satConnectionMap ctl)
              then Some (CALL_ERR_CALL_COUNTS_EXCEED_LIMIT, ctl, pacts @ macts)
            else
              let (r, ctl', acts) = EncapsulateDialCommon_sat e (ci_slotId callInfo) newPhoneNum clirMode ctl
              in Some (r, ctl', pacts @ macts @ acts))"

definition HangUp_sat ::
    "'x svc_env_scheme \<Rightarrow> CellularCallInfo \<Rightarrow> CallSupplementType \<Rightarrow> SatelliteControl \<Rightarrow> errcode \<times> act list" where
  "HangUp_sat e callInfo ty ctl =
     (case ty of
        TYPE_DEFAULT \<Rightarrow>
          (case FindConnectionByIndex (satConnectionMap ctl) (ci_index callInfo) of
             None \<Rightarrow> (CALL_ERR_CALL_CONNECTION_NOT_EXIST, [])
           | Some (k, c) \<Rightarrow>
               let (ret, acts) = HangUpRequest_sat e (ci_slotId callInfo) c
               in (ret, report_single e (callReportInfo c) CALL_STATUS_DISCONNECTING @ acts))
      | _ \<Rightarrow> (TELEPHONY_ERR_ARGUMENT_INVALID, []))"

definition Answer_sat ::
    "'x svc_env_scheme \<Rightarrow> CellularCallInfo \<Rightarrow> SatelliteControl \<Rightarrow> errcode \<times> act list" where
  "Answer_sat e callInfo ctl =
     (let t = satConnectionMap ctl; slotId = ci_slotId callInfo in
      case FindConnectionByIndex t (ci_index callInfo) of
        None \<Rightarrow> (CALL_ERR_CALL_CONNECTION_NOT_EXIST, [])
      | Some (k, c) \<Rightarrow>
          let st = r_state (callReportInfo c);
              hacts = (if IsInState t CALL_STATUS_ACTIVE \<or> st = CALL_STATUS_WAITING then
                         (case FindConnectionByState t CALL_STATUS_ACTIVE of
                            Some (_, con) \<Rightarrow> snd (HangUpRequest_sat e slotId con) | None \<Rightarrow> [])
                       else []) in
          if st = CALL_STATUS_INCOMING \<or> st = CALL_STATUS_ALERTING \<or> st = CALL_STATUS_WAITING then
            let (ret, acts) = AnswerRequest_sat e slotId in (ret, hacts @ acts)
          else (CALL_ERR_CALL_STATE, hacts))"

definition Reject_sat ::
    "'x svc_env_scheme \<Rightarrow> CellularCallInfo \<Rightarrow> SatelliteControl \<Rightarrow> errcode \<times> act list" where
  "Reject_sat e callInfo ctl =
     (case FindConnectionByIndex (satConnectionMap ctl) (ci_index callInfo) of
        None \<Rightarrow> (CALL_ERR_CALL_CONNECTION_NOT_EXIST, [])
      | Some (k, c) \<Rightarrow>
          if \<not> IsRingingState c then (CALL_ERR_CALL_STATE, [])
          else
            let (ret, acts) = RejectRequest_sat e (ci_slotId callInfo)
            in (ret, report_single e (callReportInfo c) CALL_STATUS_DISCONNECTING @ acts))"

definition HoldCall_sat :: "int \<Rightarrow> errcode" where
  "HoldCall_sat slotId = TELEPHONY_ERROR"

definition UnHoldCall_sat :: "int \<Rightarrow> errcode" where
  "UnHoldCall_sat slotId = TELEPHONY_ERROR"

definition SwitchCall_sat :: "int \<Rightarrow> errcode" where
  "SwitchCall_sat slotId = TELEPHONY_ERROR"

definition CombineConference_sat :: "int \<Rightarrow> errcode" where
  "CombineConference_sat slotId = TELEPHONY_ERROR"

definition HangUpAllConnection_sat :: "'x svc_env_scheme \<Rightarrow> int \<Rightarrow> errcode \<times> act list" where
  "HangUpAllConnection_sat e slotId = (TELEPHONY_SUCCESS, snd (RejectRequest_sat e slotId))"

text \<open>\<^verbatim>\<open>GetCallFailReason\<close> of a satellite connection asks nobody, so its calls in
  \<^verbatim>\<open>DeleteConnection\<close> and \<^verbatim>\<open>ReportHangUpInfo\<close> have no effect.\<close>

definition EncapsulationCallReportInfo_sat ::
    "'x svc_env_scheme \<Rightarrow> int \<Rightarrow> SatelliteCurrentCall \<Rightarrow> CallReportInfo" where
  "EncapsulationCallReportInfo_sat e slotId callInfo =
     (if length (c_str (t_number callInfo)) + 1 > e_kMaxNumberLen e + 1 then e_zeroReport e
      else (e_zeroReport e)
        \<lparr>r_accountNum := c_str (t_number callInfo), r_index := t_index callInfo, r_accountId := slotId,
         r_voiceDomain := t_voiceDomain callInfo, r_state := t_state callInfo, r_callType := TYPE_SATELLITE,
         r_callMode := TYPE_VOICE, r_mpty := t_mpty callInfo\<rparr>)"

fun DeleteConnection_sat ::
    "BaseConnection omap \<Rightarrow> CallReportInfo list \<Rightarrow> CallReportInfo list \<times> BaseConnection omap" where
  "DeleteConnection_sat [] vec = (vec, [])"
| "DeleteConnection_sat ((k, c) # t) vec =
     (if \<not> flag c then
        DeleteConnection_sat t (vec @ [(callReportInfo c)\<lparr>r_state := CALL_STATUS_DISCONNECTED\<rparr>])
      else let (v, t') = DeleteConnection_sat t vec in (v, (k, c\<lparr>flag := False\<rparr>) # t'))"

definition update_call_sat ::
    "'x svc_env_scheme \<Rightarrow> int \<Rightarrow> SatelliteCurrentCall \<Rightarrow>
     BaseConnection omap \<times> CallReportInfo list \<Rightarrow> BaseConnection omap \<times> CallReportInfo list" where
  "update_call_sat e slotId call = (\<lambda>(t, vec).
     (let reportInfo = EncapsulationCallReportInfo_sat e slotId call in
      case FindConnectionByIndex t (t_index call) of
        None \<Rightarrow>
          (snd (SetConnectionData t (t_index call)
             ((CellularCallConnectionSatellite_init e)\<lparr>callReportInfo := reportInfo, flag := True,
                index := t_index call, number := t_number call\<rparr>)), vec @ [reportInfo])
      | Some (k, c) \<Rightarrow>
          (omap_put k (c\<lparr>flag := True, index := t_index call, callReportInfo := reportInfo,
                         number := t_number call\<rparr>) t, vec @ [reportInfo])))"

definition ReportUpdateInfo_sat ::
    "'x svc_env_scheme \<Rightarrow> int \<Rightarrow> SatelliteCurrentCallList \<Rightarrow> SatelliteControl \<Rightarrow>
     errcode \<times> SatelliteControl \<times> act list" where
  "ReportUpdateInfo_sat e slotId l ctl =
     (let (t, vec) = fold (update_call_sat e slotId) (t_calls l) (satConnectionMap ctl, []);
          (vec', t') = DeleteConnection_sat t vec;
          ctl' = ctl\<lparr>satConnectionMap := t'\<rparr> in
      if \<not> e_register e then (TELEPHONY_ERR_LOCAL_PTR_NULL, ctl', [])
      else (TELEPHONY_SUCCESS, ctl',
            (if \<not> isIgnoredIncomingCall ctl
             then [ReportCallsInfo \<lparr>callVec = vec', cr_slotId = slotId\<rparr>] else [])))"

definition incoming_call_sat ::
    "'x svc_env_scheme \<Rightarrow> int \<Rightarrow> SatelliteCurrentCall \<Rightarrow> BaseConnection omap \<Rightarrow> BaseConnection omap" where
  "incoming_call_sat e slotId call t =
     snd (SetConnectionData t (t_index call)
       ((SetStatus (t_state call) (CellularCallConnectionSatellite_init e))\<lparr>index := t_index call,
          callReportInfo := EncapsulationCallReportInfo_sat e slotId call, number := t_number call\<rparr>))"

definition ReportIncomingInfo_sat ::
    "'x svc_env_scheme \<Rightarrow> int \<Rightarrow> SatelliteCurrentCallList \<Rightarrow> SatelliteControl \<Rightarrow>
     errcode \<times> SatelliteControl \<times> act list" where
  "ReportIncomingInfo_sat e slotId l ctl =
     (let vec = map (EncapsulationCallReportInfo_sat e slotId) (t_calls l);
          t' = fold (incoming_call_sat e slotId) (t_calls l) (satConnectionMap ctl);
          ctl' = ctl\<lparr>satConnectionMap := t'\<rparr> in
      if \<not> e_register e then (TELEPHONY_ERR_ARGUMENT_INVALID, ctl', [])
      else if \<not> e_cbRegistered e \<and> vec \<noteq> [] \<and> r_state (hd vec) = CALL_STATUS_INCOMING
        then (TELEPHONY_SUCCESS, ctl'\<lparr>isIgnoredIncomingCall := True\<rparr>, [])
      else (TELEPHONY_SUCCESS, ctl', [ReportCallsInfo \<lparr>callVec = vec, cr_slotId = slotId\<rparr>]))"

definition ReportHangUpInfo_sat ::
    "'x svc_env_scheme \<Rightarrow> int \<Rightarrow> SatelliteControl \<Rightarrow> errcode \<times> SatelliteControl \<times> act list" where
  "ReportHangUpInfo_sat e slotId ctl =
     (let vec = map (\<lambda>(k, c). (callReportInfo c)\<lparr>r_state := CALL_STATUS_DISCONNECTED,
                      r_accountId := slotId\<rparr>) (satConnectionMap ctl);
          vec' = (if satConnectionMap ctl = []
                  then vec @ [(e_defaultReport e)\<lparr>r_state := CALL_STATUS_DISCONNECTED, r_accountId := slotId\<rparr>]
                  else vec) in
      if \<not> e_register e then (TELEPHONY_ERR_LOCAL_PTR_NULL, ctl, [])
      else if isIgnoredIncomingCall ctl
        then (TELEPHONY_SUCCESS, ctl\<lparr>isIgnoredIncomingCall := False, satConnectionMap := []\<rparr>, [])
      else (TELEPHONY_SUCCESS, ctl\<lparr>satConnectionMap := []\<rparr>,
            [ReportCallsInfo \<lparr>callVec = vec', cr_slotId = slotId\<rparr>]))"

definition ReportSatelliteCallsData ::
    "'x svc_env_scheme \<Rightarrow> int \<Rightarrow> SatelliteCurrentCallList \<Rightarrow> SatelliteControl \<Rightarrow>
     errcode \<times> SatelliteControl \<times> act list" where
  "ReportSatelliteCallsData e slotId l ctl =
     (if t_callSize l \<le> 0 then ReportHangUpInfo_sat e slotId ctl
      else if t_callSize l > 0 \<and> satConnectionMap ctl = [] then ReportIncomingInfo_sat e slotId l ctl
      else if t_callSize l > 0 \<and> satConnectionMap ctl \<noteq> [] then ReportUpdateInfo_sat e slotId l ctl
      else (TELEPHONY_ERROR, ctl, []))"

definition hangup_report_sat :: "'x svc_env_scheme \<Rightarrow> CellularCallInfo \<Rightarrow> CallReportInfo" where
  "hangup_report_sat e info =
     (e_defaultReport e)
       \<lparr>r_accountNum := take (e_kMaxNumberLen e) (ci_phoneNum info), r_index := ci_index info,
        r_accountId := ci_slotId info, r_callType := TYPE_SATELLITE, r_callMode := TYPE_VOICE,
        r_state := CALL_STATUS_DISCONNECTED\<rparr>"

definition ReportHangUp_sat ::
    "'x svc_env_scheme \<Rightarrow> CellularCallInfo list \<Rightarrow> int \<Rightarrow> SatelliteControl \<Rightarrow>
     errcode \<times> SatelliteControl \<times> act list" where
  "ReportHangUp_sat e infos slotId ctl =
     (let vec = map (hangup_report_sat e)
                  (filter (\<lambda>info. ci_callType info = TYPE_SATELLITE \<and> ci_slotId info = slotId) infos) in
      if \<not> e_register e then (TELEPHONY_ERR_LOCAL_PTR_NULL, ctl, [])
      else (TELEPHONY_SUCCESS, ctl\<lparr>satConnectionMap := []\<rparr>,
            [ReportCallsInfo \<lparr>callVec = vec, cr_slotId = slotId\<rparr>]))"

definition ExecutePostDial_sat ::
    "'x svc_env_scheme \<Rightarrow> int \<Rightarrow> int \<Rightarrow> BaseConnection omap \<Rightarrow> errcode \<times> BaseConnection omap \<times> act list" where
  "ExecutePostDial_sat e slotId callId t =
     execute_post_dial (ProcessPostDialCallChar_sat e slotId) e t callId CHR 0x00"

definition PostDialProceed_sat ::
    "'x svc_env_scheme \<Rightarrow> CellularCallInfo \<Rightarrow> bool \<Rightarrow> SatelliteControl \<Rightarrow>
     errcode \<times> SatelliteControl \<times> act list" where
  "PostDialProceed_sat e callInfo proceed ctl =
     (case FindConnectionByIndex (satConnectionMap ctl) (ci_index callInfo) of
        None \<Rightarrow> (TELEPHONY_ERR_LOCAL_PTR_NULL, ctl, [])
      | Some (k, c) \<Rightarrow>
          if proceed then
            let (_, t', acts) = ExecutePostDial_sat e (ci_slotId callInfo) (index c) (satConnectionMap ctl)
            in (TELEPHONY_SUCCESS, ctl\<lparr>satConnectionMap := t'\<rparr>, acts)
          else (TELEPHONY_SUCCESS,
                ctl\<lparr>satConnectionMap := omap_put k (c\<lparr>postDialCallState := POST_DIAL_CALL_CANCELED\<rparr>)
                      (satConnectionMap ctl)\<rparr>, []))"

section \<open>The report loop synchronises the table\<close>

definition gone_sat :: "BaseConnection \<Rightarrow> CallReportInfo" where
  "gone_sat c = (callReportInfo c)\<lparr>r_state := CALL_STATUS_DISCONNECTED\<rparr>"

lemma DeleteConnection_sat_eq:
  "DeleteConnection_sat t vec =
     (vec @ map (\<lambda>(k, c). gone_sat c) (filter (\<lambda>(k, c). \<not> flag c) t),
      map (\<lambda>(k, c). (k, c\<lparr>flag := False\<rparr>)) (filter (\<lambda>(k, c). flag c) t))"
  by (induction t vec rule: DeleteConnection_sat.induct) (simp_all add: gone_sat_def)

text \<open>A satellite connection never gets a post-dial string: \<^verbatim>\<open>ReportUpdateInfo\<close> does not look at the
  pending number.\<close>

definition no_post_dial :: "BaseConnection omap \<Rightarrow> bool" where
  "no_post_dial t \<longleftrightarrow> list_all (\<lambda>(k, c). postDialCallString c = []) t"

lemma update_call_sat_table:
  assumes "table_ok t"
  shows "\<exists>c. flag c \<and> index c = t_index call \<and> callReportInfo c = EncapsulationCallReportInfo_sat e slotId call \<and>
    fst (update_call_sat e slotId call (t, vec)) =
      (if map_of t (t_index call) = None then omap_insert (t_index call) c t
       else omap_put (t_index call) c t)"
proof (cases "map_of t (t_index call)")
  case None
  let ?c = "(CellularCallConnectionSatellite_init e)\<lparr>callReportInfo := EncapsulationCallReportInfo_sat e slotId call,
    flag := True, index := t_index call, number := t_number call\<rparr>"
  from None show ?thesis
    by (intro exI [of _ ?c])
      (simp add: update_call_sat_def FindConnectionByIndex_map_of [OF assms] SetConnectionData_def Let_def)
next
  case (Some c)
  let ?c = "c\<lparr>flag := True, index := t_index call, callReportInfo := EncapsulationCallReportInfo_sat e slotId call,
    number := t_number call\<rparr>"
  from Some show ?thesis
    by (intro exI [of _ ?c]) (simp add: update_call_sat_def FindConnectionByIndex_map_of [OF assms] Let_def)
qed

interpretation sat: call_sync t_index "EncapsulationCallReportInfo_sat e slotId" "update_call_sat e slotId"
    "\<lambda>vec. vec" "\<lambda>vec. []" gone_sat DeleteConnection_sat
  for e :: "'x svc_env_scheme" and slotId :: int
proof unfold_locales
  show "table_ok (fst (update_call_sat e slotId call (t, s)))"
    if "table_ok t" for t :: "BaseConnection omap" and call s
    using update_call_sat_table [OF that, of call e slotId s] that by (auto simp: table_ok_insert table_ok_put)
  show "\<exists>c. map_of (fst (update_call_sat e slotId call (t, s))) (t_index call) = Some c \<and> flag c \<and>
      callReportInfo c = EncapsulationCallReportInfo_sat e slotId call"
    if "table_ok t" for t :: "BaseConnection omap" and call s
    using update_call_sat_table [OF that, of call e slotId s] that
    by (auto simp: map_of_omap_insert map_of_omap_put table_ok_omap)
  show "map_of (fst (update_call_sat e slotId call (t, s))) k = map_of t k"
    if "table_ok t" "k \<noteq> t_index call" for t :: "BaseConnection omap" and k call s
    using update_call_sat_table [OF that(1), of call e slotId s] that
    by (auto simp: map_of_omap_insert map_of_omap_put table_ok_omap)
qed (auto simp: update_call_sat_def Let_def DeleteConnection_sat_eq split: option.splits)

definition sat_inv :: "SatelliteControl \<Rightarrow> bool" where
  "sat_inv ctl \<longleftrightarrow> table_ok (satConnectionMap ctl) \<and> settled (satConnectionMap ctl) \<and>
     no_post_dial (satConnectionMap ctl)"

lemma no_post_dial_step:
  assumes "table_ok t" "no_post_dial t"
  shows "no_post_dial (fst (update_call_sat e slotId call (t, vec)))"
proof -
  have ins: "no_post_dial (omap_insert k c u)" if "no_post_dial u" "postDialCallString c = []" for k c u
    using that by (induction k c u rule: omap_insert.induct) (auto simp: no_post_dial_def)
  have put: "no_post_dial (omap_put k c u)" if "no_post_dial u" "postDialCallString c = []" for k c u
    using that by (induction k c u rule: omap_put.induct) (auto simp: no_post_dial_def)
  have "postDialCallString c = []" if "map_of t k = Some c" for k c
    using assms(2) map_of_SomeD [OF that] by (auto simp: no_post_dial_def list_all_iff)
  then show ?thesis
    using assms ins put
    by (auto simp: update_call_sat_def FindConnectionByIndex_map_of SetConnectionData_def Let_def
        CellularCallConnectionSatellite_init_def split: option.splits)
qed

lemma no_post_dial_run:
  "table_ok t \<Longrightarrow> no_post_dial t \<Longrightarrow> no_post_dial (fst (fold (update_call_sat e slotId) xs (t, vec)))"
proof (induction xs arbitrary: t vec)
  case (Cons x xs)
  obtain t1 v1 where u: "update_call_sat e slotId x (t, vec) = (t1, v1)" by (metis surj_pair)
  have "table_ok t1" "no_post_dial t1"
    using sat.upd_ok [OF Cons.prems(1), of e slotId x vec] no_post_dial_step [OF Cons.prems, of e slotId x vec] u
    by simp_all
  from Cons.IH [OF this, of v1] u show ?case by simp
qed simp

lemma no_post_dial_delete: "no_post_dial t \<Longrightarrow> no_post_dial (snd (DeleteConnection_sat t vec))"
  by (auto simp: DeleteConnection_sat_eq no_post_dial_def list_all_iff)

lemma ReportUpdateInfo_sat_result:
  assumes inv: "sat_inv ctl"
    and r: "ReportUpdateInfo_sat e slotId l ctl = (ret, ctl', acts)"
  shows "ret = (if e_register e then TELEPHONY_SUCCESS else TELEPHONY_ERR_LOCAL_PTR_NULL)" "sat_inv ctl'"
    "keys (satConnectionMap ctl') = t_index ` set (t_calls l)"
    "isIgnoredIncomingCall ctl' = isIgnoredIncomingCall ctl"
    "reports acts = (if isIgnoredIncomingCall ctl \<or> \<not> e_register e then [] else
       [\<lparr>callVec = map (EncapsulationCallReportInfo_sat e slotId) (t_calls l) @
           map (\<lambda>(k, c). gone_sat c) (filter (\<lambda>(k, c). k \<notin> t_index ` set (t_calls l)) (satConnectionMap ctl)),
         cr_slotId = slotId\<rparr>])"
proof -
  have ok: "table_ok (satConnectionMap ctl)" "settled (satConnectionMap ctl)" "no_post_dial (satConnectionMap ctl)"
    using inv by (simp_all add: sat_inv_def)
  obtain t s where f: "fold (update_call_sat e slotId) (t_calls l) (satConnectionMap ctl, []) = (t, s)"
    by (metis surj_pair)
  obtain v t' where d: "DeleteConnection_sat t s = (v, t')" by (metis surj_pair)
  note round = sat.round [OF ok(1,2) _ _ f d, simplified]
  have n: "no_post_dial t'"
    using no_post_dial_delete [of t s] no_post_dial_run [OF ok(1,3), of e slotId "t_calls l" "[]"] f d by simp
  note res = r [unfolded ReportUpdateInfo_sat_def f Let_def prod.case case_prod_beta d fst_conv snd_conv]
  show "ret = (if e_register e then TELEPHONY_SUCCESS else TELEPHONY_ERR_LOCAL_PTR_NULL)"
    "isIgnoredIncomingCall ctl' = isIgnoredIncomingCall ctl"
    using res by (auto split: if_splits)
  have c: "satConnectionMap ctl' = t'" using res by (auto split: if_splits)
  show "sat_inv ctl'" "keys (satConnectionMap ctl') = t_index ` set (t_calls l)"
    using round n by (simp_all add: sat_inv_def c)
  show "reports acts = (if isIgnoredIncomingCall ctl \<or> \<not> e_register e then [] else
       [\<lparr>callVec = map (EncapsulationCallReportInfo_sat e slotId) (t_calls l) @
           map (\<lambda>(k, c). gone_sat c) (filter (\<lambda>(k, c). k \<notin> t_index ` set (t_calls l)) (satConnectionMap ctl)),
         cr_slotId = slotId\<rparr>])"
    using round(4) res by (auto split: if_splits)
qed

lemma no_post_dial_iff: "table_ok t \<Longrightarrow> no_post_dial t \<longleftrightarrow> (\<forall>k c. map_of t k = Some c \<longrightarrow> postDialCallString c = [])"
  by (auto simp: no_post_dial_def list_all_iff map_of_ok [symmetric] table_ok_omap)

lemma no_post_dial_Nil [simp]: "no_post_dial []"
  by (simp add: no_post_dial_def)

lemma no_post_dial_insert: "no_post_dial t \<Longrightarrow> postDialCallString c = [] \<Longrightarrow> no_post_dial (omap_insert k c t)"
  by (induction k c t rule: omap_insert.induct) (auto simp: no_post_dial_def)

lemma no_post_dial_put: "no_post_dial t \<Longrightarrow> postDialCallString c = [] \<Longrightarrow> no_post_dial (omap_put k c t)"
  by (induction k c t rule: omap_put.induct) (auto simp: no_post_dial_def)

lemma incoming_call_sat_table:
  "table_ok t \<and> settled t \<and> no_post_dial t \<Longrightarrow>
   table_ok (fold (incoming_call_sat e s) xs t) \<and> settled (fold (incoming_call_sat e s) xs t) \<and>
   no_post_dial (fold (incoming_call_sat e s) xs t)"
proof (induction xs arbitrary: t)
  case (Cons x xs)
  let ?t = "incoming_call_sat e s x t"
  have "table_ok ?t \<and> settled ?t \<and> no_post_dial ?t"
    using Cons.prems by (simp add: incoming_call_sat_def SetConnectionData_def table_ok_insert settled_insert
        table_ok_omap CellularCallConnectionSatellite_init_def SetStatus_def no_post_dial_insert)
  then show ?case using Cons.IH [of ?t] by simp
qed simp

lemma ReportIncomingInfo_sat_inv: "sat_inv ctl \<Longrightarrow> sat_inv (fst (snd (ReportIncomingInfo_sat e s l ctl)))"
  using incoming_call_sat_table [of "satConnectionMap ctl" e s "t_calls l"]
  by (auto simp: ReportIncomingInfo_sat_def sat_inv_def Let_def)

lemma ReportHangUpInfo_sat_inv: "sat_inv ctl \<Longrightarrow> sat_inv (fst (snd (ReportHangUpInfo_sat e s ctl)))"
  by (auto simp: ReportHangUpInfo_sat_def sat_inv_def no_post_dial_def Let_def)

lemma ReportUpdateInfo_sat_inv: "sat_inv ctl \<Longrightarrow> sat_inv (fst (snd (ReportUpdateInfo_sat e s l ctl)))"
  using ReportUpdateInfo_sat_result(2) [of ctl e s l] by (metis prod.collapse)

lemma ReportSatelliteCallsData_inv:
  "sat_inv ctl \<Longrightarrow> sat_inv (fst (snd (ReportSatelliteCallsData e s l ctl)))"
  by (simp add: ReportSatelliteCallsData_def ReportIncomingInfo_sat_inv ReportHangUpInfo_sat_inv
      ReportUpdateInfo_sat_inv)

lemma Dial_sat_map: "Dial_sat e i ecc ctl = Some (r, ctl', acts) \<Longrightarrow> satConnectionMap ctl' = satConnectionMap ctl"
  by (auto simp: Dial_sat_def EncapsulateDialCommon_sat_def Let_def case_prod_beta
      split: option.splits if_splits)

text \<open>Post dial on such a table only ever completes.\<close>

lemma execute_post_dial_idle:
  assumes "table_ok t" "no_post_dial t"
  shows "snd (snd (ExecutePostDial_sat e s i t)) = [] \<and> table_ok (fst (snd (ExecutePostDial_sat e s i t))) \<and>
    settled (fst (snd (ExecutePostDial_sat e s i t))) = settled t \<and>
    no_post_dial (fst (snd (ExecutePostDial_sat e s i t)))"
proof (cases "map_of t i")
  case None
  with assms show ?thesis
    by (simp add: ExecutePostDial_sat_def execute_post_dial_def FindConnectionByIndex_map_of)
next
  case (Some c)
  have s: "postDialCallString c = []" "index c = i" "t \<noteq> []"
    using Some assms by (auto simp: no_post_dial_iff table_ok_iff)
  let ?h = "ProcessPostDialCallChar_sat e s"
  obtain st c' where p: "ProcessNextChar ?h c CHR 0x00 = (st, c', CHR 0x00, [])"
    "st = POST_DIAL_CALL_CANCELED \<or> st = POST_DIAL_CALL_COMPLETE"
    "index c' = index c" "flag c' = flag c" "postDialCallString c' = []"
    using s(1) by (cases "postDialCallState c = POST_DIAL_CALL_CANCELED") (auto simp: ProcessNextChar_def)
  have "ExecutePostDial_sat e s i t = (TELEPHONY_SUCCESS, omap_put i c' t, [])"
    using Some s(3) p(1,2) unfolding ExecutePostDial_sat_def
    by (auto simp: execute_post_dial_def FindConnectionByIndex_map_of [OF assms(1)])
  moreover have "table_ok (omap_put i c' t)" using assms(1) p(3) s(2) by (simp add: table_ok_put)
  moreover have "settled (omap_put i c' t) = settled t"
    using assms(1) Some p(4) table_ok_omap [OF assms(1)]
    by (auto simp: settled_iff omap_ok_put map_of_omap_put split: if_splits)
  moreover have "no_post_dial (omap_put i c' t)"
    using assms(2) p(5) by (rule no_post_dial_put)
  ultimately show ?thesis by simp
qed

lemma sat_inv_put:
  assumes "sat_inv ctl" "FindConnectionByIndex (satConnectionMap ctl) i = Some (k, c)"
    "index c' = index c" "flag c' = flag c" "postDialCallString c' = postDialCallString c"
  shows "sat_inv (ctl\<lparr>satConnectionMap := omap_put k c' (satConnectionMap ctl)\<rparr>)"
proof -
  let ?t = "satConnectionMap ctl"
  have ok: "table_ok ?t" "settled ?t" "no_post_dial ?t"
    using assms(1) by (simp_all add: sat_inv_def)
  then have c: "index c = k" "\<not> flag c" "postDialCallString c = []"
    using assms(2) by (auto simp: FindConnectionByIndex_map_of table_ok_iff settled_iff no_post_dial_iff)
  then have t: "table_ok (omap_put k c' ?t)" using ok assms(3) by (simp add: table_ok_put)
  moreover have "settled (omap_put k c' ?t)" using ok c assms(4) by (simp add: settled_put table_ok_omap)
  moreover have "no_post_dial (omap_put k c' ?t)"
    using ok(3) c(3) assms(5) by (simp add: no_post_dial_put)
  ultimately show ?thesis by (simp add: sat_inv_def)
qed

lemma PostDialProceed_sat_inv:
  assumes "sat_inv ctl"
  shows "sat_inv (fst (snd (PostDialProceed_sat e i p ctl)))"
proof (cases "FindConnectionByIndex (satConnectionMap ctl) (ci_index i)")
  case None
  with assms show ?thesis by (simp add: PostDialProceed_sat_def)
next
  case (Some kc)
  obtain k c where kc: "kc = (k, c)" by (cases kc)
  have "sat_inv (ctl\<lparr>satConnectionMap := fst (snd (ExecutePostDial_sat e s k' (satConnectionMap ctl)))\<rparr>)" for s k'
    using assms execute_post_dial_idle [of "satConnectionMap ctl" e s k'] by (simp add: sat_inv_def)
  with sat_inv_put [OF assms Some [unfolded kc], of "c\<lparr>postDialCallState := POST_DIAL_CALL_CANCELED\<rparr>"]
  show ?thesis by (simp add: PostDialProceed_sat_def Some kc case_prod_beta Let_def)
qed

definition SatelliteControl_init :: SatelliteControl where
  "SatelliteControl_init =
     \<lparr>isIgnoredIncomingCall = False, satConnectionMap = [], satPendingPhoneNumber = []\<rparr>"

text \<open>The operations that change the state; the others only answer.\<close>

inductive sat_step :: "SatelliteControl \<Rightarrow> SatelliteControl \<Rightarrow> bool" where
  dial: "Dial_sat (e :: dial_env) i ecc ctl = Some (r, ctl', acts) \<Longrightarrow> sat_step ctl ctl'"
| proceed: "PostDialProceed_sat (e :: dial_env) i p ctl = (r, ctl', acts) \<Longrightarrow> sat_step ctl ctl'"
| post_dial: "ExecutePostDial_sat (e :: dial_env) s k (satConnectionMap ctl) = (r, t, acts) \<Longrightarrow>
    sat_step ctl (ctl\<lparr>satConnectionMap := t\<rparr>)"
| report: "ReportSatelliteCallsData (e :: dial_env) s l ctl = (r, ctl', acts) \<Longrightarrow> sat_step ctl ctl'"
| release: "sat_step ctl (ctl\<lparr>satConnectionMap := []\<rparr>)"

inductive sat_reachable :: "SatelliteControl \<Rightarrow> bool" where
  init: "sat_reachable SatelliteControl_init"
| step: "sat_reachable ctl \<Longrightarrow> sat_step ctl ctl' \<Longrightarrow> sat_reachable ctl'"

lemma sat_step_inv: "sat_step ctl ctl' \<Longrightarrow> sat_inv ctl \<Longrightarrow> sat_inv ctl'"
proof (induction rule: sat_step.induct)
  case (dial e i ecc ctl r ctl' acts)
  then show ?case by (simp add: sat_inv_def Dial_sat_map)
next
  case (proceed e i p ctl r ctl' acts)
  then show ?case using PostDialProceed_sat_inv [of ctl e i p] by simp
next
  case (post_dial e s k ctl r t acts)
  then show ?case using execute_post_dial_idle [of "satConnectionMap ctl" e s k] by (simp add: sat_inv_def)
next
  case (report e s l ctl r ctl' acts)
  then show ?case using ReportSatelliteCallsData_inv [of ctl e s l] by simp
next
  case (release ctl)
  then show ?case by (simp add: sat_inv_def no_post_dial_def)
qed

lemma sat_reachable_inv: "sat_reachable ctl \<Longrightarrow> sat_inv ctl"
  by (induction rule: sat_reachable.induct)
    (auto simp: sat_inv_def SatelliteControl_init_def no_post_dial_def dest: sat_step_inv)

section \<open>Properties\<close>

definition sample_sat_ctl :: SatelliteControl where
  "sample_sat_ctl = SatelliteControl_init\<lparr>satConnectionMap :=
     [(1, sample_base 1 CALL_STATUS_ACTIVE []), (2, sample_base 2 CALL_STATUS_WAITING [])]\<rparr>"

lemma sample_sat_ctl_inv: "sat_inv sample_sat_ctl"
  by (simp add: sat_inv_def sample_sat_ctl_def sample_base_def settled_def no_post_dial_def)

text \<open>The table mirrors the satellite modem. After \<^verbatim>\<open>ReportUpdateInfo\<close> the connection table is well
  formed and holds exactly the calls of the list, and unless the incoming call is ignored exactly one report
  goes up: the listed calls in order, then one disconnected report per call that is gone.\<close>

theorem sat_table_mirrors_modem:
  assumes "sat_inv ctl" "e_register e" "ReportUpdateInfo_sat e s l ctl = (ret, ctl', acts)"
  shows "ret = TELEPHONY_SUCCESS \<and> sat_inv ctl' \<and> keys (satConnectionMap ctl') = t_index ` set (t_calls l) \<and>
    reports acts = (if isIgnoredIncomingCall ctl then [] else
       [\<lparr>callVec = map (EncapsulationCallReportInfo_sat e s) (t_calls l) @
           map (\<lambda>(k, c). (callReportInfo c)\<lparr>r_state := CALL_STATUS_DISCONNECTED\<rparr>)
             (filter (\<lambda>(k, c). k \<notin> t_index ` set (t_calls l)) (satConnectionMap ctl)),
         cr_slotId = s\<rparr>])"
  using ReportUpdateInfo_sat_result [OF assms(1,3)] assms(2) by (simp add: gone_sat_def)

theorem sat_table_mirrors_modem_witness:
  "\<exists>ret ctl' acts.
     ReportUpdateInfo_sat sample_env 0 \<lparr>t_callSize = 1, t_flag = 0, t_calls = [sample_sat_call 2 CALL_STATUS_ACTIVE]\<rparr>
       sample_sat_ctl = (ret, ctl', acts) \<and> ret = TELEPHONY_SUCCESS \<and> keys (satConnectionMap ctl') = {2}"
proof -
  let ?l = "\<lparr>t_callSize = 1, t_flag = 0, t_calls = [sample_sat_call 2 CALL_STATUS_ACTIVE]\<rparr>"
  obtain ret ctl' acts where r: "ReportUpdateInfo_sat sample_env 0 ?l sample_sat_ctl = (ret, ctl', acts)"
    by (metis prod_cases3)
  with sat_table_mirrors_modem [OF sample_sat_ctl_inv _ r] show ?thesis by (simp add: sample_sat_call_def)
qed

text \<open>A satellite call has no post dial. In every state that operations can reach, the table is sorted
  by index with no report flag left, no connection has a post-dial string, and post dial on any index has no effect
  at all on the outside: the post-dial digits of a dialled number are never sent.\<close>

theorem sat_control_invariant:
  assumes "sat_reachable ctl"
  shows "sorted_wrt (<) (map fst (satConnectionMap ctl)) \<and>
    (\<forall>(k, c) \<in> set (satConnectionMap ctl). index c = k \<and> \<not> flag c \<and> postDialCallString c = []) \<and>
    snd (snd (ExecutePostDial_sat e s i (satConnectionMap ctl))) = []"
  using sat_reachable_inv [OF assms] execute_post_dial_idle [of "satConnectionMap ctl" e s i]
  by (auto simp: sat_inv_def table_ok_def omap_ok_def settled_def no_post_dial_def list_all_iff)

theorem sat_control_invariant_witness:
  "snd (snd (ExecutePostDial_sat sample_env 0 1 (satConnectionMap SatelliteControl_init))) = []"
  using sat_control_invariant [OF sat_reachable.init] by blast

end
