(* ===== verification/PhoneNumber.thy ===== *)
theory PhoneNumber
  imports MmiCode
begin

text \<open>
  What \<^verbatim>\<open>services/manager/src/cellular_call_handler.cpp\<close> does with the phone numbers of a call list before
  it is reported: Chinese trunk prefixes become the country code (\<^verbatim>\<open>replacePrefix\<close>), and a doubled country
  code is removed (\<^verbatim>\<open>ProcessRedundantCode\<close>, with its regular expression). The IMSI is an argument.

  The lemmas read the regular expression, and show that exactly the mobile numbers with a doubled country code are
  changed.
\<close>

section \<open>Prefixes\<close>

definition replacePrefix :: "string \<Rightarrow> string \<Rightarrow> string" where
  "replacePrefix imsi num =
     (if imsi = [] then num
      else if take 3 imsi \<noteq> ''460'' then num
      else if length num > 4 \<and> starts_with ''0086'' num then ''+86'' @ drop 4 num
      else if length num > 3 \<and> starts_with ''086'' num then ''+86'' @ drop 3 num
      else num)"

definition ProcessCsPhoneNumber :: "string \<Rightarrow> CallInfoList \<Rightarrow> CallInfoList" where
  "ProcessCsPhoneNumber imsi l =
     (if callSize l = 0 \<or> calls l = [] then l
      else l\<lparr>calls := map (\<lambda>call. call\<lparr>c_number := replacePrefix imsi (c_number call)\<rparr>) (calls l)\<rparr>)"

definition ProcessImsPhoneNumber :: "string \<Rightarrow> ImsCurrentCallList \<Rightarrow> ImsCurrentCallList" where
  "ProcessImsPhoneNumber imsi l =
     (if m_callSize l = 0 \<or> m_calls l = [] then l
      else l\<lparr>m_calls := map (\<lambda>call. call\<lparr>m_number := replacePrefix imsi (m_number call)\<rparr>) (m_calls l)\<rparr>)"

section \<open>A doubled country code\<close>

fun lit :: "string \<Rightarrow> rx" where
  "lit [] = Eps"
| "lit (c # s) = Seq (ch c) (lit s)"

fun digits_rx :: "nat \<Rightarrow> rx" where
  "digits_rx 0 = Eps"
| "digits_rx (Suc n) = Seq (Cls is_digit) (digits_rx n)"

definition mobile_prefix_rx :: rx where
  "mobile_prefix_rx =
     Alt (Seq (lit ''13'') (Cls is_digit)) (Alt (Seq (lit ''14'') (Cls is_digit)) (Alt (Seq (lit ''15'') (Cls is_digit))
     (Alt (lit ''162'') (Alt (lit ''165'') (Alt (lit ''166'') (Alt (lit ''167'')
     (Alt (Seq (lit ''17'') (Cls is_digit)) (Alt (Seq (lit ''18'') (Cls is_digit))
       (Seq (lit ''19'') (Cls is_digit))))))))))"

definition DUPLICATIVE_CN_INTERNATIONAL_NUMBER_PREFIX_FORMAT :: rx where
  "DUPLICATIVE_CN_INTERNATIONAL_NUMBER_PREFIX_FORMAT =
     Seq (Grp 1 (Seq (Opt (ch CHR ''+'')) (lit ''86'')))
       (Seq (Opt (lit ''86'')) (Seq (Grp 2 mobile_prefix_rx) (Grp 3 (digits_rx 8))))"

definition INTERNATION_CODE :: int where
  "INTERNATION_CODE = 145"

text \<open>The body of the loop, for one number and its type.\<close>

definition redundant_code :: "int \<Rightarrow> string \<Rightarrow> string" where
  "redundant_code ty num =
     (if length num \<noteq> 16 - 1 \<and> length num \<noteq> 16 then num
      else
        let prefix = (if ty = INTERNATION_CODE then ''+8686'' else ''8686'') in
        if take (length prefix) num \<noteq> prefix then num
        else if regex_match DUPLICATIVE_CN_INTERNATIONAL_NUMBER_PREFIX_FORMAT num \<noteq> None
          then ''+86'' @ drop (length prefix) num
        else num)"

definition ProcessRedundantCode :: "CallInfoList \<Rightarrow> CallInfoList" where
  "ProcessRedundantCode l =
     (if callSize l = 0 \<or> calls l = [] then l
      else l\<lparr>calls := map (\<lambda>call. call\<lparr>c_number := redundant_code (c_type call) (c_number call)\<rparr>) (calls l)\<rparr>)"

section \<open>Reading the expression\<close>

text \<open>A mainland mobile number: eleven digits with one of the operators' prefixes.\<close>

definition cn_mobile :: "string \<Rightarrow> bool" where
  "cn_mobile n \<longleftrightarrow> length n = 11 \<and> list_all is_digit n \<and>
     (take 2 n \<in> {''13'', ''14'', ''15'', ''17'', ''18'', ''19''} \<or>
      take 3 n \<in> {''162'', ''165'', ''166'', ''167''})"

lemma Seq_Cls_lang: "rx_lang (Seq (Cls P) b) cs w cs' \<longleftrightarrow> (\<exists>c v. w = c # v \<and> P c \<and> rx_lang b cs v cs')"
  by (auto simp: rx_lang_Seq rx_lang_Cls) (metis append_Cons append_Nil)

lemma lit_lang: "rx_lang (lit s) cs w cs' \<longleftrightarrow> w = s \<and> cs' = cs"
  by (induction s arbitrary: w) (auto simp: rx_lang_Eps Seq_Cls_lang)

lemma digits_lang: "rx_lang (digits_rx n) cs w cs' \<longleftrightarrow> length w = n \<and> list_all is_digit w \<and> cs' = cs"
proof (induction n arbitrary: w)
  case 0
  then show ?case by (auto simp: rx_lang_Eps)
next
  case (Suc n)
  then show ?case by (cases w) (simp_all add: Seq_Cls_lang, blast)
qed

lemma two_digits_lang:
  assumes "is_digit a" "is_digit b"
  shows "rx_lang (Seq (lit [a, b]) (Cls is_digit)) cs w cs' \<longleftrightarrow>
    cs' = cs \<and> length w = 3 \<and> list_all is_digit w \<and> take 2 w = [a, b]"
proof -
  have "rx_lang (Seq (lit [a, b]) (Cls is_digit)) cs w cs' \<longleftrightarrow> cs' = cs \<and> (\<exists>d. w = [a, b, d] \<and> is_digit d)"
    by (auto simp: rx_lang_Seq lit_lang rx_lang_Cls simp del: lit.simps)
  also have "(\<exists>d. w = [a, b, d] \<and> is_digit d) \<longleftrightarrow> length w = 3 \<and> list_all is_digit w \<and> take 2 w = [a, b]"
    using assms by (cases w; cases "tl w"; cases "tl (tl w)") (auto simp: numeral_3_eq_3 numeral_2_eq_2)
  finally show ?thesis .
qed

lemma mobile_prefix_lang:
  "rx_lang mobile_prefix_rx cs w cs' \<longleftrightarrow> cs' = cs \<and> length w = 3 \<and> list_all is_digit w \<and>
     (take 2 w \<in> {''13'', ''14'', ''15'', ''17'', ''18'', ''19''} \<or> w \<in> {''162'', ''165'', ''166'', ''167''})"
proof -
  have dig: "is_digit CHR ''1''" "is_digit CHR ''2''" "is_digit CHR ''3''" "is_digit CHR ''4''" "is_digit CHR ''5''"
    "is_digit CHR ''6''" "is_digit CHR ''7''" "is_digit CHR ''8''" "is_digit CHR ''9''"
    by (simp_all add: is_digit_def)
  have three: "w = s \<and> cs' = cs \<longleftrightarrow> cs' = cs \<and> length w = 3 \<and> list_all is_digit w \<and> w = s"
    if "length s = 3" "list_all is_digit s" for s using that by auto
  have lits: "length ''162'' = 3" "list_all is_digit ''162''" "length ''165'' = 3" "list_all is_digit ''165''"
    "length ''166'' = 3" "list_all is_digit ''166''" "length ''167'' = 3" "list_all is_digit ''167''"
    by (simp_all add: dig)
  show ?thesis
    unfolding mobile_prefix_rx_def rx_lang_Alt lit_lang
    by (simp only: two_digits_lang dig three lits insert_iff empty_iff conj_disj_distribL simp_thms disj_ac)
qed

lemma cn_mobile_split:
  "cn_mobile m \<longleftrightarrow> (\<exists>u v. m = u @ v \<and> length u = 3 \<and> list_all is_digit u \<and> length v = 8 \<and> list_all is_digit v \<and>
     (take 2 u \<in> {''13'', ''14'', ''15'', ''17'', ''18'', ''19''} \<or> u \<in> {''162'', ''165'', ''166'', ''167''}))"
  (is "_ \<longleftrightarrow> (\<exists>u v. ?P u v)")
proof
  assume m: "cn_mobile m"
  have "list_all is_digit (take 3 m @ drop 3 m)" using m by (simp add: cn_mobile_def)
  then have "list_all is_digit (take 3 m)" "list_all is_digit (drop 3 m)" by (simp_all only: list_all_append)
  moreover have "take 2 (take 3 m) = take 2 m" by (simp add: min_def)
  ultimately have "?P (take 3 m) (drop 3 m)" using m by (simp only: cn_mobile_def append_take_drop_id length_take length_drop) simp
  then show "\<exists>u v. ?P u v" by blast
next
  assume "\<exists>u v. ?P u v"
  then obtain u v where p: "?P u v" by blast
  have "length m = 11" "list_all is_digit m" using p by simp_all
  moreover have "take 2 m = take 2 u" "take 3 m = u" using p by simp_all
  ultimately show "cn_mobile m" using p unfolding cn_mobile_def by (simp only: simp_thms)
qed

lemma duplicative_lang:
  "(\<exists>cs'. rx_lang DUPLICATIVE_CN_INTERNATIONAL_NUMBER_PREFIX_FORMAT cs w cs') \<longleftrightarrow>
   (\<exists>p q m. w = p @ ''86'' @ q @ m \<and> p \<in> {[], ''+''} \<and> q \<in> {[], ''86''} \<and> cn_mobile m)"
  (is "?L \<longleftrightarrow> ?R")
proof
  assume ?L
  then obtain cs' where "rx_lang DUPLICATIVE_CN_INTERNATIONAL_NUMBER_PREFIX_FORMAT cs w cs'" by blast
  then obtain p u2 u3 u4 c0 c1 c2 c3 where
    w: "w = (p @ ''86'') @ u2 @ u3 @ u4" and
    1: "rx_lang (Opt (ch CHR ''+'')) cs p c1" and
    2: "rx_lang (Opt (lit ''86'')) c0 u2 c2" and
    3: "rx_lang mobile_prefix_rx c2 u3 c3" and 4: "list_all is_digit u4" "length u4 = 8"
    unfolding DUPLICATIVE_CN_INTERNATIONAL_NUMBER_PREFIX_FORMAT_def
    by (auto simp: rx_lang_Seq rx_lang_Grp digits_lang lit_lang simp del: lit.simps)
  have "p \<in> {[], ''+''}"
    using 1 by (auto simp: rx_lang_Opt rx_lang_Cls)
  moreover have "u2 \<in> {[], ''86''}" using 2 by (auto simp: rx_lang_Opt lit_lang simp del: lit.simps)
  moreover have "cn_mobile (u3 @ u4)"
    using 3 4 unfolding cn_mobile_split mobile_prefix_lang by blast
  ultimately show ?R using w by (metis append.assoc)
next
  assume ?R
  then obtain p q m where w: "w = p @ ''86'' @ q @ m" and p: "p \<in> {[], ''+''}" and q: "q \<in> {[], ''86''}" and m: "cn_mobile m"
    by blast
  from m [unfolded cn_mobile_split] obtain u v where uv: "m = u @ v" "length v = 8" "list_all is_digit v"
    and u: "\<And>c. rx_lang mobile_prefix_rx c u c"
    unfolding mobile_prefix_lang by blast
  have 1: "rx_lang (Seq (Opt (ch CHR ''+'')) (lit ''86'')) cs (p @ ''86'') cs"
    using p by (intro rx_lang.seq [of _ _ _ cs]) (auto simp: rx_lang_Opt rx_lang_Cls lit_lang simp del: lit.simps)
  have 2: "rx_lang (Opt (lit ''86'')) c q c" for c using q by (auto simp: rx_lang_Opt lit_lang simp del: lit.simps)
  have 3: "rx_lang (digits_rx 8) c v c" for c using uv by (simp add: digits_lang)
  from rx_lang.seq [OF rx_lang.grp [OF 1, of 1] rx_lang.seq [OF 2 rx_lang.seq [OF rx_lang.grp [OF u, of 2] rx_lang.grp [OF 3, of 3]]]]
  show ?L unfolding DUPLICATIVE_CN_INTERNATIONAL_NUMBER_PREFIX_FORMAT_def w uv(1) by auto
qed

section \<open>Properties\<close>

lemma cn_mobile_hd:
  assumes "cn_mobile m"
  shows "\<exists>v. m = CHR ''1'' # v"
proof -
  obtain c v where m: "m = c # v" using assms by (cases m) (auto simp: cn_mobile_def)
  have "c = CHR ''1''" using assms unfolding cn_mobile_def m by (simp add: numeral_2_eq_2 numeral_3_eq_3) blast
  with m show ?thesis by blast
qed

definition doubled_prefix :: "int \<Rightarrow> string" where
  "doubled_prefix ty = (if ty = INTERNATION_CODE then ''+8686'' else ''8686'')"

lemma duplicative_match:
  "regex_match DUPLICATIVE_CN_INTERNATIONAL_NUMBER_PREFIX_FORMAT (doubled_prefix ty @ m) \<noteq> None \<longleftrightarrow> cn_mobile m"
proof -
  have eq: "regex_match DUPLICATIVE_CN_INTERNATIONAL_NUMBER_PREFIX_FORMAT w \<noteq> None \<longleftrightarrow>
      (\<exists>p q m. w = p @ ''86'' @ q @ m \<and> p \<in> {[], ''+''} \<and> q \<in> {[], ''86''} \<and> cn_mobile m)" for w
    using regex_match_iff [of _ w] duplicative_lang [of Map.empty w] by (simp only: not_None_eq)
  show ?thesis
  proof
    assume "cn_mobile m"
    then show "regex_match DUPLICATIVE_CN_INTERNATIONAL_NUMBER_PREFIX_FORMAT (doubled_prefix ty @ m) \<noteq> None"
      unfolding eq
      by (intro exI [of _ "if ty = INTERNATION_CODE then ''+'' else []"] exI [of _ "''86''"] exI [of _ m])
        (simp add: doubled_prefix_def)
  next
    assume "regex_match DUPLICATIVE_CN_INTERNATIONAL_NUMBER_PREFIX_FORMAT (doubled_prefix ty @ m) \<noteq> None"
    then obtain p q n where w: "doubled_prefix ty @ m = p @ ''86'' @ q @ n" and p: "p \<in> {[], ''+''}"
      and q: "q \<in> {[], ''86''}" and n: "cn_mobile n" unfolding eq by blast
    from w p have "''86'' @ m = q @ n" by (auto simp: doubled_prefix_def split: if_splits)
    with q cn_mobile_hd [OF n] have "m = n" by auto
    with n show "cn_mobile m" by simp
  qed
qed

text \<open>A doubled country code is removed, and nothing else. A number that consists of the doubled code, in the form that its type demands,
  and a mainland mobile number gets exactly one country code; every other number is left
  as it is. Doing it twice changes nothing more.\<close>

theorem redundant_code_exact:
  "(cn_mobile m \<longrightarrow> redundant_code ty (doubled_prefix ty @ m) = ''+86'' @ m) \<and>
   ((\<forall>m. cn_mobile m \<longrightarrow> num \<noteq> doubled_prefix ty @ m) \<longrightarrow> redundant_code ty num = num) \<and>
   redundant_code ty (redundant_code ty num) = redundant_code ty num"
proof -
  have code: "redundant_code ty w = (if length w \<noteq> 15 \<and> length w \<noteq> 16 then w
      else if take (length (doubled_prefix ty)) w \<noteq> doubled_prefix ty then w
      else if regex_match DUPLICATIVE_CN_INTERNATIONAL_NUMBER_PREFIX_FORMAT w \<noteq> None
        then ''+86'' @ drop (length (doubled_prefix ty)) w else w)" for w
    by (simp add: redundant_code_def doubled_prefix_def Let_def)
  have yes: "redundant_code ty (doubled_prefix ty @ m) = ''+86'' @ m" if "cn_mobile m" for m
  proof -
    have "length (doubled_prefix ty @ m) = 15 \<or> length (doubled_prefix ty @ m) = 16"
      using that by (simp add: cn_mobile_def doubled_prefix_def)
    with duplicative_match [of ty m] that show ?thesis unfolding code by (auto simp del: append_assoc)
  qed
  have no: "redundant_code ty w = w" if "\<forall>m. cn_mobile m \<longrightarrow> w \<noteq> doubled_prefix ty @ m" for w
  proof (cases "take (length (doubled_prefix ty)) w = doubled_prefix ty")
    case True
    then have w: "w = doubled_prefix ty @ drop (length (doubled_prefix ty)) w" by (metis append_take_drop_id)
    with that have "\<not> cn_mobile (drop (length (doubled_prefix ty)) w)" by blast
    with w duplicative_match [of ty "drop (length (doubled_prefix ty)) w"] show ?thesis unfolding code by metis
  qed (simp add: code)
  have "redundant_code ty (redundant_code ty num) = redundant_code ty num"
  proof (cases "\<exists>m. cn_mobile m \<and> num = doubled_prefix ty @ m")
    case True
    then obtain m where m: "cn_mobile m" "num = doubled_prefix ty @ m" by blast
    have "length (''+86'' @ m) = 14" using m(1) by (simp add: cn_mobile_def)
    then show ?thesis unfolding m(2) yes [OF m(1)] by (simp add: redundant_code_def)
  qed (use no in auto)
  with yes no show ?thesis by blast
qed

theorem redundant_code_exact_witness:
  "redundant_code 145 ''+868613800000000'' = ''+8613800000000''"
  using redundant_code_exact [of "''13800000000''" 145 "[]"]
  by (simp add: cn_mobile_def doubled_prefix_def INTERNATION_CODE_def is_digit_def)

end
