(* ===== verification/SsRequest.thy ===== *)
theory SsRequest
  imports Types
begin

text \<open>
  The supplementary-service commands a slot has under way, in
  \<^verbatim>\<open>services/manager/src/cellular_call_handler.cpp\<close>: a request takes the next index
  (\<open>RequestSsRequestCommandIndex\<close>), is saved once the service has accepted it
  (\<open>SaveSsRequestCommand\<close>), and the answer that carries the index takes it out again
  (\<open>ConfirmAndRemoveSsRequestCommand\<close>), possibly after reading it (\<open>GetSsRequestCommand\<close>).

  \<open>CommandTable\<close> is the part of \<^verbatim>\<open>CellularCallHandler\<close> these functions use; the handler's
  record extends it, so that the operations below are the handler's own. The mutex of the map makes each operation one
  step; taking the index and saving are two steps, between which the operations of other threads may come.
\<close>

section \<open>Commands\<close>

definition SS_FROM_MMI_CODE :: int where
  "SS_FROM_MMI_CODE = 0"

definition SS_FROM_SETTING_MENU :: int where
  "SS_FROM_SETTING_MENU = 1"

definition INVALID_INDEX :: int where
  "INVALID_INDEX = -1"

definition MAX_REQUEST_COUNT :: int where
  "MAX_REQUEST_COUNT = 50"

record SsRequestCommand =
  ss_cfAction :: int
  ss_cfReason :: int
  ss_number :: string
  ss_enable :: bool
  ss_clirAction :: int
  ss_facility :: string
  ss_password :: string
  ss_classType :: int
  ss_action :: int
  ss_flag :: int
  ss_isIncludeCallForwardingNumber :: bool

definition SsRequestCommand_init :: SsRequestCommand where
  "SsRequestCommand_init =
     \<lparr>ss_cfAction = 0, ss_cfReason = 0, ss_number = '''', ss_enable = False, ss_clirAction = 0,
      ss_facility = '''', ss_password = '''', ss_classType = 0, ss_action = 0,
      ss_flag = SS_FROM_MMI_CODE, ss_isIncludeCallForwardingNumber = False\<rparr>"

record CommandTable =
  indexCommand :: int
  utCommandMap :: "SsRequestCommand omap"

section \<open>Operations\<close>

definition RequestSsRequestCommandIndex :: "'h CommandTable_scheme \<Rightarrow> int \<times> 'h CommandTable_scheme" where
  "RequestSsRequestCommandIndex h =
     (let n = (if indexCommand h \<ge> MAX_REQUEST_COUNT then 0 else indexCommand h + 1)
      in (n, h\<lparr>indexCommand := n\<rparr>))"

text \<open>The argument \<^verbatim>\<open>index\<close> is not used: the command is stored under the last index taken. A
  null command is not passed by any caller.\<close>

definition SaveSsRequestCommand ::
    "SsRequestCommand \<Rightarrow> int \<Rightarrow> 'h CommandTable_scheme \<Rightarrow> 'h CommandTable_scheme" where
  "SaveSsRequestCommand utCommand idx h =
     h\<lparr>utCommandMap := omap_insert (indexCommand h) utCommand (utCommandMap h)\<rparr>"

definition omap_erase :: "int \<Rightarrow> 'v omap \<Rightarrow> 'v omap" where
  "omap_erase k m = filter (\<lambda>(k', v). k' \<noteq> k) m"

text \<open>The two overloads of \<^verbatim>\<open>ConfirmAndRemoveSsRequestCommand\<close> give the flag, and the flag and the
  action; \<open>None\<close> is \<^verbatim>\<open>TELEPHONY_ERROR\<close>, which leaves the out-parameters alone.\<close>

definition ConfirmAndRemoveSsRequestCommand_action ::
    "int \<Rightarrow> 'h CommandTable_scheme \<Rightarrow> (int \<times> int) option \<times> 'h CommandTable_scheme" where
  "ConfirmAndRemoveSsRequestCommand_action idx h =
     (if idx = INVALID_INDEX then (None, h)
      else case map_of (utCommandMap h) idx of
        None \<Rightarrow> (None, h)
      | Some cmd \<Rightarrow> (Some (ss_flag cmd, ss_action cmd), h\<lparr>utCommandMap := omap_erase idx (utCommandMap h)\<rparr>))"

definition ConfirmAndRemoveSsRequestCommand ::
    "int \<Rightarrow> 'h CommandTable_scheme \<Rightarrow> int option \<times> 'h CommandTable_scheme" where
  "ConfirmAndRemoveSsRequestCommand idx h =
     (if idx = INVALID_INDEX then (None, h)
      else case map_of (utCommandMap h) idx of
        None \<Rightarrow> (None, h)
      | Some cmd \<Rightarrow> (Some (ss_flag cmd), h\<lparr>utCommandMap := omap_erase idx (utCommandMap h)\<rparr>))"

text \<open>\<^verbatim>\<open>strcpy_s\<close> of the secure C library copies up to the NUL and fails, leaving the empty string,
  when the text and its NUL do not fit.\<close>

definition strcpy_s :: "nat \<Rightarrow> string \<Rightarrow> string option" where
  "strcpy_s n src = (if length (c_str src) < n then Some (c_str src) else None)"

text \<open>The command is copied field by field into the caller's default-constructed \<^verbatim>\<open>ss\<close>;
  \<^verbatim>\<open>isIncludeCallForwardingNumber\<close> is not copied. The passwords have the same array size, so that a
  stored password always fits.\<close>

definition GetSsRequestCommand :: "int \<Rightarrow> 'h CommandTable_scheme \<Rightarrow> SsRequestCommand option" where
  "GetSsRequestCommand idx h =
     (case map_of (utCommandMap h) idx of
        None \<Rightarrow> None
      | Some cmd \<Rightarrow>
          Some (SsRequestCommand_init
            \<lparr>ss_cfAction := ss_cfAction cmd, ss_cfReason := ss_cfReason cmd, ss_number := ss_number cmd,
             ss_enable := ss_enable cmd, ss_clirAction := ss_clirAction cmd, ss_facility := ss_facility cmd,
             ss_password := ss_password cmd, ss_classType := ss_classType cmd, ss_action := ss_action cmd,
             ss_flag := ss_flag cmd\<rparr>))"

section \<open>A store of pending commands\<close>

text \<open>
  What the senders of commands and the handlers of answers rely on, for a store that gives out indices:
  \<open>take\<close> changes no entry; saving under a free index that was just taken makes exactly this
  entry; dropping removes exactly one.
\<close>

locale pending_store =
  fixes ok :: "'s \<Rightarrow> bool"
    and take_index :: "'s \<Rightarrow> int \<times> 's"
    and store :: "'c \<Rightarrow> int \<Rightarrow> 's \<Rightarrow> 's"
    and find :: "'s \<Rightarrow> int \<Rightarrow> 'c option"
    and discard :: "int \<Rightarrow> 's \<Rightarrow> 's"
  assumes find_take: "take_index s = (i, s1) \<Longrightarrow> find s1 = find s"
    and ok_take: "ok s \<Longrightarrow> take_index s = (i, s1) \<Longrightarrow> ok s1"
    and find_store: "ok s \<Longrightarrow> take_index s = (i, s1) \<Longrightarrow> find s i = None \<Longrightarrow>
      find (store c i s1) = (find s1)(i \<mapsto> c)"
    and ok_store: "ok s \<Longrightarrow> ok (store c i s)"
    and find_discard: "ok s \<Longrightarrow> find (discard i s) = (find s)(i := None)"
    and ok_discard: "ok s \<Longrightarrow> ok (discard i s)"
begin

text \<open>A command is served: its answer finds it, and afterwards the store has the entries it had before.\<close>

lemma serve:
  assumes "ok s" "take_index s = (i, s1)" "find s i = None"
  shows "find (store c i s1) i = Some c" and "find (discard i (store c i s1)) = find s"
proof -
  have eq: "find (store c i s1) = (find s)(i \<mapsto> c)"
    using find_store [OF assms] find_take [OF assms(2)] by simp
  then show "find (store c i s1) i = Some c" by simp
  have "ok (store c i s1)" by (rule ok_store [OF ok_take [OF assms(1,2)]])
  from find_discard [OF this] eq assms(3) show "find (discard i (store c i s1)) = find s"
    by (auto simp: fun_eq_iff)
qed

text \<open>Commands that are under way at the same time do not disturb each other as long as each is saved before
  the next index is taken.\<close>

lemma serve_other:
  assumes "ok s" "take_index s = (i, s1)" "find s i = None" "j \<noteq> i"
  shows "find (store c i s1) j = find s j"
  using find_store [OF assms(1-3)] find_take [OF assms(2)] assms(4) by simp

end

section \<open>Invariant\<close>

definition command_inv :: "'h CommandTable_scheme \<Rightarrow> bool" where
  "command_inv h \<longleftrightarrow> 0 \<le> indexCommand h \<and> indexCommand h \<le> MAX_REQUEST_COUNT \<and> omap_ok (utCommandMap h) \<and>
     (\<forall>k \<in> fst ` set (utCommandMap h). 0 \<le> k \<and> k \<le> MAX_REQUEST_COUNT)"

definition discard_command :: "int \<Rightarrow> 'h CommandTable_scheme \<Rightarrow> 'h CommandTable_scheme" where
  "discard_command i h = h\<lparr>utCommandMap := omap_erase i (utCommandMap h)\<rparr>"

lemma map_of_omap_erase: "map_of (omap_erase k m) = (map_of m)(k := None)"
  unfolding omap_erase_def by (induction m) (auto simp: fun_eq_iff)

lemma omap_erase_absent: "k \<notin> fst ` set m \<Longrightarrow> omap_erase k m = m"
  by (induction m) (auto simp: omap_erase_def)

lemma omap_erase_insert:
  "omap_ok m \<Longrightarrow> k \<notin> fst ` set m \<Longrightarrow> omap_erase k (omap_insert k v m) = m"
proof (induction k v m rule: omap_insert.induct)
  case (2 k v k' v' m)
  then have "k \<noteq> k'" "k \<notin> fst ` set m" "omap_ok m" by auto
  with "2.IH" omap_erase_absent [OF this(2)] show ?case
    by (auto simp: omap_erase_def)
qed (simp add: omap_erase_def)

lemma omap_ok_erase: "omap_ok m \<Longrightarrow> omap_ok (omap_erase k m)"
  unfolding omap_erase_def by (rule omap_ok_filter)

lemma omap_erase_keys: "fst ` set (omap_erase k m) = fst ` set m - {k}"
  unfolding omap_erase_def by force

lemma command_inv_take: "command_inv h \<Longrightarrow> command_inv (snd (RequestSsRequestCommandIndex h))"
  by (auto simp: command_inv_def RequestSsRequestCommandIndex_def Let_def)

lemma command_inv_save: "command_inv h \<Longrightarrow> command_inv (SaveSsRequestCommand cmd i h)"
  by (auto simp: command_inv_def SaveSsRequestCommand_def omap_ok_insert)

lemma command_inv_discard: "command_inv h \<Longrightarrow> command_inv (discard_command i h)"
  by (auto simp: command_inv_def discard_command_def omap_ok_erase omap_erase_keys)

lemma map_of_discard_command: "map_of (utCommandMap (discard_command i h)) = (map_of (utCommandMap h))(i := None)"
  by (simp add: discard_command_def map_of_omap_erase)

text \<open>Each answer either leaves the table alone or drops one entry.\<close>

lemma confirm_cases:
  "ConfirmAndRemoveSsRequestCommand i h =
    (if i = INVALID_INDEX then (None, h) else
      (map_option ss_flag (map_of (utCommandMap h) i), if map_of (utCommandMap h) i = None then h else discard_command i h))"
  "ConfirmAndRemoveSsRequestCommand_action i h =
    (if i = INVALID_INDEX then (None, h) else
      (map_option (\<lambda>c. (ss_flag c, ss_action c)) (map_of (utCommandMap h) i),
       if map_of (utCommandMap h) i = None then h else discard_command i h))"
  by (simp_all add: ConfirmAndRemoveSsRequestCommand_def ConfirmAndRemoveSsRequestCommand_action_def discard_command_def
      split: option.split)

interpretation ss: pending_store command_inv RequestSsRequestCommandIndex SaveSsRequestCommand
  "\<lambda>h. map_of (utCommandMap h)" discard_command
proof unfold_locales
  fix s :: "'h CommandTable_scheme" and i s1 c
  assume "command_inv s" "RequestSsRequestCommandIndex s = (i, s1)" "map_of (utCommandMap s) i = None"
  then show "map_of (utCommandMap (SaveSsRequestCommand c i s1)) = (map_of (utCommandMap s1))(i \<mapsto> c)"
    by (auto simp: RequestSsRequestCommandIndex_def SaveSsRequestCommand_def Let_def command_inv_def map_of_omap_insert)
next
  fix s :: "'h CommandTable_scheme" and i s1
  assume "command_inv s" "RequestSsRequestCommandIndex s = (i, s1)"
  then show "command_inv s1" using command_inv_take [of s] by simp
qed (auto simp: RequestSsRequestCommandIndex_def Let_def command_inv_save command_inv_discard map_of_discard_command)

section \<open>Runs\<close>

text \<open>Senders and answers in any order: a sender takes an index, and saves once its request was accepted.\<close>

inductive command_step :: "CommandTable \<Rightarrow> CommandTable \<Rightarrow> bool" where
  take: "command_step h (snd (RequestSsRequestCommandIndex h))"
| save: "command_step h (SaveSsRequestCommand cmd i h)"
| confirm: "command_step h (snd (ConfirmAndRemoveSsRequestCommand i h))"
| confirm_action: "command_step h (snd (ConfirmAndRemoveSsRequestCommand_action i h))"

inductive command_reachable :: "CommandTable \<Rightarrow> bool" where
  init: "command_reachable \<lparr>indexCommand = 0, utCommandMap = []\<rparr>"
| step: "command_reachable h \<Longrightarrow> command_step h h' \<Longrightarrow> command_reachable h'"

lemma command_step_inv: "command_step h h' \<Longrightarrow> command_inv h \<Longrightarrow> command_inv h'"
  by (induction rule: command_step.induct)
    (simp_all add: command_inv_take command_inv_save command_inv_discard confirm_cases)

lemma command_reachable_inv: "command_reachable h \<Longrightarrow> command_inv h"
  by (induction rule: command_reachable.induct)
    (auto simp: command_inv_def MAX_REQUEST_COUNT_def dest: command_step_inv [unfolded command_inv_def MAX_REQUEST_COUNT_def])

section \<open>Properties\<close>

text \<open>The bounds of the command table. However senders and answers interleave, the last index lies between 0 and 50,
  every command is stored under such an index, in order, and at most 51 commands are pending.\<close>

theorem command_table_bounds:
  assumes "command_reachable h"
  shows "0 \<le> indexCommand h \<and> indexCommand h \<le> 50 \<and> sorted_wrt (<) (map fst (utCommandMap h)) \<and>
    (\<forall>(k, cmd) \<in> set (utCommandMap h). 0 \<le> k \<and> k \<le> 50) \<and> length (utCommandMap h) \<le> 51"
proof -
  have inv: "command_inv h" by (rule command_reachable_inv [OF assms])
  have keys: "set (map fst (utCommandMap h)) \<subseteq> {0..50}"
    using inv by (auto simp: command_inv_def MAX_REQUEST_COUNT_def)
  have "distinct (map fst (utCommandMap h))"
    using inv by (simp add: command_inv_def omap_ok_distinct)
  from distinct_card [OF this] have "length (utCommandMap h) = card (set (map fst (utCommandMap h)))" by simp
  also have "\<dots> \<le> card {0 .. 50 :: int}" by (rule card_mono [OF _ keys]) simp
  finally have "length (utCommandMap h) \<le> 51" by simp
  with inv show ?thesis by (auto simp: command_inv_def MAX_REQUEST_COUNT_def omap_ok_def)
qed

theorem command_table_bounds_witness:
  "\<exists>h. command_reachable h \<and> length (utCommandMap h) = 1 \<and> length (utCommandMap h) \<le> 51"
proof -
  let ?h0 = "\<lparr>indexCommand = 0, utCommandMap = []\<rparr> :: CommandTable"
  let ?h = "SaveSsRequestCommand SsRequestCommand_init 1 (snd (RequestSsRequestCommandIndex ?h0))"
  have r: "command_reachable ?h"
    by (intro command_reachable.step [OF _ command_step.save] command_reachable.step [OF _ command_step.take]
        command_reachable.init)
  have "length (utCommandMap ?h) = 1"
    by (simp add: SaveSsRequestCommand_def RequestSsRequestCommandIndex_def MAX_REQUEST_COUNT_def)
  with command_table_bounds [OF r] r show ?thesis by blast
qed

text \<open>What other senders and answers may do while the command with index \<open>i\<close> is under way: a sender takes an index and
  saves its command right away, or saves nothing because its request was refused, and the answers to other
  commands arrive. Each sender is alone between taking its index and saving.\<close>

inductive other_traffic :: "int \<Rightarrow> 'h CommandTable_scheme \<Rightarrow> 'h CommandTable_scheme \<Rightarrow> bool" for i h where
  start: "other_traffic i h h"
| sent: "other_traffic i h h1 \<Longrightarrow> RequestSsRequestCommandIndex h1 = (j, h2) \<Longrightarrow> other_traffic i h (SaveSsRequestCommand c j h2)"
| refused: "other_traffic i h h1 \<Longrightarrow> other_traffic i h (snd (RequestSsRequestCommandIndex h1))"
| answered: "other_traffic i h h1 \<Longrightarrow> j \<noteq> i \<Longrightarrow> other_traffic i h (snd (ConfirmAndRemoveSsRequestCommand j h1))"
| answered_action: "other_traffic i h h1 \<Longrightarrow> j \<noteq> i \<Longrightarrow> other_traffic i h (snd (ConfirmAndRemoveSsRequestCommand_action j h1))"

lemma save_keeps_entry:
  "command_inv h \<Longrightarrow> map_of (utCommandMap h) i = Some cmd \<Longrightarrow>
    map_of (utCommandMap (SaveSsRequestCommand c j h)) i = Some cmd"
  by (auto simp: SaveSsRequestCommand_def command_inv_def map_of_omap_insert)

lemma take_keeps_map: "RequestSsRequestCommandIndex h = (j, h1) \<Longrightarrow> utCommandMap h1 = utCommandMap h"
  by (auto simp: RequestSsRequestCommandIndex_def Let_def)

lemma other_traffic_keeps:
  assumes "other_traffic i h h'" "map_of (utCommandMap h) i = Some cmd" "command_inv h"
  shows "map_of (utCommandMap h') i = Some cmd \<and> command_inv h'"
  using assms
proof induction
  case (sent h1 j h2 c)
  have h2: "command_inv h2" "map_of (utCommandMap h2) i = Some cmd"
    using command_inv_take [of h1] take_keeps_map [OF sent.hyps(2)] sent by simp_all
  then show ?case by (simp add: save_keeps_entry command_inv_save)
next
  case (refused h1)
  then show ?case
    using command_inv_take [of h1] by (simp add: take_keeps_map [OF surjective_pairing])
qed (simp_all add: confirm_cases command_inv_discard map_of_discard_command)

text \<open>C16: a command is found by its answer. A command saved under a free index that was just taken is read back by this index,
  however many other commands are sent and answered in between, even when all indices are given out again: with every field as
  saved but for \<^verbatim>\<open>isIncludeCallForwardingNumber\<close>, which is not copied and always reads false. The answer gets its
  flag and its action, the entry is gone then, the entries of the others are not touched, and a second answer with this
  index is refused; without other traffic the table is then exactly as before the save. Senders that interleave taking
  and saving, and an index that is still in use, are not covered: there commands are lost, as \<^verbatim>\<open>interleaved_commands\<close> shows for the
  first.\<close>

theorem command_roundtrip:
  assumes "command_inv h" "RequestSsRequestCommandIndex h = (i, h1)" "map_of (utCommandMap h) i = None"
    and "other_traffic i (SaveSsRequestCommand cmd i h1) h2"
  shows "GetSsRequestCommand i h2 = Some (cmd\<lparr>ss_isIncludeCallForwardingNumber := False\<rparr>) \<and>
    (\<exists>h3. ConfirmAndRemoveSsRequestCommand i h2 = (Some (ss_flag cmd), h3) \<and>
      ConfirmAndRemoveSsRequestCommand_action i h2 = (Some (ss_flag cmd, ss_action cmd), h3) \<and>
      map_of (utCommandMap h3) = (map_of (utCommandMap h2))(i := None) \<and>
      ConfirmAndRemoveSsRequestCommand i h3 = (None, h3) \<and> ConfirmAndRemoveSsRequestCommand_action i h3 = (None, h3) \<and>
      (h2 = SaveSsRequestCommand cmd i h1 \<longrightarrow> h3 = h1))"
proof -
  have i: "i \<noteq> INVALID_INDEX"
    using assms(1,2) by (auto simp: RequestSsRequestCommandIndex_def Let_def command_inv_def INVALID_INDEX_def split: if_splits)
  have h1: "utCommandMap h1 = utCommandMap h" "indexCommand h1 = i"
    using assms(2) by (auto simp: RequestSsRequestCommandIndex_def Let_def)
  have inv: "command_inv (SaveSsRequestCommand cmd i h1)"
    using command_inv_take [OF assms(1)] assms(2) by (simp add: command_inv_save)
  note found = other_traffic_keeps [OF assms(4) ss.serve(1) [OF assms(1-3)] inv]
  have "discard_command i (SaveSsRequestCommand cmd i h1) = h1"
    using assms(1,3) h1 by (simp add: discard_command_def SaveSsRequestCommand_def command_inv_def omap_erase_insert
        map_of_eq_None_iff)
  with i found show ?thesis
    by (auto simp: confirm_cases GetSsRequestCommand_def SsRequestCommand_init_def map_of_discard_command)
qed

theorem command_roundtrip_witness:
  "GetSsRequestCommand 1 (SaveSsRequestCommand SsRequestCommand_init 2 (snd (RequestSsRequestCommandIndex
     (SaveSsRequestCommand (SsRequestCommand_init\<lparr>ss_cfReason := 2\<rparr>) 1
       (\<lparr>indexCommand = 1, utCommandMap = []\<rparr> :: CommandTable))))) = Some (SsRequestCommand_init\<lparr>ss_cfReason := 2\<rparr>)"
proof -
  let ?h1 = "\<lparr>indexCommand = 1, utCommandMap = []\<rparr> :: CommandTable"
  let ?s = "SaveSsRequestCommand (SsRequestCommand_init\<lparr>ss_cfReason := 2\<rparr>) 1 ?h1"
  have "command_inv (\<lparr>indexCommand = 0, utCommandMap = []\<rparr> :: CommandTable)"
    "RequestSsRequestCommandIndex (\<lparr>indexCommand = 0, utCommandMap = []\<rparr> :: CommandTable) = (1, ?h1)"
    "map_of (utCommandMap (\<lparr>indexCommand = 0, utCommandMap = []\<rparr> :: CommandTable)) 1 = None"
    by (simp_all add: command_inv_def MAX_REQUEST_COUNT_def RequestSsRequestCommandIndex_def)
  moreover have "other_traffic 1 ?s (SaveSsRequestCommand SsRequestCommand_init 2 (snd (RequestSsRequestCommandIndex ?s)))"
    by (rule other_traffic.sent [OF other_traffic.start, where j = 2])
      (simp add: RequestSsRequestCommandIndex_def SaveSsRequestCommand_def MAX_REQUEST_COUNT_def)
  ultimately show ?thesis
    using command_roundtrip by (fastforce simp: SsRequestCommand_init_def)
qed

text \<open>Two commands in flight. When a second sender takes its index before the first has saved its command, the
  first command is stored under the second index and the second command is lost: the answer to the first is refused,
  and the answer to the second is given the flag and the action of the first.\<close>

theorem interleaved_commands:
  assumes "command_inv h" "RequestSsRequestCommandIndex h = (i, h1)" "RequestSsRequestCommandIndex h1 = (j, h2)"
    and free: "map_of (utCommandMap h) i = None" "map_of (utCommandMap h) j = None"
  shows "let h' = SaveSsRequestCommand d j (SaveSsRequestCommand c i h2) in
    fst (ConfirmAndRemoveSsRequestCommand_action i h') = None \<and>
    fst (ConfirmAndRemoveSsRequestCommand_action j h') = Some (ss_flag c, ss_action c)"
proof -
  have ij: "i \<noteq> j" "i \<noteq> INVALID_INDEX" "j \<noteq> INVALID_INDEX"
    using assms(1-3) by (auto simp: RequestSsRequestCommandIndex_def Let_def command_inv_def MAX_REQUEST_COUNT_def
        INVALID_INDEX_def split: if_splits)
  have h2: "utCommandMap h2 = utCommandMap h" "indexCommand h2 = j"
    using assms(2,3) by (auto simp: RequestSsRequestCommandIndex_def Let_def)
  have ok: "omap_ok (utCommandMap h)" using assms(1) by (simp add: command_inv_def)
  have "map_of (omap_insert j d (omap_insert j c (utCommandMap h))) = (map_of (utCommandMap h))(j \<mapsto> c)"
    using free ok by (simp add: map_of_omap_insert omap_ok_insert)
  with ij h2 free show ?thesis
    by (simp add: Let_def confirm_cases SaveSsRequestCommand_def)
qed

theorem interleaved_commands_witness:
  "fst (ConfirmAndRemoveSsRequestCommand_action 2
     (SaveSsRequestCommand (SsRequestCommand_init\<lparr>ss_action := 2\<rparr>) 2
       (SaveSsRequestCommand (SsRequestCommand_init\<lparr>ss_action := 1\<rparr>) 1
         (\<lparr>indexCommand = 2, utCommandMap = []\<rparr> :: CommandTable)))) = Some (SS_FROM_MMI_CODE, 1)"
proof -
  have "command_inv (\<lparr>indexCommand = 0, utCommandMap = []\<rparr> :: CommandTable)"
    "RequestSsRequestCommandIndex (\<lparr>indexCommand = 0, utCommandMap = []\<rparr> :: CommandTable) = (1, \<lparr>indexCommand = 1, utCommandMap = []\<rparr>)"
    "RequestSsRequestCommandIndex (\<lparr>indexCommand = 1, utCommandMap = []\<rparr> :: CommandTable) = (2, \<lparr>indexCommand = 2, utCommandMap = []\<rparr>)"
    by (simp_all add: command_inv_def MAX_REQUEST_COUNT_def RequestSsRequestCommandIndex_def)
  from interleaved_commands [OF this, of "SsRequestCommand_init\<lparr>ss_action := 2\<rparr>" "SsRequestCommand_init\<lparr>ss_action := 1\<rparr>"]
  show ?thesis by (simp add: Let_def SsRequestCommand_init_def)
qed

end
