(* ===== verification/Handler.thy ===== *)
theory Handler
  imports CsControl ImsControl SatControl PhoneNumber SsRequest
begin

text \<open>
  The call-report path of \<^verbatim>\<open>services/manager/src/cellular_call_handler.cpp\<close>: what the handler of one
  slot does with a call list of the modem, the IMS service or the satellite service, with the reason of
  a disconnected call, with SRVCC notices, with the answer to a swap and with a post-dial event. The
  state is the handler's own (the last call lists, the SRVCC flags) and the three controls of the slot,
  which the service owns; \<open>None\<close> is a control that does not exist.

  Tracing (\<^verbatim>\<open>CellularCallIncomingStartTrace\<close>) and the power event of
  \<^verbatim>\<open>BASE_POWER_IMPROVEMENT_FEATURE\<close> do not touch calls and are left out. The handlers dereference the
  service singleton without a test; they run in threads of this service, so it is there. The SRVCC state that
  the service keeps for all slots is the field \<open>serviceSrvccState\<close>. The build is the one with
  \<^verbatim>\<open>CELLULAR_CALL_SATELLITE\<close>.
\<close>

datatype SrvccState =
    SRVCC_NONE | SRVCC_STARTED | SRVCC_COMPLETED | SRVCC_FAILED | SRVCC_CANCELED | SrvccState_other int

record handler_env = dial_env +
  e_imsi :: "int \<Rightarrow> string"
  e_failText :: "RilDisconnectedReason \<Rightarrow> string option"
  e_emptyInfo :: CellularCallInfo

record CellularCallHandler = CommandTable +
  slotId :: int
  csControl :: "CSControl option"
  imsControl :: "IMSControl option"
  satelliteControl :: "SatelliteControl option"
  currentCallList :: ImsCurrentCallList
  currentCsCallInfoList :: CallInfoList
  isDuringRSRVCC :: bool
  srvccState :: SrvccState
  serviceSrvccState :: SrvccState

section \<open>CS reports\<close>

definition IsSilentCsRedial :: "CellularCallHandler \<Rightarrow> bool" where
  "IsSilentCsRedial h =
     (let imsCallList = currentCallList h; csCallList = currentCsCallInfoList h in
      if m_callSize imsCallList \<noteq> 1 \<or> callSize csCallList \<noteq> 1 then False
      else case (m_calls imsCallList, calls csCallList) of
        (imsCall # _, csCall # _) \<Rightarrow>
          m_index imsCall = c_index csCall \<and> m_dir imsCall = c_dir csCall \<and>
          m_state imsCall = CALL_STATUS_DIALING \<and> c_state csCall = m_state imsCall \<and>
          m_number imsCall = c_number csCall
      | _ \<Rightarrow> False)"

definition ReportNoCsCallsData ::
    "'x handler_env_scheme \<Rightarrow> CallInfoList \<Rightarrow> CellularCallHandler \<Rightarrow> CellularCallHandler \<times> act list" where
  "ReportNoCsCallsData e l h =
     (if isDuringRSRVCC h then (h\<lparr>isDuringRSRVCC := False\<rparr>, [])
      else case csControl h of
        None \<Rightarrow> (h, [])
      | Some ctl \<Rightarrow>
          let (_, ctl', acts) = ReportCsCallsData e (slotId h) l True ctl in
          (h\<lparr>csControl := if HasEndCallWithoutReason_cs l ctl' then Some ctl' else None\<rparr>, acts))"

definition Handler_ReportCsCallsData ::
    "'x handler_env_scheme \<Rightarrow> CallInfoList \<Rightarrow> CellularCallHandler \<Rightarrow> CellularCallHandler \<times> act list" where
  "Handler_ReportCsCallsData e l h0 =
     (let h = h0\<lparr>currentCsCallInfoList := l\<rparr> in
      if callSize l = 0 then ReportNoCsCallsData e l h
      else if isDuringRSRVCC h then (h, [])
      else case (if callSize l = 1 \<and> csControl h = None then Some CSControl_init else csControl h) of
        None \<Rightarrow> (h, [])
      | Some ctl \<Rightarrow>
          let (_, ctl', acts) = ReportCsCallsData e (slotId h) l True ctl;
              h' = h\<lparr>csControl := Some ctl'\<rparr> in
          if IsSilentCsRedial h' then
            (case imsControl h' of
               None \<Rightarrow> (h', acts)
             | Some ictl \<Rightarrow> (h'\<lparr>imsControl := Some (ictl\<lparr>isSilentCsRedial := True\<rparr>)\<rparr>, acts))
          else (h', acts))"

section \<open>IMS and satellite reports\<close>

definition MAX_ACTIVE_CALL_NUM :: int where
  "MAX_ACTIVE_CALL_NUM = 2"

definition ReportNoImsCallsData ::
    "'x handler_env_scheme \<Rightarrow> ImsCurrentCallList \<Rightarrow> CellularCallHandler \<Rightarrow> CellularCallHandler \<times> act list" where
  "ReportNoImsCallsData e l h =
     (case imsControl h of
        None \<Rightarrow> (h, [])
      | Some ctl \<Rightarrow>
          let hasEnd = HasEndCallWithoutReason_ims l ctl;
              (_, ctl', acts) = ReportImsCallsData e (slotId h) l hasEnd ctl in
          (h\<lparr>imsControl := if hasEnd then Some ctl' else None\<rparr>, acts))"

definition Handler_ReportImsCallsData ::
    "'x handler_env_scheme \<Rightarrow> ImsCurrentCallList \<Rightarrow> CellularCallHandler \<Rightarrow> CellularCallHandler \<times> act list" where
  "Handler_ReportImsCallsData e l h0 =
     (let h = h0\<lparr>currentCallList := l\<rparr> in
      if m_callSize l = 0 then ReportNoImsCallsData e l h
      else if srvccState h = SRVCC_STARTED then (h, [])
      else case (if m_callSize l > 0 \<and> m_callSize l \<le> MAX_ACTIVE_CALL_NUM \<and> imsControl h = None
                 then Some (IMSControl_init (e_emptyInfo e)) else imsControl h) of
        None \<Rightarrow> (h, [])
      | Some ctl \<Rightarrow>
          let hasEnd = HasEndCallWithoutReason_ims l ctl;
              (_, ctl', acts) = ReportImsCallsData e (slotId h) l hasEnd ctl
          in (h\<lparr>imsControl := Some ctl'\<rparr>, acts))"

definition Handler_ReportSatelliteCallsData ::
    "'x handler_env_scheme \<Rightarrow> SatelliteCurrentCallList \<Rightarrow> CellularCallHandler \<Rightarrow> CellularCallHandler \<times> act list" where
  "Handler_ReportSatelliteCallsData e l h =
     (if t_callSize l = 0 then
        (case satelliteControl h of
           None \<Rightarrow> (h, [])
         | Some ctl \<Rightarrow>
             let (_, _, acts) = ReportSatelliteCallsData e (slotId h) l ctl
             in (h\<lparr>satelliteControl := None\<rparr>, acts))
      else case (if t_callSize l = 1 \<and> satelliteControl h = None
                 then Some SatelliteControl_init else satelliteControl h) of
        None \<Rightarrow> (h, [])
      | Some ctl \<Rightarrow>
          let (_, ctl', acts) = ReportSatelliteCallsData e (slotId h) l ctl
          in (h\<lparr>satelliteControl := Some ctl'\<rparr>, acts))"

section \<open>Disconnect reasons\<close>

definition HandleCallDisconnectReason ::
    "'x handler_env_scheme \<Rightarrow> RilDisconnectedReason \<Rightarrow> string \<Rightarrow> CellularCallHandler \<Rightarrow>
     CellularCallHandler \<times> act list" where
  "HandleCallDisconnectReason e reason message h =
     (let imsCallList = currentCallList h; csCallList = currentCsCallInfoList h;
          drop_empty = (\<lambda>h.
            let h1 = (if m_callSize imsCallList = 0 then h\<lparr>imsControl := None\<rparr> else h)
            in (if callSize csCallList = 0 then h1\<lparr>csControl := None\<rparr> else h1)) in
      case imsControl h of
        Some ictl \<Rightarrow>
          let (_, ictl', acts) = ReportImsCallsData e (slotId h) imsCallList False
                (UpdateDisconnectedReason_ims imsCallList reason message ictl)
          in (drop_empty (h\<lparr>imsControl := Some ictl'\<rparr>), acts)
      | None \<Rightarrow>
          (case csControl h of
             Some cctl \<Rightarrow>
               let (_, cctl', acts) = ReportCsCallsData e (slotId h) csCallList False
                     (UpdateDisconnectedReason_cs csCallList reason cctl)
               in (drop_empty (h\<lparr>csControl := Some cctl'\<rparr>), acts)
           | None \<Rightarrow> (h, [])))"

text \<open>The event carries a bare reason, details, or nothing.\<close>

datatype FailReasonEvent = FailReason RilDisconnectedReason | FailDetails RilDisconnectedReason string | FailNothing

definition GetCallFailReasonResponse ::
    "'x handler_env_scheme \<Rightarrow> FailReasonEvent \<Rightarrow> CellularCallHandler \<Rightarrow> CellularCallHandler \<times> act list" where
  "GetCallFailReasonResponse e event h =
     (let proceed = (\<lambda>reason message.
            let pre = [SetClearCode (slotId h) reason];
                text = (if message = [] then e_failText e reason else Some message) in
            case text of
              None \<Rightarrow>
                let (h', acts) = HandleCallDisconnectReason e DISCONNECTED_REASON_NORMAL [] h in (h', pre @ acts)
            | Some msg \<Rightarrow>
                let (h', acts) = HandleCallDisconnectReason e reason msg h
                in (h', pre @ (if e_register e then [ReportCallFailReason reason msg] else []) @ acts)) in
      case event of
        FailNothing \<Rightarrow> HandleCallDisconnectReason e DISCONNECTED_REASON_NORMAL [] h
      | FailDetails reason message \<Rightarrow> proceed reason message
      | FailReason reason \<Rightarrow> proceed reason [])"

section \<open>SRVCC, swap, post dial\<close>

definition SrvccStateCompleted :: "CellularCallHandler \<Rightarrow> CellularCallHandler" where
  "SrvccStateCompleted h =
     (if srvccState h \<noteq> SRVCC_COMPLETED then h
      else h\<lparr>isDuringRSRVCC := False,
             csControl := (case csControl h of Some _ \<Rightarrow> None | None \<Rightarrow> Some CSControl_init),
             imsControl := None,
             srvccState := SRVCC_NONE\<rparr>)"

definition UpdateSrvccStateReport ::
    "'x handler_env_scheme \<Rightarrow> SrvccState option \<Rightarrow> CellularCallHandler \<Rightarrow> CellularCallHandler" where
  "UpdateSrvccStateReport e status h =
     (case status of
        None \<Rightarrow> h
      | Some s \<Rightarrow>
          let h' = h\<lparr>srvccState := s\<rparr> in
          if \<not> e_register e then h'
          else
            let h'' = h'\<lparr>serviceSrvccState := s\<rparr> in
            if s \<noteq> SRVCC_COMPLETED then h'' else SrvccStateCompleted h'')"

definition UpdateRsrvccStateReport :: "CellularCallHandler \<Rightarrow> CellularCallHandler" where
  "UpdateRsrvccStateReport h = h\<lparr>isDuringRSRVCC := True, csControl := None\<rparr>"

text \<open>The modem's adapter died: every control of the slot reports its calls as disconnected; a control whose
  report succeeded is dropped.\<close>

definition OnRilAdapterHostDied ::
    "'x handler_env_scheme \<Rightarrow> CellularCallHandler \<Rightarrow> CellularCallHandler \<times> act list" where
  "OnRilAdapterHostDied e h =
     (let (cs, a1) = (case csControl h of None \<Rightarrow> (None, [])
            | Some c \<Rightarrow> let (r, c', a) = ReportHangUpInfo_cs e (slotId h) c
                        in (if r \<noteq> TELEPHONY_SUCCESS then Some c' else None, a));
          (ims, a2) = (case imsControl h of None \<Rightarrow> (None, [])
            | Some c \<Rightarrow> let (r, c', a) = ReportHangUpInfo_ims e (slotId h) c
                        in (if r \<noteq> TELEPHONY_SUCCESS then Some c' else None, a));
          (sat, a3) = (case satelliteControl h of None \<Rightarrow> (None, [])
            | Some c \<Rightarrow> let (r, c', a) = ReportHangUpInfo_sat e (slotId h) c
                        in (if r \<noteq> TELEPHONY_SUCCESS then Some c' else None, a))
      in (h\<lparr>csControl := cs, imsControl := ims, satelliteControl := sat\<rparr>, a1 @ a2 @ a3))"

text \<open>The answer to a swap: \<open>None\<close> without a result object, otherwise whether it succeeded. Only for
  an IMS call is there something to do with the calls; reporting the failure is left out.\<close>

definition SwapCallResponse ::
    "'x handler_env_scheme \<Rightarrow> CallType \<Rightarrow> bool option \<Rightarrow> CellularCallHandler \<Rightarrow> CellularCallHandler \<times> act list" where
  "SwapCallResponse e callType result h =
     (if callType = TYPE_IMS then
        (case imsControl h of
           None \<Rightarrow> (h, [])
         | Some ctl0 \<Rightarrow>
             let ctl = RecoverPendingHold ctl0 in
             case result of
               Some True \<Rightarrow>
                 let (ctl', acts) = DialAfterHold e (slotId h) ctl in (h\<lparr>imsControl := Some ctl'\<rparr>, acts)
             | _ \<Rightarrow> (h\<lparr>imsControl := Some ctl\<rparr>, []))
      else (h, []))"

definition Handler_ExecutePostDial ::
    "'x handler_env_scheme \<Rightarrow> PostDialData \<Rightarrow> CellularCallHandler \<Rightarrow> CellularCallHandler \<times> act list" where
  "Handler_ExecutePostDial e d h =
     (if pd_isIms d then
        (case imsControl h of
           None \<Rightarrow> (h, [])
         | Some ctl \<Rightarrow>
             let (_, t', acts) = ExecutePostDial_ims e (slotId h) (pd_callId d) (imsConnectionMap ctl)
             in (h\<lparr>imsControl := Some (ctl\<lparr>imsConnectionMap := t'\<rparr>)\<rparr>, acts))
      else
        (case csControl h of
           None \<Rightarrow> (h, [])
         | Some ctl \<Rightarrow>
             let (_, t', acts) = ExecutePostDial_cs e (slotId h) (pd_callId d) (csConnectionMap ctl)
             in (h\<lparr>csControl := Some (ctl\<lparr>csConnectionMap := t'\<rparr>)\<rparr>, acts)))"

section \<open>The end of the last call, through the handler\<close>

lemma ended_without_reason_empty:
  "calls l = [] \<Longrightarrow> ended_without_reason_cs l c \<longleftrightarrow> csDisconnectReason c = DISCONNECTED_REASON_INVALID"
  "m_calls m = [] \<Longrightarrow> ended_without_reason_ims m d \<longleftrightarrow> imsDisconnectReason d = DISCONNECTED_REASON_INVALID"
  by (simp_all add: ended_without_reason_cs_def ended_without_reason_ims_def)

text \<open>The reason with which calls that have none are reported: the modem's, unless it comes without a text.\<close>

definition effective_reason :: "'x handler_env_scheme \<Rightarrow> RilDisconnectedReason \<Rightarrow> string \<Rightarrow> RilDisconnectedReason" where
  "effective_reason e reason msg =
     (if msg = [] \<and> e_failText e reason = None then DISCONNECTED_REASON_NORMAL else reason)"

definition effective_message :: "'x handler_env_scheme \<Rightarrow> RilDisconnectedReason \<Rightarrow> string \<Rightarrow> string" where
  "effective_message e reason msg =
     (if msg \<noteq> [] then msg else case e_failText e reason of None \<Rightarrow> [] | Some t \<Rightarrow> t)"

lemma GetCallFailReasonResponse_details:
  assumes "HandleCallDisconnectReason e (effective_reason e reason msg) (effective_message e reason msg) h = (h', acts)"
  shows "\<exists>pre. GetCallFailReasonResponse e (FailDetails reason msg) h = (h', pre @ acts) \<and> reports pre = []"
  using assms
  by (auto simp: GetCallFailReasonResponse_def effective_reason_def effective_message_def Let_def
      split: option.splits if_splits)

lemma reports_hang_up_cs:
  assumes "e_register e" "\<not> isIgnoredIncomingCall c" "csConnectionMap c \<noteq> []"
  shows "ReportHangUpInfo_cs e s c = (TELEPHONY_SUCCESS, c\<lparr>csConnectionMap := []\<rparr>,
    [ReportCallsInfo \<lparr>callVec = map (\<lambda>(k, c). (callReportInfo c)\<lparr>r_state := CALL_STATUS_DISCONNECTED,
        r_accountId := s, r_reason := csDisconnectReason c\<rparr>) (csConnectionMap c), cr_slotId = s\<rparr>])"
  using assms by (simp add: ReportHangUpInfo_cs_def Let_def)

lemma HandleCallDisconnectReason_cs:
  assumes "imsControl h = None" "csControl h = Some c" "calls (currentCsCallInfoList h) = []"
    "callSize (currentCsCallInfoList h) = 0" "e_register e" "\<not> isIgnoredIncomingCall c" "csConnectionMap c \<noteq> []"
  shows "\<exists>h'. HandleCallDisconnectReason e r m h = (h',
      [ReportCallsInfo \<lparr>callVec = map (\<lambda>(k, c). (callReportInfo c)\<lparr>r_state := CALL_STATUS_DISCONNECTED,
        r_accountId := slotId h, r_reason := (if csDisconnectReason c = DISCONNECTED_REASON_INVALID then r
          else csDisconnectReason c)\<rparr>) (csConnectionMap c), cr_slotId = slotId h\<rparr>]) \<and>
    csControl h' = None"
proof -
  let ?l = "currentCsCallInfoList h" and ?u = "UpdateDisconnectedReason_cs (currentCsCallInfoList h) r c"
  have u: "\<not> isIgnoredIncomingCall ?u" "csConnectionMap ?u \<noteq> []"
    "csConnectionMap ?u = map (\<lambda>(k, c). (k, if csDisconnectReason c = DISCONNECTED_REASON_INVALID
       then c\<lparr>csDisconnectReason := r\<rparr> else c)) (csConnectionMap c)"
    using assms(3,6,7) by (simp_all add: UpdateDisconnectedReason_cs_def ended_without_reason_empty(1))
  have "ReportCsCallsData e (slotId h) ?l False ?u = (TELEPHONY_SUCCESS, ?u\<lparr>csConnectionMap := []\<rparr>,
      [ReportCallsInfo \<lparr>callVec = map (\<lambda>(k, c). (callReportInfo c)\<lparr>r_state := CALL_STATUS_DISCONNECTED,
        r_accountId := slotId h, r_reason := csDisconnectReason c\<rparr>) (csConnectionMap ?u), cr_slotId = slotId h\<rparr>])"
    using reports_hang_up_cs [OF assms(5) u(1,2)] assms(4) by (simp add: ReportCsCallsData_def)
  then show ?thesis
    using assms(1,2,4) unfolding HandleCallDisconnectReason_def
    by (auto simp: u(3) Let_def case_prod_beta)
qed

lemma HandleCallDisconnectReason_ims_only:
  assumes "imsControl h = Some c"
  shows "snd (HandleCallDisconnectReason e r m h) = snd (HandleCallDisconnectReason e r m (h\<lparr>csControl := x\<rparr>))"
    "callSize (currentCsCallInfoList h) = 0 \<Longrightarrow> csControl (fst (HandleCallDisconnectReason e r m h)) = None"
  using assms by (simp_all add: HandleCallDisconnectReason_def case_prod_beta Let_def)

lemma end_beside_ims:
  assumes h: "imsControl h = Some c" "csControl h = Some d" "\<not> isDuringRSRVCC h" and l: "callSize l = 0"
  shows "csControl (fst (GetCallFailReasonResponse e event (h\<lparr>currentCsCallInfoList := l\<rparr>))) = None"
    "snd (GetCallFailReasonResponse e event (h\<lparr>currentCsCallInfoList := l\<rparr>)) =
     snd (GetCallFailReasonResponse e event (h\<lparr>currentCsCallInfoList := l, csControl := None\<rparr>))"
proof -
  let ?h1 = "h\<lparr>currentCsCallInfoList := l\<rparr>"
  have i: "imsControl ?h1 = Some c" "callSize (currentCsCallInfoList ?h1) = 0" using h l by simp_all
  note only = HandleCallDisconnectReason_ims_only(1) [OF i(1), of e _ _ None]
    HandleCallDisconnectReason_ims_only(2) [OF i(1,2), of e]
  show "csControl (fst (GetCallFailReasonResponse e event ?h1)) = None"
    "snd (GetCallFailReasonResponse e event ?h1) = snd (GetCallFailReasonResponse e event (?h1\<lparr>csControl := None\<rparr>))"
    by (cases event; auto simp: GetCallFailReasonResponse_def only case_prod_beta Let_def split: option.splits)+
qed

lemma ask_at_end:
  assumes h: "csControl h = Some c" "\<not> isDuringRSRVCC h" and l: "callSize l = 0" "HasEndCallWithoutReason_cs l c"
    and env: "e_service e" "e_handler e (slotId h)"
  shows "Handler_ReportCsCallsData e l h = (h\<lparr>currentCsCallInfoList := l\<rparr>, [Ril (RilGetCallFailReason (slotId h))])"
  using assms by (simp add: Handler_ReportCsCallsData_def ReportNoCsCallsData_def ReportCsCallsData_def
      GetCallFailReason_cs_def GetCallFailReasonRequest_cs_def ril_request_cases)

text \<open>C11: the last CS calls of a slot end, end to end; the modem's list is empty. When every call has its disconnect reason, all are
  announced at once as disconnected, each with its reason, and the control is dropped. Otherwise nothing is announced yet:
  the handler only asks the modem for the reason and keeps the control. What the answer does depends on
  the slot's IMS control. Without one, every CS call is announced as disconnected, once and in index order, with its own reason
  or else the modem's, never with the invalid one, and the control is dropped. With one, the answer goes to the IMS calls alone: what is
  reported is what would be reported without any CS call, the CS control is dropped all the same, and the end of
  its calls is never announced.\<close>

theorem cs_end_of_call:
  assumes h: "csControl h = Some c" "\<not> isDuringRSRVCC h" "csConnectionMap c \<noteq> []"
    and l: "callSize l = 0" "calls l = []"
    and env: "e_service e" "e_handler e (slotId h)" "e_register e" and ign: "\<not> isIgnoredIncomingCall c"
    and reason: "reason \<noteq> DISCONNECTED_REASON_INVALID"
  shows "if \<forall>(k, c) \<in> set (csConnectionMap c). csDisconnectReason c \<noteq> DISCONNECTED_REASON_INVALID
    then Handler_ReportCsCallsData e l h = (h\<lparr>currentCsCallInfoList := l, csControl := None\<rparr>,
      [ReportCallsInfo \<lparr>callVec = map (\<lambda>(k, c). (callReportInfo c)\<lparr>r_state := CALL_STATUS_DISCONNECTED,
        r_accountId := slotId h, r_reason := csDisconnectReason c\<rparr>) (csConnectionMap c), cr_slotId = slotId h\<rparr>])
    else \<exists>h1 h2 acts.
      Handler_ReportCsCallsData e l h = (h1, [Ril (RilGetCallFailReason (slotId h))]) \<and> csControl h1 = Some c \<and>
      GetCallFailReasonResponse e (FailDetails reason msg) h1 = (h2, acts) \<and> csControl h2 = None \<and>
      (if imsControl h = None
       then \<exists>vec. reports acts = [\<lparr>callVec = vec, cr_slotId = slotId h\<rparr>] \<and>
         map r_index vec = map (\<lambda>(k, c). r_index (callReportInfo c)) (csConnectionMap c) \<and>
         (\<forall>r \<in> set vec. r_state r = CALL_STATUS_DISCONNECTED \<and> r_reason r \<noteq> DISCONNECTED_REASON_INVALID)
       else acts = snd (GetCallFailReasonResponse e (FailDetails reason msg) (h1\<lparr>csControl := None\<rparr>)))"
proof (cases "HasEndCallWithoutReason_cs l c")
  case False
  have "ReportCsCallsData e (slotId h) l True c = (TELEPHONY_SUCCESS, c\<lparr>csConnectionMap := []\<rparr>,
      [ReportCallsInfo \<lparr>callVec = map (\<lambda>(k, c). (callReportInfo c)\<lparr>r_state := CALL_STATUS_DISCONNECTED,
        r_accountId := slotId h, r_reason := csDisconnectReason c\<rparr>) (csConnectionMap c), cr_slotId = slotId h\<rparr>])"
    using reports_hang_up_cs [OF env(3) ign h(3)] l(1) False by (simp add: ReportCsCallsData_def)
  with False h l(1,2) show ?thesis
    by (auto simp: Handler_ReportCsCallsData_def ReportNoCsCallsData_def HasEndCallWithoutReason_cs_def list_ex_iff
        ended_without_reason_empty(1))
next
  case True
  let ?h1 = "h\<lparr>currentCsCallInfoList := l\<rparr>" and ?r = "effective_reason e reason msg"
  have no: "\<not> (\<forall>(k, c) \<in> set (csConnectionMap c). csDisconnectReason c \<noteq> DISCONNECTED_REASON_INVALID)"
    using True l(2) by (auto simp: HasEndCallWithoutReason_cs_def list_ex_iff ended_without_reason_empty(1))
  have 1: "Handler_ReportCsCallsData e l h = (?h1, [Ril (RilGetCallFailReason (slotId h))])"
    by (rule ask_at_end [OF h(1,2) l(1) True env(1,2)])
  obtain h2 acts where g: "GetCallFailReasonResponse e (FailDetails reason msg) ?h1 = (h2, acts)" by (metis surj_pair)
  show ?thesis
  proof (cases "imsControl h")
    case (Some i)
    with end_beside_ims [OF Some h(1,2) l(1), of e "FailDetails reason msg"] g no 1 h(1) show ?thesis by auto
  next
    case None
    from HandleCallDisconnectReason_cs [of ?h1 c e ?r "effective_message e reason msg"] None h l env(3) ign
    obtain h2' where h2: "HandleCallDisconnectReason e ?r (effective_message e reason msg) ?h1 = (h2',
        [ReportCallsInfo \<lparr>callVec = map (\<lambda>(k, c). (callReportInfo c)\<lparr>r_state := CALL_STATUS_DISCONNECTED,
          r_accountId := slotId h, r_reason := (if csDisconnectReason c = DISCONNECTED_REASON_INVALID then ?r
            else csDisconnectReason c)\<rparr>) (csConnectionMap c), cr_slotId = slotId h\<rparr>])" "csControl h2' = None" by auto
    moreover have "?r \<noteq> DISCONNECTED_REASON_INVALID" using reason by (simp add: effective_reason_def)
    ultimately show ?thesis
      using GetCallFailReasonResponse_details [OF h2(1)] 1 h(1) None no by (auto simp: case_prod_beta)
  qed
qed

definition sample_handler_env :: handler_env where
  "sample_handler_env = dial_env.extend sample_env
     (handler_env.fields (\<lambda>_. ''460001234567890'') (\<lambda>_. Some ''call ended'') sample_info)"

lemma sample_handler_env_simps [simp]:
  "e_service sample_handler_env" "e_handler sample_handler_env s" "e_register sample_handler_env"
  "e_cbRegistered sample_handler_env" "e_imsClient sample_handler_env" "e_imsProxy sample_handler_env"
  "e_imsResult sample_handler_env q = TELEPHONY_SUCCESS"
  "e_failText sample_handler_env r = Some ''call ended''" "e_emptyInfo sample_handler_env = sample_info"
  by (simp_all add: sample_handler_env_def sample_env_def dial_env.extend_def handler_env.fields_def)

definition sample_handler :: CellularCallHandler where
  "sample_handler =
     \<lparr>indexCommand = 0, utCommandMap = [], slotId = 0, csControl = Some sample_cs_ctl, imsControl = None, satelliteControl = None,
      currentCallList = \<lparr>m_callSize = 0, m_flag = 0, m_calls = []\<rparr>,
      currentCsCallInfoList = \<lparr>callSize = 0, calls = []\<rparr>, isDuringRSRVCC = False,
      srvccState = SRVCC_NONE, serviceSrvccState = SRVCC_NONE\<rparr>"

theorem cs_end_of_call_witness:
  "(\<exists>h1 h2 acts vec.
    Handler_ReportCsCallsData sample_handler_env \<lparr>callSize = 0, calls = []\<rparr> sample_handler =
      (h1, [Ril (RilGetCallFailReason 0)]) \<and>
    GetCallFailReasonResponse sample_handler_env (FailDetails DISCONNECTED_REASON_NORMAL []) h1 = (h2, acts) \<and>
    reports acts = [\<lparr>callVec = vec, cr_slotId = 0\<rparr>] \<and> map r_index vec = [1, 2, 3]) \<and>
   (\<exists>h1 h2 acts. Handler_ReportCsCallsData sample_handler_env \<lparr>callSize = 0, calls = []\<rparr>
      (sample_handler\<lparr>imsControl := Some sample_ims_ctl\<rparr>) = (h1, [Ril (RilGetCallFailReason 0)]) \<and>
    GetCallFailReasonResponse sample_handler_env (FailDetails DISCONNECTED_REASON_NORMAL []) h1 = (h2, acts) \<and>
    csControl h2 = None)"
proof -
  have "\<not> (\<forall>(k, c) \<in> set (csConnectionMap sample_cs_ctl). csDisconnectReason c \<noteq> DISCONNECTED_REASON_INVALID)"
    "\<not> isIgnoredIncomingCall sample_cs_ctl" "csConnectionMap sample_cs_ctl \<noteq> []"
    "map (\<lambda>(k, c). r_index (callReportInfo c)) (csConnectionMap sample_cs_ctl) = [1, 2, 3]"
    by (simp_all add: sample_cs_ctl_def sample_cs_def)
  with cs_end_of_call [of sample_handler sample_cs_ctl "\<lparr>callSize = 0, calls = []\<rparr>" sample_handler_env
      DISCONNECTED_REASON_NORMAL "[]"]
    cs_end_of_call [of "sample_handler\<lparr>imsControl := Some sample_ims_ctl\<rparr>" sample_cs_ctl "\<lparr>callSize = 0, calls = []\<rparr>"
      sample_handler_env DISCONNECTED_REASON_NORMAL "[]"]
  show ?thesis by (auto simp: sample_handler_def)
qed

section \<open>IMS\<close>

lemma reports_hang_up_ims:
  assumes "e_register e" "\<not> isIgnoredIncomingCall c" "\<not> isSilentCsRedial c" "imsConnectionMap c \<noteq> []"
  shows "ReportHangUpInfo_ims e s c = (TELEPHONY_SUCCESS, c\<lparr>imsConnectionMap := []\<rparr>,
    [ReportCallsInfo \<lparr>callVec = map (\<lambda>(k, c). (callReportInfo c)\<lparr>r_state := CALL_STATUS_DISCONNECTED,
        r_accountId := s, r_reason := imsDisconnectReason c, r_message := disconnectMessage c\<rparr>) (imsConnectionMap c),
        cr_slotId = s\<rparr>])"
  using assms by (simp add: ReportHangUpInfo_ims_def Let_def)

lemma HandleCallDisconnectReason_ims:
  assumes "imsControl h = Some c" "m_calls (currentCallList h) = []"
    "m_callSize (currentCallList h) = 0" "e_register e" "\<not> isIgnoredIncomingCall c" "imsConnectionMap c \<noteq> []"
  shows "\<exists>h'. HandleCallDisconnectReason e r m h = (h',
      if isSilentCsRedial c then [] else
      [ReportCallsInfo \<lparr>callVec = map (\<lambda>(k, c). (callReportInfo c)\<lparr>r_state := CALL_STATUS_DISCONNECTED,
        r_accountId := slotId h, r_reason := (if imsDisconnectReason c = DISCONNECTED_REASON_INVALID then r
          else imsDisconnectReason c), r_message := (if imsDisconnectReason c = DISCONNECTED_REASON_INVALID then m
          else disconnectMessage c)\<rparr>) (imsConnectionMap c), cr_slotId = slotId h\<rparr>]) \<and>
    imsControl h' = None \<and>
    csControl h' = (if callSize (currentCsCallInfoList h) = 0 then None else csControl h)"
proof -
  let ?l = "currentCallList h" and ?u = "UpdateDisconnectedReason_ims (currentCallList h) r m c"
  have u: "isIgnoredIncomingCall ?u = isIgnoredIncomingCall c" "isSilentCsRedial ?u = isSilentCsRedial c"
    "imsConnectionMap ?u \<noteq> []"
    "imsConnectionMap ?u = map (\<lambda>(k, c). (k, if imsDisconnectReason c = DISCONNECTED_REASON_INVALID
       then c\<lparr>imsDisconnectReason := r, disconnectMessage := m\<rparr> else c)) (imsConnectionMap c)"
    using assms(2,6) by (simp_all add: UpdateDisconnectedReason_ims_def ended_without_reason_empty(2))
  obtain ret ctl' where "ReportImsCallsData e (slotId h) ?l False ?u = (ret, ctl',
      if isSilentCsRedial c then [] else
      [ReportCallsInfo \<lparr>callVec = map (\<lambda>(k, c). (callReportInfo c)\<lparr>r_state := CALL_STATUS_DISCONNECTED,
        r_accountId := slotId h, r_reason := imsDisconnectReason c, r_message := disconnectMessage c\<rparr>)
        (imsConnectionMap ?u), cr_slotId = slotId h\<rparr>])"
    using reports_hang_up_ims [OF assms(4), of ?u "slotId h"] u assms(3-5)
    by (auto simp: ReportImsCallsData_def ReportHangUpInfo_ims_def)
  then show ?thesis
    using assms(1,3) unfolding HandleCallDisconnectReason_def
    by (auto simp: u(4) Let_def case_prod_beta)
qed

lemma Handler_ReportImsCallsData_end:
  assumes "imsControl h = Some c" "m_callSize l = 0" "HasEndCallWithoutReason_ims l c" "e_imsClient e" "e_imsProxy e"
  shows "Handler_ReportImsCallsData e l h =
    (h\<lparr>currentCallList := l\<rparr>, [Ims (ImsGetLastCallFailReason (slotId h))])"
  using assms
  by (simp add: Handler_ReportImsCallsData_def ReportNoImsCallsData_def ReportImsCallsData_def GetCallFailReason_ims_def
      GetCallFailReasonRequest_ims_def ims_request_cases Let_def)

text \<open>The last IMS call ends, end to end. An empty list while a call has no disconnect reason announces
  nothing: the handler asks for the reason and keeps the control; the answer then announces every call
  once, in index order, with its own reason and message or else the ones of the answer, and the control is dropped.\<close>

theorem ims_end_of_call:
  assumes h: "imsControl h = Some c" and l: "m_callSize l = 0" "m_calls l = []"
    and no_reason: "\<exists>(k, c) \<in> set (imsConnectionMap c). imsDisconnectReason c = DISCONNECTED_REASON_INVALID"
    and env: "e_imsClient e" "e_imsProxy e" "e_register e" and ign: "\<not> isIgnoredIncomingCall c" "\<not> isSilentCsRedial c"
    and reason: "reason \<noteq> DISCONNECTED_REASON_INVALID"
  shows "\<exists>h1 h2 acts vec.
    Handler_ReportImsCallsData e l h = (h1, [Ims (ImsGetLastCallFailReason (slotId h))]) \<and> imsControl h1 = Some c \<and>
    GetCallFailReasonResponse e (FailDetails reason msg) h1 = (h2, acts) \<and> imsControl h2 = None \<and>
    reports acts = [\<lparr>callVec = vec, cr_slotId = slotId h\<rparr>] \<and>
    map r_index vec = map (\<lambda>(k, c). r_index (callReportInfo c)) (imsConnectionMap c) \<and>
    (\<forall>r \<in> set vec. r_state r = CALL_STATUS_DISCONNECTED \<and> r_reason r \<noteq> DISCONNECTED_REASON_INVALID)"
proof -
  let ?h1 = "h\<lparr>currentCallList := l\<rparr>" and ?r = "effective_reason e reason msg" and ?m = "effective_message e reason msg"
  have "HasEndCallWithoutReason_ims l c"
    using no_reason l(2) by (auto simp: HasEndCallWithoutReason_ims_def list_ex_iff ended_without_reason_empty(2))
  from Handler_ReportImsCallsData_end [OF h l(1) this env(1,2)]
  have 1: "Handler_ReportImsCallsData e l h = (?h1, [Ims (ImsGetLastCallFailReason (slotId h))])" .
  have h1: "imsControl ?h1 = Some c" "currentCallList ?h1 = l" "slotId ?h1 = slotId h" using h by simp_all
  have ne: "imsConnectionMap c \<noteq> []" using no_reason by auto
  from HandleCallDisconnectReason_ims [OF h1(1), unfolded h1(2,3), OF l(2,1) env(3) ign(1) ne, of ?r ?m] ign(2)
  obtain h2 where h2: "HandleCallDisconnectReason e ?r ?m ?h1 = (h2,
      [ReportCallsInfo \<lparr>callVec = map (\<lambda>(k, c). (callReportInfo c)\<lparr>r_state := CALL_STATUS_DISCONNECTED,
        r_accountId := slotId h, r_reason := (if imsDisconnectReason c = DISCONNECTED_REASON_INVALID then ?r
          else imsDisconnectReason c), r_message := (if imsDisconnectReason c = DISCONNECTED_REASON_INVALID then ?m
          else disconnectMessage c)\<rparr>) (imsConnectionMap c), cr_slotId = slotId h\<rparr>])" "imsControl h2 = None" by auto
  from GetCallFailReasonResponse_details [OF h2(1)] obtain pre where
    "GetCallFailReasonResponse e (FailDetails reason msg) ?h1 = (h2, pre @
      [ReportCallsInfo \<lparr>callVec = map (\<lambda>(k, c). (callReportInfo c)\<lparr>r_state := CALL_STATUS_DISCONNECTED,
        r_accountId := slotId h, r_reason := (if imsDisconnectReason c = DISCONNECTED_REASON_INVALID then ?r
          else imsDisconnectReason c), r_message := (if imsDisconnectReason c = DISCONNECTED_REASON_INVALID then ?m
          else disconnectMessage c)\<rparr>) (imsConnectionMap c), cr_slotId = slotId h\<rparr>])" "reports pre = []" by blast
  moreover have "?r \<noteq> DISCONNECTED_REASON_INVALID" using reason by (simp add: effective_reason_def)
  ultimately show ?thesis using 1 h1(1) h2(2) by (auto simp: case_prod_beta)
qed

theorem ims_end_of_call_witness:
  "\<exists>h1 h2 acts vec.
    Handler_ReportImsCallsData sample_handler_env \<lparr>m_callSize = 0, m_flag = 0, m_calls = []\<rparr>
        (sample_handler\<lparr>imsControl := Some sample_ims_ctl\<rparr>) = (h1, [Ims (ImsGetLastCallFailReason 0)]) \<and>
    GetCallFailReasonResponse sample_handler_env (FailDetails DISCONNECTED_REASON_NORMAL []) h1 = (h2, acts) \<and>
    reports acts = [\<lparr>callVec = vec, cr_slotId = 0\<rparr>] \<and> map r_index vec = [1, 2]"
proof -
  have "\<exists>(k, c) \<in> set (imsConnectionMap sample_ims_ctl). imsDisconnectReason c = DISCONNECTED_REASON_INVALID"
    "\<not> isIgnoredIncomingCall sample_ims_ctl" "\<not> isSilentCsRedial sample_ims_ctl"
    "map (\<lambda>(k, c). r_index (callReportInfo c)) (imsConnectionMap sample_ims_ctl) = [1, 2]"
    by (simp_all add: sample_ims_ctl_def sample_ims_def IMSControl_init_def)
  with ims_end_of_call [of "sample_handler\<lparr>imsControl := Some sample_ims_ctl\<rparr>" sample_ims_ctl
      "\<lparr>m_callSize = 0, m_flag = 0, m_calls = []\<rparr>" sample_handler_env DISCONNECTED_REASON_NORMAL "[]"] show ?thesis
    by (auto simp: sample_handler_def)
qed

text \<open>C12: a call that moves silently from IMS to CS. When the modem reports, as its only call, the same dialing call that the
  IMS list holds, the handler marks the IMS control, and makes a CS control when the slot has none; the empty IMS list and the answer to
  the reason query that follow then end the IMS control without announcing a disconnected call, and the CS control stays as it is.\<close>

theorem silent_cs_redial:
  assumes h: "imsControl h = Some c" "\<not> isDuringRSRVCC h"
    and same: "m_callSize (currentCallList h) = 1" "m_calls (currentCallList h) = im # ims" "callSize l = 1"
      "calls l = cs # css" "m_index im = c_index cs" "m_dir im = c_dir cs" "m_number im = c_number cs"
      "m_state im = CALL_STATUS_DIALING" "c_state cs = CALL_STATUS_DIALING"
    and l0: "m_callSize l0 = 0" "m_calls l0 = []"
    and no_reason: "\<exists>(k, c) \<in> set (imsConnectionMap c). imsDisconnectReason c = DISCONNECTED_REASON_INVALID"
    and env: "e_imsClient e" "e_imsProxy e" "e_register e" and ign: "\<not> isIgnoredIncomingCall c"
  shows "\<exists>h1 a1 h2 h3 a3. Handler_ReportCsCallsData e l h = (h1, a1) \<and>
    imsControl h1 = Some (c\<lparr>isSilentCsRedial := True\<rparr>) \<and> csControl h1 \<noteq> None \<and>
    Handler_ReportImsCallsData e l0 h1 = (h2, [Ims (ImsGetLastCallFailReason (slotId h))]) \<and>
    GetCallFailReasonResponse e (FailDetails reason msg) h2 = (h3, a3) \<and>
    reports a3 = [] \<and> imsControl h3 = None \<and> csControl h3 = csControl h1"
proof -
  let ?c = "c\<lparr>isSilentCsRedial := True\<rparr>" and ?d = "case csControl h of None \<Rightarrow> CSControl_init | Some d \<Rightarrow> d"
  obtain r d' a1 where d: "ReportCsCallsData e (slotId h) l True ?d = (r, d', a1)" by (metis prod_cases3)
  let ?h1 = "h\<lparr>currentCsCallInfoList := l, csControl := Some d', imsControl := Some ?c\<rparr>"
  have 1: "Handler_ReportCsCallsData e l h = (?h1, a1)"
    using h same d by (simp add: Handler_ReportCsCallsData_def IsSilentCsRedial_def Let_def split: option.splits)
  let ?h2 = "?h1\<lparr>currentCallList := l0\<rparr>"
  have "HasEndCallWithoutReason_ims l0 ?c"
    using no_reason l0(2) by (auto simp: HasEndCallWithoutReason_ims_def list_ex_iff ended_without_reason_empty(2))
  from Handler_ReportImsCallsData_end [OF _ l0(1) this env(1,2), of ?h1]
  have 2: "Handler_ReportImsCallsData e l0 ?h1 = (?h2, [Ims (ImsGetLastCallFailReason (slotId h))])" by simp
  have h2: "imsControl ?h2 = Some ?c" "currentCallList ?h2 = l0" "isSilentCsRedial ?c" "currentCsCallInfoList ?h2 = l"
    "\<not> isIgnoredIncomingCall ?c" "imsConnectionMap ?c \<noteq> []" "csControl ?h2 = Some d'"
    using ign no_reason by auto
  from HandleCallDisconnectReason_ims [OF h2(1), unfolded h2(2), OF l0(2,1) env(3) h2(5,6),
      of "effective_reason e reason msg" "effective_message e reason msg"] h2(3,4,7) same(3) obtain h3 where
    h3: "HandleCallDisconnectReason e (effective_reason e reason msg) (effective_message e reason msg) ?h2 = (h3, [])"
      "imsControl h3 = None" "csControl h3 = Some d'" by auto
  from GetCallFailReasonResponse_details [OF h3(1)] obtain pre where
    "GetCallFailReasonResponse e (FailDetails reason msg) ?h2 = (h3, pre @ [])" "reports pre = []" by blast
  with 1 2 h3 show ?thesis
    by (intro exI [of _ ?h1] exI [of _ a1] exI [of _ ?h2] exI [of _ h3] exI [of _ "pre @ []"]) simp
qed

theorem silent_cs_redial_witness:
  "\<exists>h1 a1 h2 h3 a3. Handler_ReportCsCallsData sample_handler_env \<lparr>callSize = 1, calls = [sample_call 1 CALL_STATUS_DIALING]\<rparr>
      (sample_handler\<lparr>csControl := None, imsControl := Some sample_ims_ctl,
        currentCallList := \<lparr>m_callSize = 1, m_flag = 0, m_calls = [sample_ims_call 1 CALL_STATUS_DIALING]\<rparr>\<rparr>) = (h1, a1) \<and>
    Handler_ReportImsCallsData sample_handler_env \<lparr>m_callSize = 0, m_flag = 0, m_calls = []\<rparr> h1 =
      (h2, [Ims (ImsGetLastCallFailReason 0)]) \<and>
    GetCallFailReasonResponse sample_handler_env (FailDetails DISCONNECTED_REASON_NORMAL []) h2 = (h3, a3) \<and>
    reports a3 = []"
proof -
  let ?h = "sample_handler\<lparr>csControl := None, imsControl := Some sample_ims_ctl,
        currentCallList := \<lparr>m_callSize = 1, m_flag = 0, m_calls = [sample_ims_call 1 CALL_STATUS_DIALING]\<rparr>\<rparr>"
  have "\<exists>(k, c) \<in> set (imsConnectionMap sample_ims_ctl). imsDisconnectReason c = DISCONNECTED_REASON_INVALID"
    "\<not> isIgnoredIncomingCall sample_ims_ctl"
    by (simp_all add: sample_ims_ctl_def sample_ims_def IMSControl_init_def)
  with silent_cs_redial [of ?h sample_ims_ctl "sample_ims_call 1 CALL_STATUS_DIALING" "[]"
      "\<lparr>callSize = 1, calls = [sample_call 1 CALL_STATUS_DIALING]\<rparr>" "sample_call 1 CALL_STATUS_DIALING" "[]"
      "\<lparr>m_callSize = 0, m_flag = 0, m_calls = []\<rparr>" sample_handler_env DISCONNECTED_REASON_NORMAL "[]"]
  obtain h1 a1 h2 h3 a3 where
    "Handler_ReportCsCallsData sample_handler_env \<lparr>callSize = 1, calls = [sample_call 1 CALL_STATUS_DIALING]\<rparr> ?h = (h1, a1)"
    "Handler_ReportImsCallsData sample_handler_env \<lparr>m_callSize = 0, m_flag = 0, m_calls = []\<rparr> h1 =
      (h2, [Ims (ImsGetLastCallFailReason (slotId ?h))])"
    "GetCallFailReasonResponse sample_handler_env (FailDetails DISCONNECTED_REASON_NORMAL []) h2 = (h3, a3)"
    "reports a3 = []"
    by (auto simp: sample_handler_def sample_call_def sample_ims_call_def)
  moreover have "slotId ?h = 0" by (simp add: sample_handler_def)
  ultimately show ?thesis by metis
qed

text \<open>CS calls that end beside an IMS control. When the last CS calls end while an IMS control exists, the CS
  control asks for the reason, but the answer goes to the IMS control only: what is reported is what would be
  reported without any CS control, and the CS control with its calls is dropped. So the end of these CS calls
  is never announced.\<close>

theorem cs_end_beside_ims:
  assumes h: "imsControl h = Some c" "csControl h = Some d" "\<not> isDuringRSRVCC h"
    and l: "callSize l = 0" "HasEndCallWithoutReason_cs l d" and env: "e_service e" "e_handler e (slotId h)"
  shows "\<exists>h1 h2 acts. Handler_ReportCsCallsData e l h = (h1, [Ril (RilGetCallFailReason (slotId h))]) \<and>
    csControl h1 = Some d \<and>
    GetCallFailReasonResponse e event h1 = (h2, acts) \<and> csControl h2 = None \<and>
    acts = snd (GetCallFailReasonResponse e event (h1\<lparr>csControl := None\<rparr>))"
  using ask_at_end [OF h(2,3) l env] end_beside_ims [OF h l(1), of e event] h(2)
  by (cases "GetCallFailReasonResponse e event (h\<lparr>currentCsCallInfoList := l\<rparr>)") auto

theorem cs_end_beside_ims_witness:
  "\<exists>h1 h2 acts. Handler_ReportCsCallsData sample_handler_env \<lparr>callSize = 0, calls = []\<rparr>
      (sample_handler\<lparr>imsControl := Some sample_ims_ctl\<rparr>) = (h1, [Ril (RilGetCallFailReason 0)]) \<and>
    csControl h1 = Some sample_cs_ctl \<and>
    GetCallFailReasonResponse sample_handler_env FailNothing h1 = (h2, acts) \<and> csControl h2 = None"
proof -
  have "HasEndCallWithoutReason_cs \<lparr>callSize = 0, calls = []\<rparr> sample_cs_ctl"
    by (simp add: HasEndCallWithoutReason_cs_def sample_cs_ctl_def sample_cs_def ended_without_reason_cs_def)
  with cs_end_beside_ims [of "sample_handler\<lparr>imsControl := Some sample_ims_ctl\<rparr>" sample_ims_ctl sample_cs_ctl
      "\<lparr>callSize = 0, calls = []\<rparr>" sample_handler_env FailNothing]
  show ?thesis by (auto simp: sample_handler_def)
qed

section \<open>SRVCC\<close>

lemma incoming_call_cs_keys: "keys (fold (incoming_call_cs e s) xs t) = keys t \<union> c_index ` set xs"
  by (induction xs arbitrary: t) (auto simp: incoming_call_cs_def SetConnectionData_def)

text \<open>C13: handover of a voice call to CS. While SRVCC is under way, a non-empty IMS list is only remembered: no
  control changes and nothing is reported. Its completion drops the IMS control and its connections. Without
  a CS control before, a new one takes over, and the next CS list, however long, is reported and fills the new table; with
  a CS control before, this one is dropped and none is made, so that a list of two or more calls is ignored.\<close>

theorem srvcc_handover:
  assumes started: "srvccState h = SRVCC_STARTED" and env: "e_register e" "e_cbRegistered e"
  shows "(m_callSize l \<noteq> 0 \<longrightarrow> Handler_ReportImsCallsData e l h = (h\<lparr>currentCallList := l\<rparr>, [])) \<and>
    (\<exists>h1. UpdateSrvccStateReport e (Some SRVCC_COMPLETED) h = h1 \<and>
      imsControl h1 = None \<and> srvccState h1 = SRVCC_NONE \<and> serviceSrvccState h1 = SRVCC_COMPLETED \<and>
      (csControl h = None \<and> callSize cl > 0 \<longrightarrow>
         (\<exists>h2 ctl. Handler_ReportCsCallsData e cl h1 =
            (h2, [ReportCallsInfo \<lparr>callVec = map (EncapsulationCallReportInfo_cs e (slotId h)) (calls cl),
                                   cr_slotId = slotId h\<rparr>]) \<and>
          csControl h2 = Some ctl \<and> keys (csConnectionMap ctl) = c_index ` set (calls cl))) \<and>
      (csControl h \<noteq> None \<and> callSize cl > 1 \<longrightarrow>
         Handler_ReportCsCallsData e cl h1 = (h1\<lparr>currentCsCallInfoList := cl\<rparr>, [])))"
proof (intro conjI impI)
  show "Handler_ReportImsCallsData e l h = (h\<lparr>currentCallList := l\<rparr>, [])" if "m_callSize l \<noteq> 0"
    using that started by (simp add: Handler_ReportImsCallsData_def)
  let ?h1 = "UpdateSrvccStateReport e (Some SRVCC_COMPLETED) h"
  have u: "?h1 = h\<lparr>srvccState := SRVCC_NONE, serviceSrvccState := SRVCC_COMPLETED, isDuringRSRVCC := False,
      csControl := (case csControl h of Some _ \<Rightarrow> None | None \<Rightarrow> Some CSControl_init), imsControl := None\<rparr>"
    using env by (simp add: UpdateSrvccStateReport_def SrvccStateCompleted_def)
  have "\<exists>h2 ctl. Handler_ReportCsCallsData e cl ?h1 =
        (h2, [ReportCallsInfo \<lparr>callVec = map (EncapsulationCallReportInfo_cs e (slotId h)) (calls cl), cr_slotId = slotId h\<rparr>]) \<and>
      csControl h2 = Some ctl \<and> keys (csConnectionMap ctl) = c_index ` set (calls cl)"
    if "csControl h = None" "callSize cl > 0"
  proof -
    let ?ctl = "CSControl_init\<lparr>csConnectionMap := fold (incoming_call_cs e (slotId h)) (calls cl) []\<rparr>"
    have "ReportCsCallsData e (slotId h) cl True CSControl_init = (TELEPHONY_SUCCESS, ?ctl,
        [ReportCallsInfo \<lparr>callVec = map (EncapsulationCallReportInfo_cs e (slotId h)) (calls cl), cr_slotId = slotId h\<rparr>])"
      using that(2) env by (simp add: ReportCsCallsData_def ReportIncomingInfo_cs_def CSControl_init_def Let_def)
    then have "\<exists>h2. Handler_ReportCsCallsData e cl ?h1 =
        (h2, [ReportCallsInfo \<lparr>callVec = map (EncapsulationCallReportInfo_cs e (slotId h)) (calls cl), cr_slotId = slotId h\<rparr>]) \<and>
      csControl h2 = Some ?ctl"
      using that by (auto simp: u Handler_ReportCsCallsData_def Let_def split: option.splits)
    moreover have "keys (csConnectionMap ?ctl) = c_index ` set (calls cl)"
      by (simp add: incoming_call_cs_keys) (simp add: keys_def)
    ultimately show ?thesis by blast
  qed
  moreover have "Handler_ReportCsCallsData e cl ?h1 = (?h1\<lparr>currentCsCallInfoList := cl\<rparr>, [])"
    if "csControl h \<noteq> None" "callSize cl > 1"
    using that by (auto simp: u Handler_ReportCsCallsData_def)
  ultimately show "\<exists>h1. ?h1 = h1 \<and> imsControl h1 = None \<and> srvccState h1 = SRVCC_NONE \<and>
      serviceSrvccState h1 = SRVCC_COMPLETED \<and>
      (csControl h = None \<and> callSize cl > 0 \<longrightarrow>
         (\<exists>h2 ctl. Handler_ReportCsCallsData e cl h1 =
            (h2, [ReportCallsInfo \<lparr>callVec = map (EncapsulationCallReportInfo_cs e (slotId h)) (calls cl),
                                   cr_slotId = slotId h\<rparr>]) \<and>
          csControl h2 = Some ctl \<and> keys (csConnectionMap ctl) = c_index ` set (calls cl))) \<and>
      (csControl h \<noteq> None \<and> callSize cl > 1 \<longrightarrow>
         Handler_ReportCsCallsData e cl h1 = (h1\<lparr>currentCsCallInfoList := cl\<rparr>, []))"
    by (intro exI [of _ ?h1]) (simp add: u)
qed

theorem srvcc_handover_witness:
  "\<exists>h1 h2 ctl vec. UpdateSrvccStateReport sample_handler_env (Some SRVCC_COMPLETED)
      (sample_handler\<lparr>csControl := None, imsControl := Some sample_ims_ctl, srvccState := SRVCC_STARTED\<rparr>) = h1 \<and>
    imsControl h1 = None \<and>
    Handler_ReportCsCallsData sample_handler_env
      \<lparr>callSize = 2, calls = [sample_call 1 CALL_STATUS_ACTIVE, sample_call 2 CALL_STATUS_HOLDING]\<rparr> h1 =
      (h2, [ReportCallsInfo \<lparr>callVec = vec, cr_slotId = 0\<rparr>]) \<and>
    csControl h2 = Some ctl \<and> keys (csConnectionMap ctl) = {1, 2}"
  using srvcc_handover [of "sample_handler\<lparr>csControl := None, imsControl := Some sample_ims_ctl, srvccState := SRVCC_STARTED\<rparr>"
      sample_handler_env "\<lparr>m_callSize = 0, m_flag = 0, m_calls = []\<rparr>"
      "\<lparr>callSize = 2, calls = [sample_call 1 CALL_STATUS_ACTIVE, sample_call 2 CALL_STATUS_HOLDING]\<rparr>"]
  by (auto simp: sample_handler_def sample_call_def)

section \<open>The invariant of a slot\<close>

definition handler_inv :: "CellularCallHandler \<Rightarrow> bool" where
  "handler_inv h \<longleftrightarrow> pred_option cs_inv (csControl h) \<and> pred_option ims_inv (imsControl h) \<and>
     pred_option sat_inv (satelliteControl h)"

text \<open>The events of a slot, and the operations the service calls on the controls of the slot in between.\<close>

inductive handler_step :: "CellularCallHandler \<Rightarrow> CellularCallHandler \<Rightarrow> bool" where
  cs_list: "Handler_ReportCsCallsData (e :: handler_env) l h = (h', acts) \<Longrightarrow> handler_step h h'"
| ims_list: "Handler_ReportImsCallsData (e :: handler_env) m h = (h', acts) \<Longrightarrow> handler_step h h'"
| sat_list: "Handler_ReportSatelliteCallsData (e :: handler_env) t h = (h', acts) \<Longrightarrow> handler_step h h'"
| reason: "GetCallFailReasonResponse (e :: handler_env) ev h = (h', acts) \<Longrightarrow> handler_step h h'"
| srvcc: "handler_step h (UpdateSrvccStateReport (e :: handler_env) st h)"
| rsrvcc: "handler_step h (UpdateRsrvccStateReport h)"
| swap: "SwapCallResponse (e :: handler_env) ty res h = (h', acts) \<Longrightarrow> handler_step h h'"
| post_dial: "Handler_ExecutePostDial (e :: handler_env) d h = (h', acts) \<Longrightarrow> handler_step h h'"
| died: "OnRilAdapterHostDied (e :: handler_env) h = (h', acts) \<Longrightarrow> handler_step h h'"
| cs_op: "csControl h = Some c \<Longrightarrow> cs_step c c' \<Longrightarrow> handler_step h (h\<lparr>csControl := Some c'\<rparr>)"
| ims_op: "imsControl h = Some i \<Longrightarrow> ims_step i i' \<Longrightarrow> handler_step h (h\<lparr>imsControl := Some i'\<rparr>)"
| sat_op: "satelliteControl h = Some s \<Longrightarrow> sat_step s s' \<Longrightarrow> handler_step h (h\<lparr>satelliteControl := Some s'\<rparr>)"
| new_cs: "csControl h = None \<Longrightarrow> handler_step h (h\<lparr>csControl := Some CSControl_init\<rparr>)"
| new_ims: "imsControl h = None \<Longrightarrow> handler_step h (h\<lparr>imsControl := Some (IMSControl_init emc)\<rparr>)"
| new_sat: "satelliteControl h = None \<Longrightarrow> handler_step h (h\<lparr>satelliteControl := Some SatelliteControl_init\<rparr>)"

inductive handler_reachable :: "CellularCallHandler \<Rightarrow> bool" where
  init: "csControl h = None \<Longrightarrow> imsControl h = None \<Longrightarrow> satelliteControl h = None \<Longrightarrow> handler_reachable h"
| step: "handler_reachable h \<Longrightarrow> handler_step h h' \<Longrightarrow> handler_reachable h'"

lemmas control_invs = ReportCsCallsData_inv ReportImsCallsData_inv ReportSatelliteCallsData_inv
  UpdateDisconnectedReason_cs_inv UpdateDisconnectedReason_ims_inv RecoverPendingHold_inv DialAfterHold_inv
  ExecutePostDial_cs_inv ExecutePostDial_ims_inv ReportHangUpInfo_cs_inv ReportHangUpInfo_ims_inv
  ReportHangUpInfo_sat_inv

lemma init_invs [simp]: "cs_inv CSControl_init" "ims_inv (IMSControl_init emc)" "sat_inv SatelliteControl_init"
  by (simp_all add: cs_inv_def CSControl_init_def ims_inv_def IMSControl_init_def sat_inv_def SatelliteControl_init_def
      no_post_dial_def)

lemma Handler_ReportCsCallsData_inv: "handler_inv h \<Longrightarrow> handler_inv (fst (Handler_ReportCsCallsData e l h))"
  by (auto simp: Handler_ReportCsCallsData_def ReportNoCsCallsData_def handler_inv_def case_prod_beta Let_def
      control_invs split: option.splits)

lemma Handler_ReportImsCallsData_inv: "handler_inv h \<Longrightarrow> handler_inv (fst (Handler_ReportImsCallsData e l h))"
  by (auto simp: Handler_ReportImsCallsData_def ReportNoImsCallsData_def handler_inv_def case_prod_beta Let_def
      control_invs split: option.splits)

lemma Handler_ReportSatelliteCallsData_inv: "handler_inv h \<Longrightarrow> handler_inv (fst (Handler_ReportSatelliteCallsData e l h))"
  by (auto simp: Handler_ReportSatelliteCallsData_def handler_inv_def case_prod_beta Let_def
      control_invs split: option.splits)

lemma HandleCallDisconnectReason_inv: "handler_inv h \<Longrightarrow> handler_inv (fst (HandleCallDisconnectReason e r m h))"
  by (auto simp: HandleCallDisconnectReason_def handler_inv_def case_prod_beta Let_def control_invs split: option.splits)

lemma GetCallFailReasonResponse_inv: "handler_inv h \<Longrightarrow> handler_inv (fst (GetCallFailReasonResponse e ev h))"
  by (auto simp: GetCallFailReasonResponse_def case_prod_beta Let_def HandleCallDisconnectReason_inv
      split: FailReasonEvent.splits option.splits)

lemma UpdateSrvccStateReport_inv: "handler_inv h \<Longrightarrow> handler_inv (UpdateSrvccStateReport e st h)"
  by (auto simp: UpdateSrvccStateReport_def SrvccStateCompleted_def handler_inv_def Let_def split: option.splits)

lemma SwapCallResponse_inv: "handler_inv h \<Longrightarrow> handler_inv (fst (SwapCallResponse e ty res h))"
  by (auto simp: SwapCallResponse_def handler_inv_def case_prod_beta Let_def control_invs
      split: option.splits bool.splits)

lemma Handler_ExecutePostDial_inv: "handler_inv h \<Longrightarrow> handler_inv (fst (Handler_ExecutePostDial e d h))"
  by (auto simp: Handler_ExecutePostDial_def handler_inv_def case_prod_beta Let_def control_invs split: option.splits)

lemma OnRilAdapterHostDied_inv: "handler_inv h \<Longrightarrow> handler_inv (fst (OnRilAdapterHostDied e h))"
  by (auto simp: OnRilAdapterHostDied_def handler_inv_def case_prod_beta Let_def control_invs split: option.splits)

lemma handler_step_inv: "handler_step h h' \<Longrightarrow> handler_inv h \<Longrightarrow> handler_inv h'"
proof (induction rule: handler_step.induct)
  case (cs_list e l h h' acts)
  then show ?case using Handler_ReportCsCallsData_inv [of h e l] by simp
next
  case (ims_list e m h h' acts)
  then show ?case using Handler_ReportImsCallsData_inv [of h e m] by simp
next
  case (sat_list e t h h' acts)
  then show ?case using Handler_ReportSatelliteCallsData_inv [of h e t] by simp
next
  case (reason e ev h h' acts)
  then show ?case using GetCallFailReasonResponse_inv [of h e ev] by simp
next
  case (srvcc h e st)
  then show ?case by (rule UpdateSrvccStateReport_inv)
next
  case (swap e ty res h h' acts)
  then show ?case using SwapCallResponse_inv [of h e ty res] by simp
next
  case (post_dial e d h h' acts)
  then show ?case using Handler_ExecutePostDial_inv [of h e d] by simp
next
  case (died e h h' acts)
  then show ?case using OnRilAdapterHostDied_inv [of h e] by simp
qed (simp_all add: handler_inv_def UpdateRsrvccStateReport_def cs_step_inv ims_step_inv sat_step_inv)

lemma handler_reachable_inv: "handler_reachable h \<Longrightarrow> handler_inv h"
  by (induction rule: handler_reachable.induct) (auto simp: handler_inv_def dest: handler_step_inv)

text \<open>The invariant of a slot. However the reports of modem, IMS service and satellite modem, SRVCC notices,
  disconnect reasons, swap answers, post-dial events, adapter deaths and the operations on the controls follow each
  other, each control that exists has its connections sorted by index, stored under their own index, with no
  report flag left.\<close>

theorem handler_invariant:
  assumes "handler_reachable h"
  shows "(\<forall>c. csControl h = Some c \<longrightarrow> sorted_wrt (<) (map fst (csConnectionMap c)) \<and>
      (\<forall>(k, x) \<in> set (csConnectionMap c). index x = k \<and> \<not> flag x)) \<and>
    (\<forall>c. imsControl h = Some c \<longrightarrow> sorted_wrt (<) (map fst (imsConnectionMap c)) \<and>
      (\<forall>(k, x) \<in> set (imsConnectionMap c). index x = k \<and> \<not> flag x)) \<and>
    (\<forall>c. satelliteControl h = Some c \<longrightarrow> sorted_wrt (<) (map fst (satConnectionMap c)) \<and>
      (\<forall>(k, x) \<in> set (satConnectionMap c). index x = k \<and> \<not> flag x))"
  using handler_reachable_inv [OF assms]
  by (auto simp: handler_inv_def cs_inv_def ims_inv_def sat_inv_def table_ok_def omap_ok_def settled_def list_all_iff)

theorem handler_invariant_witness:
  "\<exists>c. csControl (fst (Handler_ReportCsCallsData sample_handler_env
        \<lparr>callSize = 2, calls = [sample_call 2 CALL_STATUS_ACTIVE, sample_call 1 CALL_STATUS_HOLDING]\<rparr>
        (sample_handler\<lparr>csControl := Some CSControl_init\<rparr>))) = Some c \<and>
     sorted_wrt (<) (map fst (csConnectionMap c))"
proof -
  let ?l = "\<lparr>callSize = 2, calls = [sample_call 2 CALL_STATUS_ACTIVE, sample_call 1 CALL_STATUS_HOLDING]\<rparr>"
  let ?h = "sample_handler\<lparr>csControl := Some CSControl_init\<rparr>"
  have "handler_reachable (sample_handler\<lparr>csControl := None\<rparr>)"
    by (rule handler_reachable.init) (simp_all add: sample_handler_def)
  from handler_reachable.step [OF this handler_step.new_cs] have "handler_reachable ?h" by simp
  from handler_reachable.step [OF this handler_step.cs_list [OF prod.collapse [symmetric]]]
  have r: "handler_reachable (fst (Handler_ReportCsCallsData sample_handler_env ?l ?h))" .
  have "csControl (fst (Handler_ReportCsCallsData sample_handler_env ?l ?h)) \<noteq> None"
    by (simp add: Handler_ReportCsCallsData_def Let_def case_prod_beta sample_handler_def split: option.split)
  with handler_invariant [OF r] show ?thesis by blast
qed

end
