(* ===== verification/Supplement.thy ===== *)
theory Supplement
  imports MmiHash SsRequest
begin

text \<open>
  Supplementary services: the senders of \<^verbatim>\<open>services/utils/src/cellular_call_supplement.cpp\<close> (MMI codes
  \<open>HandleClip\<close> \<dots> \<open>HandleCallWaiting\<close> and the settings menu \<open>SetCallTransferInfo\<close> \<dots>
  \<open>SetBarringPassword\<close>, PIN and PUK codes, USSD), and the requests they are made of
  (\<^verbatim>\<open>services/common/src/supplement_request_cs.cpp\<close>, \<^verbatim>\<open>supplement_request_ims.cpp\<close>). A sender takes an index from
  the slot's command table, sends the request over IMS or to the modem, and saves the command
  when the request was accepted.

  The structures of the call manager (\<open>CallTransferInfo\<close>, \<open>MmiCodeInfo\<close>, \<dots>) are outside the
  repository; their records list the fields this code reads or writes, and \<open>e_mmiInit\<close> is the
  default-constructed \<open>MmiCodeInfo\<close>. The settings of call transfer and barring are integers with the values the
  comments of \<open>CheckSetCallTransferInfo\<close> give. The codes 0, 1 and 2 that a report may carry in place of a result
  code are \<open>TELEPHONY_SUCCESS\<close> (which is 0), \<open>RetOther 1\<close> and \<open>RetOther 2\<close>.
  The service singleton is taken to exist, as the code does not test it.
\<close>

section \<open>Structures\<close>

record CallTransferInfo =
  cf_transferNum :: string
  cf_settingType :: int
  cf_type :: int
  cf_startHour :: int
  cf_startMinute :: int
  cf_endHour :: int
  cf_endMinute :: int

record CallTransferParam =
  ct_mode :: int
  ct_reason :: int
  ct_number :: string
  ct_classx :: int

record CallRestrictionParam =
  cr_mode :: int
  cr_fac :: string
  cr_password :: string

datatype CallRestrictionType =
    RESTRICTION_TYPE_ALL_OUTGOING
  | RESTRICTION_TYPE_INTERNATIONAL
  | RESTRICTION_TYPE_INTERNATIONAL_EXCLUDING_HOME
  | RESTRICTION_TYPE_ALL_INCOMING
  | RESTRICTION_TYPE_ROAMING_INCOMING
  | RESTRICTION_TYPE_ALL_CALLS
  | RESTRICTION_TYPE_OUTGOING_SERVICES
  | RESTRICTION_TYPE_INCOMING_SERVICES
  | CallRestrictionType_other int

record CallRestrictionInfo =
  cri_fac :: CallRestrictionType
  cri_mode :: int
  cri_password :: string

record MmiCodeInfo =
  mmi_result :: errcode
  mmi_message :: string
  mmi_mmiCodeType :: int
  mmi_action :: int
  mmi_status :: int
  mmi_classCw :: int
  mmi_reason :: int
  mmi_time :: int
  mmi_number :: string

abbreviation CALL_TRANSFER_DISABLE :: int where "CALL_TRANSFER_DISABLE \<equiv> 0"
abbreviation CALL_TRANSFER_ENABLE :: int where "CALL_TRANSFER_ENABLE \<equiv> 1"
abbreviation CALL_TRANSFER_REGISTRATION :: int where "CALL_TRANSFER_REGISTRATION \<equiv> 3"
abbreviation CALL_TRANSFER_ERASURE :: int where "CALL_TRANSFER_ERASURE \<equiv> 4"

abbreviation TRANSFER_TYPE_UNCONDITIONAL :: int where "TRANSFER_TYPE_UNCONDITIONAL \<equiv> 0"
abbreviation TRANSFER_TYPE_BUSY :: int where "TRANSFER_TYPE_BUSY \<equiv> 1"
abbreviation TRANSFER_TYPE_NO_REPLY :: int where "TRANSFER_TYPE_NO_REPLY \<equiv> 2"
abbreviation TRANSFER_TYPE_NOT_REACHABLE :: int where "TRANSFER_TYPE_NOT_REACHABLE \<equiv> 3"
abbreviation TRANSFER_TYPE_ALL :: int where "TRANSFER_TYPE_ALL \<equiv> 4"
abbreviation TRANSFER_TYPE_CONDITIONAL :: int where "TRANSFER_TYPE_CONDITIONAL \<equiv> 5"

abbreviation RESTRICTION_MODE_DEACTIVATION :: int where "RESTRICTION_MODE_DEACTIVATION \<equiv> 0"
abbreviation RESTRICTION_MODE_ACTIVATION :: int where "RESTRICTION_MODE_ACTIVATION \<equiv> 1"

text \<open>\<^verbatim>\<open>ServiceClassType\<close> and the numbers of \<^verbatim>\<open>mmi_code_message.h\<close>\<close>

abbreviation VOICE :: int where "VOICE \<equiv> 1"
abbreviation FAX :: int where "FAX \<equiv> 4"
abbreviation SHORT_MESSAGE_SERVICE :: int where "SHORT_MESSAGE_SERVICE \<equiv> 8"
abbreviation DATA_CIRCUIT_SYNC :: int where "DATA_CIRCUIT_SYNC \<equiv> 16"
abbreviation DATA_CIRCUIT_ASYNC :: int where "DATA_CIRCUIT_ASYNC \<equiv> 32"
abbreviation DEDICATED_PACKET_ACCESS :: int where "DEDICATED_PACKET_ACCESS \<equiv> 64"
abbreviation DEDICATED_PAD_ACCESS :: int where "DEDICATED_PAD_ACCESS \<equiv> 128"

abbreviation ACTIVATE_ACTION :: int where "ACTIVATE_ACTION \<equiv> 1"
abbreviation DEACTIVATE_ACTION :: int where "DEACTIVATE_ACTION \<equiv> 2"
abbreviation NUM_PRESENTATION_ALLOWED :: int where "NUM_PRESENTATION_ALLOWED \<equiv> 0"
abbreviation NUM_PRESENTATION_RESTRICTED :: int where "NUM_PRESENTATION_RESTRICTED \<equiv> 1"
abbreviation SUB_TYPE_QUERY :: int where "SUB_TYPE_QUERY \<equiv> 0"
abbreviation SUB_TYPE_ACTIVE :: int where "SUB_TYPE_ACTIVE \<equiv> 1"
abbreviation SUB_TYPE_DEACTIVE :: int where "SUB_TYPE_DEACTIVE \<equiv> 2"
abbreviation SC_WAIT :: int where "SC_WAIT \<equiv> 43"
abbreviation SC_CFU :: int where "SC_CFU \<equiv> 21"
abbreviation SC_BAOC :: int where "SC_BAOC \<equiv> 33"
abbreviation SC_CLIP :: int where "SC_CLIP \<equiv> 30"
abbreviation SC_CLIR :: int where "SC_CLIR \<equiv> 31"
abbreviation SC_COLP :: int where "SC_COLP \<equiv> 76"
abbreviation SC_COLR :: int where "SC_COLR \<equiv> 77"
abbreviation SC_USSD :: int where "SC_USSD \<equiv> 10001"

definition MMI_CODE_FAILED :: errcode where "MMI_CODE_FAILED = RetOther 1"
definition USSD_FAILED :: errcode where "USSD_FAILED = RetOther 2"
definition INVALID_MMI_CODE :: string where "INVALID_MMI_CODE = ''Invalid MMI code''"
definition GENERIC_FAILURE :: string where "GENERIC_FAILURE = ''Generic fail, please retry''"
definition MIS_MATCH_PIN_PUK :: string where "MIS_MATCH_PIN_PUK = ''PIN or PUK don'' @ [CHR 0x27] @ ''t match''"
definition INVAILD_PIN_PUK :: string where "INVAILD_PIN_PUK = ''Invaild PIN or PUK numbers''"

section \<open>Requests\<close>

datatype ss_cs_req =
    CsGetClip int int
  | CsSetClir int int int
  | CsGetClir int int
  | CsGetCallTransfer int int int
  | CsSetCallTransfer int CallTransferParam int
  | CsGetCallRestriction int string int
  | CsSetCallRestriction int CallRestrictionParam int
  | CsSetBarringPassword int string string string int
  | CsSetCallWaiting int bool int
  | CsGetCallWaiting int int
  | CsSetUssd int string
  | CsAlterPin int string string
  | CsUnlockPuk int string string
  | CsAlterPin2 int string string
  | CsUnlockPuk2 int string string
  | CsCloseUnFinishedUssd int

datatype ss_ims_req =
    ImsSetClip int int int
  | ImsGetClip int int
  | ImsSetClir int int int
  | ImsGetClir int int
  | ImsGetCallTransfer int int int
  | ImsSetCallTransfer int CallTransferInfo int int
  | ImsCanSetCallTransferTime int
  | ImsGetCallRestriction int string int
  | ImsSetCallRestriction int string int string int
  | ImsSetCallWaiting int bool int int
  | ImsGetCallWaiting int int
  | ImsSetColr int int int
  | ImsGetColr int int
  | ImsSetColp int int int
  | ImsGetColp int int

text \<open>The answers and the reports made of them. The four line-identification services and the two status
  queries have structures of the same shape, which share a record here.\<close>

record SsBaseResult =
  sb_index :: int
  sb_result :: errcode
  sb_reason :: int
  sb_message :: string

record LineResult =
  lr_result :: SsBaseResult
  lr_action :: int
  lr_stat :: int

record LineResponse =
  lp_result :: errcode
  lp_action :: int
  lp_stat :: int

record StatusResult =
  st_result :: SsBaseResult
  st_status :: int
  st_classCw :: int

record StatusResponse =
  sp_result :: errcode
  sp_status :: int
  sp_classCw :: int

record CallForwardQueryResult =
  fq_serial :: int
  fq_result :: errcode
  fq_status :: int
  fq_classx :: int
  fq_number :: string
  fq_type :: int
  fq_reason :: int
  fq_time :: int
  fq_startHour :: int
  fq_startMinute :: int
  fq_endHour :: int
  fq_endMinute :: int

record CallForwardQueryInfoList =
  fl_result :: SsBaseResult
  fl_callSize :: int
  fl_flag :: int
  fl_calls :: "CallForwardQueryResult list"

record CallTransferResponse =
  tr_result :: errcode
  tr_status :: int
  tr_classx :: int
  tr_number :: string
  tr_type :: int
  tr_reason :: int
  tr_time :: int
  tr_startHour :: int
  tr_startMinute :: int
  tr_endHour :: int
  tr_endMinute :: int

text \<open>What a sender or an answer does on the outside: requests, reports through the register, the
  event that carries the answer to a PIN or PUK request, the stored state of call forwarding.\<close>

datatype ss_act =
    SsCs ss_cs_req
  | SsIms ss_ims_req
  | ReportMmiCodeResult MmiCodeInfo
  | ReportGetWaitingResult StatusResponse
  | ReportSetWaitingResult errcode
  | ReportGetTransferResult CallTransferResponse
  | ReportSetTransferResult errcode
  | ReportGetRestrictionResult StatusResponse
  | ReportSetRestrictionResult errcode
  | ReportSetBarringPasswordResult errcode
  | ReportGetClipResult LineResponse
  | ReportGetClirResult LineResponse
  | ReportSetClirResult errcode
  | ReportSendUssdResult int
  | ReportCloseUnFinishedUssdResult errcode
  | ReportCallTransferStatus int bool
  | SetVoiceCallForwarding int bool string
  | SendPinPukEvent int int int

record ss_env = svc_env +
  e_event :: bool
  e_csSs :: "ss_cs_req \<Rightarrow> errcode"
  e_imsSs :: "ss_ims_req \<Rightarrow> errcode"
  e_canSetTime :: bool
  e_pinAnswer :: "ss_cs_req \<Rightarrow> int \<times> int"
  e_ssSendEvent :: bool
  e_phoneGsm :: "int \<Rightarrow> bool"
  e_callWaitingClass :: "int \<Rightarrow> int"
  e_mmiInit :: MmiCodeInfo
  e_mmiMessageSize :: nat
  e_mmiNumberSize :: nat
  e_minHour :: int
  e_minMinute :: int
  e_numberSize :: nat
  e_hiSysEvent :: bool
  e_forwardingInfo :: "int \<times> bool \<times> string"
  e_queryInit :: CallForwardQueryResult
  e_isEmptyMmiResultFiltered :: "(int \<Rightarrow> bool) option"
  e_unescapeHtmlCode :: "(int \<Rightarrow> string \<Rightarrow> string) option"
  e_isUssdReleaseMsgFiltered :: "(int \<Rightarrow> bool) option"
  e_trimStr :: "string \<Rightarrow> string"
  e_showMmiError :: bool
  e_toString :: "int \<Rightarrow> string"

text \<open>A request to the modem first makes the event that carries the answer; a request over IMS needs the
  client.\<close>

definition cs_ss :: "'x ss_env_scheme \<Rightarrow> ss_cs_req \<Rightarrow> errcode \<times> ss_act list" where
  "cs_ss e req = (if \<not> e_event e then (TELEPHONY_ERR_LOCAL_PTR_NULL, []) else (e_csSs e req, [SsCs req]))"

definition ims_ss :: "'x ss_env_scheme \<Rightarrow> ss_ims_req \<Rightarrow> errcode \<times> ss_act list" where
  "ims_ss e req = (if \<not> e_imsClient e then (CALL_ERR_RESOURCE_UNAVAILABLE, []) else (e_imsSs e req, [SsIms req]))"

text \<open>The password buffers hold \<^verbatim>\<open>kMaxNumberLen + 1\<close> characters; the size passed to
  \<^verbatim>\<open>strcpy_s\<close> is the smaller of this and the length with NUL.\<close>

definition copy_password :: "'x svc_env_scheme \<Rightarrow> string \<Rightarrow> string option" where
  "copy_password e s = strcpy_s (min (length (c_str s) + 1) (e_kMaxNumberLen e + 1)) s"

definition SetCallRestrictionRequest_cs ::
    "'x ss_env_scheme \<Rightarrow> int \<Rightarrow> string \<Rightarrow> int \<Rightarrow> string \<Rightarrow> int \<Rightarrow> errcode \<times> ss_act list" where
  "SetCallRestrictionRequest_cs e slotId fac mode pw idx =
     (case copy_password e pw of
        None \<Rightarrow> (TELEPHONY_ERR_STRCPY_FAIL, [])
      | Some p \<Rightarrow> cs_ss e (CsSetCallRestriction slotId \<lparr>cr_mode = mode, cr_fac = fac, cr_password = p\<rparr> idx))"

text \<open>The class of a call-waiting request is not passed on to the modem.\<close>

definition SetCallWaitingRequest_cs ::
    "'x ss_env_scheme \<Rightarrow> int \<Rightarrow> bool \<Rightarrow> int \<Rightarrow> int \<Rightarrow> errcode \<times> ss_act list" where
  "SetCallWaitingRequest_cs e slotId activate classType idx = cs_ss e (CsSetCallWaiting slotId activate idx)"

text \<open>The four PIN and PUK requests differ in the call to the core service alone; a
  refused request is \<^verbatim>\<open>TELEPHONY_ERROR\<close> whatever its code.\<close>

definition pin_request :: "'x ss_env_scheme \<Rightarrow> int \<Rightarrow> ss_cs_req \<Rightarrow> errcode \<times> ss_act list" where
  "pin_request e slotId req =
     (let (result, remain) = e_pinAnswer e req in
      if e_csSs e req = TELEPHONY_SUCCESS then
        if \<not> e_service e \<or> \<not> e_handler e slotId then (TELEPHONY_ERR_LOCAL_PTR_NULL, [SsCs req])
        else if \<not> e_event e then (TELEPHONY_ERR_LOCAL_PTR_NULL, [SsCs req])
        else if \<not> e_ssSendEvent e then (TELEPHONY_ERR_FAIL, [SsCs req])
        else (TELEPHONY_SUCCESS, [SsCs req, SendPinPukEvent slotId result remain])
      else (TELEPHONY_ERROR, [SsCs req]))"

definition AlterPinPassword_cs :: "'x ss_env_scheme \<Rightarrow> int \<Rightarrow> string \<Rightarrow> string \<Rightarrow> errcode \<times> ss_act list" where
  "AlterPinPassword_cs e slotId newPin oldPin = pin_request e slotId (CsAlterPin slotId newPin oldPin)"

definition UnlockPuk_cs :: "'x ss_env_scheme \<Rightarrow> int \<Rightarrow> string \<Rightarrow> string \<Rightarrow> errcode \<times> ss_act list" where
  "UnlockPuk_cs e slotId newPin puk = pin_request e slotId (CsUnlockPuk slotId newPin puk)"

definition AlterPin2Password_cs :: "'x ss_env_scheme \<Rightarrow> int \<Rightarrow> string \<Rightarrow> string \<Rightarrow> errcode \<times> ss_act list" where
  "AlterPin2Password_cs e slotId newPin2 oldPin2 = pin_request e slotId (CsAlterPin2 slotId newPin2 oldPin2)"

definition UnlockPuk2_cs :: "'x ss_env_scheme \<Rightarrow> int \<Rightarrow> string \<Rightarrow> string \<Rightarrow> errcode \<times> ss_act list" where
  "UnlockPuk2_cs e slotId newPin2 puk2 = pin_request e slotId (CsUnlockPuk2 slotId newPin2 puk2)"

definition SendUssdRequest_cs :: "'x ss_env_scheme \<Rightarrow> int \<Rightarrow> string \<Rightarrow> errcode \<times> ss_act list" where
  "SendUssdRequest_cs e slotId msg = (e_csSs e (CsSetUssd slotId msg), [SsCs (CsSetUssd slotId msg)])"

definition CloseUnFinishedUssdRequest_cs :: "'x ss_env_scheme \<Rightarrow> int \<Rightarrow> errcode \<times> ss_act list" where
  "CloseUnFinishedUssdRequest_cs e slotId =
     (e_csSs e (CsCloseUnFinishedUssd slotId), [SsCs (CsCloseUnFinishedUssd slotId)])"

section \<open>Reports of MMI codes\<close>

definition ReportMmiCodeMessage_info :: "'x ss_env_scheme \<Rightarrow> MmiCodeInfo \<Rightarrow> ss_act list" where
  "ReportMmiCodeMessage_info e info = (if e_register e then [ReportMmiCodeResult info] else [])"

definition ReportMmiCodeMessage :: "'x ss_env_scheme \<Rightarrow> errcode \<Rightarrow> string \<Rightarrow> string \<Rightarrow> ss_act list" where
  "ReportMmiCodeMessage e result successMsg failedMsg =
     (case strcpy_s (e_mmiMessageSize e) (if result = TELEPHONY_SUCCESS then successMsg else failedMsg) of
        None \<Rightarrow> []
      | Some m \<Rightarrow> ReportMmiCodeMessage_info e ((e_mmiInit e)\<lparr>mmi_result := result, mmi_message := m\<rparr>))"

section \<open>Codes\<close>

text \<open>\<^verbatim>\<open>atoi\<close>: blanks, a sign, then the digits up to the first other character; a
  value beyond 32 bits wraps.\<close>

fun digits_value :: "int \<Rightarrow> string \<Rightarrow> int" where
  "digits_value acc [] = acc"
| "digits_value acc (c # cs) =
     (if is_digit c then digits_value (10 * acc + (int (of_char c) - 48)) cs else acc)"

definition is_space :: "char \<Rightarrow> bool" where
  "is_space c \<longleftrightarrow> c \<in> set [CHR 0x20, CHR 0x09, CHR 0x0A, CHR 0x0B, CHR 0x0C, CHR 0x0D]"

definition atoi :: "string \<Rightarrow> int" where
  "atoi s =
     (let t = dropWhile is_space s;
          n = (case t of
                 [] \<Rightarrow> 0
               | c # cs \<Rightarrow> if c = CHR ''-'' then - digits_value 0 cs
                           else if c = CHR ''+'' then digits_value 0 cs
                           else digits_value 0 t)
      in sint (word_of_int n :: 32 word))"

definition ObtainServiceCode :: "string \<Rightarrow> int" where
  "ObtainServiceCode info =
     (if info = [] then 0
      else let n = atoi (c_str info) in
        if n = 10 then SHORT_MESSAGE_SERVICE + FAX + VOICE
        else if n = 11 then VOICE
        else if n = 12 then SHORT_MESSAGE_SERVICE + FAX
        else if n = 13 then FAX
        else if n = 16 then SHORT_MESSAGE_SERVICE
        else if n = 19 then FAX + VOICE
        else if n = 20 then DATA_CIRCUIT_ASYNC + DATA_CIRCUIT_SYNC
        else if n = 21 then DEDICATED_PAD_ACCESS + DATA_CIRCUIT_ASYNC
        else if n = 22 then DEDICATED_PACKET_ACCESS + DATA_CIRCUIT_SYNC
        else if n = 24 then DATA_CIRCUIT_SYNC
        else if n = 25 then DATA_CIRCUIT_ASYNC
        else if n = 99 then DEDICATED_PACKET_ACCESS
        else 0)"

text \<open>A \<^verbatim>\<open>switch\<close> over the 64-bit hash of a text, its cases the hashes of constants.\<close>

fun hash_switch :: "string \<Rightarrow> (string \<times> 'a) list \<Rightarrow> 'a option" where
  "hash_switch s [] = None"
| "hash_switch s ((c, v) # cs) =
     (if Hash s = HashCompileTime c cellular_call_b then Some v else hash_switch s cs)"

definition ObtainCallTrasferAction :: "string \<Rightarrow> string \<Rightarrow> int option" where
  "ObtainCallTrasferAction action phoneNumber =
     hash_switch action
       [(''*'', if phoneNumber = [] then CALL_TRANSFER_ENABLE else CALL_TRANSFER_REGISTRATION),
        (''#'', CALL_TRANSFER_DISABLE),
        (''**'', CALL_TRANSFER_REGISTRATION),
        (''##'', CALL_TRANSFER_ERASURE)]"

text \<open>The code of an unknown cause is \<^verbatim>\<open>TELEPHONY_ERROR\<close>, which is \<open>-1\<close>.\<close>

definition ObtainCause :: "string \<Rightarrow> int" where
  "ObtainCause actionStr =
     (if actionStr = [] then -1
      else case hash_switch actionStr
        [(''21'', TRANSFER_TYPE_UNCONDITIONAL), (''67'', TRANSFER_TYPE_BUSY), (''61'', TRANSFER_TYPE_NO_REPLY),
         (''62'', TRANSFER_TYPE_NOT_REACHABLE), (''002'', TRANSFER_TYPE_ALL), (''004'', TRANSFER_TYPE_CONDITIONAL)] of
          Some n \<Rightarrow> n | None \<Rightarrow> -1)"

definition ObtainBarringInstallation :: "string \<Rightarrow> string" where
  "ObtainBarringInstallation info =
     (if info = [] then []
      else case hash_switch info
        [(''33'', ''AO''), (''331'', ''OI''), (''332'', ''OX''), (''351'', ''IR''), (''35'', ''AI''),
         (''330'', ''AB''), (''333'', ''AG''), (''353'', ''AC'')] of
          Some f \<Rightarrow> f | None \<Rightarrow> [])"

definition CheckCallRestrictionType :: "CallRestrictionType \<Rightarrow> string option" where
  "CheckCallRestrictionType facType =
     (case facType of
        RESTRICTION_TYPE_ALL_OUTGOING \<Rightarrow> Some ''AO''
      | RESTRICTION_TYPE_INTERNATIONAL \<Rightarrow> Some ''OI''
      | RESTRICTION_TYPE_INTERNATIONAL_EXCLUDING_HOME \<Rightarrow> Some ''OX''
      | RESTRICTION_TYPE_ALL_INCOMING \<Rightarrow> Some ''AI''
      | RESTRICTION_TYPE_ROAMING_INCOMING \<Rightarrow> Some ''IR''
      | RESTRICTION_TYPE_ALL_CALLS \<Rightarrow> Some ''AB''
      | RESTRICTION_TYPE_OUTGOING_SERVICES \<Rightarrow> Some ''AG''
      | RESTRICTION_TYPE_INCOMING_SERVICES \<Rightarrow> Some ''AC''
      | CallRestrictionType_other _ \<Rightarrow> None)"

section \<open>MMI codes\<close>

text \<open>The text that every sender of an MMI command repeats: an empty action and a missing handler are reported as failures;
  otherwise an index is taken, the request made from it is sent, a refusal is reported and an accepted command is saved.\<close>

definition mmi_guard ::
    "'x ss_env_scheme \<Rightarrow> int \<Rightarrow> string \<Rightarrow> 'h \<Rightarrow> ('h \<Rightarrow> 'h \<times> ss_act list) \<Rightarrow> 'h \<times> ss_act list" where
  "mmi_guard e slotId act h body =
     (if act = [] then (h, ReportMmiCodeMessage e MMI_CODE_FAILED [] INVALID_MMI_CODE)
      else if \<not> e_handler e slotId then (h, ReportMmiCodeMessage e MMI_CODE_FAILED [] GENERIC_FAILURE)
      else body h)"

definition finish_mmi ::
    "'x ss_env_scheme \<Rightarrow> SsRequestCommand \<Rightarrow> int \<Rightarrow> errcode \<times> ss_act list \<Rightarrow> 'h CommandTable_scheme \<Rightarrow>
     'h CommandTable_scheme \<times> ss_act list" where
  "finish_mmi e cmd idx res h =
     (if fst res \<noteq> TELEPHONY_SUCCESS
      then (h, snd res @ ReportMmiCodeMessage e MMI_CODE_FAILED [] GENERIC_FAILURE)
      else (SaveSsRequestCommand cmd idx h, snd res))"

definition HandleClip_supp ::
    "'x ss_env_scheme \<Rightarrow> int \<Rightarrow> MMIData \<Rightarrow> 'h CommandTable_scheme \<Rightarrow> 'h CommandTable_scheme \<times> ss_act list" where
  "HandleClip_supp e slotId d h0 = mmi_guard e slotId (actionString d) h0 (\<lambda>h.
     let (idx, h1) = RequestSsRequestCommandIndex h; utCommand = SsRequestCommand_init in
     if actionString d = ''*'' then
       finish_mmi e (utCommand\<lparr>ss_action := ACTIVATE_ACTION\<rparr>) idx (ims_ss e (ImsSetClip slotId ACTIVATE_ACTION idx)) h1
     else if actionString d = ''#'' then
       finish_mmi e (utCommand\<lparr>ss_action := DEACTIVATE_ACTION\<rparr>) idx (ims_ss e (ImsSetClip slotId DEACTIVATE_ACTION idx)) h1
     else if actionString d = ''*#'' then
       finish_mmi e utCommand idx
         (if NeedCallImsService e then ims_ss e (ImsGetClip slotId idx) else cs_ss e (CsGetClip slotId idx)) h1
     else finish_mmi e utCommand idx (TELEPHONY_ERROR, []) h1)"

definition HandleClir_supp ::
    "'x ss_env_scheme \<Rightarrow> int \<Rightarrow> MMIData \<Rightarrow> 'h CommandTable_scheme \<Rightarrow> 'h CommandTable_scheme \<times> ss_act list" where
  "HandleClir_supp e slotId d h0 = mmi_guard e slotId (actionString d) h0 (\<lambda>h.
     let (idx, h1) = RequestSsRequestCommandIndex h; utCommand = SsRequestCommand_init in
     if actionString d = ''*'' then
       finish_mmi e (utCommand\<lparr>ss_action := ACTIVATE_ACTION\<rparr>) idx
         (if NeedCallImsService e then ims_ss e (ImsSetClir slotId ACTIVATE_ACTION idx)
          else cs_ss e (CsSetClir slotId ACTIVATE_ACTION idx)) h1
     else if actionString d = ''#'' then
       finish_mmi e (utCommand\<lparr>ss_action := DEACTIVATE_ACTION\<rparr>) idx
         (if NeedCallImsService e then ims_ss e (ImsSetClir slotId DEACTIVATE_ACTION idx)
          else cs_ss e (CsSetClir slotId DEACTIVATE_ACTION idx)) h1
     else if actionString d = ''*#'' then
       finish_mmi e utCommand idx
         (if NeedCallImsService e then ims_ss e (ImsGetClir slotId idx) else cs_ss e (CsGetClir slotId idx)) h1
     else finish_mmi e utCommand idx (TELEPHONY_ERROR, []) h1)"

definition HandleColr_supp ::
    "'x ss_env_scheme \<Rightarrow> int \<Rightarrow> MMIData \<Rightarrow> 'h CommandTable_scheme \<Rightarrow> 'h CommandTable_scheme \<times> ss_act list" where
  "HandleColr_supp e slotId d h0 = mmi_guard e slotId (actionString d) h0 (\<lambda>h.
     let (idx, h1) = RequestSsRequestCommandIndex h; utCommand = SsRequestCommand_init;
         ims = (\<lambda>req. if NeedCallImsService e then ims_ss e req else (TELEPHONY_ERROR, [])) in
     if actionString d = ''*'' then
       finish_mmi e (utCommand\<lparr>ss_action := ACTIVATE_ACTION\<rparr>) idx (ims (ImsSetColr slotId NUM_PRESENTATION_ALLOWED idx)) h1
     else if actionString d = ''#'' then
       finish_mmi e (utCommand\<lparr>ss_action := DEACTIVATE_ACTION\<rparr>) idx (ims (ImsSetColr slotId NUM_PRESENTATION_RESTRICTED idx)) h1
     else if actionString d = ''*#'' then finish_mmi e utCommand idx (ims (ImsGetColr slotId idx)) h1
     else finish_mmi e utCommand idx (TELEPHONY_ERROR, []) h1)"

definition HandleColp_supp ::
    "'x ss_env_scheme \<Rightarrow> int \<Rightarrow> MMIData \<Rightarrow> 'h CommandTable_scheme \<Rightarrow> 'h CommandTable_scheme \<times> ss_act list" where
  "HandleColp_supp e slotId d h0 = mmi_guard e slotId (actionString d) h0 (\<lambda>h.
     let (idx, h1) = RequestSsRequestCommandIndex h; utCommand = SsRequestCommand_init;
         ims = (\<lambda>req. if NeedCallImsService e then ims_ss e req else (TELEPHONY_ERROR, [])) in
     if actionString d = ''*'' then
       finish_mmi e (utCommand\<lparr>ss_action := ACTIVATE_ACTION\<rparr>) idx (ims (ImsSetColp slotId ACTIVATE_ACTION idx)) h1
     else if actionString d = ''#'' then
       finish_mmi e (utCommand\<lparr>ss_action := DEACTIVATE_ACTION\<rparr>) idx (ims (ImsSetColp slotId DEACTIVATE_ACTION idx)) h1
     else if actionString d = ''*#'' then finish_mmi e utCommand idx (ims (ImsGetColp slotId idx)) h1
     else finish_mmi e utCommand idx (TELEPHONY_ERROR, []) h1)"

text \<open>Call transfer. The destination is copied into the \<^verbatim>\<open>kMaxNumberLen\<close> characters of a zeroed
  \<^verbatim>\<open>transferNum\<close>; telemetry of a changed forwarding is left out.\<close>

definition CallTransferInfo_mmi :: "'x ss_env_scheme \<Rightarrow> string \<Rightarrow> int \<Rightarrow> int \<Rightarrow> CallTransferInfo" where
  "CallTransferInfo_mmi e phoneNumber action cause =
     \<lparr>cf_transferNum = phoneNumber, cf_settingType = action, cf_type = cause,
      cf_startHour = e_minHour e, cf_startMinute = e_minMinute e,
      cf_endHour = e_minHour e, cf_endMinute = e_minMinute e\<rparr>"

definition HandleGetCallTransfer ::
    "'x ss_env_scheme \<Rightarrow> int \<Rightarrow> int \<Rightarrow> 'h CommandTable_scheme \<Rightarrow> 'h CommandTable_scheme \<times> ss_act list" where
  "HandleGetCallTransfer e slotId cause h =
     (if \<not> e_handler e slotId then (h, ReportMmiCodeMessage e MMI_CODE_FAILED [] GENERIC_FAILURE)
      else let (idx, h1) = RequestSsRequestCommandIndex h in
        finish_mmi e (SsRequestCommand_init\<lparr>ss_cfReason := cause\<rparr>) idx
          (if NeedCallImsService e then ims_ss e (ImsGetCallTransfer slotId cause idx)
           else cs_ss e (CsGetCallTransfer slotId cause idx)) h1)"

definition HandleSetCallTransfer ::
    "'x ss_env_scheme \<Rightarrow> int \<Rightarrow> int \<Rightarrow> int \<Rightarrow> string \<Rightarrow> int \<Rightarrow> 'h CommandTable_scheme \<Rightarrow> 'h CommandTable_scheme \<times> ss_act list" where
  "HandleSetCallTransfer e slotId svcCode cause phoneNumber action h =
     (if \<not> e_handler e slotId then (h, ReportMmiCodeMessage e MMI_CODE_FAILED [] GENERIC_FAILURE)
      else
        let utCommand = SsRequestCommand_init
              \<lparr>ss_cfReason := cause, ss_cfAction := action, ss_action := action, ss_number := phoneNumber\<rparr>;
            (idx, h1) = RequestSsRequestCommandIndex h in
        if NeedCallImsService e then
          if length phoneNumber > e_kMaxNumberLen e
          then (h1, ReportMmiCodeMessage e MMI_CODE_FAILED [] GENERIC_FAILURE)
          else finish_mmi e utCommand idx
                 (ims_ss e (ImsSetCallTransfer slotId (CallTransferInfo_mmi e phoneNumber action cause) svcCode idx)) h1
        else finish_mmi e utCommand idx
               (cs_ss e (CsSetCallTransfer slotId
                  \<lparr>ct_mode = action, ct_reason = cause, ct_number = phoneNumber, ct_classx = svcCode\<rparr> idx)) h1)"

definition HandleCallTransfer_supp ::
    "'x ss_env_scheme \<Rightarrow> int \<Rightarrow> MMIData \<Rightarrow> 'h CommandTable_scheme \<Rightarrow> 'h CommandTable_scheme \<times> ss_act list" where
  "HandleCallTransfer_supp e slotId d h =
     (let svcCode = ObtainServiceCode (serviceInfoB d); cause = ObtainCause (serviceCode d) in
      if actionString d = ''*#'' then HandleGetCallTransfer e slotId cause h
      else if actionString d = [] then (h, ReportMmiCodeMessage e MMI_CODE_FAILED [] INVALID_MMI_CODE)
      else case ObtainCallTrasferAction (actionString d) (serviceInfoA d) of
        None \<Rightarrow> (h, ReportMmiCodeMessage e MMI_CODE_FAILED [] GENERIC_FAILURE)
      | Some action \<Rightarrow> HandleSetCallTransfer e slotId svcCode cause (serviceInfoA d) action h)"

text \<open>A password that does not fit ends \<^verbatim>\<open>HandleCallRestriction\<close> without a request or a report.\<close>

definition HandleCallRestriction_supp ::
    "'x ss_env_scheme \<Rightarrow> int \<Rightarrow> MMIData \<Rightarrow> 'h CommandTable_scheme \<Rightarrow> 'h CommandTable_scheme \<times> ss_act list" where
  "HandleCallRestriction_supp e slotId d h0 = mmi_guard e slotId (actionString d) h0 (\<lambda>h.
     let facType = ObtainBarringInstallation (serviceCode d);
         utCommand = SsRequestCommand_init\<lparr>ss_facility := facType\<rparr>;
         (idx, h1) = RequestSsRequestCommandIndex h in
     if actionString d = ''*#'' then
       finish_mmi e (utCommand\<lparr>ss_action := 0\<rparr>) idx
         (if NeedCallImsService e then ims_ss e (ImsGetCallRestriction slotId facType idx)
          else cs_ss e (CsGetCallRestriction slotId facType idx)) h1
     else if actionString d = ''*'' \<or> actionString d = ''#'' then
       (let enable = (actionString d = ''*''); mode = of_bool enable in
        case copy_password e (serviceInfoA d) of
          None \<Rightarrow> (h1, [])
        | Some p \<Rightarrow>
            finish_mmi e (utCommand\<lparr>ss_enable := enable, ss_password := p,
                ss_action := (if enable then SUB_TYPE_ACTIVE else SUB_TYPE_DEACTIVE)\<rparr>) idx
              (if NeedCallImsService e then ims_ss e (ImsSetCallRestriction slotId facType mode (serviceInfoA d) idx)
               else SetCallRestrictionRequest_cs e slotId facType mode (serviceInfoA d) idx) h1)
     else finish_mmi e utCommand idx (TELEPHONY_ERROR, []) h1)"

definition HandleCallWaiting_supp ::
    "'x ss_env_scheme \<Rightarrow> int \<Rightarrow> MMIData \<Rightarrow> 'h CommandTable_scheme \<Rightarrow> 'h CommandTable_scheme \<times> ss_act list" where
  "HandleCallWaiting_supp e slotId d h0 = mmi_guard e slotId (actionString d) h0 (\<lambda>h.
     let classType = ObtainServiceCode (serviceInfoA d);
         utCommand = SsRequestCommand_init\<lparr>ss_classType := classType\<rparr>;
         (idx, h1) = RequestSsRequestCommandIndex h;
         activate = (actionString d = ''*'') in
     if activate \<or> actionString d = ''#'' then
       finish_mmi e (utCommand\<lparr>ss_enable := activate, ss_action := of_bool activate\<rparr>) idx
         (if NeedCallImsService e then ims_ss e (ImsSetCallWaiting slotId activate classType idx)
          else SetCallWaitingRequest_cs e slotId activate classType idx) h1
     else if actionString d = ''*#'' then
       finish_mmi e utCommand idx
         (if NeedCallImsService e then ims_ss e (ImsGetCallWaiting slotId idx)
          else cs_ss e (CsGetCallWaiting slotId idx)) h1
     else finish_mmi e utCommand idx (TELEPHONY_ERROR, []) h1)"

section \<open>PIN, PUK and USSD\<close>

abbreviation PIN_PUK_MIN :: nat where "PIN_PUK_MIN \<equiv> 4"
abbreviation PIN_PUK_MAX :: nat where "PIN_PUK_MAX \<equiv> 8"

definition IsVaildPinOrPuk :: "'x ss_env_scheme \<Rightarrow> string \<Rightarrow> string \<Rightarrow> bool \<times> ss_act list" where
  "IsVaildPinOrPuk e newPinOrPuk newPinOrPukCheck =
     (if newPinOrPuk \<noteq> newPinOrPukCheck
      then (False, ReportMmiCodeMessage e MMI_CODE_FAILED [] MIS_MATCH_PIN_PUK)
      else if length newPinOrPuk < PIN_PUK_MIN \<or> length newPinOrPuk > PIN_PUK_MAX
      then (False, ReportMmiCodeMessage e MMI_CODE_FAILED [] INVAILD_PIN_PUK)
      else (True, []))"

definition change_pin ::
    "'x ss_env_scheme \<Rightarrow> MMIData \<Rightarrow> (string \<Rightarrow> string \<Rightarrow> errcode \<times> ss_act list) \<Rightarrow> ss_act list" where
  "change_pin e d req =
     (if actionString d = [] then []
      else
        let (valid, acts) = IsVaildPinOrPuk e (serviceInfoB d) (serviceInfoC d) in
        if \<not> valid then acts
        else
          let (result, racts) = req (serviceInfoB d) (serviceInfoA d) in
          acts @ racts @
          (if result \<noteq> TELEPHONY_SUCCESS then ReportMmiCodeMessage e MMI_CODE_FAILED [] GENERIC_FAILURE else []))"

definition AlterPinPassword_supp :: "'x ss_env_scheme \<Rightarrow> int \<Rightarrow> MMIData \<Rightarrow> ss_act list" where
  "AlterPinPassword_supp e slotId d = change_pin e d (AlterPinPassword_cs e slotId)"

definition UnlockPuk_supp :: "'x ss_env_scheme \<Rightarrow> int \<Rightarrow> MMIData \<Rightarrow> ss_act list" where
  "UnlockPuk_supp e slotId d = change_pin e d (UnlockPuk_cs e slotId)"

definition AlterPin2Password_supp :: "'x ss_env_scheme \<Rightarrow> int \<Rightarrow> MMIData \<Rightarrow> ss_act list" where
  "AlterPin2Password_supp e slotId d = change_pin e d (AlterPin2Password_cs e slotId)"

definition UnlockPuk2_supp :: "'x ss_env_scheme \<Rightarrow> int \<Rightarrow> MMIData \<Rightarrow> ss_act list" where
  "UnlockPuk2_supp e slotId d = change_pin e d (UnlockPuk2_cs e slotId)"

text \<open>A failed copy leaves the empty message, and the report goes on.\<close>

definition copy_or_empty :: "nat \<Rightarrow> string \<Rightarrow> string" where
  "copy_or_empty n s = (case strcpy_s n s of Some t \<Rightarrow> t | None \<Rightarrow> [])"

definition SendUssd_supp :: "'x ss_env_scheme \<Rightarrow> int \<Rightarrow> string \<Rightarrow> errcode \<times> ss_act list" where
  "SendUssd_supp e slotId msg =
     (let (result, acts) = SendUssdRequest_cs e slotId msg in
      if result \<noteq> TELEPHONY_SUCCESS then
        (result, acts @ ReportMmiCodeMessage_info e ((e_mmiInit e)
           \<lparr>mmi_result := USSD_FAILED, mmi_mmiCodeType := SC_USSD,
            mmi_message := copy_or_empty (e_mmiMessageSize e) GENERIC_FAILURE\<rparr>))
      else (result, acts))"

definition CloseUnFinishedUssd_supp :: "'x ss_env_scheme \<Rightarrow> int \<Rightarrow> errcode \<times> ss_act list" where
  "CloseUnFinishedUssd_supp e slotId =
     (if \<not> e_phoneGsm e slotId then (CALL_ERR_UNSUPPORTED_NETWORK_TYPE, [])
      else CloseUnFinishedUssdRequest_cs e slotId)"

section \<open>The settings menu\<close>

text \<open>The senders of the settings menu share: without a handler nothing is sent; over IMS an index is
  taken, the request sent, and an accepted command saved; otherwise the network must be GSM and the same
  happens with the modem.\<close>

definition finish_setting ::
    "SsRequestCommand \<Rightarrow> int \<Rightarrow> errcode \<times> ss_act list \<Rightarrow> 'h CommandTable_scheme \<Rightarrow>
     errcode \<times> 'h CommandTable_scheme \<times> ss_act list" where
  "finish_setting cmd idx res h =
     (fst res, (if fst res = TELEPHONY_SUCCESS then SaveSsRequestCommand cmd idx h else h), snd res)"

definition send_setting ::
    "'x ss_env_scheme \<Rightarrow> int \<Rightarrow> SsRequestCommand \<Rightarrow> (int \<Rightarrow> errcode \<times> ss_act list) \<Rightarrow> (int \<Rightarrow> errcode \<times> ss_act list) \<Rightarrow>
     'h CommandTable_scheme \<Rightarrow> errcode \<times> 'h CommandTable_scheme \<times> ss_act list" where
  "send_setting e slotId cmd ims cs h =
     (if NeedCallImsService e then
        let (idx, h1) = RequestSsRequestCommandIndex h in finish_setting cmd idx (ims idx) h1
      else if \<not> e_phoneGsm e slotId then (CALL_ERR_UNSUPPORTED_NETWORK_TYPE, h, [])
      else let (idx, h1) = RequestSsRequestCommandIndex h in finish_setting cmd idx (cs idx) h1)"

definition setting_init :: SsRequestCommand where
  "setting_init = SsRequestCommand_init\<lparr>ss_flag := SS_FROM_SETTING_MENU\<rparr>"

definition CheckSetCallTransferInfo :: "CallTransferInfo \<Rightarrow> errcode" where
  "CheckSetCallTransferInfo cfInfo =
     (if cf_transferNum cfInfo = [] then TELEPHONY_ERR_ARGUMENT_INVALID
      else if cf_type cfInfo > TRANSFER_TYPE_NOT_REACHABLE \<or> cf_type cfInfo < TRANSFER_TYPE_UNCONDITIONAL \<or>
        cf_settingType cfInfo > CALL_TRANSFER_ERASURE \<or> cf_settingType cfInfo < CALL_TRANSFER_DISABLE
      then CALL_ERR_PARAMETER_OUT_OF_RANGE
      else TELEPHONY_SUCCESS)"

definition SetCallTransferInfo ::
    "'x ss_env_scheme \<Rightarrow> int \<Rightarrow> CallTransferInfo \<Rightarrow> 'h CommandTable_scheme \<Rightarrow>
     errcode \<times> 'h CommandTable_scheme \<times> ss_act list" where
  "SetCallTransferInfo e slotId cfInfo h =
     (let result = CheckSetCallTransferInfo cfInfo; dialString = cf_transferNum cfInfo in
      if result \<noteq> TELEPHONY_SUCCESS then (result, h, [])
      else if \<not> e_handler e slotId then (TELEPHONY_ERR_LOCAL_PTR_NULL, h, [])
      else send_setting e slotId
        (setting_init\<lparr>ss_number := dialString, ss_cfAction := cf_settingType cfInfo, ss_cfReason := cf_type cfInfo,
           ss_classType := VOICE\<rparr>)
        (\<lambda>idx. ims_ss e (ImsSetCallTransfer slotId cfInfo VOICE idx))
        (\<lambda>idx. cs_ss e (CsSetCallTransfer slotId
           \<lparr>ct_mode = cf_settingType cfInfo, ct_reason = cf_type cfInfo, ct_number = dialString, ct_classx = VOICE\<rparr> idx)) h)"

text \<open>\<open>CanSetCallTransferTime\<close> gives the code and the out-parameter.\<close>

definition CanSetCallTransferTime :: "'x ss_env_scheme \<Rightarrow> int \<Rightarrow> bool \<Rightarrow> errcode \<times> bool \<times> ss_act list" where
  "CanSetCallTransferTime e slotId result =
     (if \<not> NeedCallImsService e then (CALL_ERR_RESOURCE_UNAVAILABLE, result, [])
      else let (ret, acts) = ims_ss e (ImsCanSetCallTransferTime slotId) in
        (ret, (if acts = [] then result else e_canSetTime e), acts))"

definition GetCallTransferInfo ::
    "'x ss_env_scheme \<Rightarrow> int \<Rightarrow> int \<Rightarrow> bool \<Rightarrow> 'h CommandTable_scheme \<Rightarrow>
     errcode \<times> 'h CommandTable_scheme \<times> ss_act list" where
  "GetCallTransferInfo e slotId type isIncludeCallForwardingNumber h =
     (if \<not> e_handler e slotId then (TELEPHONY_ERR_LOCAL_PTR_NULL, h, [])
      else send_setting e slotId
        (setting_init\<lparr>ss_cfReason := type, ss_isIncludeCallForwardingNumber := isIncludeCallForwardingNumber\<rparr>)
        (\<lambda>idx. ims_ss e (ImsGetCallTransfer slotId type idx))
        (\<lambda>idx. cs_ss e (CsGetCallTransfer slotId type idx)) h)"

definition SetCallWaiting ::
    "'x ss_env_scheme \<Rightarrow> int \<Rightarrow> bool \<Rightarrow> 'h CommandTable_scheme \<Rightarrow>
     errcode \<times> 'h CommandTable_scheme \<times> ss_act list" where
  "SetCallWaiting e slotId activate h =
     (if \<not> e_handler e slotId then (TELEPHONY_ERR_LOCAL_PTR_NULL, h, [])
      else let classType = e_callWaitingClass e slotId in
        send_setting e slotId
          (setting_init\<lparr>ss_classType := classType, ss_enable := activate, ss_action := of_bool activate\<rparr>)
          (\<lambda>idx. ims_ss e (ImsSetCallWaiting slotId activate classType idx))
          (\<lambda>idx. SetCallWaitingRequest_cs e slotId activate classType idx) h)"

definition GetCallWaiting ::
    "'x ss_env_scheme \<Rightarrow> int \<Rightarrow> 'h CommandTable_scheme \<Rightarrow>
     errcode \<times> 'h CommandTable_scheme \<times> ss_act list" where
  "GetCallWaiting e slotId h =
     (if \<not> e_handler e slotId then (TELEPHONY_ERR_LOCAL_PTR_NULL, h, [])
      else send_setting e slotId setting_init
        (\<lambda>idx. ims_ss e (ImsGetCallWaiting slotId idx)) (\<lambda>idx. cs_ss e (CsGetCallWaiting slotId idx)) h)"

definition SetCallRestriction ::
    "'x ss_env_scheme \<Rightarrow> int \<Rightarrow> CallRestrictionInfo \<Rightarrow> 'h CommandTable_scheme \<Rightarrow>
     errcode \<times> 'h CommandTable_scheme \<times> ss_act list" where
  "SetCallRestriction e slotId cRInfo h =
     (case CheckCallRestrictionType (cri_fac cRInfo) of
        None \<Rightarrow> (CALL_ERR_PARAMETER_OUT_OF_RANGE, h, [])
      | Some fac \<Rightarrow>
          if cri_mode cRInfo < RESTRICTION_MODE_DEACTIVATION \<or> cri_mode cRInfo > RESTRICTION_MODE_ACTIVATION
          then (CALL_ERR_PARAMETER_OUT_OF_RANGE, h, [])
          else if \<not> e_handler e slotId then (TELEPHONY_ERR_LOCAL_PTR_NULL, h, [])
          else case copy_password e (cri_password cRInfo) of
            None \<Rightarrow> (TELEPHONY_ERR_STRCPY_FAIL, h, [])
          | Some p \<Rightarrow>
              send_setting e slotId
                (setting_init\<lparr>ss_facility := fac, ss_enable := (cri_mode cRInfo \<noteq> 0), ss_action := cri_mode cRInfo,
                   ss_password := p\<rparr>)
                (\<lambda>idx. ims_ss e (ImsSetCallRestriction slotId fac (cri_mode cRInfo) (cri_password cRInfo) idx))
                (\<lambda>idx. SetCallRestrictionRequest_cs e slotId fac (cri_mode cRInfo) (cri_password cRInfo) idx) h)"

definition GetCallRestriction ::
    "'x ss_env_scheme \<Rightarrow> int \<Rightarrow> CallRestrictionType \<Rightarrow> 'h CommandTable_scheme \<Rightarrow>
     errcode \<times> 'h CommandTable_scheme \<times> ss_act list" where
  "GetCallRestriction e slotId facType h =
     (case CheckCallRestrictionType facType of
        None \<Rightarrow> (CALL_ERR_PARAMETER_OUT_OF_RANGE, h, [])
      | Some fac \<Rightarrow>
          if \<not> e_handler e slotId then (TELEPHONY_ERR_LOCAL_PTR_NULL, h, [])
          else send_setting e slotId (setting_init\<lparr>ss_facility := fac\<rparr>)
            (\<lambda>idx. ims_ss e (ImsGetCallRestriction slotId fac idx))
            (\<lambda>idx. cs_ss e (CsGetCallRestriction slotId fac idx)) h)"

definition SetBarringPassword ::
    "'x ss_env_scheme \<Rightarrow> int \<Rightarrow> CallRestrictionType \<Rightarrow> string \<Rightarrow> string \<Rightarrow> 'h CommandTable_scheme \<Rightarrow>
     errcode \<times> 'h CommandTable_scheme \<times> ss_act list" where
  "SetBarringPassword e slotId facType oldPassword newPassword h =
     (case CheckCallRestrictionType facType of
        None \<Rightarrow> (CALL_ERR_PARAMETER_OUT_OF_RANGE, h, [])
      | Some fac \<Rightarrow>
          if \<not> e_handler e slotId then (TELEPHONY_ERR_LOCAL_PTR_NULL, h, [])
          else if \<not> e_phoneGsm e slotId then (CALL_ERR_UNSUPPORTED_NETWORK_TYPE, h, [])
          else let (idx, h1) = RequestSsRequestCommandIndex h in
            finish_setting (setting_init\<lparr>ss_facility := fac\<rparr>) idx
              (cs_ss e (CsSetBarringPassword slotId oldPassword newPassword fac idx)) h1)"

end
