(* ===== verification/SupplementAnswers.thy ===== *)
theory SupplementAnswers
  imports Supplement
begin

text \<open>
  The answers to supplementary-service commands: the \<^verbatim>\<open>...Response\<close> functions of
  \<^verbatim>\<open>services/manager/src/cellular_call_handler.cpp\<close> take the command of the answer's index out of the
  table, and the \<^verbatim>\<open>Event...\<close> functions of
  \<^verbatim>\<open>services/utils/src/cellular_call_supplement.cpp\<close> report the result, as an MMI result or to the settings menu after
  the command's flag. Before that, \<^verbatim>\<open>services/ims_service_interaction/src/ims_call_callback_stub.cpp\<close> sends
  a request that the IMS service answers with \<^verbatim>\<open>IMS_ERROR_UT_CS_FALLBACK\<close> again, over CS.

  \<open>e_forwardingInfo\<close> is the slot, state and number that \<^verbatim>\<open>CellularCallHiSysEvent\<close> remembers of
  the last call-transfer setting of the settings menu. An answer without its object is dropped and is not modelled.
\<close>

section \<open>Reports\<close>

definition ut_result :: "errcode \<Rightarrow> errcode" where
  "ut_result r = (if r = IMS_ERROR_UT_NO_CONNECTION then CALL_ERR_UT_NO_CONNECTION else r)"

definition mmi_message_of :: "'x ss_env_scheme \<Rightarrow> string \<Rightarrow> string" where
  "mmi_message_of e m = copy_or_empty (e_mmiMessageSize e) m"

definition EventGetCallWaiting :: "'x ss_env_scheme \<Rightarrow> StatusResult \<Rightarrow> string \<Rightarrow> int \<Rightarrow> ss_act list" where
  "EventGetCallWaiting e waitingInfo msg flg =
     (let response = \<lparr>sp_result = ut_result (sb_result (st_result waitingInfo)),
                      sp_status = st_status waitingInfo, sp_classCw = st_classCw waitingInfo\<rparr> in
      if \<not> e_register e then []
      else if flg = SS_FROM_MMI_CODE then
        ReportMmiCodeMessage_info e ((e_mmiInit e)
          \<lparr>mmi_result := sp_result response, mmi_message := mmi_message_of e msg, mmi_mmiCodeType := SC_WAIT,
           mmi_action := SUB_TYPE_QUERY, mmi_status := st_status waitingInfo, mmi_classCw := st_classCw waitingInfo\<rparr>)
      else [ReportGetWaitingResult response])"

definition EventSetCallWaiting :: "'x ss_env_scheme \<Rightarrow> errcode \<Rightarrow> string \<Rightarrow> int \<Rightarrow> int \<Rightarrow> ss_act list" where
  "EventSetCallWaiting e result msg flg action =
     (if \<not> e_register e then []
      else if flg = SS_FROM_MMI_CODE then
        ReportMmiCodeMessage_info e ((e_mmiInit e)
          \<lparr>mmi_result := result, mmi_message := mmi_message_of e msg, mmi_mmiCodeType := SC_WAIT,
           mmi_action := (if action \<noteq> 0 then SUB_TYPE_ACTIVE else SUB_TYPE_DEACTIVE)\<rparr>)
      else [ReportSetWaitingResult result])"

text \<open>A forwarding number that does not fit ends the report of this entry.\<close>

definition BuildCallForwardQueryInfo ::
    "'x ss_env_scheme \<Rightarrow> CallForwardQueryResult \<Rightarrow> string \<Rightarrow> int \<Rightarrow> bool \<Rightarrow> ss_act list" where
  "BuildCallForwardQueryInfo e q msg flg includeNumber =
     (case strcpy_s (e_numberSize e) (if includeNumber then fq_number q else []) of
        None \<Rightarrow> []
      | Some num \<Rightarrow>
          let response = \<lparr>tr_result = fq_result q, tr_status = fq_status q, tr_classx = fq_classx q, tr_number = num,
                tr_type = fq_type q, tr_reason = fq_reason q, tr_time = fq_time q, tr_startHour = fq_startHour q,
                tr_startMinute = fq_startMinute q, tr_endHour = fq_endHour q, tr_endMinute = fq_endMinute q\<rparr> in
          if flg = SS_FROM_MMI_CODE then
            ReportMmiCodeMessage_info e ((e_mmiInit e)
              \<lparr>mmi_mmiCodeType := SC_CFU, mmi_action := SUB_TYPE_QUERY, mmi_result := fq_result q,
               mmi_classCw := fq_classx q, mmi_reason := fq_reason q, mmi_status := fq_status q,
               mmi_message := mmi_message_of e msg,
               mmi_number := copy_or_empty (e_mmiNumberSize e) (fq_number q), mmi_time := fq_time q\<rparr>)
          else if \<not> e_register e then [] else [ReportGetTransferResult response])"

definition EventGetCallTransferInfo ::
    "'x ss_env_scheme \<Rightarrow> CallForwardQueryInfoList \<Rightarrow> string \<Rightarrow> int \<Rightarrow> bool \<Rightarrow> ss_act list" where
  "EventGetCallTransferInfo e l msg flg includeNumber =
     (if sb_result (fl_result l) \<noteq> TELEPHONY_SUCCESS \<and> fl_callSize l = 0
      then BuildCallForwardQueryInfo e
        ((e_queryInit e)\<lparr>fq_result := sb_result (fl_result l), fq_reason := sb_reason (fl_result l)\<rparr>) msg flg includeNumber
      else []) @
     concat (map (\<lambda>q. BuildCallForwardQueryInfo e q msg flg includeNumber)
       (filter (\<lambda>q. fq_classx q > 0 \<and> (word_of_int (fq_classx q) AND 1 :: 32 word) \<noteq> 0) (fl_calls l)))"

definition EventSetCallTransferInfo ::
    "'x ss_env_scheme \<Rightarrow> errcode \<Rightarrow> string \<Rightarrow> int \<Rightarrow> int \<Rightarrow> string \<Rightarrow> ss_act list" where
  "EventSetCallTransferInfo e result msg flg action targetNumber =
     (if \<not> e_register e then []
      else if flg = SS_FROM_MMI_CODE then
        ReportMmiCodeMessage_info e ((e_mmiInit e)
          \<lparr>mmi_result := result, mmi_message := mmi_message_of e msg, mmi_mmiCodeType := SC_CFU,
           mmi_action := (if action \<noteq> 0 then SUB_TYPE_ACTIVE else SUB_TYPE_DEACTIVE),
           mmi_number := copy_or_empty (e_mmiNumberSize e) targetNumber\<rparr>)
      else [ReportSetTransferResult result])"

definition EventGetCallRestriction :: "'x ss_env_scheme \<Rightarrow> StatusResult \<Rightarrow> string \<Rightarrow> int \<Rightarrow> ss_act list" where
  "EventGetCallRestriction e r msg flg =
     (let response = \<lparr>sp_result = ut_result (sb_result (st_result r)), sp_status = st_status r, sp_classCw = st_classCw r\<rparr> in
      if \<not> e_register e then []
      else if flg = SS_FROM_MMI_CODE then
        ReportMmiCodeMessage_info e ((e_mmiInit e)
          \<lparr>mmi_result := sp_result response, mmi_mmiCodeType := SC_BAOC, mmi_action := SUB_TYPE_QUERY,
           mmi_status := sp_status response, mmi_message := mmi_message_of e msg\<rparr>)
      else [ReportGetRestrictionResult response])"

definition EventSetCallRestriction :: "'x ss_env_scheme \<Rightarrow> errcode \<Rightarrow> string \<Rightarrow> int \<Rightarrow> int \<Rightarrow> ss_act list" where
  "EventSetCallRestriction e result msg flg action =
     (if \<not> e_register e then []
      else if flg = SS_FROM_MMI_CODE then
        ReportMmiCodeMessage_info e ((e_mmiInit e)
          \<lparr>mmi_result := result, mmi_mmiCodeType := SC_BAOC, mmi_action := action, mmi_message := mmi_message_of e msg\<rparr>)
      else [ReportSetRestrictionResult result])"

definition EventSetBarringPassword :: "'x ss_env_scheme \<Rightarrow> errcode \<Rightarrow> string \<Rightarrow> int \<Rightarrow> ss_act list" where
  "EventSetBarringPassword e result msg flg =
     (if \<not> e_register e then []
      else if flg = SS_FROM_MMI_CODE then
        ReportMmiCodeMessage_info e ((e_mmiInit e)
          \<lparr>mmi_result := result, mmi_mmiCodeType := SC_BAOC, mmi_action := SUB_TYPE_ACTIVE,
           mmi_message := mmi_message_of e msg\<rparr>)
      else [ReportSetBarringPasswordResult result])"

text \<open>The line-identification services. The queries put their own text into the message.\<close>

definition line_response :: "LineResult \<Rightarrow> LineResponse" where
  "line_response r = \<lparr>lp_result = ut_result (sb_result (lr_result r)), lp_action = lr_action r, lp_stat = lr_stat r\<rparr>"

definition line_query_info :: "'x ss_env_scheme \<Rightarrow> int \<Rightarrow> string \<Rightarrow> LineResponse \<Rightarrow> MmiCodeInfo" where
  "line_query_info e code okText r = (e_mmiInit e)
     \<lparr>mmi_result := lp_result r, mmi_message := mmi_message_of e okText, mmi_mmiCodeType := code,
      mmi_action := SUB_TYPE_QUERY, mmi_status := lp_stat r\<rparr>"

definition line_set_info :: "'x ss_env_scheme \<Rightarrow> int \<Rightarrow> errcode \<Rightarrow> string \<Rightarrow> int \<Rightarrow> MmiCodeInfo" where
  "line_set_info e code result msg action = (e_mmiInit e)
     \<lparr>mmi_result := result, mmi_message := mmi_message_of e msg, mmi_mmiCodeType := code,
      mmi_action := (if action = ACTIVATE_ACTION then SUB_TYPE_ACTIVE else SUB_TYPE_DEACTIVE)\<rparr>"

definition EventGetClip :: "'x ss_env_scheme \<Rightarrow> LineResult \<Rightarrow> string \<Rightarrow> int \<Rightarrow> ss_act list" where
  "EventGetClip e r msg flg =
     (if \<not> e_register e then []
      else if flg = SS_FROM_MMI_CODE then
        ReportMmiCodeMessage_info e (line_query_info e SC_CLIP ''Get clip success'' (line_response r))
      else [ReportGetClipResult (line_response r)])"

definition EventSetClip :: "'x ss_env_scheme \<Rightarrow> errcode \<Rightarrow> string \<Rightarrow> int \<Rightarrow> int \<Rightarrow> ss_act list" where
  "EventSetClip e result msg flg action =
     (if flg = SS_FROM_MMI_CODE then ReportMmiCodeMessage_info e (line_set_info e SC_CLIP result msg action) else [])"

definition EventGetClir :: "'x ss_env_scheme \<Rightarrow> LineResult \<Rightarrow> string \<Rightarrow> int \<Rightarrow> ss_act list" where
  "EventGetClir e r msg flg =
     (if \<not> e_register e then []
      else if flg = SS_FROM_MMI_CODE then
        ReportMmiCodeMessage_info e ((line_query_info e SC_CLIR ''Get clir success'' (line_response r))
          \<lparr>mmi_classCw := lp_action (line_response r)\<rparr>)
      else [ReportGetClirResult (line_response r)])"

definition EventSetClir :: "'x ss_env_scheme \<Rightarrow> errcode \<Rightarrow> string \<Rightarrow> int \<Rightarrow> int \<Rightarrow> ss_act list" where
  "EventSetClir e result msg flg action =
     (if \<not> e_register e then []
      else if flg = SS_FROM_MMI_CODE then
        ReportMmiCodeMessage_info e (line_set_info e SC_CLIR result msg action)
      else [ReportSetClirResult result])"

definition EventGetColr :: "'x ss_env_scheme \<Rightarrow> LineResult \<Rightarrow> string \<Rightarrow> int \<Rightarrow> ss_act list" where
  "EventGetColr e r msg flg =
     (if flg = SS_FROM_MMI_CODE
      then ReportMmiCodeMessage_info e (line_query_info e SC_COLR ''Get colr success'' (line_response r)) else [])"

definition EventSetColr :: "'x ss_env_scheme \<Rightarrow> errcode \<Rightarrow> string \<Rightarrow> int \<Rightarrow> int \<Rightarrow> ss_act list" where
  "EventSetColr e result msg flg action =
     (if flg = SS_FROM_MMI_CODE then ReportMmiCodeMessage_info e (line_set_info e SC_COLR result msg action) else [])"

definition EventGetColp :: "'x ss_env_scheme \<Rightarrow> LineResult \<Rightarrow> string \<Rightarrow> int \<Rightarrow> ss_act list" where
  "EventGetColp e r msg flg =
     (if flg = SS_FROM_MMI_CODE
      then ReportMmiCodeMessage_info e (line_query_info e SC_COLP ''Get colp success'' (line_response r)) else [])"

definition EventSetColp :: "'x ss_env_scheme \<Rightarrow> errcode \<Rightarrow> string \<Rightarrow> int \<Rightarrow> int \<Rightarrow> ss_act list" where
  "EventSetColp e result msg flg action =
     (if flg = SS_FROM_MMI_CODE then ReportMmiCodeMessage_info e (line_set_info e SC_COLP result msg action) else [])"

section \<open>USSD, PIN and network notices\<close>

text \<open>\<^verbatim>\<open>ErrType::NONE\<close> is 0.\<close>

definition EventSendUssd :: "'x ss_env_scheme \<Rightarrow> int \<Rightarrow> ss_act list" where
  "EventSendUssd e error =
     (if \<not> e_register e then []
      else ReportSendUssdResult error #
        (if error = 0 then []
         else ReportMmiCodeMessage_info e ((e_mmiInit e)\<lparr>mmi_result := USSD_FAILED, mmi_mmiCodeType := SC_USSD\<rparr>)))"

datatype SsRequestType =
    SS_ACTIVATION | SS_DEACTIVATION | SS_REGISTRATION | SS_ERASURE | SS_INTERROGATION | SsRequestType_other int

record SsNoticeInfo =
  sn_serviceType :: int
  sn_requestType :: SsRequestType
  sn_result :: errcode

definition GetMessage :: "'x ss_env_scheme \<Rightarrow> SsNoticeInfo \<Rightarrow> string" where
  "GetMessage e n = mmi_message_of e
     (if sn_result n \<noteq> TELEPHONY_SUCCESS then ''Query SS failed''
      else if sn_serviceType n = TRANSFER_TYPE_UNCONDITIONAL then ''Transfer unconditional success''
      else if sn_serviceType n = TRANSFER_TYPE_BUSY then ''Transfer busy success''
      else if sn_serviceType n = TRANSFER_TYPE_NO_REPLY then ''Transfer no replay success''
      else if sn_serviceType n = TRANSFER_TYPE_NOT_REACHABLE then ''Transfer not reachable success''
      else ''Query SS success'')"

definition EventSsNotify :: "'x ss_env_scheme \<Rightarrow> SsNoticeInfo \<Rightarrow> ss_act list" where
  "EventSsNotify e n =
     (case sn_requestType n of
        SsRequestType_other _ \<Rightarrow> []
      | _ \<Rightarrow> ReportMmiCodeMessage_info e ((e_mmiInit e)\<lparr>mmi_result := sn_result n, mmi_message := GetMessage e n\<rparr>))"

record UssdNoticeInfo =
  un_m :: int
  un_str :: string

definition USSD_MODE_NOTIFY :: int where "USSD_MODE_NOTIFY = 0"
definition USSD_MODE_REQUEST :: int where "USSD_MODE_REQUEST = 1"
definition USSD_MODE_NW_RELEASE :: int where "USSD_MODE_NW_RELEASE = 2"

definition code_of_int :: "int \<Rightarrow> errcode" where
  "code_of_int n = (if n = 0 then TELEPHONY_SUCCESS else RetOther n)"

definition EventUssdNotify :: "'x ss_env_scheme \<Rightarrow> UssdNoticeInfo \<Rightarrow> int \<Rightarrow> ss_act list" where
  "EventUssdNotify e u slotId =
     (if un_str u = [] \<and> (case e_isEmptyMmiResultFiltered e of Some f \<Rightarrow> f slotId | None \<Rightarrow> False) then []
      else
        let str = (case e_unescapeHtmlCode e of Some f \<Rightarrow> f slotId (un_str u) | None \<Rightarrow> un_str u);
            isUssdError = (un_m u \<noteq> USSD_MODE_NOTIFY \<and> un_m u \<noteq> USSD_MODE_REQUEST \<and>
              (case e_isUssdReleaseMsgFiltered e of
                 Some f \<Rightarrow> f slotId \<longrightarrow> un_m u \<noteq> USSD_MODE_NW_RELEASE | None \<Rightarrow> True));
            base = (e_mmiInit e)\<lparr>mmi_mmiCodeType := SC_USSD, mmi_action := slotId\<rparr>;
            report = (\<lambda>result msg. case strcpy_s (e_mmiMessageSize e) msg of
               None \<Rightarrow> []
             | Some m \<Rightarrow> ReportMmiCodeMessage_info e (base\<lparr>mmi_result := result, mmi_message := m\<rparr>)) in
        if \<not> isUssdError \<and> str \<noteq> [] then report (code_of_int (un_m u)) str
        else if isUssdError \<and> un_m u \<noteq> USSD_MODE_NW_RELEASE then report USSD_FAILED INVALID_MMI_CODE
        else report (if e_trimStr e str = [] \<and> e_showMmiError e then USSD_FAILED else TELEPHONY_SUCCESS) str)"

definition EventSetPinPuk :: "'x ss_env_scheme \<Rightarrow> int \<Rightarrow> int \<Rightarrow> ss_act list" where
  "EventSetPinPuk e result remain =
     ReportMmiCodeMessage_info e ((e_mmiInit e)
       \<lparr>mmi_result := code_of_int result, mmi_message := mmi_message_of e (e_toString e remain)\<rparr>)"

definition EventCloseUnFinishedUssd :: "'x ss_env_scheme \<Rightarrow> int \<Rightarrow> ss_act list" where
  "EventCloseUnFinishedUssd e error =
     (if \<not> e_register e then []
      else [ReportCloseUnFinishedUssdResult (if error = 0 then TELEPHONY_SUCCESS else TELEPHONY_ERR_RIL_CMD_FAIL)])"

section \<open>The answers in the handler\<close>

text \<open>The answers share the look-up of the command: without one nothing is reported.\<close>

definition with_flag :: "int \<Rightarrow> 'h CommandTable_scheme \<Rightarrow> (int \<Rightarrow> ss_act list) \<Rightarrow> 'h CommandTable_scheme \<times> ss_act list" where
  "with_flag idx h report =
     (case ConfirmAndRemoveSsRequestCommand idx h of
        (None, h1) \<Rightarrow> (h1, []) | (Some flg, h1) \<Rightarrow> (h1, report flg))"

definition with_action ::
    "int \<Rightarrow> 'h CommandTable_scheme \<Rightarrow> (int \<Rightarrow> int \<Rightarrow> ss_act list) \<Rightarrow> 'h CommandTable_scheme \<times> ss_act list" where
  "with_action idx h report =
     (case ConfirmAndRemoveSsRequestCommand_action idx h of
        (None, h1) \<Rightarrow> (h1, []) | (Some (flg, action), h1) \<Rightarrow> (h1, report flg action))"

definition ril_result :: "errcode \<Rightarrow> errcode" where
  "ril_result r = (if r \<noteq> TELEPHONY_SUCCESS then TELEPHONY_ERR_RIL_CMD_FAIL else r)"

definition GetCallWaitingResponse ::
    "'x ss_env_scheme \<Rightarrow> StatusResult \<Rightarrow> 'h CommandTable_scheme \<Rightarrow> 'h CommandTable_scheme \<times> ss_act list" where
  "GetCallWaitingResponse e r h =
     with_flag (sb_index (st_result r)) h (EventGetCallWaiting e r (sb_message (st_result r)))"

definition SetCallWaitingResponse ::
    "'x ss_env_scheme \<Rightarrow> SsBaseResult \<Rightarrow> 'h CommandTable_scheme \<Rightarrow> 'h CommandTable_scheme \<times> ss_act list" where
  "SetCallWaitingResponse e r h =
     with_action (sb_index r) h (EventSetCallWaiting e (ril_result (sb_result r)) (sb_message r))"

definition GetClirResponse ::
    "'x ss_env_scheme \<Rightarrow> LineResult \<Rightarrow> 'h CommandTable_scheme \<Rightarrow> 'h CommandTable_scheme \<times> ss_act list" where
  "GetClirResponse e r h = with_flag (sb_index (lr_result r)) h (EventGetClir e r (sb_message (lr_result r)))"

definition SetClirResponse ::
    "'x ss_env_scheme \<Rightarrow> SsBaseResult \<Rightarrow> 'h CommandTable_scheme \<Rightarrow> 'h CommandTable_scheme \<times> ss_act list" where
  "SetClirResponse e r h = with_action (sb_index r) h (EventSetClir e (sb_result r) (sb_message r))"

definition GetClipResponse ::
    "'x ss_env_scheme \<Rightarrow> LineResult \<Rightarrow> 'h CommandTable_scheme \<Rightarrow> 'h CommandTable_scheme \<times> ss_act list" where
  "GetClipResponse e r h = with_flag (sb_index (lr_result r)) h (EventGetClip e r (sb_message (lr_result r)))"

definition SetClipResponse ::
    "'x ss_env_scheme \<Rightarrow> SsBaseResult \<Rightarrow> 'h CommandTable_scheme \<Rightarrow> 'h CommandTable_scheme \<times> ss_act list" where
  "SetClipResponse e r h = with_action (sb_index r) h (EventSetClip e (sb_result r) (sb_message r))"

definition GetColrResponse ::
    "'x ss_env_scheme \<Rightarrow> LineResult \<Rightarrow> 'h CommandTable_scheme \<Rightarrow> 'h CommandTable_scheme \<times> ss_act list" where
  "GetColrResponse e r h = with_flag (sb_index (lr_result r)) h (EventGetColr e r (sb_message (lr_result r)))"

definition SetColrResponse ::
    "'x ss_env_scheme \<Rightarrow> SsBaseResult \<Rightarrow> 'h CommandTable_scheme \<Rightarrow> 'h CommandTable_scheme \<times> ss_act list" where
  "SetColrResponse e r h = with_action (sb_index r) h (EventSetColr e (sb_result r) (sb_message r))"

definition GetColpResponse ::
    "'x ss_env_scheme \<Rightarrow> LineResult \<Rightarrow> 'h CommandTable_scheme \<Rightarrow> 'h CommandTable_scheme \<times> ss_act list" where
  "GetColpResponse e r h = with_flag (sb_index (lr_result r)) h (EventGetColp e r (sb_message (lr_result r)))"

definition SetColpResponse ::
    "'x ss_env_scheme \<Rightarrow> SsBaseResult \<Rightarrow> 'h CommandTable_scheme \<Rightarrow> 'h CommandTable_scheme \<times> ss_act list" where
  "SetColpResponse e r h = with_action (sb_index r) h (EventSetColp e (sb_result r) (sb_message r))"

definition GetCallRestrictionResponse ::
    "'x ss_env_scheme \<Rightarrow> StatusResult \<Rightarrow> 'h CommandTable_scheme \<Rightarrow> 'h CommandTable_scheme \<times> ss_act list" where
  "GetCallRestrictionResponse e r h =
     with_flag (sb_index (st_result r)) h (EventGetCallRestriction e r (sb_message (st_result r)))"

definition SetCallRestrictionResponse ::
    "'x ss_env_scheme \<Rightarrow> SsBaseResult \<Rightarrow> 'h CommandTable_scheme \<Rightarrow> 'h CommandTable_scheme \<times> ss_act list" where
  "SetCallRestrictionResponse e r h =
     with_action (sb_index r) h (EventSetCallRestriction e (ril_result (sb_result r)) (sb_message r))"

definition SetBarringPasswordResponse ::
    "'x ss_env_scheme \<Rightarrow> SsBaseResult \<Rightarrow> 'h CommandTable_scheme \<Rightarrow> 'h CommandTable_scheme \<times> ss_act list" where
  "SetBarringPasswordResponse e r h =
     with_flag (sb_index r) h (EventSetBarringPassword e (ril_result (sb_result r)) (sb_message r))"

definition report_transfer_status :: "'x ss_env_scheme \<Rightarrow> int \<Rightarrow> bool \<Rightarrow> ss_act list" where
  "report_transfer_status e slotId enabled = (if e_register e then [ReportCallTransferStatus slotId enabled] else [])"

definition HandleCallTransferQueryResult ::
    "'x ss_env_scheme \<Rightarrow> int \<Rightarrow> CallForwardQueryInfoList \<Rightarrow> ss_act list" where
  "HandleCallTransferQueryResult e slotId l =
     (if sb_result (fl_result l) \<noteq> TELEPHONY_SUCCESS \<and> fl_callSize l = 0 then []
      else report_transfer_status e slotId (list_ex (\<lambda>q. fq_status q = 1) (fl_calls l)))"

text \<open>The reason of the command, when it is found, replaces the one of the answer.\<close>

definition GetCallTransferResponse ::
    "'x ss_env_scheme \<Rightarrow> int \<Rightarrow> CallForwardQueryInfoList \<Rightarrow> 'h CommandTable_scheme \<Rightarrow>
     'h CommandTable_scheme \<times> ss_act list" where
  "GetCallTransferResponse e slotId l h =
     (let idx = sb_index (fl_result l);
          (l', includeNumber) = (case GetSsRequestCommand idx h of
             Some ss \<Rightarrow> (l\<lparr>fl_result := (fl_result l)\<lparr>sb_reason := ss_cfReason ss\<rparr>\<rparr>, ss_isIncludeCallForwardingNumber ss)
           | None \<Rightarrow> (l, True)) in
      with_flag idx h (\<lambda>flg.
        EventGetCallTransferInfo e l' (sb_message (fl_result l')) flg includeNumber @
        (if sb_reason (fl_result l') = TRANSFER_TYPE_UNCONDITIONAL \<or> sb_reason (fl_result l') = TRANSFER_TYPE_ALL
         then HandleCallTransferQueryResult e slotId l' else [])))"

definition SetCallTransferInfoResponse ::
    "'x ss_env_scheme \<Rightarrow> SsBaseResult \<Rightarrow> 'h CommandTable_scheme \<Rightarrow> 'h CommandTable_scheme \<times> ss_act list" where
  "SetCallTransferInfoResponse e r h =
     (let getSs = GetSsRequestCommand (sb_index r) h; (infoSlot, infoEnable, infoNumber) = e_forwardingInfo e in
      with_action (sb_index r) h (\<lambda>flg action.
        if \<not> e_hiSysEvent e then []
        else
          (if sb_result r = TELEPHONY_SUCCESS then
             SetVoiceCallForwarding infoSlot infoEnable infoNumber #
             (case getSs of
                Some ss \<Rightarrow>
                  if ss_cfReason ss = TRANSFER_TYPE_UNCONDITIONAL \<or> ss_cfReason ss = TRANSFER_TYPE_ALL
                  then report_transfer_status e infoSlot infoEnable else []
              | None \<Rightarrow> [])
           else []) @
          EventSetCallTransferInfo e (ril_result (sb_result r)) (sb_message r) flg action infoNumber))"

section \<open>Retrying over CS\<close>

text \<open>The callback stub either passes the answer on to the handler (\<open>Inl\<close>), as an event that holds a copy of it, or
  repeats the request over CS with what the command remembers (\<open>Inr\<close>, its result). The stub looks the handler up
  without a test of the service.\<close>

definition ss_command :: "'x ss_env_scheme \<Rightarrow> int \<Rightarrow> int \<Rightarrow> 'h CommandTable_scheme \<Rightarrow> errcode + SsRequestCommand" where
  "ss_command e slotId idx h =
     (if \<not> e_handler e slotId then Inl TELEPHONY_ERR_LOCAL_PTR_NULL
      else case GetSsRequestCommand idx h of None \<Rightarrow> Inl TELEPHONY_ERROR | Some ss \<Rightarrow> Inr ss)"

definition fall_back ::
    "'x ss_env_scheme \<Rightarrow> int \<Rightarrow> 'r \<Rightarrow> SsBaseResult \<Rightarrow> (SsRequestCommand \<Rightarrow> errcode \<times> ss_act list) \<Rightarrow>
     'h CommandTable_scheme \<Rightarrow> 'r + errcode \<times> ss_act list" where
  "fall_back e slotId r base retry h =
     (if sb_result base = IMS_ERROR_UT_CS_FALLBACK then
        (case ss_command e slotId (sb_index base) h of Inl err \<Rightarrow> Inr (err, []) | Inr ss \<Rightarrow> Inr (retry ss))
      else Inl r)"

definition fall_back_query ::
    "'r \<Rightarrow> SsBaseResult \<Rightarrow> errcode \<times> ss_act list \<Rightarrow> 'r + errcode \<times> ss_act list" where
  "fall_back_query r base retry = (if sb_result base = IMS_ERROR_UT_CS_FALLBACK then Inr retry else Inl r)"

definition GetClipResponse_stub :: "'x ss_env_scheme \<Rightarrow> int \<Rightarrow> LineResult \<Rightarrow> LineResult + errcode \<times> ss_act list" where
  "GetClipResponse_stub e slotId r =
     fall_back_query r (lr_result r) (cs_ss e (CsGetClip slotId (sb_index (lr_result r))))"

definition GetClirResponse_stub :: "'x ss_env_scheme \<Rightarrow> int \<Rightarrow> LineResult \<Rightarrow> LineResult + errcode \<times> ss_act list" where
  "GetClirResponse_stub e slotId r =
     fall_back_query r (lr_result r) (cs_ss e (CsGetClir slotId (sb_index (lr_result r))))"

definition GetCallWaitingResponse_stub :: "'x ss_env_scheme \<Rightarrow> int \<Rightarrow> StatusResult \<Rightarrow> StatusResult + errcode \<times> ss_act list" where
  "GetCallWaitingResponse_stub e slotId r =
     fall_back_query r (st_result r) (cs_ss e (CsGetCallWaiting slotId (sb_index (st_result r))))"

definition SetClirResponse_stub ::
    "'x ss_env_scheme \<Rightarrow> int \<Rightarrow> SsBaseResult \<Rightarrow> 'h CommandTable_scheme \<Rightarrow> SsBaseResult + errcode \<times> ss_act list" where
  "SetClirResponse_stub e slotId r =
     fall_back e slotId r r (\<lambda>ss. cs_ss e (CsSetClir slotId (ss_clirAction ss) (sb_index r)))"

definition GetCallTransferResponse_stub ::
    "'x ss_env_scheme \<Rightarrow> int \<Rightarrow> CallForwardQueryInfoList \<Rightarrow> 'h CommandTable_scheme \<Rightarrow>
     CallForwardQueryInfoList + errcode \<times> ss_act list" where
  "GetCallTransferResponse_stub e slotId r =
     fall_back e slotId r (fl_result r)
       (\<lambda>ss. cs_ss e (CsGetCallTransfer slotId (ss_cfReason ss) (sb_index (fl_result r))))"

definition SetCallTransferResponse_stub ::
    "'x ss_env_scheme \<Rightarrow> int \<Rightarrow> SsBaseResult \<Rightarrow> 'h CommandTable_scheme \<Rightarrow> SsBaseResult + errcode \<times> ss_act list" where
  "SetCallTransferResponse_stub e slotId r =
     fall_back e slotId r r (\<lambda>ss. cs_ss e (CsSetCallTransfer slotId
       \<lparr>ct_mode = ss_cfAction ss, ct_reason = ss_cfReason ss, ct_number = ss_number ss, ct_classx = ss_classType ss\<rparr>
       (sb_index r)))"

definition GetCallRestrictionResponse_stub ::
    "'x ss_env_scheme \<Rightarrow> int \<Rightarrow> StatusResult \<Rightarrow> 'h CommandTable_scheme \<Rightarrow> StatusResult + errcode \<times> ss_act list" where
  "GetCallRestrictionResponse_stub e slotId r =
     fall_back e slotId r (st_result r)
       (\<lambda>ss. cs_ss e (CsGetCallRestriction slotId (ss_facility ss) (sb_index (st_result r))))"

definition SetCallRestrictionResponse_stub ::
    "'x ss_env_scheme \<Rightarrow> int \<Rightarrow> SsBaseResult \<Rightarrow> 'h CommandTable_scheme \<Rightarrow> SsBaseResult + errcode \<times> ss_act list" where
  "SetCallRestrictionResponse_stub e slotId r =
     fall_back e slotId r r (\<lambda>ss. SetCallRestrictionRequest_cs e slotId (ss_facility ss) (of_bool (ss_enable ss))
       (ss_password ss) (sb_index r))"

definition SetCallWaitingResponse_stub ::
    "'x ss_env_scheme \<Rightarrow> int \<Rightarrow> SsBaseResult \<Rightarrow> 'h CommandTable_scheme \<Rightarrow> SsBaseResult + errcode \<times> ss_act list" where
  "SetCallWaitingResponse_stub e slotId r =
     fall_back e slotId r r (\<lambda>ss. SetCallWaitingRequest_cs e slotId (ss_enable ss) (ss_classType ss) (sb_index r))"

end
