(* ===== verification/SsEndToEnd.thy ===== *)
theory SsEndToEnd
  imports SupplementAnswers MmiSyntax Samples
begin

text \<open>
  Supplementary services end to end: from a service code (or an entry of the settings menu) over the request
  to the answer and its report, with the retry over CS in between. The theorems compose the senders of
  \<open>Supplement\<close>, the command table of \<open>SsRequest\<close> and the answers of \<open>SupplementAnswers\<close>; the laws of
  the table come from the interpretation of \<open>pending_store\<close>.
\<close>

section \<open>From the code to the answer\<close>

text \<open>The function of \<^verbatim>\<open>CellularCallSupplement\<close> that a service code selects, run.\<close>

definition run_supp ::
    "'x ss_env_scheme \<Rightarrow> SuppHandler \<Rightarrow> int \<Rightarrow> MMIData \<Rightarrow> 'h CommandTable_scheme \<Rightarrow>
     'h CommandTable_scheme \<times> ss_act list" where
  "run_supp e f slotId d h =
     (case f of
        HandleCallTransfer \<Rightarrow> HandleCallTransfer_supp e slotId d h
      | HandleCallRestriction \<Rightarrow> HandleCallRestriction_supp e slotId d h
      | HandleClip \<Rightarrow> HandleClip_supp e slotId d h
      | HandleClir \<Rightarrow> HandleClir_supp e slotId d h
      | AlterPinPassword \<Rightarrow> (h, AlterPinPassword_supp e slotId d)
      | UnlockPuk \<Rightarrow> (h, UnlockPuk_supp e slotId d)
      | AlterPin2Password \<Rightarrow> (h, AlterPin2Password_supp e slotId d)
      | UnlockPuk2 \<Rightarrow> (h, UnlockPuk2_supp e slotId d)
      | HandleCallWaiting \<Rightarrow> HandleCallWaiting_supp e slotId d h
      | HandleColp \<Rightarrow> HandleColp_supp e slotId d h
      | HandleColr \<Rightarrow> HandleColr_supp e slotId d h)"

text \<open>The answer that belongs to an activation or deactivation, and the code it is reported under.\<close>

fun set_answer ::
    "'x ss_env_scheme \<Rightarrow> SuppHandler \<Rightarrow> SsBaseResult \<Rightarrow> 'h CommandTable_scheme \<Rightarrow>
     'h CommandTable_scheme \<times> ss_act list" where
  "set_answer e HandleClip r h = SetClipResponse e r h"
| "set_answer e HandleClir r h = SetClirResponse e r h"
| "set_answer e HandleColp r h = SetColpResponse e r h"
| "set_answer e HandleColr r h = SetColrResponse e r h"
| "set_answer e HandleCallWaiting r h = SetCallWaitingResponse e r h"
| "set_answer e HandleCallRestriction r h = SetCallRestrictionResponse e r h"
| "set_answer e _ r h = SetCallTransferInfoResponse e r h"

fun service_number :: "SuppHandler \<Rightarrow> int" where
  "service_number HandleClip = SC_CLIP"
| "service_number HandleClir = SC_CLIR"
| "service_number HandleColp = SC_COLP"
| "service_number HandleColr = SC_COLR"
| "service_number HandleCallWaiting = SC_WAIT"
| "service_number HandleCallRestriction = SC_BAOC"
| "service_number _ = SC_CFU"

lemma finish_mmi_accepted:
  assumes "finish_mmi e cmd i res h1 = (h', acts)" "utCommandMap h' \<noteq> utCommandMap h1"
  shows "fst res = TELEPHONY_SUCCESS \<and> h' = SaveSsRequestCommand cmd i h1 \<and> acts = snd res"
  using assms by (auto simp: finish_mmi_def split: if_splits)

lemma finish_mmi_refused:
  assumes "finish_mmi e cmd i res h1 = (h', acts)" "utCommandMap h' = utCommandMap h1" "map_of (utCommandMap h1) i = None"
    "indexCommand h1 = i" "omap_ok (utCommandMap h1)"
  shows "h' = h1 \<and> acts = snd res @ ReportMmiCodeMessage e MMI_CODE_FAILED [] GENERIC_FAILURE"
proof -
  have "map_of (omap_insert i cmd (utCommandMap h1)) i = Some cmd"
    using assms(3,5) by (simp add: map_of_omap_insert)
  then have "utCommandMap (SaveSsRequestCommand cmd i h1) \<noteq> utCommandMap h1"
    using assms(3,4) by (auto simp: SaveSsRequestCommand_def)
  with assms(1,2) show ?thesis by (auto simp: finish_mmi_def split: if_splits)
qed

lemma serve_action:
  assumes "command_inv h" "RequestSsRequestCommandIndex h = (i, h1)" "map_of (utCommandMap h) i = None"
  shows "with_action i (SaveSsRequestCommand cmd i h1) rep = (h1, rep (ss_flag cmd) (ss_action cmd))"
    and "with_flag i (SaveSsRequestCommand cmd i h1) rep' = (h1, rep' (ss_flag cmd))"
proof -
  have i: "i \<noteq> INVALID_INDEX"
    using assms(1,2) by (auto simp: RequestSsRequestCommandIndex_def Let_def command_inv_def INVALID_INDEX_def split: if_splits)
  have h1: "utCommandMap h1 = utCommandMap h" "indexCommand h1 = i"
    using assms(2) by (auto simp: RequestSsRequestCommandIndex_def Let_def)
  have "discard_command i (SaveSsRequestCommand cmd i h1) = h1"
    using assms(1,3) h1 by (simp add: discard_command_def SaveSsRequestCommand_def command_inv_def omap_erase_insert
        map_of_eq_None_iff)
  with i h1 assms(3) ss.serve(1) [OF assms, of cmd]
  show "with_action i (SaveSsRequestCommand cmd i h1) rep = (h1, rep (ss_flag cmd) (ss_action cmd))"
    and "with_flag i (SaveSsRequestCommand cmd i h1) rep' = (h1, rep' (ss_flag cmd))"
    by (simp_all add: with_action_def with_flag_def confirm_cases)
qed

lemma mmi_guard_run:
  "act \<noteq> [] \<Longrightarrow> e_handler e s \<Longrightarrow> mmi_guard e s act h body = body h"
  by (simp add: mmi_guard_def)

lemma mmi_init_flags [simp]:
  "ss_flag SsRequestCommand_init = SS_FROM_MMI_CODE" "ss_action SsRequestCommand_init = 0"
  by (simp_all add: SsRequestCommand_init_def)

text \<open>An accepted activation or deactivation saves a command of the dialler whose action says which of the two it was.\<close>

lemma set_command_saved:
  assumes f: "f \<in> {HandleClip, HandleClir, HandleColp, HandleColr, HandleCallWaiting, HandleCallRestriction}"
    and act: "actionString d = (if on then ''*'' else ''#'')" and handler: "e_handler e slotId"
    and idx: "RequestSsRequestCommandIndex h = (i, h1)"
    and run: "run_supp e f slotId d h = (h', acts)" and saved: "utCommandMap h' \<noteq> utCommandMap h"
  shows "\<exists>cmd. h' = SaveSsRequestCommand cmd i h1 \<and> ss_flag cmd = SS_FROM_MMI_CODE \<and>
    (ss_action cmd = ACTIVATE_ACTION \<longleftrightarrow> on) \<and> (f = HandleCallWaiting \<longrightarrow> ss_action cmd = of_bool on) \<and>
    (f \<noteq> HandleCallWaiting \<longrightarrow> ss_action cmd = (if on then 1 else 2)) \<and> length acts = 1"
proof -
  have h1: "utCommandMap h1 = utCommandMap h"
    using idx by (auto simp: RequestSsRequestCommandIndex_def Let_def)
  have ne: "actionString d \<noteq> []" using act by (simp split: if_splits)
  have cs: "length (snd (cs_ss e q)) = 1" if "fst (cs_ss e q) = TELEPHONY_SUCCESS" for q
    using that by (simp add: cs_ss_def split: if_splits)
  have ims: "length (snd (ims_ss e q)) = 1" if "fst (ims_ss e q) = TELEPHONY_SUCCESS" for q
    using that by (simp add: ims_ss_def split: if_splits)
  have cs': "fst (cs_ss e q) = TELEPHONY_SUCCESS \<Longrightarrow> length (snd (cs_ss e q)) = Suc 0" for q
    using cs [of q] by simp
  have ims': "fst (ims_ss e q) = TELEPHONY_SUCCESS \<Longrightarrow> length (snd (ims_ss e q)) = Suc 0" for q
    using ims [of q] by simp
  have restrict: "fst (SetCallRestrictionRequest_cs e s fac m p j) = TELEPHONY_SUCCESS \<Longrightarrow>
      length (snd (SetCallRestrictionRequest_cs e s fac m p j)) = Suc 0" for s fac m p j
    by (simp add: SetCallRestrictionRequest_cs_def cs' split: option.splits)
  have fin: ?thesis if "finish_mmi e cmd i res h1 = (h', acts)" "ss_flag cmd = SS_FROM_MMI_CODE"
    "ss_action cmd = (if f = HandleCallWaiting then of_bool on else if on then 1 else 2)"
    "fst res = TELEPHONY_SUCCESS \<Longrightarrow> length (snd res) = Suc 0" for cmd res
  proof -
    from finish_mmi_accepted [OF that(1)] saved h1
    have eq: "fst res = TELEPHONY_SUCCESS" "h' = SaveSsRequestCommand cmd i h1" "acts = snd res" by auto
    from that(2-3) that(4) [OF eq(1)] eq show ?thesis by (intro exI [of _ cmd]) auto
  qed
  have guard: "mmi_guard e slotId (x # xs) h body = body h" for body x xs
    by (rule mmi_guard_run [OF _ handler]) simp
  note defs = run_supp_def guard idx act
  let ?a = "if on then 1 else 2 :: int" and ?ims = "NeedCallImsService e"
  let ?cmd = "SsRequestCommand_init\<lparr>ss_action := ?a\<rparr>"
  consider "f = HandleClip" | "f = HandleClir" | "f = HandleColp" | "f = HandleColr" | "f = HandleCallWaiting"
    | "f = HandleCallRestriction" using f by blast
  then show ?thesis
  proof cases
    case 1
    have "finish_mmi e ?cmd i (ims_ss e (ImsSetClip slotId ?a i)) h1 = (h', acts)"
      using run by (cases on) (simp_all add: 1 defs HandleClip_supp_def cong: if_cong split del: if_split)
    then show ?thesis by (rule fin) (simp_all add: 1 ims')
  next
    case 2
    have "finish_mmi e ?cmd i (if ?ims then ims_ss e (ImsSetClir slotId ?a i) else cs_ss e (CsSetClir slotId ?a i)) h1 = (h', acts)"
      using run by (cases on) (simp_all add: 2 defs HandleClir_supp_def cong: if_cong split del: if_split)
    then show ?thesis by (rule fin) (simp_all add: 2 ims' cs' split: if_splits)
  next
    case 3
    have "finish_mmi e ?cmd i (if ?ims then ims_ss e (ImsSetColp slotId ?a i) else (TELEPHONY_ERROR, [])) h1 = (h', acts)"
      using run by (cases on) (simp_all add: 3 defs HandleColp_supp_def cong: if_cong split del: if_split)
    then show ?thesis by (rule fin) (simp_all add: 3 ims' split: if_splits)
  next
    case 4
    have "finish_mmi e ?cmd i (if ?ims then ims_ss e (ImsSetColr slotId (if on then 0 else 1) i) else (TELEPHONY_ERROR, [])) h1 = (h', acts)"
      using run by (cases on) (simp_all add: 4 defs HandleColr_supp_def cong: if_cong split del: if_split)
    then show ?thesis by (rule fin) (simp_all add: 4 ims' split: if_splits)
  next
    case 5
    let ?c = "ObtainServiceCode (serviceInfoA d)"
    have "finish_mmi e (SsRequestCommand_init\<lparr>ss_classType := ?c, ss_enable := on, ss_action := of_bool on\<rparr>) i
        (if ?ims then ims_ss e (ImsSetCallWaiting slotId on ?c i) else SetCallWaitingRequest_cs e slotId on ?c i) h1 = (h', acts)"
      using run by (cases on) (simp_all add: 5 defs HandleCallWaiting_supp_def Let_def cong: if_cong split del: if_split)
    then show ?thesis by (rule fin) (simp_all add: 5 ims' cs' SetCallWaitingRequest_cs_def split: if_splits)
  next
    case 6
    let ?fac = "ObtainBarringInstallation (serviceCode d)"
    obtain p where p: "copy_password e (serviceInfoA d) = Some p"
      using run saved h1 by (cases on) (auto simp: 6 defs HandleCallRestriction_supp_def Let_def split: option.splits)
    have "finish_mmi e (SsRequestCommand_init\<lparr>ss_facility := ?fac, ss_enable := on, ss_password := p, ss_action := ?a\<rparr>) i
        (if ?ims then ims_ss e (ImsSetCallRestriction slotId ?fac (of_bool on) (serviceInfoA d) i)
         else SetCallRestrictionRequest_cs e slotId ?fac (of_bool on) (serviceInfoA d) i) h1 = (h', acts)"
      using run p by (cases on) (simp_all add: 6 defs HandleCallRestriction_supp_def Let_def cong: if_cong split del: if_split)
    then show ?thesis by (rule fin) (cases on; auto simp: 6 ims' restrict split: if_splits)+
  qed
qed

text \<open>C14: activation and deactivation by MMI code, from the code to the answer. When the code of line identification, call waiting
  or barring is accepted, exactly one request has been sent; the answer to it is reported exactly once, as an MMI
  result under the number of this service, active for \<^verbatim>\<open>*\<close> and not active for \<^verbatim>\<open>#\<close>, and the command
  is gone from the table.\<close>

theorem mmi_set_answer:
  assumes inv: "command_inv h" "RequestSsRequestCommandIndex h = (i, h1)" "map_of (utCommandMap h) i = None"
    and f: "f \<in> {HandleClip, HandleClir, HandleColp, HandleColr, HandleCallWaiting, HandleCallRestriction}"
    and act: "actionString d = (if on then ''*'' else ''#'')" and env: "e_handler e slotId" "e_register e"
    and run: "run_supp e f slotId d h = (h', acts)" and accepted: "utCommandMap h' \<noteq> utCommandMap h"
    and answer: "sb_index r = i"
  shows "length acts = 1 \<and> (\<exists>info. set_answer e f r h' = (h1, [ReportMmiCodeResult info]) \<and>
    mmi_mmiCodeType info = service_number f \<and>
    mmi_action info = (if on then SUB_TYPE_ACTIVE else SUB_TYPE_DEACTIVE) \<and>
    mmi_result info = (if f \<in> {HandleCallWaiting, HandleCallRestriction} then ril_result (sb_result r) else sb_result r))"
proof -
  obtain cmd where cmd: "h' = SaveSsRequestCommand cmd i h1" "ss_flag cmd = SS_FROM_MMI_CODE"
      "f = HandleCallWaiting \<longrightarrow> ss_action cmd = of_bool on" "f \<noteq> HandleCallWaiting \<longrightarrow> ss_action cmd = (if on then 1 else 2)"
      "length acts = 1"
    using set_command_saved [OF f act env(1) inv(2) run accepted] by blast
  note defs = cmd(1) serve_action [OF inv] answer EventSetClip_def EventSetClir_def EventSetColp_def EventSetColr_def
    EventSetCallWaiting_def EventSetCallRestriction_def line_set_info_def ReportMmiCodeMessage_info_def
  have "\<exists>info. set_answer e f r h' = (h1, [ReportMmiCodeResult info]) \<and> mmi_mmiCodeType info = service_number f \<and>
        mmi_action info = (if on then SUB_TYPE_ACTIVE else SUB_TYPE_DEACTIVE) \<and>
        mmi_result info = (if f \<in> {HandleCallWaiting, HandleCallRestriction} then ril_result (sb_result r) else sb_result r)"
    using f
  proof (elim insertE)
    assume "f = HandleClip"
    then show ?thesis using cmd(2,4) env(2) by (simp add: SetClipResponse_def defs)
  next
    assume "f = HandleClir"
    then show ?thesis using cmd(2,4) env(2) by (simp add: SetClirResponse_def defs)
  next
    assume "f = HandleColp"
    then show ?thesis using cmd(2,4) env(2) by (simp add: SetColpResponse_def defs)
  next
    assume "f = HandleColr"
    then show ?thesis using cmd(2,4) env(2) by (simp add: SetColrResponse_def defs)
  next
    assume "f = HandleCallWaiting"
    then show ?thesis using cmd(2,3) env(2) by (simp add: SetCallWaitingResponse_def defs)
  next
    assume "f = HandleCallRestriction"
    then show ?thesis using cmd(2,4) env(2) by (simp add: SetCallRestrictionResponse_def defs)
  qed simp
  then obtain info where "set_answer e f r h' = (h1, [ReportMmiCodeResult info])" "mmi_mmiCodeType info = service_number f"
      "mmi_action info = (if on then SUB_TYPE_ACTIVE else SUB_TYPE_DEACTIVE)"
      "mmi_result info = (if f \<in> {HandleCallWaiting, HandleCallRestriction} then ril_result (sb_result r) else sb_result r)"
    by auto
  with cmd(5) show ?thesis by blast
qed

text \<open>A device where every request is accepted, over IMS or not.\<close>

definition sample_ss_env :: "bool \<Rightarrow> ss_env" where
  "sample_ss_env ims =
     \<lparr>e_service = True, e_handler = (\<lambda>_. True), e_register = True, e_cbRegistered = True,
      e_imsClient = ims, e_imsProxy = True, e_imsResult = (\<lambda>_. TELEPHONY_SUCCESS),
      e_satClient = True, e_satResult = (\<lambda>_. TELEPHONY_SUCCESS),
      e_zeroReport = zero_report, e_defaultReport = zero_report, e_videoStateInt = (\<lambda>_. 0),
      e_kMaxNumberLen = 100,
      e_event = True, e_csSs = (\<lambda>_. TELEPHONY_SUCCESS), e_imsSs = (\<lambda>_. TELEPHONY_SUCCESS), e_canSetTime = True,
      e_pinAnswer = (\<lambda>_. (0, 3)), e_ssSendEvent = True, e_phoneGsm = (\<lambda>_. True), e_callWaitingClass = (\<lambda>_. 1),
      e_mmiInit = \<lparr>mmi_result = TELEPHONY_SUCCESS, mmi_message = [], mmi_mmiCodeType = 0, mmi_action = 0, mmi_status = 0,
        mmi_classCw = 0, mmi_reason = 0, mmi_time = 0, mmi_number = []\<rparr>,
      e_mmiMessageSize = 501, e_mmiNumberSize = 101, e_minHour = 0, e_minMinute = 0, e_numberSize = 101,
      e_hiSysEvent = True, e_forwardingInfo = (0, False, []),
      e_queryInit = \<lparr>fq_serial = 0, fq_result = TELEPHONY_SUCCESS, fq_status = 0, fq_classx = 0, fq_number = [], fq_type = 0,
        fq_reason = 0, fq_time = 0, fq_startHour = 0, fq_startMinute = 0, fq_endHour = 0, fq_endMinute = 0\<rparr>,
      e_isEmptyMmiResultFiltered = None, e_unescapeHtmlCode = None, e_isUssdReleaseMsgFiltered = None,
      e_trimStr = id, e_showMmiError = True, e_toString = (\<lambda>_. ''3'')\<rparr>"

lemma sample_ss_env_simps [simp]:
  "e_service (sample_ss_env b)" "e_handler (sample_ss_env b) s" "e_register (sample_ss_env b)" "e_event (sample_ss_env b)"
  "e_imsClient (sample_ss_env b) = b" "e_imsProxy (sample_ss_env b)" "e_csSs (sample_ss_env b) q = TELEPHONY_SUCCESS"
  "e_imsSs (sample_ss_env b) q' = TELEPHONY_SUCCESS" "e_phoneGsm (sample_ss_env b) s" "e_kMaxNumberLen (sample_ss_env b) = 100"
  "e_pinAnswer (sample_ss_env b) q = (0, 3)" "e_ssSendEvent (sample_ss_env b)" "e_hiSysEvent (sample_ss_env b)"
  "e_forwardingInfo (sample_ss_env b) = (0, False, [])" "e_mmiMessageSize (sample_ss_env b) = 501"
  "e_callWaitingClass (sample_ss_env b) s = 1" "NeedCallImsService (sample_ss_env b) = b"
  by (simp_all add: sample_ss_env_def NeedCallImsService_def)

definition empty_table :: CommandTable where
  "empty_table = \<lparr>indexCommand = 0, utCommandMap = []\<rparr>"

lemma empty_table [simp]:
  "command_inv empty_table" "map_of (utCommandMap empty_table) k = None"
  "RequestSsRequestCommandIndex empty_table = (1, empty_table\<lparr>indexCommand := 1\<rparr>)" "utCommandMap empty_table = []"
  by (simp_all add: empty_table_def command_inv_def MAX_REQUEST_COUNT_def RequestSsRequestCommandIndex_def)

theorem mmi_set_answer_witness:
  "\<exists>info. set_answer (sample_ss_env False) HandleClir \<lparr>sb_index = 1, sb_result = TELEPHONY_SUCCESS, sb_reason = 0, sb_message = []\<rparr>
      (fst (run_supp (sample_ss_env False) HandleClir 0 (mmi_data ''*'' ''31'' [] []) empty_table)) =
      (empty_table\<lparr>indexCommand := 1\<rparr>, [ReportMmiCodeResult info]) \<and> mmi_action info = SUB_TYPE_ACTIVE"
proof -
  let ?d = "mmi_data ''*'' ''31'' [] []" and ?e = "sample_ss_env False"
  have act: "actionString ?d = ''*''" by (simp add: mmi_data_def)
  have "run_supp ?e HandleClir 0 ?d empty_table =
      (SaveSsRequestCommand (SsRequestCommand_init\<lparr>ss_action := 1\<rparr>) 1 (empty_table\<lparr>indexCommand := 1\<rparr>), [SsCs (CsSetClir 0 1 1)])"
    by (simp add: run_supp_def HandleClir_supp_def mmi_guard_run act cs_ss_def finish_mmi_def)
  note run = this
  have ne: "utCommandMap (SaveSsRequestCommand (SsRequestCommand_init\<lparr>ss_action := 1\<rparr>) 1 (empty_table\<lparr>indexCommand := 1\<rparr>)) \<noteq>
      utCommandMap empty_table"
    by (simp add: SaveSsRequestCommand_def)
  have act': "actionString ?d = (if True then ''*'' else ''#'')" by (simp add: act)
  have ans: "sb_index \<lparr>sb_index = 1, sb_result = TELEPHONY_SUCCESS, sb_reason = 0, sb_message = []\<rparr> = 1" by simp
  have f: "HandleClir \<in> {HandleClip, HandleClir, HandleColp, HandleColr, HandleCallWaiting, HandleCallRestriction}" by simp
  from mmi_set_answer [OF _ _ _ f act' _ _ run ne ans] show ?thesis
    by (auto simp: run)
qed

text \<open>A refused activation or deactivation. When the code is not accepted, nothing is saved and the user is told by exactly
  one generic failure, sent after whatever request was tried. The one exception is a barring password too long for
  the command, after which nothing at all is sent or reported.\<close>

theorem mmi_set_refused:
  assumes inv: "command_inv h" "map_of (utCommandMap h) (fst (RequestSsRequestCommandIndex h)) = None"
    and f: "f \<in> {HandleClip, HandleClir, HandleColp, HandleColr, HandleCallWaiting, HandleCallRestriction}"
    and act: "actionString d \<noteq> []" and env: "e_handler e slotId" "e_register e" "26 < e_mmiMessageSize e"
    and run: "run_supp e f slotId d h = (h', acts)" and refused: "utCommandMap h' = utCommandMap h"
    and pw: "f = HandleCallRestriction \<longrightarrow> copy_password e (serviceInfoA d) \<noteq> None"
  shows "\<exists>tried. acts = tried @ [ReportMmiCodeResult ((e_mmiInit e)\<lparr>mmi_result := MMI_CODE_FAILED, mmi_message := GENERIC_FAILURE\<rparr>)] \<and>
    length tried \<le> 1"
proof -
  obtain i h1 where idx: "RequestSsRequestCommandIndex h = (i, h1)" by fastforce
  have h1: "utCommandMap h1 = utCommandMap h" "indexCommand h1 = i"
    using idx by (auto simp: RequestSsRequestCommandIndex_def Let_def)
  have rep: "ReportMmiCodeMessage e MMI_CODE_FAILED [] GENERIC_FAILURE =
      [ReportMmiCodeResult ((e_mmiInit e)\<lparr>mmi_result := MMI_CODE_FAILED, mmi_message := GENERIC_FAILURE\<rparr>)]"
    using env(2,3) by (simp add: ReportMmiCodeMessage_def ReportMmiCodeMessage_info_def MMI_CODE_FAILED_def GENERIC_FAILURE_def
        strcpy_s_def c_str_def)
  have cs: "length (snd (cs_ss e q)) \<le> Suc 0" and ims: "length (snd (ims_ss e q')) \<le> Suc 0" for q q'
    by (simp_all add: cs_ss_def ims_ss_def)
  have restrict: "length (snd (SetCallRestrictionRequest_cs e s fac m p j)) \<le> Suc 0" for s fac m p j
    by (simp add: SetCallRestrictionRequest_cs_def cs split: option.split)
  have fin: ?thesis if "finish_mmi e cmd i res h1 = (h', acts)" "length (snd res) \<le> 1" for cmd res
    using finish_mmi_refused [OF that(1)] refused h1 inv idx that(2) rep by (auto simp: command_inv_def)
  have fins: ?thesis
    if "(if A then finish_mmi e c1 i r1 h1 else if B then finish_mmi e c2 i r2 h1 else if C then finish_mmi e c3 i r3 h1
         else finish_mmi e c4 i (TELEPHONY_ERROR, []) h1) = (h', acts)"
      "length (snd r1) \<le> 1" "length (snd r2) \<le> 1" "length (snd r3) \<le> 1" for A B C c1 c2 c3 c4 r1 r2 r3
  proof -
    have "\<exists>cmd res. finish_mmi e cmd i res h1 = (h', acts) \<and> length (snd res) \<le> 1"
    proof (cases A)
      case True
      then show ?thesis using that(1,2) by (intro exI [of _ c1] exI [of _ r1]) simp
    next
      case A: False
      show ?thesis
      proof (cases B)
        case True
        then show ?thesis using A that(1,3) by (intro exI [of _ c2] exI [of _ r2]) simp
      next
        case B: False
        show ?thesis
        proof (cases C)
          case True
          then show ?thesis using A B that(1,4) by (intro exI [of _ c3] exI [of _ r3]) simp
        next
          case False
          then show ?thesis using A B that(1) by (intro exI [of _ c4] exI [of _ "(TELEPHONY_ERROR, [])"]) simp
        qed
      qed
    qed
    then show ?thesis using fin by blast
  qed
  have guard: "mmi_guard e slotId (actionString d) h body = body h" for body
    by (rule mmi_guard_run [OF act env(1)])
  note defs = run_supp_def guard idx Let_def prod.case SuppHandler.case
  consider "f = HandleClip" | "f = HandleClir" | "f = HandleColp" | "f = HandleColr" | "f = HandleCallWaiting"
    | "f = HandleCallRestriction" using f by blast
  then show ?thesis
  proof cases
    case 1
    show ?thesis by (rule fins [OF run [unfolded 1 defs HandleClip_supp_def]]) (simp_all add: cs ims)
  next
    case 2
    show ?thesis by (rule fins [OF run [unfolded 2 defs HandleClir_supp_def]]) (simp_all add: cs ims)
  next
    case 3
    show ?thesis by (rule fins [OF run [unfolded 3 defs HandleColp_supp_def]]) (simp_all add: cs ims)
  next
    case 4
    show ?thesis by (rule fins [OF run [unfolded 4 defs HandleColr_supp_def]]) (simp_all add: cs ims)
  next
    case 5
    let ?c = "ObtainServiceCode (serviceInfoA d)" and ?a = "actionString d = ''*''"
    have "(if ?a \<or> actionString d = ''#'' then
        finish_mmi e (SsRequestCommand_init\<lparr>ss_classType := ?c, ss_enable := ?a, ss_action := of_bool ?a\<rparr>) i
          (if NeedCallImsService e then ims_ss e (ImsSetCallWaiting slotId ?a ?c i) else SetCallWaitingRequest_cs e slotId ?a ?c i) h1
      else if actionString d = ''*#'' then finish_mmi e (SsRequestCommand_init\<lparr>ss_classType := ?c\<rparr>) i
          (if NeedCallImsService e then ims_ss e (ImsGetCallWaiting slotId i) else cs_ss e (CsGetCallWaiting slotId i)) h1
      else if False then finish_mmi e SsRequestCommand_init i (TELEPHONY_ERROR, []) h1
      else finish_mmi e (SsRequestCommand_init\<lparr>ss_classType := ?c\<rparr>) i (TELEPHONY_ERROR, []) h1) = (h', acts)"
      using run unfolding 5 defs HandleCallWaiting_supp_def by (simp only: if_False)
    then show ?thesis by (rule fins) (simp_all add: cs ims SetCallWaitingRequest_cs_def)
  next
    case 6
    let ?fac = "ObtainBarringInstallation (serviceCode d)" and ?a = "actionString d = ''*''"
    obtain p where p: "copy_password e (serviceInfoA d) = Some p" using pw 6 by auto
    have "(if actionString d = ''*#'' then finish_mmi e (SsRequestCommand_init\<lparr>ss_facility := ?fac, ss_action := 0\<rparr>) i
          (if NeedCallImsService e then ims_ss e (ImsGetCallRestriction slotId ?fac i) else cs_ss e (CsGetCallRestriction slotId ?fac i)) h1
      else if ?a \<or> actionString d = ''#'' then
        finish_mmi e (SsRequestCommand_init\<lparr>ss_facility := ?fac, ss_enable := ?a, ss_password := p,
            ss_action := (if ?a then SUB_TYPE_ACTIVE else SUB_TYPE_DEACTIVE)\<rparr>) i
          (if NeedCallImsService e then ims_ss e (ImsSetCallRestriction slotId ?fac (of_bool ?a) (serviceInfoA d) i)
           else SetCallRestrictionRequest_cs e slotId ?fac (of_bool ?a) (serviceInfoA d) i) h1
      else if False then finish_mmi e SsRequestCommand_init i (TELEPHONY_ERROR, []) h1
      else finish_mmi e (SsRequestCommand_init\<lparr>ss_facility := ?fac\<rparr>) i (TELEPHONY_ERROR, []) h1) = (h', acts)"
      using run unfolding 6 defs HandleCallRestriction_supp_def by (simp only: if_False p option.case)
    then show ?thesis by (rule fins) (simp_all add: cs ims restrict)
  qed
qed

theorem mmi_set_refused_witness:
  "\<exists>tried. snd (run_supp (sample_ss_env False) HandleColr 0 (mmi_data ''*'' ''77'' [] []) empty_table) =
     tried @ [ReportMmiCodeResult ((e_mmiInit (sample_ss_env False))\<lparr>mmi_result := MMI_CODE_FAILED, mmi_message := GENERIC_FAILURE\<rparr>)]"
proof -
  let ?d = "mmi_data ''*'' ''77'' [] []" and ?e = "sample_ss_env False"
  have act: "actionString ?d = ''*''" by (simp add: mmi_data_def)
  have run: "run_supp ?e HandleColr 0 ?d empty_table =
      (empty_table\<lparr>indexCommand := 1\<rparr>, ReportMmiCodeMessage ?e MMI_CODE_FAILED [] GENERIC_FAILURE)"
    by (simp add: run_supp_def HandleColr_supp_def mmi_guard_run act finish_mmi_def Let_def)
  have f: "HandleColr \<in> {HandleClip, HandleClir, HandleColp, HandleColr, HandleCallWaiting, HandleCallRestriction}" by simp
  have ne: "actionString ?d \<noteq> []" by (simp add: act)
  have eq: "utCommandMap (empty_table\<lparr>indexCommand := 1\<rparr>) = utCommandMap empty_table" by simp
  have pw: "HandleColr = HandleCallRestriction \<longrightarrow> copy_password ?e (serviceInfoA ?d) \<noteq> None" by simp
  from mmi_set_refused [OF _ _ f ne _ _ _ run eq pw] show ?thesis by (auto simp: run)
qed

section \<open>Call transfer\<close>

lemma transfer_actions:
  "ObtainCallTrasferAction ''*'' n = Some (if n = [] then CALL_TRANSFER_ENABLE else CALL_TRANSFER_REGISTRATION)"
  "ObtainCallTrasferAction ''#'' n = Some CALL_TRANSFER_DISABLE"
  "ObtainCallTrasferAction ''**'' n = Some CALL_TRANSFER_REGISTRATION"
  "ObtainCallTrasferAction ''##'' n = Some CALL_TRANSFER_ERASURE"
  by (simp_all add: ObtainCallTrasferAction_def Hash_def cellular_call_b_def cellular_call_p_def)

lemma transfer_command_saved:
  assumes idx: "RequestSsRequestCommandIndex h = (i, h1)"
    and act: "actionString d \<in> {''*'', ''#'', ''**'', ''##''}" and env: "e_handler e slotId"
    and run: "run_supp e HandleCallTransfer slotId d h = (h', acts)" and accepted: "utCommandMap h' \<noteq> utCommandMap h"
  obtains a where "ObtainCallTrasferAction (actionString d) (serviceInfoA d) = Some a" "(a = 0) = (actionString d = ''#'')"
    "h' = SaveSsRequestCommand (SsRequestCommand_init\<lparr>ss_cfReason := ObtainCause (serviceCode d), ss_cfAction := a,
       ss_action := a, ss_number := serviceInfoA d\<rparr>) i h1" "length acts = 1"
proof -
  let ?cause = "ObtainCause (serviceCode d)" and ?n = "serviceInfoA d" and ?svc = "ObtainServiceCode (serviceInfoB d)"
  have h1: "utCommandMap h1 = utCommandMap h"
    using idx by (auto simp: RequestSsRequestCommandIndex_def Let_def)
  obtain a where a: "ObtainCallTrasferAction (actionString d) ?n = Some a" "(a = 0) = (actionString d = ''#'')"
    using transfer_actions [of ?n] act by (cases "?n = []") auto
  have dlen: "actionString d \<noteq> ''*#''" "actionString d \<noteq> []" using act by auto
  let ?cmd = "SsRequestCommand_init\<lparr>ss_cfReason := ?cause, ss_cfAction := a, ss_action := a, ss_number := ?n\<rparr>"
  have set: "HandleSetCallTransfer e slotId ?svc ?cause ?n a h = (h', acts)"
    using run dlen a(1) by (simp add: run_supp_def HandleCallTransfer_supp_def)
  have "\<exists>res. finish_mmi e ?cmd i res h1 = (h', acts) \<and> (fst res = TELEPHONY_SUCCESS \<longrightarrow> length (snd res) = 1)"
  proof (cases "NeedCallImsService e")
    case True
    have "\<not> length ?n > e_kMaxNumberLen e"
      using set True env idx accepted h1 by (auto simp: HandleSetCallTransfer_def Let_def)
    then show ?thesis using set True env idx
      by (intro exI [of _ "ims_ss e (ImsSetCallTransfer slotId (CallTransferInfo_mmi e ?n a ?cause) ?svc i)"])
        (simp add: HandleSetCallTransfer_def Let_def ims_ss_def)
  next
    case False
    then show ?thesis using set env idx
      by (intro exI [of _ "cs_ss e (CsSetCallTransfer slotId \<lparr>ct_mode = a, ct_reason = ?cause, ct_number = ?n, ct_classx = ?svc\<rparr> i)"])
        (simp add: HandleSetCallTransfer_def Let_def cs_ss_def)
  qed
  then have "h' = SaveSsRequestCommand ?cmd i h1" "length acts = 1"
    using finish_mmi_accepted accepted h1 by metis+
  with a that show ?thesis by blast
qed

text \<open>Call transfer by MMI code. An accepted setting of call transfer is saved with its reason, and its answer is
  reported once to the dialler: as not active for \<^verbatim>\<open>#\<close>, and as active for every other action, the
  erasure \<^verbatim>\<open>##\<close> included; the number reported is not the one of the code but the one that was remembered of the last setting of the settings
  menu. A success also stores this remembered state as the slot's forwarding.\<close>

theorem call_transfer_answer:
  assumes inv: "command_inv h" "RequestSsRequestCommandIndex h = (i, h1)" "map_of (utCommandMap h) i = None"
    and act: "actionString d \<in> {''*'', ''#'', ''**'', ''##''}" and env: "e_handler e slotId" "e_register e" "e_hiSysEvent e"
    and run: "run_supp e HandleCallTransfer slotId d h = (h', acts)" and accepted: "utCommandMap h' \<noteq> utCommandMap h"
    and answer: "sb_index r = i" "sb_result r = TELEPHONY_SUCCESS"
  shows "length acts = 1 \<and> (\<exists>info rest. set_answer e HandleCallTransfer r h' =
      (h1, SetVoiceCallForwarding (fst (e_forwardingInfo e)) (fst (snd (e_forwardingInfo e))) (snd (snd (e_forwardingInfo e))) #
        rest @ [ReportMmiCodeResult info]) \<and>
    set rest \<subseteq> {ReportCallTransferStatus (fst (e_forwardingInfo e)) (fst (snd (e_forwardingInfo e)))} \<and>
    mmi_action info = (if actionString d = ''#'' then SUB_TYPE_DEACTIVE else SUB_TYPE_ACTIVE) \<and>
    mmi_number info = copy_or_empty (e_mmiNumberSize e) (snd (snd (e_forwardingInfo e))))"
proof -
  obtain a where a: "ObtainCallTrasferAction (actionString d) (serviceInfoA d) = Some a" "(a = 0) = (actionString d = ''#'')"
    and saved:
    "h' = SaveSsRequestCommand (SsRequestCommand_init\<lparr>ss_cfReason := ObtainCause (serviceCode d), ss_cfAction := a,
       ss_action := a, ss_number := serviceInfoA d\<rparr>) i h1" "length acts = 1"
    by (rule transfer_command_saved [OF inv(2) act env(1) run accepted])
  obtain fs fe fn where info: "e_forwardingInfo e = (fs, fe, fn)" by (metis prod_cases3)
  have get: "\<exists>ss. GetSsRequestCommand i h' = Some ss"
    using ss.serve(1) [OF inv] by (simp add: saved GetSsRequestCommand_def)
  have "\<exists>rest. SetCallTransferInfoResponse e r h' = (h1, SetVoiceCallForwarding fs fe fn # rest @
        [ReportMmiCodeResult ((e_mmiInit e)\<lparr>mmi_result := TELEPHONY_SUCCESS, mmi_message := mmi_message_of e (sb_message r),
          mmi_mmiCodeType := SC_CFU, mmi_action := (if a \<noteq> 0 then SUB_TYPE_ACTIVE else SUB_TYPE_DEACTIVE),
          mmi_number := copy_or_empty (e_mmiNumberSize e) fn\<rparr>)]) \<and> set rest \<subseteq> {ReportCallTransferStatus fs fe}"
    using get env(2,3) answer info unfolding saved(1)
    by (auto simp: SetCallTransferInfoResponse_def serve_action [OF inv] EventSetCallTransferInfo_def ril_result_def
        ReportMmiCodeMessage_info_def report_transfer_status_def split: option.splits)
  then show ?thesis using saved(2) a(2) info by auto
qed

theorem call_transfer_answer_witness:
  "\<exists>info rest. snd (set_answer (sample_ss_env False) HandleCallTransfer
      \<lparr>sb_index = 1, sb_result = TELEPHONY_SUCCESS, sb_reason = 0, sb_message = []\<rparr>
      (fst (run_supp (sample_ss_env False) HandleCallTransfer 0 (mmi_data ''##'' ''21'' [] []) empty_table))) =
      SetVoiceCallForwarding 0 False [] # rest @ [ReportMmiCodeResult info] \<and> mmi_action info = SUB_TYPE_ACTIVE"
proof -
  let ?d = "mmi_data ''##'' ''21'' [] []" and ?e = "sample_ss_env False"
  let ?r = "\<lparr>sb_index = 1, sb_result = TELEPHONY_SUCCESS, sb_reason = 0, sb_message = []\<rparr>"
  have act: "actionString ?d = ''##''" by (simp add: mmi_data_def)
  obtain h' acts where run: "run_supp ?e HandleCallTransfer 0 ?d empty_table = (h', acts)" by fastforce
  have "indexCommand (empty_table\<lparr>indexCommand := 1\<rparr>) = 1" "utCommandMap (empty_table\<lparr>indexCommand := 1\<rparr>) = []" by simp_all
  then have "utCommandMap (fst (run_supp ?e HandleCallTransfer 0 ?d empty_table)) \<noteq> utCommandMap empty_table"
    by (simp add: run_supp_def HandleCallTransfer_supp_def act transfer_actions HandleSetCallTransfer_def cs_ss_def finish_mmi_def
        SaveSsRequestCommand_def Let_def)
  then have ne: "utCommandMap h' \<noteq> utCommandMap empty_table" by (simp add: run)
  have act': "actionString ?d \<in> {''*'', ''#'', ''**'', ''##''}" by (simp add: act)
  have ans: "sb_index ?r = 1" "sb_result ?r = TELEPHONY_SUCCESS" by simp_all
  from call_transfer_answer [OF _ _ _ act' _ _ _ run ne ans] show ?thesis
    by (auto simp: run act)
qed

section \<open>The settings menu\<close>

text \<open>The senders of the settings menu, and the answers that belong to them.\<close>

datatype setting =
    SetTransfer CallTransferInfo
  | SetWaiting bool
  | SetRestriction CallRestrictionInfo
  | SetPassword CallRestrictionType string string

fun run_setting ::
    "'x ss_env_scheme \<Rightarrow> setting \<Rightarrow> int \<Rightarrow> 'h CommandTable_scheme \<Rightarrow> errcode \<times> 'h CommandTable_scheme \<times> ss_act list" where
  "run_setting e (SetTransfer info) slotId h = SetCallTransferInfo e slotId info h"
| "run_setting e (SetWaiting activate) slotId h = SetCallWaiting e slotId activate h"
| "run_setting e (SetRestriction info) slotId h = SetCallRestriction e slotId info h"
| "run_setting e (SetPassword fac old new) slotId h = SetBarringPassword e slotId fac old new h"

fun setting_answer ::
    "'x ss_env_scheme \<Rightarrow> setting \<Rightarrow> SsBaseResult \<Rightarrow> 'h CommandTable_scheme \<Rightarrow> 'h CommandTable_scheme \<times> ss_act list" where
  "setting_answer e (SetTransfer _) r h = SetCallTransferInfoResponse e r h"
| "setting_answer e (SetWaiting _) r h = SetCallWaitingResponse e r h"
| "setting_answer e (SetRestriction _) r h = SetCallRestrictionResponse e r h"
| "setting_answer e (SetPassword _ _ _) r h = SetBarringPasswordResponse e r h"

fun setting_report :: "setting \<Rightarrow> errcode \<Rightarrow> ss_act" where
  "setting_report (SetTransfer _) r = ReportSetTransferResult r"
| "setting_report (SetWaiting _) r = ReportSetWaitingResult r"
| "setting_report (SetRestriction _) r = ReportSetRestrictionResult r"
| "setting_report (SetPassword _ _ _) r = ReportSetBarringPasswordResult r"

lemma finish_setting_cases:
  assumes "finish_setting cmd i res h1 = (ret, h', acts)"
  shows "ret = fst res" "acts = snd res" "h' = (if ret = TELEPHONY_SUCCESS then SaveSsRequestCommand cmd i h1 else h1)"
  using assms by (auto simp: finish_setting_def)

lemma send_setting_cases:
  assumes "send_setting e slotId cmd ims cs h = (ret, h', acts)" "RequestSsRequestCommandIndex h = (i, h1)"
  shows "(ret = TELEPHONY_SUCCESS \<longrightarrow> h' = SaveSsRequestCommand cmd i h1 \<and> (acts = snd (ims i) \<or> acts = snd (cs i))) \<and>
    (ret \<noteq> TELEPHONY_SUCCESS \<longrightarrow> utCommandMap h' = utCommandMap h)"
proof -
  have h1: "utCommandMap h1 = utCommandMap h"
    using assms(2) by (auto simp: RequestSsRequestCommandIndex_def Let_def)
  show ?thesis
    using assms h1 by (auto simp: send_setting_def finish_setting_def split: if_splits)
qed

lemma setting_init_flag [simp]: "ss_flag setting_init = SS_FROM_SETTING_MENU"
  by (simp add: setting_init_def)

text \<open>A setting is saved exactly when it is accepted.\<close>

definition saved_iff_accepted ::
    "errcode \<Rightarrow> int \<Rightarrow> 'h CommandTable_scheme \<Rightarrow> 'h CommandTable_scheme \<Rightarrow> 'h CommandTable_scheme \<Rightarrow> bool" where
  "saved_iff_accepted ret i h h1 h' \<longleftrightarrow>
     (if ret = TELEPHONY_SUCCESS then \<exists>cmd. h' = SaveSsRequestCommand cmd i h1 \<and> ss_flag cmd = SS_FROM_SETTING_MENU
      else utCommandMap h' = utCommandMap h)"

lemma saved_send:
  assumes "RequestSsRequestCommandIndex h = (i, h1)" "send_setting e slotId cmd ims cs h = (ret, h', acts)"
    "ss_flag cmd = SS_FROM_SETTING_MENU"
  shows "saved_iff_accepted ret i h h1 h'"
  using send_setting_cases [OF assms(2,1)] assms(3) by (auto simp: saved_iff_accepted_def)

lemma saved_finish:
  assumes "RequestSsRequestCommandIndex h = (i, h1)" "finish_setting cmd i res h1 = (ret, h', acts)"
    "ss_flag cmd = SS_FROM_SETTING_MENU"
  shows "saved_iff_accepted ret i h h1 h'"
  using finish_setting_cases [OF assms(2)] assms(1,3)
  by (auto simp: saved_iff_accepted_def RequestSsRequestCommandIndex_def Let_def)

lemma saved_refused: "ret \<noteq> TELEPHONY_SUCCESS \<Longrightarrow> saved_iff_accepted ret i h h1 h"
  by (simp add: saved_iff_accepted_def)

lemma setting_saved:
  assumes run: "run_setting e s slotId h = (ret, h', acts)" and idx: "RequestSsRequestCommandIndex h = (i, h1)"
  shows "saved_iff_accepted ret i h h1 h'"
proof (cases s)
  case (SetTransfer info)
  show ?thesis
    using run unfolding SetTransfer run_setting.simps SetCallTransferInfo_def Let_def
    by (auto split: if_splits intro: saved_refused elim: saved_send [OF idx])
next
  case (SetWaiting activate)
  show ?thesis
    using run unfolding SetWaiting run_setting.simps SetCallWaiting_def Let_def
    by (auto split: if_splits intro: saved_refused elim: saved_send [OF idx])
next
  case (SetRestriction info)
  show ?thesis
    using run unfolding SetRestriction run_setting.simps SetCallRestriction_def
    by (auto split: if_splits option.splits intro: saved_refused elim: saved_send [OF idx])
next
  case (SetPassword fac old new)
  show ?thesis
    using run unfolding SetPassword run_setting.simps SetBarringPassword_def
    by (auto simp: idx split: if_splits option.splits intro: saved_refused elim: saved_finish [OF idx])
qed

text \<open>The settings menu, from the setting to the answer. A setting that is accepted is answered exactly once
  through the callback of this setting, with success or the modem's failure, and never as an MMI result; afterwards
  the table is as before. A setting that is refused leaves the table alone.\<close>

theorem setting_answered:
  assumes inv: "command_inv h" "RequestSsRequestCommandIndex h = (i, h1)" "map_of (utCommandMap h) i = None"
    and run: "run_setting e s slotId h = (ret, h', acts)" and env: "e_register e" "e_hiSysEvent e" and answer: "sb_index r = i"
  shows "(ret \<noteq> TELEPHONY_SUCCESS \<longrightarrow> utCommandMap h' = utCommandMap h) \<and>
    (ret = TELEPHONY_SUCCESS \<longrightarrow>
      (\<exists>pre. setting_answer e s r h' = (h1, pre @ [setting_report s (ril_result (sb_result r))]) \<and>
        (\<forall>a \<in> set pre. \<exists>slot enable num. a = SetVoiceCallForwarding slot enable num \<or> a = ReportCallTransferStatus slot enable)))"
proof (cases "ret = TELEPHONY_SUCCESS")
  case True
  with setting_saved [OF run inv(2)] obtain cmd where
    cmd: "h' = SaveSsRequestCommand cmd i h1" "ss_flag cmd = SS_FROM_SETTING_MENU"
    by (auto simp: saved_iff_accepted_def)
  have flags: "SS_FROM_SETTING_MENU \<noteq> SS_FROM_MMI_CODE" by (simp add: SS_FROM_SETTING_MENU_def SS_FROM_MMI_CODE_def)
  obtain fs fe fn where info: "e_forwardingInfo e = (fs, fe, fn)" by (metis prod_cases3)
  show ?thesis
  proof (cases s)
    case (SetTransfer i)
    show ?thesis using True env info flags cmd(2) unfolding cmd(1) SetTransfer
      by (auto simp: SetCallTransferInfoResponse_def answer serve_action [OF inv] EventSetCallTransferInfo_def
          report_transfer_status_def split: option.split)
  next
    case (SetWaiting b)
    show ?thesis using True env flags cmd(2) unfolding cmd(1) SetWaiting
      by (simp add: SetCallWaitingResponse_def answer serve_action [OF inv] EventSetCallWaiting_def)
  next
    case (SetRestriction i)
    show ?thesis using True env flags cmd(2) unfolding cmd(1) SetRestriction
      by (simp add: SetCallRestrictionResponse_def answer serve_action [OF inv] EventSetCallRestriction_def)
  next
    case (SetPassword f a b)
    show ?thesis using True env flags cmd(2) unfolding cmd(1) SetPassword
      by (simp add: SetBarringPasswordResponse_def answer serve_action [OF inv] EventSetBarringPassword_def)
  qed
next
  case False
  with setting_saved [OF run inv(2)] show ?thesis by (simp add: saved_iff_accepted_def)
qed

theorem setting_answered_witness:
  "\<exists>pre. setting_answer (sample_ss_env True) (SetWaiting True)
      \<lparr>sb_index = 1, sb_result = TELEPHONY_SUCCESS, sb_reason = 0, sb_message = []\<rparr>
      (fst (snd (run_setting (sample_ss_env True) (SetWaiting True) 0 empty_table))) =
    (empty_table\<lparr>indexCommand := 1\<rparr>, pre @ [ReportSetWaitingResult TELEPHONY_SUCCESS])"
proof -
  let ?e = "sample_ss_env True" and ?r = "\<lparr>sb_index = 1, sb_result = TELEPHONY_SUCCESS, sb_reason = 0, sb_message = []\<rparr>"
  obtain ret h' acts where run: "run_setting ?e (SetWaiting True) 0 empty_table = (ret, h', acts)" by (metis prod_cases3)
  have "fst (run_setting ?e (SetWaiting True) 0 empty_table) = TELEPHONY_SUCCESS"
    by (simp add: SetCallWaiting_def send_setting_def finish_setting_def ims_ss_def Let_def)
  then have ret: "ret = TELEPHONY_SUCCESS" by (simp only: run fst_conv)
  have ans: "sb_index ?r = 1" by simp
  have h': "fst (snd (run_setting ?e (SetWaiting True) 0 empty_table)) = h'" by (simp only: run fst_conv snd_conv)
  from setting_answered [OF _ _ _ run _ _ ans] ret show ?thesis
    unfolding h' by (auto simp: ril_result_def)
qed

section \<open>PIN and PUK\<close>

text \<open>What the user sees of the effects of a PIN or PUK code: its own reports, and what the handler reports
  when the event with the SIM's answer arrives.\<close>

fun deliver :: "'x ss_env_scheme \<Rightarrow> ss_act \<Rightarrow> ss_act list" where
  "deliver e (SendPinPukEvent slotId result remain) = EventSetPinPuk e result remain"
| "deliver e (ReportMmiCodeResult info) = [ReportMmiCodeResult info]"
| "deliver e _ = []"

fun pin_req :: "SuppHandler \<Rightarrow> int \<Rightarrow> string \<Rightarrow> string \<Rightarrow> ss_cs_req" where
  "pin_req AlterPinPassword = CsAlterPin"
| "pin_req UnlockPuk = CsUnlockPuk"
| "pin_req AlterPin2Password = CsAlterPin2"
| "pin_req _ = CsUnlockPuk2"

lemma report_code: "e_register e \<Longrightarrow> length (c_str m) < e_mmiMessageSize e \<Longrightarrow> r \<noteq> TELEPHONY_SUCCESS \<Longrightarrow>
    ReportMmiCodeMessage e r [] m = [ReportMmiCodeResult ((e_mmiInit e)\<lparr>mmi_result := r, mmi_message := c_str m\<rparr>)]"
  by (simp add: ReportMmiCodeMessage_def ReportMmiCodeMessage_info_def strcpy_s_def)

lemma pin_request_shape:
  "(\<exists>result remain. pin_request e slotId q = (TELEPHONY_SUCCESS, [SsCs q, SendPinPukEvent slotId result remain])) \<or>
   (\<exists>err. err \<noteq> TELEPHONY_SUCCESS \<and> pin_request e slotId q = (err, [SsCs q]))"
  by (simp add: pin_request_def split: prod.split)

text \<open>C17: changing a PIN. The SIM is asked to change a PIN or to unlock with a PUK exactly when the new PIN is given twice the same
  and has four to eight characters, then once and with these values; and in every case the user is told one result,
  the SIM's or a failure.\<close>

theorem pin_change:
  assumes f: "f \<in> {AlterPinPassword, UnlockPuk, AlterPin2Password, UnlockPuk2}"
    and act: "actionString d \<noteq> []" and env: "e_register e" "26 < e_mmiMessageSize e"
  shows "fst (run_supp e f slotId d h) = h \<and>
    filter (\<lambda>a. \<exists>q. a = SsCs q) (snd (run_supp e f slotId d h)) =
      (if serviceInfoB d = serviceInfoC d \<and> 4 \<le> length (serviceInfoB d) \<and> length (serviceInfoB d) \<le> 8
       then [SsCs (pin_req f slotId (serviceInfoB d) (serviceInfoA d))] else []) \<and>
    (\<exists>info. concat (map (deliver e) (snd (run_supp e f slotId d h))) = [ReportMmiCodeResult info])"
proof -
  let ?q = "pin_req f slotId (serviceInfoB d) (serviceInfoA d)"
  have run: "run_supp e f slotId d h = (h, change_pin e d (\<lambda>new old. pin_request e slotId (pin_req f slotId new old)))"
    using f by (auto simp: run_supp_def AlterPinPassword_supp_def UnlockPuk_supp_def AlterPin2Password_supp_def
        UnlockPuk2_supp_def AlterPinPassword_cs_def [abs_def] UnlockPuk_cs_def [abs_def] AlterPin2Password_cs_def [abs_def]
        UnlockPuk2_cs_def [abs_def])
  have msgs: "\<exists>info. ReportMmiCodeMessage e MMI_CODE_FAILED [] m = [ReportMmiCodeResult info]"
    if "m \<in> {GENERIC_FAILURE, MIS_MATCH_PIN_PUK, INVAILD_PIN_PUK}" for m
  proof -
    have "length (c_str m) \<le> length m" by (rule length_c_str)
    also have "length m \<le> 26"
      using that by (auto simp: GENERIC_FAILURE_def MIS_MATCH_PIN_PUK_def INVAILD_PIN_PUK_def)
    finally show ?thesis using env report_code [of e m MMI_CODE_FAILED] by (simp add: MMI_CODE_FAILED_def)
  qed
  show ?thesis
  proof (cases "serviceInfoB d = serviceInfoC d \<and> 4 \<le> length (serviceInfoB d) \<and> length (serviceInfoB d) \<le> 8")
    case True
    obtain info where gen: "ReportMmiCodeMessage e MMI_CODE_FAILED [] GENERIC_FAILURE = [ReportMmiCodeResult info]"
      using msgs [of GENERIC_FAILURE] by auto
    from True have valid: "IsVaildPinOrPuk e (serviceInfoB d) (serviceInfoC d) = (True, [])"
      by (auto simp: IsVaildPinOrPuk_def)
    have "fst (run_supp e f slotId d h) = h \<and> filter (\<lambda>a. \<exists>q. a = SsCs q) (snd (run_supp e f slotId d h)) = [SsCs ?q] \<and>
        (\<exists>info. concat (map (deliver e) (snd (run_supp e f slotId d h))) = [ReportMmiCodeResult info])" (is ?goal)
      using pin_request_shape [of e slotId ?q]
    proof (elim disjE exE conjE)
      fix result remain
      assume "pin_request e slotId ?q = (TELEPHONY_SUCCESS, [SsCs ?q, SendPinPukEvent slotId result remain])"
      with valid act env(1) show ?goal
        by (simp add: run change_pin_def EventSetPinPuk_def ReportMmiCodeMessage_info_def)
    next
      fix err
      assume "err \<noteq> TELEPHONY_SUCCESS" "pin_request e slotId ?q = (err, [SsCs ?q])"
      with valid act gen show ?goal by (simp add: run change_pin_def)
    qed
    then show ?thesis unfolding if_P [OF True] .
  next
    case False
    let ?m = "if serviceInfoB d \<noteq> serviceInfoC d then MIS_MATCH_PIN_PUK else INVAILD_PIN_PUK"
    have m: "?m \<in> {GENERIC_FAILURE, MIS_MATCH_PIN_PUK, INVAILD_PIN_PUK}" by simp
    have invalid: "IsVaildPinOrPuk e (serviceInfoB d) (serviceInfoC d) = (False, ReportMmiCodeMessage e MMI_CODE_FAILED [] ?m)"
    proof (cases "serviceInfoB d = serviceInfoC d")
      case True
      with False have "length (serviceInfoC d) < 4 \<or> 8 < length (serviceInfoC d)" by simp linarith
      with True show ?thesis by (simp add: IsVaildPinOrPuk_def)
    qed (simp add: IsVaildPinOrPuk_def)
    obtain info where "ReportMmiCodeMessage e MMI_CODE_FAILED [] ?m = [ReportMmiCodeResult info]"
      using msgs [OF m] by blast
    then show ?thesis unfolding if_not_P [OF False] by (simp add: run change_pin_def invalid act split del: if_split)
  qed
qed

theorem pin_change_witness:
  "filter (\<lambda>a. \<exists>q. a = SsCs q) (snd (run_supp (sample_ss_env False) AlterPinPassword 0
      (mmi_data ''**'' ''04'' [''1234'', ''5678'', ''5678''] []) empty_table)) = [SsCs (CsAlterPin 0 ''5678'' ''1234'')]"
proof -
  let ?d = "mmi_data ''**'' ''04'' [''1234'', ''5678'', ''5678''] []"
  have "AlterPinPassword \<in> {AlterPinPassword, UnlockPuk, AlterPin2Password, UnlockPuk2}" "actionString ?d \<noteq> []"
    by (simp_all add: mmi_data_def)
  from pin_change [OF this, of "sample_ss_env False" 0 empty_table] show ?thesis
    by (simp add: mmi_data_def field_def)
qed

section \<open>Retrying over CS\<close>

text \<open>The callback-stub function that receives the answer to an activation or deactivation, and what its retry forgets.\<close>

fun retry_over_cs ::
    "'x ss_env_scheme \<Rightarrow> SuppHandler \<Rightarrow> int \<Rightarrow> SsBaseResult \<Rightarrow> 'h CommandTable_scheme \<Rightarrow> SsBaseResult + errcode \<times> ss_act list" where
  "retry_over_cs e HandleCallWaiting slotId r h = SetCallWaitingResponse_stub e slotId r h"
| "retry_over_cs e HandleCallRestriction slotId r h = SetCallRestrictionResponse_stub e slotId r h"
| "retry_over_cs e HandleClir slotId r h = SetClirResponse_stub e slotId r h"
| "retry_over_cs e HandleCallTransfer slotId r h = SetCallTransferResponse_stub e slotId r h"
| "retry_over_cs e _ slotId r h = Inl r"

fun forgotten :: "SuppHandler \<Rightarrow> ss_cs_req \<Rightarrow> ss_cs_req" where
  "forgotten HandleClir (CsSetClir slotId action i) = CsSetClir slotId 0 i"
| "forgotten HandleCallTransfer (CsSetCallTransfer slotId p i) = CsSetCallTransfer slotId (p\<lparr>ct_classx := 0\<rparr>) i"
| "forgotten _ q = q"

lemma get_saved:
  assumes "command_inv h" "RequestSsRequestCommandIndex h = (i, h1)" "map_of (utCommandMap h) i = None"
  shows "GetSsRequestCommand i (SaveSsRequestCommand cmd i h1) = Some (cmd\<lparr>ss_isIncludeCallForwardingNumber := False\<rparr>)"
  using ss.serve(1) [OF assms, of cmd] by (simp add: GetSsRequestCommand_def SsRequestCommand_init_def)

lemma retry_saved:
  assumes "command_inv h" "RequestSsRequestCommandIndex h = (i, h1)" "map_of (utCommandMap h) i = None"
    and "e_handler e slotId" "sb_index base = i" "sb_result base = IMS_ERROR_UT_CS_FALLBACK"
  shows "fall_back e slotId r base retry (SaveSsRequestCommand cmd i h1) =
    Inr (retry (cmd\<lparr>ss_isIncludeCallForwardingNumber := False\<rparr>))"
  using get_saved [OF assms(1-3), of cmd] assms(4-6) by (simp add: fall_back_def ss_command_def)

lemma no_ims_simps [simp]:
  "\<not> NeedCallImsService (e\<lparr>e_imsProxy := False\<rparr>)" "cs_ss (e\<lparr>e_imsProxy := False\<rparr>) q = cs_ss e q"
  "copy_password (e\<lparr>e_imsProxy := False\<rparr>) p = copy_password e p"
  "ReportMmiCodeMessage (e\<lparr>e_imsProxy := False\<rparr>) r m m' = ReportMmiCodeMessage e r m m'"
  "SetCallRestrictionRequest_cs (e\<lparr>e_imsProxy := False\<rparr>) s fac n p j = SetCallRestrictionRequest_cs e s fac n p j"
  "SetCallWaitingRequest_cs (e\<lparr>e_imsProxy := False\<rparr>) s b c j = SetCallWaitingRequest_cs e s b c j"
  by (simp_all add: NeedCallImsService_def cs_ss_def copy_password_def ReportMmiCodeMessage_def ReportMmiCodeMessage_info_def
      SetCallRestrictionRequest_cs_def SetCallWaitingRequest_cs_def split: option.split)

lemma finish_no_ims [simp]: "finish_mmi (e\<lparr>e_imsProxy := False\<rparr>) = finish_mmi e"
  by (simp add: fun_eq_iff finish_mmi_def)

lemma filter_cs_finish:
  "e_event e \<Longrightarrow> filter (\<lambda>a. \<exists>q. a = SsCs q) (snd (finish_mmi e cmd i (cs_ss e q) h)) = [SsCs q]"
  by (auto simp: finish_mmi_def cs_ss_def ReportMmiCodeMessage_def ReportMmiCodeMessage_info_def split: option.split)

lemma copy_password_twice: "copy_password e p = Some p' \<Longrightarrow> copy_password e p' = Some p'"
proof -
  assume p: "copy_password e p = Some p'"
  have "c_str (c_str p) = c_str p"
    by (rule c_str_id) (auto simp: c_str_def dest: set_takeWhileD)
  with p show ?thesis by (auto simp: copy_password_def strcpy_s_def split: if_splits)
qed

text \<open>C15: a request the IMS service gives back. When an accepted activation or deactivation is answered with the demand to
  fall back, the stub sends over CS what the same code would have sent on a device without IMS, under the same index,
  for call waiting, barring and call transfer; but a call transfer loses its service class, and the
  line-identification setting its action, which is always sent as 0.\<close>

theorem ut_fallback:
  assumes inv: "command_inv h" "RequestSsRequestCommandIndex h = (i, h1)" "map_of (utCommandMap h) i = None"
    and f: "f \<in> {HandleCallWaiting, HandleCallRestriction, HandleClir, HandleCallTransfer}"
    and act: "actionString d = (if on then ''*'' else ''#'')" and env: "e_handler e slotId" "NeedCallImsService e" "e_event e"
    and run: "run_supp e f slotId d h = (h', acts)" and accepted: "utCommandMap h' \<noteq> utCommandMap h"
    and answer: "sb_index r = i" "sb_result r = IMS_ERROR_UT_CS_FALLBACK"
  shows "\<exists>q. filter (\<lambda>a. \<exists>q. a = SsCs q) (snd (run_supp (e\<lparr>e_imsProxy := False\<rparr>) f slotId d h)) = [SsCs q] \<and>
    retry_over_cs e f slotId r h' = Inr (e_csSs e (forgotten f q), [SsCs (forgotten f q)])"
proof -
  have h1: "utCommandMap h1 = utCommandMap h"
    using inv(2) by (auto simp: RequestSsRequestCommandIndex_def Let_def)
  have guard: "mmi_guard e' slotId (x # xs) h body = body h" if "e_handler e' slotId" for e' :: "'x ss_env_scheme" and body x xs
    by (rule mmi_guard_run [OF _ that]) simp
  have env': "e_handler (e\<lparr>e_imsProxy := False\<rparr>) slotId" using env(1) by simp
  let ?a = "if on then 1 else 2 :: int"
  note defs = run_supp_def guard env env' inv(2) act Let_def
  note retry = retry_saved [OF inv env(1) answer]
  consider "f = HandleCallWaiting" | "f = HandleCallRestriction" | "f = HandleClir" | "f = HandleCallTransfer"
    using f by blast
  then show ?thesis
  proof cases
    case 1
    let ?c = "ObtainServiceCode (serviceInfoA d)"
    let ?cmd = "SsRequestCommand_init\<lparr>ss_classType := ?c, ss_enable := on, ss_action := of_bool on\<rparr>"
    have "finish_mmi e ?cmd i (ims_ss e (ImsSetCallWaiting slotId on ?c i)) h1 = (h', acts)"
      using run by (cases on) (simp_all add: 1 defs HandleCallWaiting_supp_def)
    then have "h' = SaveSsRequestCommand ?cmd i h1" using finish_mmi_accepted accepted h1 by metis
    moreover have "filter (\<lambda>a. \<exists>q. a = SsCs q) (snd (run_supp (e\<lparr>e_imsProxy := False\<rparr>) f slotId d h)) =
        [SsCs (CsSetCallWaiting slotId on i)]"
      by (cases on) (simp_all add: 1 defs HandleCallWaiting_supp_def SetCallWaitingRequest_cs_def filter_cs_finish)
    ultimately show ?thesis
      by (simp add: 1 SetCallWaitingResponse_stub_def retry SetCallWaitingRequest_cs_def cs_ss_def env answer)
  next
    case 2
    let ?fac = "ObtainBarringInstallation (serviceCode d)" and ?pw = "serviceInfoA d"
    obtain p where p: "copy_password e ?pw = Some p"
      using run accepted h1 by (cases on) (auto simp: 2 defs HandleCallRestriction_supp_def split: option.splits)
    let ?cmd = "SsRequestCommand_init\<lparr>ss_facility := ?fac, ss_enable := on, ss_password := p, ss_action := ?a\<rparr>"
    have "finish_mmi e ?cmd i (ims_ss e (ImsSetCallRestriction slotId ?fac (of_bool on) ?pw i)) h1 = (h', acts)"
      using run p by (cases on) (simp_all add: 2 defs HandleCallRestriction_supp_def)
    then have saved: "h' = SaveSsRequestCommand ?cmd i h1" using finish_mmi_accepted accepted h1 by metis
    have "filter (\<lambda>a. \<exists>q. a = SsCs q) (snd (run_supp (e\<lparr>e_imsProxy := False\<rparr>) f slotId d h)) =
        [SsCs (CsSetCallRestriction slotId \<lparr>cr_mode = of_bool on, cr_fac = ?fac, cr_password = p\<rparr> i)]"
      using p by (cases on) (simp_all add: 2 defs HandleCallRestriction_supp_def SetCallRestrictionRequest_cs_def filter_cs_finish)
    with saved p copy_password_twice [OF p] show ?thesis
      by (simp add: 2 SetCallRestrictionResponse_stub_def retry SetCallRestrictionRequest_cs_def cs_ss_def env answer)
  next
    case 3
    let ?cmd = "SsRequestCommand_init\<lparr>ss_action := ?a\<rparr>"
    have "finish_mmi e ?cmd i (ims_ss e (ImsSetClir slotId ?a i)) h1 = (h', acts)"
      using run by (cases on) (simp_all add: 3 defs HandleClir_supp_def)
    then have "h' = SaveSsRequestCommand ?cmd i h1" using finish_mmi_accepted accepted h1 by metis
    moreover have "filter (\<lambda>a. \<exists>q. a = SsCs q) (snd (run_supp (e\<lparr>e_imsProxy := False\<rparr>) f slotId d h)) = [SsCs (CsSetClir slotId ?a i)]"
      by (cases on) (simp_all add: 3 defs HandleClir_supp_def filter_cs_finish)
    ultimately show ?thesis
      by (simp add: 3 SetClirResponse_stub_def retry cs_ss_def env answer SsRequestCommand_init_def)
  next
    case 4
    have act4: "actionString d \<in> {''*'', ''#'', ''**'', ''##''}" using act by simp
    obtain a where a: "ObtainCallTrasferAction (actionString d) (serviceInfoA d) = Some a"
      and saved: "h' = SaveSsRequestCommand (SsRequestCommand_init\<lparr>ss_cfReason := ObtainCause (serviceCode d), ss_cfAction := a,
        ss_action := a, ss_number := serviceInfoA d\<rparr>) i h1"
      by (rule transfer_command_saved [OF inv(2) act4 env(1) run [unfolded 4] accepted])
    have "actionString d \<noteq> ''*#''" "actionString d \<noteq> []" using act by auto
    then have "filter (\<lambda>a. \<exists>q. a = SsCs q) (snd (run_supp (e\<lparr>e_imsProxy := False\<rparr>) f slotId d h)) =
        [SsCs (CsSetCallTransfer slotId \<lparr>ct_mode = a, ct_reason = ObtainCause (serviceCode d), ct_number = serviceInfoA d,
           ct_classx = ObtainServiceCode (serviceInfoB d)\<rparr> i)]"
      using a env' inv(2) env(3) by (simp add: 4 run_supp_def HandleCallTransfer_supp_def HandleSetCallTransfer_def Let_def filter_cs_finish)
    with saved show ?thesis
      by (simp add: 4 SetCallTransferResponse_stub_def retry cs_ss_def env answer SsRequestCommand_init_def)
  qed
qed

theorem ut_fallback_witness:
  "retry_over_cs (sample_ss_env True) HandleClir 0 \<lparr>sb_index = 1, sb_result = IMS_ERROR_UT_CS_FALLBACK, sb_reason = 0, sb_message = []\<rparr>
     (fst (run_supp (sample_ss_env True) HandleClir 0 (mmi_data ''#'' ''31'' [] []) empty_table)) =
   Inr (TELEPHONY_SUCCESS, [SsCs (CsSetClir 0 0 1)])"
proof -
  let ?d = "mmi_data ''#'' ''31'' [] []" and ?e = "sample_ss_env True"
  let ?r = "\<lparr>sb_index = 1, sb_result = IMS_ERROR_UT_CS_FALLBACK, sb_reason = 0, sb_message = []\<rparr>"
  have act: "actionString ?d = (if False then ''*'' else ''#'')" by (simp add: mmi_data_def)
  have run: "run_supp ?e HandleClir 0 ?d empty_table =
      (SaveSsRequestCommand (SsRequestCommand_init\<lparr>ss_action := 2\<rparr>) 1 (empty_table\<lparr>indexCommand := 1\<rparr>), [SsIms (ImsSetClir 0 2 1)])"
    using act by (simp add: run_supp_def HandleClir_supp_def mmi_guard_run ims_ss_def finish_mmi_def)
  have ne: "utCommandMap (SaveSsRequestCommand (SsRequestCommand_init\<lparr>ss_action := 2\<rparr>) 1 (empty_table\<lparr>indexCommand := 1\<rparr>)) \<noteq>
      utCommandMap empty_table"
    by (simp add: SaveSsRequestCommand_def)
  have f: "HandleClir \<in> {HandleCallWaiting, HandleCallRestriction, HandleClir, HandleCallTransfer}" by simp
  have ans: "sb_index ?r = 1" "sb_result ?r = IMS_ERROR_UT_CS_FALLBACK" by simp_all
  have cs: "filter (\<lambda>a. \<exists>q. a = SsCs q) (snd (run_supp (?e\<lparr>e_imsProxy := False\<rparr>) HandleClir 0 ?d empty_table)) = [SsCs (CsSetClir 0 2 1)]"
    using act by (simp add: run_supp_def HandleClir_supp_def mmi_guard_run filter_cs_finish)
  from ut_fallback [OF _ _ _ f act _ _ _ run ne ans] cs show ?thesis by (auto simp: run)
qed

section \<open>The tables of service codes\<close>

lemma hash_switch_map_of:
  assumes "digit_code s" "\<forall>(c, v) \<in> set tab. digit_code c"
  shows "hash_switch s tab = map_of tab s"
  using assms(2)
proof (induction tab)
  case (Cons cv tab)
  obtain c v where cv: "cv = (c, v)" by (cases cv)
  have "Hash s = Hash c \<longleftrightarrow> s = c"
    using Hash_inj_digit_code [OF assms(1), of c] Cons.prems cv by auto
  with Cons cv show ?case
    by (auto simp: HashCompileTime_eq Hash_def [symmetric] simp del: HashCompileTime.simps)
qed simp

definition cause_table :: "(string \<times> int) list" where
  "cause_table =
     [(''21'', TRANSFER_TYPE_UNCONDITIONAL), (''67'', TRANSFER_TYPE_BUSY), (''61'', TRANSFER_TYPE_NO_REPLY),
      (''62'', TRANSFER_TYPE_NOT_REACHABLE), (''002'', TRANSFER_TYPE_ALL), (''004'', TRANSFER_TYPE_CONDITIONAL)]"

definition facility_table :: "(string \<times> string) list" where
  "facility_table =
     [(''33'', ''AO''), (''331'', ''OI''), (''332'', ''OX''), (''351'', ''IR''), (''35'', ''AI''),
      (''330'', ''AB''), (''333'', ''AG''), (''353'', ''AC'')]"

lemma obtain_tables:
  assumes "digit_code c"
  shows "ObtainCause c = (case map_of cause_table c of Some n \<Rightarrow> n | None \<Rightarrow> -1)"
    and "ObtainBarringInstallation c = (case map_of facility_table c of Some n \<Rightarrow> n | None \<Rightarrow> [])"
proof -
  have "c \<noteq> []" using assms by (auto simp: digit_code_def)
  moreover have "\<forall>(c, v) \<in> set cause_table. digit_code c" "\<forall>(c, v) \<in> set facility_table. digit_code c"
    by (simp_all add: cause_table_def facility_table_def digit_code_def is_digit_def)
  ultimately show "ObtainCause c = (case map_of cause_table c of Some n \<Rightarrow> n | None \<Rightarrow> -1)"
    and "ObtainBarringInstallation c = (case map_of facility_table c of Some n \<Rightarrow> n | None \<Rightarrow> [])"
    using hash_switch_map_of [OF assms, of cause_table] hash_switch_map_of [OF assms, of facility_table]
    by (simp_all add: ObtainCause_def ObtainBarringInstallation_def cause_table_def facility_table_def del: hash_switch.simps map_of.simps)
qed

lemma dispatch_tables:
  "map_of (mmi_table b) c = Some HandleCallTransfer \<longleftrightarrow> c \<in> fst ` set cause_table"
  "map_of (mmi_table b) c = Some HandleCallRestriction \<longleftrightarrow> c \<in> fst ` set facility_table"
  by (auto simp: mmi_table_def InitCallTransferMmiCodeFunc_def InitCallRestrictionCodeFunc_def
      InitAdditionalMmiCodeFunc_def InitImsMmiCodeFunc_def cause_table_def facility_table_def split: if_splits)

lemma check_types:
  "CheckCallRestrictionType RESTRICTION_TYPE_ALL_OUTGOING = Some ''AO''"
  "CheckCallRestrictionType RESTRICTION_TYPE_INTERNATIONAL = Some ''OI''"
  "CheckCallRestrictionType RESTRICTION_TYPE_INTERNATIONAL_EXCLUDING_HOME = Some ''OX''"
  "CheckCallRestrictionType RESTRICTION_TYPE_ALL_INCOMING = Some ''AI''"
  "CheckCallRestrictionType RESTRICTION_TYPE_ROAMING_INCOMING = Some ''IR''"
  "CheckCallRestrictionType RESTRICTION_TYPE_ALL_CALLS = Some ''AB''"
  "CheckCallRestrictionType RESTRICTION_TYPE_OUTGOING_SERVICES = Some ''AG''"
  "CheckCallRestrictionType RESTRICTION_TYPE_INCOMING_SERVICES = Some ''AC''"
  by (simp_all add: CheckCallRestrictionType_def)

lemma facility_digit_codes: "(c, fac) \<in> set facility_table \<Longrightarrow> digit_code c"
  by (auto simp: facility_table_def digit_code_def is_digit_def)

lemma facility_distinct: "distinct (map fst facility_table)"
  by (simp add: facility_table_def)

lemma facility_of_code: "(c, fac) \<in> set facility_table \<Longrightarrow> ObtainBarringInstallation c = fac"
  using obtain_tables(2) [OF facility_digit_codes] facility_distinct by (simp add: map_of_is_SomeI)

lemma facilities_of_menu:
  "(\<exists>t. CheckCallRestrictionType t = Some fac) \<longleftrightarrow> fac \<in> snd ` set facility_table"
proof
  assume "\<exists>t. CheckCallRestrictionType t = Some fac"
  then obtain t where "CheckCallRestrictionType t = Some fac" by blast
  then show "fac \<in> snd ` set facility_table"
    by (cases t) (simp_all add: CheckCallRestrictionType_def facility_table_def)
next
  assume "fac \<in> snd ` set facility_table"
  then have "fac = ''AO'' \<or> fac = ''OI'' \<or> fac = ''OX'' \<or> fac = ''IR'' \<or> fac = ''AI'' \<or> fac = ''AB'' \<or> fac = ''AG'' \<or> fac = ''AC''"
    by (simp add: facility_table_def)
  then show "\<exists>t. CheckCallRestrictionType t = Some fac"
    by (elim disjE) (simp only:, blast intro: check_types)+
qed

text \<open>The tables of service codes agree. A code is dispatched to call transfer exactly when it has a cause, and to barring
  exactly when it has a facility; different codes have different causes and facilities; and the facilities of the service
  codes are those of the settings menu.\<close>

theorem service_tables_agree:
  assumes "digit_code c" "digit_code c'"
  shows "(map_of (mmi_table b) c = Some HandleCallTransfer \<longleftrightarrow> ObtainCause c \<noteq> -1) \<and>
    (map_of (mmi_table b) c = Some HandleCallRestriction \<longleftrightarrow> ObtainBarringInstallation c \<noteq> []) \<and>
    (ObtainCause c = ObtainCause c' \<and> ObtainCause c \<noteq> -1 \<longrightarrow> c = c') \<and>
    (ObtainBarringInstallation c = ObtainBarringInstallation c' \<and> ObtainBarringInstallation c \<noteq> [] \<longrightarrow> c = c') \<and>
    (ObtainBarringInstallation c \<noteq> [] \<longrightarrow> (\<exists>t. CheckCallRestrictionType t = Some (ObtainBarringInstallation c))) \<and>
    (CheckCallRestrictionType t = Some fac \<longrightarrow> (\<exists>c. digit_code c \<and> ObtainBarringInstallation c = fac))"
proof -
  have t1: "map_of cause_table x = Some n \<Longrightarrow> n \<noteq> -1" for x n
    by (auto simp: cause_table_def split: if_splits)
  have t2: "map_of facility_table x = Some n \<Longrightarrow> n \<noteq> []" for x n
    by (auto simp: facility_table_def split: if_splits)
  have i1: "map_of cause_table x = Some n \<Longrightarrow> map_of cause_table y = Some n \<Longrightarrow> x = y" for x y n
    by (auto simp: cause_table_def split: if_splits)
  have i2: "map_of facility_table x = Some n \<Longrightarrow> map_of facility_table y = Some n \<Longrightarrow> x = y" for x y n
    by (auto simp: facility_table_def split: if_splits)
  have dom: "x \<in> fst ` set cause_table \<longleftrightarrow> map_of cause_table x \<noteq> None"
    "x \<in> fst ` set facility_table \<longleftrightarrow> map_of facility_table x \<noteq> None" for x
    by (simp_all add: map_of_eq_None_iff)
  have A: "map_of (mmi_table b) c = Some HandleCallTransfer \<longleftrightarrow> ObtainCause c \<noteq> -1"
    "map_of (mmi_table b) c = Some HandleCallRestriction \<longleftrightarrow> ObtainBarringInstallation c \<noteq> []"
    using t1 t2 by (auto simp: dispatch_tables dom obtain_tables [OF assms(1)] split: option.splits)
  have B: "ObtainCause c = ObtainCause c' \<and> ObtainCause c \<noteq> -1 \<longrightarrow> c = c'"
    "ObtainBarringInstallation c = ObtainBarringInstallation c' \<and> ObtainBarringInstallation c \<noteq> [] \<longrightarrow> c = c'"
    using i1 i2 by (auto simp: obtain_tables [OF assms(1)] obtain_tables [OF assms(2)] split: option.splits)
  have C: "ObtainBarringInstallation c \<noteq> [] \<longrightarrow> (\<exists>t. CheckCallRestrictionType t = Some (ObtainBarringInstallation c))"
    by (auto simp: facilities_of_menu obtain_tables [OF assms(1)] split: option.splits dest!: map_of_SomeD)
      (metis snd_conv image_eqI)
  have D: "CheckCallRestrictionType t = Some fac \<longrightarrow> (\<exists>c. digit_code c \<and> ObtainBarringInstallation c = fac)"
    using facilities_of_menu [of fac] facility_digit_codes facility_of_code by fastforce
  from A B C D show ?thesis by blast
qed

theorem service_tables_agree_witness:
  "ObtainCause ''21'' \<noteq> -1 \<and> ObtainBarringInstallation ''21'' = []"
proof -
  have "digit_code ''21''" by (simp add: digit_code_def is_digit_def)
  from service_tables_agree [OF this this, of False] show ?thesis
    by (simp add: mmi_table_def InitCallTransferMmiCodeFunc_def)
qed

end
