(* ===== verification/Service.thy ===== *)
theory Service
  imports Handler SsEndToEnd
begin

text \<open>
  The call service, \<^verbatim>\<open>services/manager/src/cellular_call_service.cpp\<close>: the object the call manager
  talks to. It owns the controls of every slot, the SRVCC state and the radio flags, checks the slot and
  the state, picks the control by the type of the call, creates it on demand, and passes the operation on.
  The handlers of the slots work on the same controls; \<open>on_handler\<close> runs an event of a handler on them.

  A map of pointers is a partial map here, a null pointer and a missing entry being the same to every
  reader. \<^verbatim>\<open>std::make_shared\<close> throws instead of returning null, so the tests after it do not
  occur. The build is the one with \<^verbatim>\<open>CELLULAR_CALL_SATELLITE\<close>; \<open>e_basePower\<close> is
  \<^verbatim>\<open>BASE_POWER_IMPROVEMENT_FEATURE\<close>. Telemetry is left out.
\<close>

record service_env = handler_env +
  e_slotCount :: int
  e_satelliteStatus :: bool
  e_imsRegistered :: "int \<Rightarrow> bool"
  e_preferenceMode :: "int \<Rightarrow> int"
  e_csVoiceOnly :: int
  e_preferImsForEmergency :: "int \<Rightarrow> bool"
  e_hasSimCard :: "int \<Rightarrow> bool"
  e_volteSupport :: "int \<Rightarrow> bool"

record CellularCallService =
  csControlMap :: "int \<rightharpoonup> CSControl"
  imsControlMap :: "int \<rightharpoonup> IMSControl"
  satelliteControlMap :: "int \<rightharpoonup> SatelliteControl"
  handlerMap :: "int \<rightharpoonup> CellularCallHandler"
  svc_srvccState :: SrvccState
  isRadioOn :: "int \<Rightarrow> bool"
  readyToCall :: "int \<Rightarrow> bool"
  callForwarding :: "int \<times> bool \<times> string"

text \<open>Inside an operation of the service the service exists, the handlers are its own, and so are the radio
  flags.\<close>

definition service_view :: "'x dial_env_scheme \<Rightarrow> CellularCallService \<Rightarrow> 'x dial_env_scheme" where
  "service_view e s = e\<lparr>e_service := True, e_handler := (\<lambda>k. handlerMap s k \<noteq> None), e_radioOnFlag := isRadioOn s\<rparr>"

section \<open>Slots and controls\<close>

definition DEFAULT_SIM_SLOT_ID :: int where "DEFAULT_SIM_SLOT_ID = 0"
definition SIM_SLOT_0 :: int where "SIM_SLOT_0 = 0"
definition SIM_SLOT_1 :: int where "SIM_SLOT_1 = 1"

definition IsValidSlotId :: "'x service_env_scheme \<Rightarrow> int \<Rightarrow> bool" where
  "IsValidSlotId e slot =
     (if e_slotCount e = 1 then slot = DEFAULT_SIM_SLOT_ID
      else if e_slotCount e = 2 then slot = SIM_SLOT_0 \<or> slot = SIM_SLOT_1
      else False)"

definition GetSlotInfo :: "'x service_env_scheme \<Rightarrow> int list" where
  "GetSlotInfo e =
     (if e_slotCount e = 1 then [DEFAULT_SIM_SLOT_ID]
      else if e_slotCount e = 2 then [SIM_SLOT_0, SIM_SLOT_1] else [])"

definition GetCsControl :: "'x service_env_scheme \<Rightarrow> int \<Rightarrow> CellularCallService \<Rightarrow> CSControl option" where
  "GetCsControl e slot s = (if \<not> IsValidSlotId e slot then None else csControlMap s slot)"

definition GetImsControl :: "'x service_env_scheme \<Rightarrow> int \<Rightarrow> CellularCallService \<Rightarrow> IMSControl option" where
  "GetImsControl e slot s = (if \<not> IsValidSlotId e slot then None else imsControlMap s slot)"

definition GetSatelliteControl :: "'x service_env_scheme \<Rightarrow> int \<Rightarrow> CellularCallService \<Rightarrow> SatelliteControl option" where
  "GetSatelliteControl e slot s = satelliteControlMap s slot"

definition SetCsControl ::
    "'x service_env_scheme \<Rightarrow> int \<Rightarrow> CSControl option \<Rightarrow> CellularCallService \<Rightarrow> CellularCallService" where
  "SetCsControl e slot c s =
     (if \<not> IsValidSlotId e slot then s else s\<lparr>csControlMap := (csControlMap s)(slot := c)\<rparr>)"

definition SetImsControl ::
    "'x service_env_scheme \<Rightarrow> int \<Rightarrow> IMSControl option \<Rightarrow> CellularCallService \<Rightarrow> CellularCallService" where
  "SetImsControl e slot c s =
     (if \<not> IsValidSlotId e slot then s else s\<lparr>imsControlMap := (imsControlMap s)(slot := c)\<rparr>)"

definition SetSatelliteControl ::
    "'x service_env_scheme \<Rightarrow> int \<Rightarrow> SatelliteControl option \<Rightarrow> CellularCallService \<Rightarrow> CellularCallService" where
  "SetSatelliteControl e slot c s =
     (if \<not> IsValidSlotId e slot then s else s\<lparr>satelliteControlMap := (satelliteControlMap s)(slot := c)\<rparr>)"

text \<open>How the operations of the service use a control: looked up, and created when it is missing; or looked up,
  and an error when it is missing. The control is shared, so what the operation leaves of it is what the map
  holds afterwards.\<close>

definition ensure_control :: "(int \<Rightarrow> 's \<Rightarrow> 'c option) \<Rightarrow> (int \<Rightarrow> 'c option \<Rightarrow> 's \<Rightarrow> 's) \<Rightarrow> 'c \<Rightarrow> int \<Rightarrow> 's \<Rightarrow> 's" where
  "ensure_control get put new k s = (case get k s of None \<Rightarrow> put k (Some new) s | Some _ \<Rightarrow> s)"

definition on_control ::
    "(int \<Rightarrow> 's \<Rightarrow> 'c option) \<Rightarrow> (int \<Rightarrow> 'c option \<Rightarrow> 's \<Rightarrow> 's) \<Rightarrow> int \<Rightarrow> 'a list \<Rightarrow>
     ('c \<Rightarrow> errcode \<times> 'c \<times> 'a list) \<Rightarrow> 's \<Rightarrow> errcode \<times> 's \<times> 'a list" where
  "on_control get put k missing f s =
     (case get k s of
        None \<Rightarrow> (TELEPHONY_ERR_LOCAL_PTR_NULL, s, missing)
      | Some c \<Rightarrow> let (r, c', acts) = f c in (r, put k (Some c') s, acts))"

definition read_only :: "('c \<Rightarrow> errcode \<times> 'a list) \<Rightarrow> 'c \<Rightarrow> errcode \<times> 'c \<times> 'a list" where
  "read_only f c = (let (r, acts) = f c in (r, c, acts))"

definition slot_guard ::
    "'x service_env_scheme \<Rightarrow> int \<Rightarrow> ('s \<Rightarrow> errcode \<times> 's \<times> 'a list) \<Rightarrow> 's \<Rightarrow> errcode \<times> 's \<times> 'a list" where
  "slot_guard e slot f s = (if \<not> IsValidSlotId e slot then (CALL_ERR_INVALID_SLOT_ID, s, []) else f s)"

definition srvcc_guard ::
    "(CellularCallService \<Rightarrow> errcode \<times> CellularCallService \<times> 'a list) \<Rightarrow> CellularCallService \<Rightarrow>
     errcode \<times> CellularCallService \<times> 'a list" where
  "srvcc_guard f s = (if svc_srvccState s = SRVCC_STARTED then (TELEPHONY_ERR_FAIL, s, []) else f s)"

section \<open>Dialling\<close>

definition IsNeedIms :: "'x service_env_scheme \<Rightarrow> int \<Rightarrow> bool" where
  "IsNeedIms e slot \<longleftrightarrow>
     e_imsRegistered e slot \<and> e_preferenceMode e slot \<noteq> e_csVoiceOnly e \<and> NeedCallImsService e"

definition UseImsForEmergency :: "'x service_env_scheme \<Rightarrow> CellularCallInfo \<Rightarrow> bool \<Rightarrow> bool" where
  "UseImsForEmergency e callInfo isEcc \<longleftrightarrow>
     isEcc \<and> NeedCallImsService e \<and> e_preferImsForEmergency e (ci_slotId callInfo)"

definition IsEmergencyPhoneNumber :: "'x service_env_scheme \<Rightarrow> int \<Rightarrow> string \<Rightarrow> bool \<Rightarrow> errcode \<times> bool" where
  "IsEmergencyPhoneNumber e slot phoneNum enabled =
     (if \<not> IsValidSlotId e slot then (CALL_ERR_INVALID_SLOT_ID, enabled)
      else IsEmergencyCall e slot phoneNum enabled)"

text \<open>A dial may wait (\<open>None\<close>: it is still waiting). It leaves its control in the map.\<close>

definition dial_on ::
    "(int \<Rightarrow> CellularCallService \<Rightarrow> 'c option) \<Rightarrow> (int \<Rightarrow> 'c option \<Rightarrow> CellularCallService \<Rightarrow> CellularCallService) \<Rightarrow>
     int \<Rightarrow> ('c \<Rightarrow> (errcode \<times> 'c \<times> act list) option) \<Rightarrow> CellularCallService \<Rightarrow>
     (errcode \<times> CellularCallService \<times> act list) option" where
  "dial_on get put k f s =
     (case get k s of
        None \<Rightarrow> Some (TELEPHONY_ERR_LOCAL_PTR_NULL, s, [])
      | Some c \<Rightarrow> map_option (\<lambda>(r, c', acts). (r, put k (Some c') s, acts)) (f c))"

definition DialNormalCall ::
    "'x service_env_scheme \<Rightarrow> CellularCallInfo \<Rightarrow> bool \<Rightarrow> CellularCallService \<Rightarrow>
     (errcode \<times> CellularCallService \<times> act list) option" where
  "DialNormalCall e callInfo isEcc s =
     (let k = ci_slotId callInfo in
      if IsNeedIms e k \<or> UseImsForEmergency e callInfo isEcc then
        dial_on (GetImsControl e) (SetImsControl e) k (Dial_ims (service_view e s) callInfo isEcc)
          (ensure_control (GetImsControl e) (SetImsControl e) (IMSControl_init (e_emptyInfo e)) k s)
      else
        dial_on (GetCsControl e) (SetCsControl e) k (Dial_cs (service_view e s) callInfo isEcc)
          (ensure_control (GetCsControl e) (SetCsControl e) CSControl_init k s))"

definition Service_Dial ::
    "'x service_env_scheme \<Rightarrow> CellularCallInfo \<Rightarrow> CellularCallService \<Rightarrow>
     (errcode \<times> CellularCallService \<times> act list) option" where
  "Service_Dial e callInfo s =
     (let k = ci_slotId callInfo in
      if \<not> IsValidSlotId e k then Some (CALL_ERR_INVALID_SLOT_ID, s, [])
      else if svc_srvccState s = SRVCC_STARTED then Some (TELEPHONY_ERR_FAIL, s, [])
      else
        let isEcc = snd (IsEmergencyPhoneNumber e k (ci_phoneNum callInfo) False) in
        if e_satelliteStatus e then
          dial_on (GetSatelliteControl e) (SetSatelliteControl e) k (Dial_sat (service_view e s) callInfo isEcc)
            (ensure_control (GetSatelliteControl e) (SetSatelliteControl e) SatelliteControl_init k s)
        else DialNormalCall e callInfo isEcc s)"

section \<open>Operations on calls\<close>

definition EncapsulationCallReportInfo :: "'x svc_env_scheme \<Rightarrow> CellularCallInfo \<Rightarrow> CallReportInfo" where
  "EncapsulationCallReportInfo e callInfo =
     (if length (ci_phoneNum callInfo) + 1 > e_kMaxNumberLen e + 1 then e_zeroReport e
      else (e_zeroReport e)
        \<lparr>r_accountNum := ci_phoneNum callInfo, r_index := ci_index callInfo, r_accountId := ci_slotId callInfo,
         r_state := CALL_STATUS_DISCONNECTED, r_callType := ci_callType callInfo\<rparr>)"

definition HandleCellularControlException :: "'x svc_env_scheme \<Rightarrow> CellularCallInfo \<Rightarrow> act list" where
  "HandleCellularControlException e callInfo =
     (if \<not> e_register e then []
      else [ReportCallsInfo \<lparr>callVec = [EncapsulationCallReportInfo e callInfo], cr_slotId = ci_slotId callInfo\<rparr>])"

text \<open>The three-way choice by the type of the call, and the two-way choice of the operations that satellite calls
  do not have.\<close>

definition by_type ::
    "'x service_env_scheme \<Rightarrow> CellularCallInfo \<Rightarrow> act list \<Rightarrow>
     (SatelliteControl \<Rightarrow> errcode \<times> SatelliteControl \<times> act list) \<Rightarrow>
     (CSControl \<Rightarrow> errcode \<times> CSControl \<times> act list) \<Rightarrow> (IMSControl \<Rightarrow> errcode \<times> IMSControl \<times> act list) \<Rightarrow>
     CellularCallService \<Rightarrow> errcode \<times> CellularCallService \<times> act list" where
  "by_type e callInfo missing sat cs ims s =
     (let k = ci_slotId callInfo in
      case ci_callType callInfo of
        TYPE_SATELLITE \<Rightarrow> on_control (GetSatelliteControl e) (SetSatelliteControl e) k missing sat s
      | TYPE_CS \<Rightarrow> on_control (GetCsControl e) (SetCsControl e) k missing cs s
      | TYPE_IMS \<Rightarrow> on_control (GetImsControl e) (SetImsControl e) k missing ims s
      | CallType_other _ \<Rightarrow> (TELEPHONY_ERR_ARGUMENT_INVALID, s, []))"

definition by_type_cs_ims ::
    "'x service_env_scheme \<Rightarrow> CellularCallInfo \<Rightarrow>
     (CSControl \<Rightarrow> errcode \<times> CSControl \<times> act list) \<Rightarrow> (IMSControl \<Rightarrow> errcode \<times> IMSControl \<times> act list) \<Rightarrow>
     CellularCallService \<Rightarrow> errcode \<times> CellularCallService \<times> act list" where
  "by_type_cs_ims e callInfo cs ims s =
     (let k = ci_slotId callInfo in
      case ci_callType callInfo of
        TYPE_CS \<Rightarrow> on_control (GetCsControl e) (SetCsControl e) k [] cs s
      | TYPE_IMS \<Rightarrow> on_control (GetImsControl e) (SetImsControl e) k [] ims s
      | _ \<Rightarrow> (TELEPHONY_ERR_ARGUMENT_INVALID, s, []))"

definition Service_HangUp ::
    "'x service_env_scheme \<Rightarrow> CellularCallInfo \<Rightarrow> CallSupplementType \<Rightarrow> CellularCallService \<Rightarrow>
     errcode \<times> CellularCallService \<times> act list" where
  "Service_HangUp e callInfo type s =
     (let v = service_view e s in
      slot_guard e (ci_slotId callInfo) (srvcc_guard
        (by_type e callInfo (HandleCellularControlException e callInfo)
           (read_only (HangUp_sat v callInfo type)) (HangUp_cs v callInfo type) (HangUp_ims v callInfo type))) s)"

definition Service_Reject ::
    "'x service_env_scheme \<Rightarrow> CellularCallInfo \<Rightarrow> CellularCallService \<Rightarrow> errcode \<times> CellularCallService \<times> act list" where
  "Service_Reject e callInfo s =
     (let v = service_view e s in
      slot_guard e (ci_slotId callInfo) (srvcc_guard
        (by_type e callInfo (HandleCellularControlException e callInfo)
           (read_only (Reject_sat v callInfo)) (Reject_cs v callInfo) (Reject_ims v callInfo))) s)"

definition Service_Answer ::
    "'x service_env_scheme \<Rightarrow> CellularCallInfo \<Rightarrow> CellularCallService \<Rightarrow> errcode \<times> CellularCallService \<times> act list" where
  "Service_Answer e callInfo s =
     (let v = service_view e s in
      slot_guard e (ci_slotId callInfo) (srvcc_guard
        (by_type e callInfo (HandleCellularControlException e callInfo)
           (read_only (Answer_sat v callInfo)) (Answer_cs v callInfo) (Answer_ims v callInfo))) s)"

definition Service_HoldCall ::
    "'x service_env_scheme \<Rightarrow> CellularCallInfo \<Rightarrow> CellularCallService \<Rightarrow> errcode \<times> CellularCallService \<times> act list" where
  "Service_HoldCall e callInfo s =
     (let v = service_view e s; k = ci_slotId callInfo in
      slot_guard e k (srvcc_guard
        (by_type e callInfo [] (read_only (\<lambda>_. (HoldCall_sat k, []))) (read_only (HoldCall_cs v k))
           (read_only (HoldCall_ims v k (ci_isRTT callInfo))))) s)"

definition Service_UnHoldCall ::
    "'x service_env_scheme \<Rightarrow> CellularCallInfo \<Rightarrow> CellularCallService \<Rightarrow> errcode \<times> CellularCallService \<times> act list" where
  "Service_UnHoldCall e callInfo s =
     (let v = service_view e s; k = ci_slotId callInfo in
      slot_guard e k (srvcc_guard
        (by_type e callInfo [] (read_only (\<lambda>_. (UnHoldCall_sat k, []))) (read_only (UnHoldCall_cs v k))
           (read_only (UnHoldCall_ims v k (ci_isRTT callInfo))))) s)"

text \<open>The satellite branch calls \<^verbatim>\<open>UnHoldCall\<close>.\<close>

definition Service_SwitchCall ::
    "'x service_env_scheme \<Rightarrow> CellularCallInfo \<Rightarrow> CellularCallService \<Rightarrow> errcode \<times> CellularCallService \<times> act list" where
  "Service_SwitchCall e callInfo s =
     (let v = service_view e s; k = ci_slotId callInfo in
      slot_guard e k (srvcc_guard
        (by_type e callInfo [] (read_only (\<lambda>_. (UnHoldCall_sat k, []))) (read_only (SwitchCall_cs v k))
           (read_only (SwitchCall_ims v k (ci_isRTT callInfo))))) s)"

definition Service_CombineConference ::
    "'x service_env_scheme \<Rightarrow> CellularCallInfo \<Rightarrow> CellularCallService \<Rightarrow> errcode \<times> CellularCallService \<times> act list" where
  "Service_CombineConference e callInfo s =
     (let v = service_view e s; k = ci_slotId callInfo in
      slot_guard e k (srvcc_guard
        (by_type_cs_ims e callInfo (read_only (\<lambda>_. CombineConference_cs v k))
           (read_only (\<lambda>_. CombineConference_ims v k)))) s)"

definition Service_SeparateConference ::
    "'x service_env_scheme \<Rightarrow> CellularCallInfo \<Rightarrow> CellularCallService \<Rightarrow> errcode \<times> CellularCallService \<times> act list" where
  "Service_SeparateConference e callInfo s =
     (let v = service_view e s; k = ci_slotId callInfo in
      slot_guard e k (\<lambda>s.
        if ci_callType callInfo = TYPE_CS then
          on_control (GetCsControl e) (SetCsControl e) k []
            (read_only (SeparateConference_cs v k (ci_phoneNum callInfo) (ci_index callInfo))) s
        else (TELEPHONY_ERR_ARGUMENT_INVALID, s, [])) s)"

definition Service_InviteToConference ::
    "'x service_env_scheme \<Rightarrow> int \<Rightarrow> string list \<Rightarrow> CellularCallService \<Rightarrow> errcode \<times> CellularCallService \<times> act list" where
  "Service_InviteToConference e slot numberList s =
     on_control (GetImsControl e) (SetImsControl e) slot []
       (read_only (\<lambda>_. InviteToConference_ims (service_view e s) slot numberList)) s"

definition Service_KickOutFromConference ::
    "'x service_env_scheme \<Rightarrow> CellularCallInfo \<Rightarrow> CellularCallService \<Rightarrow> errcode \<times> CellularCallService \<times> act list" where
  "Service_KickOutFromConference e callInfo s =
     (let v = service_view e s; k = ci_slotId callInfo in
      slot_guard e k
        (by_type_cs_ims e callInfo (HangUp_cs v callInfo TYPE_DEFAULT)
           (read_only (KickOutFromConference_ims v k (ci_phoneNum callInfo) (ci_index callInfo)))) s)"

definition Service_UpdateImsRttCallMode ::
    "'x service_env_scheme \<Rightarrow> int \<Rightarrow> int \<Rightarrow> int \<Rightarrow> CellularCallService \<Rightarrow> errcode \<times> CellularCallService \<times> act list" where
  "Service_UpdateImsRttCallMode e slot callId mode s =
     on_control (GetImsControl e) (SetImsControl e) slot []
       (read_only (\<lambda>_. UpdateImsRttCallMode_ims (service_view e s) slot callId mode)) s"

definition Service_PostDialProceed ::
    "'x service_env_scheme \<Rightarrow> CellularCallInfo \<Rightarrow> bool \<Rightarrow> CellularCallService \<Rightarrow>
     errcode \<times> CellularCallService \<times> act list" where
  "Service_PostDialProceed e callInfo proceed s =
     (let v = service_view e s in
      slot_guard e (ci_slotId callInfo) (srvcc_guard
        (by_type e callInfo [] (PostDialProceed_sat v callInfo proceed) (PostDialProceed_cs v callInfo proceed)
           (PostDialProceed_ims v callInfo proceed))) s)"

definition Service_StartDtmf ::
    "'x service_env_scheme \<Rightarrow> char \<Rightarrow> CellularCallInfo \<Rightarrow> CellularCallService \<Rightarrow>
     errcode \<times> CellularCallService \<times> act list" where
  "Service_StartDtmf e cDtmfCode callInfo s =
     (let v = service_view e s in
      slot_guard e (ci_slotId callInfo) (srvcc_guard
        (by_type e callInfo []
           (read_only (\<lambda>c. StartDtmf (StartDtmfRequest_sat v) (satConnectionMap c) cDtmfCode callInfo))
           (read_only (\<lambda>c. StartDtmf (StartDtmfRequest_cs v) (csConnectionMap c) cDtmfCode callInfo))
           (read_only (\<lambda>c. StartDtmf (StartDtmfRequest_ims v) (imsConnectionMap c) cDtmfCode callInfo)))) s)"

definition Service_SendDtmf ::
    "'x service_env_scheme \<Rightarrow> char \<Rightarrow> CellularCallInfo \<Rightarrow> CellularCallService \<Rightarrow>
     errcode \<times> CellularCallService \<times> act list" where
  "Service_SendDtmf e cDtmfCode callInfo s =
     (let v = service_view e s in
      slot_guard e (ci_slotId callInfo) (srvcc_guard
        (by_type e callInfo []
           (read_only (\<lambda>c. SendDtmf (SendDtmfRequest_sat v) (satConnectionMap c) cDtmfCode callInfo))
           (read_only (\<lambda>c. SendDtmf (SendDtmfRequest_cs v) (csConnectionMap c) cDtmfCode callInfo))
           (read_only (\<lambda>c. SendDtmf (SendDtmfRequest_ims v) (imsConnectionMap c) cDtmfCode callInfo)))) s)"

definition Service_StopDtmf ::
    "'x service_env_scheme \<Rightarrow> CellularCallInfo \<Rightarrow> CellularCallService \<Rightarrow> errcode \<times> CellularCallService \<times> act list" where
  "Service_StopDtmf e callInfo s =
     (let v = service_view e s in
      slot_guard e (ci_slotId callInfo) (srvcc_guard
        (by_type e callInfo []
           (read_only (\<lambda>c. StopDtmf (StopDtmfRequest_sat v) (satConnectionMap c) callInfo))
           (read_only (\<lambda>c. StopDtmf (StopDtmfRequest_cs v) (csConnectionMap c) callInfo))
           (read_only (\<lambda>c. StopDtmf (StopDtmfRequest_ims v) (imsConnectionMap c) callInfo)))) s)"

section \<open>All calls of a slot, and of the service\<close>

definition cs_hang_up_all :: "'x service_env_scheme \<Rightarrow> CellularCallService \<Rightarrow> int \<Rightarrow> act list" where
  "cs_hang_up_all e s k =
     (case GetCsControl e k s of None \<Rightarrow> [] | Some _ \<Rightarrow> snd (HangUpAllConnection_cs (service_view e s) k))"

definition ims_hang_up_all :: "'x service_env_scheme \<Rightarrow> CellularCallService \<Rightarrow> int \<Rightarrow> act list" where
  "ims_hang_up_all e s k =
     (case GetImsControl e k s of None \<Rightarrow> [] | Some c \<Rightarrow> snd (HangUpAllConnection_ims (service_view e s) k c))"

definition sat_hang_up_all :: "'x service_env_scheme \<Rightarrow> CellularCallService \<Rightarrow> int \<Rightarrow> act list" where
  "sat_hang_up_all e s k =
     (case GetSatelliteControl e k s of None \<Rightarrow> [] | Some _ \<Rightarrow> snd (HangUpAllConnection_sat (service_view e s) k))"

text \<open>\<^verbatim>\<open>HangUpAllConnection()\<close>, with its early return, and \<^verbatim>\<open>HangUpAllConnection(slot)\<close>.\<close>

fun hang_up_slots :: "'x service_env_scheme \<Rightarrow> CellularCallService \<Rightarrow> int list \<Rightarrow> act list" where
  "hang_up_slots e s [] = []"
| "hang_up_slots e s (k # ks) =
     cs_hang_up_all e s k @
     (case GetImsControl e k s of
        None \<Rightarrow> hang_up_slots e s ks
      | Some c \<Rightarrow>
          if e_basePower e \<and> isPendingEmc c then []
          else ims_hang_up_all e s k @ hang_up_slots e s ks)"

definition Service_HangUpAllConnection :: "'x service_env_scheme \<Rightarrow> CellularCallService \<Rightarrow> errcode \<times> act list" where
  "Service_HangUpAllConnection e s = (TELEPHONY_SUCCESS, hang_up_slots e s (GetSlotInfo e))"

definition Service_HangUpAllConnection_slot ::
    "'x service_env_scheme \<Rightarrow> int \<Rightarrow> CellularCallService \<Rightarrow> errcode \<times> act list" where
  "Service_HangUpAllConnection_slot e k s =
     (TELEPHONY_SUCCESS, cs_hang_up_all e s k @ ims_hang_up_all e s k @ sat_hang_up_all e s k)"

definition HandleCallManagerException :: "'x service_env_scheme \<Rightarrow> CellularCallService \<Rightarrow> act list" where
  "HandleCallManagerException e s =
     concat (map (\<lambda>k. cs_hang_up_all e s k @ ims_hang_up_all e s k) (GetSlotInfo e))"

text \<open>The call manager restarted without knowing which calls exist: it hands over the calls it had.\<close>

definition SetControl :: "'x service_env_scheme \<Rightarrow> CellularCallInfo \<Rightarrow> CellularCallService \<Rightarrow> CellularCallService" where
  "SetControl e info s =
     (if ci_callType info = TYPE_CS then
        ensure_control (GetCsControl e) (SetCsControl e) CSControl_init (ci_slotId info) s
      else if ci_callType info = TYPE_IMS then
        ensure_control (GetImsControl e) (SetImsControl e) (IMSControl_init (e_emptyInfo e)) (ci_slotId info) s
      else s)"

definition clear_cs ::
    "'x service_env_scheme \<Rightarrow> CellularCallInfo list \<Rightarrow> int \<Rightarrow> CellularCallService \<Rightarrow> CellularCallService \<times> act list" where
  "clear_cs e infos k s =
     (case GetCsControl e k s of
        None \<Rightarrow> (s, [])
      | Some c \<Rightarrow>
          let v = service_view e s; (_, c', racts) = ReportHangUp_cs v infos k c
          in (SetCsControl e k (Some c') s, racts @ snd (HangUpAllConnection_cs v k)))"

definition clear_ims ::
    "'x service_env_scheme \<Rightarrow> CellularCallInfo list \<Rightarrow> int \<Rightarrow> CellularCallService \<Rightarrow> CellularCallService \<times> act list" where
  "clear_ims e infos k s =
     (case GetImsControl e k s of
        None \<Rightarrow> (s, [])
      | Some c \<Rightarrow>
          let v = service_view e s;
              (_, c1, racts) = ReportHangUp_ims v infos k c;
              (_, c2) = RestoreConnection v infos k c1;
              hacts = snd (HangUpAllConnection_ims v k c2)
          in (SetImsControl e k (Some (c2\<lparr>imsConnectionMap := []\<rparr>)) s, racts @ hacts))"

fun HangUpWithCellularCallRestart ::
    "'x service_env_scheme \<Rightarrow> CellularCallInfo list \<Rightarrow> int list \<Rightarrow> CellularCallService \<Rightarrow>
     CellularCallService \<times> act list" where
  "HangUpWithCellularCallRestart e infos [] s = (s, [])"
| "HangUpWithCellularCallRestart e infos (k # ks) s =
     (let (s1, a1) = clear_cs e infos k s; (s2, a2) = clear_ims e infos k s1;
          (s3, a3) = HangUpWithCellularCallRestart e infos ks s2
      in (s3, a1 @ a2 @ a3))"

definition ClearAllCalls ::
    "'x service_env_scheme \<Rightarrow> CellularCallInfo list \<Rightarrow> CellularCallService \<Rightarrow> errcode \<times> CellularCallService \<times> act list" where
  "ClearAllCalls e infos s =
     (if infos = [] then (TELEPHONY_ERR_ARGUMENT_INVALID, s, [])
      else
        let (s', acts) = HangUpWithCellularCallRestart e infos (GetSlotInfo e) (fold (SetControl e) infos s)
        in (TELEPHONY_SUCCESS, s', acts))"

section \<open>State of the service\<close>

definition SetSrvccState :: "SrvccState \<Rightarrow> CellularCallService \<Rightarrow> CellularCallService" where
  "SetSrvccState st s = s\<lparr>svc_srvccState := st\<rparr>"

definition setRadioOnFlag :: "bool \<Rightarrow> int \<Rightarrow> CellularCallService \<Rightarrow> CellularCallService" where
  "setRadioOnFlag f slot s = s\<lparr>isRadioOn := (isRadioOn s)(slot := f)\<rparr>"

text \<open>The flag is one for the slot, but every control waits on a condition variable of its own. The third
  component lists the controls whose waiting dials are woken.\<close>

definition ready_control ::
    "'c option \<Rightarrow> CallType \<Rightarrow> int \<Rightarrow> bool \<Rightarrow> CellularCallService \<times> CallType list \<Rightarrow> CellularCallService \<times> CallType list" where
  "ready_control c ty slot flagOn = (\<lambda>(s, woken).
     case c of
       None \<Rightarrow> (s, woken)
     | Some _ \<Rightarrow>
         let (_, ready, notify) = SetReadyToCall (readyToCall s) slot flagOn
         in (s\<lparr>readyToCall := ready\<rparr>, if notify then woken @ [ty] else woken))"

definition Service_SetReadyToCall ::
    "'x service_env_scheme \<Rightarrow> int \<Rightarrow> bool \<Rightarrow> CellularCallService \<Rightarrow> errcode \<times> CellularCallService \<times> CallType list" where
  "Service_SetReadyToCall e slot isReadyToCall s =
     slot_guard e slot (\<lambda>s.
       let (s', woken) =
         ready_control (GetSatelliteControl e slot s) TYPE_SATELLITE slot isReadyToCall
           (ready_control (GetImsControl e slot s) TYPE_IMS slot isReadyToCall
             (ready_control (GetCsControl e slot s) TYPE_CS slot isReadyToCall (s, [])))
       in (TELEPHONY_SUCCESS, s', woken)) s"

definition Service_IsMmiCode :: "'x service_env_scheme \<Rightarrow> int \<Rightarrow> string \<Rightarrow> bool" where
  "Service_IsMmiCode e slot num =
     (if \<not> IsValidSlotId e slot then False
      else if (case e_isMmiCode e of Some f \<Rightarrow> \<not> f slot num | None \<Rightarrow> False) then False
      else
        let (need, u) = IsNeedExecuteMmi e MMICodeUtils_init num False; d = mmiData u in
        if \<not> need then False
        else if serviceCode d \<noteq> [] \<and> dialString d \<noteq> [] \<and> (actionString d = ''*'' \<or> actionString d = ''#'')
          then False
        else True)"

section \<open>Events of the handlers\<close>

text \<open>A handler of the service works on the controls and the SRVCC state of the service.\<close>

definition handler_of :: "int \<Rightarrow> CellularCallService \<Rightarrow> CellularCallHandler \<Rightarrow> CellularCallHandler" where
  "handler_of k s h = h\<lparr>slotId := k, csControl := csControlMap s k, imsControl := imsControlMap s k,
     satelliteControl := satelliteControlMap s k, serviceSrvccState := svc_srvccState s\<rparr>"

definition put_handler :: "int \<Rightarrow> CellularCallHandler \<Rightarrow> CellularCallService \<Rightarrow> CellularCallService" where
  "put_handler k h s = s\<lparr>csControlMap := (csControlMap s)(k := csControl h), imsControlMap := (imsControlMap s)(k := imsControl h),
     satelliteControlMap := (satelliteControlMap s)(k := satelliteControl h), svc_srvccState := serviceSrvccState h,
     handlerMap := (handlerMap s)(k \<mapsto> h)\<rparr>"

definition on_handler ::
    "'x service_env_scheme \<Rightarrow> int \<Rightarrow> (CellularCallHandler \<Rightarrow> CellularCallHandler \<times> 'a list) \<Rightarrow> CellularCallService \<Rightarrow>
     CellularCallService \<times> 'a list" where
  "on_handler e k f s =
     (if \<not> IsValidSlotId e k then (s, [])
      else case handlerMap s k of
        None \<Rightarrow> (s, [])
      | Some h \<Rightarrow> let (h', acts) = f (handler_of k s h) in (put_handler k h' s, acts))"

text \<open>\<^verbatim>\<open>GetImsSwitchStatusRequest\<close> of the handler asks the modem for the IMS switch.\<close>

definition GetImsSwitchStatusRequest :: "'x service_env_scheme \<Rightarrow> int \<Rightarrow> act list" where
  "GetImsSwitchStatusRequest e slot =
     (if \<not> e_hasSimCard e slot then []
      else if e_volteSupport e slot \<or> (e_imsRegistered e slot \<and> \<not> e_volteSupport e slot)
        then [QueryImsSwitch slot]
      else [])"

text \<open>The radio state of a slot changes: the flag follows it, and with
  \<^verbatim>\<open>BASE_POWER_IMPROVEMENT_FEATURE\<close> an emergency call that waited for the radio is dialled. Both
  success codes that the source compares with are zero. \<open>None\<close>: the dial is waiting.\<close>

definition RadioStateChangeProcess ::
    "'x service_env_scheme \<Rightarrow> int \<Rightarrow> bool option \<Rightarrow> CellularCallService \<Rightarrow> (CellularCallService \<times> act list) option" where
  "RadioStateChangeProcess e k state s =
     (case state of
        None \<Rightarrow> Some (s, [])
      | Some False \<Rightarrow> Some (setRadioOnFlag False k s, [])
      | Some True \<Rightarrow>
          let s1 = setRadioOnFlag True k s; qacts = GetImsSwitchStatusRequest e k in
          if \<not> e_basePower e then Some (s1, qacts)
          else case GetImsControl e k s1 of
            None \<Rightarrow> Some (s1, qacts)
          | Some c0 \<Rightarrow>
              let c = SkipWaitForRadioOn c0; v = service_view e s1 in
              if \<not> isPendingEmc c then Some (SetImsControl e k (Some c) s1, qacts)
              else case Dial_ims v (pendingEmcDialCallInfo c) True c of
                None \<Rightarrow> None
              | Some (ret, c1, acts) \<Rightarrow>
                  if ret \<noteq> TELEPHONY_SUCCESS \<and> ret \<noteq> TELEPHONY_ERR_SUCCESS then
                    let (_, c2, racts) = ReportHangUpInfo_ims v k c1
                    in Some (SetImsControl e k (Some (c2\<lparr>isPendingEmc := False\<rparr>)) s1, qacts @ acts @ racts)
                  else Some (SetImsControl e k (Some (c1\<lparr>isPendingEmc := False\<rparr>)) s1, qacts @ acts))"

section \<open>Supplementary services\<close>

text \<open>The senders of the settings menu take their command index from the handler of the slot and save their command
  there; every existing slot has a handler from \<^verbatim>\<open>Init\<close> on. What
  \<^verbatim>\<open>CellularCallHiSysEvent\<close> remembers of the last call transfer setting is one slot, state and number for all
  slots; a number longer than its buffer is not modelled.\<close>

definition ss_view :: "'x ss_env_scheme \<Rightarrow> CellularCallService \<Rightarrow> 'x ss_env_scheme" where
  "ss_view e s = e\<lparr>e_service := True, e_handler := (\<lambda>k. handlerMap s k \<noteq> None), e_forwardingInfo := callForwarding s\<rparr>"

definition on_table ::
    "int \<Rightarrow> (CellularCallHandler \<Rightarrow> errcode \<times> CellularCallHandler \<times> ss_act list) \<Rightarrow> CellularCallService \<Rightarrow>
     errcode \<times> CellularCallService \<times> ss_act list" where
  "on_table k f s =
     (case handlerMap s k of
        None \<Rightarrow> (TELEPHONY_ERR_LOCAL_PTR_NULL, s, [])
      | Some h \<Rightarrow> let (r, h', acts) = f h in (r, s\<lparr>handlerMap := (handlerMap s)(k \<mapsto> h')\<rparr>, acts))"

definition Service_SetCallTransferInfo ::
    "'x service_env_scheme \<Rightarrow> 'y ss_env_scheme \<Rightarrow> int \<Rightarrow> CallTransferInfo \<Rightarrow> CellularCallService \<Rightarrow>
     errcode \<times> CellularCallService \<times> ss_act list" where
  "Service_SetCallTransferInfo e se slot cTInfo s =
     slot_guard e slot (\<lambda>s.
       let s1 = (if cf_settingType cTInfo = CALL_TRANSFER_DISABLE
                   then s\<lparr>callForwarding := (slot, False, cf_transferNum cTInfo)\<rparr>
                 else if cf_settingType cTInfo = CALL_TRANSFER_ENABLE \<or> cf_settingType cTInfo = CALL_TRANSFER_REGISTRATION
                   then s\<lparr>callForwarding := (slot, True, cf_transferNum cTInfo)\<rparr>
                 else s)
       in on_table slot (SetCallTransferInfo (ss_view se s1) slot cTInfo) s1) s"

definition Service_CanSetCallTransferTime ::
    "'x service_env_scheme \<Rightarrow> 'y ss_env_scheme \<Rightarrow> int \<Rightarrow> bool \<Rightarrow> errcode \<times> bool \<times> ss_act list" where
  "Service_CanSetCallTransferTime e se slot result =
     slot_guard e slot (CanSetCallTransferTime se slot) result"

definition Service_GetCallTransferInfo ::
    "'x service_env_scheme \<Rightarrow> 'y ss_env_scheme \<Rightarrow> int \<Rightarrow> int \<Rightarrow> bool \<Rightarrow> CellularCallService \<Rightarrow>
     errcode \<times> CellularCallService \<times> ss_act list" where
  "Service_GetCallTransferInfo e se slot type isIncludeCallForwardingNumber s =
     slot_guard e slot (on_table slot (GetCallTransferInfo (ss_view se s) slot type isIncludeCallForwardingNumber)) s"

definition Service_SetCallWaiting ::
    "'x service_env_scheme \<Rightarrow> 'y ss_env_scheme \<Rightarrow> int \<Rightarrow> bool \<Rightarrow> CellularCallService \<Rightarrow>
     errcode \<times> CellularCallService \<times> ss_act list" where
  "Service_SetCallWaiting e se slot activate s = slot_guard e slot (on_table slot (SetCallWaiting (ss_view se s) slot activate)) s"

definition Service_GetCallWaiting ::
    "'x service_env_scheme \<Rightarrow> 'y ss_env_scheme \<Rightarrow> int \<Rightarrow> CellularCallService \<Rightarrow>
     errcode \<times> CellularCallService \<times> ss_act list" where
  "Service_GetCallWaiting e se slot s = slot_guard e slot (on_table slot (GetCallWaiting (ss_view se s) slot)) s"

definition Service_SetCallRestriction ::
    "'x service_env_scheme \<Rightarrow> 'y ss_env_scheme \<Rightarrow> int \<Rightarrow> CallRestrictionInfo \<Rightarrow> CellularCallService \<Rightarrow>
     errcode \<times> CellularCallService \<times> ss_act list" where
  "Service_SetCallRestriction e se slot crInfo s =
     slot_guard e slot (on_table slot (SetCallRestriction (ss_view se s) slot crInfo)) s"

definition Service_GetCallRestriction ::
    "'x service_env_scheme \<Rightarrow> 'y ss_env_scheme \<Rightarrow> int \<Rightarrow> CallRestrictionType \<Rightarrow> CellularCallService \<Rightarrow>
     errcode \<times> CellularCallService \<times> ss_act list" where
  "Service_GetCallRestriction e se slot facType s =
     slot_guard e slot (on_table slot (GetCallRestriction (ss_view se s) slot facType)) s"

definition Service_SetCallRestrictionPassword ::
    "'x service_env_scheme \<Rightarrow> 'y ss_env_scheme \<Rightarrow> int \<Rightarrow> CallRestrictionType \<Rightarrow> string \<Rightarrow> string \<Rightarrow> CellularCallService \<Rightarrow>
     errcode \<times> CellularCallService \<times> ss_act list" where
  "Service_SetCallRestrictionPassword e se slot facType oldPassword newPassword s =
     slot_guard e slot (on_table slot (SetBarringPassword (ss_view se s) slot facType oldPassword newPassword)) s"

definition Service_CloseUnFinishedUssd ::
    "'x service_env_scheme \<Rightarrow> 'y ss_env_scheme \<Rightarrow> int \<Rightarrow> CellularCallService \<Rightarrow> errcode \<times> CellularCallService \<times> ss_act list" where
  "Service_CloseUnFinishedUssd e se slot s =
     slot_guard e slot (read_only (\<lambda>s. CloseUnFinishedUssd_supp (ss_view se s) slot)) s"

definition Service_SendUssdResponse ::
    "'x service_env_scheme \<Rightarrow> 'y ss_env_scheme \<Rightarrow> int \<Rightarrow> string \<Rightarrow> CellularCallService \<Rightarrow>
     errcode \<times> CellularCallService \<times> ss_act list" where
  "Service_SendUssdResponse e se slot content s =
     slot_guard e slot (read_only (\<lambda>s. SendUssd_supp (ss_view se s) slot content)) s"

text \<open>An answer to a setting, in the handler of the slot.\<close>

definition transfer_answer ::
    "'y ss_env_scheme \<Rightarrow> int \<Rightarrow> SsBaseResult \<Rightarrow> CellularCallService \<Rightarrow> CellularCallService \<times> ss_act list" where
  "transfer_answer se k r s =
     (case handlerMap s k of
        None \<Rightarrow> (s, [])
      | Some h \<Rightarrow> let (h', acts) = SetCallTransferInfoResponse (ss_view se s) r h
                  in (s\<lparr>handlerMap := (handlerMap s)(k \<mapsto> h')\<rparr>, acts))"

end
