(* ===== verification/ServiceInv.thy ===== *)
theory ServiceInv
  imports Service
begin

text \<open>
  What the call service promises: its calls and the events of its handlers as one transition system over all
  slots, the invariant of every reachable state, and the behaviour of each group of calls.
\<close>

section \<open>The store of controls\<close>

text \<open>What the operations rely on when they look up, create and share the controls of one kind.\<close>

locale control_store =
  fixes valid :: "int \<Rightarrow> bool"
    and get :: "int \<Rightarrow> 's \<Rightarrow> 'c option"
    and put :: "int \<Rightarrow> 'c option \<Rightarrow> 's \<Rightarrow> 's"
  assumes get_put: "valid k \<Longrightarrow> get k (put k c s) = c"
    and get_put_other: "j \<noteq> k \<Longrightarrow> get j (put k c s) = get j s"
    and put_refused: "\<not> valid k \<Longrightarrow> put k c s = s"
begin

lemma ensure_present:
  assumes "valid k"
  shows "get k (ensure_control get put new k s) = Some (case get k s of None \<Rightarrow> new | Some c \<Rightarrow> c)"
  using assms by (simp add: ensure_control_def get_put split: option.splits)

lemma ensure_other: "j \<noteq> k \<Longrightarrow> get j (ensure_control get put new k s) = get j s"
  by (simp add: ensure_control_def get_put_other split: option.splits)

lemma ensure_refused: "\<not> valid k \<Longrightarrow> ensure_control get put new k s = s"
  by (simp add: ensure_control_def put_refused split: option.splits)

lemma ensure_cases: "ensure_control get put new k s = s \<or>
    (valid k \<and> get k s = None \<and> ensure_control get put new k s = put k (Some new) s)"
  using put_refused [of k "Some new" s] by (auto simp: ensure_control_def split: option.splits)

lemma ensure_keeps: "get j s \<noteq> None \<Longrightarrow> get j (ensure_control get put new k s) \<noteq> None"
  using get_put_other [of j k "Some new" s] by (cases "j = k") (auto simp: ensure_control_def split: option.splits)

lemma ensure_idem:
  assumes "valid k"
  shows "ensure_control get put new k (ensure_control get put new k s) = ensure_control get put new k s"
  using ensure_present [OF assms, of new s] by (simp add: ensure_control_def [of get put new k "ensure_control get put new k s"])

lemma on_control_missing: "get k s = None \<Longrightarrow> on_control get put k missing f s = (TELEPHONY_ERR_LOCAL_PTR_NULL, s, missing)"
  by (simp add: on_control_def)

lemma on_control_present:
  "get k s = Some c \<Longrightarrow> on_control get put k missing f s = (fst (f c), put k (Some (fst (snd (f c)))) s, snd (snd (f c)))"
  by (simp add: on_control_def case_prod_beta)

lemma on_control_cases:
  assumes "on_control get put k missing f s = (r, s', acts)"
  shows "(get k s = None \<and> s' = s \<and> r = TELEPHONY_ERR_LOCAL_PTR_NULL \<and> acts = missing) \<or>
    (\<exists>c c'. get k s = Some c \<and> f c = (r, c', acts) \<and> s' = put k (Some c') s)"
  using assms by (auto simp: on_control_def split: option.splits prod.splits)

lemma on_control_other:
  "on_control get put k missing f s = (r, s', acts) \<Longrightarrow> j \<noteq> k \<Longrightarrow> get j s' = get j s"
  by (auto dest!: on_control_cases simp: get_put_other)

end

interpretation cs_store: control_store "IsValidSlotId e" "GetCsControl e" "SetCsControl e"
  for e :: "'x service_env_scheme"
  by unfold_locales (auto simp: GetCsControl_def SetCsControl_def)

interpretation ims_store: control_store "IsValidSlotId e" "GetImsControl e" "SetImsControl e"
  for e :: "'x service_env_scheme"
  by unfold_locales (auto simp: GetImsControl_def SetImsControl_def)

interpretation sat_store: control_store "IsValidSlotId e" "GetSatelliteControl e" "SetSatelliteControl e"
  for e :: "'x service_env_scheme"
  by unfold_locales (auto simp: GetSatelliteControl_def SetSatelliteControl_def)

section \<open>Calls and events\<close>

text \<open>The calls of the call manager, and the events of the handler of a slot.\<close>

datatype service_call =
    CallDial CellularCallInfo
  | CallHangUp CellularCallInfo CallSupplementType
  | CallReject CellularCallInfo
  | CallAnswer CellularCallInfo
  | CallHold CellularCallInfo
  | CallUnHold CellularCallInfo
  | CallSwitch CellularCallInfo
  | CallCombine CellularCallInfo
  | CallSeparate CellularCallInfo
  | CallInvite int "string list"
  | CallKickOut CellularCallInfo
  | CallRttMode int int int
  | CallPostDial CellularCallInfo bool
  | CallStartDtmf char CellularCallInfo
  | CallSendDtmf char CellularCallInfo
  | CallStopDtmf CellularCallInfo
  | CallHangUpAll
  | CallHangUpSlot int
  | CallManagerDied
  | CallClearAll "CellularCallInfo list"

fun run_call ::
    "'x service_env_scheme \<Rightarrow> service_call \<Rightarrow> CellularCallService \<Rightarrow>
     (errcode \<times> CellularCallService \<times> act list) option" where
  "run_call e (CallDial i) s = Service_Dial e i s"
| "run_call e (CallHangUp i ty) s = Some (Service_HangUp e i ty s)"
| "run_call e (CallReject i) s = Some (Service_Reject e i s)"
| "run_call e (CallAnswer i) s = Some (Service_Answer e i s)"
| "run_call e (CallHold i) s = Some (Service_HoldCall e i s)"
| "run_call e (CallUnHold i) s = Some (Service_UnHoldCall e i s)"
| "run_call e (CallSwitch i) s = Some (Service_SwitchCall e i s)"
| "run_call e (CallCombine i) s = Some (Service_CombineConference e i s)"
| "run_call e (CallSeparate i) s = Some (Service_SeparateConference e i s)"
| "run_call e (CallInvite k ns) s = Some (Service_InviteToConference e k ns s)"
| "run_call e (CallKickOut i) s = Some (Service_KickOutFromConference e i s)"
| "run_call e (CallRttMode k c m) s = Some (Service_UpdateImsRttCallMode e k c m s)"
| "run_call e (CallPostDial i p) s = Some (Service_PostDialProceed e i p s)"
| "run_call e (CallStartDtmf d i) s = Some (Service_StartDtmf e d i s)"
| "run_call e (CallSendDtmf d i) s = Some (Service_SendDtmf e d i s)"
| "run_call e (CallStopDtmf i) s = Some (Service_StopDtmf e i s)"
| "run_call e CallHangUpAll s = Some (case Service_HangUpAllConnection e s of (r, a) \<Rightarrow> (r, s, a))"
| "run_call e (CallHangUpSlot k) s = Some (case Service_HangUpAllConnection_slot e k s of (r, a) \<Rightarrow> (r, s, a))"
| "run_call e CallManagerDied s = Some (TELEPHONY_SUCCESS, s, HandleCallManagerException e s)"
| "run_call e (CallClearAll is) s = Some (ClearAllCalls e is s)"

text \<open>The slot a call is about; the last ones are about the whole service.\<close>

fun call_slot :: "service_call \<Rightarrow> int option" where
  "call_slot (CallDial i) = Some (ci_slotId i)"
| "call_slot (CallHangUp i ty) = Some (ci_slotId i)"
| "call_slot (CallReject i) = Some (ci_slotId i)"
| "call_slot (CallAnswer i) = Some (ci_slotId i)"
| "call_slot (CallHold i) = Some (ci_slotId i)"
| "call_slot (CallUnHold i) = Some (ci_slotId i)"
| "call_slot (CallSwitch i) = Some (ci_slotId i)"
| "call_slot (CallCombine i) = Some (ci_slotId i)"
| "call_slot (CallSeparate i) = Some (ci_slotId i)"
| "call_slot (CallInvite k ns) = Some k"
| "call_slot (CallKickOut i) = Some (ci_slotId i)"
| "call_slot (CallRttMode k c m) = Some k"
| "call_slot (CallPostDial i p) = Some (ci_slotId i)"
| "call_slot (CallStartDtmf d i) = Some (ci_slotId i)"
| "call_slot (CallSendDtmf d i) = Some (ci_slotId i)"
| "call_slot (CallStopDtmf i) = Some (ci_slotId i)"
| "call_slot (CallHangUpSlot k) = Some k"
| "call_slot _ = None"

datatype slot_event =
    CsCallList CallInfoList
  | ImsCallList ImsCurrentCallList
  | SatelliteCallList SatelliteCurrentCallList
  | FailReasonAnswer FailReasonEvent
  | SrvccNotice "SrvccState option"
  | RsrvccNotice
  | SwapAnswer CallType "bool option"
  | PostDialEvent PostDialData
  | AdapterDied

fun handle_event ::
    "'x handler_env_scheme \<Rightarrow> slot_event \<Rightarrow> CellularCallHandler \<Rightarrow> CellularCallHandler \<times> act list" where
  "handle_event e (CsCallList l) h = Handler_ReportCsCallsData e l h"
| "handle_event e (ImsCallList l) h = Handler_ReportImsCallsData e l h"
| "handle_event e (SatelliteCallList l) h = Handler_ReportSatelliteCallsData e l h"
| "handle_event e (FailReasonAnswer ev) h = GetCallFailReasonResponse e ev h"
| "handle_event e (SrvccNotice st) h = (UpdateSrvccStateReport e st h, [])"
| "handle_event e RsrvccNotice h = (UpdateRsrvccStateReport h, [])"
| "handle_event e (SwapAnswer ty res) h = SwapCallResponse e ty res h"
| "handle_event e (PostDialEvent d) h = Handler_ExecutePostDial e d h"
| "handle_event e AdapterDied h = OnRilAdapterHostDied e h"

definition run_event ::
    "'x service_env_scheme \<Rightarrow> int \<Rightarrow> slot_event \<Rightarrow> CellularCallService \<Rightarrow> CellularCallService \<times> act list" where
  "run_event e k ev s = on_handler e k (handle_event (service_view e s) ev) s"

text \<open>One step of the service: a call that returns, an event of a handler, a change of the radio state, or one of
  the setters; the surroundings answer as they like, but the number of slots stays.\<close>

inductive service_step :: "int \<Rightarrow> CellularCallService \<Rightarrow> CellularCallService \<Rightarrow> bool" for n where
  call: "e_slotCount (e :: service_env) = n \<Longrightarrow> run_call e c s = Some (r, s', acts) \<Longrightarrow> service_step n s s'"
| event: "e_slotCount (e :: service_env) = n \<Longrightarrow> run_event e k ev s = (s', acts) \<Longrightarrow> service_step n s s'"
| radio: "e_slotCount (e :: service_env) = n \<Longrightarrow> RadioStateChangeProcess e k st s = Some (s', acts) \<Longrightarrow> service_step n s s'"
| srvcc: "service_step n s (SetSrvccState st s)"
| ready: "e_slotCount (e :: service_env) = n \<Longrightarrow> Service_SetReadyToCall e k f s = (r, s', woken) \<Longrightarrow> service_step n s s'"

inductive service_reachable :: "int \<Rightarrow> CellularCallService \<Rightarrow> bool" for n where
  init: "csControlMap s = Map.empty \<Longrightarrow> imsControlMap s = Map.empty \<Longrightarrow> satelliteControlMap s = Map.empty \<Longrightarrow>
    service_reachable n s"
| step: "service_reachable n s \<Longrightarrow> service_step n s s' \<Longrightarrow> service_reachable n s'"

definition valid_slots :: "int \<Rightarrow> int set" where
  "valid_slots n = (if n = 1 then {0} else if n = 2 then {0, 1} else {})"

lemma IsValidSlotId_iff: "IsValidSlotId e k \<longleftrightarrow> k \<in> valid_slots (e_slotCount e)"
  by (simp add: IsValidSlotId_def valid_slots_def DEFAULT_SIM_SLOT_ID_def SIM_SLOT_0_def SIM_SLOT_1_def)

lemma set_GetSlotInfo: "set (GetSlotInfo e) = valid_slots (e_slotCount e)" "distinct (GetSlotInfo e)"
  by (auto simp: GetSlotInfo_def valid_slots_def DEFAULT_SIM_SLOT_ID_def SIM_SLOT_0_def SIM_SLOT_1_def)

definition service_inv :: "int \<Rightarrow> CellularCallService \<Rightarrow> bool" where
  "service_inv n s \<longleftrightarrow>
     (\<forall>k c. csControlMap s k = Some c \<longrightarrow> k \<in> valid_slots n \<and> cs_inv c) \<and>
     (\<forall>k c. imsControlMap s k = Some c \<longrightarrow> k \<in> valid_slots n \<and> ims_inv c) \<and>
     (\<forall>k c. satelliteControlMap s k = Some c \<longrightarrow> k \<in> valid_slots n \<and> sat_inv c)"

section \<open>The invariant\<close>

lemma service_inv_cs: "service_inv n s \<Longrightarrow> GetCsControl e k s = Some c \<Longrightarrow> cs_inv c"
  by (auto simp: service_inv_def GetCsControl_def split: if_splits)

lemma service_inv_ims: "service_inv n s \<Longrightarrow> GetImsControl e k s = Some c \<Longrightarrow> ims_inv c"
  by (auto simp: service_inv_def GetImsControl_def split: if_splits)

lemma service_inv_sat: "service_inv n s \<Longrightarrow> GetSatelliteControl e k s = Some c \<Longrightarrow> sat_inv c"
  by (auto simp: service_inv_def GetSatelliteControl_def)

lemma service_inv_put:
  assumes "service_inv n s" "e_slotCount e = n"
  shows "pred_option cs_inv c \<Longrightarrow> service_inv n (SetCsControl e k c s)"
    "pred_option ims_inv i \<Longrightarrow> service_inv n (SetImsControl e k i s)"
    "pred_option sat_inv t \<Longrightarrow> service_inv n (SetSatelliteControl e k t s)"
  using assms by (auto simp: service_inv_def SetCsControl_def SetImsControl_def SetSatelliteControl_def IsValidSlotId_iff
      split: if_splits)

lemma service_inv_ensure:
  assumes "service_inv n s" "e_slotCount e = n"
  shows "cs_inv c \<Longrightarrow> service_inv n (ensure_control (GetCsControl e) (SetCsControl e) c k s)"
    "ims_inv i \<Longrightarrow> service_inv n (ensure_control (GetImsControl e) (SetImsControl e) i k s)"
    "sat_inv t \<Longrightarrow> service_inv n (ensure_control (GetSatelliteControl e) (SetSatelliteControl e) t k s)"
  using assms service_inv_put [OF assms] by (auto simp: ensure_control_def split: option.splits)

text \<open>An operation on a control that keeps the invariant of the control.\<close>

definition keeps :: "('c \<Rightarrow> bool) \<Rightarrow> ('c \<Rightarrow> errcode \<times> 'c \<times> 'a list) \<Rightarrow> bool" where
  "keeps P f \<longleftrightarrow> (\<forall>c. P c \<longrightarrow> P (fst (snd (f c))))"

lemma keeps_read_only [simp]: "keeps P (read_only f)"
  by (simp add: keeps_def read_only_def case_prod_beta)

lemma keeps_operations [simp]:
  "keeps cs_inv (HangUp_cs v i ty)" "keeps cs_inv (Reject_cs v i)" "keeps cs_inv (Answer_cs v i)"
  "keeps cs_inv (PostDialProceed_cs v i p)" "keeps ims_inv (HangUp_ims v i ty)" "keeps ims_inv (Reject_ims v i)"
  "keeps ims_inv (Answer_ims v i)" "keeps ims_inv (PostDialProceed_ims v i p)" "keeps sat_inv (PostDialProceed_sat v i p)"
  by (simp_all add: keeps_def HangUp_cs_inv Reject_cs_inv PostDialProceed_cs_inv HangUp_ims_inv Reject_ims_inv
      Answer_ims_inv PostDialProceed_ims_inv PostDialProceed_sat_inv Answer_cs_same)

lemma service_inv_on_control:
  assumes "service_inv n s" "e_slotCount e = n"
  shows "keeps cs_inv f \<Longrightarrow> service_inv n (fst (snd (on_control (GetCsControl e) (SetCsControl e) k m f s)))"
    "keeps ims_inv g \<Longrightarrow> service_inv n (fst (snd (on_control (GetImsControl e) (SetImsControl e) k m g s)))"
    "keeps sat_inv h \<Longrightarrow> service_inv n (fst (snd (on_control (GetSatelliteControl e) (SetSatelliteControl e) k m h s)))"
  using assms service_inv_put(1) [OF assms, of "Some (fst (snd (f (the (GetCsControl e k s)))))" k]
    service_inv_put(2) [OF assms, of "Some (fst (snd (g (the (GetImsControl e k s)))))" k]
    service_inv_put(3) [OF assms, of "Some (fst (snd (h (the (GetSatelliteControl e k s)))))" k]
    service_inv_cs [OF assms(1), of e k] service_inv_ims [OF assms(1), of e k] service_inv_sat [OF assms(1), of e k]
  by (auto simp: on_control_def keeps_def case_prod_beta Let_def split: option.splits)

lemma service_inv_by_type:
  assumes "service_inv n s" "e_slotCount e = n" "keeps cs_inv cs" "keeps ims_inv ims"
  shows "keeps sat_inv sat \<Longrightarrow> service_inv n (fst (snd (by_type e i m sat cs ims s)))"
    "service_inv n (fst (snd (by_type_cs_ims e i cs ims s)))"
  using assms(1) service_inv_on_control(1) [OF assms(1-3)] service_inv_on_control(2) [OF assms(1,2,4)]
    service_inv_on_control(3) [OF assms(1,2), of sat]
  by (simp_all add: by_type_def by_type_cs_ims_def Let_def split: CallType.split)

lemma service_inv_guards:
  "service_inv n s \<Longrightarrow> service_inv n (fst (snd (f s))) \<Longrightarrow> service_inv n (fst (snd (slot_guard e k f s)))"
  "service_inv n s \<Longrightarrow> service_inv n (fst (snd (f s))) \<Longrightarrow> service_inv n (fst (snd (srvcc_guard f s)))"
  by (simp_all add: slot_guard_def srvcc_guard_def)

lemma dial_on_cases:
  assumes "dial_on get put k f s = Some (r, s', acts)"
  shows "(get k s = None \<and> s' = s \<and> r = TELEPHONY_ERR_LOCAL_PTR_NULL \<and> acts = []) \<or>
    (\<exists>c c'. get k s = Some c \<and> f c = Some (r, c', acts) \<and> s' = put k (Some c') s)"
  using assms by (auto simp: dial_on_def split: option.splits)

lemma service_inv_dial_on:
  assumes "service_inv n s" "e_slotCount e = n"
  shows "(\<And>c r c' a. cs_inv c \<Longrightarrow> f c = Some (r, c', a) \<Longrightarrow> cs_inv c') \<Longrightarrow>
      dial_on (GetCsControl e) (SetCsControl e) k f s = Some (r, s', acts) \<Longrightarrow> service_inv n s'"
    "(\<And>c r c' a. ims_inv c \<Longrightarrow> g c = Some (r, c', a) \<Longrightarrow> ims_inv c') \<Longrightarrow>
      dial_on (GetImsControl e) (SetImsControl e) k g s = Some (r, s', acts) \<Longrightarrow> service_inv n s'"
    "(\<And>c r c' a. sat_inv c \<Longrightarrow> h c = Some (r, c', a) \<Longrightarrow> sat_inv c') \<Longrightarrow>
      dial_on (GetSatelliteControl e) (SetSatelliteControl e) k h s = Some (r, s', acts) \<Longrightarrow> service_inv n s'"
proof -
  note put = service_inv_put [OF assms] and D = dial_on_cases
  show "service_inv n s'" if f: "\<And>c r c' a. cs_inv c \<Longrightarrow> f c = Some (r, c', a) \<Longrightarrow> cs_inv c'"
    and d: "dial_on (GetCsControl e) (SetCsControl e) k f s = Some (r, s', acts)"
    using D [OF d] f [OF service_inv_cs [OF assms(1)]] put(1) assms(1) by fastforce
  show "service_inv n s'" if g: "\<And>c r c' a. ims_inv c \<Longrightarrow> g c = Some (r, c', a) \<Longrightarrow> ims_inv c'"
    and d: "dial_on (GetImsControl e) (SetImsControl e) k g s = Some (r, s', acts)"
    using D [OF d] g [OF service_inv_ims [OF assms(1)]] put(2) assms(1) by fastforce
  show "service_inv n s'" if h: "\<And>c r c' a. sat_inv c \<Longrightarrow> h c = Some (r, c', a) \<Longrightarrow> sat_inv c'"
    and d: "dial_on (GetSatelliteControl e) (SetSatelliteControl e) k h s = Some (r, s', acts)"
    using D [OF d] h [OF service_inv_sat [OF assms(1)]] put(3) assms(1) by fastforce
qed

lemma Dial_cs_inv: "cs_inv c \<Longrightarrow> Dial_cs e i ecc c = Some (r, c', a) \<Longrightarrow> cs_inv c'"
  by (simp add: cs_inv_def Dial_cs_map)

lemma Dial_sat_inv: "sat_inv c \<Longrightarrow> Dial_sat e i ecc c = Some (r, c', a) \<Longrightarrow> sat_inv c'"
  by (simp add: sat_inv_def Dial_sat_map)

lemma Service_Dial_inv:
  assumes inv: "service_inv n s" and n: "e_slotCount e = n" and d: "Service_Dial e i s = Some (r, s', acts)"
  shows "service_inv n s'"
proof -
  note dials = service_inv_dial_on [OF service_inv_ensure(1) [OF inv n init_invs(1)] n]
    service_inv_dial_on [OF service_inv_ensure(2) [OF inv n init_invs(2)] n]
    service_inv_dial_on [OF service_inv_ensure(3) [OF inv n init_invs(3)] n]
  show ?thesis
    using d inv dials(1) [OF Dial_cs_inv] dials(5) [OF Dial_ims_inv] dials(9) [OF Dial_sat_inv]
    unfolding Service_Dial_def DialNormalCall_def Let_def
    by (auto split: if_splits)
qed

lemma clear_inv:
  assumes "service_inv n s" "e_slotCount e = n"
  shows "service_inv n (fst (clear_cs e infos k s))" "service_inv n (fst (clear_ims e infos k s))"
  using assms(1) service_inv_put [OF assms] service_inv_cs [OF assms(1), of e k] ReportHangUp_cs_inv [of _ "service_view e s" infos k]
  by (auto simp: clear_cs_def clear_ims_def case_prod_beta Let_def ims_inv_def settled_def split: option.splits)

lemma HangUpWithCellularCallRestart_inv:
  "service_inv n s \<Longrightarrow> e_slotCount e = n \<Longrightarrow> service_inv n (fst (HangUpWithCellularCallRestart e infos ks s))"
  by (induction ks arbitrary: s) (simp_all add: clear_inv case_prod_beta Let_def)

lemma SetControl_inv: "service_inv n s \<Longrightarrow> e_slotCount e = n \<Longrightarrow> service_inv n (SetControl e i s)"
  by (simp add: SetControl_def service_inv_ensure)

lemma ClearAllCalls_inv:
  assumes "service_inv n s" "e_slotCount e = n"
  shows "service_inv n (fst (snd (ClearAllCalls e infos s)))"
proof -
  have "service_inv n (fold (SetControl e) infos s)"
    using assms by (induction infos arbitrary: s) (simp_all add: SetControl_inv)
  with assms show ?thesis by (simp add: ClearAllCalls_def case_prod_beta HangUpWithCellularCallRestart_inv)
qed

lemmas call_defs = Service_HangUp_def Service_Reject_def Service_Answer_def Service_HoldCall_def Service_UnHoldCall_def
  Service_SwitchCall_def Service_CombineConference_def Service_SeparateConference_def Service_InviteToConference_def
  Service_KickOutFromConference_def Service_UpdateImsRttCallMode_def Service_PostDialProceed_def Service_StartDtmf_def
  Service_SendDtmf_def Service_StopDtmf_def

lemma calls_inv:
  assumes "service_inv n s" "e_slotCount e = n"
  shows "service_inv n (fst (snd (Service_HangUp e i ty s)))" "service_inv n (fst (snd (Service_Reject e i s)))"
    "service_inv n (fst (snd (Service_Answer e i s)))" "service_inv n (fst (snd (Service_HoldCall e i s)))"
    "service_inv n (fst (snd (Service_UnHoldCall e i s)))" "service_inv n (fst (snd (Service_SwitchCall e i s)))"
    "service_inv n (fst (snd (Service_CombineConference e i s)))"
    "service_inv n (fst (snd (Service_SeparateConference e i s)))"
    "service_inv n (fst (snd (Service_InviteToConference e k ns s)))"
    "service_inv n (fst (snd (Service_KickOutFromConference e i s)))"
    "service_inv n (fst (snd (Service_UpdateImsRttCallMode e k c md s)))"
    "service_inv n (fst (snd (Service_PostDialProceed e i p s)))"
    "service_inv n (fst (snd (Service_StartDtmf e d i s)))" "service_inv n (fst (snd (Service_SendDtmf e d i s)))"
    "service_inv n (fst (snd (Service_StopDtmf e i s)))"
  unfolding call_defs Let_def
  by (auto intro!: service_inv_guards service_inv_by_type service_inv_on_control assms)

lemma run_call_inv:
  assumes inv: "service_inv n s" and n: "e_slotCount e = n" and r: "run_call e c s = Some (r, s', acts)"
  shows "service_inv n s'"
proof (cases "\<exists>i. c = CallDial i")
  case True
  then show ?thesis using r Service_Dial_inv [OF inv n] by auto
next
  case False
  have "service_inv n (fst (snd (the (run_call e c s))))"
    using False by (cases c) (simp_all add: calls_inv [OF inv n] ClearAllCalls_inv [OF inv n] inv case_prod_beta)
  then show ?thesis using r by simp
qed

text \<open>Events.\<close>

lemma handle_event_inv: "handler_inv h \<Longrightarrow> handler_inv (fst (handle_event e ev h))"
  by (cases ev) (simp_all add: Handler_ReportCsCallsData_inv Handler_ReportImsCallsData_inv
      Handler_ReportSatelliteCallsData_inv GetCallFailReasonResponse_inv UpdateSrvccStateReport_inv SwapCallResponse_inv
      Handler_ExecutePostDial_inv OnRilAdapterHostDied_inv, simp add: UpdateRsrvccStateReport_def handler_inv_def)

lemma run_event_inv:
  assumes inv: "service_inv n s" and n: "e_slotCount e = n"
  shows "service_inv n (fst (run_event e k ev s))"
proof (cases "IsValidSlotId e k \<and> handlerMap s k \<noteq> None")
  case True
  then obtain h where h: "handlerMap s k = Some h" and k: "k \<in> valid_slots n" using n by (auto simp: IsValidSlotId_iff)
  have "handler_inv (handler_of k s h)"
    using inv by (auto simp: handler_of_def handler_inv_def service_inv_def option.pred_set split: option.splits)
  from handle_event_inv [OF this] have "handler_inv (fst (handle_event (service_view e s) ev (handler_of k s h)))" .
  then show ?thesis
    using True h inv k
    by (auto simp: run_event_def on_handler_def put_handler_def service_inv_def handler_inv_def case_prod_beta Let_def
        option.pred_set split: if_splits)
next
  case False
  then show ?thesis using inv by (auto simp: run_event_def on_handler_def)
qed

lemma RadioStateChangeProcess_inv:
  assumes inv: "service_inv n s" and n: "e_slotCount e = n"
    and r: "RadioStateChangeProcess e k st s = Some (s', acts)"
  shows "service_inv n s'"
proof -
  have 1: "service_inv n (setRadioOnFlag f k s)" for f
    using inv by (simp add: setRadioOnFlag_def service_inv_def)
  note put = service_inv_put(2) [OF 1 n]
  have skip: "ims_inv (SkipWaitForRadioOn c) = ims_inv c" for c
    by (simp add: SkipWaitForRadioOn_def ims_inv_def)
  have flags: "ims_inv (c\<lparr>isPendingEmc := b\<rparr>) = ims_inv c" for b c by (simp add: ims_inv_def)
  show ?thesis
  proof (cases "st = Some True \<and> e_basePower e \<and> GetImsControl e k (setRadioOnFlag True k s) \<noteq> None")
    case False
    then show ?thesis
      using r inv 1 by (auto simp: RadioStateChangeProcess_def Let_def split: option.splits bool.splits if_splits)
  next
    case True
    then obtain c0 where c0: "GetImsControl e k (setRadioOnFlag True k s) = Some c0" by auto
    have inv0: "ims_inv (SkipWaitForRadioOn c0)" using service_inv_ims [OF 1 c0] skip by simp
    show ?thesis
    proof (cases "isPendingEmc (SkipWaitForRadioOn c0)")
      case False
      then show ?thesis
        using r True c0 put [of "Some (SkipWaitForRadioOn c0)"] inv0 by (auto simp: RadioStateChangeProcess_def Let_def)
    next
      case pending: True
      let ?d = "Dial_ims (service_view e (setRadioOnFlag True k s)) (pendingEmcDialCallInfo (SkipWaitForRadioOn c0)) True
          (SkipWaitForRadioOn c0)"
      from r True c0 pending obtain ret c1 a where d: "?d = Some (ret, c1, a)"
        by (auto simp: RadioStateChangeProcess_def Let_def split: option.splits)
      have c1: "ims_inv c1" by (rule Dial_ims_inv [OF inv0 d])
      have "ims_inv (fst (snd (ReportHangUpInfo_ims v k c1)))" for v
        by (rule ReportHangUpInfo_ims_inv [OF c1])
      moreover have "service_inv n (SetImsControl e k (Some (x\<lparr>isPendingEmc := False\<rparr>)) (setRadioOnFlag True k s))"
        if "ims_inv x" for x
        using put [of "Some (x\<lparr>isPendingEmc := False\<rparr>)"] that by (simp add: flags)
      moreover note c1
      ultimately show ?thesis
        using r True c0 pending d by (auto simp: RadioStateChangeProcess_def Let_def case_prod_beta split: if_splits)
    qed
  qed
qed

lemma SetReadyToCall_inv: "service_inv n s \<Longrightarrow> service_inv n (fst (snd (Service_SetReadyToCall e k f s)))"
  by (auto simp: Service_SetReadyToCall_def slot_guard_def ready_control_def service_inv_def case_prod_beta Let_def
      split: option.splits)

lemma service_step_inv: "service_step n s s' \<Longrightarrow> service_inv n s \<Longrightarrow> service_inv n s'"
proof (induction rule: service_step.induct)
  case (call e c s r s' acts)
  then show ?case using run_call_inv by blast
next
  case (event e k ev s s' acts)
  then show ?case using run_event_inv [of n s e k ev] by simp
next
  case (radio e k st s s' acts)
  then show ?case using RadioStateChangeProcess_inv by blast
next
  case (srvcc s st)
  then show ?case by (simp add: SetSrvccState_def service_inv_def)
next
  case (ready e k f s r s' woken)
  then show ?case using SetReadyToCall_inv [of n s e k f] by simp
qed

lemma service_reachable_inv: "service_reachable n s \<Longrightarrow> service_inv n s"
  by (induction rule: service_reachable.induct) (auto simp: service_inv_def [of n] dest: service_step_inv)

end
