(* ===== verification/ServiceProps.thy ===== *)
theory ServiceProps imports ServiceInv "HOL-Library.Multiset"
begin

text \<open>
  The properties of the call service: isolation of the slots, refusals, missing controls, dialling, emergency
  calls, the restart of the call manager, and the life of a call through the service and its handler.
\<close>

section \<open>Invariant and isolation\<close>

lemma control_inv_facts:
  "cs_inv c \<Longrightarrow> sorted_wrt (<) (map fst (csConnectionMap c)) \<and> (\<forall>(i, x) \<in> set (csConnectionMap c). index x = i \<and> \<not> flag x)"
  "ims_inv d \<Longrightarrow> sorted_wrt (<) (map fst (imsConnectionMap d)) \<and> (\<forall>(i, x) \<in> set (imsConnectionMap d). index x = i \<and> \<not> flag x)"
  "sat_inv t \<Longrightarrow> sorted_wrt (<) (map fst (satConnectionMap t)) \<and> (\<forall>(i, x) \<in> set (satConnectionMap t). index x = i \<and> \<not> flag x)"
  by (auto simp: cs_inv_def ims_inv_def sat_inv_def table_ok_def omap_ok_def settled_def list_all_iff)

text \<open>C20: the invariant of the service. However the calls of the call manager and the events of all slots follow
  each other, whatever the surroundings answer, only existing slots have controls, and every control has its connections
  sorted by index, stored under their own index, with no report flag left.\<close>

theorem service_invariant:
  assumes "service_reachable n s"
  shows "(\<forall>k c. csControlMap s k = Some c \<longrightarrow> k \<in> valid_slots n \<and> sorted_wrt (<) (map fst (csConnectionMap c)) \<and>
      (\<forall>(i, x) \<in> set (csConnectionMap c). index x = i \<and> \<not> flag x)) \<and>
    (\<forall>k c. imsControlMap s k = Some c \<longrightarrow> k \<in> valid_slots n \<and> sorted_wrt (<) (map fst (imsConnectionMap c)) \<and>
      (\<forall>(i, x) \<in> set (imsConnectionMap c). index x = i \<and> \<not> flag x)) \<and>
    (\<forall>k c. satelliteControlMap s k = Some c \<longrightarrow> k \<in> valid_slots n \<and> sorted_wrt (<) (map fst (satConnectionMap c)) \<and>
      (\<forall>(i, x) \<in> set (satConnectionMap c). index x = i \<and> \<not> flag x))"
  using service_reachable_inv [OF assms] control_inv_facts unfolding service_inv_def by blast

definition sample_service_env :: service_env where
  "sample_service_env = handler_env.extend sample_handler_env
     (service_env.fields 2 False (\<lambda>_. False) (\<lambda>_. 3) 1 (\<lambda>_. True) (\<lambda>_. True) (\<lambda>_. True))"

lemma sample_service_env_simps [simp]:
  "e_slotCount sample_service_env = 2" "\<not> e_satelliteStatus sample_service_env" "\<not> e_imsRegistered sample_service_env k"
  "e_service sample_service_env" "e_handler sample_service_env k" "e_register sample_service_env"
  "e_cbRegistered sample_service_env" "e_imsClient sample_service_env" "e_imsProxy sample_service_env"
  "e_imsResult sample_service_env q = TELEPHONY_SUCCESS" "e_emptyInfo sample_service_env = sample_info"
  by (simp_all add: sample_service_env_def sample_handler_env_def sample_env_def dial_env.extend_def handler_env.fields_def
      handler_env.extend_def service_env.fields_def)

definition sample_service :: CellularCallService where
  "sample_service = \<lparr>csControlMap = [0 \<mapsto> sample_cs_ctl], imsControlMap = Map.empty, satelliteControlMap = Map.empty,
     handlerMap = [0 \<mapsto> sample_handler, 1 \<mapsto> sample_handler], svc_srvccState = SRVCC_NONE, isRadioOn = (\<lambda>_. True),
     readyToCall = (\<lambda>_. True), callForwarding = (0, False, [])\<rparr>"

lemma valid_slots_sample [simp]: "IsValidSlotId sample_service_env 0" "IsValidSlotId sample_service_env 1"
  by (simp_all add: IsValidSlotId_iff valid_slots_def)

lemma sample_service_inv: "service_inv 2 sample_service"
  by (simp add: service_inv_def sample_service_def valid_slots_def cs_inv_def table_ok_def settled_def sample_cs_ctl_def
      sample_cs_def sample_defs CellularCallConnectionCS_init_def)

text \<open>Two calls of slot 0 arrive in the wrong order.\<close>

theorem service_invariant_witness:
  "\<exists>s' acts c. run_event sample_service_env 0
      (CsCallList \<lparr>callSize = 2, calls = [sample_call 2 CALL_STATUS_ACTIVE, sample_call 1 CALL_STATUS_HOLDING]\<rparr>)
      (sample_service\<lparr>csControlMap := Map.empty\<rparr>) = (s', acts) \<and>
    (\<forall>k c. csControlMap s' k = Some c \<longrightarrow> k \<in> {0, 1} \<and> sorted_wrt (<) (map fst (csConnectionMap c)))"
proof -
  let ?s = "sample_service\<lparr>csControlMap := Map.empty\<rparr>"
  let ?ev = "CsCallList \<lparr>callSize = 2, calls = [sample_call 2 CALL_STATUS_ACTIVE, sample_call 1 CALL_STATUS_HOLDING]\<rparr>"
  obtain s' acts where r: "run_event sample_service_env 0 ?ev ?s = (s', acts)" by (metis surj_pair)
  have "service_reachable 2 ?s" by (rule service_reachable.init) (simp_all add: sample_service_def)
  then have "service_reachable 2 s'" by (rule service_reachable.step) (rule service_step.event [OF _ r], simp)
  from service_invariant [OF this] show ?thesis using r by (fastforce simp: valid_slots_def)
qed

lemma put_other_maps [simp]:
  "imsControlMap (SetCsControl e k c s) = imsControlMap s" "satelliteControlMap (SetCsControl e k c s) = satelliteControlMap s"
  "csControlMap (SetImsControl e k i s) = csControlMap s" "satelliteControlMap (SetImsControl e k i s) = satelliteControlMap s"
  "csControlMap (SetSatelliteControl e k t s) = csControlMap s" "imsControlMap (SetSatelliteControl e k t s) = imsControlMap s"
  "j \<noteq> k \<Longrightarrow> csControlMap (SetCsControl e k c s) j = csControlMap s j"
  "j \<noteq> k \<Longrightarrow> imsControlMap (SetImsControl e k i s) j = imsControlMap s j"
  "j \<noteq> k \<Longrightarrow> satelliteControlMap (SetSatelliteControl e k t s) j = satelliteControlMap s j"
  by (simp_all add: SetCsControl_def SetImsControl_def SetSatelliteControl_def)

lemma put_other_fields [simp]:
  "handlerMap (SetCsControl e k c s) = handlerMap s" "svc_srvccState (SetCsControl e k c s) = svc_srvccState s"
  "isRadioOn (SetCsControl e k c s) = isRadioOn s" "readyToCall (SetCsControl e k c s) = readyToCall s"
  "handlerMap (SetImsControl e k i s) = handlerMap s" "svc_srvccState (SetImsControl e k i s) = svc_srvccState s"
  "isRadioOn (SetImsControl e k i s) = isRadioOn s" "readyToCall (SetImsControl e k i s) = readyToCall s"
  "handlerMap (SetSatelliteControl e k t s) = handlerMap s" "svc_srvccState (SetSatelliteControl e k t s) = svc_srvccState s"
  "isRadioOn (SetSatelliteControl e k t s) = isRadioOn s" "readyToCall (SetSatelliteControl e k t s) = readyToCall s"
  by (simp_all add: SetCsControl_def SetImsControl_def SetSatelliteControl_def)

text \<open>Two states that agree but for the controls of one slot.\<close>

definition same_but :: "int \<Rightarrow> CellularCallService \<Rightarrow> CellularCallService \<Rightarrow> bool" where
  "same_but k s s' \<longleftrightarrow> (\<forall>j. j \<noteq> k \<longrightarrow> csControlMap s' j = csControlMap s j \<and> imsControlMap s' j = imsControlMap s j \<and>
       satelliteControlMap s' j = satelliteControlMap s j) \<and>
     handlerMap s' = handlerMap s \<and> svc_srvccState s' = svc_srvccState s \<and> isRadioOn s' = isRadioOn s"

lemma same_but_puts [simp]:
  "same_but k s s" "same_but k s (SetCsControl e k c s)" "same_but k s (SetImsControl e k i s)"
  "same_but k s (SetSatelliteControl e k t s)"
  by (simp_all add: same_but_def)

lemma same_but_trans: "same_but k s s1 \<Longrightarrow> same_but k s1 s2 \<Longrightarrow> same_but k s s2"
  by (simp add: same_but_def)

lemma same_but_ensure [simp]:
  "same_but k s (ensure_control (GetCsControl e) (SetCsControl e) c k s)"
  "same_but k s (ensure_control (GetImsControl e) (SetImsControl e) i k s)"
  "same_but k s (ensure_control (GetSatelliteControl e) (SetSatelliteControl e) t k s)"
  by (simp_all add: ensure_control_def split: option.split)

lemma same_but_on_control [simp]:
  "same_but k s (fst (snd (on_control (GetCsControl e) (SetCsControl e) k m f s)))"
  "same_but k s (fst (snd (on_control (GetImsControl e) (SetImsControl e) k m g s)))"
  "same_but k s (fst (snd (on_control (GetSatelliteControl e) (SetSatelliteControl e) k m h s)))"
  by (simp_all add: on_control_def case_prod_beta Let_def split: option.split)

lemma same_but_guards:
  "same_but k s (fst (snd (f s))) \<Longrightarrow> same_but k s (fst (snd (slot_guard e j f s)))"
  "same_but k s (fst (snd (f s))) \<Longrightarrow> same_but k s (fst (snd (srvcc_guard f s)))"
  by (simp_all add: slot_guard_def srvcc_guard_def)

lemma same_but_by_type [simp]:
  "same_but (ci_slotId i) s (fst (snd (by_type e i m sat cs ims s)))"
  "same_but (ci_slotId i) s (fst (snd (by_type_cs_ims e i cs ims s)))"
  by (simp_all add: by_type_def by_type_cs_ims_def Let_def split: CallType.split)

lemma same_but_dial_on:
  "dial_on (GetCsControl e) (SetCsControl e) k f s = Some (r, s', acts) \<Longrightarrow> same_but k s s'"
  "dial_on (GetImsControl e) (SetImsControl e) k g s = Some (r, s', acts) \<Longrightarrow> same_but k s s'"
  "dial_on (GetSatelliteControl e) (SetSatelliteControl e) k h s = Some (r, s', acts) \<Longrightarrow> same_but k s s'"
  by (auto dest!: dial_on_cases)

lemma same_but_Dial:
  assumes "Service_Dial e i s = Some (r, s', acts)"
  shows "same_but (ci_slotId i) s s'"
  using assms unfolding Service_Dial_def DialNormalCall_def Let_def
  by (auto split: if_splits intro: same_but_trans [OF same_but_ensure(1) same_but_dial_on(1)]
      same_but_trans [OF same_but_ensure(2) same_but_dial_on(2)]
      same_but_trans [OF same_but_ensure(3) same_but_dial_on(3)])

lemma same_but_calls [simp]:
  "same_but (ci_slotId i) s (fst (snd (Service_HangUp e i ty s)))" "same_but (ci_slotId i) s (fst (snd (Service_Reject e i s)))"
  "same_but (ci_slotId i) s (fst (snd (Service_Answer e i s)))" "same_but (ci_slotId i) s (fst (snd (Service_HoldCall e i s)))"
  "same_but (ci_slotId i) s (fst (snd (Service_UnHoldCall e i s)))" "same_but (ci_slotId i) s (fst (snd (Service_SwitchCall e i s)))"
  "same_but (ci_slotId i) s (fst (snd (Service_CombineConference e i s)))"
  "same_but (ci_slotId i) s (fst (snd (Service_SeparateConference e i s)))"
  "same_but k s (fst (snd (Service_InviteToConference e k ns s)))"
  "same_but (ci_slotId i) s (fst (snd (Service_KickOutFromConference e i s)))"
  "same_but k s (fst (snd (Service_UpdateImsRttCallMode e k c md s)))"
  "same_but (ci_slotId i) s (fst (snd (Service_PostDialProceed e i p s)))"
  "same_but (ci_slotId i) s (fst (snd (Service_StartDtmf e d i s)))" "same_but (ci_slotId i) s (fst (snd (Service_SendDtmf e d i s)))"
  "same_but (ci_slotId i) s (fst (snd (Service_StopDtmf e i s)))"
  unfolding call_defs Let_def by (auto intro!: same_but_guards)

lemma same_but_run_call:
  assumes "run_call e c s = Some (r, s', acts)" "call_slot c = Some k"
  shows "same_but k s s'"
proof (cases "\<exists>i. c = CallDial i")
  case True
  then show ?thesis using assms same_but_Dial by auto
next
  case False
  have "same_but k s (fst (snd (the (run_call e c s))))"
    using False assms(2) by (cases c) (auto simp: case_prod_beta)
  then show ?thesis using assms(1) by simp
qed

text \<open>Two states that agree on one slot, whatever controls the other slots have.\<close>

definition agree_on :: "int \<Rightarrow> CellularCallService \<Rightarrow> CellularCallService \<Rightarrow> bool" where
  "agree_on k s t \<longleftrightarrow> csControlMap t k = csControlMap s k \<and> imsControlMap t k = imsControlMap s k \<and>
     satelliteControlMap t k = satelliteControlMap s k \<and> handlerMap t k = handlerMap s k \<and>
     (\<forall>j. handlerMap t j = None \<longleftrightarrow> handlerMap s j = None) \<and> svc_srvccState t = svc_srvccState s \<and> isRadioOn t = isRadioOn s"

definition agree_after :: "int \<Rightarrow> errcode \<times> CellularCallService \<times> act list \<Rightarrow> errcode \<times> CellularCallService \<times> act list \<Rightarrow> bool" where
  "agree_after k = (\<lambda>(r, s, acts) (r', t, acts'). r' = r \<and> acts' = acts \<and> agree_on k s t)"

lemma agree_reads:
  assumes "agree_on k s t"
  shows "GetCsControl e k t = GetCsControl e k s" "GetImsControl e k t = GetImsControl e k s"
    "GetSatelliteControl e k t = GetSatelliteControl e k s" "service_view e' t = service_view e' s"
    "svc_srvccState t = svc_srvccState s" "handlerMap t k = handlerMap s k" "isRadioOn t = isRadioOn s"
  using assms by (simp_all add: agree_on_def GetCsControl_def GetImsControl_def GetSatelliteControl_def service_view_def)

lemma agree_puts:
  assumes "agree_on k s t"
  shows "agree_on k (SetCsControl e k c s) (SetCsControl e k c t)" "agree_on k (SetImsControl e k i s) (SetImsControl e k i t)"
    "agree_on k (SetSatelliteControl e k z s) (SetSatelliteControl e k z t)"
    "agree_on k (setRadioOnFlag f k s) (setRadioOnFlag f k t)"
  using assms by (simp_all add: agree_on_def SetCsControl_def SetImsControl_def SetSatelliteControl_def setRadioOnFlag_def)

lemma agree_ensure:
  assumes "agree_on k s t"
  shows "agree_on k (ensure_control (GetCsControl e) (SetCsControl e) c k s) (ensure_control (GetCsControl e) (SetCsControl e) c k t)"
    "agree_on k (ensure_control (GetImsControl e) (SetImsControl e) i k s) (ensure_control (GetImsControl e) (SetImsControl e) i k t)"
    "agree_on k (ensure_control (GetSatelliteControl e) (SetSatelliteControl e) z k s)
       (ensure_control (GetSatelliteControl e) (SetSatelliteControl e) z k t)"
  using assms by (simp_all add: ensure_control_def agree_reads agree_puts split: option.split)

lemma agree_on_control:
  assumes "agree_on k s t"
  shows "agree_after k (on_control (GetCsControl e) (SetCsControl e) k m f s) (on_control (GetCsControl e) (SetCsControl e) k m f t)"
    "agree_after k (on_control (GetImsControl e) (SetImsControl e) k m g s) (on_control (GetImsControl e) (SetImsControl e) k m g t)"
    "agree_after k (on_control (GetSatelliteControl e) (SetSatelliteControl e) k m h s)
       (on_control (GetSatelliteControl e) (SetSatelliteControl e) k m h t)"
  using assms by (simp_all add: on_control_def agree_after_def agree_reads agree_puts case_prod_beta Let_def split: option.split)

lemma agree_guards:
  assumes "agree_on k s t"
  shows "agree_after k (f s) (f t) \<Longrightarrow> agree_after k (slot_guard e j f s) (slot_guard e j f t)"
    "agree_after k (f s) (f t) \<Longrightarrow> agree_after k (srvcc_guard f s) (srvcc_guard f t)"
  using assms by (simp_all add: slot_guard_def srvcc_guard_def agree_after_def agree_reads)

lemma agree_refused: "agree_on k s t \<Longrightarrow> agree_after k (r, s, acts) (r, t, acts)"
  by (simp add: agree_after_def)

lemma agree_by_type:
  assumes "agree_on (ci_slotId i) s t"
  shows "agree_after (ci_slotId i) (by_type e i m sat cs ims s) (by_type e i m sat cs ims t)"
    "agree_after (ci_slotId i) (by_type_cs_ims e i cs ims s) (by_type_cs_ims e i cs ims t)"
  using assms
  by (simp_all add: by_type_def by_type_cs_ims_def Let_def agree_on_control agree_refused split: CallType.split)

lemma agree_dial_on:
  assumes "agree_on k s t"
  shows "rel_option (agree_after k) (dial_on (GetCsControl e) (SetCsControl e) k f s) (dial_on (GetCsControl e) (SetCsControl e) k f t)"
    "rel_option (agree_after k) (dial_on (GetImsControl e) (SetImsControl e) k g s) (dial_on (GetImsControl e) (SetImsControl e) k g t)"
    "rel_option (agree_after k) (dial_on (GetSatelliteControl e) (SetSatelliteControl e) k h s)
       (dial_on (GetSatelliteControl e) (SetSatelliteControl e) k h t)"
  using assms
  by (auto simp: dial_on_def agree_reads agree_puts agree_after_def option.rel_map case_prod_beta intro!: option.rel_refl
      split: option.split)

lemma agree_Dial:
  assumes "agree_on (ci_slotId i) s t"
  shows "rel_option (agree_after (ci_slotId i)) (Service_Dial e i s) (Service_Dial e i t)"
  using assms
  by (simp add: Service_Dial_def DialNormalCall_def Let_def agree_reads(4-) agree_dial_on agree_ensure agree_refused)

lemma agree_calls:
  assumes "agree_on (ci_slotId i) s t"
  shows "agree_after (ci_slotId i) (Service_HangUp e i ty s) (Service_HangUp e i ty t)"
    "agree_after (ci_slotId i) (Service_Reject e i s) (Service_Reject e i t)"
    "agree_after (ci_slotId i) (Service_Answer e i s) (Service_Answer e i t)"
    "agree_after (ci_slotId i) (Service_HoldCall e i s) (Service_HoldCall e i t)"
    "agree_after (ci_slotId i) (Service_UnHoldCall e i s) (Service_UnHoldCall e i t)"
    "agree_after (ci_slotId i) (Service_SwitchCall e i s) (Service_SwitchCall e i t)"
    "agree_after (ci_slotId i) (Service_CombineConference e i s) (Service_CombineConference e i t)"
    "agree_after (ci_slotId i) (Service_SeparateConference e i s) (Service_SeparateConference e i t)"
    "agree_after (ci_slotId i) (Service_KickOutFromConference e i s) (Service_KickOutFromConference e i t)"
    "agree_after (ci_slotId i) (Service_PostDialProceed e i p s) (Service_PostDialProceed e i p t)"
    "agree_after (ci_slotId i) (Service_StartDtmf e d i s) (Service_StartDtmf e d i t)"
    "agree_after (ci_slotId i) (Service_SendDtmf e d i s) (Service_SendDtmf e d i t)"
    "agree_after (ci_slotId i) (Service_StopDtmf e i s) (Service_StopDtmf e i t)"
  unfolding call_defs Let_def agree_reads(4) [OF assms]
  by (auto intro!: agree_guards agree_by_type agree_on_control agree_refused assms)

lemma agree_slot_calls:
  assumes "agree_on k s t"
  shows "agree_after k (Service_InviteToConference e k ns s) (Service_InviteToConference e k ns t)"
    "agree_after k (Service_UpdateImsRttCallMode e k c md s) (Service_UpdateImsRttCallMode e k c md t)"
    "Service_HangUpAllConnection_slot e k t = Service_HangUpAllConnection_slot e k s"
  by (simp_all add: Service_InviteToConference_def Service_UpdateImsRttCallMode_def Service_HangUpAllConnection_slot_def
      cs_hang_up_all_def ims_hang_up_all_def sat_hang_up_all_def agree_reads [OF assms] agree_on_control [OF assms]
      split: option.split)

lemma agree_run_call:
  assumes "call_slot c = Some k" "agree_on k s t"
  shows "rel_option (agree_after k) (run_call e c s) (run_call e c t)"
  using assms by (cases c) (auto simp: agree_Dial agree_calls agree_slot_calls agree_refused case_prod_beta)

lemma agree_run_event:
  assumes "agree_on k s t"
  shows "snd (run_event e k ev t) = snd (run_event e k ev s) \<and> agree_on k (fst (run_event e k ev s)) (fst (run_event e k ev t))"
proof -
  have "handler_of k t h = handler_of k s h" for h using assms by (simp add: handler_of_def agree_on_def)
  moreover have "agree_on k (put_handler k h s) (put_handler k h t)" for h
    using assms by (auto simp: put_handler_def agree_on_def)
  ultimately show ?thesis
    using assms by (simp add: run_event_def on_handler_def agree_reads case_prod_beta Let_def split: option.split)
qed

lemma agree_radio:
  assumes "agree_on k s t"
  shows "rel_option (\<lambda>(s', acts) (t', acts'). acts' = acts \<and> agree_on k s' t')
    (RadioStateChangeProcess e k st s) (RadioStateChangeProcess e k st t)"
proof -
  note on = agree_puts(4) [OF assms, of True]
  show ?thesis
    using agree_puts(4) [OF assms, of False] assms on
    by (simp add: RadioStateChangeProcess_def agree_puts(2) [OF on] agree_reads [OF on] Let_def case_prod_beta split: option.split bool.split)
qed

text \<open>What another slot keeps.\<close>

definition untouched :: "int \<Rightarrow> CellularCallService \<Rightarrow> CellularCallService \<Rightarrow> bool" where
  "untouched j s s' \<longleftrightarrow> csControlMap s' j = csControlMap s j \<and> imsControlMap s' j = imsControlMap s j \<and>
     satelliteControlMap s' j = satelliteControlMap s j \<and> handlerMap s' j = handlerMap s j \<and> isRadioOn s' j = isRadioOn s j"

lemma radio_untouched:
  assumes "RadioStateChangeProcess e k st s = Some (s', acts)" "j \<noteq> k"
  shows "untouched j s s'"
proof -
  have "untouched j s s" "untouched j s (setRadioOnFlag f k s)" "untouched j s (SetImsControl e k c (setRadioOnFlag f k s))" for f c
    using assms(2) by (simp_all add: untouched_def setRadioOnFlag_def)
  then show ?thesis
    using assms(1) by (auto simp: RadioStateChangeProcess_def Let_def case_prod_beta
        split: option.splits bool.splits if_splits)
qed

text \<open>C22: the slots are independent. A call about one slot, an event of its handler and a change of its radio state
  neither touch another slot nor see its controls: they leave the controls, the handler and the radio flag of every other slot as they are, and their
  result, their requests and reports, and what they leave of their own slot are the same whatever calls the other
  slots have. What the slots share is the SRVCC state (which an event of any handler may set), the radio flags and which handlers exist:
  the two states compared agree on these. Calls about the whole service (hang up all, clear all) are not about one slot.\<close>

theorem slots_independent:
  assumes "agree_on k s t" "j \<noteq> k"
  shows "(call_slot c = Some k \<longrightarrow>
      (case run_call e c s of
         None \<Rightarrow> run_call e c t = None
       | Some (r, s', acts) \<Rightarrow> untouched j s s' \<and> svc_srvccState s' = svc_srvccState s \<and>
           (\<exists>t'. run_call e c t = Some (r, t', acts) \<and> agree_on k s' t'))) \<and>
    (case run_event e k ev s of (s', acts) \<Rightarrow> untouched j s s' \<and> (\<exists>t'. run_event e k ev t = (t', acts) \<and> agree_on k s' t')) \<and>
    (case RadioStateChangeProcess e k st s of
       None \<Rightarrow> RadioStateChangeProcess e k st t = None
     | Some (s', acts) \<Rightarrow> untouched j s s' \<and> (\<exists>t'. RadioStateChangeProcess e k st t = Some (t', acts) \<and> agree_on k s' t'))"
proof (intro conjI impI)
  assume c: "call_slot c = Some k"
  have "untouched j s s' \<and> svc_srvccState s' = svc_srvccState s" if "run_call e c s = Some (r, s', acts)" for r s' acts
    using same_but_run_call [OF that c] assms(2) by (simp add: same_but_def untouched_def)
  with agree_run_call [OF c assms(1), of e] show "case run_call e c s of
         None \<Rightarrow> run_call e c t = None
       | Some (r, s', acts) \<Rightarrow> untouched j s s' \<and> svc_srvccState s' = svc_srvccState s \<and>
           (\<exists>t'. run_call e c t = Some (r, t', acts) \<and> agree_on k s' t')"
    by (auto simp: agree_after_def rel_option_iff split: option.splits)
next
  have "untouched j s (fst (run_event e k ev s))"
    using assms(2) by (auto simp: run_event_def on_handler_def put_handler_def untouched_def case_prod_beta Let_def split: option.split)
  with agree_run_event [OF assms(1), of e ev]
  show "case run_event e k ev s of (s', acts) \<Rightarrow> untouched j s s' \<and> (\<exists>t'. run_event e k ev t = (t', acts) \<and> agree_on k s' t')"
    by (cases "run_event e k ev t") (auto split: prod.split)
next
  show "case RadioStateChangeProcess e k st s of
       None \<Rightarrow> RadioStateChangeProcess e k st t = None
     | Some (s', acts) \<Rightarrow> untouched j s s' \<and> (\<exists>t'. RadioStateChangeProcess e k st t = Some (t', acts) \<and> agree_on k s' t')"
    using agree_radio [OF assms(1), of e st] radio_untouched [OF _ assms(2), of e st s]
    by (auto simp: rel_option_iff split: option.splits)
qed

text \<open>Slot 0 hangs up its call in the same way whether or not slot 1 has calls.\<close>

theorem slots_independent_witness:
  "\<exists>r s' t' acts. run_call sample_service_env (CallHangUp (sample_info\<lparr>ci_index := 2\<rparr>) TYPE_DEFAULT)
      (sample_service\<lparr>csControlMap := [0 \<mapsto> sample_cs_ctl, 1 \<mapsto> sample_cs_ctl]\<rparr>) = Some (r, s', acts) \<and>
    run_call sample_service_env (CallHangUp (sample_info\<lparr>ci_index := 2\<rparr>) TYPE_DEFAULT) sample_service = Some (r, t', acts) \<and>
    csControlMap s' 1 = Some sample_cs_ctl \<and> csControlMap t' 0 = csControlMap s' 0"
proof -
  let ?s = "sample_service\<lparr>csControlMap := [0 \<mapsto> sample_cs_ctl, 1 \<mapsto> sample_cs_ctl]\<rparr>"
  let ?c = "CallHangUp (sample_info\<lparr>ci_index := 2\<rparr>) TYPE_DEFAULT"
  have a: "agree_on 0 ?s sample_service" by (simp add: agree_on_def sample_service_def)
  have c: "call_slot ?c = Some 0" by (simp add: sample_info_def)
  obtain r s' acts where r: "run_call sample_service_env ?c ?s = Some (r, s', acts)"
    by (cases "Service_HangUp sample_service_env (sample_info\<lparr>ci_index := 2\<rparr>) TYPE_DEFAULT ?s") auto
  have "untouched 1 ?s s' \<and> (\<exists>t'. run_call sample_service_env ?c sample_service = Some (r, t', acts) \<and> agree_on 0 s' t')"
    using slots_independent [OF a, of 1 ?c sample_service_env RsrvccNotice None] c r by simp
  with r show ?thesis by (auto simp: untouched_def agree_on_def)
qed

section \<open>Refusals\<close>

text \<open>The calls that are refused while a handover (SRVCC) is under way.\<close>

fun srvcc_guarded :: "service_call \<Rightarrow> bool" where
  "srvcc_guarded (CallSeparate i) = False"
| "srvcc_guarded (CallInvite k ns) = False"
| "srvcc_guarded (CallKickOut i) = False"
| "srvcc_guarded (CallRttMode k c m) = False"
| "srvcc_guarded (CallHangUpSlot k) = False"
| "srvcc_guarded c = (call_slot c \<noteq> None)"

text \<open>The answer for a slot that does not exist: the two calls that ask only for the IMS control report it as missing, and
  hanging up the calls of such a slot succeeds.\<close>

fun missing_slot_code :: "service_call \<Rightarrow> errcode" where
  "missing_slot_code (CallInvite k ns) = TELEPHONY_ERR_LOCAL_PTR_NULL"
| "missing_slot_code (CallRttMode k c m) = TELEPHONY_ERR_LOCAL_PTR_NULL"
| "missing_slot_code (CallHangUpSlot k) = TELEPHONY_SUCCESS"
| "missing_slot_code c = CALL_ERR_INVALID_SLOT_ID"

lemma srvcc_irrelevant:
  "\<not> srvcc_guarded c \<Longrightarrow> call_slot c = Some k \<Longrightarrow> run_call e c (s\<lparr>svc_srvccState := x\<rparr>) =
    map_option (\<lambda>(r, s', acts). (r, s'\<lparr>svc_srvccState := x\<rparr>, acts)) (run_call e c s)"
  by (cases c) (auto simp: call_defs slot_guard_def by_type_cs_ims_def on_control_def read_only_def Let_def case_prod_beta
      GetCsControl_def GetImsControl_def GetSatelliteControl_def SetCsControl_def SetImsControl_def SetSatelliteControl_def
      Service_HangUpAllConnection_slot_def cs_hang_up_all_def ims_hang_up_all_def sat_hang_up_all_def service_view_def
      split: option.split CallType.split)

text \<open>C24: what is refused, and what is not. A call about a slot that does not exist changes nothing, sends nothing and reports nothing; it returns
  the error of an invalid slot, but the invitation to a conference and the change of the RTT mode return the error of
  a missing control, and hanging up all calls of the slot returns success. During a handover (SRVCC) a call about an
  existing slot fails without any effect, apart from five that do not ask for the handover and do what they do without
  it: separating a conference, inviting to it, removing from it, changing the RTT mode, and hanging up all calls of the slot.\<close>

theorem refused_calls:
  assumes "call_slot c = Some k" "service_inv (e_slotCount e) s"
  shows "(\<not> IsValidSlotId e k \<longrightarrow> run_call e c s = Some (missing_slot_code c, s, [])) \<and>
    (IsValidSlotId e k \<and> svc_srvccState s = SRVCC_STARTED \<longrightarrow>
      run_call e c s =
        (if srvcc_guarded c then Some (TELEPHONY_ERR_FAIL, s, [])
         else map_option (\<lambda>(r, s', acts). (r, s'\<lparr>svc_srvccState := SRVCC_STARTED\<rparr>, acts))
           (run_call e c (s\<lparr>svc_srvccState := SRVCC_NONE\<rparr>))))"
proof (intro conjI impI)
  assume v: "\<not> IsValidSlotId e k"
  then have "GetCsControl e k s = None" "GetImsControl e k s = None" "GetSatelliteControl e k s = None"
    using assms(2) by (auto simp: GetCsControl_def GetImsControl_def GetSatelliteControl_def service_inv_def IsValidSlotId_iff
        intro: ccontr)
  then show "run_call e c s = Some (missing_slot_code c, s, [])"
    using v assms(1)
    by (cases c) (simp_all add: Service_Dial_def call_defs slot_guard_def on_control_def Let_def
        Service_HangUpAllConnection_slot_def cs_hang_up_all_def ims_hang_up_all_def sat_hang_up_all_def)
next
  assume v: "IsValidSlotId e k \<and> svc_srvccState s = SRVCC_STARTED"
  show "run_call e c s = (if srvcc_guarded c then Some (TELEPHONY_ERR_FAIL, s, [])
         else map_option (\<lambda>(r, s', acts). (r, s'\<lparr>svc_srvccState := SRVCC_STARTED\<rparr>, acts))
           (run_call e c (s\<lparr>svc_srvccState := SRVCC_NONE\<rparr>)))"
  proof (cases "srvcc_guarded c")
    case True
    then show ?thesis
      using v assms by (cases c) (simp_all add: Service_Dial_def call_defs slot_guard_def srvcc_guard_def Let_def)
  next
    case False
    have "s = (s\<lparr>svc_srvccState := SRVCC_NONE\<rparr>)\<lparr>svc_srvccState := SRVCC_STARTED\<rparr>" using v by simp
    with srvcc_irrelevant [OF False assms(1), where s = "s\<lparr>svc_srvccState := SRVCC_NONE\<rparr>" and x = SRVCC_STARTED] False show ?thesis by simp
  qed
qed

theorem refused_calls_witness:
  "run_call sample_service_env (CallDial (sample_info\<lparr>ci_slotId := 7\<rparr>)) sample_service =
     Some (CALL_ERR_INVALID_SLOT_ID, sample_service, []) \<and>
   run_call sample_service_env (CallAnswer sample_info) (sample_service\<lparr>svc_srvccState := SRVCC_STARTED\<rparr>) =
     Some (TELEPHONY_ERR_FAIL, sample_service\<lparr>svc_srvccState := SRVCC_STARTED\<rparr>, [])"
proof -
  have "\<not> IsValidSlotId sample_service_env 7" by (simp add: IsValidSlotId_iff valid_slots_def)
  moreover have "service_inv 2 (sample_service\<lparr>svc_srvccState := SRVCC_STARTED\<rparr>)"
    using sample_service_inv by (simp add: service_inv_def)
  ultimately show ?thesis
    using refused_calls [of "CallDial (sample_info\<lparr>ci_slotId := 7\<rparr>)" 7 sample_service_env sample_service]
      refused_calls [of "CallAnswer sample_info" 0 sample_service_env "sample_service\<lparr>svc_srvccState := SRVCC_STARTED\<rparr>"]
      sample_service_inv
    by (simp add: sample_info_def)
qed

section \<open>Missing controls\<close>

text \<open>The control of a call by its type.\<close>

fun has_control :: "'x service_env_scheme \<Rightarrow> CallType \<Rightarrow> int \<Rightarrow> CellularCallService \<Rightarrow> bool" where
  "has_control e TYPE_CS k s = (GetCsControl e k s \<noteq> None)"
| "has_control e TYPE_IMS k s = (GetImsControl e k s \<noteq> None)"
| "has_control e TYPE_SATELLITE k s = (GetSatelliteControl e k s \<noteq> None)"
| "has_control e (CallType_other _) k s = False"

lemma by_type_missing:
  "\<not> has_control e (ci_callType i) (ci_slotId i) s \<Longrightarrow> ci_callType i \<in> {TYPE_CS, TYPE_IMS, TYPE_SATELLITE} \<Longrightarrow>
    by_type e i m sat cs ims s = (TELEPHONY_ERR_LOCAL_PTR_NULL, s, m)"
  by (auto simp: by_type_def on_control_def)

text \<open>A call nobody knows is announced as ended. When the call manager hangs up, rejects or answers a call whose slot has no
  control for its type, the call manager is told exactly once that this call is disconnected, with its index, slot, type
  and number, and the request fails; nothing is sent to the network and no control changes.\<close>

theorem unknown_call_announced:
  assumes "c \<in> {CallHangUp i ty, CallReject i, CallAnswer i}"
    and "IsValidSlotId e (ci_slotId i)" "svc_srvccState s \<noteq> SRVCC_STARTED"
    and "ci_callType i \<in> {TYPE_CS, TYPE_IMS, TYPE_SATELLITE}" "\<not> has_control e (ci_callType i) (ci_slotId i) s"
    and "e_register e" "length (ci_phoneNum i) \<le> e_kMaxNumberLen e"
  shows "\<exists>rep. run_call e c s = Some (TELEPHONY_ERR_LOCAL_PTR_NULL, s, [ReportCallsInfo \<lparr>callVec = [rep], cr_slotId = ci_slotId i\<rparr>]) \<and>
    r_state rep = CALL_STATUS_DISCONNECTED \<and> r_index rep = ci_index i \<and> r_accountId rep = ci_slotId i \<and>
    r_callType rep = ci_callType i \<and> r_accountNum rep = ci_phoneNum i"
  using assms
  by (auto simp: call_defs slot_guard_def srvcc_guard_def by_type_missing HandleCellularControlException_def
      EncapsulationCallReportInfo_def Let_def)

theorem unknown_call_announced_witness:
  "\<exists>rep. run_call sample_service_env (CallAnswer (sample_info\<lparr>ci_callType := TYPE_IMS, ci_index := 4\<rparr>)) sample_service =
      Some (TELEPHONY_ERR_LOCAL_PTR_NULL, sample_service, [ReportCallsInfo \<lparr>callVec = [rep], cr_slotId = 0\<rparr>]) \<and>
    r_state rep = CALL_STATUS_DISCONNECTED \<and> r_index rep = 4"
proof -
  let ?i = "sample_info\<lparr>ci_callType := TYPE_IMS, ci_index := 4\<rparr>"
  have "length (ci_phoneNum ?i) \<le> e_kMaxNumberLen sample_service_env"
    by (simp add: sample_info_def sample_service_env_def sample_handler_env_def sample_env_def dial_env.extend_def
        handler_env.fields_def handler_env.extend_def service_env.fields_def)
  moreover have "\<not> has_control sample_service_env (ci_callType ?i) (ci_slotId ?i) sample_service"
    by (simp add: GetImsControl_def sample_service_def)
  ultimately show ?thesis
    using unknown_call_announced [of "CallAnswer ?i" ?i TYPE_DEFAULT sample_service_env sample_service]
    by (auto simp: sample_info_def sample_service_def)
qed

section \<open>Waking the dials that wait\<close>

text \<open>Only one control is woken. When the network is ready again, the flag of the slot is set once, but of the controls of the
  slot only the first (CS, then IMS, then satellite) wakes the emergency dials that wait in it: its call sets
  the flag, and the others find it set already. So an emergency dial over IMS beside a CS control is not woken
  and sits out its timeout.\<close>

theorem only_first_control_woken:
  assumes "IsValidSlotId e k" "\<not> readyToCall s k"
  shows "\<exists>s' woken. Service_SetReadyToCall e k True s = (TELEPHONY_SUCCESS, s', woken) \<and>
    woken = (if has_control e TYPE_CS k s then [TYPE_CS] else if has_control e TYPE_IMS k s then [TYPE_IMS]
             else if has_control e TYPE_SATELLITE k s then [TYPE_SATELLITE] else []) \<and>
    readyToCall s' = (if woken = [] then readyToCall s else (readyToCall s)(k := True))"
  using assms
  by (cases "GetCsControl e k s"; cases "GetImsControl e k s"; cases "GetSatelliteControl e k s")
    (simp_all add: Service_SetReadyToCall_def slot_guard_def ready_control_def SetReadyToCall_def)

theorem only_first_control_woken_witness:
  "\<exists>s'. Service_SetReadyToCall sample_service_env 0 True
      (sample_service\<lparr>imsControlMap := [0 \<mapsto> sample_ims_ctl], readyToCall := \<lambda>_. False\<rparr>) =
      (TELEPHONY_SUCCESS, s', [TYPE_CS]) \<and> readyToCall s' 0"
  using only_first_control_woken [of sample_service_env 0
      "sample_service\<lparr>imsControlMap := [0 \<mapsto> sample_ims_ctl], readyToCall := \<lambda>_. False\<rparr>"]
  by (auto simp: GetCsControl_def sample_service_def)

section \<open>The restart of the call manager\<close>

lemma hangup_report_view [simp]:
  "hangup_report_cs (service_view e s) = hangup_report_cs e" "hangup_report_ims (service_view e s) = hangup_report_ims e"
  by (rule ext, simp add: hangup_report_cs_def hangup_report_ims_def service_view_def)+

lemma service_view_simps [simp]:
  "e_register (service_view e s) = e_register e" "e_service (service_view e s)"
  "e_handler (service_view e s) k \<longleftrightarrow> handlerMap s k \<noteq> None"
  by (simp_all add: service_view_def)

lemma reports_hang_up_all [simp]:
  "reports (snd (HangUpAllConnection_cs v k)) = []" "reports (snd (HangUpAllConnection_ims v k c)) = []"
proof -
  show "reports (snd (HangUpAllConnection_cs v k)) = []"
    by (simp add: HangUpAllConnection_cs_def RejectRequest_cs_def ril_request_cases)
  have "reports (snd (RejectRequest_ims v k n i)) = []" for n i
    by (simp add: RejectRequest_ims_def ims_request_cases ims_client_def Let_def)
  then have "reports (concat (map (\<lambda>(k', c). snd (RejectRequest_ims v k (number c) (index c))) t)) = []"
    for t :: "CellularCallConnectionIMS omap"
    by (induction t) auto
  then show "reports (snd (HangUpAllConnection_ims v k c)) = []"
    by (simp add: HangUpAllConnection_ims_def)
qed




lemma ensure_cross [simp]:
  "GetImsControl e j (ensure_control (GetCsControl e) (SetCsControl e) c k s) = GetImsControl e j s"
  "GetCsControl e j (ensure_control (GetImsControl e) (SetImsControl e) d k s) = GetCsControl e j s"
  by (simp_all add: ensure_control_def GetImsControl_def GetCsControl_def split: option.split)























text \<open>The controls made for the restart are empty, and the handlers stay.\<close>

lemma SetControl_handlers [simp]: "handlerMap (SetControl e i s) = handlerMap s"
  by (simp add: SetControl_def ensure_control_def SetCsControl_def SetImsControl_def split: option.split)

lemma fold_SetControl_handlers [simp]: "handlerMap (fold (SetControl e) infos s) = handlerMap s"
  by (induction infos arbitrary: s) simp_all








section \<open>Emergency calls\<close>

lemma view_simps [simp]:
  "e_eccList (service_view e s) = e_eccList e" "e_wakes (service_view e s) = e_wakes e" "e_readyToCall (service_view e s) = e_readyToCall e"
  "e_basePower (service_view e s) = e_basePower e" "e_radioState (service_view e s) = e_radioState e"
  "e_radioOnFlag (service_view e s) = isRadioOn s" "e_phoneType (service_view e s) = e_phoneType e"
  "e_imsClient (service_view e s) = e_imsClient e" "e_imsProxy (service_view e s) = e_imsProxy e"
  "e_imsResult (service_view e s) = e_imsResult e" "e_kMaxNumberLen (service_view e s) = e_kMaxNumberLen e"
  "e_cbRegistered (service_view e s) = e_cbRegistered e" "e_defaultReport (service_view e s) = e_defaultReport e"
  "e_zeroReport (service_view e s) = e_zeroReport e"
  by (simp_all add: service_view_def)

lemma emergency_view [simp]: "IsEmergencyCall (service_view e s) = IsEmergencyCall e"
  by (intro ext) (simp add: IsEmergencyCall_def IsEmergencyCallProcessing_def service_view_def Let_def cong: if_cong)

lemma emergency_power [simp]: "IsEmergencyCall (e\<lparr>e_basePower := b\<rparr>) = IsEmergencyCall e"
  by (intro ext) (simp add: IsEmergencyCall_def IsEmergencyCallProcessing_def Let_def cong: if_cong)

text \<open>What an emergency dial needs: digits that are an emergency number of the slot, by the list that modem, card and
  network have given or by the built-in one, not longer than the IMS service takes, and a wait that ends, as
  it does after five seconds at the latest.\<close>

definition emergency_number :: "'x dial_env_scheme \<Rightarrow> int \<Rightarrow> string \<Rightarrow> bool" where
  "emergency_number e k n \<longleftrightarrow> list_all is_digit n \<and> n \<noteq> [] \<and> length n < 255 \<and> snd (IsEmergencyCall e k n False) \<and>
     (WakeTimeout \<in> set (e_wakes e) \<or> WakeNotify True \<in> set (e_wakes e) \<or> e_readyToCall e k)"

text \<open>The dial requests among the effects.\<close>

fun is_dial :: "act \<Rightarrow> bool" where
  "is_dial (Ril (RilDial k n m)) = True"
| "is_dial (Ims (ImsDial d m)) = True"
| "is_dial (Sat (SatDial d m)) = True"
| "is_dial _ = False"

definition dials :: "act list \<Rightarrow> act list" where
  "dials acts = filter is_dial acts"

lemma dials_simps [simp]:
  "dials [] = []" "dials (a # acts) = (if is_dial a then a # dials acts else dials acts)"
  "dials (acts @ acts') = dials acts @ dials acts'"
  by (simp_all add: dials_def)

lemma emergency_number_view [simp]: "emergency_number (service_view e s) = emergency_number e"
  by (intro ext) (simp add: emergency_number_def)

lemma emergency_pre:
  assumes "emergency_number e (ci_slotId i) (ci_phoneNum i)" "e_service e"
  shows "\<exists>pacts. DialPreJudgment e i True =
      Some (if (if e_basePower e then e_radioOnFlag e (ci_slotId i) else e_radioState e (ci_slotId i))
            then TELEPHONY_SUCCESS else CALL_ERR_GET_RADIO_STATE_FAILED, pacts) \<and>
    (\<forall>q. Ims q \<notin> set pacts) \<and> dials pacts = []"
proof -
  have ne: "ci_phoneNum i \<noteq> []" using assms(1) by (simp add: emergency_number_def)
  obtain x acts where h: "HandleEcc e i True (CheckAirplaneModeScene e) (CheckActivateSimScene e (ci_slotId i)) = Some (x, acts)"
    using assms(1) HandleEcc_returns [of e i] by (metis emergency_number_def surj_pair)
  then have "(\<forall>q. Ims q \<notin> set acts) \<and> dials acts = []" by (auto simp: HandleEcc_def Let_def split: if_splits)
  with h ne assms(2) show ?thesis by (simp add: DialPreJudgment_def Let_def)
qed

lemma plain_digits:
  assumes "list_all is_digit n" "n \<noteq> []"
  shows "n \<noteq> [] \<and> CHR ''@'' \<notin> set n \<and> find_sub ''%40'' n = None \<and> hd n \<noteq> CHR ''+''"
  using assms not_digit digits_no_pct [OF assms(1)] by (metis hd_in_set list_all_iff)

lemma emergency_not_mmi:
  assumes "emergency_number e k n"
  shows "IsNeedExecuteMMI e k n DEFAULT b = (False, n, DEFAULT, [])" "snd (IsEmergencyCall e k n b') = True"
proof -
  from assms have n: "list_all is_digit n" "n \<noteq> []" "snd (IsEmergencyCall e k n False)" by (simp_all add: emergency_number_def)
  then show "IsNeedExecuteMMI e k n DEFAULT b = (False, n, DEFAULT, [])"
    by (simp add: IsNeedExecuteMMI_def ControlBase_IsEmergencyCall_def)
  show "snd (IsEmergencyCall e k n b') = True"
    using n(3) plain_digits [OF n(1,2)] by (simp add: IsEmergencyCall_def)
qed

lemma emergency_digits:
  assumes "emergency_number e k n"
  shows "RemoveSeparatorsPhoneNumber n = n" "address_scan n = (n, [])" "ims_dial_number n = n" "length n < 255" "n \<noteq> []"
proof -
  have d: "list_all is_digit n" using assms by (simp add: emergency_number_def)
  show "RemoveSeparatorsPhoneNumber n = n" "address_scan n = (n, [])" using digits_address [OF d] by simp_all
  then show "ims_dial_number n = n" by (simp add: ims_dial_number_def)
  show "length n < 255" "n \<noteq> []" using assms by (simp_all add: emergency_number_def)
qed

lemma emergency_over_cs:
  assumes num: "emergency_number e (ci_slotId i) (ci_phoneNum i)"
    and radio: "if e_basePower e then e_radioOnFlag e (ci_slotId i) else e_radioState e (ci_slotId i)"
    and net: "e_phoneType e (ci_slotId i) = PHONE_TYPE_IS_GSM \<or>
      e_phoneType e (ci_slotId i) = PHONE_TYPE_IS_CDMA \<and> \<not> IsInState (csConnectionMap c) CALL_STATUS_ACTIVE"
    and svc: "e_service e" "e_handler e (ci_slotId i)" and can: "CanCall (csConnectionMap c)"
  shows "\<exists>acts. Dial_cs e i True c = Some (TELEPHONY_SUCCESS, c\<lparr>csPendingPhoneNumber := ci_phoneNum i\<rparr>, acts) \<and>
    dials acts = [Ril (RilDial (ci_slotId i) (ci_phoneNum i) DEFAULT)]"
proof -
  from emergency_pre [OF num svc(1)] radio obtain pacts where
    p: "DialPreJudgment e i True = Some (TELEPHONY_SUCCESS, pacts)" "dials pacts = []" by auto
  have sw: "dials (snd (SwitchCallRequest_cs e k)) = []" for k by (simp add: SwitchCallRequest_cs_def ril_request_cases)
  from net emergency_digits(1,2) [OF num] show ?thesis
    by (auto simp: Dial_cs_def p DialGsm_def DialCdma_def emergency_not_mmi(1) [OF num] can
        EncapsulateDialCommon_cs_ok [OF svc] Let_def sw)
qed

definition emergency_request :: "CellularCallInfo \<Rightarrow> ImsCallInfo" where
  "emergency_request i = ImsCallInfo_zero
     \<lparr>ic_phoneNum := ci_phoneNum i, ic_slotId := ci_slotId i, ic_videoState := ci_videoState i, ic_isRTT := ci_isRTT i\<rparr>"

lemma emergency_over_ims:
  assumes num: "emergency_number e (ci_slotId i) (ci_phoneNum i)"
    and radio: "if e_basePower e then e_radioOnFlag e (ci_slotId i) else e_radioState e (ci_slotId i)"
    and svc: "e_service e" "e_imsClient e" and can: "CanCall (imsConnectionMap c)"
    and idle: "\<not> (\<exists>(k, x) \<in> set (imsConnectionMap c). r_state (callReportInfo x) = CALL_STATUS_ACTIVE \<and> \<not> isPendingHangup x)"
  shows "\<exists>acts. Dial_ims e i True c =
      Some (e_imsResult e (ImsDial (emergency_request i) DEFAULT), c\<lparr>imsPendingPhoneNumber := ci_phoneNum i\<rparr>,
        acts @ [Ims (ImsDial (emergency_request i) DEFAULT)]) \<and> (\<forall>q. Ims q \<notin> set acts) \<and> dials acts = []"
proof -
  from emergency_pre [OF num svc(1)] radio obtain pacts where
    p: "DialPreJudgment e i True = Some (TELEPHONY_SUCCESS, pacts)" "\<forall>q. Ims q \<notin> set pacts" "dials pacts = []" by auto
  note d = emergency_digits [OF num]
  have "hold_to_dial e (ci_slotId i) (ci_phoneNum i) DEFAULT (ci_videoState i) (imsConnectionMap c) = None"
    using idle by (simp add: hold_to_dial_None)
  then have "DialJudgment e (ci_slotId i) (ci_phoneNum i) DEFAULT (ci_videoState i) (ci_isRTT i) c =
      (e_imsResult e (ImsDial (emergency_request i) DEFAULT), c\<lparr>imsPendingPhoneNumber := ci_phoneNum i\<rparr>,
        [Ims (ImsDial (emergency_request i) DEFAULT)])"
    using can d by (simp add: DialJudgment_def EncapsulateDial_def emergency_request_def DialRequest_ims_fresh [OF svc(2)]
        ImsCallInfo_zero_def ImsDialInfoStruct_init_def Let_def)
  then show ?thesis
    using p by (simp add: Dial_ims_def d(3) emergency_not_mmi(1) [OF num] Let_def)
qed

text \<open>With an active call this one is held first, and the number is dialled once the hold has succeeded.\<close>

lemma emergency_held_ims:
  assumes num: "emergency_number e (ci_slotId i) (ci_phoneNum i)"
    and radio: "if e_basePower e then e_radioOnFlag e (ci_slotId i) else e_radioState e (ci_slotId i)"
    and svc: "e_service e" "e_imsClient e" "e_imsProxy e" and can: "CanCall (imsConnectionMap c)"
    and act: "\<exists>(k, x) \<in> set (imsConnectionMap c). r_state (callReportInfo x) = CALL_STATUS_ACTIVE \<and> \<not> isPendingHangup x"
    and none: "\<forall>(k, x) \<in> set (imsConnectionMap c). \<not> isNeedToDial x"
  shows "\<exists>acts c1 c2 d. Dial_ims e i True c =
      Some (e_imsResult e (ImsSwitchCall (ci_slotId i) (ci_videoState i) False), c1,
        acts @ [Ims (ImsSwitchCall (ci_slotId i) (ci_videoState i) False)]) \<and> dials acts = [] \<and>
    DialAfterHold e (ci_slotId i) c1 = (c2, [Ims (ImsDial d DEFAULT)]) \<and>
    ic_phoneNum d = ci_phoneNum i \<and> ic_slotId d = ci_slotId i \<and> ic_videoState d = ci_videoState i"
proof -
  from emergency_pre [OF num svc(1)] radio obtain pacts where
    p: "DialPreJudgment e i True = Some (TELEPHONY_SUCCESS, pacts)" "dials pacts = []" by auto
  note d = emergency_digits [OF num]
  from hold_to_dial_round [OF act can none svc(2,3), of "ci_slotId i" "ci_phoneNum i" DEFAULT "ci_videoState i" "ci_isRTT i"]
  obtain x :: CellularCallConnectionIMS and c1 c2 where
    r: "DialJudgment e (ci_slotId i) (ci_phoneNum i) DEFAULT (ci_videoState i) (ci_isRTT i) c =
      (e_imsResult e (ImsSwitchCall (ci_slotId i) (ci_videoState i) False), c1,
        [Ims (ImsSwitchCall (ci_slotId i) (ci_videoState i) False)])"
    "DialAfterHold e (ci_slotId i) c1 = (c2, snd (snd (DialRequest_ims e (ci_slotId i)
         ((holdToDialInfo x)\<lparr>dr_phoneNum := ci_phoneNum i, dr_clirMode := DEFAULT, di_videoState := ci_videoState i,
            di_bEmergencyCall := snd (IsEmergencyCall e (ci_slotId i) (ci_phoneNum i) False)\<rparr>)
         (CellularCallConnectionIMS_init e))))" by blast
  from r(2) have "DialAfterHold e (ci_slotId i) c1 = (c2, [Ims (ImsDial \<lparr>ic_phoneNum = ci_phoneNum i, ic_slotId = ci_slotId i,
      ic_videoState = ci_videoState i, ic_index = 0, ic_isRTT = di_isRTT (holdToDialInfo x)\<rparr> DEFAULT)])"
    using d(2,4) by (simp add: DialRequest_ims_fresh [OF svc(2)] Let_def)
  with r(1) p show ?thesis
    by (auto simp: Dial_ims_def d(3) emergency_not_mmi(1) [OF num] Let_def)
qed

definition over_ims :: "'x service_env_scheme \<Rightarrow> int \<Rightarrow> bool" where
  "over_ims e k \<longleftrightarrow> IsNeedIms e k \<or> (NeedCallImsService e \<and> e_preferImsForEmergency e k)"

lemma over_ims_client: "over_ims e k \<Longrightarrow> e_imsClient e"
  by (auto simp: over_ims_def IsNeedIms_def NeedCallImsService_def split: if_splits)

text \<open>The calls that an IMS control is in the middle of.\<close>

definition speaking :: "CellularCallService \<Rightarrow> int \<Rightarrow> bool" where
  "speaking s k \<longleftrightarrow> (\<exists>c. imsControlMap s k = Some c \<and>
     (\<exists>(j, x) \<in> set (imsConnectionMap c). r_state (callReportInfo x) = CALL_STATUS_ACTIVE \<and> \<not> isPendingHangup x))"

text \<open>C19: an emergency call goes out over the right network. In an existing slot, outside a handover, with the satellite
  mode off and the radio on, dialling an emergency number of the slot sends exactly one dial request and no other, for
  this number: to the modem, on a GSM network or on a CDMA one without an active call, unless IMS is registered and wanted, or there and preferred for
  emergencies, and then to the IMS service. An active IMS call is held first: then no dial request goes out yet, and the answer to
  the hold dials the number. No control has to exist before; with one, at most six calls are under way. Network registration, airplane
  mode and SIM state do not matter.\<close>

theorem emergency_dial_service:
  assumes slot: "IsValidSlotId e k" "ci_slotId i = k" "svc_srvccState s \<noteq> SRVCC_STARTED" "\<not> e_satelliteStatus e"
    and num: "emergency_number e k (ci_phoneNum i)"
    and radio: "if e_basePower e then isRadioOn s k else e_radioState e k" and handler: "handlerMap s k \<noteq> None"
    and net: "e_phoneType e k = PHONE_TYPE_IS_GSM \<or> e_phoneType e k = PHONE_TYPE_IS_CDMA \<and>
      (\<forall>c. csControlMap s k = Some c \<longrightarrow> \<not> IsInState (csConnectionMap c) CALL_STATUS_ACTIVE)"
    and cs: "\<forall>c. csControlMap s k = Some c \<longrightarrow> length (csConnectionMap c) \<le> 6"
    and ims: "\<forall>c. imsControlMap s k = Some c \<longrightarrow> length (imsConnectionMap c) \<le> 6 \<and>
      (\<forall>(j, x) \<in> set (imsConnectionMap c). \<not> isNeedToDial x)"
  shows "\<exists>r s' acts. Service_Dial e i s = Some (r, s', acts) \<and>
    (if \<not> over_ims e k then r = TELEPHONY_SUCCESS \<and> dials acts = [Ril (RilDial k (ci_phoneNum i) DEFAULT)]
     else if \<not> speaking s k then r = e_imsResult e (ImsDial (emergency_request i) DEFAULT) \<and>
       dials acts = [Ims (ImsDial (emergency_request i) DEFAULT)]
     else r = e_imsResult e (ImsSwitchCall k (ci_videoState i) False) \<and> dials acts = [] \<and>
       last acts = Ims (ImsSwitchCall k (ci_videoState i) False) \<and>
       (\<exists>c1 c2 d. imsControlMap s' k = Some c1 \<and>
          DialAfterHold (service_view e s) k c1 = (c2, [Ims (ImsDial d DEFAULT)]) \<and>
          ic_phoneNum d = ci_phoneNum i \<and> ic_slotId d = k \<and> ic_videoState d = ci_videoState i))"
proof -
  let ?v = "service_view e s"
  have ecc: "snd (IsEmergencyPhoneNumber e k (ci_phoneNum i) False)"
    using slot(1) emergency_not_mmi(2) [OF num, of False] by (simp add: IsEmergencyPhoneNumber_def)
  have dial: "Service_Dial e i s = DialNormalCall e i True s"
    using slot ecc by (simp add: Service_Dial_def Let_def)
  have num': "emergency_number ?v (ci_slotId i) (ci_phoneNum i)" using num slot(2) by simp
  have radio': "if e_basePower ?v then e_radioOnFlag ?v (ci_slotId i) else e_radioState ?v (ci_slotId i)"
    using radio slot(2) by simp
  show ?thesis
  proof (cases "over_ims e k")
    case False
    define c where "c = (case GetCsControl e k s of None \<Rightarrow> CSControl_init | Some c \<Rightarrow> c)"
    have c: "CanCall (csConnectionMap c)" "e_phoneType ?v (ci_slotId i) = PHONE_TYPE_IS_GSM \<or>
        e_phoneType ?v (ci_slotId i) = PHONE_TYPE_IS_CDMA \<and> \<not> IsInState (csConnectionMap c) CALL_STATUS_ACTIVE"
      using cs net slot(2)
      by (auto simp: c_def GetCsControl_def CanCall_def CSControl_init_def IsInState_def split: option.splits if_splits)
    from emergency_over_cs [OF num' radio' c(2) _ _ c(1)] handler slot(2) obtain acts where
      d: "Dial_cs ?v i True c = Some (TELEPHONY_SUCCESS, c\<lparr>csPendingPhoneNumber := ci_phoneNum i\<rparr>, acts)"
        "dials acts = [Ril (RilDial k (ci_phoneNum i) DEFAULT)]" by auto
    have "GetCsControl e k (ensure_control (GetCsControl e) (SetCsControl e) CSControl_init k s) = Some c"
      using cs_store.ensure_present [OF slot(1)] by (simp add: c_def)
    with d False slot(2) show ?thesis
      by (auto simp: dial DialNormalCall_def over_ims_def UseImsForEmergency_def dial_on_def Let_def)
  next
    case True
    define c where "c = (case GetImsControl e k s of None \<Rightarrow> IMSControl_init (e_emptyInfo e) | Some c \<Rightarrow> c)"
    have can: "CanCall (imsConnectionMap c)" "\<forall>(j, x) \<in> set (imsConnectionMap c). \<not> isNeedToDial x"
      using ims by (auto simp: c_def GetImsControl_def CanCall_def IMSControl_init_def split: option.splits if_splits)
    have sp: "speaking s k \<longleftrightarrow> (\<exists>(j, x) \<in> set (imsConnectionMap c). r_state (callReportInfo x) = CALL_STATUS_ACTIVE \<and> \<not> isPendingHangup x)"
      using slot(1) by (auto simp: speaking_def c_def GetImsControl_def IMSControl_init_def split: option.splits)
    have got: "GetImsControl e k (ensure_control (GetImsControl e) (SetImsControl e) (IMSControl_init (e_emptyInfo e)) k s) = Some c"
      using ims_store.ensure_present [OF slot(1)] by (simp add: c_def)
    have client: "e_imsClient ?v" "e_imsProxy ?v"
      using True by (auto simp: over_ims_def IsNeedIms_def NeedCallImsService_def split: if_splits)
    show ?thesis
    proof (cases "speaking s k")
      case False
      from emergency_over_ims [OF num' radio' _ client(1) can(1) False [unfolded sp]] obtain acts where
        d: "Dial_ims ?v i True c = Some (e_imsResult e (ImsDial (emergency_request i) DEFAULT),
          c\<lparr>imsPendingPhoneNumber := ci_phoneNum i\<rparr>, acts @ [Ims (ImsDial (emergency_request i) DEFAULT)])" "dials acts = []" by auto
      with got True False slot(2) show ?thesis
        by (simp add: dial DialNormalCall_def over_ims_def UseImsForEmergency_def dial_on_def Let_def)
    next
      case speak: True
      from emergency_held_ims [OF num' radio' _ client can(1) speak [unfolded sp] can(2)] slot(2) obtain acts c1 c2 d where
        d: "Dial_ims ?v i True c = Some (e_imsResult e (ImsSwitchCall k (ci_videoState i) False), c1,
            acts @ [Ims (ImsSwitchCall k (ci_videoState i) False)])" "dials acts = []"
          "DialAfterHold ?v k c1 = (c2, [Ims (ImsDial d DEFAULT)])"
          "ic_phoneNum d = ci_phoneNum i" "ic_slotId d = k" "ic_videoState d = ci_videoState i" by auto
      let ?s' = "SetImsControl e k (Some c1) (ensure_control (GetImsControl e) (SetImsControl e) (IMSControl_init (e_emptyInfo e)) k s)"
      have "Service_Dial e i s = Some (e_imsResult e (ImsSwitchCall k (ci_videoState i) False), ?s',
          acts @ [Ims (ImsSwitchCall k (ci_videoState i) False)])"
        using got True slot(2) d(1) by (simp add: dial DialNormalCall_def over_ims_def UseImsForEmergency_def dial_on_def Let_def)
      moreover have "imsControlMap ?s' k = Some c1" using slot(1) by (simp add: SetImsControl_def)
      ultimately show ?thesis using d(2-6) True speak by auto
    qed
  qed
qed

lemma sample_emergency [simp]: "emergency_number sample_service_env k ''112''"
  by (simp add: emergency_number_def IsEmergencyCall_def IsEmergencyCallProcessing_def builtin_ecc_def is_digit_def
      sample_service_env_def sample_handler_env_def sample_env_def
      dial_env.extend_def handler_env.fields_def handler_env.extend_def service_env.fields_def)

lemma sample_service_env_more [simp]:
  "\<not> e_basePower sample_service_env" "e_radioState sample_service_env k" "e_phoneType sample_service_env k = PHONE_TYPE_IS_GSM"
  "e_preferImsForEmergency sample_service_env k" "e_kMaxNumberLen sample_service_env = 100"
  by (simp_all add: sample_service_env_def sample_handler_env_def sample_env_def dial_env.extend_def handler_env.fields_def
      handler_env.extend_def service_env.fields_def)

text \<open>A number that only the modem has named, over CS, and a built-in one over IMS.\<close>

theorem emergency_dial_service_witness:
  "(\<exists>s' acts. Service_Dial (sample_service_env\<lparr>e_imsClient := False,
       e_eccList := \<lambda>_. [\<lparr>eccNum = ''113'', mcc = ''460'', eccType = 0, simpresent = 0, abnormalService = 0\<rparr>]\<rparr>)
       (sample_info\<lparr>ci_phoneNum := ''113''\<rparr>) sample_service = Some (TELEPHONY_SUCCESS, s', acts) \<and>
     dials acts = [Ril (RilDial 0 ''113'' DEFAULT)]) \<and>
  (\<exists>s' acts. Service_Dial sample_service_env (sample_info\<lparr>ci_phoneNum := ''112''\<rparr>) sample_service = Some (TELEPHONY_SUCCESS, s', acts) \<and>
     dials acts = [Ims (ImsDial (emergency_request (sample_info\<lparr>ci_phoneNum := ''112''\<rparr>)) DEFAULT)])"
proof (rule conjI)
  let ?e = "sample_service_env\<lparr>e_imsClient := False,
       e_eccList := \<lambda>_. [\<lparr>eccNum = ''113'', mcc = ''460'', eccType = 0, simpresent = 0, abnormalService = 0\<rparr>]\<rparr>"
  have o: "over_ims sample_service_env 0" "\<not> over_ims ?e 0"
    by (simp_all add: over_ims_def IsNeedIms_def NeedCallImsService_def)
  have n: "emergency_number ?e 0 ''113''" "IsValidSlotId ?e 0"
    using sample_emergency [of 0]
    by (simp_all add: emergency_number_def IsEmergencyCall_def IsEmergencyCallProcessing_def is_digit_def IsValidSlotId_iff
        valid_slots_def)
      (simp add: sample_service_env_def sample_handler_env_def sample_env_def
      dial_env.extend_def handler_env.fields_def handler_env.extend_def service_env.fields_def)
  have c: "\<forall>c. csControlMap sample_service 0 = Some c \<longrightarrow> length (csConnectionMap c) \<le> 6"
    "\<forall>c. imsControlMap sample_service 0 = Some c \<longrightarrow> length (imsConnectionMap c) \<le> 6 \<and>
      (\<forall>(j, x) \<in> set (imsConnectionMap c). \<not> isNeedToDial x)"
    by (simp_all add: sample_service_def sample_cs_ctl_def)
  have "\<not> speaking sample_service 0" by (simp add: speaking_def sample_service_def)
  note c = c this o
  from emergency_dial_service [OF n(2) _ _ _ _ _ _ _ c(1,2), of "sample_info\<lparr>ci_phoneNum := ''113''\<rparr>"] c(3-5) n
  show "\<exists>s' acts. Service_Dial ?e (sample_info\<lparr>ci_phoneNum := ''113''\<rparr>) sample_service = Some (TELEPHONY_SUCCESS, s', acts) \<and>
     dials acts = [Ril (RilDial 0 ''113'' DEFAULT)]"
    by (simp add: sample_info_def sample_service_def)
  from emergency_dial_service [OF _ _ _ _ _ _ _ _ c(1,2), of sample_service_env "sample_info\<lparr>ci_phoneNum := ''112''\<rparr>"] c(3-5)
  show "\<exists>s' acts. Service_Dial sample_service_env (sample_info\<lparr>ci_phoneNum := ''112''\<rparr>) sample_service = Some (TELEPHONY_SUCCESS, s', acts) \<and>
     dials acts = [Ims (ImsDial (emergency_request (sample_info\<lparr>ci_phoneNum := ''112''\<rparr>)) DEFAULT)]"
    by (simp add: sample_info_def sample_service_def)
qed

text \<open>C23: an emergency call that waits for the radio is dialled when the radio comes. On a device with the power feature and
  the radio off, an emergency dial over IMS is accepted without any request and only remembered. When the radio of the slot
  comes on, exactly one dial request for the remembered number goes to the IMS service, and the call is no
  longer pending.\<close>

theorem pending_emergency_dialled:
  assumes slot: "IsValidSlotId e k" "ci_slotId i = k" "svc_srvccState s \<noteq> SRVCC_STARTED" "\<not> e_satelliteStatus e"
    and num: "emergency_number e k (ci_phoneNum i)" "length (ci_phoneNum i) \<le> e_kMaxNumberLen e"
    and power: "e_basePower e" "\<not> isRadioOn s k" and ims: "over_ims e k" "imsControlMap s k = None"
    and ok: "\<And>q. e_imsResult e q = TELEPHONY_SUCCESS"
  shows "\<exists>s1 a1 s2 a2 c d. Service_Dial e i s = Some (TELEPHONY_SUCCESS, s1, a1) \<and> (\<forall>q. Ims q \<notin> set a1) \<and>
    RadioStateChangeProcess e k (Some True) s1 = Some (s2, a2 @ [Ims (ImsDial d DEFAULT)]) \<and> (\<forall>q. Ims q \<notin> set a2) \<and>
    ic_phoneNum d = ci_phoneNum i \<and> ic_slotId d = k \<and> ic_videoState d = ci_videoState i \<and>
    imsControlMap s2 k = Some c \<and> \<not> isPendingEmc c \<and> isRadioOn s2 k"
proof -
  let ?v = "service_view e s" and ?c0 = "IMSControl_init (e_emptyInfo e)"
  have ecc: "snd (IsEmergencyPhoneNumber e k (ci_phoneNum i) False)"
    using slot(1) emergency_not_mmi(2) [OF num(1), of False] by (simp add: IsEmergencyPhoneNumber_def)
  have num': "emergency_number ?v (ci_slotId i) (ci_phoneNum i)" using num(1) slot(2) by simp
  obtain p where p: "DialPreJudgment ?v i True = Some (CALL_ERR_GET_RADIO_STATE_FAILED, p)" "\<forall>q. Ims q \<notin> set p"
    using emergency_pre [OF num'] power slot(2) by auto
  obtain r1 c1 where c1: "SavePendingEmcCallInfo ?v i ?c0 = (r1, c1)" by (metis surj_pair)
  then have c1': "r1 = TELEPHONY_SUCCESS" "isPendingEmc c1" "imsConnectionMap c1 = []"
    "ci_slotId (pendingEmcDialCallInfo c1) = k" "ci_phoneNum (pendingEmcDialCallInfo c1) = ci_phoneNum i"
    "ci_videoState (pendingEmcDialCallInfo c1) = ci_videoState i"
    using slot(2) num(2) by (auto simp: SavePendingEmcCallInfo_def IMSControl_init_def)
  have "Dial_ims ?v i True ?c0 = Some (TELEPHONY_SUCCESS, c1, p)"
    using p(1) power c1 c1'(1) by (simp add: Dial_ims_def)
  moreover have "GetImsControl e k (ensure_control (GetImsControl e) (SetImsControl e) ?c0 k s) = Some ?c0"
    using ims_store.ensure_present [OF slot(1)] ims(2) by (simp add: GetImsControl_def)
  ultimately have d1: "Service_Dial e i s = Some (TELEPHONY_SUCCESS,
      SetImsControl e k (Some c1) (ensure_control (GetImsControl e) (SetImsControl e) ?c0 k s), p)"
    using slot ecc ims(1) by (simp add: Service_Dial_def DialNormalCall_def over_ims_def UseImsForEmergency_def dial_on_def Let_def)
  let ?s1 = "SetImsControl e k (Some c1) (ensure_control (GetImsControl e) (SetImsControl e) ?c0 k s)"
  let ?s2 = "setRadioOnFlag True k ?s1" and ?c2 = "SkipWaitForRadioOn c1"
  let ?i = "pendingEmcDialCallInfo ?c2"
  have c2: "isPendingEmc ?c2" "imsConnectionMap ?c2 = []" "ci_slotId ?i = k" "ci_phoneNum ?i = ci_phoneNum i"
    "ci_videoState ?i = ci_videoState i"
    using c1' by (simp_all add: SkipWaitForRadioOn_def)
  have get: "GetImsControl e k ?s2 = Some c1"
    using slot(1) by (simp add: GetImsControl_def SetImsControl_def setRadioOnFlag_def)
  have num2: "emergency_number (service_view e ?s2) (ci_slotId ?i) (ci_phoneNum ?i)" using num(1) c2 by simp
  have radio2: "if e_basePower (service_view e ?s2) then e_radioOnFlag (service_view e ?s2) (ci_slotId ?i)
      else e_radioState (service_view e ?s2) (ci_slotId ?i)"
    using power c2 by (simp add: setRadioOnFlag_def)
  from emergency_over_ims [OF num2 radio2, of ?c2] c2 over_ims_client [OF ims(1)] ok obtain acts where
    d2: "Dial_ims (service_view e ?s2) ?i True ?c2 = Some (TELEPHONY_SUCCESS,
        ?c2\<lparr>imsPendingPhoneNumber := ci_phoneNum i\<rparr>, acts @ [Ims (ImsDial (emergency_request ?i) DEFAULT)])"
      "\<forall>q. Ims q \<notin> set acts" by (auto simp: CanCall_def)
  let ?s3 = "SetImsControl e k (Some (?c2\<lparr>imsPendingPhoneNumber := ci_phoneNum i, isPendingEmc := False\<rparr>)) ?s2"
  have "RadioStateChangeProcess e k (Some True) ?s1 =
      Some (?s3, (GetImsSwitchStatusRequest e k @ acts) @ [Ims (ImsDial (emergency_request ?i) DEFAULT)])"
    using power get c2(1) d2(1) by (simp add: RadioStateChangeProcess_def Let_def)
  moreover have "\<forall>q. Ims q \<notin> set (GetImsSwitchStatusRequest e k @ acts)"
    using d2(2) by (simp add: GetImsSwitchStatusRequest_def)
  moreover have "imsControlMap ?s3 k = Some (?c2\<lparr>imsPendingPhoneNumber := ci_phoneNum i, isPendingEmc := False\<rparr>)"
    "isRadioOn ?s3 k" using slot(1) by (simp_all add: SetImsControl_def setRadioOnFlag_def)
  moreover have "ic_phoneNum (emergency_request ?i) = ci_phoneNum i" "ic_slotId (emergency_request ?i) = k"
    "ic_videoState (emergency_request ?i) = ci_videoState i"
    using c2 by (simp_all add: emergency_request_def)
  ultimately show ?thesis using d1 p(2) by (intro exI conjI) (assumption | simp)+
qed

theorem pending_emergency_dialled_witness:
  "\<exists>s1 a1 s2 a2 d. Service_Dial (sample_service_env\<lparr>e_basePower := True\<rparr>) (sample_info\<lparr>ci_phoneNum := ''112''\<rparr>)
      (sample_service\<lparr>isRadioOn := \<lambda>_. False\<rparr>) = Some (TELEPHONY_SUCCESS, s1, a1) \<and>
    RadioStateChangeProcess (sample_service_env\<lparr>e_basePower := True\<rparr>) 0 (Some True) s1 = Some (s2, a2 @ [Ims (ImsDial d DEFAULT)]) \<and>
    ic_phoneNum d = ''112''"
proof -
  let ?e = "sample_service_env\<lparr>e_basePower := True\<rparr>"
  have o: "over_ims ?e 0" "emergency_number ?e 0 ''112''" "IsValidSlotId ?e 0"
    using sample_emergency [of 0]
    by (simp_all add: over_ims_def NeedCallImsService_def emergency_number_def IsValidSlotId_iff valid_slots_def)
  from pending_emergency_dialled [OF o(3) _ _ _ _ _ _ _ o(1), of "sample_info\<lparr>ci_phoneNum := ''112''\<rparr>"
      "sample_service\<lparr>isRadioOn := \<lambda>_. False\<rparr>"] o(2) show ?thesis
    by (simp add: sample_info_def sample_service_def) blast
qed

section \<open>The life of a call\<close>

lemma Dial_cs_ignored: "Dial_cs e i ecc c = Some (r, c', acts) \<Longrightarrow> isIgnoredIncomingCall c' = isIgnoredIncomingCall c"
  by (auto simp: Dial_cs_def DialGsm_def DialCdma_def EncapsulateDialCommon_cs_def Let_def case_prod_beta
      split: option.splits if_splits)

text \<open>A CS control with exactly one call, and what the three later stages of its life do with it.\<close>

definition one_call :: "int \<Rightarrow> CellularCallConnectionCS \<Rightarrow> CSControl \<Rightarrow> bool" where
  "one_call j x c \<longleftrightarrow> csConnectionMap c = [(j, x)] \<and> index x = j \<and> \<not> isIgnoredIncomingCall c"

lemma first_report:
  assumes "csConnectionMap c = []" "\<not> isIgnoredIncomingCall c" "calls l = [call]" "callSize l = 1" "e_register e"
    and "e_cbRegistered e"
  shows "\<exists>c' x. ReportCsCallsData e k l q c = (TELEPHONY_SUCCESS, c',
      [ReportCallsInfo \<lparr>callVec = [EncapsulationCallReportInfo_cs e k call], cr_slotId = k\<rparr>]) \<and>
    one_call (c_index call) x c' \<and> callReportInfo x = EncapsulationCallReportInfo_cs e k call"
  using assms
  by (simp add: ReportCsCallsData_def ReportIncomingInfo_cs_def incoming_call_cs_def SetConnectionData_def one_call_def Let_def)

lemma hang_up_one:
  assumes "one_call j x c" "ci_index i = j" "ci_slotId i = k" "e_register e" "e_service e" "e_handler e k"
  shows "\<exists>c'. HangUp_cs e i TYPE_DEFAULT c = (TELEPHONY_SUCCESS, c',
      [ReportSingleCallInfo (callReportInfo x) CALL_STATUS_DISCONNECTING, Ril (RilHangup k j)]) \<and>
    one_call j (x\<lparr>csDisconnectReason := DISCONNECTED_REASON_USER_TERMINATED\<rparr>) c'"
  using assms
  by (simp add: one_call_def HangUp_cs_def HangUpRequest_cs_def report_single_def ril_request_cases Let_def case_prod_beta)

lemma last_report:
  assumes "one_call j x c" "csDisconnectReason x = DISCONNECTED_REASON_USER_TERMINATED" "callSize l = 0" "e_register e"
  shows "\<exists>c'. ReportCsCallsData e k l True c = (TELEPHONY_SUCCESS, c',
      [ReportCallsInfo \<lparr>callVec = [(callReportInfo x)\<lparr>r_state := CALL_STATUS_DISCONNECTED, r_accountId := k,
         r_reason := DISCONNECTED_REASON_USER_TERMINATED\<rparr>], cr_slotId = k\<rparr>]) \<and> \<not> HasEndCallWithoutReason_cs l c'"
  using assms
  by (simp add: one_call_def ReportCsCallsData_def ReportHangUpInfo_cs_def HasEndCallWithoutReason_cs_def
      ended_without_reason_cs_def Let_def)

lemma handler_of_simps [simp]:
  "csControl (handler_of k s h) = csControlMap s k" "imsControl (handler_of k s h) = imsControlMap s k"
  "slotId (handler_of k s h) = k" "isDuringRSRVCC (handler_of k s h) = isDuringRSRVCC h"
  by (simp_all add: handler_of_def)

text \<open>The list of the modem reaches the control of its slot, unless a reverse handover is under way or no
  IMS control needs to hear of it.\<close>

lemma run_cs_list:
  assumes "IsValidSlotId e k" "handlerMap s k = Some h" "\<not> isDuringRSRVCC h" "csControlMap s k = Some c" "imsControlMap s k = None"
    and "ReportCsCallsData (service_view e s) k l True c = (r, c', acts)"
  shows "\<exists>s'. run_event e k (CsCallList l) s = (s', acts) \<and> imsControlMap s' k = None \<and>
    (\<exists>h'. handlerMap s' k = Some h' \<and> \<not> isDuringRSRVCC h') \<and>
    svc_srvccState s' = serviceSrvccState (handler_of k s h) \<and>
    csControlMap s' k = (if callSize l = 0 \<and> \<not> HasEndCallWithoutReason_cs l c' then None else Some c')"
proof (cases "callSize l = 0")
  case True
  then show ?thesis
    using assms by (simp add: run_event_def on_handler_def Handler_ReportCsCallsData_def ReportNoCsCallsData_def put_handler_def Let_def handler_of_def)
next
  case False
  have "csControlMap s k \<noteq> None" using assms(4) by simp
  with False show ?thesis
    using assms by (auto simp: run_event_def on_handler_def Handler_ReportCsCallsData_def put_handler_def Let_def handler_of_def)
qed

text \<open>C18: the life of a call. A call dialled over CS in an idle slot and accepted by the modem; the modem lists it, and it is
  reported; the call manager hangs it up, and it is reported as disconnecting and requested by its index; the modem
  lists no call, and it is reported once more, as disconnected by the user, and nothing of it is left: the slot has no CS control.\<close>

theorem life_of_a_call:
  assumes slot: "IsValidSlotId e k" "ci_slotId i = k" "svc_srvccState s = SRVCC_NONE" "\<not> e_satelliteStatus e"
    and idle: "csControlMap s k = None" "imsControlMap s k = None" "handlerMap s k = Some h" "\<not> isDuringRSRVCC h"
    and reg: "e_register e" "e_cbRegistered e"
    and dial: "\<not> IsNeedIms e k" "\<not> UseImsForEmergency e i (snd (IsEmergencyPhoneNumber e k (ci_phoneNum i) False))"
      "Service_Dial e i s = Some (r, s1, a1)"
    and list: "calls l = [call]" "callSize l = 1" and none: "callSize l0 = 0"
    and j: "ci_index i' = c_index call" "ci_slotId i' = k" "ci_callType i' = TYPE_CS"
  shows "\<exists>s2 s3 s4 rep. run_event e k (CsCallList l) s1 = (s2, [ReportCallsInfo \<lparr>callVec = [rep], cr_slotId = k\<rparr>]) \<and>
    rep = EncapsulationCallReportInfo_cs e k call \<and>
    Service_HangUp e i' TYPE_DEFAULT s2 = (TELEPHONY_SUCCESS, s3,
      [ReportSingleCallInfo rep CALL_STATUS_DISCONNECTING, Ril (RilHangup k (c_index call))]) \<and>
    run_event e k (CsCallList l0) s3 = (s4, [ReportCallsInfo \<lparr>callVec = [rep\<lparr>r_state := CALL_STATUS_DISCONNECTED,
      r_accountId := k, r_reason := DISCONNECTED_REASON_USER_TERMINATED\<rparr>], cr_slotId = k\<rparr>]) \<and>
    csControlMap s4 k = None"
proof -
  let ?s0 = "ensure_control (GetCsControl e) (SetCsControl e) CSControl_init k s"
  let ?ecc = "snd (IsEmergencyPhoneNumber e k (ci_phoneNum i) False)"
  have get0: "GetCsControl e k ?s0 = Some CSControl_init"
    using cs_store.ensure_present [OF slot(1)] idle(1) by (simp add: GetCsControl_def)
  have d: "Service_Dial e i s = dial_on (GetCsControl e) (SetCsControl e) k (Dial_cs (service_view e s) i ?ecc) ?s0"
    using slot dial(1,2) by (simp add: Service_Dial_def DialNormalCall_def Let_def)
  from dial(3) [unfolded d, THEN dial_on_cases] get0 obtain c1 where
    c1: "Dial_cs (service_view e s) i ?ecc CSControl_init = Some (r, c1, a1)" "s1 = SetCsControl e k (Some c1) ?s0" by auto
  have c1': "csConnectionMap c1 = []" "\<not> isIgnoredIncomingCall c1"
    using Dial_cs_map [OF c1(1)] Dial_cs_ignored [OF c1(1)] by (simp_all add: CSControl_init_def)
  have s1: "csControlMap s1 k = Some c1" "imsControlMap s1 k = None" "handlerMap s1 k = Some h" "svc_srvccState s1 = SRVCC_NONE"
    using slot(1,3) idle by (simp_all add: c1(2) SetCsControl_def ensure_control_def GetCsControl_def)
  let ?rep = "EncapsulationCallReportInfo_cs e k call"
  have view: "EncapsulationCallReportInfo_cs (service_view e t) k call = ?rep" for t
    by (simp add: EncapsulationCallReportInfo_cs_def Let_def)
  from first_report [OF c1' list, of "service_view e s1" k True] reg view obtain c2 x where
    c2: "ReportCsCallsData (service_view e s1) k l True c1 = (TELEPHONY_SUCCESS, c2, [ReportCallsInfo \<lparr>callVec = [?rep], cr_slotId = k\<rparr>])"
      "one_call (c_index call) x c2" "callReportInfo x = ?rep" by auto
  from run_cs_list [OF slot(1) s1(3) idle(4) s1(1,2) c2(1)] list(2) s1(4) obtain s2 h2 where
    s2: "run_event e k (CsCallList l) s1 = (s2, [ReportCallsInfo \<lparr>callVec = [?rep], cr_slotId = k\<rparr>])"
      "imsControlMap s2 k = None" "handlerMap s2 k = Some h2" "\<not> isDuringRSRVCC h2" "csControlMap s2 k = Some c2"
      "svc_srvccState s2 = SRVCC_NONE" by (auto simp: handler_of_def)
  from hang_up_one [OF c2(2) j(1,2), of "service_view e s2"] s2(3) reg(1) c2(3) obtain c3 where
    c3: "HangUp_cs (service_view e s2) i' TYPE_DEFAULT c2 = (TELEPHONY_SUCCESS, c3,
        [ReportSingleCallInfo ?rep CALL_STATUS_DISCONNECTING, Ril (RilHangup k (c_index call))])"
      "one_call (c_index call) (x\<lparr>csDisconnectReason := DISCONNECTED_REASON_USER_TERMINATED\<rparr>) c3" by auto
  let ?s3 = "SetCsControl e k (Some c3) s2"
  have h: "Service_HangUp e i' TYPE_DEFAULT s2 = (TELEPHONY_SUCCESS, ?s3,
      [ReportSingleCallInfo ?rep CALL_STATUS_DISCONNECTING, Ril (RilHangup k (c_index call))])"
    using slot(1) s2(5,6) j(2,3) c3(1)
    by (simp add: Service_HangUp_def slot_guard_def srvcc_guard_def by_type_def on_control_def GetCsControl_def Let_def)
  have s3: "csControlMap ?s3 k = Some c3" "imsControlMap ?s3 k = None" "handlerMap ?s3 k = Some h2"
    using slot(1) s2 by (simp_all add: SetCsControl_def)
  from last_report [OF c3(2) _ none, of "service_view e ?s3" k] reg(1) c2(3) obtain c4 where
    c4: "ReportCsCallsData (service_view e ?s3) k l0 True c3 = (TELEPHONY_SUCCESS, c4,
        [ReportCallsInfo \<lparr>callVec = [?rep\<lparr>r_state := CALL_STATUS_DISCONNECTED, r_accountId := k,
           r_reason := DISCONNECTED_REASON_USER_TERMINATED\<rparr>], cr_slotId = k\<rparr>])" "\<not> HasEndCallWithoutReason_cs l0 c4" by auto
  from run_cs_list [OF slot(1) s3(3) s2(4) s3(1,2) c4(1)] none c4(2) show ?thesis using s2(1) h by auto
qed

theorem life_of_a_call_witness:
  "\<exists>r s1 a1 s2 s3 s4 rep. Service_Dial (sample_service_env\<lparr>e_imsProxy := False\<rparr>) sample_info
      (sample_service\<lparr>csControlMap := Map.empty\<rparr>) = Some (r, s1, a1) \<and>
    run_event (sample_service_env\<lparr>e_imsProxy := False\<rparr>) 0 (CsCallList \<lparr>callSize = 1, calls = [sample_call 5 CALL_STATUS_DIALING]\<rparr>) s1 =
      (s2, [ReportCallsInfo \<lparr>callVec = [rep], cr_slotId = 0\<rparr>]) \<and>
    Service_HangUp (sample_service_env\<lparr>e_imsProxy := False\<rparr>) (sample_info\<lparr>ci_index := 5\<rparr>) TYPE_DEFAULT s2 =
      (TELEPHONY_SUCCESS, s3, [ReportSingleCallInfo rep CALL_STATUS_DISCONNECTING, Ril (RilHangup 0 5)]) \<and>
    run_event (sample_service_env\<lparr>e_imsProxy := False\<rparr>) 0 (CsCallList \<lparr>callSize = 0, calls = []\<rparr>) s3 =
      (s4, [ReportCallsInfo \<lparr>callVec = [rep\<lparr>r_state := CALL_STATUS_DISCONNECTED, r_accountId := 0,
         r_reason := DISCONNECTED_REASON_USER_TERMINATED\<rparr>], cr_slotId = 0\<rparr>]) \<and> csControlMap s4 0 = None"
proof -
  let ?e = "sample_service_env\<lparr>e_imsProxy := False\<rparr>" and ?s = "sample_service\<lparr>csControlMap := Map.empty\<rparr>"
  have v: "IsValidSlotId ?e 0" "ci_slotId sample_info = 0" "svc_srvccState ?s = SRVCC_NONE" "\<not> e_satelliteStatus ?e"
    "csControlMap ?s 0 = None" "imsControlMap ?s 0 = None" "handlerMap ?s 0 = Some sample_handler" "\<not> isDuringRSRVCC sample_handler"
    "e_register ?e" "e_cbRegistered ?e" "\<not> IsNeedIms ?e 0"
    by (simp_all add: IsValidSlotId_iff valid_slots_def sample_info_def sample_service_def sample_handler_def IsNeedIms_def)
  have u: "\<not> UseImsForEmergency ?e sample_info b" for b by (simp add: UseImsForEmergency_def NeedCallImsService_def)
  let ?b = "snd (IsEmergencyPhoneNumber ?e 0 (ci_phoneNum sample_info) False)"
  have "e_readyToCall (service_view ?e ?s) (ci_slotId sample_info)"
    by (simp add: sample_service_env_def sample_handler_env_def sample_env_def dial_env.extend_def handler_env.fields_def
        handler_env.extend_def service_env.fields_def)
  then obtain y where "HandleEcc (service_view ?e ?s) sample_info ?b (CheckAirplaneModeScene (service_view ?e ?s))
      (CheckActivateSimScene (service_view ?e ?s) (ci_slotId sample_info)) = Some y"
    using HandleEcc_returns [of "service_view ?e ?s" sample_info] by blast
  then have "DialPreJudgment (service_view ?e ?s) sample_info ?b \<noteq> None"
    by (simp add: DialPreJudgment_def case_prod_beta)
  then have "Dial_cs (service_view ?e ?s) sample_info ?b CSControl_init \<noteq> None"
    by (auto simp: Dial_cs_def case_prod_beta)
  moreover have "Service_Dial ?e sample_info ?s = dial_on (GetCsControl ?e) (SetCsControl ?e) 0
      (Dial_cs (service_view ?e ?s) sample_info ?b) (ensure_control (GetCsControl ?e) (SetCsControl ?e) CSControl_init 0 ?s)"
    using v u by (simp add: Service_Dial_def DialNormalCall_def Let_def)
  moreover have "GetCsControl ?e 0 (ensure_control (GetCsControl ?e) (SetCsControl ?e) CSControl_init 0 ?s) = Some CSControl_init"
    using cs_store.ensure_present [OF v(1)] v(5) by (simp add: GetCsControl_def)
  ultimately obtain r s1 a1 where d: "Service_Dial ?e sample_info ?s = Some (r, s1, a1)"
    by (auto simp: dial_on_def)
  have "calls \<lparr>callSize = 1, calls = [sample_call 5 CALL_STATUS_DIALING]\<rparr> = [sample_call 5 CALL_STATUS_DIALING]"
    "callSize \<lparr>callSize = 1, calls = [sample_call 5 CALL_STATUS_DIALING]\<rparr> = 1" "callSize \<lparr>callSize = 0, calls = []\<rparr> = 0"
    "ci_index (sample_info\<lparr>ci_index := 5\<rparr>) = c_index (sample_call 5 CALL_STATUS_DIALING)"
    "ci_slotId (sample_info\<lparr>ci_index := 5\<rparr>) = 0" "ci_callType (sample_info\<lparr>ci_index := 5\<rparr>) = TYPE_CS"
    by (simp_all add: sample_info_def sample_call_def)
  from life_of_a_call [OF v(1-10) v(11) u d this] d show ?thesis by (auto simp: sample_call_def)
qed

section \<open>Hanging up everything\<close>

text \<open>Hanging up everything. When no emergency call waits for the radio, \<^verbatim>\<open>HangUpAllConnection\<close> does the same as
  the reaction to the call manager's death; every slot with a CS control and a handler gets the modem's hang-up of all
  its calls, every IMS connection that the service can name is rejected by its number and index, and satellite calls are never
  hung up.\<close>

theorem hang_up_everything:
  assumes "\<forall>k c. GetImsControl e k s = Some c \<longrightarrow> \<not> (e_basePower e \<and> isPendingEmc c)"
  shows "\<exists>acts. Service_HangUpAllConnection e s = (TELEPHONY_SUCCESS, acts) \<and> acts = HandleCallManagerException e s \<and>
    (\<forall>k c. GetCsControl e k s = Some c \<and> handlerMap s k \<noteq> None \<longrightarrow> Ril (RilReject k) \<in> set acts) \<and>
    (\<forall>k c j x. GetImsControl e k s = Some c \<and> (j, x) \<in> set (imsConnectionMap c) \<and> NeedCallImsService e \<and>
       int (length (number x) + 1) \<le> kMaxNumberLength \<longrightarrow>
       Ims (ImsReject (ImsCallInfo_zero\<lparr>ic_phoneNum := c_str (number x), ic_slotId := k, ic_index := index x\<rparr>)) \<in> set acts) \<and>
    (\<forall>q. Sat q \<notin> set acts)"
proof -
  let ?all = "\<lambda>k. cs_hang_up_all e s k @ ims_hang_up_all e s k"
  have "hang_up_slots e s ks = concat (map ?all ks)" for ks
    using assms by (induction ks) (auto simp: ims_hang_up_all_def split: option.splits)
  then have eq: "snd (Service_HangUpAllConnection e s) = HandleCallManagerException e s"
    by (simp add: Service_HangUpAllConnection_def HandleCallManagerException_def)
  have slots: "k \<in> set (GetSlotInfo e)" if "IsValidSlotId e k" for k
    using that by (simp add: IsValidSlotId_iff set_GetSlotInfo)
  have view: "NeedCallImsService (service_view e s) = NeedCallImsService e" by (simp add: NeedCallImsService_def)
  have cs: "Ril (RilReject k) \<in> set (HandleCallManagerException e s)"
    if "GetCsControl e k s = Some c" "handlerMap s k \<noteq> None" for k c
  proof -
    have "Ril (RilReject k) \<in> set (cs_hang_up_all e s k)"
      using that by (simp add: cs_hang_up_all_def HangUpAllConnection_cs_def RejectRequest_cs_def ril_request_cases)
    then show ?thesis
      using that(1) slots [of k] by (auto simp: HandleCallManagerException_def GetCsControl_def split: if_splits)
  qed
  have ims: "Ims (ImsReject (ImsCallInfo_zero\<lparr>ic_phoneNum := c_str (number x), ic_slotId := k, ic_index := index x\<rparr>)) \<in>
      set (HandleCallManagerException e s)"
    if c: "GetImsControl e k s = Some c" "(j, x) \<in> set (imsConnectionMap c)" "NeedCallImsService e"
      "int (length (number x) + 1) \<le> kMaxNumberLength" for k c j x
  proof -
    have "Ims (ImsReject (ImsCallInfo_zero\<lparr>ic_phoneNum := c_str (number x), ic_slotId := k, ic_index := index x\<rparr>)) \<in>
        set (snd (RejectRequest_ims (service_view e s) k (number x) (index x)))"
      using c(3,4) by (auto simp: RejectRequest_ims_def view ims_client_def NeedCallImsService_def split: if_splits)
    then have "Ims (ImsReject (ImsCallInfo_zero\<lparr>ic_phoneNum := c_str (number x), ic_slotId := k, ic_index := index x\<rparr>)) \<in>
        set (ims_hang_up_all e s k)"
      using c(1,2) by (force simp: ims_hang_up_all_def HangUpAllConnection_ims_def)
    then show ?thesis
      using c(1) slots [of k] by (auto simp: HandleCallManagerException_def GetImsControl_def split: if_splits)
  qed
  have "Sat q \<notin> set (HandleCallManagerException e s)" for q
    by (auto simp: HandleCallManagerException_def cs_hang_up_all_def ims_hang_up_all_def HangUpAllConnection_cs_def
        HangUpAllConnection_ims_def RejectRequest_cs_def RejectRequest_ims_def ril_request_cases ims_client_def
        split: option.splits if_splits)
  with eq cs ims show ?thesis by (auto simp: Service_HangUpAllConnection_def)
qed

theorem hang_up_everything_witness:
  "\<exists>acts. Service_HangUpAllConnection sample_service_env (sample_service\<lparr>imsControlMap := [1 \<mapsto> sample_ims_ctl]\<rparr>) =
      (TELEPHONY_SUCCESS, acts) \<and> Ril (RilReject 0) \<in> set acts"
proof -
  let ?s = "sample_service\<lparr>imsControlMap := [1 \<mapsto> sample_ims_ctl]\<rparr>"
  have "\<forall>k c. GetImsControl sample_service_env k ?s = Some c \<longrightarrow> \<not> (e_basePower sample_service_env \<and> isPendingEmc c)" by simp
  from hang_up_everything [OF this] obtain acts where
    a: "Service_HangUpAllConnection sample_service_env ?s = (TELEPHONY_SUCCESS, acts)"
      "\<forall>k c. GetCsControl sample_service_env k ?s = Some c \<and> handlerMap ?s k \<noteq> None \<longrightarrow> Ril (RilReject k) \<in> set acts" by blast
  have "GetCsControl sample_service_env 0 ?s = Some sample_cs_ctl" "handlerMap ?s 0 \<noteq> None"
    by (simp_all add: GetCsControl_def sample_service_def)
  with a show ?thesis by blast
qed

section \<open>The memory of call transfer settings\<close>

definition remembered_transfer :: "CallTransferInfo \<Rightarrow> bool" where
  "remembered_transfer info \<longleftrightarrow>
     cf_settingType info \<in> {CALL_TRANSFER_DISABLE, CALL_TRANSFER_ENABLE, CALL_TRANSFER_REGISTRATION}"

lemma set_transfer_result:
  assumes slot: "IsValidSlotId e k" "handlerMap s k = Some h" and kind: "remembered_transfer info"
    and run: "Service_SetCallTransferInfo e se k info s = (r, s1, a1)"
  shows "\<exists>h'. run_setting (ss_view se (s\<lparr>callForwarding := (k, cf_settingType info \<noteq> CALL_TRANSFER_DISABLE, cf_transferNum info)\<rparr>))
      (SetTransfer info) k h = (r, h', a1) \<and>
    s1 = s\<lparr>callForwarding := (k, cf_settingType info \<noteq> CALL_TRANSFER_DISABLE, cf_transferNum info),
           handlerMap := (handlerMap s)(k \<mapsto> h')\<rparr>"
proof -
  let ?s = "s\<lparr>callForwarding := (k, cf_settingType info \<noteq> CALL_TRANSFER_DISABLE, cf_transferNum info)\<rparr>"
  have "Service_SetCallTransferInfo e se k info s = on_table k (SetCallTransferInfo (ss_view se ?s) k info) ?s"
    using slot(1) kind by (auto simp: Service_SetCallTransferInfo_def slot_guard_def remembered_transfer_def Let_def)
  with run slot(2) show ?thesis by (cases "SetCallTransferInfo (ss_view se ?s) k info h") (auto simp: on_table_def)
qed

lemma transfer_answer_result:
  assumes inv: "command_inv h" "RequestSsRequestCommandIndex h = (i, h1)" "map_of (utCommandMap h) i = None"
    and saved: "handlerMap s k = Some (SaveSsRequestCommand cmd i h1)" "ss_flag cmd = SS_FROM_SETTING_MENU"
    and ans: "sb_index r = i" "sb_result r = TELEPHONY_SUCCESS" and env: "e_register se" "e_hiSysEvent se"
    and info: "callForwarding s = (slot, enable, num)"
  shows "\<exists>s2 rest. transfer_answer se k r s = (s2, SetVoiceCallForwarding slot enable num # rest @ [ReportSetTransferResult TELEPHONY_SUCCESS])"
proof -
  have "e_forwardingInfo (ss_view se s) = (slot, enable, num)" "e_hiSysEvent (ss_view se s)" "e_register (ss_view se s)"
    using env info by (simp_all add: ss_view_def)
  then show ?thesis
    using saved ans by (auto simp: transfer_answer_def SetCallTransferInfoResponse_def serve_action [OF inv]
        EventSetCallTransferInfo_def ril_result_def SS_FROM_SETTING_MENU_def SS_FROM_MMI_CODE_def case_prod_beta Let_def)
qed

text \<open>What is remembered of a call transfer. A call transfer that the settings menu enables, registers or disables is
  confirmed with its own slot, state and number when its answer comes before the next setting. But the memory is
  one for all slots: when another slot is set in between, accepted or not, the answer for the first slot stores the
  state and number of the other one, for the other one's slot.\<close>

theorem transfer_memory:
  assumes slot: "IsValidSlotId e k" "handlerMap s k = Some h" and kind: "remembered_transfer info"
    and inv: "command_inv h" "RequestSsRequestCommandIndex h = (i, h1)" "map_of (utCommandMap h) i = None"
    and run: "Service_SetCallTransferInfo e se k info s = (TELEPHONY_SUCCESS, s1, a1)"
    and ans: "sb_index r = i" "sb_result r = TELEPHONY_SUCCESS" and env: "e_register se" "e_hiSysEvent se"
    and other: "j \<noteq> k" "IsValidSlotId e j" "handlerMap s j \<noteq> None" "remembered_transfer info'"
      "Service_SetCallTransferInfo e se j info' s1 = (ret', s2, a2)"
  shows "(\<exists>s' rest. transfer_answer se k r s1 = (s', SetVoiceCallForwarding k (cf_settingType info \<noteq> CALL_TRANSFER_DISABLE)
      (cf_transferNum info) # rest @ [ReportSetTransferResult TELEPHONY_SUCCESS])) \<and>
    (\<exists>s' rest. transfer_answer se k r s2 = (s', SetVoiceCallForwarding j (cf_settingType info' \<noteq> CALL_TRANSFER_DISABLE)
      (cf_transferNum info') # rest @ [ReportSetTransferResult TELEPHONY_SUCCESS]))"
proof -
  from set_transfer_result [OF slot kind run] obtain h' where
    h': "run_setting (ss_view se (s\<lparr>callForwarding := (k, cf_settingType info \<noteq> CALL_TRANSFER_DISABLE, cf_transferNum info)\<rparr>))
      (SetTransfer info) k h = (TELEPHONY_SUCCESS, h', a1)"
    and s1: "s1 = s\<lparr>callForwarding := (k, cf_settingType info \<noteq> CALL_TRANSFER_DISABLE, cf_transferNum info),
           handlerMap := (handlerMap s)(k \<mapsto> h')\<rparr>" by blast
  from setting_saved [OF h' inv(2)] obtain cmd where
    cmd: "h' = SaveSsRequestCommand cmd i h1" "ss_flag cmd = SS_FROM_SETTING_MENU" by (auto simp: saved_iff_accepted_def)
  have 1: "handlerMap s1 k = Some (SaveSsRequestCommand cmd i h1)"
    "callForwarding s1 = (k, cf_settingType info \<noteq> CALL_TRANSFER_DISABLE, cf_transferNum info)"
    by (simp_all add: s1 cmd(1))
  obtain hj where "handlerMap s1 j = Some hj" using other(1,3) s1 by auto
  from set_transfer_result [OF other(2) this other(4,5)] obtain hj' where
    s2: "s2 = s1\<lparr>callForwarding := (j, cf_settingType info' \<noteq> CALL_TRANSFER_DISABLE, cf_transferNum info'),
           handlerMap := (handlerMap s1)(j \<mapsto> hj')\<rparr>" by blast
  have 2: "handlerMap s2 k = Some (SaveSsRequestCommand cmd i h1)"
    "callForwarding s2 = (j, cf_settingType info' \<noteq> CALL_TRANSFER_DISABLE, cf_transferNum info')"
    using 1 other(1) by (simp_all add: s2)
  show ?thesis
    using transfer_answer_result [OF inv 1(1) cmd(2) ans env 1(2)] transfer_answer_result [OF inv 2(1) cmd(2) ans env 2(2)] by blast
qed

theorem transfer_memory_witness:
  "\<exists>s1 a1 s' rest. Service_SetCallTransferInfo sample_service_env (sample_ss_env True) 0
      \<lparr>cf_transferNum = ''10086'', cf_settingType = CALL_TRANSFER_REGISTRATION, cf_type = TRANSFER_TYPE_UNCONDITIONAL,
       cf_startHour = 0, cf_startMinute = 0, cf_endHour = 0, cf_endMinute = 0\<rparr> sample_service = (TELEPHONY_SUCCESS, s1, a1) \<and>
    transfer_answer (sample_ss_env True) 0 \<lparr>sb_index = 1, sb_result = TELEPHONY_SUCCESS, sb_reason = 0, sb_message = []\<rparr> s1 =
      (s', SetVoiceCallForwarding 0 True ''10086'' # rest @ [ReportSetTransferResult TELEPHONY_SUCCESS])"
proof -
  let ?i = "\<lparr>cf_transferNum = ''10086'', cf_settingType = CALL_TRANSFER_REGISTRATION, cf_type = TRANSFER_TYPE_UNCONDITIONAL,
       cf_startHour = 0, cf_startMinute = 0, cf_endHour = 0, cf_endMinute = 0\<rparr> :: CallTransferInfo"
  let ?r = "\<lparr>sb_index = 1, sb_result = TELEPHONY_SUCCESS, sb_reason = 0, sb_message = []\<rparr>"
  obtain r s1 a1 where run: "Service_SetCallTransferInfo sample_service_env (sample_ss_env True) 0 ?i sample_service = (r, s1, a1)"
    by (metis prod_cases3)
  obtain r' s2 a2 where other: "Service_SetCallTransferInfo sample_service_env (sample_ss_env True) 1 ?i s1 = (r', s2, a2)"
    by (metis prod_cases3)
  have h: "handlerMap sample_service 0 = Some sample_handler" "handlerMap sample_service 1 \<noteq> None"
    "utCommandMap sample_handler = []" "indexCommand sample_handler = 0"
    by (simp_all add: sample_service_def sample_handler_def)
  have inv: "command_inv sample_handler" "RequestSsRequestCommandIndex sample_handler = (1, sample_handler\<lparr>indexCommand := 1\<rparr>)"
    "map_of (utCommandMap sample_handler) 1 = None"
    by (simp_all add: command_inv_def RequestSsRequestCommandIndex_def MAX_REQUEST_COUNT_def h)
  have kind: "remembered_transfer ?i" by (simp add: remembered_transfer_def)
  from set_transfer_result [OF _ h(1) kind run] obtain h' where
    "run_setting (ss_view (sample_ss_env True) (sample_service\<lparr>callForwarding := (0, True, ''10086'')\<rparr>)) (SetTransfer ?i) 0 sample_handler
      = (r, h', a1)" by auto
  moreover have "fst (run_setting (ss_view (sample_ss_env True) (sample_service\<lparr>callForwarding := (0, True, ''10086'')\<rparr>)) (SetTransfer ?i) 0
      sample_handler) = TELEPHONY_SUCCESS"
    using h(1) by (simp add: SetCallTransferInfo_def CheckSetCallTransferInfo_def ss_view_def send_setting_def NeedCallImsService_def
        finish_setting_def ims_ss_def Let_def case_prod_beta)
  ultimately have r: "r = TELEPHONY_SUCCESS" by simp
  have "\<exists>s' rest. transfer_answer (sample_ss_env True) 0 ?r s1 =
      (s', SetVoiceCallForwarding 0 (cf_settingType ?i \<noteq> CALL_TRANSFER_DISABLE) (cf_transferNum ?i) #
         rest @ [ReportSetTransferResult TELEPHONY_SUCCESS])"
    by (rule conjunct1 [OF transfer_memory [OF _ h(1) kind inv run [unfolded r] _ _ _ _ _ _ h(2) kind other]]) simp_all
  with run r show ?thesis by simp
qed

end
