(* ===== verification/Parcel.thy ===== *)
theory Parcel
  imports SupplementAnswers "HOL-Library.State_Monad"
begin

text \<open>
  The messages between the processes. \<^verbatim>\<open>MessageParcel\<close> belongs to the IPC library, which is not part of the
  repository: a parcel is a parameter \<open>P\<close>, a record of its operations over a type of parcel states. What the code relies on is
  \<open>parcel_laws\<close>: what was written is read back in order, as long as each read asks for the type that was written. The
  library's behaviour when a block is asked for and something else comes is a parameter too; two callbacks
  rely on it (\<open>failed_block_keeps\<close>, \<open>failed_block_skips\<close>).

  An \<^verbatim>\<open>int32_t\<close> that carries an enumerator is an item of that enumeration, as elsewhere in the development; a \<^verbatim>\<open>float\<close>
  is its 32 bits. A block
  is the memory image of a structure, read back with the structure's size; it is the structure here, and its size is its
  type. \<open>wp\<close> is the precondition calculus in which the proofs run: it looks at the unread content only.
\<close>

section \<open>Structures sent as blocks\<close>

text \<open>\<^verbatim>\<open>RadioResponseInfo\<close>, \<^verbatim>\<open>MuteControlResponse\<close> and \<^verbatim>\<open>RingbackVoice\<close> are structures of other repositories, with the fields
  that the code names.\<close>

datatype ErrType = ErrType_NONE | ErrType_other int

record RadioResponseInfo =
  ri_flag :: int
  ri_serial :: int
  ri_error :: ErrType

record MuteControlResponse =
  mc_result :: int
  mc_value :: int

record RingbackVoice =
  rb_status :: int

datatype VideoCallEventType =
    EVENT_CAMERA_FAILURE
  | EVENT_CAMERA_READY
  | EVENT_RELEASE_DISPLAY_SURFACE
  | EVENT_RELEASE_PREVIEW_SURFACE
  | VideoCallEventType_other int

datatype ImsCallModeRequestResult =
    MODIFY_REQUEST_SUCCESS
  | MODIFY_REQUEST_FAIL
  | MODIFY_REQUEST_INVALID
  | MODIFY_REQUEST_TIMED_OUT
  | MODIFY_REQUEST_REJECTED_BY_REMOTE
  | MODIFY_REQUEST_CANCEL
  | MODIFY_DOWNGRADE_RTP_OR_RTCP_TIMEOUT
  | MODIFY_DOWNGRADE_RTP_AND_RTCP_TIMEOUT
  | ImsCallModeRequestResult_other int

record ImsCallModeReceiveInfo =
  mr_callIndex :: int
  mr_result :: ImsCallModeRequestResult
  mr_callType :: ImsCallType

record ImsCallSessionEventInfo =
  se_callIndex :: int
  se_eventType :: VideoCallEventType

record ImsCallPeerDimensionsInfo =
  pd_callIndex :: int
  pd_width :: int
  pd_height :: int

record ImsCallDataUsageInfo =
  du_callIndex :: int
  du_dataUsage :: int

record CameraCapabilitiesInfo =
  cc_callIndex :: int
  cc_width :: int
  cc_height :: int

section \<open>Parcels\<close>

datatype block =
    BRadioResponseInfo RadioResponseInfo
  | BMuteControlResponse MuteControlResponse
  | BRingbackVoice RingbackVoice
  | BImsCallModeReceiveInfo ImsCallModeReceiveInfo
  | BImsCallSessionEventInfo ImsCallSessionEventInfo
  | BImsCallPeerDimensionsInfo ImsCallPeerDimensionsInfo
  | BImsCallDataUsageInfo ImsCallDataUsageInfo
  | BCameraCapabilitiesInfo CameraCapabilitiesInfo
  | BCellularCallInfo CellularCallInfo
  | BCallTransferInfo CallTransferInfo
  | BCallRestrictionInfo CallRestrictionInfo
  | BImsCallInfo ImsCallInfo
  | BSatelliteCallInfo SatelliteCallInfo

datatype block_type =
    TRadioResponseInfo | TMuteControlResponse | TRingbackVoice | TImsCallModeReceiveInfo | TImsCallSessionEventInfo
  | TImsCallPeerDimensionsInfo | TImsCallDataUsageInfo | TCameraCapabilitiesInfo | TCellularCallInfo
  | TCallTransferInfo | TCallRestrictionInfo | TImsCallInfo | TSatelliteCallInfo

fun block_type_of :: "block \<Rightarrow> block_type" where
  "block_type_of (BRadioResponseInfo _) = TRadioResponseInfo"
| "block_type_of (BMuteControlResponse _) = TMuteControlResponse"
| "block_type_of (BRingbackVoice _) = TRingbackVoice"
| "block_type_of (BImsCallModeReceiveInfo _) = TImsCallModeReceiveInfo"
| "block_type_of (BImsCallSessionEventInfo _) = TImsCallSessionEventInfo"
| "block_type_of (BImsCallPeerDimensionsInfo _) = TImsCallPeerDimensionsInfo"
| "block_type_of (BImsCallDataUsageInfo _) = TImsCallDataUsageInfo"
| "block_type_of (BCameraCapabilitiesInfo _) = TCameraCapabilitiesInfo"
| "block_type_of (BCellularCallInfo _) = TCellularCallInfo"
| "block_type_of (BCallTransferInfo _) = TCallTransferInfo"
| "block_type_of (BCallRestrictionInfo _) = TCallRestrictionInfo"
| "block_type_of (BImsCallInfo _) = TImsCallInfo"
| "block_type_of (BSatelliteCallInfo _) = TSatelliteCallInfo"

datatype item =
    Int32 int
  | Int8 char
  | Int64 int
  | AFloat "32 word"
  | AClirMode CLIRMode
  | ABool bool
  | AString string
  | ACString string
  | AStringVector "string list"
  | Token string
  | RemoteObject nat
  | AErrcode errcode
  | ATelCallState TelCallState
  | AImsCallType ImsCallType
  | AReason RilDisconnectedReason
  | ARestrictionType CallRestrictionType
  | ASupplementType CallSupplementType
  | Block block

datatype item_type =
    TInt32 | TInt8 | TInt64 | TFloat | TClirMode | TBool | TString | TCString | TStringVector | TToken | TRemoteObject | TErrcode | TTelCallState
  | TImsCallType | TReason | TRestrictionType | TSupplementType | TBlock block_type

fun type_of :: "item \<Rightarrow> item_type" where
  "type_of (Int32 _) = TInt32"
| "type_of (Int8 _) = TInt8"
| "type_of (Int64 _) = TInt64"
| "type_of (AFloat _) = TFloat"
| "type_of (AClirMode _) = TClirMode"
| "type_of (ABool _) = TBool"
| "type_of (AString _) = TString"
| "type_of (ACString _) = TCString"
| "type_of (AStringVector _) = TStringVector"
| "type_of (Token _) = TToken"
| "type_of (RemoteObject _) = TRemoteObject"
| "type_of (AErrcode _) = TErrcode"
| "type_of (ATelCallState _) = TTelCallState"
| "type_of (AImsCallType _) = TImsCallType"
| "type_of (AReason _) = TReason"
| "type_of (ARestrictionType _) = TRestrictionType"
| "type_of (ASupplementType _) = TSupplementType"
| "type_of (Block b) = TBlock (block_type_of b)"

text \<open>\<open>rd t\<close> reads a value of type \<open>t\<close> (\<open>None\<close>: the library reports a failure), \<open>wr\<close> appends one and says
  whether it could, \<open>new\<close> is a parcel just made.\<close>

record 'p parcel =
  rd :: "item_type \<Rightarrow> ('p, item option) state"
  wr :: "item \<Rightarrow> ('p, bool) state"
  new :: 'p

definition parcel_laws :: "'p parcel \<Rightarrow> ('p \<Rightarrow> item list) \<Rightarrow> bool" where
  "parcel_laws P C \<longleftrightarrow> C (new P) = [] \<and>
     (\<forall>x p p'. run_state (wr P x) p = (True, p') \<longrightarrow> C p' = C p @ [x]) \<and>
     (\<forall>x r p. C p = x # r \<longrightarrow> (\<exists>p'. run_state (rd P (type_of x)) p = (Some x, p') \<and> C p' = r))"

definition failed_block_keeps :: "'p parcel \<Rightarrow> ('p \<Rightarrow> item list) \<Rightarrow> bool" where
  "failed_block_keeps P C \<longleftrightarrow>
     (\<forall>x r p b. C p = x # r \<and> type_of x \<noteq> TBlock b \<longrightarrow> (\<exists>p'. run_state (rd P (TBlock b)) p = (None, p') \<and> C p' = x # r))"

definition failed_block_skips :: "'p parcel \<Rightarrow> ('p \<Rightarrow> item list) \<Rightarrow> bool" where
  "failed_block_skips P C \<longleftrightarrow>
     (\<forall>x r p b. C p = x # r \<and> type_of x \<noteq> TBlock b \<longrightarrow> (\<exists>p'. run_state (rd P (TBlock b)) p = (None, p') \<and> C p' = r))"

section \<open>Readers and writers\<close>

text \<open>A failed read of a number is 0, of a text empty, of a truth value false, of a block, an object or a C string null; a failed
  read of an enumeration is its value 0.\<close>

definition ReadInt32 :: "'p parcel \<Rightarrow> ('p, int) state" where
  "ReadInt32 P = do { x \<leftarrow> rd P TInt32; State_Monad.return (case x of Some (Int32 n) \<Rightarrow> n | _ \<Rightarrow> 0) }"

definition ReadInt8 :: "'p parcel \<Rightarrow> ('p, char) state" where
  "ReadInt8 P = do { x \<leftarrow> rd P TInt8; State_Monad.return (case x of Some (Int8 n) \<Rightarrow> n | _ \<Rightarrow> CHR 0x00) }"

definition ReadBool :: "'p parcel \<Rightarrow> ('p, bool) state" where
  "ReadBool P = do { x \<leftarrow> rd P TBool; State_Monad.return (case x of Some (ABool b) \<Rightarrow> b | _ \<Rightarrow> False) }"

definition ReadString :: "'p parcel \<Rightarrow> ('p, string) state" where
  "ReadString P = do { x \<leftarrow> rd P TString; State_Monad.return (case x of Some (AString b) \<Rightarrow> b | _ \<Rightarrow> '''') }"

definition ReadFloat :: "'p parcel \<Rightarrow> ('p, 32 word) state" where
  "ReadFloat P = do { x \<leftarrow> rd P TFloat; State_Monad.return (case x of Some (AFloat b) \<Rightarrow> b | _ \<Rightarrow> 0) }"

definition ReadCString :: "'p parcel \<Rightarrow> ('p, string option) state" where
  "ReadCString P = do { x \<leftarrow> rd P TCString; State_Monad.return (case x of Some (ACString b) \<Rightarrow> Some b | _ \<Rightarrow> None) }"

definition ReadStringVector :: "'p parcel \<Rightarrow> ('p, string list option) state" where
  "ReadStringVector P =
     do { x \<leftarrow> rd P TStringVector; State_Monad.return (case x of Some (AStringVector b) \<Rightarrow> Some b | _ \<Rightarrow> None) }"

definition ReadInterfaceToken :: "'p parcel \<Rightarrow> ('p, string) state" where
  "ReadInterfaceToken P = do { x \<leftarrow> rd P TToken; State_Monad.return (case x of Some (Token b) \<Rightarrow> b | _ \<Rightarrow> '''') }"

definition ReadRemoteObject :: "'p parcel \<Rightarrow> ('p, nat option) state" where
  "ReadRemoteObject P =
     do { x \<leftarrow> rd P TRemoteObject; State_Monad.return (case x of Some (RemoteObject b) \<Rightarrow> Some b | _ \<Rightarrow> None) }"

definition ReadErrcode :: "'p parcel \<Rightarrow> ('p, errcode) state" where
  "ReadErrcode P = do { x \<leftarrow> rd P TErrcode; State_Monad.return (case x of Some (AErrcode b) \<Rightarrow> b | _ \<Rightarrow> TELEPHONY_SUCCESS) }"

definition ReadTelCallState :: "'p parcel \<Rightarrow> ('p, TelCallState) state" where
  "ReadTelCallState P =
     do { x \<leftarrow> rd P TTelCallState; State_Monad.return (case x of Some (ATelCallState b) \<Rightarrow> b | _ \<Rightarrow> CALL_STATUS_ACTIVE) }"

definition ReadImsCallType :: "'p parcel \<Rightarrow> ('p, ImsCallType) state" where
  "ReadImsCallType P =
     do { x \<leftarrow> rd P TImsCallType; State_Monad.return (case x of Some (AImsCallType b) \<Rightarrow> b | _ \<Rightarrow> TEL_IMS_CALL_TYPE_VOICE) }"

definition ReadReason :: "'p parcel \<Rightarrow> ('p, RilDisconnectedReason) state" where
  "ReadReason P =
     do { x \<leftarrow> rd P TReason; State_Monad.return (case x of Some (AReason b) \<Rightarrow> b | _ \<Rightarrow> DISCONNECTED_REASON_INVALID) }"

definition ReadRestrictionType :: "'p parcel \<Rightarrow> ('p, CallRestrictionType) state" where
  "ReadRestrictionType P =
     do { x \<leftarrow> rd P TRestrictionType;
          State_Monad.return (case x of Some (ARestrictionType b) \<Rightarrow> b | _ \<Rightarrow> RESTRICTION_TYPE_ALL_OUTGOING) }"

definition ReadSupplementType :: "'p parcel \<Rightarrow> ('p, CallSupplementType) state" where
  "ReadSupplementType P =
     do { x \<leftarrow> rd P TSupplementType; State_Monad.return (case x of Some (ASupplementType b) \<Rightarrow> b | _ \<Rightarrow> TYPE_DEFAULT) }"

definition ReadRawData :: "'p parcel \<Rightarrow> block_type \<Rightarrow> ('p, block option) state" where
  "ReadRawData P t = do { x \<leftarrow> rd P (TBlock t); State_Monad.return (case x of Some (Block b) \<Rightarrow> Some b | _ \<Rightarrow> None) }"

abbreviation WriteInt32 :: "'p parcel \<Rightarrow> int \<Rightarrow> ('p, bool) state" where "WriteInt32 P n \<equiv> wr P (Int32 n)"
abbreviation WriteBool :: "'p parcel \<Rightarrow> bool \<Rightarrow> ('p, bool) state" where "WriteBool P b \<equiv> wr P (ABool b)"
abbreviation WriteString :: "'p parcel \<Rightarrow> string \<Rightarrow> ('p, bool) state" where "WriteString P s \<equiv> wr P (AString s)"
abbreviation WriteRawData :: "'p parcel \<Rightarrow> block \<Rightarrow> ('p, bool) state" where "WriteRawData P b \<equiv> wr P (Block b)"
abbreviation WriteInterfaceToken :: "'p parcel \<Rightarrow> string \<Rightarrow> ('p, bool) state" where
  "WriteInterfaceToken P s \<equiv> wr P (Token s)"

text \<open>A chain \<^verbatim>\<open>!in.Write(a) || !in.Write(b) || \<dots>\<close> stops at the first write that fails. \<open>write_all\<close> says whether all
  succeeded; \<open>or_fail\<close> goes on with the next part, or gives up with the code of the failed write.\<close>

fun write_all :: "'p parcel \<Rightarrow> item list \<Rightarrow> ('p, bool) state" where
  "write_all P [] = State_Monad.return True"
| "write_all P (x # xs) = do { ok \<leftarrow> wr P x; if ok then write_all P xs else State_Monad.return False }"

definition or_fail :: "errcode \<Rightarrow> ('p, bool) state \<Rightarrow> ('p, errcode + 'a) state \<Rightarrow> ('p, errcode + 'a) state" where
  "or_fail err m next = do { ok \<leftarrow> m; if ok then next else State_Monad.return (Inl err) }"

definition read_n :: "nat \<Rightarrow> ('p, 'a) state \<Rightarrow> ('p, 'a list) state" where
  "read_n n m = State_Monad.traverse_list (\<lambda>_. m) (replicate n ())"

section \<open>Weakest preconditions\<close>

definition wp ::
    "'p parcel \<Rightarrow> ('p \<Rightarrow> item list) \<Rightarrow> ('p, 'a) state \<Rightarrow> item list \<Rightarrow> ('a \<Rightarrow> item list \<Rightarrow> bool) \<Rightarrow> bool" where
  "wp P C m k Q \<longleftrightarrow>
     (parcel_laws P C \<longrightarrow> (\<forall>p. C p = k \<longrightarrow> Q (fst (run_state m p)) (C (snd (run_state m p)))))"

named_theorems wp_rules \<open>rules of the precondition calculus\<close>

lemma wpD: "wp P C m k Q \<Longrightarrow> parcel_laws P C \<Longrightarrow> C p = k \<Longrightarrow> run_state m p = (v, p') \<Longrightarrow> Q v (C p')"
  by (auto simp: wp_def dest!: spec [of _ p])

lemma wp_mono: "wp P C m k Q \<Longrightarrow> (\<And>v k'. Q v k' \<Longrightarrow> R v k') \<Longrightarrow> wp P C m k R"
  by (auto simp: wp_def)

lemma wp_return [wp_rules]: "Q v k \<Longrightarrow> wp P C (State_Monad.return v) k Q"
  by (simp add: wp_def)

lemma wp_bind [wp_rules]: "wp P C m k (\<lambda>v k'. wp P C (f v) k' Q) \<Longrightarrow> wp P C (State_Monad.bind m f) k Q"
  by (auto simp: wp_def case_prod_beta)

lemma wp_if [wp_rules]:
  "(b \<Longrightarrow> wp P C m k Q) \<Longrightarrow> (\<not> b \<Longrightarrow> wp P C m' k Q) \<Longrightarrow> wp P C (if b then m else m') k Q"
  by simp

lemma wp_rd: "type_of x = t \<Longrightarrow> Q (Some x) k \<Longrightarrow> wp P C (rd P t) (x # k) Q"
  unfolding wp_def parcel_laws_def by fastforce

lemma wp_ReadInt32 [wp_rules]: "Q n k \<Longrightarrow> wp P C (ReadInt32 P) (Int32 n # k) Q"
  unfolding ReadInt32_def by (intro wp_bind wp_rd wp_return) simp_all

lemma wp_ReadInt8 [wp_rules]: "Q c k \<Longrightarrow> wp P C (ReadInt8 P) (Int8 c # k) Q"
  unfolding ReadInt8_def by (intro wp_bind wp_rd wp_return) simp_all

lemma wp_ReadBool [wp_rules]: "Q b k \<Longrightarrow> wp P C (ReadBool P) (ABool b # k) Q"
  unfolding ReadBool_def by (intro wp_bind wp_rd wp_return) simp_all

lemma wp_ReadString [wp_rules]: "Q s k \<Longrightarrow> wp P C (ReadString P) (AString s # k) Q"
  unfolding ReadString_def by (intro wp_bind wp_rd wp_return) simp_all

lemma wp_ReadFloat [wp_rules]: "Q s k \<Longrightarrow> wp P C (ReadFloat P) (AFloat s # k) Q"
  unfolding ReadFloat_def by (intro wp_bind wp_rd wp_return) simp_all

lemma wp_ReadCString [wp_rules]: "Q (Some s) k \<Longrightarrow> wp P C (ReadCString P) (ACString s # k) Q"
  unfolding ReadCString_def by (intro wp_bind wp_rd wp_return) simp_all

lemma wp_ReadStringVector [wp_rules]: "Q (Some s) k \<Longrightarrow> wp P C (ReadStringVector P) (AStringVector s # k) Q"
  unfolding ReadStringVector_def by (intro wp_bind wp_rd wp_return) simp_all

lemma wp_ReadInterfaceToken [wp_rules]: "Q s k \<Longrightarrow> wp P C (ReadInterfaceToken P) (Token s # k) Q"
  unfolding ReadInterfaceToken_def by (intro wp_bind wp_rd wp_return) simp_all

lemma wp_ReadRemoteObject [wp_rules]: "Q (Some s) k \<Longrightarrow> wp P C (ReadRemoteObject P) (RemoteObject s # k) Q"
  unfolding ReadRemoteObject_def by (intro wp_bind wp_rd wp_return) simp_all

lemma wp_ReadErrcode [wp_rules]: "Q r k \<Longrightarrow> wp P C (ReadErrcode P) (AErrcode r # k) Q"
  unfolding ReadErrcode_def by (intro wp_bind wp_rd wp_return) simp_all

lemma wp_ReadTelCallState [wp_rules]: "Q r k \<Longrightarrow> wp P C (ReadTelCallState P) (ATelCallState r # k) Q"
  unfolding ReadTelCallState_def by (intro wp_bind wp_rd wp_return) simp_all

lemma wp_ReadImsCallType [wp_rules]: "Q r k \<Longrightarrow> wp P C (ReadImsCallType P) (AImsCallType r # k) Q"
  unfolding ReadImsCallType_def by (intro wp_bind wp_rd wp_return) simp_all

lemma wp_ReadReason [wp_rules]: "Q r k \<Longrightarrow> wp P C (ReadReason P) (AReason r # k) Q"
  unfolding ReadReason_def by (intro wp_bind wp_rd wp_return) simp_all

lemma wp_ReadRestrictionType [wp_rules]: "Q r k \<Longrightarrow> wp P C (ReadRestrictionType P) (ARestrictionType r # k) Q"
  unfolding ReadRestrictionType_def by (intro wp_bind wp_rd wp_return) simp_all

lemma wp_ReadSupplementType [wp_rules]: "Q r k \<Longrightarrow> wp P C (ReadSupplementType P) (ASupplementType r # k) Q"
  unfolding ReadSupplementType_def by (intro wp_bind wp_rd wp_return) simp_all

lemma wp_ReadRawData [wp_rules]:
  "block_type_of b = t \<Longrightarrow> Q (Some b) k \<Longrightarrow> wp P C (ReadRawData P t) (Block b # k) Q"
  unfolding ReadRawData_def by (intro wp_bind wp_rd wp_return) simp_all

lemma wp_no_block_keeps:
  "failed_block_keeps P C \<Longrightarrow> type_of x \<noteq> TBlock t \<Longrightarrow> Q None (x # k) \<Longrightarrow> wp P C (ReadRawData P t) (x # k) Q"
  unfolding ReadRawData_def wp_def failed_block_keeps_def by fastforce

lemma wp_no_block_skips:
  "failed_block_skips P C \<Longrightarrow> type_of x \<noteq> TBlock t \<Longrightarrow> Q None k \<Longrightarrow> wp P C (ReadRawData P t) (x # k) Q"
  unfolding ReadRawData_def wp_def failed_block_skips_def by fastforce

lemma wp_wr [wp_rules]: "Q True (k @ [x]) \<Longrightarrow> (\<And>k'. Q False k') \<Longrightarrow> wp P C (wr P x) k Q"
  unfolding wp_def parcel_laws_def
  by (metis (full_types) prod.collapse)

lemma wp_write_all [wp_rules]: "Q True (k @ xs) \<Longrightarrow> (\<And>k'. Q False k') \<Longrightarrow> wp P C (write_all P xs) k Q"
proof (induction xs arbitrary: k)
  case (Cons x xs)
  then show ?case by (auto intro!: wp_rules)
qed (auto intro: wp_rules)

lemma wp_or_fail [wp_rules]:
  "wp P C m k (\<lambda>ok k'. if ok then wp P C n k' Q else Q (Inl err) k') \<Longrightarrow> wp P C (or_fail err m n) k Q"
  unfolding or_fail_def by (rule wp_bind, erule wp_mono) (auto intro: wp_rules split: if_splits)

text \<open>A repeated read of a list that was written element by element.\<close>

lemma wp_read_n_map:
  assumes read: "\<And>x k Q. Q (g x) k \<Longrightarrow> wp P C m (enc x @ k) Q" and rest: "Q (map g xs) k"
  shows "wp P C (read_n (length xs) m) (concat (map enc xs) @ k) Q"
  using rest
proof (induction xs arbitrary: Q)
  case Nil
  then show ?case by (simp add: read_n_def wp_rules)
next
  case (Cons x xs)
  have "wp P C (State_Monad.bind (read_n (length xs) m) (\<lambda>ys. State_Monad.return (g x # ys))) (concat (map enc xs) @ k) Q"
    using Cons.prems by (intro wp_bind Cons.IH wp_return) simp
  then show ?case by (auto simp: read_n_def intro!: wp_bind read)
qed

lemma wp_read_n:
  assumes "\<And>x k Q. Q x k \<Longrightarrow> wp P C m (enc x @ k) Q" "Q xs k"
  shows "wp P C (read_n (length xs) m) (concat (map enc xs) @ k) Q"
  by (rule wp_read_n_map [where g = "\<lambda>x. x"]) (simp_all add: assms)

section \<open>A parcel\<close>

text \<open>The laws can hold: a parcel that is the list of its unread items.\<close>

definition list_parcel :: "bool \<Rightarrow> item list parcel" where
  "list_parcel skips =
     \<lparr>rd = (\<lambda>t. State (\<lambda>p. case p of
        [] \<Rightarrow> (None, [])
      | x # r \<Rightarrow> if type_of x = t then (Some x, r) else (None, if skips then r else p))),
      wr = (\<lambda>x. State (\<lambda>p. (True, p @ [x]))), new = []\<rparr>"

lemma list_parcel_laws: "parcel_laws (list_parcel b) id"
  by (simp add: parcel_laws_def list_parcel_def)

lemma list_parcel_keeps: "failed_block_keeps (list_parcel False) id"
  and list_parcel_skips: "failed_block_skips (list_parcel True) id"
  by (auto simp: failed_block_keeps_def failed_block_skips_def list_parcel_def)

end
