(* ===== verification/ImsCallback.thy ===== *)
theory ImsCallback
  imports Parcel
begin

text \<open>
  The callbacks of the IMS service, on the service's side: \<^verbatim>\<open>ImsCallCallbackProxy\<close>
  (\<^verbatim>\<open>services/ims_service_interaction/src/ims_call_callback_proxy.cpp\<close>) writes the arguments of a callback into a
  parcel and sends it under the callback's code. \<open>Inr code\<close> is the call of \<^verbatim>\<open>SendResponseInfo(code, in)\<close> at
  the end of a method, which \<open>SendResponseInfo\<close> makes. \<open>ims_callback\<close> lists the callbacks with their arguments; those with the same
  arguments share a constructor. The build is the one with \<^verbatim>\<open>SUPPORT_RTT_CALL\<close>.
\<close>

section \<open>Structures\<close>

record ImsCapFromChip =
  volteCap :: int
  vowifiCap :: int
  vonrCap :: int
  vtCap :: int

record ImsCallRttEventInfo =
  re_callId :: int
  re_eventType :: int
  re_reason :: int

record ImsCallRttErrorInfo =
  rr_callId :: int
  rr_operationType :: int
  rr_causeCode :: int
  rr_reasonText :: string

datatype response_method =
    MDial | MHangUp | MReject | MAnswer | MHold | MUnHold | MSwitch | MStartDtmf | MStopDtmf | MStartRtt | MStopRtt
  | MGetCallsData | MSetSwitch | MGetSwitch | MCombine | MInvite

datatype ss_method = MSetClip | MSetClir | MSetTransfer | MSetRestriction | MSetWaiting | MSetColr | MSetColp

datatype line_method = MClip | MClir | MColr | MColp

datatype status_method = MRestriction | MWaiting

datatype mode_method = MModeRequest | MModeResponse

datatype ims_callback =
    CbResponse response_method int RadioResponseInfo
  | CbSendDtmf int RadioResponseInfo int
  | CbStateChange int
  | CbCallsData int ImsCurrentCallList
  | CbSwitchActive int int
  | CbRingBack int RingbackVoice
  | CbSetMute int MuteControlResponse
  | CbFailReason int RilDisconnectedReason string
  | CbSs ss_method int SsBaseResult
  | CbLine line_method int LineResult
  | CbStatus status_method int StatusResult
  | CbTransfer int CallForwardQueryInfoList
  | CbSuppExt int int int
  | CbMode mode_method int ImsCallModeReceiveInfo
  | CbSession int ImsCallSessionEventInfo
  | CbPeer int ImsCallPeerDimensionsInfo
  | CbUsage int ImsCallDataUsageInfo
  | CbCamera int CameraCapabilitiesInfo
  | CbImsCap int ImsCapFromChip
  | CbRttEvt int ImsCallRttEventInfo
  | CbRttErr int ImsCallRttErrorInfo

section \<open>Codes\<close>

definition ImsCallCallback_descriptor :: string where
  "ImsCallCallback_descriptor = ''OHOS.Telephony.ImsCallCallback''"

abbreviation IMS_DIAL :: int where "IMS_DIAL \<equiv> 0"
abbreviation IMS_HANG_UP :: int where "IMS_HANG_UP \<equiv> 1"
abbreviation IMS_REJECT :: int where "IMS_REJECT \<equiv> 2"
abbreviation IMS_ANSWER :: int where "IMS_ANSWER \<equiv> 3"
abbreviation IMS_HOLD :: int where "IMS_HOLD \<equiv> 4"
abbreviation IMS_UN_HOLD :: int where "IMS_UN_HOLD \<equiv> 5"
abbreviation IMS_SWITCH :: int where "IMS_SWITCH \<equiv> 6"
abbreviation IMS_COMBINE_CONFERENCE :: int where "IMS_COMBINE_CONFERENCE \<equiv> 7"
abbreviation IMS_INVITE_TO_CONFERENCE :: int where "IMS_INVITE_TO_CONFERENCE \<equiv> 8"
abbreviation IMS_KICK_OUT_CONFERENCE :: int where "IMS_KICK_OUT_CONFERENCE \<equiv> 9"
abbreviation IMS_RECV_CALL_MEDIA_MODE_REQUEST :: int where "IMS_RECV_CALL_MEDIA_MODE_REQUEST \<equiv> 10"
abbreviation IMS_EMERGENCY_CALL :: int where "IMS_EMERGENCY_CALL \<equiv> 11"
abbreviation IMS_CALL_STATE_CHANGE :: int where "IMS_CALL_STATE_CHANGE \<equiv> 12"
abbreviation IMS_SERVICE_STATUS :: int where "IMS_SERVICE_STATUS \<equiv> 13"
abbreviation IMS_LAST_CALL_FAIL_REASON :: int where "IMS_LAST_CALL_FAIL_REASON \<equiv> 14"
abbreviation IMS_GET_CALLS_DATA :: int where "IMS_GET_CALLS_DATA \<equiv> 15"
abbreviation IMS_SRVCC_STATE :: int where "IMS_SRVCC_STATE \<equiv> 16"
abbreviation IMS_VT_OR_WFC :: int where "IMS_VT_OR_WFC \<equiv> 17"
abbreviation IMS_CALL_CRING :: int where "IMS_CALL_CRING \<equiv> 18"
abbreviation IMS_RECV_CALL_MEDIA_MODE_RESPONSE :: int where "IMS_RECV_CALL_MEDIA_MODE_RESPONSE \<equiv> 19"
abbreviation IMS_CALL_SESSION_EVENT_CHANGED :: int where "IMS_CALL_SESSION_EVENT_CHANGED \<equiv> 20"
abbreviation IMS_CALL_PEER_DIMENSIONS_CHANGED :: int where "IMS_CALL_PEER_DIMENSIONS_CHANGED \<equiv> 21"
abbreviation IMS_CALL_DATA_USAGE_CHANGED :: int where "IMS_CALL_DATA_USAGE_CHANGED \<equiv> 22"
abbreviation IMS_CALL_CAMERA_CAPABILITIES_CHANGED :: int where "IMS_CALL_CAMERA_CAPABILITIES_CHANGED \<equiv> 23"
abbreviation IMS_START_DTMF :: int where "IMS_START_DTMF \<equiv> 24"
abbreviation IMS_SEND_DTMF :: int where "IMS_SEND_DTMF \<equiv> 25"
abbreviation IMS_STOP_DTMF :: int where "IMS_STOP_DTMF \<equiv> 26"
abbreviation IMS_START_RTT :: int where "IMS_START_RTT \<equiv> 27"
abbreviation IMS_STOP_RTT :: int where "IMS_STOP_RTT \<equiv> 28"
abbreviation IMS_UPGRADE_OR_DOWNGRADE_RTT_EVT :: int where "IMS_UPGRADE_OR_DOWNGRADE_RTT_EVT \<equiv> 29"
abbreviation IMS_UPGRADE_OR_DOWNGRADE_RTT_ERR :: int where "IMS_UPGRADE_OR_DOWNGRADE_RTT_ERR \<equiv> 30"
abbreviation IMS_SET_PRE_MODE :: int where "IMS_SET_PRE_MODE \<equiv> 31"
abbreviation IMS_GET_PRE_MODE :: int where "IMS_GET_PRE_MODE \<equiv> 32"
abbreviation IMS_SET_SWITCH_STATUS :: int where "IMS_SET_SWITCH_STATUS \<equiv> 33"
abbreviation IMS_GET_SWITCH_STATUS :: int where "IMS_GET_SWITCH_STATUS \<equiv> 34"
abbreviation IMS_SET_CONFIG :: int where "IMS_SET_CONFIG \<equiv> 35"
abbreviation IMS_GET_CONFIG :: int where "IMS_GET_CONFIG \<equiv> 36"
abbreviation IMS_SET_FEATURE :: int where "IMS_SET_FEATURE \<equiv> 37"
abbreviation IMS_GET_FEATURE :: int where "IMS_GET_FEATURE \<equiv> 38"
abbreviation IMS_SET_MUTE :: int where "IMS_SET_MUTE \<equiv> 39"
abbreviation IMS_GET_MUTE :: int where "IMS_GET_MUTE \<equiv> 40"
abbreviation IMS_GET_EMERGENCY_CALL_LIST :: int where "IMS_GET_EMERGENCY_CALL_LIST \<equiv> 41"
abbreviation IMS_GET_IMS_CAPABILITY :: int where "IMS_GET_IMS_CAPABILITY \<equiv> 42"
abbreviation IMS_CONTROL_CAMERA :: int where "IMS_CONTROL_CAMERA \<equiv> 43"
abbreviation IMS_SET_PREVIEW_WINDOW :: int where "IMS_SET_PREVIEW_WINDOW \<equiv> 44"
abbreviation IMS_SET_DISPLAY_WINDOW :: int where "IMS_SET_DISPLAY_WINDOW \<equiv> 45"
abbreviation IMS_SET_CAMERA_ZOOM :: int where "IMS_SET_CAMERA_ZOOM \<equiv> 46"
abbreviation IMS_SET_PAUSE_IMAGE :: int where "IMS_SET_PAUSE_IMAGE \<equiv> 47"
abbreviation IMS_SET_DEVICE_DIRECTION :: int where "IMS_SET_DEVICE_DIRECTION \<equiv> 48"
abbreviation IMS_GET_CALL_CLIP :: int where "IMS_GET_CALL_CLIP \<equiv> 49"
abbreviation IMS_SET_CALL_CLIP :: int where "IMS_SET_CALL_CLIP \<equiv> 50"
abbreviation IMS_GET_CALL_CLIR :: int where "IMS_GET_CALL_CLIR \<equiv> 51"
abbreviation IMS_SET_CALL_CLIR :: int where "IMS_SET_CALL_CLIR \<equiv> 52"
abbreviation IMS_GET_CALL_FORWARD :: int where "IMS_GET_CALL_FORWARD \<equiv> 53"
abbreviation IMS_SET_CALL_FORWARD :: int where "IMS_SET_CALL_FORWARD \<equiv> 54"
abbreviation IMS_GET_CALL_RESTRICTION :: int where "IMS_GET_CALL_RESTRICTION \<equiv> 55"
abbreviation IMS_SET_CALL_RESTRICTION :: int where "IMS_SET_CALL_RESTRICTION \<equiv> 56"
abbreviation IMS_GET_CALL_WAIT :: int where "IMS_GET_CALL_WAIT \<equiv> 57"
abbreviation IMS_SET_CALL_WAIT :: int where "IMS_SET_CALL_WAIT \<equiv> 58"
abbreviation IMS_GET_CALL_COLR :: int where "IMS_GET_CALL_COLR \<equiv> 59"
abbreviation IMS_SET_CALL_COLR :: int where "IMS_SET_CALL_COLR \<equiv> 60"
abbreviation IMS_SET_CALL_COLP :: int where "IMS_SET_CALL_COLP \<equiv> 61"
abbreviation IMS_GET_CALL_COLP :: int where "IMS_GET_CALL_COLP \<equiv> 62"
abbreviation IMS_SUPP_EXT_CHANGED :: int where "IMS_SUPP_EXT_CHANGED \<equiv> 63"

section \<open>Common parts\<close>

definition WriteCommonInfo :: "'p parcel \<Rightarrow> int \<Rightarrow> ('p, errcode + int) state \<Rightarrow> ('p, errcode + int) state" where
  "WriteCommonInfo P slot next =
     or_fail TELEPHONY_ERR_WRITE_DESCRIPTOR_TOKEN_FAIL (WriteInterfaceToken P ImsCallCallback_descriptor)
       (or_fail TELEPHONY_ERR_WRITE_DATA_FAIL (WriteInt32 P slot) next)"

definition WriteCommonInfo_info ::
    "'p parcel \<Rightarrow> int \<Rightarrow> RadioResponseInfo \<Rightarrow> ('p, errcode + int) state \<Rightarrow> ('p, errcode + int) state" where
  "WriteCommonInfo_info P slot info next =
     WriteCommonInfo P slot (or_fail TELEPHONY_ERR_WRITE_DATA_FAIL (WriteRawData P (BRadioResponseInfo info)) next)"

definition WriteSsBaseResultCommonInfo ::
    "'p parcel \<Rightarrow> int \<Rightarrow> SsBaseResult \<Rightarrow> ('p, errcode + int) state \<Rightarrow> ('p, errcode + int) state" where
  "WriteSsBaseResultCommonInfo P slot r next =
     WriteCommonInfo P slot
       (or_fail TELEPHONY_ERR_WRITE_DATA_FAIL (WriteInt32 P (sb_index r))
         (or_fail TELEPHONY_ERR_WRITE_DATA_FAIL (wr P (AErrcode (sb_result r)))
           (or_fail TELEPHONY_ERR_WRITE_DATA_FAIL (WriteInt32 P (sb_reason r))
             (or_fail TELEPHONY_ERR_WRITE_DATA_FAIL (WriteString P (sb_message r)) next))))"

text \<open>The remote object may be missing, and the request may fail; otherwise the caller gets the answer that the other side
  wrote. The sent message is kept.\<close>

record 'p ipc_env =
  e_remote :: bool
  e_answer :: "int \<Rightarrow> 'p \<Rightarrow> errcode option"

definition SendResponseInfo ::
    "('p, 'x) ipc_env_scheme \<Rightarrow> 'p parcel \<Rightarrow> ('p, errcode + int) state \<Rightarrow> errcode \<times> (int \<times> 'p) option" where
  "SendResponseInfo e P m =
     (case run_state m (new P) of
        (Inl err, _) \<Rightarrow> (err, None)
      | (Inr code, inp) \<Rightarrow>
          if \<not> e_remote e then (TELEPHONY_ERR_LOCAL_PTR_NULL, None)
          else (case e_answer e code inp of None \<Rightarrow> TELEPHONY_ERR_IPC_CONNECT_STUB_FAIL | Some r \<Rightarrow> r, Some (code, inp)))"

section \<open>Answers to calls\<close>

definition DialResponse_proxy :: "'p parcel \<Rightarrow> int \<Rightarrow> RadioResponseInfo \<Rightarrow> ('p, errcode + int) state" where
  "DialResponse_proxy P slot info = WriteCommonInfo_info P slot info (State_Monad.return (Inr IMS_DIAL))"

definition HangUpResponse_proxy :: "'p parcel \<Rightarrow> int \<Rightarrow> RadioResponseInfo \<Rightarrow> ('p, errcode + int) state" where
  "HangUpResponse_proxy P slot info = WriteCommonInfo_info P slot info (State_Monad.return (Inr IMS_HANG_UP))"

definition RejectWithReasonResponse_proxy :: "'p parcel \<Rightarrow> int \<Rightarrow> RadioResponseInfo \<Rightarrow> ('p, errcode + int) state" where
  "RejectWithReasonResponse_proxy P slot info = WriteCommonInfo_info P slot info (State_Monad.return (Inr IMS_REJECT))"

definition AnswerResponse_proxy :: "'p parcel \<Rightarrow> int \<Rightarrow> RadioResponseInfo \<Rightarrow> ('p, errcode + int) state" where
  "AnswerResponse_proxy P slot info = WriteCommonInfo_info P slot info (State_Monad.return (Inr IMS_ANSWER))"

definition HoldCallResponse_proxy :: "'p parcel \<Rightarrow> int \<Rightarrow> RadioResponseInfo \<Rightarrow> ('p, errcode + int) state" where
  "HoldCallResponse_proxy P slot info = WriteCommonInfo_info P slot info (State_Monad.return (Inr IMS_HOLD))"

definition UnHoldCallResponse_proxy :: "'p parcel \<Rightarrow> int \<Rightarrow> RadioResponseInfo \<Rightarrow> ('p, errcode + int) state" where
  "UnHoldCallResponse_proxy P slot info = WriteCommonInfo_info P slot info (State_Monad.return (Inr IMS_UN_HOLD))"

definition SwitchCallResponse_proxy :: "'p parcel \<Rightarrow> int \<Rightarrow> RadioResponseInfo \<Rightarrow> ('p, errcode + int) state" where
  "SwitchCallResponse_proxy P slot info = WriteCommonInfo_info P slot info (State_Monad.return (Inr IMS_SWITCH))"

definition StartDtmfResponse_proxy :: "'p parcel \<Rightarrow> int \<Rightarrow> RadioResponseInfo \<Rightarrow> ('p, errcode + int) state" where
  "StartDtmfResponse_proxy P slot info = WriteCommonInfo_info P slot info (State_Monad.return (Inr IMS_START_DTMF))"

definition StopDtmfResponse_proxy :: "'p parcel \<Rightarrow> int \<Rightarrow> RadioResponseInfo \<Rightarrow> ('p, errcode + int) state" where
  "StopDtmfResponse_proxy P slot info = WriteCommonInfo_info P slot info (State_Monad.return (Inr IMS_STOP_DTMF))"

definition StartRttResponse_proxy :: "'p parcel \<Rightarrow> int \<Rightarrow> RadioResponseInfo \<Rightarrow> ('p, errcode + int) state" where
  "StartRttResponse_proxy P slot info = WriteCommonInfo_info P slot info (State_Monad.return (Inr IMS_START_RTT))"

definition StopRttResponse_proxy :: "'p parcel \<Rightarrow> int \<Rightarrow> RadioResponseInfo \<Rightarrow> ('p, errcode + int) state" where
  "StopRttResponse_proxy P slot info = WriteCommonInfo_info P slot info (State_Monad.return (Inr IMS_STOP_RTT))"

definition GetImsCallsDataResponse_proxy :: "'p parcel \<Rightarrow> int \<Rightarrow> RadioResponseInfo \<Rightarrow> ('p, errcode + int) state" where
  "GetImsCallsDataResponse_proxy P slot info = WriteCommonInfo_info P slot info (State_Monad.return (Inr IMS_GET_CALLS_DATA))"

definition SetImsSwitchResponse_proxy :: "'p parcel \<Rightarrow> int \<Rightarrow> RadioResponseInfo \<Rightarrow> ('p, errcode + int) state" where
  "SetImsSwitchResponse_proxy P slot info = WriteCommonInfo_info P slot info (State_Monad.return (Inr IMS_SET_SWITCH_STATUS))"

definition GetImsSwitchResponse_proxy :: "'p parcel \<Rightarrow> int \<Rightarrow> RadioResponseInfo \<Rightarrow> ('p, errcode + int) state" where
  "GetImsSwitchResponse_proxy P slot info = WriteCommonInfo_info P slot info (State_Monad.return (Inr IMS_GET_SWITCH_STATUS))"

definition CombineConferenceResponse_proxy :: "'p parcel \<Rightarrow> int \<Rightarrow> RadioResponseInfo \<Rightarrow> ('p, errcode + int) state" where
  "CombineConferenceResponse_proxy P slot info = WriteCommonInfo_info P slot info (State_Monad.return (Inr IMS_COMBINE_CONFERENCE))"

definition InviteToConferenceResponse_proxy :: "'p parcel \<Rightarrow> int \<Rightarrow> RadioResponseInfo \<Rightarrow> ('p, errcode + int) state" where
  "InviteToConferenceResponse_proxy P slot info = WriteCommonInfo_info P slot info (State_Monad.return (Inr IMS_INVITE_TO_CONFERENCE))"

definition SendDtmfResponse_proxy :: "'p parcel \<Rightarrow> int \<Rightarrow> RadioResponseInfo \<Rightarrow> int \<Rightarrow> ('p, errcode + int) state" where
  "SendDtmfResponse_proxy P slot info callIndex =
     WriteCommonInfo_info P slot info
       (or_fail TELEPHONY_ERR_WRITE_DATA_FAIL (WriteInt32 P callIndex) (State_Monad.return (Inr IMS_SEND_DTMF)))"

definition CallStateChangeReport_proxy :: "'p parcel \<Rightarrow> int \<Rightarrow> ('p, errcode + int) state" where
  "CallStateChangeReport_proxy P slot =
     WriteCommonInfo P slot (State_Monad.return (Inr IMS_CALL_STATE_CHANGE))"

text \<open>\<^verbatim>\<open>WriteCallInfo\<close> says whether a write failed.\<close>

definition call_items :: "ImsCurrentCall \<Rightarrow> item list" where
  "call_items call =
     [Int32 (m_index call), Int32 (m_dir call), ATelCallState (m_state call), Int32 (m_mode call), Int32 (m_mpty call),
      Int32 (m_voiceDomain call), AImsCallType (m_callType call), AString (m_number call), AString (m_name call),
      Int32 (m_type call), AString (m_alpha call), Int32 (m_toa call), Int32 (m_toneType call),
      Int32 (m_callInitialType call), Int32 (m_namePresentation call), Int32 (m_newCallUseBox call),
      Int32 (m_rttState call), Int32 (m_rttChannelId call), Int32 (m_imsDomain call)]"

definition WriteCallInfo :: "'p parcel \<Rightarrow> ImsCurrentCall \<Rightarrow> ('p, bool) state" where
  "WriteCallInfo P call = do { ok \<leftarrow> write_all P (call_items call); State_Monad.return (\<not> ok) }"

fun write_calls :: "'p parcel \<Rightarrow> ImsCurrentCall list \<Rightarrow> ('p, bool) state" where
  "write_calls P [] = State_Monad.return True"
| "write_calls P (call # rest) =
     do { failed \<leftarrow> WriteCallInfo P call; if failed then State_Monad.return False else write_calls P rest }"

definition GetImsCallsDataResponse_list_proxy :: "'p parcel \<Rightarrow> int \<Rightarrow> ImsCurrentCallList \<Rightarrow> ('p, errcode + int) state" where
  "GetImsCallsDataResponse_list_proxy P slot callList =
     WriteCommonInfo P slot
       (or_fail TELEPHONY_ERR_WRITE_DATA_FAIL (write_all P [Int32 (m_callSize callList), Int32 (m_flag callList)])
         (or_fail TELEPHONY_ERR_WRITE_DATA_FAIL (WriteInt32 P (int (length (m_calls callList))))
           (or_fail TELEPHONY_ERR_WRITE_DATA_FAIL (write_calls P (m_calls callList)) (State_Monad.return (Inr IMS_GET_CALLS_DATA)))))"

definition GetImsSwitchResponse_active_proxy :: "'p parcel \<Rightarrow> int \<Rightarrow> int \<Rightarrow> ('p, errcode + int) state" where
  "GetImsSwitchResponse_active_proxy P slot active =
     WriteCommonInfo P slot
       (or_fail TELEPHONY_ERR_WRITE_DATA_FAIL (WriteInt32 P active) (State_Monad.return (Inr IMS_GET_SWITCH_STATUS)))"

definition CallRingBackReport_proxy :: "'p parcel \<Rightarrow> int \<Rightarrow> RingbackVoice \<Rightarrow> ('p, errcode + int) state" where
  "CallRingBackReport_proxy P slot info =
     WriteCommonInfo P slot
       (or_fail TELEPHONY_ERR_WRITE_DATA_FAIL (WriteRawData P (BRingbackVoice info)) (State_Monad.return (Inr IMS_CALL_CRING)))"

definition SetMuteResponse_proxy :: "'p parcel \<Rightarrow> int \<Rightarrow> MuteControlResponse \<Rightarrow> ('p, errcode + int) state" where
  "SetMuteResponse_proxy P slot response =
     WriteCommonInfo P slot
       (or_fail TELEPHONY_ERR_WRITE_DATA_FAIL (WriteRawData P (BMuteControlResponse response)) (State_Monad.return (Inr IMS_SET_MUTE)))"

definition LastCallFailReasonResponse_proxy :: "'p parcel \<Rightarrow> int \<Rightarrow> RilDisconnectedReason \<Rightarrow> string \<Rightarrow> ('p, errcode + int) state" where
  "LastCallFailReasonResponse_proxy P slot reason message =
     WriteCommonInfo P slot
       (or_fail TELEPHONY_ERR_WRITE_DATA_FAIL (wr P (AReason reason))
         (or_fail TELEPHONY_ERR_WRITE_DATA_FAIL (WriteString P message) (State_Monad.return (Inr IMS_LAST_CALL_FAIL_REASON))))"

section \<open>Supplementary services\<close>

definition SetClipResponse_proxy :: "'p parcel \<Rightarrow> int \<Rightarrow> SsBaseResult \<Rightarrow> ('p, errcode + int) state" where
  "SetClipResponse_proxy P slot resultInfo = WriteSsBaseResultCommonInfo P slot resultInfo (State_Monad.return (Inr IMS_SET_CALL_CLIP))"

definition SetClirResponse_proxy :: "'p parcel \<Rightarrow> int \<Rightarrow> SsBaseResult \<Rightarrow> ('p, errcode + int) state" where
  "SetClirResponse_proxy P slot resultInfo = WriteSsBaseResultCommonInfo P slot resultInfo (State_Monad.return (Inr IMS_SET_CALL_CLIR))"

definition SetCallTransferResponse_proxy :: "'p parcel \<Rightarrow> int \<Rightarrow> SsBaseResult \<Rightarrow> ('p, errcode + int) state" where
  "SetCallTransferResponse_proxy P slot resultInfo = WriteSsBaseResultCommonInfo P slot resultInfo (State_Monad.return (Inr IMS_SET_CALL_FORWARD))"

definition SetCallRestrictionResponse_proxy :: "'p parcel \<Rightarrow> int \<Rightarrow> SsBaseResult \<Rightarrow> ('p, errcode + int) state" where
  "SetCallRestrictionResponse_proxy P slot resultInfo = WriteSsBaseResultCommonInfo P slot resultInfo (State_Monad.return (Inr IMS_SET_CALL_RESTRICTION))"

definition SetCallWaitingResponse_proxy :: "'p parcel \<Rightarrow> int \<Rightarrow> SsBaseResult \<Rightarrow> ('p, errcode + int) state" where
  "SetCallWaitingResponse_proxy P slot resultInfo = WriteSsBaseResultCommonInfo P slot resultInfo (State_Monad.return (Inr IMS_SET_CALL_WAIT))"

definition SetColrResponse_proxy :: "'p parcel \<Rightarrow> int \<Rightarrow> SsBaseResult \<Rightarrow> ('p, errcode + int) state" where
  "SetColrResponse_proxy P slot resultInfo = WriteSsBaseResultCommonInfo P slot resultInfo (State_Monad.return (Inr IMS_SET_CALL_COLR))"

definition SetColpResponse_proxy :: "'p parcel \<Rightarrow> int \<Rightarrow> SsBaseResult \<Rightarrow> ('p, errcode + int) state" where
  "SetColpResponse_proxy P slot resultInfo = WriteSsBaseResultCommonInfo P slot resultInfo (State_Monad.return (Inr IMS_SET_CALL_COLP))"

definition GetClipResponse_proxy :: "'p parcel \<Rightarrow> int \<Rightarrow> LineResult \<Rightarrow> ('p, errcode + int) state" where
  "GetClipResponse_proxy P slot result =
     WriteSsBaseResultCommonInfo P slot (lr_result result)
       (or_fail TELEPHONY_ERR_WRITE_DATA_FAIL (WriteInt32 P (lr_action result))
         (or_fail TELEPHONY_ERR_WRITE_DATA_FAIL (WriteInt32 P (lr_stat result)) (State_Monad.return (Inr IMS_GET_CALL_CLIP))))"

definition GetClirResponse_proxy :: "'p parcel \<Rightarrow> int \<Rightarrow> LineResult \<Rightarrow> ('p, errcode + int) state" where
  "GetClirResponse_proxy P slot result =
     WriteSsBaseResultCommonInfo P slot (lr_result result)
       (or_fail TELEPHONY_ERR_WRITE_DATA_FAIL (WriteInt32 P (lr_action result))
         (or_fail TELEPHONY_ERR_WRITE_DATA_FAIL (WriteInt32 P (lr_stat result)) (State_Monad.return (Inr IMS_GET_CALL_CLIR))))"

definition GetColrResponse_proxy :: "'p parcel \<Rightarrow> int \<Rightarrow> LineResult \<Rightarrow> ('p, errcode + int) state" where
  "GetColrResponse_proxy P slot result =
     WriteSsBaseResultCommonInfo P slot (lr_result result)
       (or_fail TELEPHONY_ERR_WRITE_DATA_FAIL (WriteInt32 P (lr_action result))
         (or_fail TELEPHONY_ERR_WRITE_DATA_FAIL (WriteInt32 P (lr_stat result)) (State_Monad.return (Inr IMS_GET_CALL_COLR))))"

definition GetColpResponse_proxy :: "'p parcel \<Rightarrow> int \<Rightarrow> LineResult \<Rightarrow> ('p, errcode + int) state" where
  "GetColpResponse_proxy P slot result =
     WriteSsBaseResultCommonInfo P slot (lr_result result)
       (or_fail TELEPHONY_ERR_WRITE_DATA_FAIL (WriteInt32 P (lr_action result))
         (or_fail TELEPHONY_ERR_WRITE_DATA_FAIL (WriteInt32 P (lr_stat result)) (State_Monad.return (Inr IMS_GET_CALL_COLP))))"

definition GetCallRestrictionResponse_proxy :: "'p parcel \<Rightarrow> int \<Rightarrow> StatusResult \<Rightarrow> ('p, errcode + int) state" where
  "GetCallRestrictionResponse_proxy P slot result =
     WriteSsBaseResultCommonInfo P slot (st_result result)
       (or_fail TELEPHONY_ERR_WRITE_DATA_FAIL (WriteInt32 P (st_status result))
         (or_fail TELEPHONY_ERR_WRITE_DATA_FAIL (WriteInt32 P (st_classCw result)) (State_Monad.return (Inr IMS_GET_CALL_RESTRICTION))))"

definition GetCallWaitingResponse_proxy :: "'p parcel \<Rightarrow> int \<Rightarrow> StatusResult \<Rightarrow> ('p, errcode + int) state" where
  "GetCallWaitingResponse_proxy P slot result =
     WriteSsBaseResultCommonInfo P slot (st_result result)
       (or_fail TELEPHONY_ERR_WRITE_DATA_FAIL (WriteInt32 P (st_status result))
         (or_fail TELEPHONY_ERR_WRITE_DATA_FAIL (WriteInt32 P (st_classCw result)) (State_Monad.return (Inr IMS_GET_CALL_WAIT))))"

definition forward_items :: "CallForwardQueryResult \<Rightarrow> item list" where
  "forward_items call =
     [Int32 (fq_serial call), AErrcode (fq_result call), Int32 (fq_status call), Int32 (fq_classx call),
      AString (fq_number call), Int32 (fq_type call), Int32 (fq_reason call), Int32 (fq_time call),
      Int32 (fq_startHour call), Int32 (fq_startMinute call), Int32 (fq_endHour call), Int32 (fq_endMinute call)]"

definition GetCallTransferResponse_proxy :: "'p parcel \<Rightarrow> int \<Rightarrow> CallForwardQueryInfoList \<Rightarrow> ('p, errcode + int) state" where
  "GetCallTransferResponse_proxy P slot cFQueryList =
     WriteSsBaseResultCommonInfo P slot (fl_result cFQueryList)
       (or_fail TELEPHONY_ERR_WRITE_DATA_FAIL (write_all P [Int32 (fl_callSize cFQueryList), Int32 (fl_flag cFQueryList)])
         (or_fail TELEPHONY_ERR_WRITE_DATA_FAIL (WriteInt32 P (int (length (fl_calls cFQueryList))))
           (or_fail TELEPHONY_ERR_WRITE_DATA_FAIL (write_all P (concat (map forward_items (fl_calls cFQueryList))))
             (State_Monad.return (Inr IMS_GET_CALL_FORWARD)))))"

section \<open>Events\<close>

definition GetImsSuppExtResponse_proxy :: "'p parcel \<Rightarrow> int \<Rightarrow> int \<Rightarrow> int \<Rightarrow> ('p, errcode + int) state" where
  "GetImsSuppExtResponse_proxy P slot code callId =
     WriteCommonInfo P slot
       (or_fail TELEPHONY_ERR_WRITE_DATA_FAIL (WriteInt32 P code)
         (or_fail TELEPHONY_ERR_WRITE_DATA_FAIL (WriteInt32 P callId) (State_Monad.return (Inr IMS_SUPP_EXT_CHANGED))))"

definition ReceiveUpdateCallMediaModeRequest_proxy :: "'p parcel \<Rightarrow> int \<Rightarrow> ImsCallModeReceiveInfo \<Rightarrow> ('p, errcode + int) state" where
  "ReceiveUpdateCallMediaModeRequest_proxy P slot callModeRequest =
     WriteCommonInfo P slot
       (or_fail TELEPHONY_ERR_WRITE_DATA_FAIL (WriteRawData P (BImsCallModeReceiveInfo callModeRequest)) (State_Monad.return (Inr IMS_RECV_CALL_MEDIA_MODE_REQUEST)))"

definition ReceiveUpdateCallMediaModeResponse_proxy :: "'p parcel \<Rightarrow> int \<Rightarrow> ImsCallModeReceiveInfo \<Rightarrow> ('p, errcode + int) state" where
  "ReceiveUpdateCallMediaModeResponse_proxy P slot callModeResponse =
     WriteCommonInfo P slot
       (or_fail TELEPHONY_ERR_WRITE_DATA_FAIL (WriteRawData P (BImsCallModeReceiveInfo callModeResponse)) (State_Monad.return (Inr IMS_RECV_CALL_MEDIA_MODE_RESPONSE)))"

definition CallSessionEventChanged_proxy :: "'p parcel \<Rightarrow> int \<Rightarrow> ImsCallSessionEventInfo \<Rightarrow> ('p, errcode + int) state" where
  "CallSessionEventChanged_proxy P slot callSessionEventInfo =
     WriteCommonInfo P slot
       (or_fail TELEPHONY_ERR_WRITE_DATA_FAIL (WriteRawData P (BImsCallSessionEventInfo callSessionEventInfo)) (State_Monad.return (Inr IMS_CALL_SESSION_EVENT_CHANGED)))"

definition PeerDimensionsChanged_proxy :: "'p parcel \<Rightarrow> int \<Rightarrow> ImsCallPeerDimensionsInfo \<Rightarrow> ('p, errcode + int) state" where
  "PeerDimensionsChanged_proxy P slot callPeerDimensionsInfo =
     WriteCommonInfo P slot
       (or_fail TELEPHONY_ERR_WRITE_DATA_FAIL (WriteRawData P (BImsCallPeerDimensionsInfo callPeerDimensionsInfo)) (State_Monad.return (Inr IMS_CALL_PEER_DIMENSIONS_CHANGED)))"

definition CallDataUsageChanged_proxy :: "'p parcel \<Rightarrow> int \<Rightarrow> ImsCallDataUsageInfo \<Rightarrow> ('p, errcode + int) state" where
  "CallDataUsageChanged_proxy P slot callDataUsageInfo =
     WriteCommonInfo P slot
       (or_fail TELEPHONY_ERR_WRITE_DATA_FAIL (WriteRawData P (BImsCallDataUsageInfo callDataUsageInfo)) (State_Monad.return (Inr IMS_CALL_DATA_USAGE_CHANGED)))"

definition CameraCapabilitiesChanged_proxy :: "'p parcel \<Rightarrow> int \<Rightarrow> CameraCapabilitiesInfo \<Rightarrow> ('p, errcode + int) state" where
  "CameraCapabilitiesChanged_proxy P slot cameraCapabilitiesInfo =
     WriteCommonInfo P slot
       (or_fail TELEPHONY_ERR_WRITE_DATA_FAIL (WriteRawData P (BCameraCapabilitiesInfo cameraCapabilitiesInfo)) (State_Monad.return (Inr IMS_CALL_CAMERA_CAPABILITIES_CHANGED)))"

definition GetImsCapResponse_proxy :: "'p parcel \<Rightarrow> int \<Rightarrow> ImsCapFromChip \<Rightarrow> ('p, errcode + int) state" where
  "GetImsCapResponse_proxy P slot imsCap =
     WriteCommonInfo P slot
       (or_fail TELEPHONY_ERR_WRITE_DATA_FAIL
         (write_all P [Int32 (volteCap imsCap), Int32 (vowifiCap imsCap), Int32 (vonrCap imsCap), Int32 (vtCap imsCap)])
         (State_Monad.return (Inr IMS_GET_IMS_CAPABILITY)))"

definition ReceiveUpdateImsCallRttEvtResponse_proxy :: "'p parcel \<Rightarrow> int \<Rightarrow> ImsCallRttEventInfo \<Rightarrow> ('p, errcode + int) state" where
  "ReceiveUpdateImsCallRttEvtResponse_proxy P slot rttEvtInfo =
     WriteCommonInfo P slot
       (or_fail TELEPHONY_ERR_WRITE_DATA_FAIL (WriteInt32 P (re_callId rttEvtInfo))
         (or_fail TELEPHONY_ERR_WRITE_DATA_FAIL (WriteInt32 P (re_eventType rttEvtInfo))
           (or_fail TELEPHONY_ERR_WRITE_DATA_FAIL (WriteInt32 P (re_reason rttEvtInfo))
             (State_Monad.return (Inr IMS_UPGRADE_OR_DOWNGRADE_RTT_EVT)))))"

definition ReceiveUpdateImsCallRttErrResponse_proxy :: "'p parcel \<Rightarrow> int \<Rightarrow> ImsCallRttErrorInfo \<Rightarrow> ('p, errcode + int) state" where
  "ReceiveUpdateImsCallRttErrResponse_proxy P slot rttErrInfo =
     WriteCommonInfo P slot
       (or_fail TELEPHONY_ERR_WRITE_DATA_FAIL (WriteInt32 P (rr_callId rttErrInfo))
         (or_fail TELEPHONY_ERR_WRITE_DATA_FAIL (WriteInt32 P (rr_causeCode rttErrInfo))
           (or_fail TELEPHONY_ERR_WRITE_DATA_FAIL (WriteInt32 P (rr_operationType rttErrInfo))
             (or_fail TELEPHONY_ERR_WRITE_DATA_FAIL (WriteString P (rr_reasonText rttErrInfo))
               (State_Monad.return (Inr IMS_UPGRADE_OR_DOWNGRADE_RTT_ERR))))))"

section \<open>Every callback\<close>

fun ims_proxy :: "'p parcel \<Rightarrow> ims_callback \<Rightarrow> ('p, errcode + int) state" where
  "ims_proxy P (CbResponse MDial slot info) = DialResponse_proxy P slot info"
| "ims_proxy P (CbResponse MHangUp slot info) = HangUpResponse_proxy P slot info"
| "ims_proxy P (CbResponse MReject slot info) = RejectWithReasonResponse_proxy P slot info"
| "ims_proxy P (CbResponse MAnswer slot info) = AnswerResponse_proxy P slot info"
| "ims_proxy P (CbResponse MHold slot info) = HoldCallResponse_proxy P slot info"
| "ims_proxy P (CbResponse MUnHold slot info) = UnHoldCallResponse_proxy P slot info"
| "ims_proxy P (CbResponse MSwitch slot info) = SwitchCallResponse_proxy P slot info"
| "ims_proxy P (CbResponse MStartDtmf slot info) = StartDtmfResponse_proxy P slot info"
| "ims_proxy P (CbResponse MStopDtmf slot info) = StopDtmfResponse_proxy P slot info"
| "ims_proxy P (CbResponse MStartRtt slot info) = StartRttResponse_proxy P slot info"
| "ims_proxy P (CbResponse MStopRtt slot info) = StopRttResponse_proxy P slot info"
| "ims_proxy P (CbResponse MGetCallsData slot info) = GetImsCallsDataResponse_proxy P slot info"
| "ims_proxy P (CbResponse MSetSwitch slot info) = SetImsSwitchResponse_proxy P slot info"
| "ims_proxy P (CbResponse MGetSwitch slot info) = GetImsSwitchResponse_proxy P slot info"
| "ims_proxy P (CbResponse MCombine slot info) = CombineConferenceResponse_proxy P slot info"
| "ims_proxy P (CbResponse MInvite slot info) = InviteToConferenceResponse_proxy P slot info"
| "ims_proxy P (CbSs MSetClip slot r) = SetClipResponse_proxy P slot r"
| "ims_proxy P (CbSs MSetClir slot r) = SetClirResponse_proxy P slot r"
| "ims_proxy P (CbSs MSetTransfer slot r) = SetCallTransferResponse_proxy P slot r"
| "ims_proxy P (CbSs MSetRestriction slot r) = SetCallRestrictionResponse_proxy P slot r"
| "ims_proxy P (CbSs MSetWaiting slot r) = SetCallWaitingResponse_proxy P slot r"
| "ims_proxy P (CbSs MSetColr slot r) = SetColrResponse_proxy P slot r"
| "ims_proxy P (CbSs MSetColp slot r) = SetColpResponse_proxy P slot r"
| "ims_proxy P (CbLine MClip slot l) = GetClipResponse_proxy P slot l"
| "ims_proxy P (CbLine MClir slot l) = GetClirResponse_proxy P slot l"
| "ims_proxy P (CbLine MColr slot l) = GetColrResponse_proxy P slot l"
| "ims_proxy P (CbLine MColp slot l) = GetColpResponse_proxy P slot l"
| "ims_proxy P (CbStatus MRestriction slot t) = GetCallRestrictionResponse_proxy P slot t"
| "ims_proxy P (CbStatus MWaiting slot t) = GetCallWaitingResponse_proxy P slot t"
| "ims_proxy P (CbSendDtmf slot info idx) = SendDtmfResponse_proxy P slot info idx"
| "ims_proxy P (CbStateChange slot) = CallStateChangeReport_proxy P slot"
| "ims_proxy P (CbCallsData slot l) = GetImsCallsDataResponse_list_proxy P slot l"
| "ims_proxy P (CbSwitchActive slot n) = GetImsSwitchResponse_active_proxy P slot n"
| "ims_proxy P (CbRingBack slot v) = CallRingBackReport_proxy P slot v"
| "ims_proxy P (CbSetMute slot v) = SetMuteResponse_proxy P slot v"
| "ims_proxy P (CbFailReason slot r txt) = LastCallFailReasonResponse_proxy P slot r txt"
| "ims_proxy P (CbTransfer slot l) = GetCallTransferResponse_proxy P slot l"
| "ims_proxy P (CbSuppExt slot c callId) = GetImsSuppExtResponse_proxy P slot c callId"
| "ims_proxy P (CbMode MModeRequest slot v) = ReceiveUpdateCallMediaModeRequest_proxy P slot v"
| "ims_proxy P (CbMode MModeResponse slot v) = ReceiveUpdateCallMediaModeResponse_proxy P slot v"
| "ims_proxy P (CbSession slot v) = CallSessionEventChanged_proxy P slot v"
| "ims_proxy P (CbPeer slot v) = PeerDimensionsChanged_proxy P slot v"
| "ims_proxy P (CbUsage slot v) = CallDataUsageChanged_proxy P slot v"
| "ims_proxy P (CbCamera slot v) = CameraCapabilitiesChanged_proxy P slot v"
| "ims_proxy P (CbImsCap slot v) = GetImsCapResponse_proxy P slot v"
| "ims_proxy P (CbRttEvt slot v) = ReceiveUpdateImsCallRttEvtResponse_proxy P slot v"
| "ims_proxy P (CbRttErr slot v) = ReceiveUpdateImsCallRttErrResponse_proxy P slot v"

end
