(* ===== verification/ImsCallbackStub.thy ===== *)
theory ImsCallbackStub
  imports ImsCallback
begin

text \<open>
  The callbacks of the IMS service, on this service's side: \<^verbatim>\<open>ImsCallCallbackStub\<close>
  (\<^verbatim>\<open>services/ims_service_interaction/src/ims_call_callback_stub.cpp\<close>). A method \<open>On\<dots>Inner\<close> reads the arguments: it refuses
  the request with a code, ignores it (the index of a supplementary service that no command has), or calls the method
  of the callback, whose result goes into the reply. That method sends an event to the handler of
  the slot, or repeats a supplementary service over CS (\<open>SupplementAnswers\<close>). The identifiers of events and the handler registry belong to other
  repositories: an event is named by its enumerator, and \<open>e_cbHandler\<close>, \<open>e_sendTelEvent\<close> say which handlers are
  registered with the IMS client and whether an event could be sent.
\<close>

datatype 'c decoded = Refuse errcode | Ignore | Call 'c

section \<open>Reading\<close>

definition read_response :: "'p parcel \<Rightarrow> response_method \<Rightarrow> ('p, ims_callback decoded) state" where
  "read_response P m = do {
     slot \<leftarrow> ReadInt32 P;
     info \<leftarrow> ReadRawData P TRadioResponseInfo;
     State_Monad.return (case info of
       Some (BRadioResponseInfo i) \<Rightarrow> Call (CbResponse m slot i)
     | _ \<Rightarrow> Refuse TELEPHONY_ERR_ARGUMENT_INVALID) }"

definition OnDialResponseInner :: "'p parcel \<Rightarrow> ('p, ims_callback decoded) state" where
  "OnDialResponseInner P = read_response P MDial"

definition OnHangUpResponseInner :: "'p parcel \<Rightarrow> ('p, ims_callback decoded) state" where
  "OnHangUpResponseInner P = read_response P MHangUp"

definition OnRejectResponseInner :: "'p parcel \<Rightarrow> ('p, ims_callback decoded) state" where
  "OnRejectResponseInner P = read_response P MReject"

definition OnAnswerResponseInner :: "'p parcel \<Rightarrow> ('p, ims_callback decoded) state" where
  "OnAnswerResponseInner P = read_response P MAnswer"

definition OnHoldCallResponseInner :: "'p parcel \<Rightarrow> ('p, ims_callback decoded) state" where
  "OnHoldCallResponseInner P = read_response P MHold"

definition OnUnHoldCallResponseInner :: "'p parcel \<Rightarrow> ('p, ims_callback decoded) state" where
  "OnUnHoldCallResponseInner P = read_response P MUnHold"

definition OnSwitchCallResponseInner :: "'p parcel \<Rightarrow> ('p, ims_callback decoded) state" where
  "OnSwitchCallResponseInner P = read_response P MSwitch"

definition OnStartDtmfResponseInner :: "'p parcel \<Rightarrow> ('p, ims_callback decoded) state" where
  "OnStartDtmfResponseInner P = read_response P MStartDtmf"

definition OnStopDtmfResponseInner :: "'p parcel \<Rightarrow> ('p, ims_callback decoded) state" where
  "OnStopDtmfResponseInner P = read_response P MStopDtmf"

definition OnStartRttResponseInner :: "'p parcel \<Rightarrow> ('p, ims_callback decoded) state" where
  "OnStartRttResponseInner P = read_response P MStartRtt"

definition OnStopRttResponseInner :: "'p parcel \<Rightarrow> ('p, ims_callback decoded) state" where
  "OnStopRttResponseInner P = read_response P MStopRtt"

definition OnSetImsSwitchResponseInner :: "'p parcel \<Rightarrow> ('p, ims_callback decoded) state" where
  "OnSetImsSwitchResponseInner P = read_response P MSetSwitch"

definition OnCombineConferenceResponseInner :: "'p parcel \<Rightarrow> ('p, ims_callback decoded) state" where
  "OnCombineConferenceResponseInner P = read_response P MCombine"

definition OnInviteToConferenceResponseInner :: "'p parcel \<Rightarrow> ('p, ims_callback decoded) state" where
  "OnInviteToConferenceResponseInner P = read_response P MInvite"

definition OnSendDtmfResponseInner :: "'p parcel \<Rightarrow> ('p, ims_callback decoded) state" where
  "OnSendDtmfResponseInner P = do {
     slot \<leftarrow> ReadInt32 P;
     callIndex \<leftarrow> ReadInt32 P;
     info \<leftarrow> ReadRawData P TRadioResponseInfo;
     State_Monad.return (case info of
       Some (BRadioResponseInfo i) \<Rightarrow> Call (CbSendDtmf slot i callIndex)
     | _ \<Rightarrow> Refuse TELEPHONY_ERR_ARGUMENT_INVALID) }"

definition OnCallStateChangeReportInner :: "'p parcel \<Rightarrow> ('p, ims_callback decoded) state" where
  "OnCallStateChangeReportInner P = do {
     slot \<leftarrow> ReadInt32 P;
     State_Monad.return (Call (CbStateChange slot)) }"

text \<open>The two callbacks with two kinds of answers try the block first.\<close>

definition OnGetImsSwitchResponseInner :: "'p parcel \<Rightarrow> ('p, ims_callback decoded) state" where
  "OnGetImsSwitchResponseInner P = do {
     slot \<leftarrow> ReadInt32 P;
     info \<leftarrow> ReadRawData P TRadioResponseInfo;
     (case info of
        Some (BRadioResponseInfo i) \<Rightarrow> State_Monad.return (Call (CbResponse MGetSwitch slot i))
      | _ \<Rightarrow> do { active \<leftarrow> ReadInt32 P; State_Monad.return (Call (CbSwitchActive slot active)) }) }"

definition read_call :: "'p parcel \<Rightarrow> ('p, ImsCurrentCall) state" where
  "read_call P = do {
     idx \<leftarrow> ReadInt32 P;
     dir \<leftarrow> ReadInt32 P;
     st \<leftarrow> ReadTelCallState P;
     mode \<leftarrow> ReadInt32 P;
     mpty \<leftarrow> ReadInt32 P;
     domain \<leftarrow> ReadInt32 P;
     ty \<leftarrow> ReadImsCallType P;
     num \<leftarrow> ReadString P;
     nam \<leftarrow> ReadString P;
     kind \<leftarrow> ReadInt32 P;
     alpha \<leftarrow> ReadString P;
     toa \<leftarrow> ReadInt32 P;
     tone \<leftarrow> ReadInt32 P;
     initial \<leftarrow> ReadInt32 P;
     presentation \<leftarrow> ReadInt32 P;
     box \<leftarrow> ReadInt32 P;
     rtt \<leftarrow> ReadInt32 P;
     channel \<leftarrow> ReadInt32 P;
     ims \<leftarrow> ReadInt32 P;
     State_Monad.return
       \<lparr>m_index = idx, m_dir = dir, m_state = st, m_mode = mode, m_mpty = mpty, m_voiceDomain = domain,
        m_callType = ty, m_number = num, m_name = nam, m_type = kind, m_alpha = alpha, m_toa = toa,
        m_toneType = tone, m_callInitialType = initial, m_namePresentation = presentation,
        m_newCallUseBox = box, m_rttState = rtt, m_rttChannelId = channel, m_imsDomain = ims\<rparr> }"

definition MAX_SIZE :: int where "MAX_SIZE = 10"

definition OnGetImsCallsDataResponseInner :: "'p parcel \<Rightarrow> ('p, ims_callback decoded) state" where
  "OnGetImsCallsDataResponseInner P = do {
     slot \<leftarrow> ReadInt32 P;
     info \<leftarrow> ReadRawData P TRadioResponseInfo;
     (case info of
        Some (BRadioResponseInfo i) \<Rightarrow> State_Monad.return (Call (CbResponse MGetCallsData slot i))
      | _ \<Rightarrow> do {
          size \<leftarrow> ReadInt32 P;
          flg \<leftarrow> ReadInt32 P;
          len \<leftarrow> ReadInt32 P;
          if len < 0 \<or> len > MAX_SIZE then State_Monad.return (Refuse TELEPHONY_ERR_FAIL)
          else do {
            infos \<leftarrow> read_n (nat len) (read_call P);
            State_Monad.return (Call (CbCallsData slot \<lparr>m_callSize = size, m_flag = flg, m_calls = infos\<rparr>)) } }) }"

definition OnSetMuteResponseInner :: "'p parcel \<Rightarrow> ('p, ims_callback decoded) state" where
  "OnSetMuteResponseInner P = do {
     slot \<leftarrow> ReadInt32 P;
     info \<leftarrow> ReadRawData P TMuteControlResponse;
     State_Monad.return (case info of
       Some (BMuteControlResponse i) \<Rightarrow> Call (CbSetMute slot i)
     | _ \<Rightarrow> Refuse TELEPHONY_ERR_ARGUMENT_INVALID) }"

definition OnCallRingBackReportInner :: "'p parcel \<Rightarrow> ('p, ims_callback decoded) state" where
  "OnCallRingBackReportInner P = do {
     slot \<leftarrow> ReadInt32 P;
     info \<leftarrow> ReadRawData P TRingbackVoice;
     State_Monad.return (case info of
       Some (BRingbackVoice i) \<Rightarrow> Call (CbRingBack slot i)
     | _ \<Rightarrow> Refuse TELEPHONY_ERR_ARGUMENT_INVALID) }"

definition OnLastCallFailReasonResponseInner :: "'p parcel \<Rightarrow> ('p, ims_callback decoded) state" where
  "OnLastCallFailReasonResponseInner P = do {
     slot \<leftarrow> ReadInt32 P;
     reason \<leftarrow> ReadReason P;
     message \<leftarrow> ReadString P;
     State_Monad.return (Call (CbFailReason slot reason message)) }"

definition OnReceiveUpdateCallMediaModeRequestInner :: "'p parcel \<Rightarrow> ('p, ims_callback decoded) state" where
  "OnReceiveUpdateCallMediaModeRequestInner P = do {
     slot \<leftarrow> ReadInt32 P;
     info \<leftarrow> ReadRawData P TImsCallModeReceiveInfo;
     State_Monad.return (case info of
       Some (BImsCallModeReceiveInfo i) \<Rightarrow> Call (CbMode MModeRequest slot i)
     | _ \<Rightarrow> Refuse TELEPHONY_ERR_ARGUMENT_INVALID) }"

definition OnReceiveUpdateCallMediaModeResponseInner :: "'p parcel \<Rightarrow> ('p, ims_callback decoded) state" where
  "OnReceiveUpdateCallMediaModeResponseInner P = do {
     slot \<leftarrow> ReadInt32 P;
     info \<leftarrow> ReadRawData P TImsCallModeReceiveInfo;
     State_Monad.return (case info of
       Some (BImsCallModeReceiveInfo i) \<Rightarrow> Call (CbMode MModeResponse slot i)
     | _ \<Rightarrow> Refuse TELEPHONY_ERR_ARGUMENT_INVALID) }"

definition OnCallSessionEventChangedInner :: "'p parcel \<Rightarrow> ('p, ims_callback decoded) state" where
  "OnCallSessionEventChangedInner P = do {
     slot \<leftarrow> ReadInt32 P;
     info \<leftarrow> ReadRawData P TImsCallSessionEventInfo;
     State_Monad.return (case info of
       Some (BImsCallSessionEventInfo i) \<Rightarrow> Call (CbSession slot i)
     | _ \<Rightarrow> Refuse TELEPHONY_ERR_ARGUMENT_INVALID) }"

definition OnPeerDimensionsChangedInner :: "'p parcel \<Rightarrow> ('p, ims_callback decoded) state" where
  "OnPeerDimensionsChangedInner P = do {
     slot \<leftarrow> ReadInt32 P;
     info \<leftarrow> ReadRawData P TImsCallPeerDimensionsInfo;
     State_Monad.return (case info of
       Some (BImsCallPeerDimensionsInfo i) \<Rightarrow> Call (CbPeer slot i)
     | _ \<Rightarrow> Refuse TELEPHONY_ERR_ARGUMENT_INVALID) }"

definition OnCallDataUsageChangedInner :: "'p parcel \<Rightarrow> ('p, ims_callback decoded) state" where
  "OnCallDataUsageChangedInner P = do {
     slot \<leftarrow> ReadInt32 P;
     info \<leftarrow> ReadRawData P TImsCallDataUsageInfo;
     State_Monad.return (case info of
       Some (BImsCallDataUsageInfo i) \<Rightarrow> Call (CbUsage slot i)
     | _ \<Rightarrow> Refuse TELEPHONY_ERR_ARGUMENT_INVALID) }"

definition OnCameraCapabilitiesChangedInner :: "'p parcel \<Rightarrow> ('p, ims_callback decoded) state" where
  "OnCameraCapabilitiesChangedInner P = do {
     slot \<leftarrow> ReadInt32 P;
     info \<leftarrow> ReadRawData P TCameraCapabilitiesInfo;
     State_Monad.return (case info of
       Some (BCameraCapabilitiesInfo i) \<Rightarrow> Call (CbCamera slot i)
     | _ \<Rightarrow> Refuse TELEPHONY_ERR_ARGUMENT_INVALID) }"

definition OnReceiveUpdateCallRttEvtResponseInner :: "'p parcel \<Rightarrow> ('p, ims_callback decoded) state" where
  "OnReceiveUpdateCallRttEvtResponseInner P = do {
     slot \<leftarrow> ReadInt32 P;
     callId \<leftarrow> ReadInt32 P;
     evt \<leftarrow> ReadInt32 P;
     reason \<leftarrow> ReadInt32 P;
     State_Monad.return (Call (CbRttEvt slot \<lparr>re_callId = callId, re_eventType = evt, re_reason = reason\<rparr>)) }"

definition OnReceiveUpdateCallRttErrResponseInner :: "'p parcel \<Rightarrow> ('p, ims_callback decoded) state" where
  "OnReceiveUpdateCallRttErrResponseInner P = do {
     slot \<leftarrow> ReadInt32 P;
     callId \<leftarrow> ReadInt32 P;
     cause \<leftarrow> ReadInt32 P;
     operation \<leftarrow> ReadInt32 P;
     reason \<leftarrow> ReadString P;
     State_Monad.return (Call (CbRttErr slot
       \<lparr>rr_callId = callId, rr_operationType = operation, rr_causeCode = cause, rr_reasonText = reason\<rparr>)) }"

definition OnGetImsCapResponseInner :: "'p parcel \<Rightarrow> ('p, ims_callback decoded) state" where
  "OnGetImsCapResponseInner P = do {
     slot \<leftarrow> ReadInt32 P;
     volte \<leftarrow> ReadInt32 P;
     vowifi \<leftarrow> ReadInt32 P;
     vonr \<leftarrow> ReadInt32 P;
     vt \<leftarrow> ReadInt32 P;
     State_Monad.return (Call (CbImsCap slot \<lparr>volteCap = volte, vowifiCap = vowifi, vonrCap = vonr, vtCap = vt\<rparr>)) }"

definition OnImsSuppExtResponseInner :: "'p parcel \<Rightarrow> ('p, ims_callback decoded) state" where
  "OnImsSuppExtResponseInner P = do {
     slot \<leftarrow> ReadInt32 P;
     code \<leftarrow> ReadInt32 P;
     callId \<leftarrow> ReadInt32 P;
     State_Monad.return (Call (CbSuppExt slot code callId)) }"

text \<open>Supplementary services\<close>

definition read_base :: "'p parcel \<Rightarrow> ('p, SsBaseResult) state" where
  "read_base P = do {
     idx \<leftarrow> ReadInt32 P;
     res \<leftarrow> ReadErrcode P;
     reason \<leftarrow> ReadInt32 P;
     message \<leftarrow> ReadString P;
     State_Monad.return \<lparr>sb_index = idx, sb_result = res, sb_reason = reason, sb_message = message\<rparr> }"

definition unless_invalid :: "SsBaseResult \<Rightarrow> ims_callback \<Rightarrow> ims_callback decoded" where
  "unless_invalid r cb = (if sb_index r = INVALID_INDEX then Ignore else Call cb)"

definition OnSetClipResponseInner :: "'p parcel \<Rightarrow> ('p, ims_callback decoded) state" where
  "OnSetClipResponseInner P = do {
     slot \<leftarrow> ReadInt32 P;
     resultInfo \<leftarrow> read_base P;
     State_Monad.return (unless_invalid resultInfo (CbSs MSetClip slot resultInfo)) }"

definition OnSetClirResponseInner :: "'p parcel \<Rightarrow> ('p, ims_callback decoded) state" where
  "OnSetClirResponseInner P = do {
     slot \<leftarrow> ReadInt32 P;
     resultInfo \<leftarrow> read_base P;
     State_Monad.return (unless_invalid resultInfo (CbSs MSetClir slot resultInfo)) }"

definition OnSetCallTransferResponseInner :: "'p parcel \<Rightarrow> ('p, ims_callback decoded) state" where
  "OnSetCallTransferResponseInner P = do {
     slot \<leftarrow> ReadInt32 P;
     resultInfo \<leftarrow> read_base P;
     State_Monad.return (unless_invalid resultInfo (CbSs MSetTransfer slot resultInfo)) }"

definition OnSetCallRestrictionResponseInner :: "'p parcel \<Rightarrow> ('p, ims_callback decoded) state" where
  "OnSetCallRestrictionResponseInner P = do {
     slot \<leftarrow> ReadInt32 P;
     resultInfo \<leftarrow> read_base P;
     State_Monad.return (unless_invalid resultInfo (CbSs MSetRestriction slot resultInfo)) }"

definition OnSetCallWaitingResponseInner :: "'p parcel \<Rightarrow> ('p, ims_callback decoded) state" where
  "OnSetCallWaitingResponseInner P = do {
     slot \<leftarrow> ReadInt32 P;
     resultInfo \<leftarrow> read_base P;
     State_Monad.return (unless_invalid resultInfo (CbSs MSetWaiting slot resultInfo)) }"

definition OnSetColrResponseInner :: "'p parcel \<Rightarrow> ('p, ims_callback decoded) state" where
  "OnSetColrResponseInner P = do {
     slot \<leftarrow> ReadInt32 P;
     resultInfo \<leftarrow> read_base P;
     State_Monad.return (unless_invalid resultInfo (CbSs MSetColr slot resultInfo)) }"

definition OnSetColpResponseInner :: "'p parcel \<Rightarrow> ('p, ims_callback decoded) state" where
  "OnSetColpResponseInner P = do {
     slot \<leftarrow> ReadInt32 P;
     resultInfo \<leftarrow> read_base P;
     State_Monad.return (unless_invalid resultInfo (CbSs MSetColp slot resultInfo)) }"

definition OnGetClipResponseInner :: "'p parcel \<Rightarrow> ('p, ims_callback decoded) state" where
  "OnGetClipResponseInner P = do {
     slot \<leftarrow> ReadInt32 P;
     base \<leftarrow> read_base P;
     action \<leftarrow> ReadInt32 P;
     st \<leftarrow> ReadInt32 P;
     State_Monad.return (unless_invalid base (CbLine MClip slot \<lparr>lr_result = base, lr_action = action, lr_stat = st\<rparr>)) }"

definition OnGetClirResponseInner :: "'p parcel \<Rightarrow> ('p, ims_callback decoded) state" where
  "OnGetClirResponseInner P = do {
     slot \<leftarrow> ReadInt32 P;
     base \<leftarrow> read_base P;
     action \<leftarrow> ReadInt32 P;
     st \<leftarrow> ReadInt32 P;
     State_Monad.return (unless_invalid base (CbLine MClir slot \<lparr>lr_result = base, lr_action = action, lr_stat = st\<rparr>)) }"

definition OnGetColrResponseInner :: "'p parcel \<Rightarrow> ('p, ims_callback decoded) state" where
  "OnGetColrResponseInner P = do {
     slot \<leftarrow> ReadInt32 P;
     base \<leftarrow> read_base P;
     action \<leftarrow> ReadInt32 P;
     st \<leftarrow> ReadInt32 P;
     State_Monad.return (unless_invalid base (CbLine MColr slot \<lparr>lr_result = base, lr_action = action, lr_stat = st\<rparr>)) }"

definition OnGetColpResponseInner :: "'p parcel \<Rightarrow> ('p, ims_callback decoded) state" where
  "OnGetColpResponseInner P = do {
     slot \<leftarrow> ReadInt32 P;
     base \<leftarrow> read_base P;
     action \<leftarrow> ReadInt32 P;
     st \<leftarrow> ReadInt32 P;
     State_Monad.return (unless_invalid base (CbLine MColp slot \<lparr>lr_result = base, lr_action = action, lr_stat = st\<rparr>)) }"

definition OnGetCallRestrictionResponseInner :: "'p parcel \<Rightarrow> ('p, ims_callback decoded) state" where
  "OnGetCallRestrictionResponseInner P = do {
     slot \<leftarrow> ReadInt32 P;
     base \<leftarrow> read_base P;
     st \<leftarrow> ReadInt32 P;
     classx \<leftarrow> ReadInt32 P;
     State_Monad.return (unless_invalid base (CbStatus MRestriction slot \<lparr>st_result = base, st_status = st, st_classCw = classx\<rparr>)) }"

definition OnGetCallWaitingResponseInner :: "'p parcel \<Rightarrow> ('p, ims_callback decoded) state" where
  "OnGetCallWaitingResponseInner P = do {
     slot \<leftarrow> ReadInt32 P;
     base \<leftarrow> read_base P;
     st \<leftarrow> ReadInt32 P;
     classx \<leftarrow> ReadInt32 P;
     State_Monad.return (unless_invalid base (CbStatus MWaiting slot \<lparr>st_result = base, st_status = st, st_classCw = classx\<rparr>)) }"

definition read_forward :: "'p parcel \<Rightarrow> ('p, CallForwardQueryResult) state" where
  "read_forward P = do {
     serial \<leftarrow> ReadInt32 P;
     res \<leftarrow> ReadErrcode P;
     st \<leftarrow> ReadInt32 P;
     classx \<leftarrow> ReadInt32 P;
     num \<leftarrow> ReadString P;
     ty \<leftarrow> ReadInt32 P;
     reason \<leftarrow> ReadInt32 P;
     time \<leftarrow> ReadInt32 P;
     sh \<leftarrow> ReadInt32 P;
     sm \<leftarrow> ReadInt32 P;
     eh \<leftarrow> ReadInt32 P;
     em \<leftarrow> ReadInt32 P;
     State_Monad.return
       \<lparr>fq_serial = serial, fq_result = res, fq_status = st, fq_classx = classx, fq_number = num, fq_type = ty,
        fq_reason = reason, fq_time = time, fq_startHour = sh, fq_startMinute = sm, fq_endHour = eh, fq_endMinute = em\<rparr> }"

definition OnGetCallTransferResponseInner :: "'p parcel \<Rightarrow> ('p, ims_callback decoded) state" where
  "OnGetCallTransferResponseInner P = do {
     slot \<leftarrow> ReadInt32 P;
     base \<leftarrow> read_base P;
     size \<leftarrow> ReadInt32 P;
     flg \<leftarrow> ReadInt32 P;
     len \<leftarrow> ReadInt32 P;
     if len < 0 \<or> len > MAX_SIZE then State_Monad.return (Refuse TELEPHONY_ERR_FAIL)
     else do {
       infos \<leftarrow> read_n (nat len) (read_forward P);
       State_Monad.return (unless_invalid base (CbTransfer slot
         \<lparr>fl_result = base, fl_callSize = size, fl_flag = flg, fl_calls = infos\<rparr>)) } }"

section \<open>The map of requests\<close>

definition InitCallBasicFuncMap :: "'p parcel \<Rightarrow> (int \<times> ('p, ims_callback decoded) state) list" where
  "InitCallBasicFuncMap P =
    [(IMS_DIAL, OnDialResponseInner P),
     (IMS_HANG_UP, OnHangUpResponseInner P),
     (IMS_REJECT, OnRejectResponseInner P),
     (IMS_ANSWER, OnAnswerResponseInner P),
     (IMS_HOLD, OnHoldCallResponseInner P),
     (IMS_UN_HOLD, OnUnHoldCallResponseInner P),
     (IMS_SWITCH, OnSwitchCallResponseInner P),
     (IMS_CALL_STATE_CHANGE, OnCallStateChangeReportInner P),
     (IMS_LAST_CALL_FAIL_REASON, OnLastCallFailReasonResponseInner P),
     (IMS_CALL_CRING, OnCallRingBackReportInner P),
     (IMS_COMBINE_CONFERENCE, OnCombineConferenceResponseInner P),
     (IMS_INVITE_TO_CONFERENCE, OnInviteToConferenceResponseInner P),
     (IMS_RECV_CALL_MEDIA_MODE_REQUEST, OnReceiveUpdateCallMediaModeRequestInner P),
     (IMS_RECV_CALL_MEDIA_MODE_RESPONSE, OnReceiveUpdateCallMediaModeResponseInner P),
     (IMS_CALL_SESSION_EVENT_CHANGED, OnCallSessionEventChangedInner P),
     (IMS_CALL_PEER_DIMENSIONS_CHANGED, OnPeerDimensionsChangedInner P),
     (IMS_CALL_DATA_USAGE_CHANGED, OnCallDataUsageChangedInner P),
     (IMS_CALL_CAMERA_CAPABILITIES_CHANGED, OnCameraCapabilitiesChangedInner P)]"

definition InitConfigFuncMap :: "'p parcel \<Rightarrow> (int \<times> ('p, ims_callback decoded) state) list" where
  "InitConfigFuncMap P =
    [(IMS_START_DTMF, OnStartDtmfResponseInner P),
     (IMS_SEND_DTMF, OnSendDtmfResponseInner P),
     (IMS_STOP_DTMF, OnStopDtmfResponseInner P),
     (IMS_START_RTT, OnStartRttResponseInner P),
     (IMS_STOP_RTT, OnStopRttResponseInner P),
     (IMS_UPGRADE_OR_DOWNGRADE_RTT_EVT, OnReceiveUpdateCallRttEvtResponseInner P),
     (IMS_UPGRADE_OR_DOWNGRADE_RTT_ERR, OnReceiveUpdateCallRttErrResponseInner P),
     (IMS_SET_SWITCH_STATUS, OnSetImsSwitchResponseInner P),
     (IMS_GET_SWITCH_STATUS, OnGetImsSwitchResponseInner P),
     (IMS_GET_CALLS_DATA, OnGetImsCallsDataResponseInner P),
     (IMS_SET_MUTE, OnSetMuteResponseInner P),
     (IMS_GET_IMS_CAPABILITY, OnGetImsCapResponseInner P),
     (IMS_SUPP_EXT_CHANGED, OnImsSuppExtResponseInner P)]"

definition InitSupplementFuncMap :: "'p parcel \<Rightarrow> (int \<times> ('p, ims_callback decoded) state) list" where
  "InitSupplementFuncMap P =
    [(IMS_SET_CALL_CLIP, OnSetClipResponseInner P),
     (IMS_GET_CALL_CLIP, OnGetClipResponseInner P),
     (IMS_GET_CALL_CLIR, OnGetClirResponseInner P),
     (IMS_SET_CALL_CLIR, OnSetClirResponseInner P),
     (IMS_GET_CALL_FORWARD, OnGetCallTransferResponseInner P),
     (IMS_SET_CALL_FORWARD, OnSetCallTransferResponseInner P),
     (IMS_GET_CALL_RESTRICTION, OnGetCallRestrictionResponseInner P),
     (IMS_SET_CALL_RESTRICTION, OnSetCallRestrictionResponseInner P),
     (IMS_GET_CALL_WAIT, OnGetCallWaitingResponseInner P),
     (IMS_SET_CALL_WAIT, OnSetCallWaitingResponseInner P),
     (IMS_GET_CALL_COLR, OnGetColrResponseInner P),
     (IMS_SET_CALL_COLR, OnSetColrResponseInner P),
     (IMS_SET_CALL_COLP, OnSetColpResponseInner P),
     (IMS_GET_CALL_COLP, OnGetColpResponseInner P)]"

definition requestFuncMap :: "'p parcel \<Rightarrow> int \<Rightarrow> ('p, ims_callback decoded) state option" where
  "requestFuncMap P = map_of (InitCallBasicFuncMap P @ InitConfigFuncMap P @ InitSupplementFuncMap P)"

section \<open>The methods of the callbacks\<close>

datatype cb_object =
    NoObject
  | ObjResponse RadioResponseInfo
  | ObjSs SsBaseResult
  | ObjLine LineResult
  | ObjStatus StatusResult
  | ObjForward CallForwardQueryInfoList
  | ObjImsCalls ImsCurrentCallList
  | ObjInt int
  | ObjRingback RingbackVoice
  | ObjDetails RilDisconnectedReason string
  | ObjMode ImsCallModeReceiveInfo
  | ObjSession ImsCallSessionEventInfo
  | ObjPeer ImsCallPeerDimensionsInfo
  | ObjUsage ImsCallDataUsageInfo
  | ObjCamera CameraCapabilitiesInfo
  | ObjImsCap ImsCapFromChip
  | ObjSuppExt int int int
  | ObjRttEvt ImsCallRttEventInfo
  | ObjRttErr ImsCallRttErrorInfo

record tel_event =
  ev_id :: string
  ev_object :: cb_object
  ev_param :: int

datatype cb_act = ToHandler int tel_event | SsAct ss_act

record cb_env = ss_env +
  e_cbHandler :: "int \<Rightarrow> bool"
  e_sendTelEvent :: "tel_event \<Rightarrow> bool"
  e_defaultRequest :: "int \<Rightarrow> errcode"
  e_reasonMapping :: "int \<Rightarrow> string list"
  e_reasonInt :: "RilDisconnectedReason \<Rightarrow> int"
  e_reasonOf :: "int \<Rightarrow> RilDisconnectedReason"
  e_forwardInit :: CallForwardQueryInfoList

definition IMS_CALL :: int where "IMS_CALL = 1"

definition send_event ::
    "'x cb_env_scheme \<Rightarrow> int \<Rightarrow> string \<Rightarrow> cb_object \<Rightarrow> int \<Rightarrow> errcode \<times> cb_act list" where
  "send_event e slot ev obj param =
     (let t = \<lparr>ev_id = ev, ev_object = obj, ev_param = param\<rparr> in
      if \<not> e_cbHandler e slot then (TELEPHONY_ERR_LOCAL_PTR_NULL, [])
      else if \<not> e_sendTelEvent e t then (TELEPHONY_ERR_FAIL, [])
      else (TELEPHONY_SUCCESS, [ToHandler slot t]))"

definition SendEvent_info ::
    "'x cb_env_scheme \<Rightarrow> int \<Rightarrow> string \<Rightarrow> RadioResponseInfo \<Rightarrow> errcode \<times> cb_act list" where
  "SendEvent_info e slot ev info = send_event e slot ev (ObjResponse info) 0"

definition SendEvent_ss :: "'x cb_env_scheme \<Rightarrow> int \<Rightarrow> string \<Rightarrow> SsBaseResult \<Rightarrow> errcode \<times> cb_act list" where
  "SendEvent_ss e slot ev r = send_event e slot ev (ObjSs r) (sb_index r)"

definition SendEvent_mode ::
    "'x cb_env_scheme \<Rightarrow> int \<Rightarrow> string \<Rightarrow> ImsCallModeReceiveInfo \<Rightarrow> errcode \<times> cb_act list" where
  "SendEvent_mode e slot ev info = send_event e slot ev (ObjMode info) 0"

fun ims_response :: "'x cb_env_scheme \<Rightarrow> response_method \<Rightarrow> int \<Rightarrow> RadioResponseInfo \<Rightarrow> errcode \<times> cb_act list" where
  "ims_response e MDial slot info = SendEvent_info e slot ''RADIO_DIAL'' info"
| "ims_response e MHangUp slot info = SendEvent_info e slot ''RADIO_HANGUP_CONNECT'' info"
| "ims_response e MReject slot info = SendEvent_info e slot ''RADIO_REJECT_CALL'' info"
| "ims_response e MAnswer slot info = SendEvent_info e slot ''RADIO_ACCEPT_CALL'' info"
| "ims_response e MHold slot info = SendEvent_info e slot ''RADIO_HOLD_CALL'' info"
| "ims_response e MUnHold slot info = SendEvent_info e slot ''RADIO_ACTIVE_CALL'' info"
| "ims_response e MSwitch slot info = send_event e slot ''RADIO_SWAP_CALL'' (ObjResponse info) IMS_CALL"
| "ims_response e MStartDtmf slot info = SendEvent_info e slot ''RADIO_START_DTMF'' info"
| "ims_response e MStopDtmf slot info = SendEvent_info e slot ''RADIO_STOP_DTMF'' info"
| "ims_response e MStartRtt slot info = SendEvent_info e slot ''RADIO_START_RTT'' info"
| "ims_response e MStopRtt slot info = SendEvent_info e slot ''RADIO_STOP_RTT'' info"
| "ims_response e MGetCallsData slot info = SendEvent_info e slot ''RADIO_IMS_GET_CALL_DATA'' info"
| "ims_response e MSetSwitch slot info = SendEvent_info e slot ''RADIO_SET_IMS_SWITCH_STATUS'' info"
| "ims_response e MGetSwitch slot info = SendEvent_info e slot ''RADIO_GET_IMS_SWITCH_STATUS'' info"
| "ims_response e MCombine slot info = SendEvent_info e slot ''RADIO_COMBINE_CALL'' info"
| "ims_response e MInvite slot info = SendEvent_info e slot ''RADIO_JOIN_CALL'' info"

definition SendDtmfResponse_cb ::
    "'x cb_env_scheme \<Rightarrow> int \<Rightarrow> RadioResponseInfo \<Rightarrow> int \<Rightarrow> errcode \<times> cb_act list" where
  "SendDtmfResponse_cb e slot info callIndex =
     send_event e slot ''RADIO_SEND_DTMF'' (ObjResponse (info\<lparr>ri_flag := callIndex\<rparr>)) IMS_CALL"

definition CallStateChangeReport_cb :: "'x cb_env_scheme \<Rightarrow> int \<Rightarrow> errcode \<times> cb_act list" where
  "CallStateChangeReport_cb e slot = send_event e slot ''RADIO_IMS_CALL_STATUS_INFO'' NoObject 0"

definition GetImsCallsDataResponse_cb ::
    "'x cb_env_scheme \<Rightarrow> int \<Rightarrow> ImsCurrentCallList \<Rightarrow> errcode \<times> cb_act list" where
  "GetImsCallsDataResponse_cb e slot l = send_event e slot ''RADIO_IMS_GET_CALL_DATA'' (ObjImsCalls l) 0"

text \<open>The result of sending is not looked at.\<close>

definition GetImsSwitchResponse_cb :: "'x cb_env_scheme \<Rightarrow> int \<Rightarrow> int \<Rightarrow> errcode \<times> cb_act list" where
  "GetImsSwitchResponse_cb e slot active =
     (if \<not> e_cbHandler e slot then (TELEPHONY_ERR_LOCAL_PTR_NULL, [])
      else (TELEPHONY_SUCCESS, snd (send_event e slot ''RADIO_GET_IMS_SWITCH_STATUS'' (ObjInt active) 0)))"

definition CallRingBackReport_cb :: "'x cb_env_scheme \<Rightarrow> int \<Rightarrow> RingbackVoice \<Rightarrow> errcode \<times> cb_act list" where
  "CallRingBackReport_cb e slot info = send_event e slot ''RADIO_CALL_RINGBACK_VOICE'' (ObjRingback info) 0"

subsection \<open>The reason of a disconnected call\<close>

text \<open>\<^verbatim>\<open>strtok_r\<close> with the delimiter \<^verbatim>\<open>|\<close> yields the non-empty pieces one after the other;
  \<^verbatim>\<open>atoi\<close> reads an optional sign and the digits after leading blanks (its value is unspecified beyond the range of an
  \<^verbatim>\<open>int\<close>; no bound is applied here).\<close>

fun tokens :: "char \<Rightarrow> string \<Rightarrow> string \<Rightarrow> string list" where
  "tokens d [] acc = (if acc = [] then [] else [rev acc])"
| "tokens d (c # cs) acc =
     (if c = d then (if acc = [] then tokens d cs [] else rev acc # tokens d cs [])
      else tokens d cs (c # acc))"

definition strtok :: "string \<Rightarrow> string list" where
  "strtok s = tokens (CHR ''|'') s []"

definition is_digit :: "char \<Rightarrow> bool" where
  "is_digit c \<longleftrightarrow> 48 \<le> (of_char c :: nat) \<and> (of_char c :: nat) \<le> 57"

definition digits_value :: "string \<Rightarrow> int" where
  "digits_value s = foldl (\<lambda>n c. 10 * n + (of_char c - 48)) 0 (takeWhile is_digit s)"

definition is_space :: "char \<Rightarrow> bool" where
  "is_space c \<longleftrightarrow> (of_char c :: nat) = 32 \<or> 9 \<le> (of_char c :: nat) \<and> (of_char c :: nat) \<le> 13"

definition atoi :: "string \<Rightarrow> int" where
  "atoi s = (case dropWhile is_space s of
     [] \<Rightarrow> 0
   | c # cs \<Rightarrow> if c = CHR ''-'' then - digits_value cs
               else if c = CHR ''+'' then digits_value cs else digits_value (c # cs))"

text \<open>The inner loop over the rest of the pieces of one entry: it goes on while the reason is still the entry's. The first
  piece becomes the message, every further one the reason.\<close>

fun map_reason ::
    "'x cb_env_scheme \<Rightarrow> int \<Rightarrow> string list \<Rightarrow> bool \<Rightarrow> RilDisconnectedReason \<Rightarrow> string \<Rightarrow>
     bool \<times> RilDisconnectedReason \<times> string" where
  "map_reason e tmp [] flg reason message = (flg, reason, message)"
| "map_reason e tmp (p # ps) flg reason message =
     (if tmp \<noteq> e_reasonInt e reason then (flg, reason, message)
      else if \<not> flg then map_reason e tmp ps True reason p
      else map_reason e tmp ps True (e_reasonOf e (atoi p)) message)"

fun map_reasons ::
    "'x cb_env_scheme \<Rightarrow> string list \<Rightarrow> RilDisconnectedReason \<Rightarrow> string \<Rightarrow> RilDisconnectedReason \<times> string" where
  "map_reasons e [] reason message = (reason, message)"
| "map_reasons e (info # infos) reason message =
     (case strtok info of
        [] \<Rightarrow> map_reasons e infos reason message
      | p # ps \<Rightarrow>
          (case map_reason e (atoi p) ps False reason message of
             (flg, reason', message') \<Rightarrow>
               if flg then (reason', message') else map_reasons e infos reason' message'))"

definition LastCallFailReasonResponse_cb ::
    "'x cb_env_scheme \<Rightarrow> int \<Rightarrow> RilDisconnectedReason \<Rightarrow> string \<Rightarrow> errcode \<times> cb_act list" where
  "LastCallFailReasonResponse_cb e slot reason message =
     (if \<not> e_cbHandler e slot then (TELEPHONY_ERR_LOCAL_PTR_NULL, [])
      else case map_reasons e (e_reasonMapping e slot) reason message of
        (r, m) \<Rightarrow> send_event e slot ''RADIO_GET_CALL_FAIL_REASON'' (ObjDetails r m) 0)"
subsection \<open>Supplementary services\<close>

definition pass_or_retry ::
    "('r \<Rightarrow> errcode \<times> cb_act list) \<Rightarrow> 'r + errcode \<times> ss_act list \<Rightarrow> errcode \<times> cb_act list" where
  "pass_or_retry send x = (case x of Inl r \<Rightarrow> send r | Inr (ret, acts) \<Rightarrow> (ret, map SsAct acts))"

fun ims_ss_response ::
    "'x cb_env_scheme \<Rightarrow> ss_method \<Rightarrow> int \<Rightarrow> SsBaseResult \<Rightarrow> 'h CommandTable_scheme \<Rightarrow> errcode \<times> cb_act list" where
  "ims_ss_response e MSetClip slot r h = SendEvent_ss e slot ''RADIO_SET_CALL_CLIP'' r"
| "ims_ss_response e MSetClir slot r h =
     pass_or_retry (SendEvent_ss e slot ''RADIO_SET_CALL_CLIR'') (SetClirResponse_stub e slot r h)"
| "ims_ss_response e MSetTransfer slot r h =
     pass_or_retry (SendEvent_ss e slot ''RADIO_SET_CALL_FORWARD'') (SetCallTransferResponse_stub e slot r h)"
| "ims_ss_response e MSetRestriction slot r h =
     pass_or_retry (SendEvent_ss e slot ''RADIO_SET_CALL_RESTRICTION'') (SetCallRestrictionResponse_stub e slot r h)"
| "ims_ss_response e MSetWaiting slot r h =
     pass_or_retry (SendEvent_ss e slot ''RADIO_SET_CALL_WAIT'') (SetCallWaitingResponse_stub e slot r h)"
| "ims_ss_response e MSetColr slot r h = SendEvent_ss e slot ''RADIO_IMS_SET_COLR'' r"
| "ims_ss_response e MSetColp slot r h = SendEvent_ss e slot ''RADIO_IMS_SET_COLP'' r"

definition send_line :: "'x cb_env_scheme \<Rightarrow> int \<Rightarrow> string \<Rightarrow> LineResult \<Rightarrow> errcode \<times> cb_act list" where
  "send_line e slot ev r = send_event e slot ev (ObjLine r) (sb_index (lr_result r))"

definition send_status :: "'x cb_env_scheme \<Rightarrow> int \<Rightarrow> string \<Rightarrow> StatusResult \<Rightarrow> errcode \<times> cb_act list" where
  "send_status e slot ev r = send_event e slot ev (ObjStatus r) (sb_index (st_result r))"

fun ims_line_response :: "'x cb_env_scheme \<Rightarrow> line_method \<Rightarrow> int \<Rightarrow> LineResult \<Rightarrow> errcode \<times> cb_act list" where
  "ims_line_response e MClip slot r = pass_or_retry (send_line e slot ''RADIO_GET_CALL_CLIP'') (GetClipResponse_stub e slot r)"
| "ims_line_response e MClir slot r = pass_or_retry (send_line e slot ''RADIO_GET_CALL_CLIR'') (GetClirResponse_stub e slot r)"
| "ims_line_response e MColr slot r = send_line e slot ''RADIO_IMS_GET_COLR'' r"
| "ims_line_response e MColp slot r = send_line e slot ''RADIO_IMS_GET_COLP'' r"

fun ims_status_response ::
    "'x cb_env_scheme \<Rightarrow> status_method \<Rightarrow> int \<Rightarrow> StatusResult \<Rightarrow> 'h CommandTable_scheme \<Rightarrow> errcode \<times> cb_act list" where
  "ims_status_response e MRestriction slot r h =
     pass_or_retry (send_status e slot ''RADIO_GET_CALL_RESTRICTION'') (GetCallRestrictionResponse_stub e slot r h)"
| "ims_status_response e MWaiting slot r h =
     pass_or_retry (send_status e slot ''RADIO_GET_CALL_WAIT'') (GetCallWaitingResponse_stub e slot r)"

text \<open>The copy of a list of call transfers: the calls are appended, the flag is not copied.\<close>

definition BuildCallForwardInfo ::
    "CallForwardQueryInfoList \<Rightarrow> CallForwardQueryInfoList \<Rightarrow> CallForwardQueryInfoList" where
  "BuildCallForwardInfo l r =
     r\<lparr>fl_callSize := fl_callSize l, fl_calls := fl_calls r @ fl_calls l, fl_result := fl_result l\<rparr>"

definition ims_transfer ::
    "'x cb_env_scheme \<Rightarrow> int \<Rightarrow> CallForwardQueryInfoList \<Rightarrow> 'h CommandTable_scheme \<Rightarrow> errcode \<times> cb_act list" where
  "ims_transfer e slot l h =
     pass_or_retry
       (\<lambda>l. send_event e slot ''RADIO_GET_CALL_FORWARD'' (ObjForward (BuildCallForwardInfo l (e_forwardInit e)))
          (sb_index (fl_result l)))
       (GetCallTransferResponse_stub e slot l h)"

subsection \<open>Every callback\<close>

fun perform :: "'x cb_env_scheme \<Rightarrow> 'h CommandTable_scheme \<Rightarrow> ims_callback \<Rightarrow> errcode \<times> cb_act list" where
  "perform e h (CbResponse m slot info) = ims_response e m slot info"
| "perform e h (CbSendDtmf slot info idx) = SendDtmfResponse_cb e slot info idx"
| "perform e h (CbStateChange slot) = CallStateChangeReport_cb e slot"
| "perform e h (CbCallsData slot l) = GetImsCallsDataResponse_cb e slot l"
| "perform e h (CbSwitchActive slot n) = GetImsSwitchResponse_cb e slot n"
| "perform e h (CbRingBack slot v) = CallRingBackReport_cb e slot v"
| "perform e h (CbSetMute slot v) = (TELEPHONY_SUCCESS, [])"
| "perform e h (CbFailReason slot r m) = LastCallFailReasonResponse_cb e slot r m"
| "perform e h (CbSs m slot r) = ims_ss_response e m slot r h"
| "perform e h (CbLine m slot r) = ims_line_response e m slot r"
| "perform e h (CbStatus m slot r) = ims_status_response e m slot r h"
| "perform e h (CbTransfer slot l) = ims_transfer e slot l h"
| "perform e h (CbSuppExt slot c callId) = send_event e slot ''RADIO_SUPP_EXT_CHANGED'' (ObjSuppExt slot c callId) 0"
| "perform e h (CbMode MModeRequest slot v) = SendEvent_mode e slot ''RADIO_RECV_CALL_MEDIA_MODE_REQUEST'' v"
| "perform e h (CbMode MModeResponse slot v) = SendEvent_mode e slot ''RADIO_RECV_CALL_MEDIA_MODE_RESPONSE'' v"
| "perform e h (CbSession slot v) = send_event e slot ''RADIO_CALL_SESSION_EVENT_CHANGED'' (ObjSession v) 0"
| "perform e h (CbPeer slot v) = send_event e slot ''RADIO_CALL_PEER_DIMENSIONS_CHANGED'' (ObjPeer v) 0"
| "perform e h (CbUsage slot v) = send_event e slot ''RADIO_CALL_DATA_USAGE_CHANGED'' (ObjUsage v) 0"
| "perform e h (CbCamera slot v) = send_event e slot ''RADIO_CAMERA_CAPABILITIES_CHANGED'' (ObjCamera v) 0"
| "perform e h (CbImsCap slot v) = send_event e slot ''RADIO_GET_IMS_CAPABILITY_FINISHED'' (ObjImsCap v) 0"
| "perform e h (CbRttEvt slot v) = send_event e slot ''RADIO_RTT_UPGRADE_OR_DOWNGRADE_EVT'' (ObjRttEvt v) 0"
| "perform e h (CbRttErr slot v) = send_event e slot ''RADIO_RTT_UPGRADE_OR_DOWNGRADE_ERR'' (ObjRttErr v) 0"

section \<open>A request\<close>

text \<open>The result of the request, what is written into the reply, and the effects.\<close>

definition OnRemoteRequest_ims ::
    "'p parcel \<Rightarrow> 'x cb_env_scheme \<Rightarrow> 'h CommandTable_scheme \<Rightarrow> int \<Rightarrow>
     ('p, errcode \<times> errcode option \<times> cb_act list) state" where
  "OnRemoteRequest_ims P e h code = do {
     remoteDescriptor \<leftarrow> ReadInterfaceToken P;
     if remoteDescriptor \<noteq> ImsCallCallback_descriptor
       then State_Monad.return (TELEPHONY_ERR_DESCRIPTOR_MISMATCH, None, [])
     else (case requestFuncMap P code of
         None \<Rightarrow> State_Monad.return (e_defaultRequest e code, None, [])
       | Some requestFunc \<Rightarrow> do {
           d \<leftarrow> requestFunc;
           State_Monad.return (case d of
             Refuse r \<Rightarrow> (r, None, [])
           | Ignore \<Rightarrow> (TELEPHONY_SUCCESS, Some TELEPHONY_SUCCESS, [])
           | Call cb \<Rightarrow> let (r, acts) = perform e h cb in (TELEPHONY_SUCCESS, Some r, acts)) }) }"

end
