(* ===== verification/ImsCallbackProps.thy ===== *)
theory ImsCallbackProps
  imports ImsCallbackStub SsEndToEnd
begin

text \<open>
  The callbacks of the IMS service from end to end: what a proxy wrote is what the stub reads.
\<close>

section \<open>Round trip\<close>

text \<open>What the stub makes of the parcel a proxy has filled: \<open>x\<close>, if the parcel could be filled.\<close>

definition arrives_as :: "'p parcel \<Rightarrow> ('p \<Rightarrow> item list) \<Rightarrow> ims_callback \<Rightarrow> ims_callback decoded \<Rightarrow> bool" where
  "arrives_as P C cb x \<longleftrightarrow>
     wp P C (ims_proxy P cb) [] (\<lambda>v k. case v of
       Inl _ \<Rightarrow> True
     | Inr code \<Rightarrow> \<exists>f k'. k = Token ImsCallCallback_descriptor # k' \<and> requestFuncMap P code = Some f \<and>
         wp P C f k' (\<lambda>d _. d = x))"

abbreviation arrives :: "'p parcel \<Rightarrow> ('p \<Rightarrow> item list) \<Rightarrow> ims_callback \<Rightarrow> bool" where
  "arrives P C cb \<equiv> arrives_as P C cb (Call cb)"

text \<open>An answer to a supplementary service is for the command with its index; one with the invalid index is for none.\<close>

definition for_command :: "SsBaseResult \<Rightarrow> ims_callback \<Rightarrow> ims_callback decoded" where
  "for_command r cb = (if sb_index r = INVALID_INDEX then Ignore else Call cb)"

lemmas request_map = requestFuncMap_def InitCallBasicFuncMap_def InitConfigFuncMap_def InitSupplementFuncMap_def

lemmas common_parts = WriteCommonInfo_def WriteCommonInfo_info_def WriteSsBaseResultCommonInfo_def read_response_def
  read_base_def unless_invalid_def for_command_def

lemmas response_proxies = DialResponse_proxy_def HangUpResponse_proxy_def RejectWithReasonResponse_proxy_def
  AnswerResponse_proxy_def HoldCallResponse_proxy_def UnHoldCallResponse_proxy_def SwitchCallResponse_proxy_def
  StartDtmfResponse_proxy_def StopDtmfResponse_proxy_def StartRttResponse_proxy_def StopRttResponse_proxy_def
  GetImsCallsDataResponse_proxy_def SetImsSwitchResponse_proxy_def GetImsSwitchResponse_proxy_def
  CombineConferenceResponse_proxy_def InviteToConferenceResponse_proxy_def

lemmas response_stubs = OnDialResponseInner_def OnHangUpResponseInner_def OnRejectResponseInner_def
  OnAnswerResponseInner_def OnHoldCallResponseInner_def OnUnHoldCallResponseInner_def OnSwitchCallResponseInner_def
  OnStartDtmfResponseInner_def OnStopDtmfResponseInner_def OnStartRttResponseInner_def OnStopRttResponseInner_def
  OnGetImsCallsDataResponseInner_def OnSetImsSwitchResponseInner_def OnGetImsSwitchResponseInner_def
  OnCombineConferenceResponseInner_def OnInviteToConferenceResponseInner_def

lemma response_arrives: "arrives P C (CbResponse m slot info)"
  by (cases m) (auto simp: arrives_as_def response_proxies response_stubs common_parts request_map intro!: wp_rules)

lemma ss_arrives: "arrives_as P C (CbSs m slot r) (for_command r (CbSs m slot r))"
  by (cases m)
    (auto simp: arrives_as_def SetClipResponse_proxy_def SetClirResponse_proxy_def SetCallTransferResponse_proxy_def
      SetCallRestrictionResponse_proxy_def SetCallWaitingResponse_proxy_def SetColrResponse_proxy_def SetColpResponse_proxy_def
      OnSetClipResponseInner_def OnSetClirResponseInner_def OnSetCallTransferResponseInner_def
      OnSetCallRestrictionResponseInner_def OnSetCallWaitingResponseInner_def OnSetColrResponseInner_def
      OnSetColpResponseInner_def common_parts request_map intro!: wp_rules)

lemma line_arrives: "arrives_as P C (CbLine m slot r) (for_command (lr_result r) (CbLine m slot r))"
  by (cases m)
    (auto simp: arrives_as_def GetClipResponse_proxy_def GetClirResponse_proxy_def GetColrResponse_proxy_def GetColpResponse_proxy_def
      OnGetClipResponseInner_def OnGetClirResponseInner_def OnGetColrResponseInner_def OnGetColpResponseInner_def
      common_parts request_map intro!: wp_rules)

lemma status_arrives: "arrives_as P C (CbStatus m slot r) (for_command (st_result r) (CbStatus m slot r))"
  by (cases m)
    (auto simp: arrives_as_def GetCallRestrictionResponse_proxy_def GetCallWaitingResponse_proxy_def
      OnGetCallRestrictionResponseInner_def OnGetCallWaitingResponseInner_def common_parts request_map intro!: wp_rules)

lemma wp_read_call: "Q c k \<Longrightarrow> wp P C (read_call P) (call_items c @ k) Q"
  by (cases c) (auto simp: read_call_def call_items_def intro!: wp_rules)

lemma wp_read_forward: "Q c k \<Longrightarrow> wp P C (read_forward P) (forward_items c @ k) Q"
  by (cases c) (auto simp: read_forward_def forward_items_def intro!: wp_rules)

lemma wp_read_calls: "n = length xs \<Longrightarrow> Q xs [] \<Longrightarrow> wp P C (read_n n (read_call P)) (concat (map call_items xs)) Q"
  using wp_read_n [of P C "read_call P" call_items Q xs "[]"] wp_read_call by (metis append_Nil2)

lemma wp_read_forwards: "n = length xs \<Longrightarrow> Q xs [] \<Longrightarrow> wp P C (read_n n (read_forward P)) (concat (map forward_items xs)) Q"
  using wp_read_n [of P C "read_forward P" forward_items Q xs "[]"] wp_read_forward by (metis append_Nil2)

lemma wp_write_calls:
  "Q True (k @ concat (map call_items cs)) \<Longrightarrow> (\<And>k'. Q False k') \<Longrightarrow> wp P C (write_calls P cs) k Q"
proof (induction cs arbitrary: k)
  case (Cons c cs)
  then show ?case by (auto simp: WriteCallInfo_def intro!: wp_rules)
qed (auto intro!: wp_rules)

lemma read_calls_data:
  assumes "failed_block_keeps P C" "length (m_calls l) \<le> 10"
  shows "wp P C (OnGetImsCallsDataResponseInner P)
    (Int32 slot # Int32 (m_callSize l) # Int32 (m_flag l) # Int32 (int (length (m_calls l))) # concat (map call_items (m_calls l)))
    (\<lambda>d _. d = Call (CbCallsData slot l))"
  unfolding OnGetImsCallsDataResponseInner_def
  by (rule wp_rules wp_no_block_keeps [OF assms(1)] wp_read_calls | simp add: MAX_SIZE_def leD [OF assms(2)])+

lemma calls_arrive:
  assumes "failed_block_keeps P C" "length (m_calls l) \<le> 10"
  shows "arrives P C (CbCallsData slot l)"
  unfolding arrives_as_def ims_proxy.simps GetImsCallsDataResponse_list_proxy_def WriteCommonInfo_def
  by (rule wp_rules wp_write_calls | simp add: request_map read_calls_data [OF assms])+

definition transfer_outcome :: "int \<Rightarrow> CallForwardQueryInfoList \<Rightarrow> ims_callback decoded" where
  "transfer_outcome slot l =
     (if 10 < length (fl_calls l) then Refuse TELEPHONY_ERR_FAIL else for_command (fl_result l) (CbTransfer slot l))"

lemma read_transfer:
  "wp P C (OnGetCallTransferResponseInner P)
    (Int32 slot # Int32 (sb_index (fl_result l)) # AErrcode (sb_result (fl_result l)) # Int32 (sb_reason (fl_result l)) #
       AString (sb_message (fl_result l)) # Int32 (fl_callSize l) # Int32 (fl_flag l) # Int32 (int (length (fl_calls l))) #
       concat (map forward_items (fl_calls l)))
    (\<lambda>d _. d = transfer_outcome slot l)"
proof (cases "10 < length (fl_calls l)")
  case True
  then show ?thesis
    unfolding OnGetCallTransferResponseInner_def read_base_def by - (rule wp_rules | simp add: MAX_SIZE_def transfer_outcome_def)+
next
  case False
  then show ?thesis
    unfolding OnGetCallTransferResponseInner_def read_base_def
    by - (rule wp_rules wp_read_forwards | simp add: MAX_SIZE_def unless_invalid_def for_command_def transfer_outcome_def)+
qed

lemma transfer_arrives:
  "arrives_as P C (CbTransfer slot l) (transfer_outcome slot l)"
  unfolding arrives_as_def ims_proxy.simps GetCallTransferResponse_proxy_def WriteSsBaseResultCommonInfo_def WriteCommonInfo_def
  by (rule wp_rules | simp add: request_map read_transfer)+

lemma switch_arrives: "failed_block_keeps P C \<Longrightarrow> arrives P C (CbSwitchActive slot n)"
  by (auto simp: arrives_as_def GetImsSwitchResponse_active_proxy_def OnGetImsSwitchResponseInner_def common_parts request_map
      intro!: wp_rules wp_no_block_keeps)

lemma event_arrives:
  "arrives P C (CbStateChange slot)"
  "arrives P C (CbRingBack slot v1)"
  "arrives P C (CbSetMute slot v2)"
  "arrives P C (CbFailReason slot reason message)"
  "arrives P C (CbSuppExt slot c callId)"
  "arrives P C (CbSession slot v4)"
  "arrives P C (CbPeer slot v5)"
  "arrives P C (CbUsage slot v6)"
  "arrives P C (CbCamera slot v7)"
  "arrives P C (CbImsCap slot v8)"
  "arrives P C (CbRttEvt slot v9)"
  "arrives P C (CbRttErr slot v10)"
  by (auto simp: arrives_as_def common_parts request_map CallStateChangeReport_proxy_def CallRingBackReport_proxy_def
      SetMuteResponse_proxy_def LastCallFailReasonResponse_proxy_def GetImsSuppExtResponse_proxy_def
      CallSessionEventChanged_proxy_def PeerDimensionsChanged_proxy_def CallDataUsageChanged_proxy_def
      CameraCapabilitiesChanged_proxy_def GetImsCapResponse_proxy_def ReceiveUpdateImsCallRttEvtResponse_proxy_def
      ReceiveUpdateImsCallRttErrResponse_proxy_def OnCallStateChangeReportInner_def OnCallRingBackReportInner_def
      OnSetMuteResponseInner_def OnLastCallFailReasonResponseInner_def OnImsSuppExtResponseInner_def
      OnCallSessionEventChangedInner_def OnPeerDimensionsChangedInner_def OnCallDataUsageChangedInner_def
      OnCameraCapabilitiesChangedInner_def OnGetImsCapResponseInner_def OnReceiveUpdateCallRttEvtResponseInner_def
      OnReceiveUpdateCallRttErrResponseInner_def intro!: wp_rules)

lemma mode_arrives: "arrives P C (CbMode m slot v)"
  by (cases m)
    (auto simp: arrives_as_def common_parts request_map ReceiveUpdateCallMediaModeRequest_proxy_def
      ReceiveUpdateCallMediaModeResponse_proxy_def OnReceiveUpdateCallMediaModeRequestInner_def
      OnReceiveUpdateCallMediaModeResponseInner_def intro!: wp_rules)

text \<open>The callbacks whose arguments the stub reads as the proxy wrote them, whatever the parcel does at a failed read: all but the answer to
  a DTMF character, and the call list and the state of the IMS switch, which the stub tries to read as a block first.\<close>

fun well_laid :: "ims_callback \<Rightarrow> bool" where
  "well_laid (CbSendDtmf _ _ _) = False"
| "well_laid (CbCallsData _ _) = False"
| "well_laid (CbSwitchActive _ _) = False"
| "well_laid _ = True"

fun outcome :: "ims_callback \<Rightarrow> ims_callback decoded" where
  "outcome (CbSs m slot r) = for_command r (CbSs m slot r)"
| "outcome (CbLine m slot r) = for_command (lr_result r) (CbLine m slot r)"
| "outcome (CbStatus m slot r) = for_command (st_result r) (CbStatus m slot r)"
| "outcome (CbTransfer slot l) = transfer_outcome slot l"
| "outcome cb = Call cb"

lemma arrives_outcome: "well_laid cb \<Longrightarrow> arrives_as P C cb (outcome cb)"
  by (cases cb)
    (simp_all add: response_arrives ss_arrives line_arrives status_arrives transfer_arrives event_arrives mode_arrives)

text \<open>What \<^verbatim>\<open>SendResponseInfo\<close> sends is what the proxy wrote into a new parcel, and what the stub then does follows from the
  method it finds.\<close>

lemma sent_by_proxy:
  assumes "SendResponseInfo e P m = (r, Some (code, inp))"
  shows "run_state m (new P) = (Inr code, inp)"
  using assms by (auto simp: SendResponseInfo_def split: prod.splits sum.splits if_splits)

lemma stub_runs:
  assumes laws: "parcel_laws P C" and k: "C inp = Token ImsCallCallback_descriptor # k" and f: "requestFuncMap P code = Some f"
    and run: "wp P C f k (\<lambda>d _. d = x)"
  shows "fst (run_state (OnRemoteRequest_ims P e h code) inp) =
    (case x of Refuse r \<Rightarrow> (r, None, []) | Ignore \<Rightarrow> (TELEPHONY_SUCCESS, Some TELEPHONY_SUCCESS, [])
     | Call cb \<Rightarrow> let (r, acts) = perform e h cb in (TELEPHONY_SUCCESS, Some r, acts))"
proof -
  have "wp P C (OnRemoteRequest_ims P e h code) (C inp) (\<lambda>v _. v =
    (case x of Refuse r \<Rightarrow> (r, None, []) | Ignore \<Rightarrow> (TELEPHONY_SUCCESS, Some TELEPHONY_SUCCESS, [])
     | Call cb \<Rightarrow> let (r, acts) = perform e h cb in (TELEPHONY_SUCCESS, Some r, acts)))"
    unfolding OnRemoteRequest_ims_def k
    by (rule wp_rules | simp add: f)+ (rule wp_mono [OF run], simp add: wp_return)
  then show ?thesis using laws by (simp add: wp_def)
qed

lemma callback_outcome:
  assumes "parcel_laws P C" "arrives_as P C cb x" "SendResponseInfo ie P (ims_proxy P cb) = (r, Some (code, inp))"
  shows "fst (run_state (OnRemoteRequest_ims P e h code) inp) =
    (case x of Refuse r \<Rightarrow> (r, None, []) | Ignore \<Rightarrow> (TELEPHONY_SUCCESS, Some TELEPHONY_SUCCESS, [])
     | Call cb \<Rightarrow> (TELEPHONY_SUCCESS, Some (fst (perform e h cb)), snd (perform e h cb)))"
proof -
  have "C (new P) = []" using assms(1) by (simp add: parcel_laws_def)
  from wpD [OF assms(2) [unfolded arrives_as_def] assms(1) this sent_by_proxy [OF assms(3)]]
  obtain f k where "C inp = Token ImsCallCallback_descriptor # k" "requestFuncMap P code = Some f"
    "wp P C f k (\<lambda>d _. d = x)" by auto
  from stub_runs [OF assms(1) this, of e h] show ?thesis by (simp add: case_prod_beta Let_def split: decoded.split)
qed

lemma callback_delivered:
  assumes "parcel_laws P C" "well_laid cb" "outcome cb = Call cb"
    "SendResponseInfo ie P (ims_proxy P cb) = (r, Some (code, inp))"
  shows "fst (run_state (OnRemoteRequest_ims P e h code) inp) =
    (TELEPHONY_SUCCESS, Some (fst (perform e h cb)), snd (perform e h cb))"
  using callback_outcome [OF assms(1) arrives_outcome [OF assms(2), unfolded assms(3)] assms(4)] by simp

text \<open>The call list and the state of the IMS switch share their request with an answer that carries a block: the stub tries to read the
  block, and reads the rest where the parcel then stands. They arrive when the failed read leaves the parcel where it was.\<close>

lemma block_first_delivered:
  assumes "parcel_laws P C" "failed_block_keeps P C"
    "(\<exists>l. cb = CbCallsData slot l \<and> length (m_calls l) \<le> 10) \<or> cb = CbSwitchActive slot n"
    "SendResponseInfo ie P (ims_proxy P cb) = (r, Some (code, inp))"
  shows "fst (run_state (OnRemoteRequest_ims P e h code) inp) =
    (TELEPHONY_SUCCESS, Some (fst (perform e h cb)), snd (perform e h cb))"
proof -
  have "arrives P C cb" using assms(2,3) calls_arrive switch_arrives by auto
  from callback_outcome [OF assms(1) this assms(4)] show ?thesis by simp
qed

text \<open>The answers that carry the index of a command, and the others.\<close>

fun answered_command :: "ims_callback \<Rightarrow> int option" where
  "answered_command (CbSs m slot r) = Some (sb_index r)"
| "answered_command (CbLine m slot r) = Some (sb_index (lr_result r))"
| "answered_command (CbStatus m slot r) = Some (sb_index (st_result r))"
| "answered_command (CbTransfer slot l) = Some (sb_index (fl_result l))"
| "answered_command cb = None"

fun too_long :: "ims_callback \<Rightarrow> bool" where
  "too_long (CbTransfer slot l) = (10 < length (fl_calls l))"
| "too_long cb = False"

lemma outcome_cases:
  "too_long cb \<Longrightarrow> outcome cb = Refuse TELEPHONY_ERR_FAIL"
  "\<not> too_long cb \<Longrightarrow> answered_command cb = Some INVALID_INDEX \<Longrightarrow> outcome cb = Ignore"
  "\<not> too_long cb \<Longrightarrow> answered_command cb \<noteq> Some INVALID_INDEX \<Longrightarrow> outcome cb = Call cb"
  by (cases cb; simp add: for_command_def transfer_outcome_def)+

text \<open>C25: callbacks arrive. When the parcel of a callback that the IMS service makes through the proxy is sent, the stub finds the method of
  the same callback, reads the same arguments, calls it and answers with its result. The exceptions are: the answer to a
  DTMF character, the call list and the state of the IMS switch (the callbacks that are not \<open>well_laid\<close>), answers with the invalid index, and lists of call transfers
  with more than ten entries.\<close>

theorem ims_callbacks_delivered:
  assumes "parcel_laws P C" "well_laid cb" "answered_command cb \<noteq> Some INVALID_INDEX" "\<not> too_long cb"
    "SendResponseInfo ie P (ims_proxy P cb) = (r, Some (code, inp))"
  shows "fst (run_state (OnRemoteRequest_ims P e h code) inp) =
    (TELEPHONY_SUCCESS, Some (fst (perform e h cb)), snd (perform e h cb))"
  using callback_delivered [OF assms(1,2) outcome_cases(3) [OF assms(4,3)] assms(5)] .

definition sample_cb_env :: "bool \<Rightarrow> cb_env" where
  "sample_cb_env ims = ss_env.extend (sample_ss_env ims)
     (cb_env.fields (\<lambda>_. True) (\<lambda>_. True) (\<lambda>_. TELEPHONY_ERROR) (\<lambda>_. [''17'', ''31|Busy|16''])
       (\<lambda>r. case r of DISCONNECTED_REASON_NORMAL \<Rightarrow> 16 | DISCONNECTED_REASON_other n \<Rightarrow> n | _ \<Rightarrow> 0)
       (\<lambda>n. if n = 16 then DISCONNECTED_REASON_NORMAL else DISCONNECTED_REASON_other n)
       \<lparr>fl_result = \<lparr>sb_index = 0, sb_result = TELEPHONY_SUCCESS, sb_reason = 0, sb_message = []\<rparr>, fl_callSize = 0,
        fl_flag = 0, fl_calls = []\<rparr>)"

lemma sample_cb_env_simps [simp]:
  "e_cbHandler (sample_cb_env b) k" "e_sendTelEvent (sample_cb_env b) t"
  "e_reasonMapping (sample_cb_env b) k = [''17'', ''31|Busy|16'']"
  "e_reasonInt (sample_cb_env b) (DISCONNECTED_REASON_other n) = n"
  "e_reasonInt (sample_cb_env b) DISCONNECTED_REASON_NORMAL = 16"
  "e_reasonOf (sample_cb_env b) 16 = DISCONNECTED_REASON_NORMAL"
  by (simp_all add: sample_cb_env_def ss_env.defs cb_env.defs)

definition sample_ipc :: "item list ipc_env" where
  "sample_ipc = \<lparr>e_remote = True, e_answer = (\<lambda>_ _. Some TELEPHONY_SUCCESS)\<rparr>"

definition sample_answer :: RadioResponseInfo where
  "sample_answer = \<lparr>ri_flag = 0, ri_serial = 1, ri_error = ErrType_NONE\<rparr>"

theorem ims_callbacks_delivered_witness:
  "\<exists>code inp. SendResponseInfo sample_ipc (list_parcel True) (ims_proxy (list_parcel True) (CbResponse MHold 1 sample_answer)) =
       (TELEPHONY_SUCCESS, Some (code, inp)) \<and>
     fst (run_state (OnRemoteRequest_ims (list_parcel True) (sample_cb_env True) empty_table code) inp) =
       (TELEPHONY_SUCCESS, Some TELEPHONY_SUCCESS, [ToHandler 1 \<lparr>ev_id = ''RADIO_HOLD_CALL'', ev_object = ObjResponse sample_answer, ev_param = 0\<rparr>])"
proof -
  let ?cb = "CbResponse MHold 1 sample_answer"
  obtain code inp where s: "SendResponseInfo sample_ipc (list_parcel True) (ims_proxy (list_parcel True) ?cb) =
      (TELEPHONY_SUCCESS, Some (code, inp))"
    by (simp add: SendResponseInfo_def sample_ipc_def response_proxies common_parts or_fail_def list_parcel_def)
  with ims_callbacks_delivered [OF list_parcel_laws _ _ _ s, of "sample_cb_env True" empty_table] show ?thesis
    by (auto simp: SendEvent_info_def send_event_def)
qed

text \<open>The answer to a DTMF character loses its call. The proxy writes the answer before the index of the call, the
  stub reads the index first. In a parcel that keeps its place at a failed read the index read is 0; in one that
  goes on, the answer is refused. In neither does the handler learn which call it was for.\<close>

theorem dtmf_answer_loses_call:
  "\<exists>inp. SendResponseInfo sample_ipc (list_parcel skips) (ims_proxy (list_parcel skips) (CbSendDtmf slot info idx)) =
       (TELEPHONY_SUCCESS, Some (IMS_SEND_DTMF, inp)) \<and>
     fst (run_state (OnRemoteRequest_ims (list_parcel skips) e h IMS_SEND_DTMF) inp) =
       (if skips then (TELEPHONY_ERR_ARGUMENT_INVALID, None, [])
        else let (r, acts) = perform e h (CbSendDtmf slot info 0) in (TELEPHONY_SUCCESS, Some r, acts))"
  by (auto simp: SendResponseInfo_def sample_ipc_def SendDtmfResponse_proxy_def common_parts or_fail_def list_parcel_def
      OnRemoteRequest_ims_def request_map ReadInterfaceToken_def OnSendDtmfResponseInner_def ReadInt32_def ReadRawData_def
      Let_def case_prod_beta)

section \<open>Refused and ignored callbacks\<close>

lemma foreign_refused:
  assumes "parcel_laws P C" "C inp = Token d # k" "d \<noteq> ImsCallCallback_descriptor"
  shows "fst (run_state (OnRemoteRequest_ims P e h code) inp) = (TELEPHONY_ERR_DESCRIPTOR_MISMATCH, None, [])"
proof -
  have "wp P C (OnRemoteRequest_ims P e h code) (C inp) (\<lambda>v _. v = (TELEPHONY_ERR_DESCRIPTOR_MISMATCH, None, []))"
    unfolding OnRemoteRequest_ims_def assms(2) by (rule wp_rules | simp add: assms(3))+
  then show ?thesis using assms(1) by (simp add: wp_def)
qed

text \<open>C26: what the stub keeps out. A list of call transfers with more than ten entries is refused, and an answer to a supplementary
  service that carries the invalid index, be it to a setting or a query, is acknowledged without being looked at; neither reaches a
  handler. A request that names another interface is refused whatever it asks for.\<close>

theorem ims_callbacks_refused:
  assumes "parcel_laws P C"
  shows "(SendResponseInfo ie P (ims_proxy P cb) = (r, Some (code, inp)) \<longrightarrow>
      (too_long cb \<longrightarrow> fst (run_state (OnRemoteRequest_ims P e h code) inp) = (TELEPHONY_ERR_FAIL, None, [])) \<and>
      (\<not> too_long cb \<and> answered_command cb = Some INVALID_INDEX \<longrightarrow>
        fst (run_state (OnRemoteRequest_ims P e h code) inp) = (TELEPHONY_SUCCESS, Some TELEPHONY_SUCCESS, []))) \<and>
    (C other = Token d # k \<and> d \<noteq> ImsCallCallback_descriptor \<longrightarrow>
      fst (run_state (OnRemoteRequest_ims P e h c) other) = (TELEPHONY_ERR_DESCRIPTOR_MISMATCH, None, []))"
proof (intro conjI impI; (elim conjE)?)
  assume sent: "SendResponseInfo ie P (ims_proxy P cb) = (r, Some (code, inp))"
  note run = callback_outcome [OF assms arrives_outcome sent, of e h]
  show "fst (run_state (OnRemoteRequest_ims P e h code) inp) = (TELEPHONY_ERR_FAIL, None, [])" if "too_long cb"
    using run that outcome_cases(1) [OF that] by (cases cb) simp_all
  show "fst (run_state (OnRemoteRequest_ims P e h code) inp) = (TELEPHONY_SUCCESS, Some TELEPHONY_SUCCESS, [])"
    if "\<not> too_long cb" "answered_command cb = Some INVALID_INDEX"
    using run that outcome_cases(2) [OF that] by (cases cb) simp_all
qed (rule foreign_refused [OF assms])

theorem ims_callbacks_refused_witness:
  "(\<exists>code inp. SendResponseInfo sample_ipc (list_parcel True) (ims_proxy (list_parcel True)
       (CbSs MSetClip 0 \<lparr>sb_index = -1, sb_result = TELEPHONY_SUCCESS, sb_reason = 0, sb_message = []\<rparr>)) =
         (TELEPHONY_SUCCESS, Some (code, inp)) \<and>
     fst (run_state (OnRemoteRequest_ims (list_parcel True) (sample_cb_env True) empty_table code) inp) =
       (TELEPHONY_SUCCESS, Some TELEPHONY_SUCCESS, [])) \<and>
   fst (run_state (OnRemoteRequest_ims (list_parcel True) (sample_cb_env True) empty_table IMS_DIAL) [Token ''other'', Int32 0]) =
     (TELEPHONY_ERR_DESCRIPTOR_MISMATCH, None, [])"
proof -
  let ?cb = "CbSs MSetClip 0 \<lparr>sb_index = -1, sb_result = TELEPHONY_SUCCESS, sb_reason = 0, sb_message = []\<rparr>"
  obtain code inp where s: "SendResponseInfo sample_ipc (list_parcel True) (ims_proxy (list_parcel True) ?cb) =
      (TELEPHONY_SUCCESS, Some (code, inp))"
    by (simp add: SendResponseInfo_def sample_ipc_def SetClipResponse_proxy_def common_parts or_fail_def list_parcel_def)
  with ims_callbacks_refused [OF list_parcel_laws [of True], of sample_ipc ?cb TELEPHONY_SUCCESS code inp "sample_cb_env True"
      empty_table "[Token ''other'', Int32 0]" "''other''" "[Int32 0]" IMS_DIAL] show ?thesis
    by (auto simp: ImsCallCallback_descriptor_def INVALID_INDEX_def)
qed

section \<open>Effects of a callback\<close>

fun callback_slot :: "ims_callback \<Rightarrow> int" where
  "callback_slot (CbResponse _ slot _) = slot"
| "callback_slot (CbSendDtmf slot _ _) = slot"
| "callback_slot (CbStateChange slot) = slot"
| "callback_slot (CbCallsData slot _) = slot"
| "callback_slot (CbSwitchActive slot _) = slot"
| "callback_slot (CbRingBack slot _) = slot"
| "callback_slot (CbSetMute slot _) = slot"
| "callback_slot (CbFailReason slot _ _) = slot"
| "callback_slot (CbSs _ slot _) = slot"
| "callback_slot (CbLine _ slot _) = slot"
| "callback_slot (CbStatus _ slot _) = slot"
| "callback_slot (CbTransfer slot _) = slot"
| "callback_slot (CbSuppExt slot _ _) = slot"
| "callback_slot (CbMode _ slot _) = slot"
| "callback_slot (CbSession slot _) = slot"
| "callback_slot (CbPeer slot _) = slot"
| "callback_slot (CbUsage slot _) = slot"
| "callback_slot (CbCamera slot _) = slot"
| "callback_slot (CbImsCap slot _) = slot"
| "callback_slot (CbRttEvt slot _) = slot"
| "callback_slot (CbRttErr slot _) = slot"

text \<open>The answer to a supplementary service that IMS could not give.\<close>

fun to_retry :: "ims_callback \<Rightarrow> bool" where
  "to_retry (CbSs m _ r) = (sb_result r = IMS_ERROR_UT_CS_FALLBACK \<and> m \<notin> {MSetClip, MSetColr, MSetColp})"
| "to_retry (CbLine m _ r) = (sb_result (lr_result r) = IMS_ERROR_UT_CS_FALLBACK \<and> m \<in> {MClip, MClir})"
| "to_retry (CbStatus _ _ r) = (sb_result (st_result r) = IMS_ERROR_UT_CS_FALLBACK)"
| "to_retry (CbTransfer _ l) = (sb_result (fl_result l) = IMS_ERROR_UT_CS_FALLBACK)"
| "to_retry _ = False"

lemmas stub_answers = GetClipResponse_stub_def GetClirResponse_stub_def GetCallWaitingResponse_stub_def SetClirResponse_stub_def
  GetCallTransferResponse_stub_def SetCallTransferResponse_stub_def GetCallRestrictionResponse_stub_def
  SetCallRestrictionResponse_stub_def SetCallWaitingResponse_stub_def fall_back_def fall_back_query_def pass_or_retry_def

lemmas event_senders = SendEvent_info_def SendEvent_ss_def SendEvent_mode_def send_line_def send_status_def ims_transfer_def
  SendDtmfResponse_cb_def CallStateChangeReport_cb_def GetImsCallsDataResponse_cb_def CallRingBackReport_cb_def
  LastCallFailReasonResponse_cb_def GetImsSwitchResponse_cb_def

lemma response_sends: "\<exists>ev obj n. ims_response e m slot info = send_event e slot ev obj n"
  by (cases m) (auto simp: event_senders)

lemma ss_sends:
  "\<not> (sb_result r = IMS_ERROR_UT_CS_FALLBACK \<and> m \<notin> {MSetClip, MSetColr, MSetColp}) \<Longrightarrow>
    \<exists>ev obj n. ims_ss_response e m slot r h = send_event e slot ev obj n"
  by (cases m) (auto simp: event_senders stub_answers)

lemma line_sends:
  "\<not> (sb_result (lr_result r) = IMS_ERROR_UT_CS_FALLBACK \<and> m \<in> {MClip, MClir}) \<Longrightarrow>
    \<exists>ev obj n. ims_line_response e m slot r = send_event e slot ev obj n"
  by (cases m) (auto simp: event_senders stub_answers)

lemma status_sends:
  "sb_result (st_result r) \<noteq> IMS_ERROR_UT_CS_FALLBACK \<Longrightarrow> \<exists>ev obj n. ims_status_response e m slot r h = send_event e slot ev obj n"
  by (cases m) (auto simp: event_senders stub_answers)

lemma transfer_sends:
  "sb_result (fl_result l) \<noteq> IMS_ERROR_UT_CS_FALLBACK \<Longrightarrow> \<exists>ev obj n. ims_transfer e slot l h = send_event e slot ev obj n"
  by (auto simp: event_senders stub_answers)

lemma reason_sends: "\<exists>ev obj n. LastCallFailReasonResponse_cb e slot r m = send_event e slot ev obj n"
  by (cases "e_cbHandler e slot") (auto simp: event_senders send_event_def Let_def split: prod.splits)

lemma switch_sends:
  "(\<And>t. e_sendTelEvent e t) \<Longrightarrow> \<exists>ev obj n. GetImsSwitchResponse_cb e slot a = send_event e slot ev obj n"
  by (rule exI [of _ "''RADIO_GET_IMS_SWITCH_STATUS''"], rule exI [of _ "ObjInt a"], rule exI [of _ 0])
    (simp add: event_senders send_event_def)

lemma mode_sends: "\<exists>ev obj n. perform e h (CbMode m slot v) = send_event e slot ev obj n"
  by (cases m) (auto simp: event_senders)

lemma perform_sends:
  assumes "\<And>t. e_sendTelEvent e t" "\<not> to_retry cb" "\<forall>slot v. cb \<noteq> CbSetMute slot v"
  shows "\<exists>ev obj n. perform e h cb = send_event e (callback_slot cb) ev obj n"
  using assms(2,3)
  by (cases cb)
    (simp_all add: response_sends ss_sends line_sends status_sends transfer_sends reason_sends switch_sends [OF assms(1)]
      mode_sends [simplified] del: perform.simps(14,15), auto simp: event_senders)

lemma ss_retries:
  "sb_result r = IMS_ERROR_UT_CS_FALLBACK \<Longrightarrow> m \<notin> {MSetClip, MSetColr, MSetColp} \<Longrightarrow> a \<in> set (snd (ims_ss_response e m slot r h)) \<Longrightarrow>
    \<exists>s. a = SsAct s"
  by (cases m) (auto simp: stub_answers split: sum.splits prod.splits)

lemma line_retries:
  "sb_result (lr_result r) = IMS_ERROR_UT_CS_FALLBACK \<Longrightarrow> m \<in> {MClip, MClir} \<Longrightarrow> a \<in> set (snd (ims_line_response e m slot r)) \<Longrightarrow>
    \<exists>s. a = SsAct s"
  by (auto simp: stub_answers split: prod.splits)

lemma status_retries:
  "sb_result (st_result r) = IMS_ERROR_UT_CS_FALLBACK \<Longrightarrow> a \<in> set (snd (ims_status_response e m slot r h)) \<Longrightarrow> \<exists>s. a = SsAct s"
  by (cases m) (auto simp: stub_answers split: sum.splits prod.splits)

lemma transfer_retries:
  "sb_result (fl_result l) = IMS_ERROR_UT_CS_FALLBACK \<Longrightarrow> a \<in> set (snd (ims_transfer e slot l h)) \<Longrightarrow> \<exists>s. a = SsAct s"
  by (auto simp: stub_answers ims_transfer_def split: sum.splits prod.splits)

text \<open>A callback reaches one handler. When events can be sent, a callback other than the answer to mute sends exactly
  one event, to the handler of its own slot, or fails when this handler is not registered with the IMS client. An
  answer that asks for a retry over CS sends no event.\<close>

theorem callback_one_event:
  assumes "\<And>t. e_sendTelEvent e t" "\<forall>slot v. cb \<noteq> CbSetMute slot v"
  shows "(\<not> to_retry cb \<longrightarrow> e_cbHandler e (callback_slot cb) \<longrightarrow>
      (\<exists>t. perform e h cb = (TELEPHONY_SUCCESS, [ToHandler (callback_slot cb) t]))) \<and>
    (\<not> to_retry cb \<longrightarrow> \<not> e_cbHandler e (callback_slot cb) \<longrightarrow> perform e h cb = (TELEPHONY_ERR_LOCAL_PTR_NULL, [])) \<and>
    (to_retry cb \<longrightarrow> (\<forall>a \<in> set (snd (perform e h cb)). \<exists>s. a = SsAct s))"
proof (cases "to_retry cb")
  case True
  then show ?thesis
    by (cases cb) (auto dest: ss_retries line_retries status_retries transfer_retries)
next
  case False
  from perform_sends [OF assms(1) False assms(2)] obtain ev obj n where
    "perform e h cb = send_event e (callback_slot cb) ev obj n" by blast
  with False assms(1) show ?thesis by (simp add: send_event_def)
qed

theorem callback_one_event_witness:
  "\<exists>t. perform (sample_cb_env True) empty_table (CbStateChange 1) = (TELEPHONY_SUCCESS, [ToHandler 1 t])"
  using callback_one_event [of "sample_cb_env True" "CbStateChange 1" empty_table] by simp

text \<open>The reason of a disconnected call. The mapping of the slot is a list of entries code|message|reason.
  The first entry for the reported reason replaces the message, and, when it has a third piece, the reason; entries for other
  reasons, and entries with a code only, change nothing. Without an entry reason and message are passed on.\<close>

theorem fail_reason_mapping:
  assumes handler: "e_cbHandler e slot" and event: "\<And>t. e_sendTelEvent e t"
    and others: "\<forall>i \<in> set pre. case strtok i of [] \<Rightarrow> True | p # ps \<Rightarrow> ps = [] \<or> atoi p \<noteq> e_reasonInt e reason"
    and entry: "strtok entry = p # text # rest" "atoi p = e_reasonInt e reason"
  shows "(e_reasonMapping e slot = pre \<longrightarrow> perform e h (CbFailReason slot reason message) = (TELEPHONY_SUCCESS,
      [ToHandler slot \<lparr>ev_id = ''RADIO_GET_CALL_FAIL_REASON'', ev_object = ObjDetails reason message, ev_param = 0\<rparr>])) \<and>
    (e_reasonMapping e slot = pre @ entry # post \<longrightarrow> rest = [] \<longrightarrow>
      perform e h (CbFailReason slot reason message) = (TELEPHONY_SUCCESS,
      [ToHandler slot \<lparr>ev_id = ''RADIO_GET_CALL_FAIL_REASON'', ev_object = ObjDetails reason text, ev_param = 0\<rparr>])) \<and>
    (e_reasonMapping e slot = pre @ entry # post \<longrightarrow> (\<forall>q qs. rest = q # qs \<longrightarrow>
      e_reasonInt e (e_reasonOf e (atoi q)) \<noteq> e_reasonInt e reason \<longrightarrow>
      perform e h (CbFailReason slot reason message) = (TELEPHONY_SUCCESS,
      [ToHandler slot \<lparr>ev_id = ''RADIO_GET_CALL_FAIL_REASON'', ev_object = ObjDetails (e_reasonOf e (atoi q)) text, ev_param = 0\<rparr>])))"
proof -
  have skip: "map_reasons e (pre @ infos) reason message = map_reasons e infos reason message" for infos
    using others
  proof (induction pre)
    case (Cons i pre)
    then show ?case by (cases "strtok i"; cases "tl (strtok i)") auto
  qed simp
  have "map_reasons e pre reason message = (reason, message)" using skip [of "[]"] by simp
  moreover have "map_reasons e (pre @ entry # post) reason message = (reason, text)" if "rest = []"
    using skip entry that by simp
  moreover have "map_reasons e (pre @ entry # post) reason message = (e_reasonOf e (atoi q), text)"
    if "rest = q # qs" "e_reasonInt e (e_reasonOf e (atoi q)) \<noteq> e_reasonInt e reason" for q qs
    using skip entry that by (cases qs) simp_all
  ultimately show ?thesis using handler event by (simp add: LastCallFailReasonResponse_cb_def send_event_def)
qed

theorem fail_reason_mapping_witness:
  "perform (sample_cb_env True) empty_table (CbFailReason 0 (DISCONNECTED_REASON_other 31) ''x'') = (TELEPHONY_SUCCESS,
     [ToHandler 0 \<lparr>ev_id = ''RADIO_GET_CALL_FAIL_REASON'', ev_object = ObjDetails DISCONNECTED_REASON_NORMAL ''Busy'', ev_param = 0\<rparr>])"
proof -
  have s: "strtok ''17'' = [''17'']" "strtok ''31|Busy|16'' = [''31'', ''Busy'', ''16'']" "atoi ''31'' = 31" "atoi ''16'' = 16"
    by (code_simp, code_simp, code_simp, code_simp)
  show ?thesis
    using fail_reason_mapping [of "sample_cb_env True" 0 "[''17'']" "DISCONNECTED_REASON_other 31" "''31|Busy|16''" "''31''" "''Busy''"
        "[''16'']" empty_table "''x''" "[]"]
    by (simp add: s)
qed

end
