(* ===== verification/ImsRequest.thy ===== *)
theory ImsRequest
  imports ImsCallback
begin

text \<open>
  The requests to the IMS service: \<^verbatim>\<open>ImsCallProxy\<close>
  (\<^verbatim>\<open>services/ims_service_interaction/src/ims_call_proxy.cpp\<close>) writes each request into a parcel and sends it under its
  code. A method's result is the answer and the message sent, if any. \<open>ims_request\<close> lists the requests: those of the
  connections (\<open>ims_req\<close>), of the supplementary services (\<open>ss_ims_req\<close>, with the value that the caller's variable holds, which
  \<^verbatim>\<open>CanSetCallTransferTime\<close> sends), of video calls and of the configuration. What a request says is
  \<open>request_contents\<close>. The build is the one with \<^verbatim>\<open>SUPPORT_RTT_CALL\<close>.
\<close>

section \<open>Codes\<close>

definition ImsCall_descriptor :: string where
  "ImsCall_descriptor = ''OHOS.Telephony.ImsCallInterface''"

abbreviation IMS_DIAL_code :: int where "IMS_DIAL_code \<equiv> 5000"
abbreviation IMS_HANG_UP_code :: int where "IMS_HANG_UP_code \<equiv> 5001"
abbreviation IMS_REJECT_WITH_REASON_code :: int where "IMS_REJECT_WITH_REASON_code \<equiv> 5002"
abbreviation IMS_ANSWER_code :: int where "IMS_ANSWER_code \<equiv> 5003"
abbreviation IMS_HOLD_code :: int where "IMS_HOLD_code \<equiv> 5004"
abbreviation IMS_UN_HOLD_code :: int where "IMS_UN_HOLD_code \<equiv> 5005"
abbreviation IMS_SWITCH_code :: int where "IMS_SWITCH_code \<equiv> 5006"
abbreviation IMS_COMBINE_CONFERENCE_code :: int where "IMS_COMBINE_CONFERENCE_code \<equiv> 5007"
abbreviation IMS_INVITE_TO_CONFERENCE_code :: int where "IMS_INVITE_TO_CONFERENCE_code \<equiv> 5008"
abbreviation IMS_KICK_OUT_CONFERENCE_code :: int where "IMS_KICK_OUT_CONFERENCE_code \<equiv> 5009"
abbreviation IMS_SEND_CALL_MEDIA_MODE_REQUEST_code :: int where "IMS_SEND_CALL_MEDIA_MODE_REQUEST_code \<equiv> 5010"
abbreviation IMS_CALL_STATE_CHANGE_code :: int where "IMS_CALL_STATE_CHANGE_code \<equiv> 5011"
abbreviation IMS_GET_CALL_DATA_code :: int where "IMS_GET_CALL_DATA_code \<equiv> 5012"
abbreviation IMS_GET_LAST_CALL_FAIL_REASON_code :: int where "IMS_GET_LAST_CALL_FAIL_REASON_code \<equiv> 5013"
abbreviation IMS_SEND_CALL_MEDIA_MODE_RESPONSE_code :: int where "IMS_SEND_CALL_MEDIA_MODE_RESPONSE_code \<equiv> 5014"
abbreviation IMS_CANCEL_CALL_UPGRADE_code :: int where "IMS_CANCEL_CALL_UPGRADE_code \<equiv> 5015"
abbreviation IMS_REQUEST_CAMERA_CAPABILITIES_code :: int where "IMS_REQUEST_CAMERA_CAPABILITIES_code \<equiv> 5016"
abbreviation IMS_START_DTMF_code :: int where "IMS_START_DTMF_code \<equiv> 5100"
abbreviation IMS_SEND_DTMF_code :: int where "IMS_SEND_DTMF_code \<equiv> 5101"
abbreviation IMS_STOP_DTMF_code :: int where "IMS_STOP_DTMF_code \<equiv> 5102"
abbreviation IMS_START_RTT_code :: int where "IMS_START_RTT_code \<equiv> 5103"
abbreviation IMS_STOP_RTT_code :: int where "IMS_STOP_RTT_code \<equiv> 5104"
abbreviation IMS_UPDATE_RTT_CALL_MODE_code :: int where "IMS_UPDATE_RTT_CALL_MODE_code \<equiv> 5105"
abbreviation IMS_SET_DOMAIN_PREFERENCE_MODE_code :: int where "IMS_SET_DOMAIN_PREFERENCE_MODE_code \<equiv> 5200"
abbreviation IMS_GET_DOMAIN_PREFERENCE_MODE_code :: int where "IMS_GET_DOMAIN_PREFERENCE_MODE_code \<equiv> 5201"
abbreviation IMS_SET_SWITCH_STATUS_code :: int where "IMS_SET_SWITCH_STATUS_code \<equiv> 5202"
abbreviation IMS_GET_SWITCH_STATUS_code :: int where "IMS_GET_SWITCH_STATUS_code \<equiv> 5203"
abbreviation IMS_SET_IMS_CONFIG_STRING_code :: int where "IMS_SET_IMS_CONFIG_STRING_code \<equiv> 5204"
abbreviation IMS_SET_IMS_CONFIG_INT_code :: int where "IMS_SET_IMS_CONFIG_INT_code \<equiv> 5205"
abbreviation IMS_GET_IMS_CONFIG_code :: int where "IMS_GET_IMS_CONFIG_code \<equiv> 5206"
abbreviation IMS_SET_VT_CONFIG_code :: int where "IMS_SET_VT_CONFIG_code \<equiv> 5207"
abbreviation IMS_SET_IMS_FEATURE_code :: int where "IMS_SET_IMS_FEATURE_code \<equiv> 5208"
abbreviation IMS_GET_IMS_FEATURE_code :: int where "IMS_GET_IMS_FEATURE_code \<equiv> 5209"
abbreviation IMS_SET_MUTE_code :: int where "IMS_SET_MUTE_code \<equiv> 5210"
abbreviation IMS_GET_MUTE_code :: int where "IMS_GET_MUTE_code \<equiv> 5211"
abbreviation IMS_SET_IMS_REG_ERROR_REPORT_code :: int where "IMS_SET_IMS_REG_ERROR_REPORT_code \<equiv> 5212"
abbreviation IMS_UPDATE_CAPABILITY_code :: int where "IMS_UPDATE_CAPABILITY_code \<equiv> 5213"
abbreviation IMS_GET_IMPU_FROM_NETWORK_code :: int where "IMS_GET_IMPU_FROM_NETWORK_code \<equiv> 5214"
abbreviation IMS_OPERATOR_CONFIG_CHANGED_code :: int where "IMS_OPERATOR_CONFIG_CHANGED_code \<equiv> 5215"
abbreviation IMS_GET_IMS_CAPABILITY_code :: int where "IMS_GET_IMS_CAPABILITY_code \<equiv> 5216"
abbreviation IMS_CTRL_CAMERA_code :: int where "IMS_CTRL_CAMERA_code \<equiv> 5300"
abbreviation IMS_SET_PREVIEW_WINDOW_code :: int where "IMS_SET_PREVIEW_WINDOW_code \<equiv> 5301"
abbreviation IMS_SET_DISPLAY_WINDOW_code :: int where "IMS_SET_DISPLAY_WINDOW_code \<equiv> 5302"
abbreviation IMS_SET_CAMERA_ZOOM_code :: int where "IMS_SET_CAMERA_ZOOM_code \<equiv> 5303"
abbreviation IMS_SET_PAUSE_IMAGE_code :: int where "IMS_SET_PAUSE_IMAGE_code \<equiv> 5304"
abbreviation IMS_SET_DEVICE_DIRECTION_code :: int where "IMS_SET_DEVICE_DIRECTION_code \<equiv> 5305"
abbreviation IMS_GET_CLIP_code :: int where "IMS_GET_CLIP_code \<equiv> 5400"
abbreviation IMS_SET_CLIP_code :: int where "IMS_SET_CLIP_code \<equiv> 5401"
abbreviation IMS_SET_CLIR_code :: int where "IMS_SET_CLIR_code \<equiv> 5402"
abbreviation IMS_GET_CLIR_code :: int where "IMS_GET_CLIR_code \<equiv> 5403"
abbreviation IMS_SET_CALL_TRANSFER_code :: int where "IMS_SET_CALL_TRANSFER_code \<equiv> 5404"
abbreviation IMS_GET_CALL_TRANSFER_code :: int where "IMS_GET_CALL_TRANSFER_code \<equiv> 5405"
abbreviation IMS_CAN_SET_CALL_TRANSFER_TIME_code :: int where "IMS_CAN_SET_CALL_TRANSFER_TIME_code \<equiv> 5406"
abbreviation IMS_SET_CALL_RESTRICTION_code :: int where "IMS_SET_CALL_RESTRICTION_code \<equiv> 5407"
abbreviation IMS_GET_CALL_RESTRICTION_code :: int where "IMS_GET_CALL_RESTRICTION_code \<equiv> 5408"
abbreviation IMS_SET_CALL_WAITING_code :: int where "IMS_SET_CALL_WAITING_code \<equiv> 5409"
abbreviation IMS_GET_CALL_WAITING_code :: int where "IMS_GET_CALL_WAITING_code \<equiv> 5410"
abbreviation IMS_SET_COLR_code :: int where "IMS_SET_COLR_code \<equiv> 5411"
abbreviation IMS_GET_COLR_code :: int where "IMS_GET_COLR_code \<equiv> 5412"
abbreviation IMS_SET_COLP_code :: int where "IMS_SET_COLP_code \<equiv> 5413"
abbreviation IMS_GET_COLP_code :: int where "IMS_GET_COLP_code \<equiv> 5414"
abbreviation IMS_SET_VIDEO_CALL_WAITING_code :: int where "IMS_SET_VIDEO_CALL_WAITING_code \<equiv> 5415"
abbreviation IMS_CALL_REGISTER_CALLBACK_code :: int where "IMS_CALL_REGISTER_CALLBACK_code \<equiv> 5500"

section \<open>Common parts\<close>

text \<open>\<^verbatim>\<open>ImsCapability\<close> of \<^verbatim>\<open>ims_common/ims_feature.h\<close>; its enumerations are integers.\<close>

record ImsCapability =
  cap_type :: int
  cap_radioTech :: int
  cap_enable :: bool

definition USER_DECLINE :: int where "USER_DECLINE = 1"

record 'p req_env = "'p ipc_env" +
  e_boolAnswer :: "'p \<Rightarrow> bool"

definition transact ::
    "errcode \<Rightarrow> ('p, 'x) ipc_env_scheme \<Rightarrow> 'p parcel \<Rightarrow> ('p, errcode + int) state \<Rightarrow> errcode \<times> (int \<times> 'p) option" where
  "transact noRemote e P m =
     (case run_state m (new P) of
        (Inl err, _) \<Rightarrow> (err, None)
      | (Inr code, inp) \<Rightarrow>
          if \<not> e_remote e then (noRemote, None)
          else (case e_answer e code inp of None \<Rightarrow> TELEPHONY_ERR_IPC_CONNECT_STUB_FAIL | Some r \<Rightarrow> r, Some (code, inp)))"

definition SendRequest_ims ::
    "('p, 'x) ipc_env_scheme \<Rightarrow> 'p parcel \<Rightarrow> ('p, errcode + int) state \<Rightarrow> errcode \<times> (int \<times> 'p) option" where
  "SendRequest_ims e P m = transact TELEPHONY_ERR_IPC_CONNECT_STUB_FAIL e P m"

definition SendRequest_ims_slot ::
    "('p, 'x) ipc_env_scheme \<Rightarrow> 'p parcel \<Rightarrow> int \<Rightarrow> ('p, errcode + int) state \<Rightarrow> errcode \<times> (int \<times> 'p) option" where
  "SendRequest_ims_slot e P slot m = transact TELEPHONY_ERR_IPC_CONNECT_STUB_FAIL e P m"

text \<open>\<^verbatim>\<open>CanSetCallTransferTime\<close> also reads a truth value from the answer, into its caller's variable.\<close>

definition transact_bool ::
    "('p, 'x) req_env_scheme \<Rightarrow> 'p parcel \<Rightarrow> bool \<Rightarrow> ('p, errcode + int) state \<Rightarrow>
     (errcode \<times> (int \<times> 'p) option) \<times> bool" where
  "transact_bool e P on m =
     (let res = transact TELEPHONY_ERR_IPC_CONNECT_STUB_FAIL e P m in
      (res, case snd res of
              None \<Rightarrow> on
            | Some (code, inp) \<Rightarrow> if e_answer e code inp = None then on else e_boolAnswer e inp))"

definition WriteCommonInfo_ims :: "'p parcel \<Rightarrow> int \<Rightarrow> ('p, errcode + int) state \<Rightarrow> ('p, errcode + int) state" where
  "WriteCommonInfo_ims P slot next =
     or_fail TELEPHONY_ERR_WRITE_DESCRIPTOR_TOKEN_FAIL (WriteInterfaceToken P ImsCall_descriptor)
       (or_fail TELEPHONY_ERR_WRITE_DATA_FAIL (WriteInt32 P slot) next)"

definition WriteCommonInfo_ims_type ::
    "'p parcel \<Rightarrow> int \<Rightarrow> int \<Rightarrow> ('p, errcode + int) state \<Rightarrow> ('p, errcode + int) state" where
  "WriteCommonInfo_ims_type P slot ctype next =
     WriteCommonInfo_ims P slot (or_fail TELEPHONY_ERR_WRITE_DATA_FAIL (WriteInt32 P ctype) next)"

text \<open>The producer of a surface, if there is one; whether it could be written is not looked at.\<close>

definition write_surface :: "'p parcel \<Rightarrow> nat option \<Rightarrow> ('p, unit) state" where
  "write_surface P producer =
     (case producer of
        None \<Rightarrow> State_Monad.return ()
      | Some obj \<Rightarrow> do { wr P (RemoteObject obj); State_Monad.return () })"

definition capability_items :: "ImsCapability \<Rightarrow> item list" where
  "capability_items c = [Int32 (cap_type c), Int32 (cap_radioTech c), ABool (cap_enable c)]"

definition surface_items :: "nat option \<Rightarrow> item list" where
  "surface_items producer = (case producer of None \<Rightarrow> [] | Some obj \<Rightarrow> [RemoteObject obj])"

section \<open>The requests of the proxy\<close>

subsection \<open>Calls\<close>

definition Dial_improxy ::
    "('p, 'x) req_env_scheme \<Rightarrow> 'p parcel \<Rightarrow> ImsCallInfo \<Rightarrow> CLIRMode \<Rightarrow> errcode \<times> (int \<times> 'p) option" where
  "Dial_improxy e P info md =
     transact TELEPHONY_ERR_LOCAL_PTR_NULL e P
      (or_fail TELEPHONY_ERR_WRITE_DESCRIPTOR_TOKEN_FAIL (WriteInterfaceToken P ImsCall_descriptor)
         (or_fail TELEPHONY_ERR_WRITE_DATA_FAIL (WriteRawData P (BImsCallInfo info))
           (or_fail TELEPHONY_ERR_WRITE_DATA_FAIL (wr P (AClirMode md))
             (State_Monad.return (Inr IMS_DIAL_code)))))"

definition HangUp_improxy ::
    "('p, 'x) req_env_scheme \<Rightarrow> 'p parcel \<Rightarrow> ImsCallInfo \<Rightarrow> errcode \<times> (int \<times> 'p) option" where
  "HangUp_improxy e P info =
     transact TELEPHONY_ERR_LOCAL_PTR_NULL e P
      (or_fail TELEPHONY_ERR_WRITE_DESCRIPTOR_TOKEN_FAIL (WriteInterfaceToken P ImsCall_descriptor)
         (or_fail TELEPHONY_ERR_WRITE_DATA_FAIL (WriteRawData P (BImsCallInfo info))
           (State_Monad.return (Inr IMS_HANG_UP_code))))"

definition RejectWithReason_improxy ::
    "('p, 'x) req_env_scheme \<Rightarrow> 'p parcel \<Rightarrow> ImsCallInfo \<Rightarrow> int \<Rightarrow> errcode \<times> (int \<times> 'p) option" where
  "RejectWithReason_improxy e P info rsn =
     transact TELEPHONY_ERR_LOCAL_PTR_NULL e P
      (or_fail TELEPHONY_ERR_WRITE_DESCRIPTOR_TOKEN_FAIL (WriteInterfaceToken P ImsCall_descriptor)
         (or_fail TELEPHONY_ERR_WRITE_DATA_FAIL (WriteRawData P (BImsCallInfo info))
           (or_fail TELEPHONY_ERR_WRITE_DATA_FAIL (WriteInt32 P rsn)
             (State_Monad.return (Inr IMS_REJECT_WITH_REASON_code)))))"

definition Answer_improxy ::
    "('p, 'x) req_env_scheme \<Rightarrow> 'p parcel \<Rightarrow> ImsCallInfo \<Rightarrow> errcode \<times> (int \<times> 'p) option" where
  "Answer_improxy e P info =
     transact TELEPHONY_ERR_LOCAL_PTR_NULL e P
      (or_fail TELEPHONY_ERR_WRITE_DESCRIPTOR_TOKEN_FAIL (WriteInterfaceToken P ImsCall_descriptor)
         (or_fail TELEPHONY_ERR_WRITE_DATA_FAIL (WriteRawData P (BImsCallInfo info))
           (State_Monad.return (Inr IMS_ANSWER_code))))"

definition HoldCall_improxy ::
    "('p, 'x) req_env_scheme \<Rightarrow> 'p parcel \<Rightarrow> int \<Rightarrow> int \<Rightarrow> bool \<Rightarrow> errcode \<times> (int \<times> 'p) option" where
  "HoldCall_improxy e P slot ctype rtt =
     SendRequest_ims_slot e P slot
      (WriteCommonInfo_ims_type P slot ctype
         (or_fail TELEPHONY_ERR_WRITE_DATA_FAIL (WriteBool P rtt)
           (State_Monad.return (Inr IMS_HOLD_code))))"

definition UnHoldCall_improxy ::
    "('p, 'x) req_env_scheme \<Rightarrow> 'p parcel \<Rightarrow> int \<Rightarrow> int \<Rightarrow> bool \<Rightarrow> errcode \<times> (int \<times> 'p) option" where
  "UnHoldCall_improxy e P slot ctype rtt =
     SendRequest_ims_slot e P slot
      (WriteCommonInfo_ims_type P slot ctype
         (or_fail TELEPHONY_ERR_WRITE_DATA_FAIL (WriteBool P rtt)
           (State_Monad.return (Inr IMS_UN_HOLD_code))))"

definition SwitchCall_improxy ::
    "('p, 'x) req_env_scheme \<Rightarrow> 'p parcel \<Rightarrow> int \<Rightarrow> int \<Rightarrow> bool \<Rightarrow> errcode \<times> (int \<times> 'p) option" where
  "SwitchCall_improxy e P slot ctype rtt =
     SendRequest_ims_slot e P slot
      (WriteCommonInfo_ims_type P slot ctype
         (or_fail TELEPHONY_ERR_WRITE_DATA_FAIL (WriteBool P rtt)
           (State_Monad.return (Inr IMS_SWITCH_code))))"

definition CombineConference_improxy ::
    "('p, 'x) req_env_scheme \<Rightarrow> 'p parcel \<Rightarrow> int \<Rightarrow> errcode \<times> (int \<times> 'p) option" where
  "CombineConference_improxy e P slot =
     SendRequest_ims_slot e P slot
      (WriteCommonInfo_ims P slot
         (State_Monad.return (Inr IMS_COMBINE_CONFERENCE_code)))"

definition InviteToConference_improxy ::
    "('p, 'x) req_env_scheme \<Rightarrow> 'p parcel \<Rightarrow> int \<Rightarrow> string list \<Rightarrow> errcode \<times> (int \<times> 'p) option" where
  "InviteToConference_improxy e P slot nums =
     SendRequest_ims_slot e P slot
      (WriteCommonInfo_ims P slot
         (or_fail TELEPHONY_ERR_WRITE_DATA_FAIL (wr P (AStringVector nums))
           (State_Monad.return (Inr IMS_INVITE_TO_CONFERENCE_code))))"

definition KickOutFromConference_improxy ::
    "('p, 'x) req_env_scheme \<Rightarrow> 'p parcel \<Rightarrow> int \<Rightarrow> int \<Rightarrow> errcode \<times> (int \<times> 'p) option" where
  "KickOutFromConference_improxy e P slot idx =
     SendRequest_ims_slot e P slot
      (WriteCommonInfo_ims P slot
         (or_fail TELEPHONY_ERR_WRITE_DATA_FAIL (WriteInt32 P idx)
           (State_Monad.return (Inr IMS_KICK_OUT_CONFERENCE_code))))"

definition GetImsCallsDataRequest_improxy ::
    "('p, 'x) req_env_scheme \<Rightarrow> 'p parcel \<Rightarrow> int \<Rightarrow> int \<Rightarrow> errcode \<times> (int \<times> 'p) option" where
  "GetImsCallsDataRequest_improxy e P slot lastFlag =
     SendRequest_ims_slot e P slot
      (WriteCommonInfo_ims P slot
         (or_fail TELEPHONY_ERR_WRITE_DATA_FAIL (wr P (Int64 lastFlag))
           (State_Monad.return (Inr IMS_GET_CALL_DATA_code))))"

definition GetLastCallFailReason_improxy ::
    "('p, 'x) req_env_scheme \<Rightarrow> 'p parcel \<Rightarrow> int \<Rightarrow> errcode \<times> (int \<times> 'p) option" where
  "GetLastCallFailReason_improxy e P slot =
     SendRequest_ims_slot e P slot
      (WriteCommonInfo_ims P slot
         (State_Monad.return (Inr IMS_GET_LAST_CALL_FAIL_REASON_code)))"

definition StartDtmf_improxy ::
    "('p, 'x) req_env_scheme \<Rightarrow> 'p parcel \<Rightarrow> int \<Rightarrow> char \<Rightarrow> int \<Rightarrow> errcode \<times> (int \<times> 'p) option" where
  "StartDtmf_improxy e P slot dtmf idx =
     SendRequest_ims_slot e P slot
      (WriteCommonInfo_ims P slot
         (or_fail TELEPHONY_ERR_WRITE_DATA_FAIL (wr P (Int8 dtmf))
           (or_fail TELEPHONY_ERR_WRITE_DATA_FAIL (WriteInt32 P idx)
             (State_Monad.return (Inr IMS_START_DTMF_code)))))"

definition SendDtmf_improxy ::
    "('p, 'x) req_env_scheme \<Rightarrow> 'p parcel \<Rightarrow> int \<Rightarrow> char \<Rightarrow> int \<Rightarrow> errcode \<times> (int \<times> 'p) option" where
  "SendDtmf_improxy e P slot dtmf idx =
     SendRequest_ims_slot e P slot
      (WriteCommonInfo_ims P slot
         (or_fail TELEPHONY_ERR_WRITE_DATA_FAIL (wr P (Int8 dtmf))
           (or_fail TELEPHONY_ERR_WRITE_DATA_FAIL (WriteInt32 P idx)
             (State_Monad.return (Inr IMS_SEND_DTMF_code)))))"

definition StopDtmf_improxy ::
    "('p, 'x) req_env_scheme \<Rightarrow> 'p parcel \<Rightarrow> int \<Rightarrow> int \<Rightarrow> errcode \<times> (int \<times> 'p) option" where
  "StopDtmf_improxy e P slot idx =
     SendRequest_ims_slot e P slot
      (WriteCommonInfo_ims P slot
         (or_fail TELEPHONY_ERR_WRITE_DATA_FAIL (WriteInt32 P idx)
           (State_Monad.return (Inr IMS_STOP_DTMF_code))))"

definition UpdateImsRttCallMode_improxy ::
    "('p, 'x) req_env_scheme \<Rightarrow> 'p parcel \<Rightarrow> int \<Rightarrow> int \<Rightarrow> int \<Rightarrow> errcode \<times> (int \<times> 'p) option" where
  "UpdateImsRttCallMode_improxy e P slot callIdx rmode =
     SendRequest_ims_slot e P slot
      (WriteCommonInfo_ims P slot
         (or_fail TELEPHONY_ERR_WRITE_DATA_FAIL (WriteInt32 P callIdx)
           (or_fail TELEPHONY_ERR_WRITE_DATA_FAIL (WriteInt32 P rmode)
             (State_Monad.return (Inr IMS_UPDATE_RTT_CALL_MODE_code)))))"

subsection \<open>Video calls\<close>

definition SendUpdateCallMediaModeRequest_improxy ::
    "('p, 'x) req_env_scheme \<Rightarrow> 'p parcel \<Rightarrow> ImsCallInfo \<Rightarrow> ImsCallType \<Rightarrow> errcode \<times> (int \<times> 'p) option" where
  "SendUpdateCallMediaModeRequest_improxy e P info vtype =
     SendRequest_ims_slot e P (ic_slotId info)
      (or_fail TELEPHONY_ERR_WRITE_DESCRIPTOR_TOKEN_FAIL (WriteInterfaceToken P ImsCall_descriptor)
         (or_fail TELEPHONY_ERR_WRITE_DATA_FAIL (WriteRawData P (BImsCallInfo info))
           (or_fail TELEPHONY_ERR_WRITE_DATA_FAIL (wr P (AImsCallType vtype))
             (State_Monad.return (Inr IMS_SEND_CALL_MEDIA_MODE_REQUEST_code)))))"

definition SendUpdateCallMediaModeResponse_improxy ::
    "('p, 'x) req_env_scheme \<Rightarrow> 'p parcel \<Rightarrow> ImsCallInfo \<Rightarrow> ImsCallType \<Rightarrow> errcode \<times> (int \<times> 'p) option" where
  "SendUpdateCallMediaModeResponse_improxy e P info vtype =
     SendRequest_ims_slot e P (ic_slotId info)
      (or_fail TELEPHONY_ERR_WRITE_DESCRIPTOR_TOKEN_FAIL (WriteInterfaceToken P ImsCall_descriptor)
         (or_fail TELEPHONY_ERR_WRITE_DATA_FAIL (WriteRawData P (BImsCallInfo info))
           (or_fail TELEPHONY_ERR_WRITE_DATA_FAIL (wr P (AImsCallType vtype))
             (State_Monad.return (Inr IMS_SEND_CALL_MEDIA_MODE_RESPONSE_code)))))"

definition CancelCallUpgrade_improxy ::
    "('p, 'x) req_env_scheme \<Rightarrow> 'p parcel \<Rightarrow> int \<Rightarrow> int \<Rightarrow> errcode \<times> (int \<times> 'p) option" where
  "CancelCallUpgrade_improxy e P slot callIdx =
     SendRequest_ims_slot e P slot
      (or_fail TELEPHONY_ERR_WRITE_DESCRIPTOR_TOKEN_FAIL (WriteInterfaceToken P ImsCall_descriptor)
         (or_fail TELEPHONY_ERR_WRITE_DATA_FAIL (WriteInt32 P slot)
           (or_fail TELEPHONY_ERR_WRITE_DATA_FAIL (WriteInt32 P callIdx)
             (State_Monad.return (Inr IMS_CANCEL_CALL_UPGRADE_code)))))"

definition RequestCameraCapabilities_improxy ::
    "('p, 'x) req_env_scheme \<Rightarrow> 'p parcel \<Rightarrow> int \<Rightarrow> int \<Rightarrow> errcode \<times> (int \<times> 'p) option" where
  "RequestCameraCapabilities_improxy e P slot callIdx =
     SendRequest_ims_slot e P slot
      (or_fail TELEPHONY_ERR_WRITE_DESCRIPTOR_TOKEN_FAIL (WriteInterfaceToken P ImsCall_descriptor)
         (or_fail TELEPHONY_ERR_WRITE_DATA_FAIL (WriteInt32 P slot)
           (or_fail TELEPHONY_ERR_WRITE_DATA_FAIL (WriteInt32 P callIdx)
             (State_Monad.return (Inr IMS_REQUEST_CAMERA_CAPABILITIES_code)))))"

definition ControlCamera_improxy ::
    "('p, 'x) req_env_scheme \<Rightarrow> 'p parcel \<Rightarrow> int \<Rightarrow> int \<Rightarrow> string \<Rightarrow> errcode \<times> (int \<times> 'p) option" where
  "ControlCamera_improxy e P slot callIdx cam =
     SendRequest_ims_slot e P slot
      (WriteCommonInfo_ims P slot
         (or_fail TELEPHONY_ERR_WRITE_DATA_FAIL (WriteInt32 P callIdx)
           (or_fail TELEPHONY_ERR_WRITE_DATA_FAIL (WriteString P cam)
             (State_Monad.return (Inr IMS_CTRL_CAMERA_code)))))"

definition SetPreviewWindow_improxy ::
    "('p, 'x) req_env_scheme \<Rightarrow> 'p parcel \<Rightarrow> int \<Rightarrow> int \<Rightarrow> string \<Rightarrow> nat option \<Rightarrow> errcode \<times> (int \<times> 'p) option" where
  "SetPreviewWindow_improxy e P slot callIdx surf producer =
     SendRequest_ims_slot e P slot
      (WriteCommonInfo_ims P slot
         (or_fail TELEPHONY_ERR_WRITE_DATA_FAIL (WriteInt32 P callIdx)
           (or_fail TELEPHONY_ERR_WRITE_DATA_FAIL (WriteString P surf)
             (State_Monad.bind (write_surface P producer) (\<lambda>_. State_Monad.return (Inr IMS_SET_PREVIEW_WINDOW_code))))))"

definition SetDisplayWindow_improxy ::
    "('p, 'x) req_env_scheme \<Rightarrow> 'p parcel \<Rightarrow> int \<Rightarrow> int \<Rightarrow> string \<Rightarrow> nat option \<Rightarrow> errcode \<times> (int \<times> 'p) option" where
  "SetDisplayWindow_improxy e P slot callIdx surf producer =
     SendRequest_ims_slot e P slot
      (WriteCommonInfo_ims P slot
         (or_fail TELEPHONY_ERR_WRITE_DATA_FAIL (WriteInt32 P callIdx)
           (or_fail TELEPHONY_ERR_WRITE_DATA_FAIL (WriteString P surf)
             (State_Monad.bind (write_surface P producer) (\<lambda>_. State_Monad.return (Inr IMS_SET_DISPLAY_WINDOW_code))))))"

definition SetCameraZoom_improxy ::
    "('p, 'x) req_env_scheme \<Rightarrow> 'p parcel \<Rightarrow> (32 word) \<Rightarrow> errcode \<times> (int \<times> 'p) option" where
  "SetCameraZoom_improxy e P zoom =
     SendRequest_ims e P
      (or_fail TELEPHONY_ERR_WRITE_DESCRIPTOR_TOKEN_FAIL (WriteInterfaceToken P ImsCall_descriptor)
         (or_fail TELEPHONY_ERR_WRITE_DATA_FAIL (wr P (AFloat zoom))
           (State_Monad.return (Inr IMS_SET_CAMERA_ZOOM_code))))"

definition SetPausePicture_improxy ::
    "('p, 'x) req_env_scheme \<Rightarrow> 'p parcel \<Rightarrow> int \<Rightarrow> int \<Rightarrow> string \<Rightarrow> errcode \<times> (int \<times> 'p) option" where
  "SetPausePicture_improxy e P slot callIdx path =
     SendRequest_ims_slot e P slot
      (WriteCommonInfo_ims P slot
         (or_fail TELEPHONY_ERR_WRITE_DATA_FAIL (WriteInt32 P callIdx)
           (or_fail TELEPHONY_ERR_WRITE_DATA_FAIL (WriteString P path)
             (State_Monad.return (Inr IMS_SET_PAUSE_IMAGE_code)))))"

definition SetDeviceDirection_improxy ::
    "('p, 'x) req_env_scheme \<Rightarrow> 'p parcel \<Rightarrow> int \<Rightarrow> int \<Rightarrow> int \<Rightarrow> errcode \<times> (int \<times> 'p) option" where
  "SetDeviceDirection_improxy e P slot callIdx rot =
     SendRequest_ims_slot e P slot
      (WriteCommonInfo_ims P slot
         (or_fail TELEPHONY_ERR_WRITE_DATA_FAIL (WriteInt32 P callIdx)
           (or_fail TELEPHONY_ERR_WRITE_DATA_FAIL (WriteInt32 P rot)
             (State_Monad.return (Inr IMS_SET_DEVICE_DIRECTION_code)))))"

subsection \<open>Configuration\<close>

definition SetDomainPreferenceMode_improxy ::
    "('p, 'x) req_env_scheme \<Rightarrow> 'p parcel \<Rightarrow> int \<Rightarrow> int \<Rightarrow> errcode \<times> (int \<times> 'p) option" where
  "SetDomainPreferenceMode_improxy e P slot dmode =
     SendRequest_ims_slot e P slot
      (WriteCommonInfo_ims P slot
         (or_fail TELEPHONY_ERR_WRITE_DATA_FAIL (WriteInt32 P dmode)
           (State_Monad.return (Inr IMS_SET_DOMAIN_PREFERENCE_MODE_code))))"

definition GetDomainPreferenceMode_improxy ::
    "('p, 'x) req_env_scheme \<Rightarrow> 'p parcel \<Rightarrow> int \<Rightarrow> errcode \<times> (int \<times> 'p) option" where
  "GetDomainPreferenceMode_improxy e P slot =
     SendRequest_ims_slot e P slot
      (WriteCommonInfo_ims P slot
         (State_Monad.return (Inr IMS_GET_DOMAIN_PREFERENCE_MODE_code)))"

definition SetCarrierVtConfig_improxy ::
    "('p, 'x) req_env_scheme \<Rightarrow> 'p parcel \<Rightarrow> int \<Rightarrow> int \<Rightarrow> errcode \<times> (int \<times> 'p) option" where
  "SetCarrierVtConfig_improxy e P slot active =
     SendRequest_ims_slot e P slot
      (WriteCommonInfo_ims P slot
         (or_fail TELEPHONY_ERR_WRITE_DATA_FAIL (WriteInt32 P active)
           (State_Monad.return (Inr IMS_SET_VT_CONFIG_code))))"

definition SetImsSwitchStatus_improxy ::
    "('p, 'x) req_env_scheme \<Rightarrow> 'p parcel \<Rightarrow> int \<Rightarrow> int \<Rightarrow> errcode \<times> (int \<times> 'p) option" where
  "SetImsSwitchStatus_improxy e P slot active =
     SendRequest_ims_slot e P slot
      (WriteCommonInfo_ims P slot
         (or_fail TELEPHONY_ERR_WRITE_DATA_FAIL (WriteInt32 P active)
           (State_Monad.return (Inr IMS_SET_SWITCH_STATUS_code))))"

definition GetImsSwitchStatus_improxy ::
    "('p, 'x) req_env_scheme \<Rightarrow> 'p parcel \<Rightarrow> int \<Rightarrow> errcode \<times> (int \<times> 'p) option" where
  "GetImsSwitchStatus_improxy e P slot =
     SendRequest_ims_slot e P slot
      (WriteCommonInfo_ims P slot
         (State_Monad.return (Inr IMS_GET_SWITCH_STATUS_code)))"

definition SetImsConfig_string_improxy ::
    "('p, 'x) req_env_scheme \<Rightarrow> 'p parcel \<Rightarrow> int \<Rightarrow> string \<Rightarrow> errcode \<times> (int \<times> 'p) option" where
  "SetImsConfig_string_improxy e P cfg txt =
     SendRequest_ims e P
      (or_fail TELEPHONY_ERR_WRITE_DESCRIPTOR_TOKEN_FAIL (WriteInterfaceToken P ImsCall_descriptor)
         (or_fail TELEPHONY_ERR_WRITE_DATA_FAIL (WriteInt32 P cfg)
           (or_fail TELEPHONY_ERR_WRITE_DATA_FAIL (WriteString P txt)
             (State_Monad.return (Inr IMS_SET_IMS_CONFIG_STRING_code)))))"

definition SetImsConfig_int_improxy ::
    "('p, 'x) req_env_scheme \<Rightarrow> 'p parcel \<Rightarrow> int \<Rightarrow> int \<Rightarrow> errcode \<times> (int \<times> 'p) option" where
  "SetImsConfig_int_improxy e P cfg val =
     SendRequest_ims e P
      (or_fail TELEPHONY_ERR_WRITE_DESCRIPTOR_TOKEN_FAIL (WriteInterfaceToken P ImsCall_descriptor)
         (or_fail TELEPHONY_ERR_WRITE_DATA_FAIL (WriteInt32 P cfg)
           (or_fail TELEPHONY_ERR_WRITE_DATA_FAIL (WriteInt32 P val)
             (State_Monad.return (Inr IMS_SET_IMS_CONFIG_INT_code)))))"

definition GetImsConfig_improxy ::
    "('p, 'x) req_env_scheme \<Rightarrow> 'p parcel \<Rightarrow> int \<Rightarrow> errcode \<times> (int \<times> 'p) option" where
  "GetImsConfig_improxy e P cfg =
     SendRequest_ims e P
      (or_fail TELEPHONY_ERR_WRITE_DESCRIPTOR_TOKEN_FAIL (WriteInterfaceToken P ImsCall_descriptor)
         (or_fail TELEPHONY_ERR_WRITE_DATA_FAIL (WriteInt32 P cfg)
           (State_Monad.return (Inr IMS_GET_IMS_CONFIG_code))))"

definition SetImsFeatureValue_improxy ::
    "('p, 'x) req_env_scheme \<Rightarrow> 'p parcel \<Rightarrow> int \<Rightarrow> int \<Rightarrow> errcode \<times> (int \<times> 'p) option" where
  "SetImsFeatureValue_improxy e P ftype val =
     SendRequest_ims e P
      (or_fail TELEPHONY_ERR_WRITE_DESCRIPTOR_TOKEN_FAIL (WriteInterfaceToken P ImsCall_descriptor)
         (or_fail TELEPHONY_ERR_WRITE_DATA_FAIL (WriteInt32 P ftype)
           (or_fail TELEPHONY_ERR_WRITE_DATA_FAIL (WriteInt32 P val)
             (State_Monad.return (Inr IMS_SET_IMS_FEATURE_code)))))"

definition GetImsFeatureValue_improxy ::
    "('p, 'x) req_env_scheme \<Rightarrow> 'p parcel \<Rightarrow> int \<Rightarrow> errcode \<times> (int \<times> 'p) option" where
  "GetImsFeatureValue_improxy e P ftype =
     SendRequest_ims e P
      (or_fail TELEPHONY_ERR_WRITE_DESCRIPTOR_TOKEN_FAIL (WriteInterfaceToken P ImsCall_descriptor)
         (or_fail TELEPHONY_ERR_WRITE_DATA_FAIL (WriteInt32 P ftype)
           (State_Monad.return (Inr IMS_GET_IMS_FEATURE_code))))"

definition SetMute_improxy ::
    "('p, 'x) req_env_scheme \<Rightarrow> 'p parcel \<Rightarrow> int \<Rightarrow> int \<Rightarrow> errcode \<times> (int \<times> 'p) option" where
  "SetMute_improxy e P slot mt =
     SendRequest_ims_slot e P slot
      (WriteCommonInfo_ims P slot
         (or_fail TELEPHONY_ERR_WRITE_DATA_FAIL (WriteInt32 P mt)
           (State_Monad.return (Inr IMS_SET_MUTE_code))))"

definition GetMute_improxy ::
    "('p, 'x) req_env_scheme \<Rightarrow> 'p parcel \<Rightarrow> int \<Rightarrow> errcode \<times> (int \<times> 'p) option" where
  "GetMute_improxy e P slot =
     SendRequest_ims_slot e P slot
      (WriteCommonInfo_ims P slot
         (State_Monad.return (Inr IMS_GET_MUTE_code)))"

definition UpdateImsCapabilities_improxy ::
    "('p, 'x) req_env_scheme \<Rightarrow> 'p parcel \<Rightarrow> int \<Rightarrow> ImsCapability list \<Rightarrow> errcode \<times> (int \<times> 'p) option" where
  "UpdateImsCapabilities_improxy e P slot caps =
     SendRequest_ims_slot e P slot
      (WriteCommonInfo_ims P slot
         (or_fail TELEPHONY_ERR_WRITE_DATA_FAIL (WriteInt32 P (int (length caps)))
           (or_fail TELEPHONY_ERR_WRITE_DATA_FAIL (write_all P (concat (map capability_items caps)))
             (State_Monad.return (Inr IMS_UPDATE_CAPABILITY_code)))))"

definition GetUtImpuFromNetwork_improxy ::
    "('p, 'x) req_env_scheme \<Rightarrow> 'p parcel \<Rightarrow> int \<Rightarrow> string \<Rightarrow> errcode \<times> (int \<times> 'p) option" where
  "GetUtImpuFromNetwork_improxy e P slot impu =
     SendRequest_ims_slot e P slot
      (WriteCommonInfo_ims P slot
         (or_fail TELEPHONY_ERR_WRITE_DATA_FAIL (WriteString P impu)
           (State_Monad.return (Inr IMS_GET_IMPU_FROM_NETWORK_code))))"

definition NotifyOperatorConfigChanged_improxy ::
    "('p, 'x) req_env_scheme \<Rightarrow> 'p parcel \<Rightarrow> int \<Rightarrow> int \<Rightarrow> errcode \<times> (int \<times> 'p) option" where
  "NotifyOperatorConfigChanged_improxy e P slot st =
     SendRequest_ims_slot e P slot
      (WriteCommonInfo_ims P slot
         (or_fail TELEPHONY_ERR_WRITE_DATA_FAIL (WriteInt32 P st)
           (State_Monad.return (Inr IMS_OPERATOR_CONFIG_CHANGED_code))))"

definition GetImsCapabilities_improxy ::
    "('p, 'x) req_env_scheme \<Rightarrow> 'p parcel \<Rightarrow> int \<Rightarrow> errcode \<times> (int \<times> 'p) option" where
  "GetImsCapabilities_improxy e P slot =
     SendRequest_ims_slot e P slot
      (WriteCommonInfo_ims P slot
         (State_Monad.return (Inr IMS_GET_IMS_CAPABILITY_code)))"

subsection \<open>Supplementary services\<close>

definition SetClip_improxy ::
    "('p, 'x) req_env_scheme \<Rightarrow> 'p parcel \<Rightarrow> int \<Rightarrow> int \<Rightarrow> int \<Rightarrow> errcode \<times> (int \<times> 'p) option" where
  "SetClip_improxy e P slot actn idx =
     SendRequest_ims_slot e P slot
      (WriteCommonInfo_ims P slot
         (or_fail TELEPHONY_ERR_WRITE_DATA_FAIL (WriteInt32 P actn)
           (or_fail TELEPHONY_ERR_WRITE_DATA_FAIL (WriteInt32 P idx)
             (State_Monad.return (Inr IMS_SET_CLIP_code)))))"

definition GetClip_improxy ::
    "('p, 'x) req_env_scheme \<Rightarrow> 'p parcel \<Rightarrow> int \<Rightarrow> int \<Rightarrow> errcode \<times> (int \<times> 'p) option" where
  "GetClip_improxy e P slot idx =
     SendRequest_ims_slot e P slot
      (WriteCommonInfo_ims P slot
         (or_fail TELEPHONY_ERR_WRITE_DATA_FAIL (WriteInt32 P idx)
           (State_Monad.return (Inr IMS_GET_CLIP_code))))"

definition SetClir_improxy ::
    "('p, 'x) req_env_scheme \<Rightarrow> 'p parcel \<Rightarrow> int \<Rightarrow> int \<Rightarrow> int \<Rightarrow> errcode \<times> (int \<times> 'p) option" where
  "SetClir_improxy e P slot actn idx =
     SendRequest_ims_slot e P slot
      (WriteCommonInfo_ims P slot
         (or_fail TELEPHONY_ERR_WRITE_DATA_FAIL (WriteInt32 P actn)
           (or_fail TELEPHONY_ERR_WRITE_DATA_FAIL (WriteInt32 P idx)
             (State_Monad.return (Inr IMS_SET_CLIR_code)))))"

definition GetClir_improxy ::
    "('p, 'x) req_env_scheme \<Rightarrow> 'p parcel \<Rightarrow> int \<Rightarrow> int \<Rightarrow> errcode \<times> (int \<times> 'p) option" where
  "GetClir_improxy e P slot idx =
     SendRequest_ims_slot e P slot
      (WriteCommonInfo_ims P slot
         (or_fail TELEPHONY_ERR_WRITE_DATA_FAIL (WriteInt32 P idx)
           (State_Monad.return (Inr IMS_GET_CLIR_code))))"

definition SetCallTransfer_improxy ::
    "('p, 'x) req_env_scheme \<Rightarrow> 'p parcel \<Rightarrow> int \<Rightarrow> CallTransferInfo \<Rightarrow> int \<Rightarrow> int \<Rightarrow> errcode \<times> (int \<times> 'p) option" where
  "SetCallTransfer_improxy e P slot cf cls idx =
     SendRequest_ims_slot e P slot
      (WriteCommonInfo_ims P slot
         (or_fail TELEPHONY_ERR_WRITE_DATA_FAIL (WriteRawData P (BCallTransferInfo cf))
           (or_fail TELEPHONY_ERR_WRITE_DATA_FAIL (WriteInt32 P cls)
             (or_fail TELEPHONY_ERR_WRITE_DATA_FAIL (WriteInt32 P idx)
               (State_Monad.return (Inr IMS_SET_CALL_TRANSFER_code))))))"

definition CanSetCallTransferTime_improxy ::
    "('p, 'x) req_env_scheme \<Rightarrow> 'p parcel \<Rightarrow> int \<Rightarrow> bool \<Rightarrow> (errcode \<times> (int \<times> 'p) option) \<times> bool" where
  "CanSetCallTransferTime_improxy e P slot on =
     transact_bool e P on
      (WriteCommonInfo_ims P slot
         (or_fail TELEPHONY_ERR_WRITE_DATA_FAIL (WriteBool P on)
           (State_Monad.return (Inr IMS_CAN_SET_CALL_TRANSFER_TIME_code))))"

definition GetCallTransfer_improxy ::
    "('p, 'x) req_env_scheme \<Rightarrow> 'p parcel \<Rightarrow> int \<Rightarrow> int \<Rightarrow> int \<Rightarrow> errcode \<times> (int \<times> 'p) option" where
  "GetCallTransfer_improxy e P slot rsn idx =
     SendRequest_ims_slot e P slot
      (WriteCommonInfo_ims P slot
         (or_fail TELEPHONY_ERR_WRITE_DATA_FAIL (WriteInt32 P rsn)
           (or_fail TELEPHONY_ERR_WRITE_DATA_FAIL (WriteInt32 P idx)
             (State_Monad.return (Inr IMS_GET_CALL_TRANSFER_code)))))"

definition SetCallRestriction_improxy ::
    "('p, 'x) req_env_scheme \<Rightarrow> 'p parcel \<Rightarrow> int \<Rightarrow> string \<Rightarrow> int \<Rightarrow> string \<Rightarrow> int \<Rightarrow> errcode \<times> (int \<times> 'p) option" where
  "SetCallRestriction_improxy e P slot fac rmd pw idx =
     SendRequest_ims_slot e P slot
      (WriteCommonInfo_ims P slot
         (or_fail TELEPHONY_ERR_WRITE_DATA_FAIL (WriteString P fac)
           (or_fail TELEPHONY_ERR_WRITE_DATA_FAIL (WriteInt32 P rmd)
             (or_fail TELEPHONY_ERR_WRITE_DATA_FAIL (WriteString P pw)
               (or_fail TELEPHONY_ERR_WRITE_DATA_FAIL (WriteInt32 P idx)
                 (State_Monad.return (Inr IMS_SET_CALL_RESTRICTION_code)))))))"

definition GetCallRestriction_improxy ::
    "('p, 'x) req_env_scheme \<Rightarrow> 'p parcel \<Rightarrow> int \<Rightarrow> string \<Rightarrow> int \<Rightarrow> errcode \<times> (int \<times> 'p) option" where
  "GetCallRestriction_improxy e P slot fac idx =
     SendRequest_ims_slot e P slot
      (WriteCommonInfo_ims P slot
         (or_fail TELEPHONY_ERR_WRITE_DATA_FAIL (WriteString P fac)
           (or_fail TELEPHONY_ERR_WRITE_DATA_FAIL (WriteInt32 P idx)
             (State_Monad.return (Inr IMS_GET_CALL_RESTRICTION_code)))))"

definition SetCallWaiting_improxy ::
    "('p, 'x) req_env_scheme \<Rightarrow> 'p parcel \<Rightarrow> int \<Rightarrow> bool \<Rightarrow> int \<Rightarrow> int \<Rightarrow> errcode \<times> (int \<times> 'p) option" where
  "SetCallWaiting_improxy e P slot on cls idx =
     SendRequest_ims_slot e P slot
      (WriteCommonInfo_ims P slot
         (or_fail TELEPHONY_ERR_WRITE_DATA_FAIL (WriteBool P on)
           (or_fail TELEPHONY_ERR_WRITE_DATA_FAIL (WriteInt32 P cls)
             (or_fail TELEPHONY_ERR_WRITE_DATA_FAIL (WriteInt32 P idx)
               (State_Monad.return (Inr IMS_SET_CALL_WAITING_code))))))"

definition SetVideoCallWaiting_improxy ::
    "('p, 'x) req_env_scheme \<Rightarrow> 'p parcel \<Rightarrow> int \<Rightarrow> bool \<Rightarrow> errcode \<times> (int \<times> 'p) option" where
  "SetVideoCallWaiting_improxy e P slot on =
     SendRequest_ims_slot e P slot
      (WriteCommonInfo_ims P slot
         (or_fail TELEPHONY_ERR_WRITE_DATA_FAIL (WriteBool P on)
           (State_Monad.return (Inr IMS_SET_VIDEO_CALL_WAITING_code))))"

definition GetCallWaiting_improxy ::
    "('p, 'x) req_env_scheme \<Rightarrow> 'p parcel \<Rightarrow> int \<Rightarrow> int \<Rightarrow> errcode \<times> (int \<times> 'p) option" where
  "GetCallWaiting_improxy e P slot idx =
     SendRequest_ims_slot e P slot
      (WriteCommonInfo_ims P slot
         (or_fail TELEPHONY_ERR_WRITE_DATA_FAIL (WriteInt32 P idx)
           (State_Monad.return (Inr IMS_GET_CALL_WAITING_code))))"

definition SetColr_improxy ::
    "('p, 'x) req_env_scheme \<Rightarrow> 'p parcel \<Rightarrow> int \<Rightarrow> int \<Rightarrow> int \<Rightarrow> errcode \<times> (int \<times> 'p) option" where
  "SetColr_improxy e P slot pres idx =
     SendRequest_ims_slot e P slot
      (WriteCommonInfo_ims P slot
         (or_fail TELEPHONY_ERR_WRITE_DATA_FAIL (WriteInt32 P pres)
           (or_fail TELEPHONY_ERR_WRITE_DATA_FAIL (WriteInt32 P idx)
             (State_Monad.return (Inr IMS_SET_COLR_code)))))"

definition GetColr_improxy ::
    "('p, 'x) req_env_scheme \<Rightarrow> 'p parcel \<Rightarrow> int \<Rightarrow> int \<Rightarrow> errcode \<times> (int \<times> 'p) option" where
  "GetColr_improxy e P slot idx =
     SendRequest_ims_slot e P slot
      (WriteCommonInfo_ims P slot
         (or_fail TELEPHONY_ERR_WRITE_DATA_FAIL (WriteInt32 P idx)
           (State_Monad.return (Inr IMS_GET_COLR_code))))"

definition SetColp_improxy ::
    "('p, 'x) req_env_scheme \<Rightarrow> 'p parcel \<Rightarrow> int \<Rightarrow> int \<Rightarrow> int \<Rightarrow> errcode \<times> (int \<times> 'p) option" where
  "SetColp_improxy e P slot actn idx =
     SendRequest_ims_slot e P slot
      (WriteCommonInfo_ims P slot
         (or_fail TELEPHONY_ERR_WRITE_DATA_FAIL (WriteInt32 P actn)
           (or_fail TELEPHONY_ERR_WRITE_DATA_FAIL (WriteInt32 P idx)
             (State_Monad.return (Inr IMS_SET_COLP_code)))))"

definition GetColp_improxy ::
    "('p, 'x) req_env_scheme \<Rightarrow> 'p parcel \<Rightarrow> int \<Rightarrow> int \<Rightarrow> errcode \<times> (int \<times> 'p) option" where
  "GetColp_improxy e P slot idx =
     SendRequest_ims_slot e P slot
      (WriteCommonInfo_ims P slot
         (or_fail TELEPHONY_ERR_WRITE_DATA_FAIL (WriteInt32 P idx)
           (State_Monad.return (Inr IMS_GET_COLP_code))))"

subsection \<open>The callback\<close>

definition RegisterImsCallCallback_improxy ::
    "('p, 'x) req_env_scheme \<Rightarrow> 'p parcel \<Rightarrow> nat option \<Rightarrow> errcode \<times> (int \<times> 'p) option" where
  "RegisterImsCallCallback_improxy e P callback =
     (case callback of
        None \<Rightarrow> (TELEPHONY_ERR_ARGUMENT_INVALID, None)
      | Some obj \<Rightarrow>
          SendRequest_ims e P
            (or_fail TELEPHONY_ERR_WRITE_DESCRIPTOR_TOKEN_FAIL (WriteInterfaceToken P ImsCall_descriptor)
              (or_fail TELEPHONY_ERR_WRITE_DATA_FAIL (wr P (RemoteObject obj))
                (State_Monad.return (Inr IMS_CALL_REGISTER_CALLBACK_code)))))"

section \<open>Every request\<close>

datatype video_request =
    RqSendUpdateCallMediaModeRequest ImsCallInfo ImsCallType
  | RqSendUpdateCallMediaModeResponse ImsCallInfo ImsCallType
  | RqCancelCallUpgrade int int
  | RqRequestCameraCapabilities int int
  | RqControlCamera int int string
  | RqSetPreviewWindow int int string "nat option"
  | RqSetDisplayWindow int int string "nat option"
  | RqSetCameraZoom "32 word"
  | RqSetPausePicture int int string
  | RqSetDeviceDirection int int int

datatype config_request =
    RqSetDomainPreferenceMode int int
  | RqGetDomainPreferenceMode int
  | RqSetCarrierVtConfig int int
  | RqSetImsSwitchStatus int int
  | RqGetImsSwitchStatus int
  | RqSetImsConfig_string int string
  | RqSetImsConfig_int int int
  | RqGetImsConfig int
  | RqSetImsFeatureValue int int
  | RqGetImsFeatureValue int
  | RqSetMute int int
  | RqGetMute int
  | RqUpdateImsCapabilities int "ImsCapability list"
  | RqGetUtImpuFromNetwork int string
  | RqNotifyOperatorConfigChanged int int
  | RqGetImsCapabilities int
  | RqSetVideoCallWaiting int bool

datatype ims_request =
    RqCall ims_req
  | RqReason ImsCallInfo int
  | RqVideo video_request
  | RqConfig config_request
  | RqSs bool ss_ims_req

fun ims_request_proxy :: "('p, 'x) req_env_scheme \<Rightarrow> 'p parcel \<Rightarrow> ims_request \<Rightarrow> errcode \<times> (int \<times> 'p) option" where
  "ims_request_proxy e P (RqCall (ImsDial info md)) = Dial_improxy e P info md"
| "ims_request_proxy e P (RqCall (ImsHangUp info)) = HangUp_improxy e P info"
| "ims_request_proxy e P (RqCall (ImsReject info)) = RejectWithReason_improxy e P info USER_DECLINE"
| "ims_request_proxy e P (RqReason info rsn) = RejectWithReason_improxy e P info rsn"
| "ims_request_proxy e P (RqCall (ImsAnswer info)) = Answer_improxy e P info"
| "ims_request_proxy e P (RqCall (ImsHoldCall slot ctype rtt)) = HoldCall_improxy e P slot ctype rtt"
| "ims_request_proxy e P (RqCall (ImsUnHoldCall slot ctype rtt)) = UnHoldCall_improxy e P slot ctype rtt"
| "ims_request_proxy e P (RqCall (ImsSwitchCall slot ctype rtt)) = SwitchCall_improxy e P slot ctype rtt"
| "ims_request_proxy e P (RqCall (ImsCombineConference slot)) = CombineConference_improxy e P slot"
| "ims_request_proxy e P (RqCall (ImsInviteToConference slot nums)) = InviteToConference_improxy e P slot nums"
| "ims_request_proxy e P (RqCall (ImsKickOutFromConference slot idx)) = KickOutFromConference_improxy e P slot idx"
| "ims_request_proxy e P (RqCall (ImsGetCallsData slot lastFlag)) = GetImsCallsDataRequest_improxy e P slot lastFlag"
| "ims_request_proxy e P (RqCall (ImsGetLastCallFailReason slot)) = GetLastCallFailReason_improxy e P slot"
| "ims_request_proxy e P (RqCall (ImsStartDtmf slot dtmf idx)) = StartDtmf_improxy e P slot dtmf idx"
| "ims_request_proxy e P (RqCall (ImsSendDtmf slot dtmf idx)) = SendDtmf_improxy e P slot dtmf idx"
| "ims_request_proxy e P (RqCall (ImsStopDtmf slot idx)) = StopDtmf_improxy e P slot idx"
| "ims_request_proxy e P (RqCall (ImsUpdateRttCallMode slot callIdx rmode)) = UpdateImsRttCallMode_improxy e P slot callIdx rmode"
| "ims_request_proxy e P (RqVideo (RqSendUpdateCallMediaModeRequest info vtype)) = SendUpdateCallMediaModeRequest_improxy e P info vtype"
| "ims_request_proxy e P (RqVideo (RqSendUpdateCallMediaModeResponse info vtype)) = SendUpdateCallMediaModeResponse_improxy e P info vtype"
| "ims_request_proxy e P (RqVideo (RqCancelCallUpgrade slot callIdx)) = CancelCallUpgrade_improxy e P slot callIdx"
| "ims_request_proxy e P (RqVideo (RqRequestCameraCapabilities slot callIdx)) = RequestCameraCapabilities_improxy e P slot callIdx"
| "ims_request_proxy e P (RqVideo (RqControlCamera slot callIdx cam)) = ControlCamera_improxy e P slot callIdx cam"
| "ims_request_proxy e P (RqVideo (RqSetPreviewWindow slot callIdx surf producer)) = SetPreviewWindow_improxy e P slot callIdx surf producer"
| "ims_request_proxy e P (RqVideo (RqSetDisplayWindow slot callIdx surf producer)) = SetDisplayWindow_improxy e P slot callIdx surf producer"
| "ims_request_proxy e P (RqVideo (RqSetCameraZoom zoom)) = SetCameraZoom_improxy e P zoom"
| "ims_request_proxy e P (RqVideo (RqSetPausePicture slot callIdx path)) = SetPausePicture_improxy e P slot callIdx path"
| "ims_request_proxy e P (RqVideo (RqSetDeviceDirection slot callIdx rot)) = SetDeviceDirection_improxy e P slot callIdx rot"
| "ims_request_proxy e P (RqConfig (RqSetDomainPreferenceMode slot dmode)) = SetDomainPreferenceMode_improxy e P slot dmode"
| "ims_request_proxy e P (RqConfig (RqGetDomainPreferenceMode slot)) = GetDomainPreferenceMode_improxy e P slot"
| "ims_request_proxy e P (RqConfig (RqSetCarrierVtConfig slot active)) = SetCarrierVtConfig_improxy e P slot active"
| "ims_request_proxy e P (RqConfig (RqSetImsSwitchStatus slot active)) = SetImsSwitchStatus_improxy e P slot active"
| "ims_request_proxy e P (RqConfig (RqGetImsSwitchStatus slot)) = GetImsSwitchStatus_improxy e P slot"
| "ims_request_proxy e P (RqConfig (RqSetImsConfig_string cfg txt)) = SetImsConfig_string_improxy e P cfg txt"
| "ims_request_proxy e P (RqConfig (RqSetImsConfig_int cfg val)) = SetImsConfig_int_improxy e P cfg val"
| "ims_request_proxy e P (RqConfig (RqGetImsConfig cfg)) = GetImsConfig_improxy e P cfg"
| "ims_request_proxy e P (RqConfig (RqSetImsFeatureValue ftype val)) = SetImsFeatureValue_improxy e P ftype val"
| "ims_request_proxy e P (RqConfig (RqGetImsFeatureValue ftype)) = GetImsFeatureValue_improxy e P ftype"
| "ims_request_proxy e P (RqConfig (RqSetMute slot mt)) = SetMute_improxy e P slot mt"
| "ims_request_proxy e P (RqConfig (RqGetMute slot)) = GetMute_improxy e P slot"
| "ims_request_proxy e P (RqConfig (RqUpdateImsCapabilities slot caps)) = UpdateImsCapabilities_improxy e P slot caps"
| "ims_request_proxy e P (RqConfig (RqGetUtImpuFromNetwork slot impu)) = GetUtImpuFromNetwork_improxy e P slot impu"
| "ims_request_proxy e P (RqConfig (RqNotifyOperatorConfigChanged slot st)) = NotifyOperatorConfigChanged_improxy e P slot st"
| "ims_request_proxy e P (RqConfig (RqGetImsCapabilities slot)) = GetImsCapabilities_improxy e P slot"
| "ims_request_proxy e P (RqSs on0 (ImsSetClip slot actn idx)) = SetClip_improxy e P slot actn idx"
| "ims_request_proxy e P (RqSs on0 (ImsGetClip slot idx)) = GetClip_improxy e P slot idx"
| "ims_request_proxy e P (RqSs on0 (ImsSetClir slot actn idx)) = SetClir_improxy e P slot actn idx"
| "ims_request_proxy e P (RqSs on0 (ImsGetClir slot idx)) = GetClir_improxy e P slot idx"
| "ims_request_proxy e P (RqSs on0 (ImsSetCallTransfer slot cf cls idx)) = SetCallTransfer_improxy e P slot cf cls idx"
| "ims_request_proxy e P (RqSs on (ImsCanSetCallTransferTime slot)) = fst (CanSetCallTransferTime_improxy e P slot on)"
| "ims_request_proxy e P (RqSs on0 (ImsGetCallTransfer slot rsn idx)) = GetCallTransfer_improxy e P slot rsn idx"
| "ims_request_proxy e P (RqSs on0 (ImsSetCallRestriction slot fac rmd pw idx)) = SetCallRestriction_improxy e P slot fac rmd pw idx"
| "ims_request_proxy e P (RqSs on0 (ImsGetCallRestriction slot fac idx)) = GetCallRestriction_improxy e P slot fac idx"
| "ims_request_proxy e P (RqSs on0 (ImsSetCallWaiting slot on cls idx)) = SetCallWaiting_improxy e P slot on cls idx"
| "ims_request_proxy e P (RqConfig (RqSetVideoCallWaiting slot on)) = SetVideoCallWaiting_improxy e P slot on"
| "ims_request_proxy e P (RqSs on0 (ImsGetCallWaiting slot idx)) = GetCallWaiting_improxy e P slot idx"
| "ims_request_proxy e P (RqSs on0 (ImsSetColr slot pres idx)) = SetColr_improxy e P slot pres idx"
| "ims_request_proxy e P (RqSs on0 (ImsGetColr slot idx)) = GetColr_improxy e P slot idx"
| "ims_request_proxy e P (RqSs on0 (ImsSetColp slot actn idx)) = SetColp_improxy e P slot actn idx"
| "ims_request_proxy e P (RqSs on0 (ImsGetColp slot idx)) = GetColp_improxy e P slot idx"

text \<open>What a request says after the name of the interface.\<close>

fun request_contents :: "ims_request \<Rightarrow> int \<times> item list" where
  "request_contents (RqCall (ImsDial info md)) = (IMS_DIAL_code, [Block (BImsCallInfo info), AClirMode md])"
| "request_contents (RqCall (ImsHangUp info)) = (IMS_HANG_UP_code, [Block (BImsCallInfo info)])"
| "request_contents (RqCall (ImsReject info)) = (IMS_REJECT_WITH_REASON_code, [Block (BImsCallInfo info), Int32 USER_DECLINE])"
| "request_contents (RqReason info rsn) = (IMS_REJECT_WITH_REASON_code, [Block (BImsCallInfo info), Int32 rsn])"
| "request_contents (RqCall (ImsAnswer info)) = (IMS_ANSWER_code, [Block (BImsCallInfo info)])"
| "request_contents (RqCall (ImsHoldCall slot ctype rtt)) = (IMS_HOLD_code, [Int32 slot, Int32 ctype, ABool rtt])"
| "request_contents (RqCall (ImsUnHoldCall slot ctype rtt)) = (IMS_UN_HOLD_code, [Int32 slot, Int32 ctype, ABool rtt])"
| "request_contents (RqCall (ImsSwitchCall slot ctype rtt)) = (IMS_SWITCH_code, [Int32 slot, Int32 ctype, ABool rtt])"
| "request_contents (RqCall (ImsCombineConference slot)) = (IMS_COMBINE_CONFERENCE_code, [Int32 slot])"
| "request_contents (RqCall (ImsInviteToConference slot nums)) = (IMS_INVITE_TO_CONFERENCE_code, [Int32 slot, AStringVector nums])"
| "request_contents (RqCall (ImsKickOutFromConference slot idx)) = (IMS_KICK_OUT_CONFERENCE_code, [Int32 slot, Int32 idx])"
| "request_contents (RqCall (ImsGetCallsData slot lastFlag)) = (IMS_GET_CALL_DATA_code, [Int32 slot, Int64 lastFlag])"
| "request_contents (RqCall (ImsGetLastCallFailReason slot)) = (IMS_GET_LAST_CALL_FAIL_REASON_code, [Int32 slot])"
| "request_contents (RqCall (ImsStartDtmf slot dtmf idx)) = (IMS_START_DTMF_code, [Int32 slot, Int8 dtmf, Int32 idx])"
| "request_contents (RqCall (ImsSendDtmf slot dtmf idx)) = (IMS_SEND_DTMF_code, [Int32 slot, Int8 dtmf, Int32 idx])"
| "request_contents (RqCall (ImsStopDtmf slot idx)) = (IMS_STOP_DTMF_code, [Int32 slot, Int32 idx])"
| "request_contents (RqCall (ImsUpdateRttCallMode slot callIdx rmode)) = (IMS_UPDATE_RTT_CALL_MODE_code, [Int32 slot, Int32 callIdx, Int32 rmode])"
| "request_contents (RqVideo (RqSendUpdateCallMediaModeRequest info vtype)) = (IMS_SEND_CALL_MEDIA_MODE_REQUEST_code, [Block (BImsCallInfo info), AImsCallType vtype])"
| "request_contents (RqVideo (RqSendUpdateCallMediaModeResponse info vtype)) = (IMS_SEND_CALL_MEDIA_MODE_RESPONSE_code, [Block (BImsCallInfo info), AImsCallType vtype])"
| "request_contents (RqVideo (RqCancelCallUpgrade slot callIdx)) = (IMS_CANCEL_CALL_UPGRADE_code, [Int32 slot, Int32 callIdx])"
| "request_contents (RqVideo (RqRequestCameraCapabilities slot callIdx)) = (IMS_REQUEST_CAMERA_CAPABILITIES_code, [Int32 slot, Int32 callIdx])"
| "request_contents (RqVideo (RqControlCamera slot callIdx cam)) = (IMS_CTRL_CAMERA_code, [Int32 slot, Int32 callIdx, AString cam])"
| "request_contents (RqVideo (RqSetPreviewWindow slot callIdx surf producer)) = (IMS_SET_PREVIEW_WINDOW_code, [Int32 slot, Int32 callIdx, AString surf] @ surface_items producer)"
| "request_contents (RqVideo (RqSetDisplayWindow slot callIdx surf producer)) = (IMS_SET_DISPLAY_WINDOW_code, [Int32 slot, Int32 callIdx, AString surf] @ surface_items producer)"
| "request_contents (RqVideo (RqSetCameraZoom zoom)) = (IMS_SET_CAMERA_ZOOM_code, [AFloat zoom])"
| "request_contents (RqVideo (RqSetPausePicture slot callIdx path)) = (IMS_SET_PAUSE_IMAGE_code, [Int32 slot, Int32 callIdx, AString path])"
| "request_contents (RqVideo (RqSetDeviceDirection slot callIdx rot)) = (IMS_SET_DEVICE_DIRECTION_code, [Int32 slot, Int32 callIdx, Int32 rot])"
| "request_contents (RqConfig (RqSetDomainPreferenceMode slot dmode)) = (IMS_SET_DOMAIN_PREFERENCE_MODE_code, [Int32 slot, Int32 dmode])"
| "request_contents (RqConfig (RqGetDomainPreferenceMode slot)) = (IMS_GET_DOMAIN_PREFERENCE_MODE_code, [Int32 slot])"
| "request_contents (RqConfig (RqSetCarrierVtConfig slot active)) = (IMS_SET_VT_CONFIG_code, [Int32 slot, Int32 active])"
| "request_contents (RqConfig (RqSetImsSwitchStatus slot active)) = (IMS_SET_SWITCH_STATUS_code, [Int32 slot, Int32 active])"
| "request_contents (RqConfig (RqGetImsSwitchStatus slot)) = (IMS_GET_SWITCH_STATUS_code, [Int32 slot])"
| "request_contents (RqConfig (RqSetImsConfig_string cfg txt)) = (IMS_SET_IMS_CONFIG_STRING_code, [Int32 cfg, AString txt])"
| "request_contents (RqConfig (RqSetImsConfig_int cfg val)) = (IMS_SET_IMS_CONFIG_INT_code, [Int32 cfg, Int32 val])"
| "request_contents (RqConfig (RqGetImsConfig cfg)) = (IMS_GET_IMS_CONFIG_code, [Int32 cfg])"
| "request_contents (RqConfig (RqSetImsFeatureValue ftype val)) = (IMS_SET_IMS_FEATURE_code, [Int32 ftype, Int32 val])"
| "request_contents (RqConfig (RqGetImsFeatureValue ftype)) = (IMS_GET_IMS_FEATURE_code, [Int32 ftype])"
| "request_contents (RqConfig (RqSetMute slot mt)) = (IMS_SET_MUTE_code, [Int32 slot, Int32 mt])"
| "request_contents (RqConfig (RqGetMute slot)) = (IMS_GET_MUTE_code, [Int32 slot])"
| "request_contents (RqConfig (RqUpdateImsCapabilities slot caps)) = (IMS_UPDATE_CAPABILITY_code, Int32 slot # Int32 (int (length caps)) # concat (map capability_items caps))"
| "request_contents (RqConfig (RqGetUtImpuFromNetwork slot impu)) = (IMS_GET_IMPU_FROM_NETWORK_code, [Int32 slot, AString impu])"
| "request_contents (RqConfig (RqNotifyOperatorConfigChanged slot st)) = (IMS_OPERATOR_CONFIG_CHANGED_code, [Int32 slot, Int32 st])"
| "request_contents (RqConfig (RqGetImsCapabilities slot)) = (IMS_GET_IMS_CAPABILITY_code, [Int32 slot])"
| "request_contents (RqSs on0 (ImsSetClip slot actn idx)) = (IMS_SET_CLIP_code, [Int32 slot, Int32 actn, Int32 idx])"
| "request_contents (RqSs on0 (ImsGetClip slot idx)) = (IMS_GET_CLIP_code, [Int32 slot, Int32 idx])"
| "request_contents (RqSs on0 (ImsSetClir slot actn idx)) = (IMS_SET_CLIR_code, [Int32 slot, Int32 actn, Int32 idx])"
| "request_contents (RqSs on0 (ImsGetClir slot idx)) = (IMS_GET_CLIR_code, [Int32 slot, Int32 idx])"
| "request_contents (RqSs on0 (ImsSetCallTransfer slot cf cls idx)) = (IMS_SET_CALL_TRANSFER_code, [Int32 slot, Block (BCallTransferInfo cf), Int32 cls, Int32 idx])"
| "request_contents (RqSs on (ImsCanSetCallTransferTime slot)) = (IMS_CAN_SET_CALL_TRANSFER_TIME_code, [Int32 slot, ABool on])"
| "request_contents (RqSs on0 (ImsGetCallTransfer slot rsn idx)) = (IMS_GET_CALL_TRANSFER_code, [Int32 slot, Int32 rsn, Int32 idx])"
| "request_contents (RqSs on0 (ImsSetCallRestriction slot fac rmd pw idx)) = (IMS_SET_CALL_RESTRICTION_code, [Int32 slot, AString fac, Int32 rmd, AString pw, Int32 idx])"
| "request_contents (RqSs on0 (ImsGetCallRestriction slot fac idx)) = (IMS_GET_CALL_RESTRICTION_code, [Int32 slot, AString fac, Int32 idx])"
| "request_contents (RqSs on0 (ImsSetCallWaiting slot on cls idx)) = (IMS_SET_CALL_WAITING_code, [Int32 slot, ABool on, Int32 cls, Int32 idx])"
| "request_contents (RqConfig (RqSetVideoCallWaiting slot on)) = (IMS_SET_VIDEO_CALL_WAITING_code, [Int32 slot, ABool on])"
| "request_contents (RqSs on0 (ImsGetCallWaiting slot idx)) = (IMS_GET_CALL_WAITING_code, [Int32 slot, Int32 idx])"
| "request_contents (RqSs on0 (ImsSetColr slot pres idx)) = (IMS_SET_COLR_code, [Int32 slot, Int32 pres, Int32 idx])"
| "request_contents (RqSs on0 (ImsGetColr slot idx)) = (IMS_GET_COLR_code, [Int32 slot, Int32 idx])"
| "request_contents (RqSs on0 (ImsSetColp slot actn idx)) = (IMS_SET_COLP_code, [Int32 slot, Int32 actn, Int32 idx])"
| "request_contents (RqSs on0 (ImsGetColp slot idx)) = (IMS_GET_COLP_code, [Int32 slot, Int32 idx])"

section \<open>What is sent\<close>

lemma transact_sends:
  "transact noRemote e P m = (r, Some (code, inp)) \<Longrightarrow> run_state m (new P) = (Inr code, inp)"
  by (auto simp: transact_def split: prod.splits sum.splits if_splits)

lemma transact_says:
  assumes "transact noRemote e P m = (r, Some (code, inp))" "parcel_laws P C"
    "wp P C m [] (\<lambda>v k. case v of Inl _ \<Rightarrow> True | Inr c \<Rightarrow> c = code' \<and> k = Token ImsCall_descriptor # items)"
  shows "code = code' \<and> C inp = Token ImsCall_descriptor # items"
proof -
  have "C (new P) = []" using assms(2) by (simp add: parcel_laws_def)
  from wpD [OF assms(3,2) this transact_sends [OF assms(1)]] show ?thesis by simp
qed

text \<open>The requests that pass a surface on. Whether the surface could be written is not looked at, so that their message may lack it.\<close>

fun passes_surface :: "ims_request \<Rightarrow> bool" where
  "passes_surface (RqVideo (RqSetPreviewWindow slot callIdx surf producer)) = (producer \<noteq> None)"
| "passes_surface (RqVideo (RqSetDisplayWindow slot callIdx surf producer)) = (producer \<noteq> None)"
| "passes_surface _ = False"

lemma wp_no_surface: "Q () k \<Longrightarrow> wp P C (write_surface P None) k Q"
  unfolding write_surface_def by (simp add: wp_return)

lemmas improxy_defs =
  Dial_improxy_def HangUp_improxy_def RejectWithReason_improxy_def Answer_improxy_def HoldCall_improxy_def
  UnHoldCall_improxy_def SwitchCall_improxy_def CombineConference_improxy_def InviteToConference_improxy_def
  KickOutFromConference_improxy_def GetImsCallsDataRequest_improxy_def GetLastCallFailReason_improxy_def
  StartDtmf_improxy_def SendDtmf_improxy_def StopDtmf_improxy_def UpdateImsRttCallMode_improxy_def
  SendUpdateCallMediaModeRequest_improxy_def SendUpdateCallMediaModeResponse_improxy_def
  CancelCallUpgrade_improxy_def RequestCameraCapabilities_improxy_def ControlCamera_improxy_def
  SetPreviewWindow_improxy_def SetDisplayWindow_improxy_def SetCameraZoom_improxy_def
  SetPausePicture_improxy_def SetDeviceDirection_improxy_def SetDomainPreferenceMode_improxy_def
  GetDomainPreferenceMode_improxy_def SetCarrierVtConfig_improxy_def SetImsSwitchStatus_improxy_def
  GetImsSwitchStatus_improxy_def SetImsConfig_string_improxy_def SetImsConfig_int_improxy_def
  GetImsConfig_improxy_def SetImsFeatureValue_improxy_def GetImsFeatureValue_improxy_def SetMute_improxy_def
  GetMute_improxy_def UpdateImsCapabilities_improxy_def GetUtImpuFromNetwork_improxy_def
  NotifyOperatorConfigChanged_improxy_def GetImsCapabilities_improxy_def SetClip_improxy_def
  GetClip_improxy_def SetClir_improxy_def GetClir_improxy_def SetCallTransfer_improxy_def
  CanSetCallTransferTime_improxy_def GetCallTransfer_improxy_def SetCallRestriction_improxy_def
  GetCallRestriction_improxy_def SetCallWaiting_improxy_def SetVideoCallWaiting_improxy_def
  GetCallWaiting_improxy_def SetColr_improxy_def GetColr_improxy_def SetColp_improxy_def GetColp_improxy_def

lemma fst_transact_bool: "fst (transact_bool e P on m) = transact TELEPHONY_ERR_IPC_CONNECT_STUB_FAIL e P m"
  by (simp add: transact_bool_def Let_def)

lemmas request_writers = SendRequest_ims_def SendRequest_ims_slot_def WriteCommonInfo_ims_def WriteCommonInfo_ims_type_def
  fst_transact_bool

text \<open>Every method writes what its request says.\<close>

lemma call_says:
  assumes "parcel_laws P C" "ims_request_proxy e P (RqCall q) = (r, Some (code, inp))"
  shows "code = fst (request_contents (RqCall q)) \<and> C inp = Token ImsCall_descriptor # snd (request_contents (RqCall q))"
  using assms(2)
  by (cases q)
    (simp_all add: improxy_defs request_writers; erule transact_says [OF _ assms(1)];
      (rule wp_rules | simp)+)+

lemma video_says:
  assumes "parcel_laws P C" "\<not> passes_surface (RqVideo q)" "ims_request_proxy e P (RqVideo q) = (r, Some (code, inp))"
  shows "code = fst (request_contents (RqVideo q)) \<and> C inp = Token ImsCall_descriptor # snd (request_contents (RqVideo q))"
  using assms(2,3)
  by (cases q)
    (simp_all add: surface_items_def improxy_defs request_writers; erule transact_says [OF _ assms(1)];
      (rule wp_rules wp_no_surface | simp)+)+

lemma config_says:
  assumes "parcel_laws P C" "ims_request_proxy e P (RqConfig q) = (r, Some (code, inp))"
  shows "code = fst (request_contents (RqConfig q)) \<and> C inp = Token ImsCall_descriptor # snd (request_contents (RqConfig q))"
  using assms(2)
  by (cases q)
    (simp_all add: improxy_defs request_writers; erule transact_says [OF _ assms(1)];
      (rule wp_rules | simp)+)+

lemma ss_says:
  assumes "parcel_laws P C" "ims_request_proxy e P (RqSs on0 q) = (r, Some (code, inp))"
  shows "code = fst (request_contents (RqSs on0 q)) \<and> C inp = Token ImsCall_descriptor # snd (request_contents (RqSs on0 q))"
  using assms(2)
  by (cases q)
    (simp_all add: improxy_defs request_writers; erule transact_says [OF _ assms(1)];
      (rule wp_rules | simp)+)+

lemma request_says:
  assumes "parcel_laws P C" "\<not> passes_surface q" "ims_request_proxy e P q = (r, Some (code, inp))"
  shows "code = fst (request_contents q) \<and> C inp = Token ImsCall_descriptor # snd (request_contents q)"
proof (cases q)
  case (RqReason info rsn)
  then show ?thesis
    using assms(3)
    by (simp add: improxy_defs request_writers) (erule transact_says [OF _ assms(1)]; (rule wp_rules | simp)+)
next
  case (RqCall q')
  then show ?thesis using call_says assms(1,3) by metis
next
  case (RqVideo q')
  then show ?thesis using video_says assms by metis
next
  case (RqConfig q')
  then show ?thesis using config_says assms(1,3) by metis
next
  case (RqSs on0 q')
  then show ?thesis using ss_says assms(1,3) by metis
qed

text \<open>The same request in other words: rejecting is rejecting with the reason that the user declines; only
  \<^verbatim>\<open>CanSetCallTransferTime\<close> sends the value of the caller's variable.\<close>

fun same_as :: "ims_request \<Rightarrow> ims_request" where
  "same_as (RqCall (ImsReject info)) = RqReason info USER_DECLINE"
| "same_as (RqSs on0 (ImsCanSetCallTransferTime slot)) = RqSs on0 (ImsCanSetCallTransferTime slot)"
| "same_as (RqSs on0 q) = RqSs False q"
| "same_as q = q"

lemma capability_items_inj: "concat (map capability_items c) = concat (map capability_items c') \<Longrightarrow> c = c'"
proof (induction c arbitrary: c')
  case Nil
  then show ?case by (cases c') (simp_all add: capability_items_def)
next
  case (Cons a c)
  then show ?case by (cases c') (auto simp: capability_items_def)
qed

lemma surface_items_inj: "surface_items a = surface_items b \<longleftrightarrow> a = b"
  by (auto simp: surface_items_def split: option.splits)

fun request_kind :: "ims_request \<Rightarrow> nat" where
  "request_kind (RqCall (ImsReject info)) = 1"
| "request_kind (RqCall _) = 0"
| "request_kind (RqReason _ _) = 1"
| "request_kind (RqVideo _) = 2"
| "request_kind (RqConfig _) = 3"
| "request_kind (RqSs _ _) = 4"

lemma contents_inj_call:
  "request_contents (RqCall q) = request_contents (RqCall q') \<Longrightarrow> q = q'"
  by (cases q; cases q') simp_all

lemma contents_inj_video:
  "request_contents (RqVideo q) = request_contents (RqVideo q') \<Longrightarrow> q = q'"
  by (cases q; cases q') (simp_all add: surface_items_inj)

lemma contents_inj_config:
  "request_contents (RqConfig q) = request_contents (RqConfig q') \<Longrightarrow> q = q'"
  by (cases q; cases q') (simp_all add: capability_items_inj)

lemma contents_inj_ss:
  "request_contents (RqSs on0 q) = request_contents (RqSs on1 q') \<Longrightarrow> same_as (RqSs on0 q) = same_as (RqSs on1 q')"
  by (cases q; cases q') simp_all

definition kind_of_code :: "int \<Rightarrow> nat" where
  "kind_of_code code =
     (if code = 5002 then 1
      else if code = 5010 \<or> 5014 \<le> code \<and> code < 5100 \<or> 5300 \<le> code \<and> code < 5400 then 2
      else if code < 5200 then 0
      else if code < 5300 \<or> code = 5415 then 3 else 4)"

lemma kind_of_request: "kind_of_code (fst (request_contents q)) = request_kind q"
proof (cases q)
  case (RqCall q')
  then show ?thesis by (cases q') (simp_all add: kind_of_code_def)
next
  case (RqVideo q')
  then show ?thesis by (cases q') (simp_all add: kind_of_code_def)
next
  case (RqConfig q')
  then show ?thesis by (cases q') (simp_all add: kind_of_code_def)
next
  case (RqSs on0 q')
  then show ?thesis by (cases q') (simp_all add: kind_of_code_def)
qed (simp add: kind_of_code_def)

lemma request_contents_inj:
  assumes "request_contents q = request_contents q'"
  shows "same_as q = same_as q'"
proof -
  have k: "request_kind q = request_kind q'" using assms kind_of_request by metis
  show ?thesis
  proof (cases q)
    case (RqCall a)
    show ?thesis
    proof (cases q')
      case (RqCall b)
      with \<open>q = RqCall a\<close> assms show ?thesis by (auto dest: contents_inj_call)
    next
      case (RqReason info rsn)
      with \<open>q = RqCall a\<close> assms show ?thesis by (cases a) simp_all
    qed (use k \<open>q = RqCall a\<close> in \<open>cases a; simp\<close>)+
  next
    case (RqReason info rsn)
    with k assms show ?thesis by (cases q' rule: request_kind.cases) simp_all
  next
    case (RqVideo a)
    with k assms show ?thesis by (cases q' rule: request_kind.cases) (auto dest: contents_inj_video)
  next
    case (RqConfig a)
    with k assms show ?thesis by (cases q' rule: request_kind.cases) (auto dest: contents_inj_config)
  next
    case (RqSs on0 a)
    with k assms show ?thesis by (cases q' rule: request_kind.cases) (auto dest: contents_inj_ss)
  qed
qed

definition sample_req_env :: "item list req_env" where
  "sample_req_env = \<lparr>e_remote = True, e_answer = (\<lambda>_ _. Some TELEPHONY_SUCCESS), e_boolAnswer = (\<lambda>_. True)\<rparr>"

text \<open>C27: requests cannot be confused. Two requests whose messages have the same code and the same contents are the same
  request with the same arguments, up to the two ways to reject a call and the caller's variable that only one request sends. Requests that pass a surface on are not covered,
  since the surface is written without looking at the result.\<close>

theorem ims_requests_distinct:
  assumes "parcel_laws P C" "\<not> passes_surface q" "\<not> passes_surface q'"
    "ims_request_proxy e P q = (r, Some (code, inp))" "ims_request_proxy e' P q' = (r', Some (code, inp'))"
    "C inp = C inp'"
  shows "same_as q = same_as q'"
  using request_says [OF assms(1,2,4)] request_says [OF assms(1,3,5)] assms(6)
  by (intro request_contents_inj prod_eqI) simp_all

text \<open>Rejecting a call and rejecting it with the reason of the user are one message; holding the calls of slot 0 and of slot 1 are two.\<close>

theorem ims_requests_distinct_witness:
  "\<exists>code inp. ims_request_proxy sample_req_env (list_parcel True) (RqCall (ImsReject ImsCallInfo_zero)) = (TELEPHONY_SUCCESS, Some (code, inp)) \<and>
     ims_request_proxy sample_req_env (list_parcel True) (RqReason ImsCallInfo_zero USER_DECLINE) = (TELEPHONY_SUCCESS, Some (code, inp)) \<and>
     same_as (RqCall (ImsReject ImsCallInfo_zero)) = same_as (RqReason ImsCallInfo_zero USER_DECLINE) \<and>
   (\<exists>inp0 inp1. ims_request_proxy sample_req_env (list_parcel True) (RqCall (ImsHoldCall 0 1 False)) = (TELEPHONY_SUCCESS, Some (IMS_HOLD_code, inp0)) \<and>
     ims_request_proxy sample_req_env (list_parcel True) (RqCall (ImsHoldCall 1 1 False)) = (TELEPHONY_SUCCESS, Some (IMS_HOLD_code, inp1)) \<and>
     inp0 \<noteq> inp1)"
proof -
  let ?P = "list_parcel True"
  note run = improxy_defs request_writers transact_def or_fail_def list_parcel_def sample_req_env_def
  obtain code inp where m: "ims_request_proxy sample_req_env ?P (RqCall (ImsReject ImsCallInfo_zero)) = (TELEPHONY_SUCCESS, Some (code, inp))"
    "ims_request_proxy sample_req_env ?P (RqReason ImsCallInfo_zero USER_DECLINE) = (TELEPHONY_SUCCESS, Some (code, inp))"
    by (simp add: run)
  obtain inp0 inp1 where
    0: "ims_request_proxy sample_req_env ?P (RqCall (ImsHoldCall 0 1 False)) = (TELEPHONY_SUCCESS, Some (IMS_HOLD_code, inp0))" and
    1: "ims_request_proxy sample_req_env ?P (RqCall (ImsHoldCall 1 1 False)) = (TELEPHONY_SUCCESS, Some (IMS_HOLD_code, inp1))"
    by (simp add: run)
  have "inp0 \<noteq> inp1" using ims_requests_distinct [OF list_parcel_laws _ _ 0 1] by auto
  moreover have "same_as (RqCall (ImsReject ImsCallInfo_zero)) = same_as (RqReason ImsCallInfo_zero USER_DECLINE)"
    by (rule ims_requests_distinct [OF list_parcel_laws _ _ m refl]) simp_all
  ultimately show ?thesis using m 0 1 by blast
qed

end
