(* ===== verification/ServiceClient.thy ===== *)
theory ServiceClient
  imports Prelude
begin

text \<open>
  A client of a service in another process: the IMS client and the satellite client share the shape. Before each request it
  makes sure that it is connected; if it is not and cannot connect, nothing is sent. \<open>run_calls\<close> makes requests one after
  the other. \<open>service_client\<close> is the contract, with what follows for a run of requests.
\<close>

fun run_calls :: "('c \<Rightarrow> 'q \<Rightarrow> errcode \<times> 'c \<times> 'm list) \<Rightarrow> 'c \<Rightarrow> 'q list \<Rightarrow> errcode list \<times> 'c \<times> 'm list" where
  "run_calls f c [] = ([], c, [])"
| "run_calls f c (q # qs) =
     (let (r, c', ms) = f c q; (rs, c'', ms') = run_calls f c' qs in (r # rs, c'', ms @ ms'))"

definition sent :: "errcode \<times> 'm option \<Rightarrow> 'm list" where
  "sent x = (case snd x of None \<Rightarrow> [] | Some m \<Rightarrow> [m])"

lemma sent_simps [simp]: "sent (r, None) = []" "sent (r, Some m) = [m]"
  by (simp_all add: sent_def)

locale service_client =
  fixes connected :: "'c \<Rightarrow> bool"
    and connect :: "'c \<Rightarrow> errcode \<times> 'c \<times> 'm list"
    and send :: "'q \<Rightarrow> errcode \<times> 'm option"
    and call :: "'c \<Rightarrow> 'q \<Rightarrow> errcode \<times> 'c \<times> 'm list"
  assumes connect_connected: "connected c \<Longrightarrow> connect c = (TELEPHONY_SUCCESS, c, [])"
    and connect_result: "connect c = (r, c', ms) \<Longrightarrow> r = TELEPHONY_SUCCESS \<longleftrightarrow> connected c'"
    and connect_fails: "connect c = (r, c', ms) \<Longrightarrow> \<not> connected c' \<Longrightarrow> ms = []"
    and call_after_connect: "connect c = (r, c', ms) \<Longrightarrow>
      call c q = (if r = TELEPHONY_SUCCESS then (fst (send q), c', ms @ sent (send q))
                  else (TELEPHONY_ERR_IPC_CONNECT_STUB_FAIL, c', ms))"
begin

lemma call_connected: "connected c \<Longrightarrow> call c q = (fst (send q), c, sent (send q))"
  using call_after_connect [OF connect_connected] by simp

lemma call_unreachable:
  assumes "connect c = (r, c', ms)" "\<not> connected c'"
  shows "call c q = (TELEPHONY_ERR_IPC_CONNECT_STUB_FAIL, c', [])"
  using call_after_connect [OF assms(1)] connect_result [OF assms(1)] connect_fails [OF assms] assms(2) by simp

lemma run_connected: "connected c \<Longrightarrow> run_calls call c qs = (map (fst \<circ> send) qs, c, concat (map (sent \<circ> send) qs))"
  by (induction qs) (simp_all add: call_connected)

lemma run_reconnects:
  assumes "connect c = (r, c', ms)" "connected c'" "qs \<noteq> []"
  shows "run_calls call c qs = (map (fst \<circ> send) qs, c', ms @ concat (map (sent \<circ> send) qs))"
  using assms connect_result [OF assms(1)]
  by (cases qs) (simp_all add: call_after_connect [OF assms(1)] run_connected [OF assms(2)])

lemma run_unreachable:
  assumes "\<And>c. \<not> connected c \<Longrightarrow> \<not> connected (fst (snd (connect c)))" "\<not> connected c"
  shows "\<exists>c'. \<not> connected c' \<and> run_calls call c qs = (replicate (length qs) TELEPHONY_ERR_IPC_CONNECT_STUB_FAIL, c', [])"
  using assms(2)
proof (induction qs arbitrary: c)
  case (Cons q qs)
  obtain r c' ms where c: "connect c = (r, c', ms)" by (cases "connect c")
  with assms(1) [OF Cons.prems] have "\<not> connected c'" by simp
  with Cons.IH [OF this] call_unreachable [OF c] show ?case by auto
qed simp

end

end
