(* ===== verification/ImsClient.thy ===== *)
theory ImsClient
  imports ImsRequest ServiceClient
begin

text \<open>
  The client of the IMS service: \<^verbatim>\<open>ImsCallClient\<close>
  (\<^verbatim>\<open>services/ims_service_interaction/src/ims_call_client.cpp\<close>). It finds the service, registers the callback with it, sends
  requests through the proxy, drops everything when the service goes away, and keeps the handlers of the slots for the
  callbacks. A method gives its result, the client afterwards and the messages sent. Whether the service can be found is
  the environment's. A method is one step here, as it
  is when no other thread is in the client; the steps of which it consists for other threads (the lock is released between looking for the proxy and
  making it) are in \<open>ImsClientThreads\<close>. What the callback stub asks of it is \<^verbatim>\<open>GetHandler\<close>; the
  stub's \<open>e_cbHandler\<close> is its answer.
\<close>

section \<open>The connection\<close>

record 'h ImsCallClient =
  cl_core :: bool
  cl_call :: bool
  cl_callback :: bool
  cl_listener :: bool
  cl_handlers :: "'h option omap"

record 'p client_env = "'p req_env" +
  e_samgr :: bool
  e_imsAbility :: bool
  e_coreCast :: bool
  e_callObject :: bool
  e_callCast :: bool
  e_callbackObject :: nat
  e_newListener :: bool
  e_checkAbility :: "int \<Rightarrow> bool"

definition IsConnect_ims :: "'h ImsCallClient \<Rightarrow> bool" where
  "IsConnect_ims c = cl_call c"

definition RegisterImsCallCallback_client ::
    "('p, 'x) client_env_scheme \<Rightarrow> 'p parcel \<Rightarrow> 'h ImsCallClient \<Rightarrow> errcode \<times> 'h ImsCallClient \<times> (int \<times> 'p) list" where
  "RegisterImsCallCallback_client e P c =
     (if \<not> cl_call c then (TELEPHONY_ERR_LOCAL_PTR_NULL, c, [])
      else
        let c' = c\<lparr>cl_callback := True\<rparr>;
            res = RegisterImsCallCallback_improxy e P (Some (e_callbackObject e)) in
        (if fst res \<noteq> TELEPHONY_SUCCESS then TELEPHONY_ERR_FAIL else TELEPHONY_SUCCESS, c', sent res))"

text \<open>The part of \<^verbatim>\<open>GetImsCallProxy\<close> under the exclusive lock. It does not look again whether the proxy is there.\<close>

definition connect_locked ::
    "('p, 'x) client_env_scheme \<Rightarrow> 'p parcel \<Rightarrow> 'h ImsCallClient \<Rightarrow> bool \<times> 'h ImsCallClient \<times> (int \<times> 'p) list" where
  "connect_locked e P c =
     (let c1 = c\<lparr>cl_core := e_coreCast e\<rparr> in
      if \<not> cl_core c1 then (False, c1, [])
      else if \<not> e_callObject e then (False, c1, [])
      else
        let c2 = c1\<lparr>cl_call := e_callCast e\<rparr> in
        if \<not> cl_call c2 then (False, c2, [])
        else let (_, c3, ms) = RegisterImsCallCallback_client e P c2 in (cl_call c3, c3, ms))"

definition GetImsCallProxy ::
    "('p, 'x) client_env_scheme \<Rightarrow> 'p parcel \<Rightarrow> 'h ImsCallClient \<Rightarrow> bool \<times> 'h ImsCallClient \<times> (int \<times> 'p) list" where
  "GetImsCallProxy e P c =
     (if cl_call c then (True, c, [])
      else if \<not> e_samgr e then (False, c, [])
      else if \<not> e_imsAbility e then (False, c, [])
      else connect_locked e P c)"

definition ReConnectService_ims ::
    "('p, 'x) client_env_scheme \<Rightarrow> 'p parcel \<Rightarrow> 'h ImsCallClient \<Rightarrow> errcode \<times> 'h ImsCallClient \<times> (int \<times> 'p) list" where
  "ReConnectService_ims e P c =
     (if \<not> cl_call c then
        let (_, c', ms) = GetImsCallProxy e P c in
        (if \<not> cl_call c' then TELEPHONY_ERR_IPC_CONNECT_STUB_FAIL else TELEPHONY_SUCCESS, c', ms)
      else (TELEPHONY_SUCCESS, c, []))"

definition Clean_ims :: "'h ImsCallClient \<Rightarrow> 'h ImsCallClient" where
  "Clean_ims c = c\<lparr>cl_core := False, cl_call := False, cl_callback := False\<rparr>"

text \<open>The listener is made whether or not the service was found; a missing manager or a failed subscription
  leave it in place.\<close>

definition Init_ims ::
    "('p, 'x) client_env_scheme \<Rightarrow> 'p parcel \<Rightarrow> 'h ImsCallClient \<Rightarrow> 'h ImsCallClient \<times> (int \<times> 'p) list" where
  "Init_ims e P c =
     (if IsConnect_ims c then (c, [])
      else let (_, c', ms) = GetImsCallProxy e P c in (c'\<lparr>cl_listener := e_newListener e\<rparr>, ms))"

definition UnInit_ims :: "'h ImsCallClient \<Rightarrow> 'h ImsCallClient" where
  "UnInit_ims c = (Clean_ims c)\<lparr>cl_listener := False, cl_handlers := []\<rparr>"

definition OnAddSystemAbility_ims ::
    "('p, 'x) client_env_scheme \<Rightarrow> 'p parcel \<Rightarrow> int \<Rightarrow> 'h ImsCallClient \<Rightarrow> 'h ImsCallClient \<times> (int \<times> 'p) list" where
  "OnAddSystemAbility_ims e P systemAbilityId c =
     (if \<not> e_checkAbility e systemAbilityId then (c, [])
      else if IsConnect_ims c then (c, [])
      else let (_, c', ms) = ReConnectService_ims e P (Clean_ims c) in (c', ms))"

definition OnRemoveSystemAbility_ims :: "int \<Rightarrow> 'h ImsCallClient \<Rightarrow> 'h ImsCallClient" where
  "OnRemoveSystemAbility_ims systemAbilityId c = (if \<not> IsConnect_ims c then c else Clean_ims c)"

section \<open>The handlers of the slots\<close>

definition RegisterImsCallCallbackHandler_client :: "int \<Rightarrow> 'h option \<Rightarrow> 'h ImsCallClient \<Rightarrow> errcode \<times> 'h ImsCallClient" where
  "RegisterImsCallCallbackHandler_client slot handler c =
     (if handler = None then (TELEPHONY_ERR_LOCAL_PTR_NULL, c)
      else (TELEPHONY_SUCCESS, c\<lparr>cl_handlers := omap_insert slot handler (cl_handlers c)\<rparr>))"

text \<open>\<^verbatim>\<open>operator[]\<close> adds an entry with a null handler for a slot that has none.\<close>

definition GetHandler_ims :: "int \<Rightarrow> 'h ImsCallClient \<Rightarrow> 'h option \<times> 'h ImsCallClient" where
  "GetHandler_ims slot c =
     (case map_of (cl_handlers c) slot of
        Some handler \<Rightarrow> (handler, c)
      | None \<Rightarrow> (None, c\<lparr>cl_handlers := omap_insert slot None (cl_handlers c)\<rparr>))"

section \<open>The requests of the client\<close>

definition reconnected ::
    "('p, 'x) client_env_scheme \<Rightarrow> 'p parcel \<Rightarrow> 'h ImsCallClient \<Rightarrow> errcode \<times> (int \<times> 'p) option \<Rightarrow>
     errcode \<times> 'h ImsCallClient \<times> (int \<times> 'p) list" where
  "reconnected e P c res =
     (let (ret, c', ms) = ReConnectService_ims e P c in
      if ret \<noteq> TELEPHONY_SUCCESS then (TELEPHONY_ERR_IPC_CONNECT_STUB_FAIL, c', ms) else (fst res, c', ms @ sent res))"

definition Dial_imclient ::
    "('p, 'x) client_env_scheme \<Rightarrow> 'p parcel \<Rightarrow> 'h ImsCallClient \<Rightarrow> ImsCallInfo \<Rightarrow> CLIRMode \<Rightarrow> errcode \<times> 'h ImsCallClient \<times> (int \<times> 'p) list" where
  "Dial_imclient e P c info md = reconnected e P c (Dial_improxy e P info md)"

definition HangUp_imclient ::
    "('p, 'x) client_env_scheme \<Rightarrow> 'p parcel \<Rightarrow> 'h ImsCallClient \<Rightarrow> ImsCallInfo \<Rightarrow> errcode \<times> 'h ImsCallClient \<times> (int \<times> 'p) list" where
  "HangUp_imclient e P c info = reconnected e P c (HangUp_improxy e P info)"

definition Reject_imclient ::
    "('p, 'x) client_env_scheme \<Rightarrow> 'p parcel \<Rightarrow> 'h ImsCallClient \<Rightarrow> ImsCallInfo \<Rightarrow> errcode \<times> 'h ImsCallClient \<times> (int \<times> 'p) list" where
  "Reject_imclient e P c info = reconnected e P c (RejectWithReason_improxy e P info USER_DECLINE)"

definition RejectWithReason_imclient ::
    "('p, 'x) client_env_scheme \<Rightarrow> 'p parcel \<Rightarrow> 'h ImsCallClient \<Rightarrow> ImsCallInfo \<Rightarrow> int \<Rightarrow> errcode \<times> 'h ImsCallClient \<times> (int \<times> 'p) list" where
  "RejectWithReason_imclient e P c info rsn = reconnected e P c (RejectWithReason_improxy e P info rsn)"

definition Answer_imclient ::
    "('p, 'x) client_env_scheme \<Rightarrow> 'p parcel \<Rightarrow> 'h ImsCallClient \<Rightarrow> ImsCallInfo \<Rightarrow> errcode \<times> 'h ImsCallClient \<times> (int \<times> 'p) list" where
  "Answer_imclient e P c info = reconnected e P c (Answer_improxy e P info)"

definition HoldCall_imclient ::
    "('p, 'x) client_env_scheme \<Rightarrow> 'p parcel \<Rightarrow> 'h ImsCallClient \<Rightarrow> int \<Rightarrow> int \<Rightarrow> bool \<Rightarrow> errcode \<times> 'h ImsCallClient \<times> (int \<times> 'p) list" where
  "HoldCall_imclient e P c slot ctype rtt = reconnected e P c (HoldCall_improxy e P slot ctype rtt)"

definition UnHoldCall_imclient ::
    "('p, 'x) client_env_scheme \<Rightarrow> 'p parcel \<Rightarrow> 'h ImsCallClient \<Rightarrow> int \<Rightarrow> int \<Rightarrow> bool \<Rightarrow> errcode \<times> 'h ImsCallClient \<times> (int \<times> 'p) list" where
  "UnHoldCall_imclient e P c slot ctype rtt = reconnected e P c (UnHoldCall_improxy e P slot ctype rtt)"

definition SwitchCall_imclient ::
    "('p, 'x) client_env_scheme \<Rightarrow> 'p parcel \<Rightarrow> 'h ImsCallClient \<Rightarrow> int \<Rightarrow> int \<Rightarrow> bool \<Rightarrow> errcode \<times> 'h ImsCallClient \<times> (int \<times> 'p) list" where
  "SwitchCall_imclient e P c slot ctype rtt = reconnected e P c (SwitchCall_improxy e P slot ctype rtt)"

definition CombineConference_imclient ::
    "('p, 'x) client_env_scheme \<Rightarrow> 'p parcel \<Rightarrow> 'h ImsCallClient \<Rightarrow> int \<Rightarrow> errcode \<times> 'h ImsCallClient \<times> (int \<times> 'p) list" where
  "CombineConference_imclient e P c slot = reconnected e P c (CombineConference_improxy e P slot)"

definition InviteToConference_imclient ::
    "('p, 'x) client_env_scheme \<Rightarrow> 'p parcel \<Rightarrow> 'h ImsCallClient \<Rightarrow> int \<Rightarrow> string list \<Rightarrow> errcode \<times> 'h ImsCallClient \<times> (int \<times> 'p) list" where
  "InviteToConference_imclient e P c slot nums = reconnected e P c (InviteToConference_improxy e P slot nums)"

definition KickOutFromConference_imclient ::
    "('p, 'x) client_env_scheme \<Rightarrow> 'p parcel \<Rightarrow> 'h ImsCallClient \<Rightarrow> int \<Rightarrow> int \<Rightarrow> errcode \<times> 'h ImsCallClient \<times> (int \<times> 'p) list" where
  "KickOutFromConference_imclient e P c slot idx = reconnected e P c (KickOutFromConference_improxy e P slot idx)"

definition GetImsCallsDataRequest_imclient ::
    "('p, 'x) client_env_scheme \<Rightarrow> 'p parcel \<Rightarrow> 'h ImsCallClient \<Rightarrow> int \<Rightarrow> int \<Rightarrow> errcode \<times> 'h ImsCallClient \<times> (int \<times> 'p) list" where
  "GetImsCallsDataRequest_imclient e P c slot lastFlag = reconnected e P c (GetImsCallsDataRequest_improxy e P slot lastFlag)"

definition GetLastCallFailReason_imclient ::
    "('p, 'x) client_env_scheme \<Rightarrow> 'p parcel \<Rightarrow> 'h ImsCallClient \<Rightarrow> int \<Rightarrow> errcode \<times> 'h ImsCallClient \<times> (int \<times> 'p) list" where
  "GetLastCallFailReason_imclient e P c slot = reconnected e P c (GetLastCallFailReason_improxy e P slot)"

definition StartDtmf_imclient ::
    "('p, 'x) client_env_scheme \<Rightarrow> 'p parcel \<Rightarrow> 'h ImsCallClient \<Rightarrow> int \<Rightarrow> char \<Rightarrow> int \<Rightarrow> errcode \<times> 'h ImsCallClient \<times> (int \<times> 'p) list" where
  "StartDtmf_imclient e P c slot dtmf idx = reconnected e P c (StartDtmf_improxy e P slot dtmf idx)"

definition SendDtmf_imclient ::
    "('p, 'x) client_env_scheme \<Rightarrow> 'p parcel \<Rightarrow> 'h ImsCallClient \<Rightarrow> int \<Rightarrow> char \<Rightarrow> int \<Rightarrow> errcode \<times> 'h ImsCallClient \<times> (int \<times> 'p) list" where
  "SendDtmf_imclient e P c slot dtmf idx = reconnected e P c (SendDtmf_improxy e P slot dtmf idx)"

definition StopDtmf_imclient ::
    "('p, 'x) client_env_scheme \<Rightarrow> 'p parcel \<Rightarrow> 'h ImsCallClient \<Rightarrow> int \<Rightarrow> int \<Rightarrow> errcode \<times> 'h ImsCallClient \<times> (int \<times> 'p) list" where
  "StopDtmf_imclient e P c slot idx = reconnected e P c (StopDtmf_improxy e P slot idx)"

definition UpdateImsRttCallMode_imclient ::
    "('p, 'x) client_env_scheme \<Rightarrow> 'p parcel \<Rightarrow> 'h ImsCallClient \<Rightarrow> int \<Rightarrow> int \<Rightarrow> int \<Rightarrow> errcode \<times> 'h ImsCallClient \<times> (int \<times> 'p) list" where
  "UpdateImsRttCallMode_imclient e P c slot callIdx rmode = reconnected e P c (UpdateImsRttCallMode_improxy e P slot callIdx rmode)"

subsection \<open>Video calls\<close>

definition SendUpdateCallMediaModeRequest_imclient ::
    "('p, 'x) client_env_scheme \<Rightarrow> 'p parcel \<Rightarrow> 'h ImsCallClient \<Rightarrow> ImsCallInfo \<Rightarrow> ImsCallType \<Rightarrow> errcode \<times> 'h ImsCallClient \<times> (int \<times> 'p) list" where
  "SendUpdateCallMediaModeRequest_imclient e P c info vtype = reconnected e P c (SendUpdateCallMediaModeRequest_improxy e P info vtype)"

definition SendUpdateCallMediaModeResponse_imclient ::
    "('p, 'x) client_env_scheme \<Rightarrow> 'p parcel \<Rightarrow> 'h ImsCallClient \<Rightarrow> ImsCallInfo \<Rightarrow> ImsCallType \<Rightarrow> errcode \<times> 'h ImsCallClient \<times> (int \<times> 'p) list" where
  "SendUpdateCallMediaModeResponse_imclient e P c info vtype = reconnected e P c (SendUpdateCallMediaModeResponse_improxy e P info vtype)"

definition CancelCallUpgrade_imclient ::
    "('p, 'x) client_env_scheme \<Rightarrow> 'p parcel \<Rightarrow> 'h ImsCallClient \<Rightarrow> int \<Rightarrow> int \<Rightarrow> errcode \<times> 'h ImsCallClient \<times> (int \<times> 'p) list" where
  "CancelCallUpgrade_imclient e P c slot callIdx = reconnected e P c (CancelCallUpgrade_improxy e P slot callIdx)"

definition RequestCameraCapabilities_imclient ::
    "('p, 'x) client_env_scheme \<Rightarrow> 'p parcel \<Rightarrow> 'h ImsCallClient \<Rightarrow> int \<Rightarrow> int \<Rightarrow> errcode \<times> 'h ImsCallClient \<times> (int \<times> 'p) list" where
  "RequestCameraCapabilities_imclient e P c slot callIdx = reconnected e P c (RequestCameraCapabilities_improxy e P slot callIdx)"

definition ControlCamera_imclient ::
    "('p, 'x) client_env_scheme \<Rightarrow> 'p parcel \<Rightarrow> 'h ImsCallClient \<Rightarrow> int \<Rightarrow> int \<Rightarrow> string \<Rightarrow> errcode \<times> 'h ImsCallClient \<times> (int \<times> 'p) list" where
  "ControlCamera_imclient e P c slot callIdx cam = reconnected e P c (ControlCamera_improxy e P slot callIdx cam)"

definition SetPreviewWindow_imclient ::
    "('p, 'x) client_env_scheme \<Rightarrow> 'p parcel \<Rightarrow> 'h ImsCallClient \<Rightarrow> int \<Rightarrow> int \<Rightarrow> string \<Rightarrow> nat option \<Rightarrow> errcode \<times> 'h ImsCallClient \<times> (int \<times> 'p) list" where
  "SetPreviewWindow_imclient e P c slot callIdx surf producer = reconnected e P c (SetPreviewWindow_improxy e P slot callIdx surf producer)"

definition SetDisplayWindow_imclient ::
    "('p, 'x) client_env_scheme \<Rightarrow> 'p parcel \<Rightarrow> 'h ImsCallClient \<Rightarrow> int \<Rightarrow> int \<Rightarrow> string \<Rightarrow> nat option \<Rightarrow> errcode \<times> 'h ImsCallClient \<times> (int \<times> 'p) list" where
  "SetDisplayWindow_imclient e P c slot callIdx surf producer = reconnected e P c (SetDisplayWindow_improxy e P slot callIdx surf producer)"

definition SetCameraZoom_imclient ::
    "('p, 'x) client_env_scheme \<Rightarrow> 'p parcel \<Rightarrow> 'h ImsCallClient \<Rightarrow> (32 word) \<Rightarrow> errcode \<times> 'h ImsCallClient \<times> (int \<times> 'p) list" where
  "SetCameraZoom_imclient e P c zoom = reconnected e P c (SetCameraZoom_improxy e P zoom)"

definition SetPausePicture_imclient ::
    "('p, 'x) client_env_scheme \<Rightarrow> 'p parcel \<Rightarrow> 'h ImsCallClient \<Rightarrow> int \<Rightarrow> int \<Rightarrow> string \<Rightarrow> errcode \<times> 'h ImsCallClient \<times> (int \<times> 'p) list" where
  "SetPausePicture_imclient e P c slot callIdx path = reconnected e P c (SetPausePicture_improxy e P slot callIdx path)"

definition SetDeviceDirection_imclient ::
    "('p, 'x) client_env_scheme \<Rightarrow> 'p parcel \<Rightarrow> 'h ImsCallClient \<Rightarrow> int \<Rightarrow> int \<Rightarrow> int \<Rightarrow> errcode \<times> 'h ImsCallClient \<times> (int \<times> 'p) list" where
  "SetDeviceDirection_imclient e P c slot callIdx rot = reconnected e P c (SetDeviceDirection_improxy e P slot callIdx rot)"

subsection \<open>Configuration\<close>

definition SetDomainPreferenceMode_imclient ::
    "('p, 'x) client_env_scheme \<Rightarrow> 'p parcel \<Rightarrow> 'h ImsCallClient \<Rightarrow> int \<Rightarrow> int \<Rightarrow> errcode \<times> 'h ImsCallClient \<times> (int \<times> 'p) list" where
  "SetDomainPreferenceMode_imclient e P c slot dmode = reconnected e P c (SetDomainPreferenceMode_improxy e P slot dmode)"

definition GetDomainPreferenceMode_imclient ::
    "('p, 'x) client_env_scheme \<Rightarrow> 'p parcel \<Rightarrow> 'h ImsCallClient \<Rightarrow> int \<Rightarrow> errcode \<times> 'h ImsCallClient \<times> (int \<times> 'p) list" where
  "GetDomainPreferenceMode_imclient e P c slot = reconnected e P c (GetDomainPreferenceMode_improxy e P slot)"

definition SetCarrierVtConfig_imclient ::
    "('p, 'x) client_env_scheme \<Rightarrow> 'p parcel \<Rightarrow> 'h ImsCallClient \<Rightarrow> int \<Rightarrow> int \<Rightarrow> errcode \<times> 'h ImsCallClient \<times> (int \<times> 'p) list" where
  "SetCarrierVtConfig_imclient e P c slot active = reconnected e P c (SetCarrierVtConfig_improxy e P slot active)"

definition SetImsSwitchStatus_imclient ::
    "('p, 'x) client_env_scheme \<Rightarrow> 'p parcel \<Rightarrow> 'h ImsCallClient \<Rightarrow> int \<Rightarrow> int \<Rightarrow> errcode \<times> 'h ImsCallClient \<times> (int \<times> 'p) list" where
  "SetImsSwitchStatus_imclient e P c slot active = reconnected e P c (SetImsSwitchStatus_improxy e P slot active)"

definition GetImsSwitchStatus_imclient ::
    "('p, 'x) client_env_scheme \<Rightarrow> 'p parcel \<Rightarrow> 'h ImsCallClient \<Rightarrow> int \<Rightarrow> errcode \<times> 'h ImsCallClient \<times> (int \<times> 'p) list" where
  "GetImsSwitchStatus_imclient e P c slot = reconnected e P c (GetImsSwitchStatus_improxy e P slot)"

definition SetImsConfig_string_imclient ::
    "('p, 'x) client_env_scheme \<Rightarrow> 'p parcel \<Rightarrow> 'h ImsCallClient \<Rightarrow> int \<Rightarrow> string \<Rightarrow> errcode \<times> 'h ImsCallClient \<times> (int \<times> 'p) list" where
  "SetImsConfig_string_imclient e P c cfg txt = reconnected e P c (SetImsConfig_string_improxy e P cfg txt)"

definition SetImsConfig_int_imclient ::
    "('p, 'x) client_env_scheme \<Rightarrow> 'p parcel \<Rightarrow> 'h ImsCallClient \<Rightarrow> int \<Rightarrow> int \<Rightarrow> errcode \<times> 'h ImsCallClient \<times> (int \<times> 'p) list" where
  "SetImsConfig_int_imclient e P c cfg val = reconnected e P c (SetImsConfig_int_improxy e P cfg val)"

definition GetImsConfig_imclient ::
    "('p, 'x) client_env_scheme \<Rightarrow> 'p parcel \<Rightarrow> 'h ImsCallClient \<Rightarrow> int \<Rightarrow> errcode \<times> 'h ImsCallClient \<times> (int \<times> 'p) list" where
  "GetImsConfig_imclient e P c cfg = reconnected e P c (GetImsConfig_improxy e P cfg)"

definition SetImsFeatureValue_imclient ::
    "('p, 'x) client_env_scheme \<Rightarrow> 'p parcel \<Rightarrow> 'h ImsCallClient \<Rightarrow> int \<Rightarrow> int \<Rightarrow> errcode \<times> 'h ImsCallClient \<times> (int \<times> 'p) list" where
  "SetImsFeatureValue_imclient e P c ftype val = reconnected e P c (SetImsFeatureValue_improxy e P ftype val)"

definition GetImsFeatureValue_imclient ::
    "('p, 'x) client_env_scheme \<Rightarrow> 'p parcel \<Rightarrow> 'h ImsCallClient \<Rightarrow> int \<Rightarrow> errcode \<times> 'h ImsCallClient \<times> (int \<times> 'p) list" where
  "GetImsFeatureValue_imclient e P c ftype = reconnected e P c (GetImsFeatureValue_improxy e P ftype)"

definition SetMute_imclient ::
    "('p, 'x) client_env_scheme \<Rightarrow> 'p parcel \<Rightarrow> 'h ImsCallClient \<Rightarrow> int \<Rightarrow> int \<Rightarrow> errcode \<times> 'h ImsCallClient \<times> (int \<times> 'p) list" where
  "SetMute_imclient e P c slot mt = reconnected e P c (SetMute_improxy e P slot mt)"

definition GetMute_imclient ::
    "('p, 'x) client_env_scheme \<Rightarrow> 'p parcel \<Rightarrow> 'h ImsCallClient \<Rightarrow> int \<Rightarrow> errcode \<times> 'h ImsCallClient \<times> (int \<times> 'p) list" where
  "GetMute_imclient e P c slot = reconnected e P c (GetMute_improxy e P slot)"

definition UpdateImsCapabilities_imclient ::
    "('p, 'x) client_env_scheme \<Rightarrow> 'p parcel \<Rightarrow> 'h ImsCallClient \<Rightarrow> int \<Rightarrow> ImsCapability list \<Rightarrow> errcode \<times> 'h ImsCallClient \<times> (int \<times> 'p) list" where
  "UpdateImsCapabilities_imclient e P c slot caps = reconnected e P c (UpdateImsCapabilities_improxy e P slot caps)"

definition GetUtImpuFromNetwork_imclient ::
    "('p, 'x) client_env_scheme \<Rightarrow> 'p parcel \<Rightarrow> 'h ImsCallClient \<Rightarrow> int \<Rightarrow> string \<Rightarrow> errcode \<times> 'h ImsCallClient \<times> (int \<times> 'p) list" where
  "GetUtImpuFromNetwork_imclient e P c slot impu = reconnected e P c (GetUtImpuFromNetwork_improxy e P slot impu)"

definition NotifyOperatorConfigChanged_imclient ::
    "('p, 'x) client_env_scheme \<Rightarrow> 'p parcel \<Rightarrow> 'h ImsCallClient \<Rightarrow> int \<Rightarrow> int \<Rightarrow> errcode \<times> 'h ImsCallClient \<times> (int \<times> 'p) list" where
  "NotifyOperatorConfigChanged_imclient e P c slot st = reconnected e P c (NotifyOperatorConfigChanged_improxy e P slot st)"

definition GetImsCapabilities_imclient ::
    "('p, 'x) client_env_scheme \<Rightarrow> 'p parcel \<Rightarrow> 'h ImsCallClient \<Rightarrow> int \<Rightarrow> errcode \<times> 'h ImsCallClient \<times> (int \<times> 'p) list" where
  "GetImsCapabilities_imclient e P c slot = reconnected e P c (GetImsCapabilities_improxy e P slot)"

subsection \<open>Supplementary services\<close>

definition SetClip_imclient ::
    "('p, 'x) client_env_scheme \<Rightarrow> 'p parcel \<Rightarrow> 'h ImsCallClient \<Rightarrow> int \<Rightarrow> int \<Rightarrow> int \<Rightarrow> errcode \<times> 'h ImsCallClient \<times> (int \<times> 'p) list" where
  "SetClip_imclient e P c slot actn idx = reconnected e P c (SetClip_improxy e P slot actn idx)"

definition GetClip_imclient ::
    "('p, 'x) client_env_scheme \<Rightarrow> 'p parcel \<Rightarrow> 'h ImsCallClient \<Rightarrow> int \<Rightarrow> int \<Rightarrow> errcode \<times> 'h ImsCallClient \<times> (int \<times> 'p) list" where
  "GetClip_imclient e P c slot idx = reconnected e P c (GetClip_improxy e P slot idx)"

definition SetClir_imclient ::
    "('p, 'x) client_env_scheme \<Rightarrow> 'p parcel \<Rightarrow> 'h ImsCallClient \<Rightarrow> int \<Rightarrow> int \<Rightarrow> int \<Rightarrow> errcode \<times> 'h ImsCallClient \<times> (int \<times> 'p) list" where
  "SetClir_imclient e P c slot actn idx = reconnected e P c (SetClir_improxy e P slot actn idx)"

definition GetClir_imclient ::
    "('p, 'x) client_env_scheme \<Rightarrow> 'p parcel \<Rightarrow> 'h ImsCallClient \<Rightarrow> int \<Rightarrow> int \<Rightarrow> errcode \<times> 'h ImsCallClient \<times> (int \<times> 'p) list" where
  "GetClir_imclient e P c slot idx = reconnected e P c (GetClir_improxy e P slot idx)"

definition SetCallTransfer_imclient ::
    "('p, 'x) client_env_scheme \<Rightarrow> 'p parcel \<Rightarrow> 'h ImsCallClient \<Rightarrow> int \<Rightarrow> CallTransferInfo \<Rightarrow> int \<Rightarrow> int \<Rightarrow> errcode \<times> 'h ImsCallClient \<times> (int \<times> 'p) list" where
  "SetCallTransfer_imclient e P c slot cf cls idx = reconnected e P c (SetCallTransfer_improxy e P slot cf cls idx)"

definition CanSetCallTransferTime_imclient ::
    "('p, 'x) client_env_scheme \<Rightarrow> 'p parcel \<Rightarrow> 'h ImsCallClient \<Rightarrow> int \<Rightarrow> bool \<Rightarrow> (errcode \<times> 'h ImsCallClient \<times> (int \<times> 'p) list) \<times> bool" where
  "CanSetCallTransferTime_imclient e P c slot on =
     (reconnected e P c (fst (CanSetCallTransferTime_improxy e P slot on)),
      if fst (ReConnectService_ims e P c) = TELEPHONY_SUCCESS then snd (CanSetCallTransferTime_improxy e P slot on) else on)"

definition GetCallTransfer_imclient ::
    "('p, 'x) client_env_scheme \<Rightarrow> 'p parcel \<Rightarrow> 'h ImsCallClient \<Rightarrow> int \<Rightarrow> int \<Rightarrow> int \<Rightarrow> errcode \<times> 'h ImsCallClient \<times> (int \<times> 'p) list" where
  "GetCallTransfer_imclient e P c slot rsn idx = reconnected e P c (GetCallTransfer_improxy e P slot rsn idx)"

definition SetCallRestriction_imclient ::
    "('p, 'x) client_env_scheme \<Rightarrow> 'p parcel \<Rightarrow> 'h ImsCallClient \<Rightarrow> int \<Rightarrow> string \<Rightarrow> int \<Rightarrow> string \<Rightarrow> int \<Rightarrow> errcode \<times> 'h ImsCallClient \<times> (int \<times> 'p) list" where
  "SetCallRestriction_imclient e P c slot fac rmd pw idx = reconnected e P c (SetCallRestriction_improxy e P slot fac rmd pw idx)"

definition GetCallRestriction_imclient ::
    "('p, 'x) client_env_scheme \<Rightarrow> 'p parcel \<Rightarrow> 'h ImsCallClient \<Rightarrow> int \<Rightarrow> string \<Rightarrow> int \<Rightarrow> errcode \<times> 'h ImsCallClient \<times> (int \<times> 'p) list" where
  "GetCallRestriction_imclient e P c slot fac idx = reconnected e P c (GetCallRestriction_improxy e P slot fac idx)"

definition SetCallWaiting_imclient ::
    "('p, 'x) client_env_scheme \<Rightarrow> 'p parcel \<Rightarrow> 'h ImsCallClient \<Rightarrow> int \<Rightarrow> bool \<Rightarrow> int \<Rightarrow> int \<Rightarrow> errcode \<times> 'h ImsCallClient \<times> (int \<times> 'p) list" where
  "SetCallWaiting_imclient e P c slot on cls idx = reconnected e P c (SetCallWaiting_improxy e P slot on cls idx)"

definition SetVideoCallWaiting_imclient ::
    "('p, 'x) client_env_scheme \<Rightarrow> 'p parcel \<Rightarrow> 'h ImsCallClient \<Rightarrow> int \<Rightarrow> bool \<Rightarrow> errcode \<times> 'h ImsCallClient \<times> (int \<times> 'p) list" where
  "SetVideoCallWaiting_imclient e P c slot on = reconnected e P c (SetVideoCallWaiting_improxy e P slot on)"

definition GetCallWaiting_imclient ::
    "('p, 'x) client_env_scheme \<Rightarrow> 'p parcel \<Rightarrow> 'h ImsCallClient \<Rightarrow> int \<Rightarrow> int \<Rightarrow> errcode \<times> 'h ImsCallClient \<times> (int \<times> 'p) list" where
  "GetCallWaiting_imclient e P c slot idx = reconnected e P c (GetCallWaiting_improxy e P slot idx)"

definition SetColr_imclient ::
    "('p, 'x) client_env_scheme \<Rightarrow> 'p parcel \<Rightarrow> 'h ImsCallClient \<Rightarrow> int \<Rightarrow> int \<Rightarrow> int \<Rightarrow> errcode \<times> 'h ImsCallClient \<times> (int \<times> 'p) list" where
  "SetColr_imclient e P c slot pres idx = reconnected e P c (SetColr_improxy e P slot pres idx)"

definition GetColr_imclient ::
    "('p, 'x) client_env_scheme \<Rightarrow> 'p parcel \<Rightarrow> 'h ImsCallClient \<Rightarrow> int \<Rightarrow> int \<Rightarrow> errcode \<times> 'h ImsCallClient \<times> (int \<times> 'p) list" where
  "GetColr_imclient e P c slot idx = reconnected e P c (GetColr_improxy e P slot idx)"

definition SetColp_imclient ::
    "('p, 'x) client_env_scheme \<Rightarrow> 'p parcel \<Rightarrow> 'h ImsCallClient \<Rightarrow> int \<Rightarrow> int \<Rightarrow> int \<Rightarrow> errcode \<times> 'h ImsCallClient \<times> (int \<times> 'p) list" where
  "SetColp_imclient e P c slot actn idx = reconnected e P c (SetColp_improxy e P slot actn idx)"

definition GetColp_imclient ::
    "('p, 'x) client_env_scheme \<Rightarrow> 'p parcel \<Rightarrow> 'h ImsCallClient \<Rightarrow> int \<Rightarrow> int \<Rightarrow> errcode \<times> 'h ImsCallClient \<times> (int \<times> 'p) list" where
  "GetColp_imclient e P c slot idx = reconnected e P c (GetColp_improxy e P slot idx)"
fun ims_request_client :: "('p, 'x) client_env_scheme \<Rightarrow> 'p parcel \<Rightarrow> 'h ImsCallClient \<Rightarrow> ims_request \<Rightarrow>
    errcode \<times> 'h ImsCallClient \<times> (int \<times> 'p) list" where
  "ims_request_client e P c (RqCall (ImsDial info md)) = Dial_imclient e P c info md"
| "ims_request_client e P c (RqCall (ImsHangUp info)) = HangUp_imclient e P c info"
| "ims_request_client e P c (RqCall (ImsReject info)) = Reject_imclient e P c info"
| "ims_request_client e P c (RqReason info rsn) = RejectWithReason_imclient e P c info rsn"
| "ims_request_client e P c (RqCall (ImsAnswer info)) = Answer_imclient e P c info"
| "ims_request_client e P c (RqCall (ImsHoldCall slot ctype rtt)) = HoldCall_imclient e P c slot ctype rtt"
| "ims_request_client e P c (RqCall (ImsUnHoldCall slot ctype rtt)) = UnHoldCall_imclient e P c slot ctype rtt"
| "ims_request_client e P c (RqCall (ImsSwitchCall slot ctype rtt)) = SwitchCall_imclient e P c slot ctype rtt"
| "ims_request_client e P c (RqCall (ImsCombineConference slot)) = CombineConference_imclient e P c slot"
| "ims_request_client e P c (RqCall (ImsInviteToConference slot nums)) = InviteToConference_imclient e P c slot nums"
| "ims_request_client e P c (RqCall (ImsKickOutFromConference slot idx)) = KickOutFromConference_imclient e P c slot idx"
| "ims_request_client e P c (RqCall (ImsGetCallsData slot lastFlag)) = GetImsCallsDataRequest_imclient e P c slot lastFlag"
| "ims_request_client e P c (RqCall (ImsGetLastCallFailReason slot)) = GetLastCallFailReason_imclient e P c slot"
| "ims_request_client e P c (RqCall (ImsStartDtmf slot dtmf idx)) = StartDtmf_imclient e P c slot dtmf idx"
| "ims_request_client e P c (RqCall (ImsSendDtmf slot dtmf idx)) = SendDtmf_imclient e P c slot dtmf idx"
| "ims_request_client e P c (RqCall (ImsStopDtmf slot idx)) = StopDtmf_imclient e P c slot idx"
| "ims_request_client e P c (RqCall (ImsUpdateRttCallMode slot callIdx rmode)) = UpdateImsRttCallMode_imclient e P c slot callIdx rmode"
| "ims_request_client e P c (RqVideo (RqSendUpdateCallMediaModeRequest info vtype)) = SendUpdateCallMediaModeRequest_imclient e P c info vtype"
| "ims_request_client e P c (RqVideo (RqSendUpdateCallMediaModeResponse info vtype)) = SendUpdateCallMediaModeResponse_imclient e P c info vtype"
| "ims_request_client e P c (RqVideo (RqCancelCallUpgrade slot callIdx)) = CancelCallUpgrade_imclient e P c slot callIdx"
| "ims_request_client e P c (RqVideo (RqRequestCameraCapabilities slot callIdx)) = RequestCameraCapabilities_imclient e P c slot callIdx"
| "ims_request_client e P c (RqVideo (RqControlCamera slot callIdx cam)) = ControlCamera_imclient e P c slot callIdx cam"
| "ims_request_client e P c (RqVideo (RqSetPreviewWindow slot callIdx surf producer)) = SetPreviewWindow_imclient e P c slot callIdx surf producer"
| "ims_request_client e P c (RqVideo (RqSetDisplayWindow slot callIdx surf producer)) = SetDisplayWindow_imclient e P c slot callIdx surf producer"
| "ims_request_client e P c (RqVideo (RqSetCameraZoom zoom)) = SetCameraZoom_imclient e P c zoom"
| "ims_request_client e P c (RqVideo (RqSetPausePicture slot callIdx path)) = SetPausePicture_imclient e P c slot callIdx path"
| "ims_request_client e P c (RqVideo (RqSetDeviceDirection slot callIdx rot)) = SetDeviceDirection_imclient e P c slot callIdx rot"
| "ims_request_client e P c (RqConfig (RqSetDomainPreferenceMode slot dmode)) = SetDomainPreferenceMode_imclient e P c slot dmode"
| "ims_request_client e P c (RqConfig (RqGetDomainPreferenceMode slot)) = GetDomainPreferenceMode_imclient e P c slot"
| "ims_request_client e P c (RqConfig (RqSetCarrierVtConfig slot active)) = SetCarrierVtConfig_imclient e P c slot active"
| "ims_request_client e P c (RqConfig (RqSetImsSwitchStatus slot active)) = SetImsSwitchStatus_imclient e P c slot active"
| "ims_request_client e P c (RqConfig (RqGetImsSwitchStatus slot)) = GetImsSwitchStatus_imclient e P c slot"
| "ims_request_client e P c (RqConfig (RqSetImsConfig_string cfg txt)) = SetImsConfig_string_imclient e P c cfg txt"
| "ims_request_client e P c (RqConfig (RqSetImsConfig_int cfg val)) = SetImsConfig_int_imclient e P c cfg val"
| "ims_request_client e P c (RqConfig (RqGetImsConfig cfg)) = GetImsConfig_imclient e P c cfg"
| "ims_request_client e P c (RqConfig (RqSetImsFeatureValue ftype val)) = SetImsFeatureValue_imclient e P c ftype val"
| "ims_request_client e P c (RqConfig (RqGetImsFeatureValue ftype)) = GetImsFeatureValue_imclient e P c ftype"
| "ims_request_client e P c (RqConfig (RqSetMute slot mt)) = SetMute_imclient e P c slot mt"
| "ims_request_client e P c (RqConfig (RqGetMute slot)) = GetMute_imclient e P c slot"
| "ims_request_client e P c (RqConfig (RqUpdateImsCapabilities slot caps)) = UpdateImsCapabilities_imclient e P c slot caps"
| "ims_request_client e P c (RqConfig (RqGetUtImpuFromNetwork slot impu)) = GetUtImpuFromNetwork_imclient e P c slot impu"
| "ims_request_client e P c (RqConfig (RqNotifyOperatorConfigChanged slot st)) = NotifyOperatorConfigChanged_imclient e P c slot st"
| "ims_request_client e P c (RqConfig (RqGetImsCapabilities slot)) = GetImsCapabilities_imclient e P c slot"
| "ims_request_client e P c (RqSs on0 (ImsSetClip slot actn idx)) = SetClip_imclient e P c slot actn idx"
| "ims_request_client e P c (RqSs on0 (ImsGetClip slot idx)) = GetClip_imclient e P c slot idx"
| "ims_request_client e P c (RqSs on0 (ImsSetClir slot actn idx)) = SetClir_imclient e P c slot actn idx"
| "ims_request_client e P c (RqSs on0 (ImsGetClir slot idx)) = GetClir_imclient e P c slot idx"
| "ims_request_client e P c (RqSs on0 (ImsSetCallTransfer slot cf cls idx)) = SetCallTransfer_imclient e P c slot cf cls idx"
| "ims_request_client e P c (RqSs on (ImsCanSetCallTransferTime slot)) = fst (CanSetCallTransferTime_imclient e P c slot on)"
| "ims_request_client e P c (RqSs on0 (ImsGetCallTransfer slot rsn idx)) = GetCallTransfer_imclient e P c slot rsn idx"
| "ims_request_client e P c (RqSs on0 (ImsSetCallRestriction slot fac rmd pw idx)) = SetCallRestriction_imclient e P c slot fac rmd pw idx"
| "ims_request_client e P c (RqSs on0 (ImsGetCallRestriction slot fac idx)) = GetCallRestriction_imclient e P c slot fac idx"
| "ims_request_client e P c (RqSs on0 (ImsSetCallWaiting slot on cls idx)) = SetCallWaiting_imclient e P c slot on cls idx"
| "ims_request_client e P c (RqConfig (RqSetVideoCallWaiting slot on)) = SetVideoCallWaiting_imclient e P c slot on"
| "ims_request_client e P c (RqSs on0 (ImsGetCallWaiting slot idx)) = GetCallWaiting_imclient e P c slot idx"
| "ims_request_client e P c (RqSs on0 (ImsSetColr slot pres idx)) = SetColr_imclient e P c slot pres idx"
| "ims_request_client e P c (RqSs on0 (ImsGetColr slot idx)) = GetColr_imclient e P c slot idx"
| "ims_request_client e P c (RqSs on0 (ImsSetColp slot actn idx)) = SetColp_imclient e P c slot actn idx"
| "ims_request_client e P c (RqSs on0 (ImsGetColp slot idx)) = GetColp_imclient e P c slot idx"

lemmas imclient_defs =
  Dial_imclient_def HangUp_imclient_def Reject_imclient_def RejectWithReason_imclient_def Answer_imclient_def
  HoldCall_imclient_def UnHoldCall_imclient_def SwitchCall_imclient_def CombineConference_imclient_def
  InviteToConference_imclient_def KickOutFromConference_imclient_def GetImsCallsDataRequest_imclient_def
  GetLastCallFailReason_imclient_def StartDtmf_imclient_def SendDtmf_imclient_def StopDtmf_imclient_def
  UpdateImsRttCallMode_imclient_def SendUpdateCallMediaModeRequest_imclient_def
  SendUpdateCallMediaModeResponse_imclient_def CancelCallUpgrade_imclient_def
  RequestCameraCapabilities_imclient_def ControlCamera_imclient_def SetPreviewWindow_imclient_def
  SetDisplayWindow_imclient_def SetCameraZoom_imclient_def SetPausePicture_imclient_def
  SetDeviceDirection_imclient_def SetDomainPreferenceMode_imclient_def GetDomainPreferenceMode_imclient_def
  SetCarrierVtConfig_imclient_def SetImsSwitchStatus_imclient_def GetImsSwitchStatus_imclient_def
  SetImsConfig_string_imclient_def SetImsConfig_int_imclient_def GetImsConfig_imclient_def
  SetImsFeatureValue_imclient_def GetImsFeatureValue_imclient_def SetMute_imclient_def GetMute_imclient_def
  UpdateImsCapabilities_imclient_def GetUtImpuFromNetwork_imclient_def
  NotifyOperatorConfigChanged_imclient_def GetImsCapabilities_imclient_def SetClip_imclient_def
  GetClip_imclient_def SetClir_imclient_def GetClir_imclient_def SetCallTransfer_imclient_def
  CanSetCallTransferTime_imclient_def GetCallTransfer_imclient_def SetCallRestriction_imclient_def
  GetCallRestriction_imclient_def SetCallWaiting_imclient_def SetVideoCallWaiting_imclient_def
  GetCallWaiting_imclient_def SetColr_imclient_def GetColr_imclient_def SetColp_imclient_def
  GetColp_imclient_def

section \<open>The client as a service client\<close>

text \<open>The service can be reached, and the message that registers the callback with it.\<close>

definition ims_reachable :: "('p, 'x) client_env_scheme \<Rightarrow> bool" where
  "ims_reachable e \<longleftrightarrow> e_samgr e \<and> e_imsAbility e \<and> e_coreCast e \<and> e_callObject e \<and> e_callCast e"

definition registration :: "('p, 'x) client_env_scheme \<Rightarrow> 'p parcel \<Rightarrow> (int \<times> 'p) list" where
  "registration e P = sent (RegisterImsCallCallback_improxy e P (Some (e_callbackObject e)))"

lemmas ims_connection_defs = ReConnectService_ims_def GetImsCallProxy_def connect_locked_def RegisterImsCallCallback_client_def Clean_ims_def
  Init_ims_def UnInit_ims_def OnAddSystemAbility_ims_def OnRemoveSystemAbility_ims_def IsConnect_ims_def

lemma reconnect_connected: "cl_call c \<Longrightarrow> ReConnectService_ims e P c = (TELEPHONY_SUCCESS, c, [])"
  by (simp add: ReConnectService_ims_def)

lemma reconnect_reachable:
  "\<not> cl_call c \<Longrightarrow> ims_reachable e \<Longrightarrow> ReConnectService_ims e P c =
     (TELEPHONY_SUCCESS, c\<lparr>cl_core := True, cl_call := True, cl_callback := True\<rparr>, registration e P)"
  by (simp add: ims_connection_defs ims_reachable_def registration_def Let_def)

lemma reconnect_unreachable:
  "\<not> cl_call c \<Longrightarrow> \<not> ims_reachable e \<Longrightarrow> \<exists>c'. ReConnectService_ims e P c =
     (TELEPHONY_ERR_IPC_CONNECT_STUB_FAIL, c', []) \<and> \<not> cl_call c' \<and> cl_handlers c' = cl_handlers c"
  by (auto simp: ims_connection_defs ims_reachable_def Let_def)

lemma reconnect_cases:
  obtains "cl_call c" "ReConnectService_ims e P c = (TELEPHONY_SUCCESS, c, [])"
  | "\<not> cl_call c" "ims_reachable e" "ReConnectService_ims e P c =
       (TELEPHONY_SUCCESS, c\<lparr>cl_core := True, cl_call := True, cl_callback := True\<rparr>, registration e P)"
  | c' where "\<not> cl_call c" "\<not> ims_reachable e" "ReConnectService_ims e P c = (TELEPHONY_ERR_IPC_CONNECT_STUB_FAIL, c', [])"
      "\<not> cl_call c'" "cl_handlers c' = cl_handlers c"
  using reconnect_connected reconnect_reachable reconnect_unreachable by metis

text \<open>Every method of the client is its proxy's method after the reconnection.\<close>

lemma client_is_reconnected: "ims_request_client e P c q = reconnected e P c (ims_request_proxy e P q)"
proof (cases q)
  case (RqCall q')
  then show ?thesis by (cases q') (simp_all add: imclient_defs)
next
  case (RqVideo q')
  then show ?thesis by (cases q') (simp_all add: imclient_defs)
next
  case (RqConfig q')
  then show ?thesis by (cases q') (simp_all add: imclient_defs)
next
  case (RqSs on0 q')
  then show ?thesis by (cases q') (simp_all add: imclient_defs)
qed (simp add: imclient_defs)

interpretation ims: service_client cl_call "ReConnectService_ims e P" "ims_request_proxy e P" "ims_request_client e P"
proof unfold_locales
  fix c r c' ms q
  assume "ReConnectService_ims e P c = (r, c', ms)"
  then show "ims_request_client e P c q =
      (if r = TELEPHONY_SUCCESS then (fst (ims_request_proxy e P q), c', ms @ sent (ims_request_proxy e P q))
       else (TELEPHONY_ERR_IPC_CONNECT_STUB_FAIL, c', ms))"
    by (simp add: client_is_reconnected reconnected_def)
next
  fix c r c' ms
  assume c: "ReConnectService_ims e P c = (r, c', ms)"
  show "r = TELEPHONY_SUCCESS \<longleftrightarrow> cl_call c'"
    by (rule reconnect_cases [of c e P]) (use c in auto)
  show "ms = []" if "\<not> cl_call c'"
    by (rule reconnect_cases [of c e P]) (use c that in auto)
qed (rule reconnect_connected)

end
