(* ===== verification/ImsClientProps.thy ===== *)
theory ImsClientProps
  imports ImsClient ImsCallbackProps
begin

text \<open>
  The IMS client in use: its runs of requests, its life with the service, and the handlers of the slots. A step of the
  client is a call of one of its public methods, by the service, by the stub or by the system.
\<close>

section \<open>Steps\<close>

inductive client_step ::
    "('p, 'x) client_env_scheme \<Rightarrow> 'p parcel \<Rightarrow> 'h ImsCallClient \<Rightarrow> 'h ImsCallClient \<Rightarrow> bool"
  for e P where
  init: "client_step e P c (fst (Init_ims e P c))"
| request: "client_step e P c (fst (snd (ims_request_client e P c q)))"
| added: "client_step e P c (fst (OnAddSystemAbility_ims e P ability c))"
| removed: "client_step e P c (OnRemoveSystemAbility_ims ability c)"
| register: "client_step e P c (snd (RegisterImsCallCallbackHandler_client slot handler c))"
| handler: "client_step e P c (snd (GetHandler_ims slot c))"

text \<open>The start of the service makes a client; \<^verbatim>\<open>UnInit\<close> is its end, after which it may be used again.\<close>

definition new_client :: "'h ImsCallClient" where
  "new_client = \<lparr>cl_core = False, cl_call = False, cl_callback = False, cl_listener = False, cl_handlers = []\<rparr>"

inductive client_reached :: "('p, 'x) client_env_scheme \<Rightarrow> 'p parcel \<Rightarrow> 'h ImsCallClient \<Rightarrow> bool" for e P where
  start: "client_reached e P new_client"
| step: "client_reached e P c \<Longrightarrow> client_step e P c c' \<Longrightarrow> client_reached e P c'"
| uninit: "client_reached e P c \<Longrightarrow> client_reached e P (UnInit_ims c)"

definition client_ok :: "'h ImsCallClient \<Rightarrow> bool" where
  "client_ok c \<longleftrightarrow> (cl_call c \<longrightarrow> cl_core c \<and> cl_callback c) \<and> omap_ok (cl_handlers c)"

lemma reconnect_ok: "client_ok c \<Longrightarrow> ReConnectService_ims e P c = (r, c', ms) \<Longrightarrow> client_ok c' \<and> cl_handlers c' = cl_handlers c"
  by (rule reconnect_cases [of c e P]) (auto simp: client_ok_def)

lemma reconnect_handlers: "cl_handlers (fst (snd (ReConnectService_ims e P c))) = cl_handlers c"
  by (rule reconnect_cases [of c e P]) simp_all

lemma request_state: "fst (snd (ims_request_client e P c q)) = fst (snd (ReConnectService_ims e P c))"
  by (simp add: client_is_reconnected reconnected_def case_prod_beta)

lemma init_state:
  "fst (Init_ims e P c) =
     (if cl_call c then c else (fst (snd (ReConnectService_ims e P c)))\<lparr>cl_listener := e_newListener e\<rparr>)"
  by (simp add: Init_ims_def IsConnect_ims_def ReConnectService_ims_def case_prod_beta)

lemma added_state:
  "fst (OnAddSystemAbility_ims e P ability c) =
     (if e_checkAbility e ability \<and> \<not> cl_call c then fst (snd (ReConnectService_ims e P (Clean_ims c))) else c)"
  by (simp add: OnAddSystemAbility_ims_def IsConnect_ims_def case_prod_beta)

lemma clean_ok: "client_ok c \<Longrightarrow> client_ok (Clean_ims c)"
  by (simp add: client_ok_def Clean_ims_def)

lemma reconnect_state_ok: "client_ok c \<Longrightarrow> client_ok (fst (snd (ReConnectService_ims e P c)))"
  by (metis prod.collapse reconnect_ok)

lemma client_step_ok: "client_step e P c c' \<Longrightarrow> client_ok c \<Longrightarrow> client_ok c'"
proof (induction rule: client_step.induct)
  case (init c)
  then show ?case using reconnect_state_ok [of c e P] by (auto simp: init_state client_ok_def)
next
  case (request c q)
  then show ?case by (simp add: request_state reconnect_state_ok)
next
  case (added c ability)
  then show ?case by (simp add: added_state reconnect_state_ok clean_ok)
next
  case (removed c ability)
  then show ?case by (simp add: OnRemoveSystemAbility_ims_def clean_ok)
next
  case (register c slot handler)
  then show ?case by (simp add: RegisterImsCallCallbackHandler_client_def client_ok_def omap_ok_insert)
next
  case (handler c slot)
  then show ?case by (auto simp: GetHandler_ims_def client_ok_def omap_ok_insert split: option.splits)
qed

text \<open>C29: the state of the IMS client. In every state the client can reach, a client that has the proxy of the calls also has
  the proxy of the service and its callback object, and the handlers are kept one per slot in order.\<close>

theorem ims_client_invariant:
  assumes "client_reached e P c"
  shows "(cl_call c \<longrightarrow> cl_core c \<and> cl_callback c) \<and> omap_ok (cl_handlers c)"
  using assms
proof (induction rule: client_reached.induct)
  case (step c c')
  then show ?case using client_step_ok [of e P c c'] by (simp add: client_ok_def)
qed (simp_all add: new_client_def UnInit_ims_def Clean_ims_def)

definition sample_client_env :: "bool \<Rightarrow> item list client_env" where
  "sample_client_env up =
     \<lparr>e_remote = True, e_answer = (\<lambda>_ _. Some TELEPHONY_SUCCESS), e_boolAnswer = (\<lambda>_. True), e_samgr = True,
      e_imsAbility = up, e_coreCast = True, e_callObject = True, e_callCast = True, e_callbackObject = 7, e_newListener = True,
      e_checkAbility = (\<lambda>n. n = 4006)\<rparr>"

theorem ims_client_invariant_witness:
  "cl_core (fst (Init_ims (sample_client_env True) (list_parcel True) (new_client :: nat ImsCallClient)))"
proof -
  have "client_reached (sample_client_env True) (list_parcel True)
      (fst (Init_ims (sample_client_env True) (list_parcel True) (new_client :: nat ImsCallClient)))"
    by (rule client_reached.step [OF client_reached.start client_step.init])
  from ims_client_invariant [OF this] show ?thesis
    by (simp add: init_state reconnect_reachable ims_reachable_def sample_client_env_def new_client_def)
qed

section \<open>Runs of requests\<close>

text \<open>C28: every request is sent once, in order, and only to a connected service. A connected client sends the messages of a
  run of requests in order and returns their answers. A client that is not connected, with a service that can be
  found, first registers its callback, once. If the service cannot be found nothing is
  sent and every request is answered with the failure to connect.\<close>

theorem ims_requests_sent:
  assumes "qs \<noteq> []"
  shows "(cl_call c \<longrightarrow> run_calls (ims_request_client e P) c qs =
       (map (fst \<circ> ims_request_proxy e P) qs, c, concat (map (sent \<circ> ims_request_proxy e P) qs))) \<and>
    (\<not> cl_call c \<and> ims_reachable e \<longrightarrow> run_calls (ims_request_client e P) c qs =
       (map (fst \<circ> ims_request_proxy e P) qs, c\<lparr>cl_core := True, cl_call := True, cl_callback := True\<rparr>,
        registration e P @ concat (map (sent \<circ> ims_request_proxy e P) qs))) \<and>
    (\<not> cl_call c \<and> \<not> ims_reachable e \<longrightarrow> (\<exists>c'. \<not> cl_call c' \<and> run_calls (ims_request_client e P) c qs =
       (replicate (length qs) TELEPHONY_ERR_IPC_CONNECT_STUB_FAIL, c', [])))"
proof (intro conjI impI)
  assume "cl_call c"
  then show "run_calls (ims_request_client e P) c qs =
       (map (fst \<circ> ims_request_proxy e P) qs, c, concat (map (sent \<circ> ims_request_proxy e P) qs))"
    by (rule ims.run_connected)
next
  assume "\<not> cl_call c \<and> ims_reachable e"
  then show "run_calls (ims_request_client e P) c qs =
       (map (fst \<circ> ims_request_proxy e P) qs, c\<lparr>cl_core := True, cl_call := True, cl_callback := True\<rparr>,
        registration e P @ concat (map (sent \<circ> ims_request_proxy e P) qs))"
    using ims.run_reconnects [OF reconnect_reachable [of c e P] _ assms] by auto
next
  assume c: "\<not> cl_call c \<and> \<not> ims_reachable e"
  then have "\<not> cl_call (fst (snd (ReConnectService_ims e P c')))" if "\<not> cl_call c'" for c'
    using reconnect_unreachable [OF that, of e P] by auto
  from ims.run_unreachable [OF this, of c] c
  show "\<exists>c'. \<not> cl_call c' \<and> run_calls (ims_request_client e P) c qs =
       (replicate (length qs) TELEPHONY_ERR_IPC_CONNECT_STUB_FAIL, c', [])" by blast
qed

theorem ims_requests_sent_witness:
  "fst (run_calls (ims_request_client (sample_client_env True) (list_parcel True)) (new_client :: nat ImsCallClient)
     [RqCall (ImsCombineConference 0), RqConfig (RqGetMute 1)]) = [TELEPHONY_SUCCESS, TELEPHONY_SUCCESS]"
proof -
  have "CombineConference_improxy (sample_client_env True) (list_parcel True) 0 =
      (TELEPHONY_SUCCESS, snd (CombineConference_improxy (sample_client_env True) (list_parcel True) 0))"
    and "GetMute_improxy (sample_client_env True) (list_parcel True) 1 =
      (TELEPHONY_SUCCESS, snd (GetMute_improxy (sample_client_env True) (list_parcel True) 1))"
    by (simp_all add: CombineConference_improxy_def GetMute_improxy_def request_writers transact_def or_fail_def
        sample_client_env_def list_parcel_def)
  then have "fst (CombineConference_improxy (sample_client_env True) (list_parcel True) 0) = TELEPHONY_SUCCESS"
    "fst (GetMute_improxy (sample_client_env True) (list_parcel True) 1) = TELEPHONY_SUCCESS" by (metis fst_conv)+
  then show ?thesis
    using ims_requests_sent [of "[RqCall (ImsCombineConference 0), RqConfig (RqGetMute 1)]" "new_client :: nat ImsCallClient"
        "sample_client_env True" "list_parcel True"]
    by (simp add: ims_reachable_def sample_client_env_def new_client_def)
qed

section \<open>The service goes and comes back\<close>

text \<open>C31: the IMS service is found again. When the service goes away the client drops its connection and keeps the
  handlers. When it comes back, the client connects and registers its callback, once: by itself, or with the
  first request if that comes earlier, and then the notice of the return changes nothing.\<close>

theorem ims_service_returns:
  assumes "client_ok c" "cl_call c" "ims_reachable e" "e_checkAbility e ability"
  shows "(let c1 = OnRemoveSystemAbility_ims gone c in
     \<not> cl_call c1 \<and> \<not> cl_callback c1 \<and> OnAddSystemAbility_ims e P ability c1 = (c, registration e P) \<and>
     ims_request_client e P c1 q =
       (fst (ims_request_proxy e P q), c, registration e P @ sent (ims_request_proxy e P q)) \<and>
     OnAddSystemAbility_ims e P ability (fst (snd (ims_request_client e P c1 q))) = (c, []))"
proof -
  let ?c1 = "Clean_ims c"
  have restored: "?c1\<lparr>cl_core := True, cl_call := True, cl_callback := True\<rparr> = c"
    using assms(1,2) by (cases c) (simp add: Clean_ims_def client_ok_def)
  have "\<not> cl_call ?c1" "\<not> cl_callback ?c1" "Clean_ims ?c1 = ?c1" by (simp_all add: Clean_ims_def)
  moreover from this have r: "ReConnectService_ims e P ?c1 = (TELEPHONY_SUCCESS, c, registration e P)"
    using reconnect_reachable [of ?c1 e P] assms(3) restored by simp
  moreover have "ims_request_client e P ?c1 q =
      (fst (ims_request_proxy e P q), c, registration e P @ sent (ims_request_proxy e P q))"
    using ims.call_after_connect [OF r] by simp
  ultimately show ?thesis
    using assms by (simp add: OnRemoveSystemAbility_ims_def OnAddSystemAbility_ims_def IsConnect_ims_def)
qed

theorem ims_service_returns_witness:
  "\<exists>c :: nat ImsCallClient. cl_call c \<and>
     OnAddSystemAbility_ims (sample_client_env True) (list_parcel True) 4006 (OnRemoveSystemAbility_ims 4006 c) =
       (c, registration (sample_client_env True) (list_parcel True))"
proof -
  let ?c = "(new_client :: nat ImsCallClient)\<lparr>cl_core := True, cl_call := True, cl_callback := True\<rparr>"
  have "client_ok ?c" "cl_call ?c" "ims_reachable (sample_client_env True)" "e_checkAbility (sample_client_env True) 4006"
    by (simp_all add: client_ok_def new_client_def ims_reachable_def sample_client_env_def)
  from ims_service_returns [OF this, of 4006] \<open>cl_call ?c\<close> show ?thesis unfolding Let_def by blast
qed

section \<open>The handler of a slot\<close>

lemma step_handlers:
  "client_step e P c c' \<Longrightarrow> omap_ok (cl_handlers c) \<Longrightarrow> map_of (cl_handlers c) slot = Some x \<Longrightarrow>
   omap_ok (cl_handlers c') \<and> map_of (cl_handlers c') slot = Some x"
proof (induction rule: client_step.induct)
  case (register c k handler)
  then show ?case by (auto simp: RegisterImsCallCallbackHandler_client_def om.lookup_ins om.ok_ins)
next
  case (handler c k)
  then show ?case by (auto simp: GetHandler_ims_def om.lookup_ins om.ok_ins split: option.splits)
qed (auto simp: init_state request_state added_state reconnect_handlers OnRemoveSystemAbility_ims_def Clean_ims_def)

lemma steps_handlers:
  "(client_step e P)\<^sup>*\<^sup>* c c' \<Longrightarrow> omap_ok (cl_handlers c) \<Longrightarrow> map_of (cl_handlers c) slot = Some x \<Longrightarrow>
   omap_ok (cl_handlers c') \<and> map_of (cl_handlers c') slot = Some x"
proof (induction rule: converse_rtranclp_induct)
  case (step c c'')
  then show ?case using step_handlers by blast
qed simp

lemma omap_insert_present: "omap_ok m \<Longrightarrow> map_of m k = Some x \<Longrightarrow> omap_insert k v m = m"
proof (induction k v m rule: omap_insert.induct)
  case (2 k v k' v' m)
  have "k \<in> fst ` set m" if "map_of m k = Some x" using that by (force dest: map_of_SomeD)
  with 2 show ?case by (auto split: if_splits)
qed simp

lemma no_handler_fails:
  assumes "\<not> e_cbHandler v (callback_slot cb)" "\<forall>t. e_sendTelEvent v t" "\<not> to_retry cb" "\<forall>k m. cb \<noteq> CbSetMute k m"
  shows "perform v tbl cb = (TELEPHONY_ERR_LOCAL_PTR_NULL, [])"
  using perform_sends [of v cb tbl] assms by (auto simp: send_event_def)

text \<open>The first use of a slot decides about its handler. A handler that is registered before any callback for its slot
  stays the handler of the slot through every later step. If a callback for the slot comes first, the look-up leaves a null
  handler behind: the registration then reports success and changes nothing, and every callback for the slot fails from
  then on.\<close>

theorem first_use_of_slot:
  assumes "omap_ok (cl_handlers c)" "map_of (cl_handlers c) slot = None"
    "(client_step e P)\<^sup>*\<^sup>* (snd (RegisterImsCallCallbackHandler_client slot (Some h) c)) c1"
    "(client_step e P)\<^sup>*\<^sup>* (snd (GetHandler_ims slot c)) c2"
  shows "fst (GetHandler_ims slot c1) = Some h \<and>
    RegisterImsCallCallbackHandler_client slot (Some h) c2 = (TELEPHONY_SUCCESS, c2) \<and>
    fst (GetHandler_ims slot c2) = None \<and>
    (\<forall>v tbl cb. e_cbHandler v = (\<lambda>k. fst (GetHandler_ims k c2) \<noteq> None) \<and> callback_slot cb = slot \<and> \<not> to_retry cb \<and>
       (\<forall>t. e_sendTelEvent v t) \<and> (\<forall>k m. cb \<noteq> CbSetMute k m) \<longrightarrow> perform v tbl cb = (TELEPHONY_ERR_LOCAL_PTR_NULL, []))"
proof -
  have h1: "map_of (cl_handlers c1) slot = Some (Some h)"
    using steps_handlers [OF assms(3), of slot "Some h"] assms(1,2)
    by (simp add: RegisterImsCallCallbackHandler_client_def om.lookup_ins om.ok_ins)
  have h2: "map_of (cl_handlers c2) slot = Some None" "omap_ok (cl_handlers c2)"
    using steps_handlers [OF assms(4), of slot None] assms(1,2) by (simp_all add: GetHandler_ims_def om.lookup_ins om.ok_ins)
  then have "fst (GetHandler_ims slot c2) = None" by (simp add: GetHandler_ims_def)
  with h1 h2 show ?thesis
    by (auto simp: GetHandler_ims_def RegisterImsCallCallbackHandler_client_def omap_insert_present intro!: no_handler_fails)
qed

theorem first_use_of_slot_witness:
  "fst (GetHandler_ims 0 (snd (GetHandler_ims 0 (new_client :: nat ImsCallClient)))) = None \<and>
   fst (GetHandler_ims 0 (snd (RegisterImsCallCallbackHandler_client 0 (Some 5) (new_client :: nat ImsCallClient)))) = Some 5"
proof -
  have "omap_ok (cl_handlers (new_client :: nat ImsCallClient))" "map_of (cl_handlers (new_client :: nat ImsCallClient)) 0 = None"
    by (simp_all add: new_client_def)
  from first_use_of_slot [OF this rtranclp.rtrancl_refl rtranclp.rtrancl_refl]
  show ?thesis by blast
qed

end
