(* ===== verification/ImsClientThreads.thy ===== *)
theory ImsClientThreads
  imports ImsClientProps
begin

text \<open>
  Several threads in the IMS client at once: the calls of the service, the listener of the system, the callbacks. A request
  (\<^verbatim>\<open>services/ims_service_interaction/src/ims_call_client.cpp\<close>) looks at the proxy without a lock (\<^verbatim>\<open>ReConnectService\<close>),
  then under the shared lock (\<^verbatim>\<open>GetImsCallProxy\<close>), makes it under the exclusive lock, looks again without a lock, and uses it
  under the shared lock. Each of these is one step; between them the other threads run.
\<close>

section \<open>The steps of a request\<close>

text \<open>Where a thread with a request is; the request is what its proxy method would give. \<open>NullProxy\<close>: the method was called on a null proxy.\<close>

datatype 'p at =
    Idle
  | AtReConnect "errcode \<times> (int \<times> 'p) option"
  | AtShared "errcode \<times> (int \<times> 'p) option"
  | AtExclusive "errcode \<times> (int \<times> 'p) option"
  | AtLookAgain "errcode \<times> (int \<times> 'p) option"
  | AtSend "errcode \<times> (int \<times> 'p) option"
  | Returned errcode
  | NullProxy

fun thread_step ::
    "('p, 'x) client_env_scheme \<Rightarrow> 'p parcel \<Rightarrow> 'p at \<Rightarrow> 'h ImsCallClient \<Rightarrow> 'p at \<times> 'h ImsCallClient \<times> (int \<times> 'p) list" where
  "thread_step e P (AtReConnect q) c = ((if cl_call c then AtSend q else AtShared q), c, [])"
| "thread_step e P (AtShared q) c =
     ((if cl_call c \<or> \<not> e_samgr e \<or> \<not> e_imsAbility e then AtLookAgain q else AtExclusive q), c, [])"
| "thread_step e P (AtExclusive q) c = (let (_, c', ms) = connect_locked e P c in (AtLookAgain q, c', ms))"
| "thread_step e P (AtLookAgain q) c =
     ((if cl_call c then AtSend q else Returned TELEPHONY_ERR_IPC_CONNECT_STUB_FAIL), c, [])"
| "thread_step e P (AtSend q) c = (if cl_call c then (Returned (fst q), c, sent q) else (NullProxy, c, []))"
| "thread_step e P a c = (a, c, [])"

text \<open>The threads, the client they share and the messages sent so far. A schedule says whose turn it is; \<open>None\<close> is the
  listener, which drops everything when the service goes away.\<close>

record ('p, 'h) threads =
  at :: "nat \<Rightarrow> 'p at"
  client :: "'h ImsCallClient"
  messages :: "(int \<times> 'p) list"

definition turn ::
    "('p, 'x) client_env_scheme \<Rightarrow> 'p parcel \<Rightarrow> nat option \<Rightarrow> ('p, 'h) threads \<Rightarrow> ('p, 'h) threads" where
  "turn e P who s = (case who of
       None \<Rightarrow> s\<lparr>client := OnRemoveSystemAbility_ims 0 (client s)\<rparr>
     | Some i \<Rightarrow> let (a, c, ms) = thread_step e P (at s i) (client s) in
         s\<lparr>at := (at s)(i := a), client := c, messages := messages s @ ms\<rparr>)"

definition run_schedule ::
    "('p, 'x) client_env_scheme \<Rightarrow> 'p parcel \<Rightarrow> nat option list \<Rightarrow> ('p, 'h) threads \<Rightarrow> ('p, 'h) threads" where
  "run_schedule e P = fold (turn e P)"

lemma run_schedule_simps [simp]:
  "run_schedule e P [] s = s" "run_schedule e P (w # ws) s = run_schedule e P ws (turn e P w s)"
  "run_schedule e P (ws @ ws') s = run_schedule e P ws' (run_schedule e P ws s)"
  by (simp_all add: run_schedule_def)

lemma connect_there:
  "ims_reachable e \<Longrightarrow> connect_locked e P c = (True, c\<lparr>cl_core := True, cl_call := True, cl_callback := True\<rparr>, registration e P)"
  by (simp add: ims_reachable_def connect_locked_def RegisterImsCallCallback_client_def registration_def Let_def)

section \<open>A thread on its own\<close>

text \<open>Without other threads in between the steps of a request are the one step of the client.\<close>

lemma alone_as_one_step:
  assumes at: "at s i = AtReConnect q"
  shows "run_schedule e P (replicate 5 (Some i)) s =
    (case reconnected e P (client s) q of (r, c, ms) \<Rightarrow>
       s\<lparr>at := (at s)(i := Returned r), client := c, messages := messages s @ ms\<rparr>)"
proof -
  have five: "replicate 5 (Some i) = [Some i, Some i, Some i, Some i, Some i]" by (simp add: numeral_eq_Suc)
  consider "cl_call (client s)" | "\<not> cl_call (client s)" "\<not> (e_samgr e \<and> e_imsAbility e)"
    | ok c ms where "\<not> cl_call (client s)" "e_samgr e" "e_imsAbility e" "connect_locked e P (client s) = (ok, c, ms)"
    by (metis prod_cases3)
  then show ?thesis
    unfolding five
    by cases (auto simp: turn_def at reconnected_def ReConnectService_ims_def GetImsCallProxy_def)
qed

section \<open>Any interleaving\<close>

text \<open>What the exclusive sections keep: a proxy that is there was made together with a callback. A thread about to send
  has seen the proxy, but another may have dropped it since.\<close>

lemma connect_locked_callback:
  "(cl_call c \<longrightarrow> cl_callback c) \<Longrightarrow> cl_call (fst (snd (connect_locked e P c))) \<longrightarrow> cl_callback (fst (snd (connect_locked e P c)))"
  by (simp add: connect_locked_def RegisterImsCallCallback_client_def Let_def)

lemma thread_step_callback:
  "(cl_call c \<longrightarrow> cl_callback c) \<Longrightarrow>
    cl_call (fst (snd (thread_step e P a c))) \<longrightarrow> cl_callback (fst (snd (thread_step e P a c)))"
  using connect_locked_callback [of c e P] by (cases a) (simp_all add: case_prod_beta Let_def)

lemma turn_callback:
  assumes "cl_call (client s) \<longrightarrow> cl_callback (client s)"
  shows "cl_call (client (turn e P w s)) \<longrightarrow> cl_callback (client (turn e P w s))"
  using thread_step_callback [OF assms] assms
  by (cases w) (simp_all add: turn_def OnRemoveSystemAbility_ims_def Clean_ims_def case_prod_beta Let_def)

lemma schedule_callback:
  "(cl_call (client s) \<longrightarrow> cl_callback (client s)) \<Longrightarrow>
    cl_call (client (run_schedule e P ws s)) \<longrightarrow> cl_callback (client (run_schedule e P ws s))"
  by (induction ws arbitrary: s) (simp_all add: turn_callback)

section \<open>Properties\<close>

text \<open>C30: requests of two threads to a client without a connection, while the service is there. One after the other the callback is registered once, before the
  first request. When both have looked for the proxy before either has made it, both register a callback, as the second does not look again. When
  the service goes away after a thread has looked for the last time, the thread calls its method on a null proxy. In every interleaving a client with a proxy has a callback.\<close>

theorem ims_connect_interleaved:
  assumes there: "ims_reachable e" and two: "at s i = AtReConnect q" "at s j = AtReConnect q'" "i \<noteq> j"
    and off: "\<not> cl_call (client s)"
  shows "messages (run_schedule e P (replicate 5 (Some i) @ replicate 2 (Some j)) s) =
      messages s @ registration e P @ sent q @ sent q' \<and>
    messages (run_schedule e P ([Some i, Some i, Some j, Some j] @ replicate 3 (Some i) @ replicate 3 (Some j)) s) =
      messages s @ registration e P @ sent q @ registration e P @ sent q' \<and>
    at (run_schedule e P (replicate 4 (Some i) @ [None, Some i]) s) i = NullProxy \<and>
    (let c = client (run_schedule e P ws s) in cl_call c \<longrightarrow> cl_callback c)"
proof -
  have rep: "replicate 5 x = [x, x, x, x, x]" "replicate 4 x = [x, x, x, x]" "replicate 3 x = [x, x, x]" "replicate 2 x = [x, x]"
    for x :: "nat option" by (simp_all add: numeral_eq_Suc)
  have e: "e_samgr e" "e_imsAbility e" using there by (simp_all add: ims_reachable_def)
  note step = turn_def connect_there [OF there]
  have "messages (run_schedule e P (replicate 5 (Some i) @ replicate 2 (Some j)) s) =
      messages s @ registration e P @ sent q @ sent q'"
    unfolding rep using two off e by (simp add: step)
  moreover have "messages (run_schedule e P ([Some i, Some i, Some j, Some j] @ replicate 3 (Some i) @ replicate 3 (Some j)) s) =
      messages s @ registration e P @ sent q @ registration e P @ sent q'"
    unfolding rep using two off e by (simp add: step)
  moreover have "at (run_schedule e P (replicate 4 (Some i) @ [None, Some i]) s) i = NullProxy"
    unfolding rep using two off e by (simp add: step OnRemoveSystemAbility_ims_def IsConnect_ims_def Clean_ims_def)
  moreover have "let c = client (run_schedule e P ws s) in cl_call c \<longrightarrow> cl_callback c"
    using schedule_callback [of s e P ws] off by (simp add: Let_def)
  ultimately show ?thesis by blast
qed

text \<open>Holding the calls of slot 0 and of slot 1 at the same time.\<close>

theorem ims_connect_interleaved_witness:
  "map fst (messages (run_schedule (sample_client_env True) (list_parcel True)
     ([Some 0, Some 0, Some 1, Some 1] @ replicate 3 (Some 0) @ replicate 3 (Some 1))
     \<lparr>at = (\<lambda>i. AtReConnect (HoldCall_improxy (sample_client_env True) (list_parcel True) (int i) 1 False)),
      client = (new_client :: nat ImsCallClient), messages = []\<rparr>)) =
   [IMS_CALL_REGISTER_CALLBACK_code, IMS_HOLD_code, IMS_CALL_REGISTER_CALLBACK_code, IMS_HOLD_code]"
proof -
  let ?P = "list_parcel True"
  let ?q = "\<lambda>i. HoldCall_improxy (sample_client_env True) ?P (int i) 1 False"
  let ?s = "\<lparr>at = \<lambda>i. AtReConnect (?q i), client = new_client, messages = []\<rparr> :: (item list, nat) threads"
  have "ims_reachable (sample_client_env True)" "\<not> cl_call (client ?s)"
    by (simp_all add: ims_reachable_def sample_client_env_def new_client_def)
  from ims_connect_interleaved [OF this(1) _ _ _ this(2), of 0 "?q 0" 1 "?q 1" ?P]
  have m: "messages (run_schedule (sample_client_env True) ?P ([Some 0, Some 0, Some 1, Some 1] @ replicate 3 (Some 0) @ replicate 3 (Some 1)) ?s) =
      registration (sample_client_env True) ?P @ sent (?q 0) @ registration (sample_client_env True) ?P @ sent (?q 1)" by simp
  show ?thesis
    unfolding m
    by (simp add: sample_client_env_def HoldCall_improxy_def RegisterImsCallCallback_improxy_def registration_def request_writers
        transact_def or_fail_def list_parcel_def)
qed

end
