(* ===== verification/SatIpc.thy ===== *)
theory SatIpc
  imports ImsCallbackStub ImsRequest
begin

text \<open>
  The messages between the service and the satellite service
  (\<^verbatim>\<open>services/satellite_service_interaction/src\<close>): the callbacks, written by \<^verbatim>\<open>SatelliteCallCallbackProxy\<close> and
  read and performed by \<^verbatim>\<open>SatelliteCallCallbackStub\<close>, and the requests, written by
  \<^verbatim>\<open>SatelliteCallProxy\<close>. The shape is that of the IMS messages, and the surroundings are shared with them
  (\<open>ipc_env\<close>, \<open>transact\<close>).
\<close>

section \<open>Callbacks\<close>

definition SatelliteCallCallback_descriptor :: string where
  "SatelliteCallCallback_descriptor = ''OHOS.Telephony.SatelliteCallCallback''"

abbreviation SATELLITE_DIAL :: int where "SATELLITE_DIAL \<equiv> 0"
abbreviation SATELLITE_HANG_UP :: int where "SATELLITE_HANG_UP \<equiv> 1"
abbreviation SATELLITE_REJECT :: int where "SATELLITE_REJECT \<equiv> 2"
abbreviation SATELLITE_ANSWER :: int where "SATELLITE_ANSWER \<equiv> 3"
abbreviation SATELLITE_CALL_STATE_CHANGE :: int where "SATELLITE_CALL_STATE_CHANGE \<equiv> 4"
abbreviation SATELLITE_GET_CALLS_DATA :: int where "SATELLITE_GET_CALLS_DATA \<equiv> 5"

datatype sat_method = SDial | SHangUp | SReject | SAnswer | SGetCallsData

datatype sat_callback =
    SatResponse sat_method int RadioResponseInfo
  | SatStateChange int
  | SatCallsData int SatelliteCurrentCallList

subsection \<open>The proxy\<close>

definition WriteCommonInfo_satcb :: "'p parcel \<Rightarrow> int \<Rightarrow> ('p, errcode + int) state \<Rightarrow> ('p, errcode + int) state" where
  "WriteCommonInfo_satcb P slot next =
     or_fail TELEPHONY_ERR_WRITE_DESCRIPTOR_TOKEN_FAIL (WriteInterfaceToken P SatelliteCallCallback_descriptor)
       (or_fail TELEPHONY_ERR_WRITE_DATA_FAIL (WriteInt32 P slot) next)"

definition WriteCommonInfo_satcb_info ::
    "'p parcel \<Rightarrow> int \<Rightarrow> RadioResponseInfo \<Rightarrow> ('p, errcode + int) state \<Rightarrow> ('p, errcode + int) state" where
  "WriteCommonInfo_satcb_info P slot info next =
     WriteCommonInfo_satcb P slot (or_fail TELEPHONY_ERR_WRITE_DATA_FAIL (WriteRawData P (BRadioResponseInfo info)) next)"

definition SendResponseInfo_sat ::
    "('p, 'x) ipc_env_scheme \<Rightarrow> 'p parcel \<Rightarrow> ('p, errcode + int) state \<Rightarrow> errcode \<times> (int \<times> 'p) option" where
  "SendResponseInfo_sat e P m = transact TELEPHONY_ERR_LOCAL_PTR_NULL e P m"

definition DialSatelliteResponse_proxy :: "'p parcel \<Rightarrow> int \<Rightarrow> RadioResponseInfo \<Rightarrow> ('p, errcode + int) state" where
  "DialSatelliteResponse_proxy P slot info =
     WriteCommonInfo_satcb_info P slot info (State_Monad.return (Inr SATELLITE_DIAL))"

definition HangUpSatelliteResponse_proxy :: "'p parcel \<Rightarrow> int \<Rightarrow> RadioResponseInfo \<Rightarrow> ('p, errcode + int) state" where
  "HangUpSatelliteResponse_proxy P slot info =
     WriteCommonInfo_satcb_info P slot info (State_Monad.return (Inr SATELLITE_HANG_UP))"

definition RejectSatelliteResponse_proxy :: "'p parcel \<Rightarrow> int \<Rightarrow> RadioResponseInfo \<Rightarrow> ('p, errcode + int) state" where
  "RejectSatelliteResponse_proxy P slot info =
     WriteCommonInfo_satcb_info P slot info (State_Monad.return (Inr SATELLITE_REJECT))"

definition AnswerSatelliteResponse_proxy :: "'p parcel \<Rightarrow> int \<Rightarrow> RadioResponseInfo \<Rightarrow> ('p, errcode + int) state" where
  "AnswerSatelliteResponse_proxy P slot info =
     WriteCommonInfo_satcb_info P slot info (State_Monad.return (Inr SATELLITE_ANSWER))"

definition CallStateChangeReport_satproxy :: "'p parcel \<Rightarrow> int \<Rightarrow> ('p, errcode + int) state" where
  "CallStateChangeReport_satproxy P slot =
     WriteCommonInfo_satcb P slot (State_Monad.return (Inr SATELLITE_CALL_STATE_CHANGE))"

definition GetSatelliteCallsDataResponse_proxy :: "'p parcel \<Rightarrow> int \<Rightarrow> RadioResponseInfo \<Rightarrow> ('p, errcode + int) state" where
  "GetSatelliteCallsDataResponse_proxy P slot info =
     WriteCommonInfo_satcb_info P slot info (State_Monad.return (Inr SATELLITE_GET_CALLS_DATA))"

definition sat_call_items :: "SatelliteCurrentCall \<Rightarrow> item list" where
  "sat_call_items call =
     [Int32 (t_index call), Int32 (t_dir call), ATelCallState (t_state call), Int32 (t_mode call), Int32 (t_mpty call),
      Int32 (t_voiceDomain call), Int32 (t_callType call), AString (t_number call), Int32 (t_type call),
      AString (t_alpha call), Int32 (t_toa call)]"

text \<open>The list is sent with the slot written twice.\<close>

definition GetSatelliteCallsDataResponse_list_proxy ::
    "'p parcel \<Rightarrow> int \<Rightarrow> SatelliteCurrentCallList \<Rightarrow> ('p, errcode + int) state" where
  "GetSatelliteCallsDataResponse_list_proxy P slot callList =
     WriteCommonInfo_satcb P slot
       (or_fail TELEPHONY_ERR_WRITE_DATA_FAIL (WriteInt32 P slot)
         (or_fail TELEPHONY_ERR_WRITE_DATA_FAIL (WriteInt32 P (t_callSize callList))
           (or_fail TELEPHONY_ERR_WRITE_DATA_FAIL (WriteInt32 P (t_flag callList))
             (or_fail TELEPHONY_ERR_WRITE_DATA_FAIL (WriteInt32 P (int (length (t_calls callList))))
               (or_fail TELEPHONY_ERR_WRITE_DATA_FAIL (write_all P (concat (map sat_call_items (t_calls callList))))
                 (State_Monad.return (Inr SATELLITE_GET_CALLS_DATA)))))))"

fun sat_proxy :: "'p parcel \<Rightarrow> sat_callback \<Rightarrow> ('p, errcode + int) state" where
  "sat_proxy P (SatResponse SDial slot info) = DialSatelliteResponse_proxy P slot info"
| "sat_proxy P (SatResponse SHangUp slot info) = HangUpSatelliteResponse_proxy P slot info"
| "sat_proxy P (SatResponse SReject slot info) = RejectSatelliteResponse_proxy P slot info"
| "sat_proxy P (SatResponse SAnswer slot info) = AnswerSatelliteResponse_proxy P slot info"
| "sat_proxy P (SatResponse SGetCallsData slot info) = GetSatelliteCallsDataResponse_proxy P slot info"
| "sat_proxy P (SatStateChange slot) = CallStateChangeReport_satproxy P slot"
| "sat_proxy P (SatCallsData slot l) = GetSatelliteCallsDataResponse_list_proxy P slot l"

subsection \<open>The stub\<close>

definition read_sat_response :: "'p parcel \<Rightarrow> sat_method \<Rightarrow> ('p, sat_callback decoded) state" where
  "read_sat_response P m = do {
     slot \<leftarrow> ReadInt32 P;
     info \<leftarrow> ReadRawData P TRadioResponseInfo;
     State_Monad.return (case info of
       Some (BRadioResponseInfo i) \<Rightarrow> Call (SatResponse m slot i)
     | _ \<Rightarrow> Refuse TELEPHONY_ERR_ARGUMENT_INVALID) }"

definition OnDialResponseInner_sat :: "'p parcel \<Rightarrow> ('p, sat_callback decoded) state" where
  "OnDialResponseInner_sat P = read_sat_response P SDial"

definition OnHangUpResponseInner_sat :: "'p parcel \<Rightarrow> ('p, sat_callback decoded) state" where
  "OnHangUpResponseInner_sat P = read_sat_response P SHangUp"

definition OnRejectResponseInner_sat :: "'p parcel \<Rightarrow> ('p, sat_callback decoded) state" where
  "OnRejectResponseInner_sat P = read_sat_response P SReject"

definition OnAnswerResponseInner_sat :: "'p parcel \<Rightarrow> ('p, sat_callback decoded) state" where
  "OnAnswerResponseInner_sat P = read_sat_response P SAnswer"

definition OnCallStateChangeReportInner_sat :: "'p parcel \<Rightarrow> ('p, sat_callback decoded) state" where
  "OnCallStateChangeReportInner_sat P = do { slot \<leftarrow> ReadInt32 P; State_Monad.return (Call (SatStateChange slot)) }"

definition read_sat_call :: "'p parcel \<Rightarrow> ('p, SatelliteCurrentCall) state" where
  "read_sat_call P = do {
     idx \<leftarrow> ReadInt32 P;
     dir \<leftarrow> ReadInt32 P;
     st \<leftarrow> ReadTelCallState P;
     mode \<leftarrow> ReadInt32 P;
     mpty \<leftarrow> ReadInt32 P;
     domain \<leftarrow> ReadInt32 P;
     ctype \<leftarrow> ReadInt32 P;
     num \<leftarrow> ReadString P;
     typ \<leftarrow> ReadInt32 P;
     alpha \<leftarrow> ReadString P;
     toa \<leftarrow> ReadInt32 P;
     State_Monad.return
       \<lparr>t_index = idx, t_dir = dir, t_state = st, t_mode = mode, t_mpty = mpty, t_voiceDomain = domain,
        t_callType = ctype, t_number = num, t_type = typ, t_alpha = alpha, t_toa = toa\<rparr> }"

definition MAX_SIZE_sat :: int where "MAX_SIZE_sat = 10"

definition OnGetSatelliteCallsDataResponseInner :: "'p parcel \<Rightarrow> ('p, sat_callback decoded) state" where
  "OnGetSatelliteCallsDataResponseInner P = do {
     slot \<leftarrow> ReadInt32 P;
     info \<leftarrow> ReadRawData P TRadioResponseInfo;
     (case info of
        Some (BRadioResponseInfo i) \<Rightarrow> State_Monad.return (Call (SatResponse SGetCallsData slot i))
      | _ \<Rightarrow> do {
          size \<leftarrow> ReadInt32 P;
          flg \<leftarrow> ReadInt32 P;
          len \<leftarrow> ReadInt32 P;
          if len < 0 \<or> len > MAX_SIZE_sat then State_Monad.return (Refuse TELEPHONY_ERR_FAIL)
          else do {
            infos \<leftarrow> read_n (nat len) (read_sat_call P);
            State_Monad.return (Call (SatCallsData slot \<lparr>t_callSize = size, t_flag = flg, t_calls = infos\<rparr>)) } }) }"

definition requestFuncMap_sat :: "'p parcel \<Rightarrow> int \<Rightarrow> ('p, sat_callback decoded) state option" where
  "requestFuncMap_sat P = map_of
    [(SATELLITE_DIAL, OnDialResponseInner_sat P),
     (SATELLITE_HANG_UP, OnHangUpResponseInner_sat P),
     (SATELLITE_REJECT, OnRejectResponseInner_sat P),
     (SATELLITE_ANSWER, OnAnswerResponseInner_sat P),
     (SATELLITE_CALL_STATE_CHANGE, OnCallStateChangeReportInner_sat P),
     (SATELLITE_GET_CALLS_DATA, OnGetSatelliteCallsDataResponseInner P)]"

subsection \<open>The methods of the callbacks\<close>

datatype sat_object = SatNoObject | SatObjResponse RadioResponseInfo | SatObjCalls SatelliteCurrentCallList

record sat_event =
  se_id :: string
  se_object :: sat_object

record sat_cb_env =
  e_satHandler :: "int \<Rightarrow> bool"
  e_sendSatEvent :: "sat_event \<Rightarrow> bool"
  e_defaultRequest_sat :: "int \<Rightarrow> errcode"

definition send_sat_event ::
    "'x sat_cb_env_scheme \<Rightarrow> int \<Rightarrow> string \<Rightarrow> sat_object \<Rightarrow> errcode \<times> (int \<times> sat_event) list" where
  "send_sat_event e slot ev obj =
     (let t = \<lparr>se_id = ev, se_object = obj\<rparr> in
      if \<not> e_satHandler e slot then (TELEPHONY_ERR_LOCAL_PTR_NULL, [])
      else if \<not> e_sendSatEvent e t then (TELEPHONY_ERR_FAIL, [])
      else (TELEPHONY_SUCCESS, [(slot, t)]))"

definition SendEvent_sat ::
    "'x sat_cb_env_scheme \<Rightarrow> int \<Rightarrow> string \<Rightarrow> RadioResponseInfo \<Rightarrow> errcode \<times> (int \<times> sat_event) list" where
  "SendEvent_sat e slot ev info = send_sat_event e slot ev (SatObjResponse info)"

fun sat_response :: "'x sat_cb_env_scheme \<Rightarrow> sat_method \<Rightarrow> int \<Rightarrow> RadioResponseInfo \<Rightarrow> errcode \<times> (int \<times> sat_event) list" where
  "sat_response e SDial slot info = SendEvent_sat e slot ''SATELLITE_RADIO_DIAL'' info"
| "sat_response e SHangUp slot info = SendEvent_sat e slot ''SATELLITE_RADIO_HANGUP'' info"
| "sat_response e SReject slot info = SendEvent_sat e slot ''SATELLITE_RADIO_REJECT'' info"
| "sat_response e SAnswer slot info = SendEvent_sat e slot ''SATELLITE_RADIO_ANSWER'' info"
| "sat_response e SGetCallsData slot info = SendEvent_sat e slot ''SATELLITE_RADIO_GET_CALL_DATA'' info"

definition CallStateChangeReport_sat :: "'x sat_cb_env_scheme \<Rightarrow> int \<Rightarrow> errcode \<times> (int \<times> sat_event) list" where
  "CallStateChangeReport_sat e slot = send_sat_event e slot ''SATELLITE_RADIO_CALL_STATE_CHANGED'' SatNoObject"

definition GetSatelliteCallsDataResponse_cb ::
    "'x sat_cb_env_scheme \<Rightarrow> int \<Rightarrow> SatelliteCurrentCallList \<Rightarrow> errcode \<times> (int \<times> sat_event) list" where
  "GetSatelliteCallsDataResponse_cb e slot callList =
     send_sat_event e slot ''SATELLITE_RADIO_GET_CALL_DATA'' (SatObjCalls callList)"

fun perform_sat :: "'x sat_cb_env_scheme \<Rightarrow> sat_callback \<Rightarrow> errcode \<times> (int \<times> sat_event) list" where
  "perform_sat e (SatResponse m slot info) = sat_response e m slot info"
| "perform_sat e (SatStateChange slot) = CallStateChangeReport_sat e slot"
| "perform_sat e (SatCallsData slot l) = GetSatelliteCallsDataResponse_cb e slot l"

definition OnRemoteRequest_sat ::
    "'p parcel \<Rightarrow> 'x sat_cb_env_scheme \<Rightarrow> int \<Rightarrow> ('p, errcode \<times> errcode option \<times> (int \<times> sat_event) list) state" where
  "OnRemoteRequest_sat P e code = do {
     remoteDescriptor \<leftarrow> ReadInterfaceToken P;
     if SatelliteCallCallback_descriptor \<noteq> remoteDescriptor
       then State_Monad.return (TELEPHONY_ERR_DESCRIPTOR_MISMATCH, None, [])
     else (case requestFuncMap_sat P code of
         None \<Rightarrow> State_Monad.return (e_defaultRequest_sat e code, None, [])
       | Some requestFunc \<Rightarrow> do {
           d \<leftarrow> requestFunc;
           State_Monad.return (case d of
             Refuse r \<Rightarrow> (r, None, [])
           | Ignore \<Rightarrow> (TELEPHONY_SUCCESS, Some TELEPHONY_SUCCESS, [])
           | Call cb \<Rightarrow> let (r, acts) = perform_sat e cb in (TELEPHONY_SUCCESS, Some r, acts)) }) }"

section \<open>Requests\<close>

definition SatelliteCall_descriptor :: string where
  "SatelliteCall_descriptor = ''OHOS.Telephony.SatelliteCallInterface''"

abbreviation SATELLITE_DIAL_code :: int where "SATELLITE_DIAL_code \<equiv> 5000"
abbreviation SATELLITE_HANG_UP_code :: int where "SATELLITE_HANG_UP_code \<equiv> 5001"
abbreviation SATELLITE_REJECT_code :: int where "SATELLITE_REJECT_code \<equiv> 5002"
abbreviation SATELLITE_ANSWER_code :: int where "SATELLITE_ANSWER_code \<equiv> 5003"
abbreviation SATELLITE_GET_CALL_DATA_code :: int where "SATELLITE_GET_CALL_DATA_code \<equiv> 5008"
abbreviation SATELLITE_CALL_REGISTER_CALLBACK_code :: int where "SATELLITE_CALL_REGISTER_CALLBACK_code \<equiv> 5009"

definition SendRequest_sat ::
    "('p, 'x) ipc_env_scheme \<Rightarrow> 'p parcel \<Rightarrow> ('p, errcode + int) state \<Rightarrow> errcode \<times> (int \<times> 'p) option" where
  "SendRequest_sat e P m = transact TELEPHONY_ERR_IPC_CONNECT_STUB_FAIL e P m"

definition SendRequest_sat_slot ::
    "('p, 'x) ipc_env_scheme \<Rightarrow> 'p parcel \<Rightarrow> int \<Rightarrow> ('p, errcode + int) state \<Rightarrow> errcode \<times> (int \<times> 'p) option" where
  "SendRequest_sat_slot e P slot m = transact TELEPHONY_ERR_IPC_CONNECT_STUB_FAIL e P m"

definition WriteCommonInfo_sat :: "'p parcel \<Rightarrow> int \<Rightarrow> ('p, errcode + int) state \<Rightarrow> ('p, errcode + int) state" where
  "WriteCommonInfo_sat P slot next =
     or_fail TELEPHONY_ERR_WRITE_DESCRIPTOR_TOKEN_FAIL (WriteInterfaceToken P SatelliteCall_descriptor)
       (or_fail TELEPHONY_ERR_WRITE_DATA_FAIL (WriteInt32 P slot) next)"

definition Dial_satproxy ::
    "('p, 'x) ipc_env_scheme \<Rightarrow> 'p parcel \<Rightarrow> SatelliteCallInfo \<Rightarrow> CLIRMode \<Rightarrow> errcode \<times> (int \<times> 'p) option" where
  "Dial_satproxy e P callInfo md =
     transact TELEPHONY_ERR_LOCAL_PTR_NULL e P
       (or_fail TELEPHONY_ERR_WRITE_DESCRIPTOR_TOKEN_FAIL (WriteInterfaceToken P SatelliteCall_descriptor)
         (or_fail TELEPHONY_ERR_WRITE_DATA_FAIL (WriteRawData P (BSatelliteCallInfo callInfo))
           (or_fail TELEPHONY_ERR_WRITE_DATA_FAIL (wr P (AClirMode md)) (State_Monad.return (Inr SATELLITE_DIAL_code)))))"

definition HangUp_satproxy ::
    "('p, 'x) ipc_env_scheme \<Rightarrow> 'p parcel \<Rightarrow> int \<Rightarrow> int \<Rightarrow> errcode \<times> (int \<times> 'p) option" where
  "HangUp_satproxy e P slot idx =
     transact TELEPHONY_ERR_LOCAL_PTR_NULL e P
       (or_fail TELEPHONY_ERR_WRITE_DESCRIPTOR_TOKEN_FAIL (WriteInterfaceToken P SatelliteCall_descriptor)
         (or_fail TELEPHONY_ERR_WRITE_DATA_FAIL (WriteInt32 P slot)
           (or_fail TELEPHONY_ERR_WRITE_DATA_FAIL (WriteInt32 P idx) (State_Monad.return (Inr SATELLITE_HANG_UP_code)))))"

definition Reject_satproxy :: "('p, 'x) ipc_env_scheme \<Rightarrow> 'p parcel \<Rightarrow> int \<Rightarrow> errcode \<times> (int \<times> 'p) option" where
  "Reject_satproxy e P slot =
     transact TELEPHONY_ERR_LOCAL_PTR_NULL e P
       (or_fail TELEPHONY_ERR_WRITE_DESCRIPTOR_TOKEN_FAIL (WriteInterfaceToken P SatelliteCall_descriptor)
         (or_fail TELEPHONY_ERR_WRITE_DATA_FAIL (WriteInt32 P slot) (State_Monad.return (Inr SATELLITE_REJECT_code))))"

definition Answer_satproxy :: "('p, 'x) ipc_env_scheme \<Rightarrow> 'p parcel \<Rightarrow> int \<Rightarrow> errcode \<times> (int \<times> 'p) option" where
  "Answer_satproxy e P slot =
     transact TELEPHONY_ERR_LOCAL_PTR_NULL e P
       (or_fail TELEPHONY_ERR_WRITE_DESCRIPTOR_TOKEN_FAIL (WriteInterfaceToken P SatelliteCall_descriptor)
         (or_fail TELEPHONY_ERR_WRITE_DATA_FAIL (WriteInt32 P slot) (State_Monad.return (Inr SATELLITE_ANSWER_code))))"

definition GetSatelliteCallsDataRequest_satproxy ::
    "('p, 'x) ipc_env_scheme \<Rightarrow> 'p parcel \<Rightarrow> int \<Rightarrow> errcode \<times> (int \<times> 'p) option" where
  "GetSatelliteCallsDataRequest_satproxy e P slot =
     SendRequest_sat_slot e P slot (WriteCommonInfo_sat P slot (State_Monad.return (Inr SATELLITE_GET_CALL_DATA_code)))"

definition RegisterSatelliteCallCallback_satproxy ::
    "('p, 'x) ipc_env_scheme \<Rightarrow> 'p parcel \<Rightarrow> nat option \<Rightarrow> errcode \<times> (int \<times> 'p) option" where
  "RegisterSatelliteCallCallback_satproxy e P callback =
     (case callback of
        None \<Rightarrow> (TELEPHONY_ERR_ARGUMENT_INVALID, None)
      | Some obj \<Rightarrow>
          SendRequest_sat e P
            (or_fail TELEPHONY_ERR_WRITE_DESCRIPTOR_TOKEN_FAIL (WriteInterfaceToken P SatelliteCall_descriptor)
              (or_fail TELEPHONY_ERR_WRITE_DATA_FAIL (wr P (RemoteObject obj))
                (State_Monad.return (Inr SATELLITE_CALL_REGISTER_CALLBACK_code)))))"

text \<open>The flag of the last list, which the connection passes on, ends here.\<close>

fun sat_request_proxy :: "('p, 'x) ipc_env_scheme \<Rightarrow> 'p parcel \<Rightarrow> sat_req \<Rightarrow> errcode \<times> (int \<times> 'p) option" where
  "sat_request_proxy e P (SatDial callInfo md) = Dial_satproxy e P callInfo md"
| "sat_request_proxy e P (SatHangUp slot idx) = HangUp_satproxy e P slot idx"
| "sat_request_proxy e P (SatAnswer slot) = Answer_satproxy e P slot"
| "sat_request_proxy e P (SatReject slot) = Reject_satproxy e P slot"
| "sat_request_proxy e P (SatGetCallsData slot lastFlag) = GetSatelliteCallsDataRequest_satproxy e P slot"

end
