(* ===== verification/SatClient.thy ===== *)
theory SatClient
  imports SatIpc ServiceClient Service
begin

text \<open>
  The client of the satellite service: \<^verbatim>\<open>SatelliteCallClient\<close>
  (\<^verbatim>\<open>services/satellite_service_interaction/src/satellite_call_client.cpp\<close>), and what it does with the service's calls when
  the satellite service dies. The list of death recipients is the remote object's and is left out; \<open>dc_recipient\<close> says
  whether the client has one stored.
\<close>

section \<open>The connection\<close>

record 'h SatelliteCallClient =
  dc_service :: bool
  dc_call :: bool
  dc_callback :: bool
  dc_recipient :: bool
  dc_handlers :: "'h option omap"

record 'p sat_client_env = "'p ipc_env" +
  es_samgr :: bool
  es_ability :: bool
  es_isProxy :: bool
  es_addRecipient :: bool
  es_serviceCast :: bool
  es_callObject :: bool
  es_callCast :: bool
  es_callbackObject :: nat
  es_serviceObject :: "nat option"

definition RegisterSatelliteCallCallback_client ::
    "('p, 'x) sat_client_env_scheme \<Rightarrow> 'p parcel \<Rightarrow> 'h SatelliteCallClient \<Rightarrow> errcode \<times> 'h SatelliteCallClient \<times> (int \<times> 'p) list" where
  "RegisterSatelliteCallCallback_client e P c =
     (if \<not> dc_call c then (TELEPHONY_ERR_LOCAL_PTR_NULL, c, [])
      else
        let c' = c\<lparr>dc_callback := True\<rparr>;
            res = RegisterSatelliteCallCallback_satproxy e P (Some (es_callbackObject e)) in
        (if fst res \<noteq> TELEPHONY_SUCCESS then TELEPHONY_ERR_FAIL else TELEPHONY_SUCCESS, c', sent res))"

definition GetSatelliteCallProxy ::
    "('p, 'x) sat_client_env_scheme \<Rightarrow> 'p parcel \<Rightarrow> 'h SatelliteCallClient \<Rightarrow> bool \<times> 'h SatelliteCallClient \<times> (int \<times> 'p) list" where
  "GetSatelliteCallProxy e P c =
     (if dc_call c then (True, c, [])
      else if \<not> es_samgr e then (False, c, [])
      else if \<not> es_ability e then (False, c, [])
      else if es_isProxy e \<and> \<not> es_addRecipient e then (False, c, [])
      else
        let c1 = c\<lparr>dc_service := es_serviceCast e\<rparr> in
        if \<not> dc_service c1 then (False, c1, [])
        else if \<not> es_callObject e then (False, c1, [])
        else
          let c2 = c1\<lparr>dc_call := es_callCast e, dc_recipient := True\<rparr>;
              (_, c3, ms) = RegisterSatelliteCallCallback_client e P c2 in (dc_call c3, c3, ms))"

definition IsConnect_sat :: "'h SatelliteCallClient \<Rightarrow> bool" where
  "IsConnect_sat c = dc_call c"

definition Init_sat ::
    "('p, 'x) sat_client_env_scheme \<Rightarrow> 'p parcel \<Rightarrow> 'h SatelliteCallClient \<Rightarrow> 'h SatelliteCallClient \<times> (int \<times> 'p) list" where
  "Init_sat e P c = (if IsConnect_sat c then (c, []) else snd (GetSatelliteCallProxy e P c))"

definition ReConnectService_sat ::
    "('p, 'x) sat_client_env_scheme \<Rightarrow> 'p parcel \<Rightarrow> 'h SatelliteCallClient \<Rightarrow> errcode \<times> 'h SatelliteCallClient \<times> (int \<times> 'p) list" where
  "ReConnectService_sat e P c =
     (if \<not> dc_call c then
        let (_, c', ms) = GetSatelliteCallProxy e P c in
        (if \<not> dc_call c' then TELEPHONY_ERR_IPC_CONNECT_STUB_FAIL else TELEPHONY_SUCCESS, c', ms)
      else (TELEPHONY_SUCCESS, c, []))"

text \<open>Unlike the IMS client it keeps the proxy of the service.\<close>

definition Clean_sat :: "'h SatelliteCallClient \<Rightarrow> 'h SatelliteCallClient" where
  "Clean_sat c = c\<lparr>dc_call := False, dc_callback := False\<rparr>"

definition UnInit_sat :: "'h SatelliteCallClient \<Rightarrow> 'h SatelliteCallClient" where
  "UnInit_sat c = (Clean_sat c)\<lparr>dc_handlers := []\<rparr>"

section \<open>The handlers of the slots\<close>

definition RegisterSatelliteCallCallbackHandler_client :: "int \<Rightarrow> 'h option \<Rightarrow> 'h SatelliteCallClient \<Rightarrow> errcode \<times> 'h SatelliteCallClient" where
  "RegisterSatelliteCallCallbackHandler_client slot handler c =
     (if handler = None then (TELEPHONY_ERR_LOCAL_PTR_NULL, c)
      else (TELEPHONY_SUCCESS, c\<lparr>dc_handlers := omap_insert slot handler (dc_handlers c)\<rparr>))"

definition GetHandler_sat :: "int \<Rightarrow> 'h SatelliteCallClient \<Rightarrow> 'h option \<times> 'h SatelliteCallClient" where
  "GetHandler_sat slot c =
     (case map_of (dc_handlers c) slot of
        Some handler \<Rightarrow> (handler, c)
      | None \<Rightarrow> (None, c\<lparr>dc_handlers := omap_insert slot None (dc_handlers c)\<rparr>))"

section \<open>The requests of the client\<close>

definition reconnected_sat ::
    "('p, 'x) sat_client_env_scheme \<Rightarrow> 'p parcel \<Rightarrow> 'h SatelliteCallClient \<Rightarrow> errcode \<times> (int \<times> 'p) option \<Rightarrow>
     errcode \<times> 'h SatelliteCallClient \<times> (int \<times> 'p) list" where
  "reconnected_sat e P c res =
     (let (ret, c', ms) = ReConnectService_sat e P c in
      if ret \<noteq> TELEPHONY_SUCCESS then (TELEPHONY_ERR_IPC_CONNECT_STUB_FAIL, c', ms) else (fst res, c', ms @ sent res))"

definition Dial_satclient ::
    "('p, 'x) sat_client_env_scheme \<Rightarrow> 'p parcel \<Rightarrow> 'h SatelliteCallClient \<Rightarrow> SatelliteCallInfo \<Rightarrow> CLIRMode \<Rightarrow>
     errcode \<times> 'h SatelliteCallClient \<times> (int \<times> 'p) list" where
  "Dial_satclient e P c callInfo md = reconnected_sat e P c (Dial_satproxy e P callInfo md)"

definition HangUp_satclient ::
    "('p, 'x) sat_client_env_scheme \<Rightarrow> 'p parcel \<Rightarrow> 'h SatelliteCallClient \<Rightarrow> int \<Rightarrow> int \<Rightarrow> errcode \<times> 'h SatelliteCallClient \<times> (int \<times> 'p) list" where
  "HangUp_satclient e P c slot idx = reconnected_sat e P c (HangUp_satproxy e P slot idx)"

definition Reject_satclient ::
    "('p, 'x) sat_client_env_scheme \<Rightarrow> 'p parcel \<Rightarrow> 'h SatelliteCallClient \<Rightarrow> int \<Rightarrow> errcode \<times> 'h SatelliteCallClient \<times> (int \<times> 'p) list" where
  "Reject_satclient e P c slot = reconnected_sat e P c (Reject_satproxy e P slot)"

definition Answer_satclient ::
    "('p, 'x) sat_client_env_scheme \<Rightarrow> 'p parcel \<Rightarrow> 'h SatelliteCallClient \<Rightarrow> int \<Rightarrow> errcode \<times> 'h SatelliteCallClient \<times> (int \<times> 'p) list" where
  "Answer_satclient e P c slot = reconnected_sat e P c (Answer_satproxy e P slot)"

definition GetSatelliteCallsDataRequest_satclient ::
    "('p, 'x) sat_client_env_scheme \<Rightarrow> 'p parcel \<Rightarrow> 'h SatelliteCallClient \<Rightarrow> int \<Rightarrow> int \<Rightarrow>
     errcode \<times> 'h SatelliteCallClient \<times> (int \<times> 'p) list" where
  "GetSatelliteCallsDataRequest_satclient e P c slot lastCallsDataFlag =
     reconnected_sat e P c (GetSatelliteCallsDataRequest_satproxy e P slot)"

fun sat_request_client ::
    "('p, 'x) sat_client_env_scheme \<Rightarrow> 'p parcel \<Rightarrow> 'h SatelliteCallClient \<Rightarrow> sat_req \<Rightarrow> errcode \<times> 'h SatelliteCallClient \<times> (int \<times> 'p) list" where
  "sat_request_client e P c (SatDial callInfo md) = Dial_satclient e P c callInfo md"
| "sat_request_client e P c (SatHangUp slot idx) = HangUp_satclient e P c slot idx"
| "sat_request_client e P c (SatAnswer slot) = Answer_satclient e P c slot"
| "sat_request_client e P c (SatReject slot) = Reject_satclient e P c slot"
| "sat_request_client e P c (SatGetCallsData slot lastFlag) = GetSatelliteCallsDataRequest_satclient e P c slot lastFlag"

section \<open>The death of the satellite service\<close>

definition RemoveDeathRecipient_sat ::
    "('p, 'x) sat_client_env_scheme \<Rightarrow> nat option \<Rightarrow> 'h SatelliteCallClient \<Rightarrow> 'h SatelliteCallClient" where
  "RemoveDeathRecipient_sat e remote c =
     (if remote = None then c
      else if \<not> dc_service c then c
      else if es_serviceObject e = None then c
      else if es_serviceObject e \<noteq> remote then c
      else c\<lparr>dc_service := False, dc_call := False\<rparr>)"

text \<open>\<open>CellularCallService\<close> keeps the controls; each control reports its calls as ended and forgets them.\<close>

fun clear_satellite_calls ::
    "'x service_env_scheme \<Rightarrow> int list \<Rightarrow> CellularCallService \<Rightarrow> CellularCallService \<times> act list" where
  "clear_satellite_calls e [] s = (s, [])"
| "clear_satellite_calls e (slot # slots) s =
     (case GetSatelliteControl e slot s of
        None \<Rightarrow> clear_satellite_calls e slots s
      | Some ctl \<Rightarrow>
          let (_, ctl', acts) = ReportHangUpInfo_sat e slot ctl;
              (s', acts') = clear_satellite_calls e slots
                (s\<lparr>satelliteControlMap := (satelliteControlMap s)(slot \<mapsto> ctl')\<rparr>)
          in (s', acts @ acts'))"

definition ClearAllCallsInfo ::
    "'x service_env_scheme \<Rightarrow> CellularCallService option \<Rightarrow> CellularCallService option \<times> act list" where
  "ClearAllCallsInfo e serviceInstance =
     (case serviceInstance of
        None \<Rightarrow> (None, [])
      | Some s \<Rightarrow> let (s', acts) = clear_satellite_calls e [DEFAULT_SIM_SLOT_ID..e_slotCount e - 1] s in (Some s', acts))"

definition OnRemoteDied_sat ::
    "('p, 'x) sat_client_env_scheme \<Rightarrow> 'y service_env_scheme \<Rightarrow> nat option \<Rightarrow> 'h SatelliteCallClient \<Rightarrow> CellularCallService option \<Rightarrow>
     'h SatelliteCallClient \<times> CellularCallService option \<times> act list" where
  "OnRemoteDied_sat e se remote c serviceInstance =
     (let c' = RemoveDeathRecipient_sat e remote c; (s', acts) = ClearAllCallsInfo se serviceInstance in (c', s', acts))"

section \<open>The client as a service client\<close>

definition sat_reachable :: "('p, 'x) sat_client_env_scheme \<Rightarrow> bool" where
  "sat_reachable e \<longleftrightarrow> es_samgr e \<and> es_ability e \<and> (es_isProxy e \<longrightarrow> es_addRecipient e) \<and> es_serviceCast e \<and>
     es_callObject e \<and> es_callCast e"

definition sat_registration :: "('p, 'x) sat_client_env_scheme \<Rightarrow> 'p parcel \<Rightarrow> (int \<times> 'p) list" where
  "sat_registration e P = sent (RegisterSatelliteCallCallback_satproxy e P (Some (es_callbackObject e)))"

lemmas sat_connection_defs = ReConnectService_sat_def GetSatelliteCallProxy_def RegisterSatelliteCallCallback_client_def

lemma sat_reconnect_connected: "dc_call c \<Longrightarrow> ReConnectService_sat e P c = (TELEPHONY_SUCCESS, c, [])"
  by (simp add: ReConnectService_sat_def)

lemma sat_reconnect_reachable:
  "\<not> dc_call c \<Longrightarrow> sat_reachable e \<Longrightarrow> ReConnectService_sat e P c =
     (TELEPHONY_SUCCESS, c\<lparr>dc_service := True, dc_call := True, dc_callback := True, dc_recipient := True\<rparr>,
      sat_registration e P)"
  by (auto simp: sat_connection_defs sat_reachable_def sat_registration_def Let_def)

lemma sat_reconnect_unreachable:
  "\<not> dc_call c \<Longrightarrow> \<not> sat_reachable e \<Longrightarrow> \<exists>c'. ReConnectService_sat e P c =
     (TELEPHONY_ERR_IPC_CONNECT_STUB_FAIL, c', []) \<and> \<not> dc_call c' \<and> dc_handlers c' = dc_handlers c"
  by (auto simp: sat_connection_defs sat_reachable_def Let_def)

lemma sat_reconnect_cases:
  obtains "dc_call c" "ReConnectService_sat e P c = (TELEPHONY_SUCCESS, c, [])"
  | "\<not> dc_call c" "sat_reachable e" "ReConnectService_sat e P c =
       (TELEPHONY_SUCCESS, c\<lparr>dc_service := True, dc_call := True, dc_callback := True, dc_recipient := True\<rparr>,
        sat_registration e P)"
  | c' where "\<not> dc_call c" "\<not> sat_reachable e" "ReConnectService_sat e P c = (TELEPHONY_ERR_IPC_CONNECT_STUB_FAIL, c', [])"
      "\<not> dc_call c'" "dc_handlers c' = dc_handlers c"
  using sat_reconnect_connected sat_reconnect_reachable sat_reconnect_unreachable by metis

lemma sat_client_is_reconnected: "sat_request_client e P c q = reconnected_sat e P c (sat_request_proxy e P q)"
  by (cases q)
    (simp_all add: Dial_satclient_def HangUp_satclient_def Reject_satclient_def Answer_satclient_def
      GetSatelliteCallsDataRequest_satclient_def)

interpretation sat: service_client dc_call "ReConnectService_sat e P" "sat_request_proxy e P" "sat_request_client e P"
proof unfold_locales
  fix c r c' ms q
  assume "ReConnectService_sat e P c = (r, c', ms)"
  then show "sat_request_client e P c q =
      (if r = TELEPHONY_SUCCESS then (fst (sat_request_proxy e P q), c', ms @ sent (sat_request_proxy e P q))
       else (TELEPHONY_ERR_IPC_CONNECT_STUB_FAIL, c', ms))"
    by (simp add: sat_client_is_reconnected reconnected_sat_def)
next
  fix c r c' ms
  assume c: "ReConnectService_sat e P c = (r, c', ms)"
  show "r = TELEPHONY_SUCCESS \<longleftrightarrow> dc_call c'"
    by (rule sat_reconnect_cases [of c e P]) (use c in auto)
  show "ms = []" if "\<not> dc_call c'"
    by (rule sat_reconnect_cases [of c e P]) (use c that in auto)
qed (rule sat_reconnect_connected)

end
