(* ===== verification/SatProps.thy ===== *)
theory SatProps
  imports SatClient ImsClientProps ServiceProps
begin

text \<open>
  The satellite service from end to end: its callbacks are performed as they were made, and its death ends its calls.
\<close>

section \<open>Callbacks\<close>

lemmas sat_map = requestFuncMap_sat_def

lemmas sat_common_parts = WriteCommonInfo_satcb_def WriteCommonInfo_satcb_info_def read_sat_response_def

definition sat_reads :: "'p parcel \<Rightarrow> ('p \<Rightarrow> item list) \<Rightarrow> sat_callback \<Rightarrow> sat_callback decoded \<Rightarrow> bool" where
  "sat_reads P C cb x \<longleftrightarrow>
     wp P C (sat_proxy P cb) [] (\<lambda>v k. case v of
       Inl _ \<Rightarrow> True
     | Inr code \<Rightarrow> \<exists>f k'. k = Token SatelliteCallCallback_descriptor # k' \<and> requestFuncMap_sat P code = Some f \<and>
         wp P C f k' (\<lambda>d _. d = x))"

lemma sat_stub_runs:
  assumes laws: "parcel_laws P C" and k: "C inp = Token SatelliteCallCallback_descriptor # k"
    and f: "requestFuncMap_sat P code = Some f" and run: "wp P C f k (\<lambda>d _. d = x)"
  shows "fst (run_state (OnRemoteRequest_sat P e code) inp) =
    (case x of Refuse r \<Rightarrow> (r, None, []) | Ignore \<Rightarrow> (TELEPHONY_SUCCESS, Some TELEPHONY_SUCCESS, [])
     | Call cb \<Rightarrow> let (r, acts) = perform_sat e cb in (TELEPHONY_SUCCESS, Some r, acts))"
proof -
  have "wp P C (OnRemoteRequest_sat P e code) (C inp) (\<lambda>v _. v =
    (case x of Refuse r \<Rightarrow> (r, None, []) | Ignore \<Rightarrow> (TELEPHONY_SUCCESS, Some TELEPHONY_SUCCESS, [])
     | Call cb \<Rightarrow> let (r, acts) = perform_sat e cb in (TELEPHONY_SUCCESS, Some r, acts)))"
    unfolding OnRemoteRequest_sat_def k
    by (rule wp_rules | simp add: f)+ (rule wp_mono [OF run], simp add: wp_return)
  then show ?thesis using laws by (simp add: wp_def)
qed

lemma sat_read_by_stub:
  assumes "parcel_laws P C" "sat_reads P C cb x" "SendResponseInfo_sat ie P (sat_proxy P cb) = (r, Some (code, inp))"
  shows "fst (run_state (OnRemoteRequest_sat P e code) inp) =
    (case x of Refuse r \<Rightarrow> (r, None, []) | Ignore \<Rightarrow> (TELEPHONY_SUCCESS, Some TELEPHONY_SUCCESS, [])
     | Call cb \<Rightarrow> let (r, acts) = perform_sat e cb in (TELEPHONY_SUCCESS, Some r, acts))"
proof -
  have new: "C (new P) = []" using assms(1) by (simp add: parcel_laws_def)
  from wpD [OF assms(2) [unfolded sat_reads_def] assms(1) new transact_sends [OF assms(3) [unfolded SendResponseInfo_sat_def]]]
  show ?thesis using sat_stub_runs [OF assms(1)] by fastforce
qed

lemma sat_response_arrives: "sat_reads P C (SatResponse m slot info) (Call (SatResponse m slot info))"
  by (cases m)
    (auto simp: sat_reads_def DialSatelliteResponse_proxy_def HangUpSatelliteResponse_proxy_def
      RejectSatelliteResponse_proxy_def AnswerSatelliteResponse_proxy_def GetSatelliteCallsDataResponse_proxy_def
      OnDialResponseInner_sat_def OnHangUpResponseInner_sat_def OnRejectResponseInner_sat_def OnAnswerResponseInner_sat_def
      OnGetSatelliteCallsDataResponseInner_def sat_common_parts sat_map intro!: wp_rules)

lemma sat_state_arrives: "sat_reads P C (SatStateChange slot) (Call (SatStateChange slot))"
  by (auto simp: sat_reads_def CallStateChangeReport_satproxy_def OnCallStateChangeReportInner_sat_def sat_common_parts sat_map
      intro!: wp_rules)

lemma wp_read_sat_call: "Q c k \<Longrightarrow> wp P C (read_sat_call P) (sat_call_items c @ k) Q"
  by (cases c) (auto simp: read_sat_call_def sat_call_items_def intro!: wp_rules)

lemma wp_read_sat_calls:
  "n = length xs \<Longrightarrow> Q xs [] \<Longrightarrow> wp P C (read_n n (read_sat_call P)) (concat (map sat_call_items xs)) Q"
  using wp_read_n [of P C "read_sat_call P" sat_call_items Q xs "[]"] wp_read_sat_call by (metis append_Nil2)

abbreviation sat_list :: "int \<Rightarrow> SatelliteCurrentCallList \<Rightarrow> item list" where
  "sat_list slot l \<equiv> Int32 slot # Int32 slot # Int32 (t_callSize l) # Int32 (t_flag l) # Int32 (int (length (t_calls l))) #
     concat (map sat_call_items (t_calls l))"

lemma sat_list_proxy:
  assumes "wp P C (OnGetSatelliteCallsDataResponseInner P) (sat_list slot l) (\<lambda>d _. d = x)"
  shows "sat_reads P C (SatCallsData slot l) x"
  unfolding sat_reads_def sat_proxy.simps GetSatelliteCallsDataResponse_list_proxy_def WriteCommonInfo_satcb_def
  by (rule wp_rules | simp add: sat_map assms)+

lemma sat_list_arrives:
  assumes "failed_block_skips P C" "length (t_calls l) \<le> 10"
  shows "sat_reads P C (SatCallsData slot l) (Call (SatCallsData slot l))"
proof (rule sat_list_proxy)
  show "wp P C (OnGetSatelliteCallsDataResponseInner P) (sat_list slot l) (\<lambda>d _. d = Call (SatCallsData slot l))"
    unfolding OnGetSatelliteCallsDataResponseInner_def
    by (rule wp_rules wp_no_block_skips [OF assms(1)] wp_read_sat_calls | simp add: MAX_SIZE_sat_def leD [OF assms(2)])+
qed

lemma sat_list_shifted:
  assumes "failed_block_keeps P C" "t_flag l = 0"
  shows "sat_reads P C (SatCallsData slot l) (Call (SatCallsData slot \<lparr>t_callSize = slot, t_flag = t_callSize l, t_calls = []\<rparr>))"
proof (rule sat_list_proxy)
  show "wp P C (OnGetSatelliteCallsDataResponseInner P) (sat_list slot l)
      (\<lambda>d _. d = Call (SatCallsData slot \<lparr>t_callSize = slot, t_flag = t_callSize l, t_calls = []\<rparr>))"
    unfolding OnGetSatelliteCallsDataResponseInner_def
    by (rule wp_rules wp_no_block_keeps [OF assms(1)] | simp add: MAX_SIZE_sat_def assms(2) read_n_def)+
qed

text \<open>The callbacks of the satellite service. Answers and changes of state are performed by the stub as they were made. A
  list of at most ten calls is performed as it was made if a failed read of a block takes an item from the parcel, which
  is why the slot is written twice; if it takes none, the list is read one item off, and with the flag 0 its calls are lost. The
  lists of the IMS service need the opposite.\<close>

theorem sat_callbacks_delivered:
  assumes "parcel_laws P C" "SendResponseInfo_sat ie P (sat_proxy P cb) = (r, Some (code, inp))"
  shows "((\<forall>slot l. cb = SatCallsData slot l \<longrightarrow> failed_block_skips P C \<and> length (t_calls l) \<le> 10) \<longrightarrow>
      fst (run_state (OnRemoteRequest_sat P e code) inp) =
        (TELEPHONY_SUCCESS, Some (fst (perform_sat e cb)), snd (perform_sat e cb))) \<and>
    (\<forall>slot l. cb = SatCallsData slot l \<and> failed_block_keeps P C \<and> t_flag l = 0 \<longrightarrow>
      (let cb' = SatCallsData slot \<lparr>t_callSize = slot, t_flag = t_callSize l, t_calls = []\<rparr> in
       fst (run_state (OnRemoteRequest_sat P e code) inp) =
         (TELEPHONY_SUCCESS, Some (fst (perform_sat e cb')), snd (perform_sat e cb'))))"
proof (intro conjI allI impI)
  assume lists: "\<forall>slot l. cb = SatCallsData slot l \<longrightarrow> failed_block_skips P C \<and> length (t_calls l) \<le> 10"
  have "sat_reads P C cb (Call cb)"
    using lists by (cases cb) (simp_all add: sat_response_arrives sat_state_arrives sat_list_arrives)
  from sat_read_by_stub [OF assms(1) this assms(2)]
  show "fst (run_state (OnRemoteRequest_sat P e code) inp) =
      (TELEPHONY_SUCCESS, Some (fst (perform_sat e cb)), snd (perform_sat e cb))" by (simp add: case_prod_beta)
next
  fix slot l
  assume l: "cb = SatCallsData slot l \<and> failed_block_keeps P C \<and> t_flag l = 0"
  with sat_read_by_stub [OF assms(1) _ assms(2)] sat_list_shifted [of P C l slot]
  show "let cb' = SatCallsData slot \<lparr>t_callSize = slot, t_flag = t_callSize l, t_calls = []\<rparr> in
      fst (run_state (OnRemoteRequest_sat P e code) inp) =
        (TELEPHONY_SUCCESS, Some (fst (perform_sat e cb')), snd (perform_sat e cb'))"
    by (fastforce simp: case_prod_beta)
qed

definition sample_sat_cb_env :: sat_cb_env where
  "sample_sat_cb_env = \<lparr>e_satHandler = (\<lambda>_. True), e_sendSatEvent = (\<lambda>_. True), e_defaultRequest_sat = (\<lambda>_. TELEPHONY_ERROR)\<rparr>"

theorem sat_callbacks_delivered_witness:
  "\<exists>code inp. fst (run_state (OnRemoteRequest_sat (list_parcel True) sample_sat_cb_env code) inp) =
     (TELEPHONY_SUCCESS, Some TELEPHONY_SUCCESS, [(0, \<lparr>se_id = ''SATELLITE_RADIO_GET_CALL_DATA'',
        se_object = SatObjCalls \<lparr>t_callSize = 1, t_flag = 0, t_calls = [sample_sat_call 1 CALL_STATUS_INCOMING]\<rparr>\<rparr>)])"
proof -
  let ?cb = "SatCallsData 0 \<lparr>t_callSize = 1, t_flag = 0, t_calls = [sample_sat_call 1 CALL_STATUS_INCOMING]\<rparr>"
  obtain code inp where s: "SendResponseInfo_sat sample_ipc (list_parcel True) (sat_proxy (list_parcel True) ?cb) =
      (TELEPHONY_SUCCESS, Some (code, inp))"
    by (simp add: SendResponseInfo_sat_def transact_def sample_ipc_def GetSatelliteCallsDataResponse_list_proxy_def
        WriteCommonInfo_satcb_def or_fail_def sat_call_items_def list_parcel_def)
  have "fst (run_state (OnRemoteRequest_sat (list_parcel True) sample_sat_cb_env code) inp) =
      (TELEPHONY_SUCCESS, Some (fst (perform_sat sample_sat_cb_env ?cb)), snd (perform_sat sample_sat_cb_env ?cb))"
    using sat_callbacks_delivered [OF list_parcel_laws s, of sample_sat_cb_env, THEN conjunct1] list_parcel_skips by simp
  then show ?thesis
    by (auto simp: GetSatelliteCallsDataResponse_cb_def send_sat_event_def sample_sat_cb_env_def)
qed

section \<open>The death of the satellite service\<close>

definition sat_ended :: "'x svc_env_scheme \<Rightarrow> int \<Rightarrow> SatelliteControl \<Rightarrow> CallReportInfo list" where
  "sat_ended e slot ctl =
     (if satConnectionMap ctl = [] then [(e_defaultReport e)\<lparr>r_state := CALL_STATUS_DISCONNECTED, r_accountId := slot\<rparr>]
      else map (\<lambda>(k, c). (callReportInfo c)\<lparr>r_state := CALL_STATUS_DISCONNECTED, r_accountId := slot\<rparr>)
             (satConnectionMap ctl))"

definition sat_forgotten :: "SatelliteControl \<Rightarrow> SatelliteControl" where
  "sat_forgotten ctl = ctl\<lparr>isIgnoredIncomingCall := False, satConnectionMap := []\<rparr>"

lemma ReportHangUpInfo_sat_effect:
  assumes "e_register e"
  shows "ReportHangUpInfo_sat e slot ctl =
    (TELEPHONY_SUCCESS, sat_forgotten ctl,
     if isIgnoredIncomingCall ctl then [] else [ReportCallsInfo \<lparr>callVec = sat_ended e slot ctl, cr_slotId = slot\<rparr>])"
  using assms by (simp add: ReportHangUpInfo_sat_def sat_ended_def sat_forgotten_def Let_def)

text \<open>What a slot reports, and what becomes of the controls of some slots.\<close>

definition sat_death_report :: "'x svc_env_scheme \<Rightarrow> (int \<rightharpoonup> SatelliteControl) \<Rightarrow> int \<Rightarrow> act list" where
  "sat_death_report e m k =
     (case m k of
        None \<Rightarrow> []
      | Some ctl \<Rightarrow> if isIgnoredIncomingCall ctl then [] else [ReportCallsInfo \<lparr>callVec = sat_ended e k ctl, cr_slotId = k\<rparr>])"

definition sat_forgets :: "int list \<Rightarrow> (int \<rightharpoonup> SatelliteControl) \<Rightarrow> (int \<rightharpoonup> SatelliteControl)" where
  "sat_forgets slots m = (\<lambda>k. if k \<in> set slots then map_option sat_forgotten (m k) else m k)"

lemma sat_forgets_Cons:
  "m k = None \<Longrightarrow> sat_forgets (k # slots) m = sat_forgets slots m"
  "m k = Some ctl \<Longrightarrow> k \<notin> set slots \<Longrightarrow> sat_forgets (k # slots) m = sat_forgets slots (m(k \<mapsto> sat_forgotten ctl))"
  by (auto simp: sat_forgets_def fun_eq_iff)

lemma clear_satellite_calls_effect:
  assumes "e_register e" "distinct slots"
  shows "clear_satellite_calls e slots s =
    (s\<lparr>satelliteControlMap := sat_forgets slots (satelliteControlMap s)\<rparr>,
     concat (map (sat_death_report e (satelliteControlMap s)) slots))"
  using assms(2)
proof (induction slots arbitrary: s)
  case (Cons k slots)
  have same: "map (sat_death_report e ((satelliteControlMap s)(k \<mapsto> x))) slots = map (sat_death_report e (satelliteControlMap s)) slots" for x
    using Cons.prems by (intro map_cong) (auto simp: sat_death_report_def)
  show ?case
  proof (cases "satelliteControlMap s k")
    case None
    with Cons show ?thesis by (simp add: GetSatelliteControl_def sat_forgets_Cons sat_death_report_def)
  next
    case (Some x)
    then have "sat_death_report e (satelliteControlMap s) k =
        (if isIgnoredIncomingCall x then [] else [ReportCallsInfo \<lparr>callVec = sat_ended e k x, cr_slotId = k\<rparr>])"
      by (simp add: sat_death_report_def)
    with Some Cons show ?thesis
      by (simp add: GetSatelliteControl_def ReportHangUpInfo_sat_effect [OF assms(1)] sat_forgets_Cons same del: map_eq_conv)
  qed
qed (simp add: sat_forgets_def)

text \<open>C32: the death of the satellite service ends its calls. The client drops the connection; for every slot with a satellite
  control, whose incoming call is not being ignored, one report goes up in which every call of the control is disconnected; a control without
  calls reports one call that never was. The controls stay, without calls; the other controls are not touched. The
  next request connects anew, registers the callback and is sent.\<close>

theorem sat_service_dies:
  assumes "e_register se" "dc_service c" "es_serviceObject e = Some obj" "sat_reachable e"
    "OnRemoteDied_sat e se (Some obj) c (Some s) = (c', s', acts)"
  shows "\<not> dc_call c' \<and>
    acts = concat (map (sat_death_report se (satelliteControlMap s)) [0..e_slotCount se - 1]) \<and>
    (\<exists>s1. s' = Some s1 \<and> csControlMap s1 = csControlMap s \<and> imsControlMap s1 = imsControlMap s \<and>
      (\<forall>k. 0 \<le> k \<and> k < e_slotCount se \<longrightarrow>
         map_option satConnectionMap (satelliteControlMap s1 k) = map_option (\<lambda>_. []) (satelliteControlMap s k))) \<and>
    sat_request_client e P c' q =
      (fst (sat_request_proxy e P q),
       c'\<lparr>dc_service := True, dc_call := True, dc_callback := True, dc_recipient := True\<rparr>,
       sat_registration e P @ sent (sat_request_proxy e P q))"
proof -
  have c': "c' = c\<lparr>dc_service := False, dc_call := False\<rparr>" and s': "ClearAllCallsInfo se (Some s) = (s', acts)"
    using assms(2,3,5) by (auto simp: OnRemoteDied_sat_def RemoveDeathRecipient_sat_def Let_def split: prod.splits)
  from c' have r: "ReConnectService_sat e P c' =
      (TELEPHONY_SUCCESS, c'\<lparr>dc_service := True, dc_call := True, dc_callback := True, dc_recipient := True\<rparr>, sat_registration e P)"
    by (intro sat_reconnect_reachable assms(4)) simp
  show ?thesis
    using c' s' sat.call_after_connect [OF r, of q]
    by (auto simp: ClearAllCallsInfo_def DEFAULT_SIM_SLOT_ID_def clear_satellite_calls_effect [OF assms(1)]
        sat_forgets_def sat_forgotten_def option.map_comp comp_def)
qed

definition sample_sat_client_env :: "item list sat_client_env" where
  "sample_sat_client_env = ipc_env.extend sample_ipc
     (sat_client_env.fields True True True True True True True 7 (Some 3))"

theorem sat_service_dies_witness:
  "\<exists>c' s' acts. OnRemoteDied_sat sample_sat_client_env sample_service_env (Some 3)
       \<lparr>dc_service = True, dc_call = True, dc_callback = True, dc_recipient = True, dc_handlers = [(0, Some (1::nat))]\<rparr>
       (Some (sample_service\<lparr>satelliteControlMap := [0 \<mapsto> sample_sat_ctl]\<rparr>)) = (c', s', acts) \<and>
     acts = [ReportCallsInfo \<lparr>callVec = sat_ended sample_service_env 0 sample_sat_ctl, cr_slotId = 0\<rparr>]"
proof -
  let ?c = "\<lparr>dc_service = True, dc_call = True, dc_callback = True, dc_recipient = True, dc_handlers = [(0, Some (1::nat))]\<rparr>"
  let ?s = "sample_service\<lparr>satelliteControlMap := [0 \<mapsto> sample_sat_ctl]\<rparr>"
  obtain c' s' acts where d: "OnRemoteDied_sat sample_sat_client_env sample_service_env (Some 3) ?c (Some ?s) = (c', s', acts)"
    by (rule prod_cases3)
  have e: "es_serviceObject sample_sat_client_env = Some 3" "sat_reachable sample_sat_client_env"
    by (simp_all add: sample_sat_client_env_def sat_reachable_def ipc_env.defs sat_client_env.defs)
  have "[0..1 :: int] = [0, 1]" by (simp add: upto.simps)
  with sat_service_dies [OF _ _ e d, THEN conjunct2, THEN conjunct1]
  have "acts = [ReportCallsInfo \<lparr>callVec = sat_ended sample_service_env 0 sample_sat_ctl, cr_slotId = 0\<rparr>]"
    by (simp add: sample_sat_ctl_def SatelliteControl_init_def sat_death_report_def)
  with d show ?thesis by blast
qed

end
