(* ===== verification/CallStub.thy ===== *)
theory CallStub
  imports Parcel Emergency
begin

text \<open>
  The stub of the service, \<^verbatim>\<open>services/manager/src/cellular_call_stub.cpp\<close>: the messages of the call
  manager. A method \<open>On\<dots>Inner\<close> reads the arguments of its message, calls a virtual method of the service
  and writes the result into the reply. The virtual methods are a record \<open>V\<close>; \<open>CallStubProps\<close> takes the
  service's for it. They are grouped by what they take and give: a call and a result code; a slot and a result code; a slot and an
  out-parameter.

  The interface of the service with its descriptor and its codes belongs to another repository, and so do the caller's identity, its permission and the
  default of the IPC library: \<open>e_codeName\<close> gives the name of a code's enumerator. A local variable that the source does not
  initialise starts with a value of the environment. The build is the one with \<^verbatim>\<open>SUPPORT_RTT_CALL\<close>.
\<close>

record stub_env =
  e_descriptor :: string
  e_codeName :: "int \<Rightarrow> string"
  e_callingUid :: int
  e_hasPermission :: bool
  e_defaultReply :: "int \<Rightarrow> errcode"
  e_createSurface :: "nat \<Rightarrow> nat option"
  e_garbageBool :: bool
  e_garbageInt :: int

section \<open>The virtual methods\<close>

datatype call_op =
    OpDial | OpHangUp CallSupplementType | OpReject | OpAnswer | OpHoldCall | OpUnHoldCall | OpSwitchCall
  | OpCombineConference | OpSeparateConference | OpKickOutFromConference | OpStartDtmf char | OpStopDtmf | OpSendDtmf char
  | OpPostDialProceed bool | OpSendUpdateCallMediaModeRequest int | OpSendUpdateCallMediaModeResponse int

datatype ss_op =
    OpSetCallTransferInfo CallTransferInfo | OpGetCallTransferInfo int bool | OpSetCallWaiting bool | OpGetCallWaiting
  | OpSetCallRestriction CallRestrictionInfo | OpGetCallRestriction CallRestrictionType
  | OpSetCallRestrictionPassword CallRestrictionType string string | OpCloseUnFinishedUssd | OpSendUssdResponse string

datatype config_op =
    OpSetDomainPreferenceMode int | OpGetDomainPreferenceMode | OpSetImsSwitchStatus bool | OpSetVoNRState int
  | OpSetImsConfigString int string | OpSetImsConfigInt int int | OpGetImsConfig int | OpSetImsFeatureValue int int
  | OpGetImsFeatureValue int | OpSetMute int | OpGetMute | OpSetEmergencyCallList "EmergencyCall list" | OpSetRttCapability bool

datatype video_op =
    OpCancelCallUpgrade int | OpRequestCameraCapabilities int | OpControlCamera int string
  | OpSetPreviewWindow int string "nat option" | OpSetDisplayWindow int string "nat option" | OpSetPausePicture int string
  | OpSetDeviceDirection int int

datatype slot_op =
    Ss ss_op | Config config_op | Video video_op | OpInviteToConference "string list" | OpSetReadyToCall int bool
  | OpUpdateImsRttCallMode int int

datatype global_op =
    OpHangUpAllConnection | OpClearAllCalls "CellularCallInfo list" | OpRegisterCallManagerCallBack nat
  | OpUnRegisterCallManagerCallBack | OpSetCameraZoom "32 word"

datatype out_op =
    OpIsEmergencyPhoneNumber string | OpCanSetCallTransferTime | OpGetVideoCallWaiting | OpGetImsSwitchStatus
  | OpGetCarrierVtConfig

text \<open>A method of the service takes the service's state and gives a result, the new state and its effects; \<open>None\<close>: it has not
  returned yet. An out-parameter goes in with its value and comes back in the result.\<close>

type_synonym ('r, 's, 'a) service_method = "'s \<Rightarrow> ('r \<times> 's \<times> 'a list) option"

record ('s, 'a) virtuals =
  on_call :: "call_op \<Rightarrow> CellularCallInfo \<Rightarrow> (errcode, 's, 'a) service_method"
  on_slot :: "slot_op \<Rightarrow> int \<Rightarrow> (errcode, 's, 'a) service_method"
  on_global :: "global_op \<Rightarrow> (errcode, 's, 'a) service_method"
  on_out :: "out_op \<Rightarrow> int \<Rightarrow> bool \<Rightarrow> (errcode \<times> bool, 's, 'a) service_method"
  GetVoNRState_virtual :: "int \<Rightarrow> int \<Rightarrow> (errcode \<times> int, 's, 'a) service_method"
  IsMmiCode_virtual :: "int \<Rightarrow> string \<Rightarrow> (bool, 's, 'a) service_method"

section \<open>A method of the stub\<close>

text \<open>What reading the arguments comes to: the request is refused with a code, the arguments are there, or a null pointer
  was made a string.\<close>

datatype 'q reading = Refused errcode | NullString | Accepted 'q

datatype 'r outcome = Blocked | Crashed | Returned 'r

text \<open>The data, the reply and the service; the result code, the reply, the service and the effects.\<close>

type_synonym ('p, 's, 'a) stub_method = "'p \<Rightarrow> 'p \<Rightarrow> 's \<Rightarrow> (errcode \<times> 'p \<times> 's \<times> 'a list) outcome"

definition answer_with ::
    "('p, 'q reading) state \<Rightarrow> ('q \<Rightarrow> ('r, 's, 'a) service_method) \<Rightarrow> ('r \<Rightarrow> ('p, errcode) state) \<Rightarrow> ('p, 's, 'a) stub_method" where
  "answer_with args op respond data reply s =
     (case fst (run_state args data) of
        Refused r \<Rightarrow> Returned (r, reply, s, [])
      | NullString \<Rightarrow> Crashed
      | Accepted q \<Rightarrow>
          (case op q s of
             None \<Rightarrow> Blocked
           | Some (v, s', acts) \<Rightarrow> let (r, reply') = run_state (respond v) reply in Returned (r, reply', s', acts)))"

definition FOUNDATION_UID :: int where "FOUNDATION_UID = 5523"
definition MAX_SIZE_svc :: int where "MAX_SIZE_svc = 10"
definition MAX_ECC_SIZE :: int where "MAX_ECC_SIZE = 1000"
definition MAX_CALL_NUM :: int where "MAX_CALL_NUM = 10"

definition sized :: "'p parcel \<Rightarrow> ('p, 'q reading) state \<Rightarrow> ('p, 'q reading) state" where
  "sized P args = do {
     size \<leftarrow> ReadInt32 P;
     if (if size > MAX_SIZE_svc then 0 else size) \<le> 0 then State_Monad.return (Refused TELEPHONY_ERR_FAIL) else args }"

definition call_info :: "'p parcel \<Rightarrow> (CellularCallInfo \<Rightarrow> ('p, 'q reading) state) \<Rightarrow> ('p, 'q reading) state" where
  "call_info P args = do {
     pCallInfo \<leftarrow> ReadRawData P TCellularCallInfo;
     (case pCallInfo of
        Some (BCellularCallInfo i) \<Rightarrow> args i
      | _ \<Rightarrow> State_Monad.return (Refused TELEPHONY_ERR_ARGUMENT_INVALID)) }"

text \<open>How the result goes into the reply: as it is, or with the out-parameter before it.\<close>

definition write_code :: "'p parcel \<Rightarrow> errcode \<Rightarrow> ('p, errcode) state" where
  "write_code P r = do { _ \<leftarrow> wr P (AErrcode r); State_Monad.return TELEPHONY_SUCCESS }"

definition write_out :: "'p parcel \<Rightarrow> errcode \<times> bool \<Rightarrow> ('p, errcode) state" where
  "write_out P = (\<lambda>(r, out). do {
     _ \<leftarrow> WriteBool P out; _ \<leftarrow> wr P (AErrcode r); State_Monad.return TELEPHONY_SUCCESS })"

text \<open>The shape of most methods of each group.\<close>

definition call_method ::
    "'p parcel \<Rightarrow> ('s, 'a) virtuals \<Rightarrow> ('p, (call_op \<times> CellularCallInfo) reading) state \<Rightarrow> ('p, 's, 'a) stub_method" where
  "call_method P V args = answer_with (sized P args) (\<lambda>(m, i). on_call V m i) (write_code P)"

definition slot_method ::
    "'p parcel \<Rightarrow> ('s, 'a) virtuals \<Rightarrow> ('p, (slot_op \<times> int) reading) state \<Rightarrow> ('p, 's, 'a) stub_method" where
  "slot_method P V args = answer_with (sized P args) (\<lambda>(m, slot). on_slot V m slot) (write_code P)"

definition out_method ::
    "'p parcel \<Rightarrow> ('s, 'a) virtuals \<Rightarrow> ('p, (out_op \<times> int \<times> bool) reading) state \<Rightarrow> ('p, 's, 'a) stub_method" where
  "out_method P V args = answer_with (sized P args) (\<lambda>(m, slot, out). on_out V m slot out) (write_out P)"

abbreviation accept :: "'q \<Rightarrow> ('p, 'q reading) state" where "accept q \<equiv> State_Monad.return (Accepted q)"

section \<open>Calls\<close>

definition OnDialInner :: "'p parcel \<Rightarrow> ('s, 'a) virtuals \<Rightarrow> ('p, 's, 'a) stub_method" where
  "OnDialInner P V = call_method P V (call_info P (\<lambda>i. accept (OpDial, i)))"

definition OnHangUpInner :: "'p parcel \<Rightarrow> ('s, 'a) virtuals \<Rightarrow> ('p, 's, 'a) stub_method" where
  "OnHangUpInner P V =
     call_method P V (call_info P (\<lambda>i. do { type \<leftarrow> ReadSupplementType P; accept (OpHangUp type, i) }))"

definition OnRejectInner :: "'p parcel \<Rightarrow> ('s, 'a) virtuals \<Rightarrow> ('p, 's, 'a) stub_method" where
  "OnRejectInner P V = call_method P V (call_info P (\<lambda>i. accept (OpReject, i)))"

definition OnAnswerInner :: "'p parcel \<Rightarrow> ('s, 'a) virtuals \<Rightarrow> ('p, 's, 'a) stub_method" where
  "OnAnswerInner P V = call_method P V (call_info P (\<lambda>i. accept (OpAnswer, i)))"

definition OnHoldCallInner :: "'p parcel \<Rightarrow> ('s, 'a) virtuals \<Rightarrow> ('p, 's, 'a) stub_method" where
  "OnHoldCallInner P V = call_method P V (call_info P (\<lambda>i. accept (OpHoldCall, i)))"

definition OnUnHoldCallInner :: "'p parcel \<Rightarrow> ('s, 'a) virtuals \<Rightarrow> ('p, 's, 'a) stub_method" where
  "OnUnHoldCallInner P V = call_method P V (call_info P (\<lambda>i. accept (OpUnHoldCall, i)))"

definition OnSwitchCallInner :: "'p parcel \<Rightarrow> ('s, 'a) virtuals \<Rightarrow> ('p, 's, 'a) stub_method" where
  "OnSwitchCallInner P V = call_method P V (call_info P (\<lambda>i. accept (OpSwitchCall, i)))"

definition OnCombineConferenceInner :: "'p parcel \<Rightarrow> ('s, 'a) virtuals \<Rightarrow> ('p, 's, 'a) stub_method" where
  "OnCombineConferenceInner P V = call_method P V (call_info P (\<lambda>i. accept (OpCombineConference, i)))"

definition OnSeparateConferenceInner :: "'p parcel \<Rightarrow> ('s, 'a) virtuals \<Rightarrow> ('p, 's, 'a) stub_method" where
  "OnSeparateConferenceInner P V = call_method P V (call_info P (\<lambda>i. accept (OpSeparateConference, i)))"

definition OnKickOutFromConferenceInner :: "'p parcel \<Rightarrow> ('s, 'a) virtuals \<Rightarrow> ('p, 's, 'a) stub_method" where
  "OnKickOutFromConferenceInner P V = call_method P V (call_info P (\<lambda>i. accept (OpKickOutFromConference, i)))"

definition OnStopDtmfInner :: "'p parcel \<Rightarrow> ('s, 'a) virtuals \<Rightarrow> ('p, 's, 'a) stub_method" where
  "OnStopDtmfInner P V = call_method P V (call_info P (\<lambda>i. accept (OpStopDtmf, i)))"

definition OnStartDtmfInner :: "'p parcel \<Rightarrow> ('s, 'a) virtuals \<Rightarrow> ('p, 's, 'a) stub_method" where
  "OnStartDtmfInner P V =
     call_method P V (do { c \<leftarrow> ReadInt8 P; call_info P (\<lambda>i. accept (OpStartDtmf c, i)) })"

definition OnSendDtmfInner :: "'p parcel \<Rightarrow> ('s, 'a) virtuals \<Rightarrow> ('p, 's, 'a) stub_method" where
  "OnSendDtmfInner P V =
     call_method P V (do { c \<leftarrow> ReadInt8 P; call_info P (\<lambda>i. accept (OpSendDtmf c, i)) })"

definition OnPostDialProceedInner :: "'p parcel \<Rightarrow> ('s, 'a) virtuals \<Rightarrow> ('p, 's, 'a) stub_method" where
  "OnPostDialProceedInner P V =
     call_method P V (call_info P (\<lambda>i. do {
       proceed \<leftarrow> ReadBool P;
       accept (OpPostDialProceed proceed, i) }))"

definition OnSendUpdateCallMediaModeRequestInner :: "'p parcel \<Rightarrow> ('s, 'a) virtuals \<Rightarrow> ('p, 's, 'a) stub_method" where
  "OnSendUpdateCallMediaModeRequestInner P V =
     call_method P V (call_info P (\<lambda>i. do {
       mode \<leftarrow> ReadInt32 P;
       accept (OpSendUpdateCallMediaModeRequest mode, i) }))"

definition OnSendUpdateCallMediaModeResponseInner :: "'p parcel \<Rightarrow> ('s, 'a) virtuals \<Rightarrow> ('p, 's, 'a) stub_method" where
  "OnSendUpdateCallMediaModeResponseInner P V =
     call_method P V (call_info P (\<lambda>i. do {
       mode \<leftarrow> ReadInt32 P;
       accept (OpSendUpdateCallMediaModeResponse mode, i) }))"

definition OnInviteToConferenceInner :: "'p parcel \<Rightarrow> ('s, 'a) virtuals \<Rightarrow> ('p, 's, 'a) stub_method" where
  "OnInviteToConferenceInner P V = slot_method P V (do {
     slot \<leftarrow> ReadInt32 P;
     numberList \<leftarrow> ReadStringVector P;
     State_Monad.return (case numberList of
       None \<Rightarrow> Refused TELEPHONY_ERR_ARGUMENT_INVALID
     | Some l \<Rightarrow> Accepted (OpInviteToConference l, slot)) })"

definition OnHangUpAllConnectionInner :: "'p parcel \<Rightarrow> ('s, 'a) virtuals \<Rightarrow> ('p, 's, 'a) stub_method" where
  "OnHangUpAllConnectionInner P V =
     answer_with (sized P (accept OpHangUpAllConnection)) (on_global V) (write_code P)"

text \<open>The only method without a size; it tells whether the reply could be written.\<close>

definition OnSetReadyToCallInner :: "'p parcel \<Rightarrow> ('s, 'a) virtuals \<Rightarrow> ('p, 's, 'a) stub_method" where
  "OnSetReadyToCallInner P V =
     answer_with
       (do { slot \<leftarrow> ReadInt32 P; callType \<leftarrow> ReadInt32 P; isReadyToCall \<leftarrow> ReadBool P;
             accept (OpSetReadyToCall callType isReadyToCall, slot) })
       (\<lambda>(m, slot). on_slot V m slot)
       (\<lambda>error. do { ok \<leftarrow> wr P (AErrcode error);
            State_Monad.return (if \<not> ok then TELEPHONY_ERR_WRITE_REPLY_FAIL else TELEPHONY_SUCCESS) })"

text \<open>A list of calls: a block that is missing is left out.\<close>

definition read_calls :: "'p parcel \<Rightarrow> nat \<Rightarrow> ('p, CellularCallInfo list) state" where
  "read_calls P n = do {
     blocks \<leftarrow> read_n n (ReadRawData P TCellularCallInfo);
     State_Monad.return (List.map_filter (\<lambda>b. case b of Some (BCellularCallInfo i) \<Rightarrow> Some i | _ \<Rightarrow> None) blocks) }"

definition OnClearAllCallsInner :: "'p parcel \<Rightarrow> ('s, 'a) virtuals \<Rightarrow> ('p, 's, 'a) stub_method" where
  "OnClearAllCallsInner P V =
     answer_with
       (do { size \<leftarrow> ReadInt32 P;
             if size \<le> 0 \<or> size > MAX_CALL_NUM then State_Monad.return (Refused TELEPHONY_ERR_ARGUMENT_INVALID)
             else do { callInfos \<leftarrow> read_calls P (nat size); accept (OpClearAllCalls callInfos) } })
       (on_global V) (write_code P)"

section \<open>Numbers\<close>

text \<open>The result first, then the answer, but only with the result 0; a reply that cannot be written is an error.\<close>

definition write_enabled :: "'p parcel \<Rightarrow> errcode \<times> bool \<Rightarrow> ('p, errcode) state" where
  "write_enabled P = (\<lambda>(ret, enabled). do {
     ok \<leftarrow> wr P (AErrcode ret);
     if \<not> ok then State_Monad.return TELEPHONY_ERR_WRITE_DATA_FAIL
     else if ret \<noteq> TELEPHONY_SUCCESS then State_Monad.return ret
     else do {
       ok' \<leftarrow> WriteBool P enabled;
       State_Monad.return (if \<not> ok' then TELEPHONY_ERR_WRITE_DATA_FAIL else TELEPHONY_SUCCESS) } })"

definition OnIsEmergencyPhoneNumberInner :: "'p parcel \<Rightarrow> ('s, 'a) virtuals \<Rightarrow> ('p, 's, 'a) stub_method" where
  "OnIsEmergencyPhoneNumberInner P V =
     answer_with
       (sized P (do { slot \<leftarrow> ReadInt32 P; phoneNum \<leftarrow> ReadString P; accept (OpIsEmergencyPhoneNumber phoneNum, slot, False) }))
       (\<lambda>(m, slot, enabled). on_out V m slot enabled) (write_enabled P)"

definition OnIsMmiCodeInner :: "'p parcel \<Rightarrow> ('s, 'a) virtuals \<Rightarrow> ('p, 's, 'a) stub_method" where
  "OnIsMmiCodeInner P V =
     answer_with
       (sized P (do { slot \<leftarrow> ReadInt32 P; number \<leftarrow> ReadString P; accept (slot, number) }))
       (\<lambda>(slot, number). IsMmiCode_virtual V slot number)
       (\<lambda>result. do { _ \<leftarrow> WriteBool P result; State_Monad.return TELEPHONY_SUCCESS })"

definition read_ecc :: "'p parcel \<Rightarrow> ('p, EmergencyCall) state" where
  "read_ecc P = do {
     num \<leftarrow> ReadString P;
     country \<leftarrow> ReadString P;
     ty \<leftarrow> ReadInt32 P;
     present \<leftarrow> ReadInt32 P;
     abnormal \<leftarrow> ReadInt32 P;
     State_Monad.return
       \<lparr>eccNum = num, mcc = country, eccType = ty, simpresent = present, abnormalService = abnormal\<rparr> }"

definition OnSetEmergencyCallList :: "'p parcel \<Rightarrow> ('s, 'a) virtuals \<Rightarrow> ('p, 's, 'a) stub_method" where
  "OnSetEmergencyCallList P V = slot_method P V (do {
     slot \<leftarrow> ReadInt32 P;
     len \<leftarrow> ReadInt32 P;
     if len \<le> 0 \<or> len \<ge> MAX_ECC_SIZE then State_Monad.return (Refused TELEPHONY_ERR_FAIL)
     else do { eccVec \<leftarrow> read_n (nat len) (read_ecc P); accept (Config (OpSetEmergencyCallList eccVec), slot) } })"

section \<open>Registration of the call manager\<close>

definition OnRegisterCallBackInner :: "'p parcel \<Rightarrow> ('s, 'a) virtuals \<Rightarrow> ('p, 's, 'a) stub_method" where
  "OnRegisterCallBackInner P V =
     answer_with
       (sized P (do { remote \<leftarrow> ReadRemoteObject P; accept remote }))
       (\<lambda>remote s. case remote of
          None \<Rightarrow> Some ((False, TELEPHONY_ERR_LOCAL_PTR_NULL), s, [])
        | Some object \<Rightarrow> map_option (\<lambda>(result, s', acts). ((True, result), s', acts))
            (on_global V (OpRegisterCallManagerCallBack object) s))
       (\<lambda>(there, result). do {
          _ \<leftarrow> wr P (AErrcode result); State_Monad.return (if there then TELEPHONY_SUCCESS else result) })"

definition OnUnRegisterCallBackInner :: "'p parcel \<Rightarrow> ('s, 'a) virtuals \<Rightarrow> ('p, 's, 'a) stub_method" where
  "OnUnRegisterCallBackInner P V =
     answer_with (sized P (accept OpUnRegisterCallManagerCallBack)) (on_global V)
       (\<lambda>result. do { _ \<leftarrow> wr P (AErrcode result); State_Monad.return result })"

section \<open>RTT\<close>

definition OnUpdateImsRttCallModeInner :: "'p parcel \<Rightarrow> ('s, 'a) virtuals \<Rightarrow> ('p, 's, 'a) stub_method" where
  "OnUpdateImsRttCallModeInner P V =
     slot_method P V (do {
       slot \<leftarrow> ReadInt32 P;
       callId \<leftarrow> ReadInt32 P;
       mode \<leftarrow> ReadInt32 P;
       accept (OpUpdateImsRttCallMode callId mode, slot) })"

definition OnSetRttCapabilityInner :: "'p parcel \<Rightarrow> ('s, 'a) virtuals \<Rightarrow> ('p, 's, 'a) stub_method" where
  "OnSetRttCapabilityInner P V =
     slot_method P V (do {
       slot \<leftarrow> ReadInt32 P;
       isEnable \<leftarrow> ReadBool P;
       accept (Config (OpSetRttCapability isEnable), slot) })"

section \<open>Supplementary services\<close>

definition OnSetCallTransferInner :: "'p parcel \<Rightarrow> ('s, 'a) virtuals \<Rightarrow> ('p, 's, 'a) stub_method" where
  "OnSetCallTransferInner P V = slot_method P V (do {
     slot \<leftarrow> ReadInt32 P;
     info \<leftarrow> ReadRawData P TCallTransferInfo;
     State_Monad.return (case info of
       Some (BCallTransferInfo i) \<Rightarrow> Accepted (Ss (OpSetCallTransferInfo i), slot)
     | _ \<Rightarrow> Refused TELEPHONY_ERR_ARGUMENT_INVALID) })"

definition OnSetCallRestrictionInner :: "'p parcel \<Rightarrow> ('s, 'a) virtuals \<Rightarrow> ('p, 's, 'a) stub_method" where
  "OnSetCallRestrictionInner P V = slot_method P V (do {
     slot \<leftarrow> ReadInt32 P;
     info \<leftarrow> ReadRawData P TCallRestrictionInfo;
     State_Monad.return (case info of
       Some (BCallRestrictionInfo i) \<Rightarrow> Accepted (Ss (OpSetCallRestriction i), slot)
     | _ \<Rightarrow> Refused TELEPHONY_ERR_ARGUMENT_INVALID) })"

definition OnGetCallTransferInner :: "'p parcel \<Rightarrow> ('s, 'a) virtuals \<Rightarrow> ('p, 's, 'a) stub_method" where
  "OnGetCallTransferInner P V =
     slot_method P V (do {
       slot \<leftarrow> ReadInt32 P;
       type \<leftarrow> ReadInt32 P;
       includes \<leftarrow> ReadBool P;
       accept (Ss (OpGetCallTransferInfo type includes), slot) })"

definition OnSetCallWaitingInner :: "'p parcel \<Rightarrow> ('s, 'a) virtuals \<Rightarrow> ('p, 's, 'a) stub_method" where
  "OnSetCallWaitingInner P V =
     slot_method P V (do {
       slot \<leftarrow> ReadInt32 P;
       enable \<leftarrow> ReadBool P;
       accept (Ss (OpSetCallWaiting enable), slot) })"

definition OnGetCallWaitingInner :: "'p parcel \<Rightarrow> ('s, 'a) virtuals \<Rightarrow> ('p, 's, 'a) stub_method" where
  "OnGetCallWaitingInner P V = slot_method P V (do { slot \<leftarrow> ReadInt32 P; accept (Ss OpGetCallWaiting, slot) })"

definition OnGetCallRestrictionInner :: "'p parcel \<Rightarrow> ('s, 'a) virtuals \<Rightarrow> ('p, 's, 'a) stub_method" where
  "OnGetCallRestrictionInner P V =
     slot_method P V (do {
       slot \<leftarrow> ReadInt32 P;
       facType \<leftarrow> ReadRestrictionType P;
       accept (Ss (OpGetCallRestriction facType), slot) })"

text \<open>The passwords are C strings, made \<^verbatim>\<open>std::string\<close>s without a test.\<close>

definition OnSetCallRestrictionPasswordInner :: "'p parcel \<Rightarrow> ('s, 'a) virtuals \<Rightarrow> ('p, 's, 'a) stub_method" where
  "OnSetCallRestrictionPasswordInner P V = slot_method P V (do {
     slot \<leftarrow> ReadInt32 P;
     facType \<leftarrow> ReadRestrictionType P;
     oldPassword \<leftarrow> ReadCString P;
     newPassword \<leftarrow> ReadCString P;
     State_Monad.return (case (oldPassword, newPassword) of
       (Some oldPw, Some newPw) \<Rightarrow> Accepted (Ss (OpSetCallRestrictionPassword facType oldPw newPw), slot)
     | _ \<Rightarrow> NullString) })"

definition OnCloseUnFinishedUssdInner :: "'p parcel \<Rightarrow> ('s, 'a) virtuals \<Rightarrow> ('p, 's, 'a) stub_method" where
  "OnCloseUnFinishedUssdInner P V =
     slot_method P V (do { slot \<leftarrow> ReadInt32 P; accept (Ss OpCloseUnFinishedUssd, slot) })"

definition OnCanSetCallTransferTimeInner :: "'p parcel \<Rightarrow> ('s, 'a) virtuals \<Rightarrow> ('p, 's, 'a) stub_method" where
  "OnCanSetCallTransferTimeInner P V =
     out_method P V (do {
       slot \<leftarrow> ReadInt32 P;
       result \<leftarrow> ReadBool P;
       accept (OpCanSetCallTransferTime, slot, result) })"

definition OnGetVideoCallWaitingInner :: "'p parcel \<Rightarrow> ('s, 'a) virtuals \<Rightarrow> ('p, 's, 'a) stub_method" where
  "OnGetVideoCallWaitingInner P V =
     out_method P V (do { slot \<leftarrow> ReadInt32 P; accept (OpGetVideoCallWaiting, slot, False) })"

definition OnSendUssdResponse :: "'p parcel \<Rightarrow> ('s, 'a) virtuals \<Rightarrow> ('p, 's, 'a) stub_method" where
  "OnSendUssdResponse P V =
     answer_with
       (do { size \<leftarrow> ReadInt32 P;
             if size \<le> 0 \<or> size > MAX_CALL_NUM then State_Monad.return (Refused TELEPHONY_ERR_FAIL)
             else do { slot \<leftarrow> ReadInt32 P; content \<leftarrow> ReadString P; accept (Ss (OpSendUssdResponse content), slot) } })
       (\<lambda>(m, slot). on_slot V m slot)
       (\<lambda>ret. write_enabled P (ret, False))"

section \<open>Configuration\<close>

definition OnSetDomainPreferenceModeInner :: "'p parcel \<Rightarrow> ('s, 'a) virtuals \<Rightarrow> ('p, 's, 'a) stub_method" where
  "OnSetDomainPreferenceModeInner P V =
     slot_method P V (do {
       slot \<leftarrow> ReadInt32 P;
       mode \<leftarrow> ReadInt32 P;
       accept (Config (OpSetDomainPreferenceMode mode), slot) })"

definition OnGetDomainPreferenceModeInner :: "'p parcel \<Rightarrow> ('s, 'a) virtuals \<Rightarrow> ('p, 's, 'a) stub_method" where
  "OnGetDomainPreferenceModeInner P V =
     slot_method P V (do { slot \<leftarrow> ReadInt32 P; accept (Config OpGetDomainPreferenceMode, slot) })"

definition OnSetImsSwitchStatusInner :: "'p parcel \<Rightarrow> ('s, 'a) virtuals \<Rightarrow> ('p, 's, 'a) stub_method" where
  "OnSetImsSwitchStatusInner P V =
     slot_method P V (do {
       slot \<leftarrow> ReadInt32 P;
       active \<leftarrow> ReadBool P;
       accept (Config (OpSetImsSwitchStatus active), slot) })"

text \<open>Three methods give an uninitialised variable as the out-parameter.\<close>

definition OnGetImsSwitchStatusInner :: "'p parcel \<Rightarrow> 'x stub_env_scheme \<Rightarrow> ('s, 'a) virtuals \<Rightarrow> ('p, 's, 'a) stub_method" where
  "OnGetImsSwitchStatusInner P e V =
     out_method P V (do { slot \<leftarrow> ReadInt32 P; accept (OpGetImsSwitchStatus, slot, e_garbageBool e) })"

definition OnGetCarrierVtConfigInner :: "'p parcel \<Rightarrow> 'x stub_env_scheme \<Rightarrow> ('s, 'a) virtuals \<Rightarrow> ('p, 's, 'a) stub_method" where
  "OnGetCarrierVtConfigInner P e V =
     out_method P V (do { slot \<leftarrow> ReadInt32 P; accept (OpGetCarrierVtConfig, slot, e_garbageBool e) })"

definition OnSetVoNRStateInner :: "'p parcel \<Rightarrow> ('s, 'a) virtuals \<Rightarrow> ('p, 's, 'a) stub_method" where
  "OnSetVoNRStateInner P V =
     slot_method P V (do {
       slot \<leftarrow> ReadInt32 P;
       st \<leftarrow> ReadInt32 P;
       accept (Config (OpSetVoNRState st), slot) })"

definition OnGetVoNRStateInner :: "'p parcel \<Rightarrow> 'x stub_env_scheme \<Rightarrow> ('s, 'a) virtuals \<Rightarrow> ('p, 's, 'a) stub_method" where
  "OnGetVoNRStateInner P e V =
     answer_with
       (sized P (do { slot \<leftarrow> ReadInt32 P; accept (slot, e_garbageInt e) }))
       (\<lambda>(slot, st). GetVoNRState_virtual V slot st)
       (\<lambda>(result, st). do { _ \<leftarrow> WriteInt32 P st; _ \<leftarrow> wr P (AErrcode result); State_Monad.return TELEPHONY_SUCCESS })"

definition OnSetImsConfigStringInner :: "'p parcel \<Rightarrow> ('s, 'a) virtuals \<Rightarrow> ('p, 's, 'a) stub_method" where
  "OnSetImsConfigStringInner P V =
     slot_method P V (do {
       slot \<leftarrow> ReadInt32 P;
       item \<leftarrow> ReadInt32 P;
       val \<leftarrow> ReadString P;
       accept (Config (OpSetImsConfigString item val), slot) })"

definition OnSetImsConfigIntInner :: "'p parcel \<Rightarrow> ('s, 'a) virtuals \<Rightarrow> ('p, 's, 'a) stub_method" where
  "OnSetImsConfigIntInner P V =
     slot_method P V (do {
       slot \<leftarrow> ReadInt32 P;
       item \<leftarrow> ReadInt32 P;
       val \<leftarrow> ReadInt32 P;
       accept (Config (OpSetImsConfigInt item val), slot) })"

definition OnGetImsConfigInner :: "'p parcel \<Rightarrow> ('s, 'a) virtuals \<Rightarrow> ('p, 's, 'a) stub_method" where
  "OnGetImsConfigInner P V =
     slot_method P V (do {
       slot \<leftarrow> ReadInt32 P;
       item \<leftarrow> ReadInt32 P;
       accept (Config (OpGetImsConfig item), slot) })"

definition OnSetImsFeatureValueInner :: "'p parcel \<Rightarrow> ('s, 'a) virtuals \<Rightarrow> ('p, 's, 'a) stub_method" where
  "OnSetImsFeatureValueInner P V =
     slot_method P V (do {
       slot \<leftarrow> ReadInt32 P;
       type \<leftarrow> ReadInt32 P;
       val \<leftarrow> ReadInt32 P;
       accept (Config (OpSetImsFeatureValue type val), slot) })"

definition OnGetImsFeatureValueInner :: "'p parcel \<Rightarrow> ('s, 'a) virtuals \<Rightarrow> ('p, 's, 'a) stub_method" where
  "OnGetImsFeatureValueInner P V =
     slot_method P V (do {
       slot \<leftarrow> ReadInt32 P;
       type \<leftarrow> ReadInt32 P;
       accept (Config (OpGetImsFeatureValue type), slot) })"

definition OnSetMuteInner :: "'p parcel \<Rightarrow> ('s, 'a) virtuals \<Rightarrow> ('p, 's, 'a) stub_method" where
  "OnSetMuteInner P V =
     slot_method P V (do {
       slot \<leftarrow> ReadInt32 P;
       mute \<leftarrow> ReadInt32 P;
       accept (Config (OpSetMute mute), slot) })"

definition OnGetMuteInner :: "'p parcel \<Rightarrow> ('s, 'a) virtuals \<Rightarrow> ('p, 's, 'a) stub_method" where
  "OnGetMuteInner P V = slot_method P V (do { slot \<leftarrow> ReadInt32 P; accept (Config OpGetMute, slot) })"

section \<open>Video calls\<close>

definition OnCancelCallUpgradeInner :: "'p parcel \<Rightarrow> ('s, 'a) virtuals \<Rightarrow> ('p, 's, 'a) stub_method" where
  "OnCancelCallUpgradeInner P V =
     slot_method P V (do {
       slot \<leftarrow> ReadInt32 P;
       callIndex \<leftarrow> ReadInt32 P;
       accept (Video (OpCancelCallUpgrade callIndex), slot) })"

definition OnRequestCameraCapabilitiesInner :: "'p parcel \<Rightarrow> ('s, 'a) virtuals \<Rightarrow> ('p, 's, 'a) stub_method" where
  "OnRequestCameraCapabilitiesInner P V =
     slot_method P V (do {
       slot \<leftarrow> ReadInt32 P;
       callIndex \<leftarrow> ReadInt32 P;
       accept (Video (OpRequestCameraCapabilities callIndex), slot) })"

definition OnControlCameraInner :: "'p parcel \<Rightarrow> ('s, 'a) virtuals \<Rightarrow> ('p, 's, 'a) stub_method" where
  "OnControlCameraInner P V =
     slot_method P V (do {
       slot \<leftarrow> ReadInt32 P;
       callIndex \<leftarrow> ReadInt32 P;
       cameraId \<leftarrow> ReadString P;
       accept (Video (OpControlCamera callIndex cameraId), slot) })"

definition OnSetPreviewWindowInner :: "'p parcel \<Rightarrow> 'x stub_env_scheme \<Rightarrow> ('s, 'a) virtuals \<Rightarrow> ('p, 's, 'a) stub_method" where
  "OnSetPreviewWindowInner P e V = slot_method P V (do {
     slot \<leftarrow> ReadInt32 P;
     callIndex \<leftarrow> ReadInt32 P;
     surfaceID \<leftarrow> ReadString P;
     object \<leftarrow> ReadRemoteObject P;
     accept (Video (OpSetPreviewWindow callIndex surfaceID (Option.bind object (e_createSurface e))), slot) })"

definition OnSetDisplayWindowInner :: "'p parcel \<Rightarrow> 'x stub_env_scheme \<Rightarrow> ('s, 'a) virtuals \<Rightarrow> ('p, 's, 'a) stub_method" where
  "OnSetDisplayWindowInner P e V = slot_method P V (do {
     slot \<leftarrow> ReadInt32 P;
     callIndex \<leftarrow> ReadInt32 P;
     surfaceID \<leftarrow> ReadString P;
     object \<leftarrow> ReadRemoteObject P;
     accept (Video (OpSetDisplayWindow callIndex surfaceID (Option.bind object (e_createSurface e))), slot) })"

definition OnSetCameraZoomInner :: "'p parcel \<Rightarrow> ('s, 'a) virtuals \<Rightarrow> ('p, 's, 'a) stub_method" where
  "OnSetCameraZoomInner P V =
     answer_with (sized P (do {
       zoomRatio \<leftarrow> ReadFloat P;
       accept (OpSetCameraZoom zoomRatio) })) (on_global V) (write_code P)"

definition OnSetPausePictureInner :: "'p parcel \<Rightarrow> ('s, 'a) virtuals \<Rightarrow> ('p, 's, 'a) stub_method" where
  "OnSetPausePictureInner P V =
     slot_method P V (do {
       slot \<leftarrow> ReadInt32 P;
       callIndex \<leftarrow> ReadInt32 P;
       path \<leftarrow> ReadString P;
       accept (Video (OpSetPausePicture callIndex path), slot) })"

definition OnSetDeviceDirectionInner :: "'p parcel \<Rightarrow> ('s, 'a) virtuals \<Rightarrow> ('p, 's, 'a) stub_method" where
  "OnSetDeviceDirectionInner P V =
     slot_method P V (do {
       slot \<leftarrow> ReadInt32 P;
       callIndex \<leftarrow> ReadInt32 P;
       rotation \<leftarrow> ReadInt32 P;
       accept (Video (OpSetDeviceDirection callIndex rotation), slot) })"

section \<open>A request\<close>

text \<open>The table of the methods, filled in five parts; a code is named by its enumerator.\<close>

type_synonym ('p, 's, 'a) func_map = "string \<rightharpoonup> ('p, 's, 'a) stub_method"

definition InitDialFuncMap ::
    "'p parcel \<Rightarrow> 'x stub_env_scheme \<Rightarrow> ('s, 'a) virtuals \<Rightarrow> ('p, 's, 'a) func_map \<Rightarrow> ('p, 's, 'a) func_map" where
  "InitDialFuncMap P e V m = m(
     ''DIAL'' \<mapsto> OnDialInner P V,
     ''HANG_UP'' \<mapsto> OnHangUpInner P V,
     ''REJECT'' \<mapsto> OnRejectInner P V,
     ''ANSWER'' \<mapsto> OnAnswerInner P V,
     ''EMERGENCY_CALL'' \<mapsto> OnIsEmergencyPhoneNumberInner P V,
     ''SET_EMERGENCY_CALL_LIST'' \<mapsto> OnSetEmergencyCallList P V,
     ''HOLD_CALL'' \<mapsto> OnHoldCallInner P V,
     ''UN_HOLD_CALL'' \<mapsto> OnUnHoldCallInner P V,
     ''SWITCH_CALL'' \<mapsto> OnSwitchCallInner P V,
     ''COMBINE_CONFERENCE'' \<mapsto> OnCombineConferenceInner P V,
     ''SEPARATE_CONFERENCE'' \<mapsto> OnSeparateConferenceInner P V,
     ''INVITE_TO_CONFERENCE'' \<mapsto> OnInviteToConferenceInner P V,
     ''KICK_OUT_CONFERENCE'' \<mapsto> OnKickOutFromConferenceInner P V,
     ''HANG_UP_ALL_CONNECTION'' \<mapsto> OnHangUpAllConnectionInner P V,
     ''SET_READY_TO_CALL'' \<mapsto> OnSetReadyToCallInner P V,
     ''CLEAR_ALL_CALLS'' \<mapsto> OnClearAllCallsInner P V)"

definition InitDtmfFuncMap ::
    "'p parcel \<Rightarrow> 'x stub_env_scheme \<Rightarrow> ('s, 'a) virtuals \<Rightarrow> ('p, 's, 'a) func_map \<Rightarrow> ('p, 's, 'a) func_map" where
  "InitDtmfFuncMap P e V m = m(
     ''START_DTMF'' \<mapsto> OnStartDtmfInner P V,
     ''STOP_DTMF'' \<mapsto> OnStopDtmfInner P V,
     ''POST_DIAL_PROCEED'' \<mapsto> OnPostDialProceedInner P V,
     ''SEND_DTMF'' \<mapsto> OnSendDtmfInner P V,
     ''UPDATE_RTT_CALL_MODE'' \<mapsto> OnUpdateImsRttCallModeInner P V,
     ''RTT_CAPABILITY_SETTING'' \<mapsto> OnSetRttCapabilityInner P V)"

definition InitConfigFuncMap_svc ::
    "'p parcel \<Rightarrow> 'x stub_env_scheme \<Rightarrow> ('s, 'a) virtuals \<Rightarrow> ('p, 's, 'a) func_map \<Rightarrow> ('p, 's, 'a) func_map" where
  "InitConfigFuncMap_svc P e V m = m(
     ''SET_DOMAIN_PREFERENCE_MODE'' \<mapsto> OnSetDomainPreferenceModeInner P V,
     ''GET_DOMAIN_PREFERENCE_MODE'' \<mapsto> OnGetDomainPreferenceModeInner P V,
     ''SET_IMS_SWITCH_STATUS'' \<mapsto> OnSetImsSwitchStatusInner P V,
     ''GET_IMS_SWITCH_STATUS'' \<mapsto> OnGetImsSwitchStatusInner P e V,
     ''GET_CARRIER_VT_CONFIG'' \<mapsto> OnGetCarrierVtConfigInner P e V,
     ''SET_VONR_SWITCH_STATUS'' \<mapsto> OnSetVoNRStateInner P V,
     ''GET_VONR_SWITCH_STATUS'' \<mapsto> OnGetVoNRStateInner P e V,
     ''SET_IMS_CONFIG_STRING'' \<mapsto> OnSetImsConfigStringInner P V,
     ''SET_IMS_CONFIG_INT'' \<mapsto> OnSetImsConfigIntInner P V,
     ''GET_IMS_CONFIG'' \<mapsto> OnGetImsConfigInner P V,
     ''SET_IMS_FEATURE'' \<mapsto> OnSetImsFeatureValueInner P V,
     ''GET_IMS_FEATURE'' \<mapsto> OnGetImsFeatureValueInner P V,
     ''SET_MUTE'' \<mapsto> OnSetMuteInner P V,
     ''GET_MUTE'' \<mapsto> OnGetMuteInner P V)"

definition InitVideoFuncMap ::
    "'p parcel \<Rightarrow> 'x stub_env_scheme \<Rightarrow> ('s, 'a) virtuals \<Rightarrow> ('p, 's, 'a) func_map \<Rightarrow> ('p, 's, 'a) func_map" where
  "InitVideoFuncMap P e V m = m(
     ''CTRL_CAMERA'' \<mapsto> OnControlCameraInner P V,
     ''SET_PREVIEW_WINDOW'' \<mapsto> OnSetPreviewWindowInner P e V,
     ''SET_DISPLAY_WINDOW'' \<mapsto> OnSetDisplayWindowInner P e V,
     ''SET_CAMERA_ZOOM'' \<mapsto> OnSetCameraZoomInner P V,
     ''SET_PAUSE_IMAGE'' \<mapsto> OnSetPausePictureInner P V,
     ''SET_DEVICE_DIRECTION'' \<mapsto> OnSetDeviceDirectionInner P V,
     ''SEND_CALL_MEDIA_MODE_REQUEST'' \<mapsto> OnSendUpdateCallMediaModeRequestInner P V,
     ''SEND_CALL_MEDIA_MODE_RESPONSE'' \<mapsto> OnSendUpdateCallMediaModeResponseInner P V,
     ''CANCEL_CALL_UPGRADE'' \<mapsto> OnCancelCallUpgradeInner P V,
     ''REQUEST_CAMERA_CAPABILITY'' \<mapsto> OnRequestCameraCapabilitiesInner P V)"

definition InitSupplementFuncMap_svc ::
    "'p parcel \<Rightarrow> 'x stub_env_scheme \<Rightarrow> ('s, 'a) virtuals \<Rightarrow> ('p, 's, 'a) func_map \<Rightarrow> ('p, 's, 'a) func_map" where
  "InitSupplementFuncMap_svc P e V m = m(
     ''SET_CALL_TRANSFER'' \<mapsto> OnSetCallTransferInner P V,
     ''GET_CALL_TRANSFER'' \<mapsto> OnGetCallTransferInner P V,
     ''CAN_SET_CALL_TRANSFER_TIME'' \<mapsto> OnCanSetCallTransferTimeInner P V,
     ''SET_CALL_WAITING'' \<mapsto> OnSetCallWaitingInner P V,
     ''GET_CALL_WAITING'' \<mapsto> OnGetCallWaitingInner P V,
     ''SET_CALL_RESTRICTION'' \<mapsto> OnSetCallRestrictionInner P V,
     ''GET_CALL_RESTRICTION'' \<mapsto> OnGetCallRestrictionInner P V,
     ''SET_CALL_RESTRICTION_PWD'' \<mapsto> OnSetCallRestrictionPasswordInner P V,
     ''REGISTER_CALLBACK'' \<mapsto> OnRegisterCallBackInner P V,
     ''UNREGISTER_CALLBACK'' \<mapsto> OnUnRegisterCallBackInner P V,
     ''CLOSE_UNFINISHED_USSD'' \<mapsto> OnCloseUnFinishedUssdInner P V,
     ''GET_VIDEO_CALL_WAITING'' \<mapsto> OnGetVideoCallWaitingInner P V,
     ''SEND_USSD_RESPONSE'' \<mapsto> OnSendUssdResponse P V,
     ''IS_MMI_CODE'' \<mapsto> OnIsMmiCodeInner P V)"

definition InitFuncMap :: "'p parcel \<Rightarrow> 'x stub_env_scheme \<Rightarrow> ('s, 'a) virtuals \<Rightarrow> ('p, 's, 'a) func_map" where
  "InitFuncMap P e V =
     InitSupplementFuncMap_svc P e V (InitVideoFuncMap P e V (InitConfigFuncMap_svc P e V
       (InitDtmfFuncMap P e V (InitDialFuncMap P e V Map.empty))))"

text \<open>The default case is the library's; it gets what is left of the message and does not call the service.\<close>

definition OnRemoteRequest_svc ::
    "'p parcel \<Rightarrow> 'x stub_env_scheme \<Rightarrow> ('s, 'a) virtuals \<Rightarrow> int \<Rightarrow> ('p, 's, 'a) stub_method" where
  "OnRemoteRequest_svc P e V code data reply s =
     (let (remoteDescriptor, data') = run_state (ReadInterfaceToken P) data in
      if e_descriptor e \<noteq> remoteDescriptor then Returned (TELEPHONY_ERR_DESCRIPTOR_MISMATCH, reply, s, [])
      else case InitFuncMap P e V (e_codeName e code) of
        None \<Rightarrow> Returned (e_defaultReply e code, reply, s, [])
      | Some requestFunc \<Rightarrow>
          if e_callingUid e \<noteq> FOUNDATION_UID \<and> \<not> e_hasPermission e
            then Returned (TELEPHONY_ERR_PERMISSION_ERR, reply, s, [])
          else requestFunc data' reply s)"

end
