(* ===== verification/CallStubProps.thy ===== *)
theory CallStubProps
  imports CallStub ServiceProps
begin

text \<open>
  The stub in front of the service. \<open>layout\<close> says how a message for each method is laid out as the stub reads it;
  \<open>request_performed\<close> says that such a message performs the method, one lemma for each group of methods. Every
  message, readable or not, makes at most one call (\<open>calls_once\<close>), so what every method keeps, every message
  keeps. \<open>service_virtuals\<close> puts the service of \<open>Service\<close> behind the stub.
\<close>

section \<open>The messages\<close>

datatype service_request =
    RCall call_op CellularCallInfo | RSlot slot_op int | RGlobal global_op | ROut out_op int | RMmi int string | RVoNR int

fun call_layout :: "call_op \<Rightarrow> CellularCallInfo \<Rightarrow> string \<times> item list" where
  "call_layout OpDial i = (''DIAL'', [Block (BCellularCallInfo i)])"
| "call_layout (OpHangUp t) i = (''HANG_UP'', [Block (BCellularCallInfo i), ASupplementType t])"
| "call_layout OpReject i = (''REJECT'', [Block (BCellularCallInfo i)])"
| "call_layout OpAnswer i = (''ANSWER'', [Block (BCellularCallInfo i)])"
| "call_layout OpHoldCall i = (''HOLD_CALL'', [Block (BCellularCallInfo i)])"
| "call_layout OpUnHoldCall i = (''UN_HOLD_CALL'', [Block (BCellularCallInfo i)])"
| "call_layout OpSwitchCall i = (''SWITCH_CALL'', [Block (BCellularCallInfo i)])"
| "call_layout OpCombineConference i = (''COMBINE_CONFERENCE'', [Block (BCellularCallInfo i)])"
| "call_layout OpSeparateConference i = (''SEPARATE_CONFERENCE'', [Block (BCellularCallInfo i)])"
| "call_layout OpKickOutFromConference i = (''KICK_OUT_CONFERENCE'', [Block (BCellularCallInfo i)])"
| "call_layout (OpStartDtmf c) i = (''START_DTMF'', [Int8 c, Block (BCellularCallInfo i)])"
| "call_layout OpStopDtmf i = (''STOP_DTMF'', [Block (BCellularCallInfo i)])"
| "call_layout (OpSendDtmf c) i = (''SEND_DTMF'', [Int8 c, Block (BCellularCallInfo i)])"
| "call_layout (OpPostDialProceed b) i = (''POST_DIAL_PROCEED'', [Block (BCellularCallInfo i), ABool b])"
| "call_layout (OpSendUpdateCallMediaModeRequest m) i = (''SEND_CALL_MEDIA_MODE_REQUEST'', [Block (BCellularCallInfo i), Int32 m])"
| "call_layout (OpSendUpdateCallMediaModeResponse m) i = (''SEND_CALL_MEDIA_MODE_RESPONSE'', [Block (BCellularCallInfo i), Int32 m])"

fun ss_layout :: "ss_op \<Rightarrow> string \<times> item list" where
  "ss_layout (OpSetCallTransferInfo i) = (''SET_CALL_TRANSFER'', [Block (BCallTransferInfo i)])"
| "ss_layout (OpGetCallTransferInfo t b) = (''GET_CALL_TRANSFER'', [Int32 t, ABool b])"
| "ss_layout (OpSetCallWaiting b) = (''SET_CALL_WAITING'', [ABool b])"
| "ss_layout OpGetCallWaiting = (''GET_CALL_WAITING'', [])"
| "ss_layout (OpSetCallRestriction i) = (''SET_CALL_RESTRICTION'', [Block (BCallRestrictionInfo i)])"
| "ss_layout (OpGetCallRestriction f) = (''GET_CALL_RESTRICTION'', [ARestrictionType f])"
| "ss_layout (OpSetCallRestrictionPassword f x y) = (''SET_CALL_RESTRICTION_PWD'', [ARestrictionType f, ACString x, ACString y])"
| "ss_layout OpCloseUnFinishedUssd = (''CLOSE_UNFINISHED_USSD'', [])"
| "ss_layout (OpSendUssdResponse c) = (''SEND_USSD_RESPONSE'', [AString c])"

definition ecc_items :: "EmergencyCall \<Rightarrow> item list" where
  "ecc_items c =
     [AString (eccNum c), AString (mcc c), Int32 (eccType c), Int32 (simpresent c), Int32 (abnormalService c)]"

fun config_layout :: "config_op \<Rightarrow> string \<times> item list" where
  "config_layout (OpSetDomainPreferenceMode m) = (''SET_DOMAIN_PREFERENCE_MODE'', [Int32 m])"
| "config_layout OpGetDomainPreferenceMode = (''GET_DOMAIN_PREFERENCE_MODE'', [])"
| "config_layout (OpSetImsSwitchStatus b) = (''SET_IMS_SWITCH_STATUS'', [ABool b])"
| "config_layout (OpSetVoNRState n) = (''SET_VONR_SWITCH_STATUS'', [Int32 n])"
| "config_layout (OpSetImsConfigString i v) = (''SET_IMS_CONFIG_STRING'', [Int32 i, AString v])"
| "config_layout (OpSetImsConfigInt i v) = (''SET_IMS_CONFIG_INT'', [Int32 i, Int32 v])"
| "config_layout (OpGetImsConfig i) = (''GET_IMS_CONFIG'', [Int32 i])"
| "config_layout (OpSetImsFeatureValue i v) = (''SET_IMS_FEATURE'', [Int32 i, Int32 v])"
| "config_layout (OpGetImsFeatureValue i) = (''GET_IMS_FEATURE'', [Int32 i])"
| "config_layout (OpSetMute m) = (''SET_MUTE'', [Int32 m])"
| "config_layout OpGetMute = (''GET_MUTE'', [])"
| "config_layout (OpSetEmergencyCallList l) = (''SET_EMERGENCY_CALL_LIST'', Int32 (int (length l)) # concat (map ecc_items l))"
| "config_layout (OpSetRttCapability b) = (''RTT_CAPABILITY_SETTING'', [ABool b])"

text \<open>A window comes as an object of the window's owner.\<close>

fun video_layout :: "nat \<Rightarrow> video_op \<Rightarrow> string \<times> item list" where
  "video_layout u (OpCancelCallUpgrade c) = (''CANCEL_CALL_UPGRADE'', [Int32 c])"
| "video_layout u (OpRequestCameraCapabilities c) = (''REQUEST_CAMERA_CAPABILITY'', [Int32 c])"
| "video_layout u (OpControlCamera c s) = (''CTRL_CAMERA'', [Int32 c, AString s])"
| "video_layout u (OpSetPreviewWindow c s w) = (''SET_PREVIEW_WINDOW'', [Int32 c, AString s, RemoteObject u])"
| "video_layout u (OpSetDisplayWindow c s w) = (''SET_DISPLAY_WINDOW'', [Int32 c, AString s, RemoteObject u])"
| "video_layout u (OpSetPausePicture c s) = (''SET_PAUSE_IMAGE'', [Int32 c, AString s])"
| "video_layout u (OpSetDeviceDirection c r) = (''SET_DEVICE_DIRECTION'', [Int32 c, Int32 r])"

fun slot_layout :: "nat \<Rightarrow> slot_op \<Rightarrow> string \<times> item list" where
  "slot_layout u (Ss m) = ss_layout m"
| "slot_layout u (Config m) = config_layout m"
| "slot_layout u (Video m) = video_layout u m"
| "slot_layout u (OpInviteToConference l) = (''INVITE_TO_CONFERENCE'', [AStringVector l])"
| "slot_layout u (OpSetReadyToCall t b) = (''SET_READY_TO_CALL'', [Int32 t, ABool b])"
| "slot_layout u (OpUpdateImsRttCallMode c m) = (''UPDATE_RTT_CALL_MODE'', [Int32 c, Int32 m])"

fun global_layout :: "global_op \<Rightarrow> string \<times> item list" where
  "global_layout OpHangUpAllConnection = (''HANG_UP_ALL_CONNECTION'', [])"
| "global_layout (OpClearAllCalls l) = (''CLEAR_ALL_CALLS'', map (\<lambda>i. Block (BCellularCallInfo i)) l)"
| "global_layout (OpRegisterCallManagerCallBack u) = (''REGISTER_CALLBACK'', [RemoteObject u])"
| "global_layout OpUnRegisterCallManagerCallBack = (''UNREGISTER_CALLBACK'', [])"
| "global_layout (OpSetCameraZoom z) = (''SET_CAMERA_ZOOM'', [AFloat z])"

fun out_layout :: "bool \<Rightarrow> out_op \<Rightarrow> string \<times> item list" where
  "out_layout b (OpIsEmergencyPhoneNumber s) = (''EMERGENCY_CALL'', [AString s])"
| "out_layout b OpCanSetCallTransferTime = (''CAN_SET_CALL_TRANSFER_TIME'', [ABool b])"
| "out_layout b OpGetVideoCallWaiting = (''GET_VIDEO_CALL_WAITING'', [])"
| "out_layout b OpGetImsSwitchStatus = (''GET_IMS_SWITCH_STATUS'', [])"
| "out_layout b OpGetCarrierVtConfig = (''GET_CARRIER_VT_CONFIG'', [])"

text \<open>The name of the code, and the items after the token; \<open>n\<close> is the size that most messages begin with, \<open>u\<close> the
  object and \<open>b\<close> the truth value that a message may carry.\<close>

fun layout :: "int \<Rightarrow> nat \<Rightarrow> bool \<Rightarrow> service_request \<Rightarrow> string \<times> item list" where
  "layout n u b (RCall m i) = apsnd (Cons (Int32 n)) (call_layout m i)"
| "layout n u b (RSlot m k) =
     apsnd (\<lambda>l. (case m of OpSetReadyToCall _ _ \<Rightarrow> [] | _ \<Rightarrow> [Int32 n]) @ Int32 k # l) (slot_layout u m)"
| "layout n u b (RGlobal m) =
     apsnd (Cons (Int32 (case m of OpClearAllCalls l \<Rightarrow> int (length l) | _ \<Rightarrow> n))) (global_layout m)"
| "layout n u b (ROut m k) = apsnd (\<lambda>l. Int32 n # Int32 k # l) (out_layout b m)"
| "layout n u b (RMmi k s) = (''IS_MMI_CODE'', [Int32 n, Int32 k, AString s])"
| "layout n u b (RVoNR k) = (''GET_VONR_SWITCH_STATUS'', [Int32 n, Int32 k])"

text \<open>Lists have their bounds, and the surface of a window is the one made of its object.\<close>

fun sendable :: "'x stub_env_scheme \<Rightarrow> nat \<Rightarrow> service_request \<Rightarrow> bool" where
  "sendable e u (RSlot (Video (OpSetPreviewWindow c s w)) k) = (w = e_createSurface e u)"
| "sendable e u (RSlot (Video (OpSetDisplayWindow c s w)) k) = (w = e_createSurface e u)"
| "sendable e u (RSlot (Config (OpSetEmergencyCallList l)) k) = (0 < length l \<and> int (length l) < MAX_ECC_SIZE)"
| "sendable e u (RGlobal (OpClearAllCalls l)) = (0 < length l \<and> int (length l) \<le> MAX_CALL_NUM)"
| "sendable e u _ = True"

text \<open>What the service does with a request, with the result as it goes into the reply.\<close>

definition out_start :: "'x stub_env_scheme \<Rightarrow> bool \<Rightarrow> out_op \<Rightarrow> bool" where
  "out_start e b m =
     (case m of OpCanSetCallTransferTime \<Rightarrow> b | OpGetImsSwitchStatus \<Rightarrow> e_garbageBool e
      | OpGetCarrierVtConfig \<Rightarrow> e_garbageBool e | _ \<Rightarrow> False)"

definition replying :: "('r \<Rightarrow> errcode \<times> item list) \<Rightarrow> ('r, 's, 'a) service_method \<Rightarrow> (errcode \<times> item list, 's, 'a) service_method" where
  "replying f op s = map_option (\<lambda>(r, s', acts). (f r, s', acts)) (op s)"

text \<open>The result code of the request and the reply.\<close>

fun performed ::
    "'x stub_env_scheme \<Rightarrow> bool \<Rightarrow> ('s, 'a) virtuals \<Rightarrow> service_request \<Rightarrow> (errcode \<times> item list, 's, 'a) service_method" where
  "performed e b V (RCall m i) = replying (\<lambda>r. (TELEPHONY_SUCCESS, [AErrcode r])) (on_call V m i)"
| "performed e b V (RSlot (Ss (OpSendUssdResponse c)) k) =
     replying (\<lambda>r. (r, if r = TELEPHONY_SUCCESS then [AErrcode r, ABool False] else [AErrcode r]))
       (on_slot V (Ss (OpSendUssdResponse c)) k)"
| "performed e b V (RSlot m k) = replying (\<lambda>r. (TELEPHONY_SUCCESS, [AErrcode r])) (on_slot V m k)"
| "performed e b V (RGlobal OpUnRegisterCallManagerCallBack) =
     replying (\<lambda>r. (r, [AErrcode r])) (on_global V OpUnRegisterCallManagerCallBack)"
| "performed e b V (RGlobal m) = replying (\<lambda>r. (TELEPHONY_SUCCESS, [AErrcode r])) (on_global V m)"
| "performed e b V (ROut (OpIsEmergencyPhoneNumber s) k) =
     replying (\<lambda>(r, out). (r, if r = TELEPHONY_SUCCESS then [AErrcode r, ABool out] else [AErrcode r]))
       (on_out V (OpIsEmergencyPhoneNumber s) k False)"
| "performed e b V (ROut m k) =
     replying (\<lambda>(r, out). (TELEPHONY_SUCCESS, [ABool out, AErrcode r])) (on_out V m k (out_start e b m))"
| "performed e b V (RMmi k s) = replying (\<lambda>r. (TELEPHONY_SUCCESS, [ABool r])) (IsMmiCode_virtual V k s)"
| "performed e b V (RVoNR k) =
     replying (\<lambda>(r, n). (TELEPHONY_SUCCESS, [Int32 n, AErrcode r])) (GetVoNRState_virtual V k (e_garbageInt e))"

section \<open>Running a method\<close>

lemma func_map:
  "InitFuncMap P e V ''DIAL'' = Some (OnDialInner P V)"
  "InitFuncMap P e V ''HANG_UP'' = Some (OnHangUpInner P V)"
  "InitFuncMap P e V ''REJECT'' = Some (OnRejectInner P V)"
  "InitFuncMap P e V ''ANSWER'' = Some (OnAnswerInner P V)"
  "InitFuncMap P e V ''EMERGENCY_CALL'' = Some (OnIsEmergencyPhoneNumberInner P V)"
  "InitFuncMap P e V ''SET_EMERGENCY_CALL_LIST'' = Some (OnSetEmergencyCallList P V)"
  "InitFuncMap P e V ''HOLD_CALL'' = Some (OnHoldCallInner P V)"
  "InitFuncMap P e V ''UN_HOLD_CALL'' = Some (OnUnHoldCallInner P V)"
  "InitFuncMap P e V ''SWITCH_CALL'' = Some (OnSwitchCallInner P V)"
  "InitFuncMap P e V ''COMBINE_CONFERENCE'' = Some (OnCombineConferenceInner P V)"
  "InitFuncMap P e V ''SEPARATE_CONFERENCE'' = Some (OnSeparateConferenceInner P V)"
  "InitFuncMap P e V ''INVITE_TO_CONFERENCE'' = Some (OnInviteToConferenceInner P V)"
  "InitFuncMap P e V ''KICK_OUT_CONFERENCE'' = Some (OnKickOutFromConferenceInner P V)"
  "InitFuncMap P e V ''HANG_UP_ALL_CONNECTION'' = Some (OnHangUpAllConnectionInner P V)"
  "InitFuncMap P e V ''SET_READY_TO_CALL'' = Some (OnSetReadyToCallInner P V)"
  "InitFuncMap P e V ''CLEAR_ALL_CALLS'' = Some (OnClearAllCallsInner P V)"
  "InitFuncMap P e V ''START_DTMF'' = Some (OnStartDtmfInner P V)"
  "InitFuncMap P e V ''STOP_DTMF'' = Some (OnStopDtmfInner P V)"
  "InitFuncMap P e V ''POST_DIAL_PROCEED'' = Some (OnPostDialProceedInner P V)"
  "InitFuncMap P e V ''SEND_DTMF'' = Some (OnSendDtmfInner P V)"
  "InitFuncMap P e V ''UPDATE_RTT_CALL_MODE'' = Some (OnUpdateImsRttCallModeInner P V)"
  "InitFuncMap P e V ''RTT_CAPABILITY_SETTING'' = Some (OnSetRttCapabilityInner P V)"
  "InitFuncMap P e V ''SET_DOMAIN_PREFERENCE_MODE'' = Some (OnSetDomainPreferenceModeInner P V)"
  "InitFuncMap P e V ''GET_DOMAIN_PREFERENCE_MODE'' = Some (OnGetDomainPreferenceModeInner P V)"
  "InitFuncMap P e V ''SET_IMS_SWITCH_STATUS'' = Some (OnSetImsSwitchStatusInner P V)"
  "InitFuncMap P e V ''GET_IMS_SWITCH_STATUS'' = Some (OnGetImsSwitchStatusInner P e V)"
  "InitFuncMap P e V ''GET_CARRIER_VT_CONFIG'' = Some (OnGetCarrierVtConfigInner P e V)"
  "InitFuncMap P e V ''SET_VONR_SWITCH_STATUS'' = Some (OnSetVoNRStateInner P V)"
  "InitFuncMap P e V ''GET_VONR_SWITCH_STATUS'' = Some (OnGetVoNRStateInner P e V)"
  "InitFuncMap P e V ''SET_IMS_CONFIG_STRING'' = Some (OnSetImsConfigStringInner P V)"
  "InitFuncMap P e V ''SET_IMS_CONFIG_INT'' = Some (OnSetImsConfigIntInner P V)"
  "InitFuncMap P e V ''GET_IMS_CONFIG'' = Some (OnGetImsConfigInner P V)"
  "InitFuncMap P e V ''SET_IMS_FEATURE'' = Some (OnSetImsFeatureValueInner P V)"
  "InitFuncMap P e V ''GET_IMS_FEATURE'' = Some (OnGetImsFeatureValueInner P V)"
  "InitFuncMap P e V ''SET_MUTE'' = Some (OnSetMuteInner P V)"
  "InitFuncMap P e V ''GET_MUTE'' = Some (OnGetMuteInner P V)"
  "InitFuncMap P e V ''CTRL_CAMERA'' = Some (OnControlCameraInner P V)"
  "InitFuncMap P e V ''SET_PREVIEW_WINDOW'' = Some (OnSetPreviewWindowInner P e V)"
  "InitFuncMap P e V ''SET_DISPLAY_WINDOW'' = Some (OnSetDisplayWindowInner P e V)"
  "InitFuncMap P e V ''SET_CAMERA_ZOOM'' = Some (OnSetCameraZoomInner P V)"
  "InitFuncMap P e V ''SET_PAUSE_IMAGE'' = Some (OnSetPausePictureInner P V)"
  "InitFuncMap P e V ''SET_DEVICE_DIRECTION'' = Some (OnSetDeviceDirectionInner P V)"
  "InitFuncMap P e V ''SEND_CALL_MEDIA_MODE_REQUEST'' = Some (OnSendUpdateCallMediaModeRequestInner P V)"
  "InitFuncMap P e V ''SEND_CALL_MEDIA_MODE_RESPONSE'' = Some (OnSendUpdateCallMediaModeResponseInner P V)"
  "InitFuncMap P e V ''CANCEL_CALL_UPGRADE'' = Some (OnCancelCallUpgradeInner P V)"
  "InitFuncMap P e V ''REQUEST_CAMERA_CAPABILITY'' = Some (OnRequestCameraCapabilitiesInner P V)"
  "InitFuncMap P e V ''SET_CALL_TRANSFER'' = Some (OnSetCallTransferInner P V)"
  "InitFuncMap P e V ''GET_CALL_TRANSFER'' = Some (OnGetCallTransferInner P V)"
  "InitFuncMap P e V ''CAN_SET_CALL_TRANSFER_TIME'' = Some (OnCanSetCallTransferTimeInner P V)"
  "InitFuncMap P e V ''SET_CALL_WAITING'' = Some (OnSetCallWaitingInner P V)"
  "InitFuncMap P e V ''GET_CALL_WAITING'' = Some (OnGetCallWaitingInner P V)"
  "InitFuncMap P e V ''SET_CALL_RESTRICTION'' = Some (OnSetCallRestrictionInner P V)"
  "InitFuncMap P e V ''GET_CALL_RESTRICTION'' = Some (OnGetCallRestrictionInner P V)"
  "InitFuncMap P e V ''SET_CALL_RESTRICTION_PWD'' = Some (OnSetCallRestrictionPasswordInner P V)"
  "InitFuncMap P e V ''REGISTER_CALLBACK'' = Some (OnRegisterCallBackInner P V)"
  "InitFuncMap P e V ''UNREGISTER_CALLBACK'' = Some (OnUnRegisterCallBackInner P V)"
  "InitFuncMap P e V ''CLOSE_UNFINISHED_USSD'' = Some (OnCloseUnFinishedUssdInner P V)"
  "InitFuncMap P e V ''GET_VIDEO_CALL_WAITING'' = Some (OnGetVideoCallWaitingInner P V)"
  "InitFuncMap P e V ''SEND_USSD_RESPONSE'' = Some (OnSendUssdResponse P V)"
  "InitFuncMap P e V ''IS_MMI_CODE'' = Some (OnIsMmiCodeInner P V)"
  by (simp_all add: InitFuncMap_def InitDialFuncMap_def InitDtmfFuncMap_def InitConfigFuncMap_svc_def InitVideoFuncMap_def
      InitSupplementFuncMap_svc_def)

definition writes_succeed :: "'p parcel \<Rightarrow> bool" where
  "writes_succeed P \<longleftrightarrow> (\<forall>x p. fst (run_state (wr P x) p))"

lemma wr_run:
  assumes "parcel_laws P C" "writes_succeed P"
  obtains p' where "run_state (wr P x) p = (True, p')" "C p' = C p @ [x]"
  using assms unfolding parcel_laws_def writes_succeed_def by (metis (full_types) prod.collapse)

lemma wp_sized [wp_rules]: "0 < n \<Longrightarrow> n \<le> 10 \<Longrightarrow> wp P C args k Q \<Longrightarrow> wp P C (sized P args) (Int32 n # k) Q"
  unfolding sized_def MAX_SIZE_svc_def by (auto intro!: wp_rules)

lemma wp_call_info [wp_rules]: "wp P C (args i) k Q \<Longrightarrow> wp P C (call_info P args) (Block (BCellularCallInfo i) # k) Q"
  unfolding call_info_def by (auto intro!: wp_rules)

text \<open>The rest of a request whose arguments could be read.\<close>

definition finish :: "'p parcel \<Rightarrow> ('p \<Rightarrow> item list) \<Rightarrow> 'p \<Rightarrow> ('p, errcode) state \<Rightarrow> errcode \<times> item list \<Rightarrow> bool" where
  "finish P C reply m = (\<lambda>(r, items). parcel_laws P C \<longrightarrow> writes_succeed P \<longrightarrow>
     fst (run_state m reply) = r \<and> C (snd (run_state m reply)) = C reply @ items)"

lemma finish_return [simp]: "finish P C reply (State_Monad.return r) (r, [])"
  by (simp add: finish_def)

lemma finish_wr:
  assumes "\<And>p. finish P C p (k True) (r, items)"
  shows "finish P C reply (State_Monad.bind (wr P x) k) (r, x # items)"
proof (cases "parcel_laws P C \<and> writes_succeed P")
  case True
  then obtain p' where "run_state (wr P x) reply = (True, p')" "C p' = C reply @ [x]" by (meson wr_run)
  with assms [of p'] True show ?thesis by (simp add: finish_def)
qed (auto simp: finish_def)

lemma finish_write [simp]:
  "finish P C reply (write_code P r) (TELEPHONY_SUCCESS, [AErrcode r])"
  "finish P C reply (write_out P (r, out)) (TELEPHONY_SUCCESS, [ABool out, AErrcode r])"
  "finish P C reply (write_enabled P (r, out)) (r, if r = TELEPHONY_SUCCESS then [AErrcode r, ABool out] else [AErrcode r])"
  unfolding write_code_def write_out_def write_enabled_def
  by (auto intro!: finish_wr)

lemma answer_with_run:
  assumes laws: "parcel_laws P C" and args: "wp P C args (C data) (\<lambda>v k. v = Accepted q)"
    and fin: "\<And>v s' acts. op q s = Some (v, s', acts) \<Longrightarrow> finish P C reply (respond v) (f v)"
    and op: "replying f (op q) s = Some (rp, s', acts)"
  shows "\<exists>ret reply'. answer_with args op respond data reply s = Returned (ret, reply', s', acts) \<and>
    (writes_succeed P \<longrightarrow> ret = fst rp \<and> C reply' = C reply @ snd rp)"
proof -
  from op obtain v where v: "op q s = Some (v, s', acts)" "rp = f v" by (auto simp: replying_def)
  have "fst (run_state args data) = Accepted q"
    using wpD [OF args laws refl, of "fst (run_state args data)" "snd (run_state args data)"] by simp
  with v show ?thesis
    using fin [OF v(1)] laws by (auto simp: answer_with_def finish_def case_prod_beta)
qed

lemma wp_read_ecc [wp_rules]: "Q c k \<Longrightarrow> wp P C (read_ecc P) (ecc_items c @ k) Q"
  unfolding read_ecc_def ecc_items_def by (cases c) (auto intro!: wp_rules)

lemma wp_read_eccs [wp_rules]:
  "Q l [] \<Longrightarrow> n = length l \<Longrightarrow> wp P C (read_n n (read_ecc P)) (concat (map ecc_items l)) Q"
  using wp_read_n [of P C "read_ecc P" ecc_items Q l "[]"] by (simp add: wp_read_ecc)

lemma wp_read_blocks [wp_rules]:
  assumes "Q l []" "n = length l"
  shows "wp P C (read_calls P n) (map (\<lambda>i. Block (BCellularCallInfo i)) l) Q"
proof -
  let ?some = "\<lambda>i. Some (BCellularCallInfo i)" and ?get = "\<lambda>b. case b of Some (BCellularCallInfo i) \<Rightarrow> Some i | _ \<Rightarrow> None"
  have m: "List.map_filter ?get (map ?some l) = l" by (induction l) (simp_all add: List.map_filter_simps)
  have "wp P C (read_n (length l) (ReadRawData P TCellularCallInfo)) (concat (map (\<lambda>i. [Block (BCellularCallInfo i)]) l) @ [])
      (\<lambda>v k. wp P C (State_Monad.return (List.map_filter ?get v)) k Q)"
    by (rule wp_read_n_map [where g = ?some]) (auto intro!: wp_rules simp: m assms)
  then show ?thesis using assms(2) by (auto simp: read_calls_def intro!: wp_bind)
qed

lemmas method_defs = call_method_def slot_method_def out_method_def

definition request_performed ::
    "'p parcel \<Rightarrow> ('p \<Rightarrow> item list) \<Rightarrow> 'x stub_env_scheme \<Rightarrow> ('s, 'a) virtuals \<Rightarrow> string \<times> item list \<Rightarrow>
     (errcode \<times> item list, 's, 'a) service_method \<Rightarrow> bool" where
  "request_performed P C e V msg op \<longleftrightarrow>
     (\<forall>data reply s rp s' acts. parcel_laws P C \<longrightarrow> C data = snd msg \<longrightarrow> op s = Some (rp, s', acts) \<longrightarrow>
        (\<exists>f ret reply'. InitFuncMap P e V (fst msg) = Some f \<and> f data reply s = Returned (ret, reply', s', acts) \<and>
           (writes_succeed P \<longrightarrow> ret = fst rp \<and> C reply' = C reply @ snd rp)))"

lemma request_performedI:
  assumes "InitFuncMap P e V c = Some (answer_with args op respond)"
    and "wp P C args items (\<lambda>v k. v = Accepted q)"
    and "\<And>reply v. finish P C reply (respond v) (f v)" and "op q = g"
  shows "request_performed P C e V (c, items) (replying f g)"
  unfolding request_performed_def
proof (intro allI impI)
  fix data reply s rp s' acts
  assume "parcel_laws P C" "C data = snd (c, items)" "replying f g s = Some (rp, s', acts)"
  then show "\<exists>fn ret reply'. InitFuncMap P e V (fst (c, items)) = Some fn \<and> fn data reply s = Returned (ret, reply', s', acts) \<and>
      (writes_succeed P \<longrightarrow> ret = fst rp \<and> C reply' = C reply @ snd rp)"
    using assms answer_with_run [where P = P and C = C and args = args and op = op and respond = respond and f = f] by auto
qed

lemma call_method_performed:
  assumes "InitFuncMap P e V c = Some (call_method P V args)" and "wp P C (sized P args) items (\<lambda>v k. v = Accepted (m, i))"
  shows "request_performed P C e V (c, items) (replying (\<lambda>r. (TELEPHONY_SUCCESS, [AErrcode r])) (on_call V m i))"
  using request_performedI [of P e V c "sized P args" "\<lambda>(m, i). on_call V m i" "write_code P" C items "(m, i)"
      "\<lambda>r. (TELEPHONY_SUCCESS, [AErrcode r])"] assms by (simp add: call_method_def)

lemma slot_method_performed:
  assumes "InitFuncMap P e V c = Some (slot_method P V args)" and "wp P C (sized P args) items (\<lambda>v k. v = Accepted (m, i))"
  shows "request_performed P C e V (c, items) (replying (\<lambda>r. (TELEPHONY_SUCCESS, [AErrcode r])) (on_slot V m i))"
  using request_performedI [of P e V c "sized P args" "\<lambda>(m, i). on_slot V m i" "write_code P" C items "(m, i)"
      "\<lambda>r. (TELEPHONY_SUCCESS, [AErrcode r])"] assms by (simp add: slot_method_def)

lemma out_method_performed:
  assumes "InitFuncMap P e V c = Some (out_method P V args)" and "wp P C (sized P args) items (\<lambda>v k. v = Accepted (m, i, b))"
  shows "request_performed P C e V (c, items) (replying (\<lambda>(r, out). (TELEPHONY_SUCCESS, [ABool out, AErrcode r])) (on_out V m i b))"
  using request_performedI [of P e V c "sized P args" "\<lambda>(m, i, b). on_out V m i b" "write_out P" C items "(m, i, b)"
      "\<lambda>(r, out). (TELEPHONY_SUCCESS, [ABool out, AErrcode r])"] assms by (auto simp: out_method_def split_paired_all)

lemmas call_methods = OnDialInner_def OnHangUpInner_def OnRejectInner_def
          OnAnswerInner_def OnHoldCallInner_def OnUnHoldCallInner_def OnSwitchCallInner_def OnCombineConferenceInner_def
          OnSeparateConferenceInner_def OnKickOutFromConferenceInner_def OnStartDtmfInner_def OnStopDtmfInner_def
          OnSendDtmfInner_def OnPostDialProceedInner_def OnSendUpdateCallMediaModeRequestInner_def
          OnSendUpdateCallMediaModeResponseInner_def

lemma call_request:
  assumes n: "0 < n" "n \<le> 10"
  shows "request_performed P C e V (layout n u b (RCall m i)) (performed e b V (RCall m i))"
  by (cases m; simp; rule call_method_performed, unfold func_map call_methods, rule refl)
    (auto intro!: wp_rules simp: n)

lemmas slot_methods = OnInviteToConferenceInner_def OnSetEmergencyCallList_def OnUpdateImsRttCallModeInner_def OnSetRttCapabilityInner_def OnSetCallTransferInner_def OnSetCallRestrictionInner_def OnGetCallTransferInner_def OnSetCallWaitingInner_def OnGetCallWaitingInner_def OnGetCallRestrictionInner_def OnSetCallRestrictionPasswordInner_def OnCloseUnFinishedUssdInner_def OnSetDomainPreferenceModeInner_def OnGetDomainPreferenceModeInner_def OnSetImsSwitchStatusInner_def OnSetVoNRStateInner_def OnSetImsConfigStringInner_def OnSetImsConfigIntInner_def OnGetImsConfigInner_def OnSetImsFeatureValueInner_def OnGetImsFeatureValueInner_def OnSetMuteInner_def OnGetMuteInner_def OnCancelCallUpgradeInner_def OnRequestCameraCapabilitiesInner_def OnControlCameraInner_def OnSetPreviewWindowInner_def OnSetDisplayWindowInner_def OnSetPausePictureInner_def OnSetDeviceDirectionInner_def

definition plain_slot :: "slot_op \<Rightarrow> bool" where
  "plain_slot m \<longleftrightarrow> (case m of OpSetReadyToCall _ _ \<Rightarrow> False | Ss (OpSendUssdResponse _) \<Rightarrow> False | _ \<Rightarrow> True)"

lemma slot_request:
  assumes n: "0 < n" "n \<le> 10" and ok: "sendable e u (RSlot m k)" and m: "plain_slot m"
  shows "request_performed P C e V (layout n u b (RSlot m k)) (performed e b V (RSlot m k))"
  apply (cases m)
  subgoal for x1 using m by (cases x1; simp add: plain_slot_def)
      (rule slot_method_performed, unfold func_map slot_methods, rule refl, auto intro!: wp_rules simp: n)+
  subgoal for x2 using ok by (cases x2; simp)
      (rule slot_method_performed, unfold func_map slot_methods, rule refl, auto intro!: wp_rules simp: n)+
  subgoal for x3 using ok by (cases x3; simp)
      (rule slot_method_performed, unfold func_map slot_methods, rule refl, auto intro!: wp_rules simp: n)+
  subgoal for l by simp
      (rule slot_method_performed, unfold func_map slot_methods, rule refl, auto intro!: wp_rules simp: n)
  subgoal using m by (simp add: plain_slot_def)
  subgoal for c md by simp
      (rule slot_method_performed, unfold func_map slot_methods, rule refl, auto intro!: wp_rules simp: n)
  done

lemma ussd_request:
  assumes n: "0 < n" "n \<le> 10"
  shows "request_performed P C e V (layout n u b (RSlot (Ss (OpSendUssdResponse c)) k))
    (performed e b V (RSlot (Ss (OpSendUssdResponse c)) k))"
  by (simp, rule request_performedI [where q = "(Ss (OpSendUssdResponse c), k)"], unfold func_map OnSendUssdResponse_def,
      rule refl) (use n in \<open>auto intro!: wp_rules simp: MAX_CALL_NUM_def\<close>)

lemma ready_request:
  "request_performed P C e V (layout n u b (RSlot (OpSetReadyToCall t r) k)) (performed e b V (RSlot (OpSetReadyToCall t r) k))"
  by (simp, rule request_performedI [where q = "(OpSetReadyToCall t r, k)"], unfold func_map OnSetReadyToCallInner_def,
      rule refl) (auto intro!: wp_rules finish_wr)

lemma global_request:
  assumes n: "0 < n" "n \<le> 10" and ok: "sendable e u (RGlobal m)"
  shows "request_performed P C e V (layout n u b (RGlobal m)) (performed e b V (RGlobal m))"
proof (cases m)
  case OpHangUpAllConnection
  show ?thesis unfolding OpHangUpAllConnection
    by (simp, rule request_performedI [where q = OpHangUpAllConnection], unfold func_map OnHangUpAllConnectionInner_def, rule refl)
      (auto intro!: wp_rules simp: n)
next
  case (OpClearAllCalls l)
  have "wp P C (read_calls P (nat (int (length l)))) (map (\<lambda>i. Block (BCellularCallInfo i)) l)
     (\<lambda>callInfos k. wp P C (accept (OpClearAllCalls callInfos)) k (\<lambda>v k. v = Accepted (OpClearAllCalls l)))"
    by (rule wp_read_blocks, rule wp_return) simp_all
  note read = this
  have l: "\<not> (int (length l) \<le> 0 \<or> MAX_CALL_NUM < int (length l))" using ok OpClearAllCalls by auto
  have "wp P C (do { size \<leftarrow> ReadInt32 P;
        if size \<le> 0 \<or> MAX_CALL_NUM < size then State_Monad.return (Refused TELEPHONY_ERR_ARGUMENT_INVALID)
        else do { callInfos \<leftarrow> read_calls P (nat size); accept (OpClearAllCalls callInfos) } })
      (Int32 (int (length l)) # map (\<lambda>i. Block (BCellularCallInfo i)) l) (\<lambda>v k. v = Accepted (OpClearAllCalls l))"
    by (rule wp_bind, rule wp_ReadInt32, subst if_not_P [OF l], rule wp_bind, rule read)
  from request_performedI [OF func_map(16) [unfolded OnClearAllCallsInner_def] this finish_write(1) refl, of e V]
  show ?thesis unfolding OpClearAllCalls by simp
next
  case (OpRegisterCallManagerCallBack x)
  show ?thesis unfolding OpRegisterCallManagerCallBack request_performed_def
  proof (intro allI impI)
    fix data reply s rp s' acts
    assume laws: "parcel_laws P C"
      and data: "C data = snd (layout n u b (RGlobal (OpRegisterCallManagerCallBack x)))"
      and op: "performed e b V (RGlobal (OpRegisterCallManagerCallBack x)) s = Some (rp, s', acts)"
    let ?args = "sized P (do { remote \<leftarrow> ReadRemoteObject P; accept remote })"
    have args: "wp P C ?args (C data) (\<lambda>v k. v = Accepted (Some x))"
      using n by (simp add: data) (auto intro!: wp_rules)
    obtain r where r: "on_global V (OpRegisterCallManagerCallBack x) s = Some (r, s', acts)" "rp = (TELEPHONY_SUCCESS, [AErrcode r])"
      using op by (auto simp: replying_def)
    have a: "fst (run_state ?args data) = Accepted (Some x)"
      using wpD [OF args laws refl, of "fst (run_state ?args data)" "snd (run_state ?args data)"] by simp
    have w: "C (snd (run_state (wr P (AErrcode r)) reply)) = C reply @ [AErrcode r]" if "writes_succeed P"
      by (rule wr_run [OF laws that, of "AErrcode r" reply]) simp
    show "\<exists>f ret reply'. InitFuncMap P e V (fst (layout n u b (RGlobal (OpRegisterCallManagerCallBack x)))) = Some f \<and>
        f data reply s = Returned (ret, reply', s', acts) \<and> (writes_succeed P \<longrightarrow> ret = fst rp \<and> C reply' = C reply @ snd rp)"
      using a r w by (auto simp: func_map OnRegisterCallBackInner_def answer_with_def case_prod_beta)
  qed
next
  case OpUnRegisterCallManagerCallBack
  show ?thesis unfolding OpUnRegisterCallManagerCallBack
    by (simp, rule request_performedI [where q = OpUnRegisterCallManagerCallBack], unfold func_map OnUnRegisterCallBackInner_def,
        rule refl) (auto intro!: wp_rules finish_wr simp: n)
next
  case (OpSetCameraZoom z)
  show ?thesis unfolding OpSetCameraZoom
    by (simp, rule request_performedI [where q = "OpSetCameraZoom z"], unfold func_map OnSetCameraZoomInner_def, rule refl)
      (auto intro!: wp_rules simp: n)
qed

lemma out_request:
  assumes n: "0 < n" "n \<le> 10"
  shows "request_performed P C e V (layout n u b (ROut m k)) (performed e b V (ROut m k))"
proof (cases "\<exists>s. m = OpIsEmergencyPhoneNumber s")
  case True
  then obtain s where m: "m = OpIsEmergencyPhoneNumber s" by blast
  show ?thesis unfolding m
    by (simp, rule request_performedI [where q = "(OpIsEmergencyPhoneNumber s, k, False)"],
        unfold func_map OnIsEmergencyPhoneNumberInner_def, rule refl)
      (auto intro!: wp_rules simp: n split_paired_all)
next
  case False
  then show ?thesis
    by (cases m; simp add: out_start_def)
      (rule out_method_performed, unfold func_map OnCanSetCallTransferTimeInner_def OnGetVideoCallWaitingInner_def
        OnGetImsSwitchStatusInner_def OnGetCarrierVtConfigInner_def, rule refl, auto intro!: wp_rules simp: n)+
qed

lemma mmi_request:
  assumes n: "0 < n" "n \<le> 10"
  shows "request_performed P C e V (layout n u b (RMmi k s)) (performed e b V (RMmi k s))"
  by (simp, rule request_performedI [where q = "(k, s)"], unfold func_map OnIsMmiCodeInner_def, rule refl)
    (auto intro!: wp_rules finish_wr simp: n)

lemma vonr_request:
  assumes n: "0 < n" "n \<le> 10"
  shows "request_performed P C e V (layout n u b (RVoNR k)) (performed e b V (RVoNR k))"
  by (simp, rule request_performedI [where q = "(k, e_garbageInt e)"], unfold func_map OnGetVoNRStateInner_def, rule refl)
    (auto intro!: wp_rules finish_wr simp: n split_paired_all)

lemma request_ok:
  assumes n: "0 < n" "n \<le> 10" and ok: "sendable e u r"
  shows "request_performed P C e V (layout n u b r) (performed e b V r)"
proof (cases r)
  case (RSlot m k)
  show ?thesis
  proof (cases "plain_slot m")
    case True
    then show ?thesis using slot_request [OF n _ True] ok RSlot by simp
  next
    case False
    then consider t f where "m = OpSetReadyToCall t f" | c where "m = Ss (OpSendUssdResponse c)"
      by (cases m) (auto simp: plain_slot_def split: ss_op.splits)
    then show ?thesis using RSlot ussd_request [OF n] ready_request by cases simp_all
  qed
qed (use call_request [OF n] global_request [OF n] out_request [OF n] mmi_request [OF n] vonr_request [OF n] ok in simp_all)

section \<open>One call for a message\<close>

definition virtual_step :: "('s, 'a) virtuals \<Rightarrow> 's \<Rightarrow> 's \<Rightarrow> 'a list \<Rightarrow> bool" where
  "virtual_step V s s' acts \<longleftrightarrow>
     (\<exists>m i r. on_call V m i s = Some (r, s', acts)) \<or> (\<exists>m k r. on_slot V m k s = Some (r, s', acts)) \<or>
     (\<exists>m r. on_global V m s = Some (r, s', acts)) \<or> (\<exists>m k b r. on_out V m k b s = Some (r, s', acts)) \<or>
     (\<exists>k n r. GetVoNRState_virtual V k n s = Some (r, s', acts)) \<or> (\<exists>k n r. IsMmiCode_virtual V k n s = Some (r, s', acts))"

lemma virtual_stepI:
  "on_call V m i s = Some (r, s', acts) \<Longrightarrow> virtual_step V s s' acts"
  "on_slot V sm k s = Some (r, s', acts) \<Longrightarrow> virtual_step V s s' acts"
  "on_global V g s = Some (r, s', acts) \<Longrightarrow> virtual_step V s s' acts"
  "on_out V om k b s = Some (ro, s', acts) \<Longrightarrow> virtual_step V s s' acts"
  "GetVoNRState_virtual V k n s = Some (rn, s', acts) \<Longrightarrow> virtual_step V s s' acts"
  "IsMmiCode_virtual V k t s = Some (b, s', acts) \<Longrightarrow> virtual_step V s s' acts"
  unfolding virtual_step_def by blast+

definition calls_once :: "('s, 'a) virtuals \<Rightarrow> ('p, 's, 'a) stub_method \<Rightarrow> bool" where
  "calls_once V f \<longleftrightarrow> (\<forall>data reply s r reply' s' acts. f data reply s = Returned (r, reply', s', acts) \<longrightarrow>
     (s' = s \<and> acts = []) \<or> virtual_step V s s' acts)"

lemma calls_once_answer:
  assumes "\<And>q s v s' acts. op q s = Some (v, s', acts) \<Longrightarrow> (s' = s \<and> acts = []) \<or> virtual_step V s s' acts"
  shows "calls_once V (answer_with args op respond)"
  unfolding calls_once_def answer_with_def
  by (auto split: reading.splits option.splits prod.splits dest!: assms)

lemma calls_once_methods:
  "calls_once V (call_method P V a)" "calls_once V (slot_method P V b)" "calls_once V (out_method P V c)"
  unfolding call_method_def slot_method_def out_method_def
  by (rule calls_once_answer; force simp: virtual_step_def)+

lemma calls_once_update: "pred_option (calls_once V) (m c) \<Longrightarrow> calls_once V f \<Longrightarrow> pred_option (calls_once V) ((m(k \<mapsto> f)) c)"
  by simp

lemma func_map_calls_once: "pred_option (calls_once V) (InitFuncMap P e V c)"
  unfolding InitFuncMap_def InitDialFuncMap_def InitDtmfFuncMap_def InitConfigFuncMap_svc_def InitVideoFuncMap_def
      InitSupplementFuncMap_svc_def call_methods slot_methods
      OnCanSetCallTransferTimeInner_def OnGetVideoCallWaitingInner_def OnGetImsSwitchStatusInner_def OnGetCarrierVtConfigInner_def
  apply (intro calls_once_update calls_once_methods)
  apply (simp_all add: OnGetVoNRStateInner_def OnIsMmiCodeInner_def OnSetCameraZoomInner_def OnUnRegisterCallBackInner_def
    OnRegisterCallBackInner_def OnClearAllCallsInner_def OnHangUpAllConnectionInner_def OnIsEmergencyPhoneNumberInner_def
    OnSetReadyToCallInner_def OnSendUssdResponse_def)
  apply (rule calls_once_answer; fastforce simp: virtual_step_def split: option.splits)+
  done

lemma message_calls_once:
  assumes "OnRemoteRequest_svc P e V code data reply s = Returned (r, reply', s', acts)"
  shows "(s' = s \<and> acts = []) \<or> virtual_step V s s' acts"
  using assms func_map_calls_once [of V P e "e_codeName e code"]
  by (auto simp: OnRemoteRequest_svc_def calls_once_def case_prod_beta Let_def split: if_splits option.splits)

section \<open>Sizes\<close>

definition refuses_size :: "'p parcel \<Rightarrow> ('p \<Rightarrow> item list) \<Rightarrow> errcode \<Rightarrow> ('p, 's, 'a) stub_method \<Rightarrow> bool" where
  "refuses_size P C err f \<longleftrightarrow> (\<forall>data reply s n r. parcel_laws P C \<longrightarrow> C data = Int32 n # r \<longrightarrow> n \<le> 0 \<or> 10 < n \<longrightarrow>
     f data reply s = Returned (err, reply, s, []))"

lemma refuses_sizeI:
  assumes "\<And>n r. n \<le> 0 \<or> 10 < n \<Longrightarrow> wp P C args (Int32 n # r) (\<lambda>v k. v = Refused err)"
  shows "refuses_size P C err (answer_with args op respond)"
  unfolding refuses_size_def
proof (intro allI impI)
  fix data reply s n r
  assume laws: "parcel_laws P C" and data: "C data = Int32 n # r" and n: "n \<le> 0 \<or> 10 < n"
  have "fst (run_state args data) = Refused err"
    using wpD [OF assms [OF n] laws data, of "fst (run_state args data)" "snd (run_state args data)"] by simp
  then show "answer_with args op respond data reply s = Returned (err, reply, s, [])" by (simp add: answer_with_def)
qed

lemma refuses_sized [simp]: "refuses_size P C TELEPHONY_ERR_FAIL (answer_with (sized P args) op respond)"
  by (rule refuses_sizeI) (auto simp: sized_def MAX_SIZE_svc_def intro!: wp_bind wp_ReadInt32 wp_return)

lemma refuses_methods [simp]:
  "refuses_size P C TELEPHONY_ERR_FAIL (call_method P V a)" "refuses_size P C TELEPHONY_ERR_FAIL (slot_method P V b)"
  "refuses_size P C TELEPHONY_ERR_FAIL (out_method P V c)"
  by (simp_all add: call_method_def slot_method_def out_method_def)

lemma refuses_lists [simp]:
  "refuses_size P C TELEPHONY_ERR_ARGUMENT_INVALID (OnClearAllCallsInner P V)"
  "refuses_size P C TELEPHONY_ERR_FAIL (OnSendUssdResponse P V)"
  unfolding OnClearAllCallsInner_def OnSendUssdResponse_def
  by (rule refuses_sizeI; auto simp: MAX_CALL_NUM_def intro!: wp_bind wp_ReadInt32 wp_return)+

definition size_error :: "string \<Rightarrow> errcode" where
  "size_error c = (if c = ''CLEAR_ALL_CALLS'' then TELEPHONY_ERR_ARGUMENT_INVALID else TELEPHONY_ERR_FAIL)"

definition all_refuse :: "'p parcel \<Rightarrow> ('p \<Rightarrow> item list) \<Rightarrow> ('p, 's, 'a) func_map \<Rightarrow> bool" where
  "all_refuse P C m \<longleftrightarrow> (\<forall>c f. c \<noteq> ''SET_READY_TO_CALL'' \<longrightarrow> m c = Some f \<longrightarrow> refuses_size P C (size_error c) f)"

lemma all_refuse_update:
  "all_refuse P C m \<Longrightarrow> k = ''SET_READY_TO_CALL'' \<or> refuses_size P C (size_error k) f \<Longrightarrow> all_refuse P C (m(k \<mapsto> f))"
  by (auto simp: all_refuse_def)

lemma func_map_refuses: "all_refuse P C (InitFuncMap P e V)"
  unfolding InitFuncMap_def InitDialFuncMap_def InitDtmfFuncMap_def InitConfigFuncMap_svc_def InitVideoFuncMap_def
      InitSupplementFuncMap_svc_def call_methods slot_methods
      OnCanSetCallTransferTimeInner_def OnGetVideoCallWaitingInner_def OnGetImsSwitchStatusInner_def OnGetCarrierVtConfigInner_def
    OnGetVoNRStateInner_def OnIsMmiCodeInner_def OnSetCameraZoomInner_def OnUnRegisterCallBackInner_def
    OnRegisterCallBackInner_def OnHangUpAllConnectionInner_def OnIsEmergencyPhoneNumberInner_def
  by (intro all_refuse_update; simp add: size_error_def all_refuse_def)

section \<open>The service behind the stub\<close>

text \<open>The virtual methods are those of \<open>Service\<close>; \<open>R\<close> has the ones of the parts that are not modelled there.\<close>

datatype 'b svc_act = CallAct act | SsAct ss_act | Woken CallType | OtherAct 'b

definition acting :: "('a \<Rightarrow> 'b) \<Rightarrow> 'r \<times> 's \<times> 'a list \<Rightarrow> ('r \<times> 's \<times> 'b list) option" where
  "acting f = (\<lambda>(r, s, acts). Some (r, s, map f acts))"

lemma acting_Some [simp]: "acting f x = Some (r, s, acts) \<longleftrightarrow> (\<exists>a. x = (r, s, a) \<and> acts = map f a)"
  by (auto simp: acting_def split: prod.splits)

fun call_of :: "call_op \<Rightarrow> CellularCallInfo \<Rightarrow> service_call option" where
  "call_of OpDial i = Some (CallDial i)"
| "call_of (OpHangUp t) i = Some (CallHangUp i t)"
| "call_of OpReject i = Some (CallReject i)"
| "call_of OpAnswer i = Some (CallAnswer i)"
| "call_of OpHoldCall i = Some (CallHold i)"
| "call_of OpUnHoldCall i = Some (CallUnHold i)"
| "call_of OpSwitchCall i = Some (CallSwitch i)"
| "call_of OpCombineConference i = Some (CallCombine i)"
| "call_of OpSeparateConference i = Some (CallSeparate i)"
| "call_of OpKickOutFromConference i = Some (CallKickOut i)"
| "call_of (OpStartDtmf c) i = Some (CallStartDtmf c i)"
| "call_of OpStopDtmf i = Some (CallStopDtmf i)"
| "call_of (OpSendDtmf c) i = Some (CallSendDtmf c i)"
| "call_of (OpPostDialProceed b) i = Some (CallPostDial i b)"
| "call_of (OpSendUpdateCallMediaModeRequest m) i = None"
| "call_of (OpSendUpdateCallMediaModeResponse m) i = None"

definition run_service_call ::
    "'x service_env_scheme \<Rightarrow> service_call \<Rightarrow> (errcode, CellularCallService, 'b svc_act) service_method" where
  "run_service_call e c s = Option.bind (run_call e c s) (acting CallAct)"

fun service_ss ::
    "'x service_env_scheme \<Rightarrow> 'y ss_env_scheme \<Rightarrow> ss_op \<Rightarrow> int \<Rightarrow> CellularCallService \<Rightarrow>
     errcode \<times> CellularCallService \<times> ss_act list" where
  "service_ss e se (OpSetCallTransferInfo i) k s = Service_SetCallTransferInfo e se k i s"
| "service_ss e se (OpGetCallTransferInfo t b) k s = Service_GetCallTransferInfo e se k t b s"
| "service_ss e se (OpSetCallWaiting b) k s = Service_SetCallWaiting e se k b s"
| "service_ss e se OpGetCallWaiting k s = Service_GetCallWaiting e se k s"
| "service_ss e se (OpSetCallRestriction i) k s = Service_SetCallRestriction e se k i s"
| "service_ss e se (OpGetCallRestriction f) k s = Service_GetCallRestriction e se k f s"
| "service_ss e se (OpSetCallRestrictionPassword f x y) k s = Service_SetCallRestrictionPassword e se k f x y s"
| "service_ss e se OpCloseUnFinishedUssd k s = Service_CloseUnFinishedUssd e se k s"
| "service_ss e se (OpSendUssdResponse c) k s = Service_SendUssdResponse e se k c s"

definition service_virtuals ::
    "'x service_env_scheme \<Rightarrow> 'y ss_env_scheme \<Rightarrow> (CellularCallService, 'b svc_act) virtuals \<Rightarrow>
     (CellularCallService, 'b svc_act) virtuals" where
  "service_virtuals e se R = R\<lparr>
     on_call := (\<lambda>m i s. case call_of m i of Some c \<Rightarrow> run_service_call e c s | None \<Rightarrow> on_call R m i s),
     on_slot := (\<lambda>m k s. case m of
         Ss op \<Rightarrow> acting SsAct (service_ss e se op k s)
       | OpInviteToConference l \<Rightarrow> run_service_call e (CallInvite k l) s
       | OpSetReadyToCall t b \<Rightarrow> acting Woken (Service_SetReadyToCall e k b s)
       | OpUpdateImsRttCallMode c mode \<Rightarrow> run_service_call e (CallRttMode k c mode) s
       | _ \<Rightarrow> on_slot R m k s),
     on_global := (\<lambda>m s. case m of
         OpHangUpAllConnection \<Rightarrow> run_service_call e CallHangUpAll s
       | OpClearAllCalls l \<Rightarrow> run_service_call e (CallClearAll l) s
       | _ \<Rightarrow> on_global R m s),
     on_out := (\<lambda>m k b s. case m of
         OpIsEmergencyPhoneNumber n \<Rightarrow> Some (IsEmergencyPhoneNumber e k n b, s, [])
       | OpCanSetCallTransferTime \<Rightarrow> (case Service_CanSetCallTransferTime e se k b of (r, b', acts) \<Rightarrow> Some ((r, b'), s, map SsAct acts))
       | _ \<Rightarrow> on_out R m k b s),
     IsMmiCode_virtual := (\<lambda>k n s. Some (Service_IsMmiCode e k n, s, []))\<rparr>"

definition keeps_calls :: "(CellularCallService, 'a) virtuals \<Rightarrow> bool" where
  "keeps_calls V \<longleftrightarrow> (\<forall>n s s' acts. virtual_step V s s' acts \<longrightarrow> service_inv n s \<longrightarrow> service_inv n s')"

lemma on_table_inv:
  "service_inv n s \<Longrightarrow> service_inv n (fst (snd (on_table k f s)))"
  by (auto simp: on_table_def service_inv_def case_prod_beta Let_def split: option.splits)

lemma service_ss_inv: "service_inv n s \<Longrightarrow> service_inv n (fst (snd (service_ss e se m k s)))"
  by (cases m) (auto simp: Service_SetCallTransferInfo_def Service_GetCallTransferInfo_def Service_SetCallWaiting_def
      Service_GetCallWaiting_def Service_SetCallRestriction_def Service_GetCallRestriction_def
      Service_SetCallRestrictionPassword_def Service_CloseUnFinishedUssd_def Service_SendUssdResponse_def slot_guard_def
      read_only_def case_prod_beta Let_def intro!: on_table_inv, simp_all add: service_inv_def)

lemma run_service_call_inv:
  "service_inv (e_slotCount e) s \<Longrightarrow> run_service_call e c s = Some (r, s', acts) \<Longrightarrow> service_inv (e_slotCount e) s'"
  by (auto simp: run_service_call_def split: Option.bind_splits dest: run_call_inv [OF _ refl])

lemma service_virtuals_inv:
  assumes R: "keeps_calls R" and inv: "service_inv (e_slotCount e) s" and v: "virtual_step (service_virtuals e se R) s s' acts"
  shows "service_inv (e_slotCount e) s'"
proof -
  have "service_inv (e_slotCount e) s'" if "virtual_step R s s' acts" using R inv that by (auto simp: keeps_calls_def)
  note keeps = virtual_stepI [of R, THEN this] run_service_call_inv [OF inv]
  note ss = service_ss_inv [OF inv, of e se] and ready = SetReadyToCall_inv [OF inv, of e]
  from v consider (call) m i r where "on_call (service_virtuals e se R) m i s = Some (r, s', acts)"
    | (slot) m k r where "on_slot (service_virtuals e se R) m k s = Some (r, s', acts)"
    | (global) m r where "on_global (service_virtuals e se R) m s = Some (r, s', acts)"
    | (out) m k b r where "on_out (service_virtuals e se R) m k b s = Some (r, s', acts)"
    | (vonr) k n r where "GetVoNRState_virtual (service_virtuals e se R) k n s = Some (r, s', acts)"
    | (mmi) k n r where "IsMmiCode_virtual (service_virtuals e se R) k n s = Some (r, s', acts)"
    unfolding virtual_step_def by blast
  then show ?thesis
  proof cases
    case call
    then show ?thesis by (auto simp: service_virtuals_def split: option.splits dest: keeps)
  next
    case slot
    with ss ready show ?thesis
      by (cases m) (auto simp: service_virtuals_def dest: keeps, (metis fst_conv snd_conv)+)
  next
    case global
    then show ?thesis by (cases m) (auto simp: service_virtuals_def dest: keeps)
  next
    case out
    with inv show ?thesis by (cases m) (auto simp: service_virtuals_def dest: keeps split: prod.splits)
  next
    case vonr
    then show ?thesis by (auto simp: service_virtuals_def dest: keeps)
  next
    case mmi
    with inv show ?thesis by (auto simp: service_virtuals_def)
  qed
qed

section \<open>Properties\<close>

text \<open>C33: every message of the call manager that is laid out as the stub reads it, from a caller with the permission, calls
  exactly the method it names with exactly the arguments it carries, once, whatever the length the list of calls or of emergency numbers has
  within its bounds; the service is left as the method leaves it, and if the reply can be written, it holds the method's result
  and nothing else.\<close>

theorem service_requests_performed:
  assumes laws: "parcel_laws P C"
    and message: "C data = Token (e_descriptor e) # snd (layout n u b r)" "e_codeName e code = fst (layout n u b r)"
    and bounds: "0 < n" "n \<le> 10" "sendable e u r"
    and caller: "e_callingUid e = FOUNDATION_UID \<or> e_hasPermission e"
    and op: "performed e b V r s = Some ((ret, items), s', acts)"
  shows "\<exists>ret' reply'. OnRemoteRequest_svc P e V code data reply s = Returned (ret', reply', s', acts) \<and>
    (writes_succeed P \<longrightarrow> ret' = ret \<and> C reply' = C reply @ items)"
proof -
  obtain data' where d: "run_state (ReadInterfaceToken P) data = (e_descriptor e, data')" "C data' = snd (layout n u b r)"
    using wpD [OF wp_ReadInterfaceToken [of "\<lambda>v k. v = e_descriptor e \<and> k = snd (layout n u b r)" "e_descriptor e"] laws message(1)]
    by (metis prod.collapse)
  show ?thesis
    using request_ok [OF bounds, of P C V b] d laws op message(2) caller
    unfolding request_performed_def OnRemoteRequest_svc_def by fastforce
qed

text \<open>Concrete surroundings, and methods that refuse everything.\<close>

definition sample_stub_env :: "string \<Rightarrow> stub_env" where
  "sample_stub_env c =
     \<lparr>e_descriptor = ''svc'', e_codeName = (\<lambda>_. c), e_callingUid = 5523, e_hasPermission = False,
      e_defaultReply = (\<lambda>_. TELEPHONY_ERROR), e_createSurface = Some, e_garbageBool = True, e_garbageInt = 7\<rparr>"

definition refusing_virtuals :: "('s, 'a) virtuals" where
  "refusing_virtuals =
     \<lparr>on_call = (\<lambda>m i s. Some (TELEPHONY_ERR_FAIL, s, [])), on_slot = (\<lambda>m k s. Some (TELEPHONY_ERR_FAIL, s, [])),
      on_global = (\<lambda>m s. Some (TELEPHONY_ERR_FAIL, s, [])), on_out = (\<lambda>m k b s. Some ((TELEPHONY_ERR_FAIL, b), s, [])),
      GetVoNRState_virtual = (\<lambda>k n s. Some ((TELEPHONY_ERR_FAIL, n), s, [])), IsMmiCode_virtual = (\<lambda>k n s. Some (False, s, []))\<rparr>"

lemma refusing_keeps: "keeps_calls refusing_virtuals"
  by (auto simp: keeps_calls_def virtual_step_def refusing_virtuals_def)

abbreviation sample_virtuals :: "(CellularCallService, unit svc_act) virtuals" where
  "sample_virtuals \<equiv> service_virtuals sample_service_env (sample_ss_env True) refusing_virtuals"

lemma sample_ready:
  "performed e b sample_virtuals (RSlot (OpSetReadyToCall 1 True) 0) (sample_service\<lparr>readyToCall := (\<lambda>_. False)\<rparr>) =
     Some ((TELEPHONY_SUCCESS, [AErrcode TELEPHONY_SUCCESS]), sample_service\<lparr>readyToCall := (\<lambda>_. False)(0 := True)\<rparr>, [Woken TYPE_CS])"
  by (simp add: replying_def service_virtuals_def acting_def Service_SetReadyToCall_def slot_guard_def ready_control_def
      SetReadyToCall_def sample_service_def GetCsControl_def GetImsControl_def GetSatelliteControl_def)

theorem service_requests_performed_witness:
  "\<exists>ret reply'. OnRemoteRequest_svc (list_parcel False) (sample_stub_env ''SET_READY_TO_CALL'') sample_virtuals 0
      [Token ''svc'', Int32 0, Int32 1, ABool True] [] (sample_service\<lparr>readyToCall := (\<lambda>_. False)\<rparr>) =
      Returned (ret, reply', sample_service\<lparr>readyToCall := (\<lambda>_. False)(0 := True)\<rparr>, [Woken TYPE_CS])"
  using service_requests_performed [OF list_parcel_laws, of "[Token ''svc'', Int32 0, Int32 1, ABool True]"
      "sample_stub_env ''SET_READY_TO_CALL''" 1 0 False "RSlot (OpSetReadyToCall 1 True) 0" 0, OF _ _ _ _ _ _ sample_ready, of False "[]"]
  by (auto simp: sample_stub_env_def FOUNDATION_UID_def)

text \<open>C34: what does not reach the service. A message for another interface, one from a caller that is neither the foundation process nor has the
  permission, whatever it holds, and one whose size is not between 1 and 10 are answered with the code for it, write nothing
  into the reply and leave the service alone. SET_READY_TO_CALL alone has no size.\<close>

theorem stub_refuses:
  assumes laws: "parcel_laws P C" and known: "InitFuncMap P e V (e_codeName e code) \<noteq> None"
  shows "(C data = Token d # r \<longrightarrow> d \<noteq> e_descriptor e \<longrightarrow>
      OnRemoteRequest_svc P e V code data reply s = Returned (TELEPHONY_ERR_DESCRIPTOR_MISMATCH, reply, s, [])) \<and>
    (e_callingUid e \<noteq> FOUNDATION_UID \<longrightarrow> \<not> e_hasPermission e \<longrightarrow>
      OnRemoteRequest_svc P e V code data reply s \<in>
        {Returned (TELEPHONY_ERR_DESCRIPTOR_MISMATCH, reply, s, []), Returned (TELEPHONY_ERR_PERMISSION_ERR, reply, s, [])}) \<and>
    (C data = Token (e_descriptor e) # Int32 n # r \<longrightarrow> n \<le> 0 \<or> 10 < n \<longrightarrow> e_codeName e code \<noteq> ''SET_READY_TO_CALL'' \<longrightarrow>
      e_callingUid e = FOUNDATION_UID \<or> e_hasPermission e \<longrightarrow>
      OnRemoteRequest_svc P e V code data reply s =
        Returned (if e_codeName e code = ''CLEAR_ALL_CALLS'' then TELEPHONY_ERR_ARGUMENT_INVALID else TELEPHONY_ERR_FAIL, reply, s, []))"
proof -
  have token: "\<exists>data'. run_state (ReadInterfaceToken P) data = (t, data') \<and> C data' = k" if "C data = Token t # k" for t k
    using wpD [OF wp_ReadInterfaceToken [of "\<lambda>v k'. v = t \<and> k' = k" t] laws that] by (metis prod.collapse)
  obtain f where f: "InitFuncMap P e V (e_codeName e code) = Some f" using known by blast
  have size: "f data' reply s = Returned (size_error (e_codeName e code), reply, s, [])"
    if "C data' = Int32 n # r" "n \<le> 0 \<or> 10 < n" "e_codeName e code \<noteq> ''SET_READY_TO_CALL''" for data'
    using func_map_refuses [of P C e V] f laws that by (auto simp: all_refuse_def refuses_size_def)
  show ?thesis
  proof (intro conjI impI)
    assume "C data = Token d # r" "d \<noteq> e_descriptor e"
    with token show "OnRemoteRequest_svc P e V code data reply s = Returned (TELEPHONY_ERR_DESCRIPTOR_MISMATCH, reply, s, [])"
      by (fastforce simp: OnRemoteRequest_svc_def)
  next
    assume "e_callingUid e \<noteq> FOUNDATION_UID" "\<not> e_hasPermission e"
    with f show "OnRemoteRequest_svc P e V code data reply s \<in>
        {Returned (TELEPHONY_ERR_DESCRIPTOR_MISMATCH, reply, s, []), Returned (TELEPHONY_ERR_PERMISSION_ERR, reply, s, [])}"
      by (simp add: OnRemoteRequest_svc_def case_prod_beta Let_def)
  next
    assume msg: "C data = Token (e_descriptor e) # Int32 n # r" and n: "n \<le> 0 \<or> 10 < n"
      and c: "e_codeName e code \<noteq> ''SET_READY_TO_CALL''" "e_callingUid e = FOUNDATION_UID \<or> e_hasPermission e"
    obtain data' where "run_state (ReadInterfaceToken P) data = (e_descriptor e, data')" "C data' = Int32 n # r"
      using token [OF msg] by blast
    with size [OF _ n c(1)] c(2) f show "OnRemoteRequest_svc P e V code data reply s =
        Returned (if e_codeName e code = ''CLEAR_ALL_CALLS'' then TELEPHONY_ERR_ARGUMENT_INVALID else TELEPHONY_ERR_FAIL, reply, s, [])"
      by (auto simp: OnRemoteRequest_svc_def size_error_def)
  qed
qed

theorem stub_refuses_witness:
  "OnRemoteRequest_svc (list_parcel False) (sample_stub_env ''HANG_UP'') sample_virtuals 0
      [Token ''svc'', Int32 11] [] sample_service = Returned (TELEPHONY_ERR_FAIL, [], sample_service, [])"
  using stub_refuses [of "list_parcel False" id "sample_stub_env ''HANG_UP''" sample_virtuals 0
      "[Token ''svc'', Int32 11]" "''svc''" "[]" "[]" sample_service 11]
  by (simp add: list_parcel_laws sample_stub_env_def FOUNDATION_UID_def func_map)

text \<open>The messages keep the service well formed. Whatever arrives, from whatever caller, readable or not: when the stub
  has answered, only existing slots have controls and every control is well formed, if it was so before. The methods that
  are not modelled are assumed to keep it.\<close>

theorem messages_keep_invariant:
  assumes "service_inv (e_slotCount e) s" and "keeps_calls R"
    and "OnRemoteRequest_svc P se (service_virtuals e ss R) code data reply s = Returned (r, reply', s', acts)"
  shows "service_inv (e_slotCount e) s'"
  using message_calls_once [OF assms(3)] service_virtuals_inv [OF assms(2,1), of ss s' acts] assms(1) by auto

theorem messages_keep_invariant_witness:
  "\<exists>r reply' s' acts. OnRemoteRequest_svc (list_parcel False) (sample_stub_env ''HANG_UP_ALL_CONNECTION'') sample_virtuals 0
      [Token ''svc'', Int32 1] [] sample_service = Returned (r, reply', s', acts) \<and> service_inv 2 s'"
proof -
  have inv: "service_inv (e_slotCount sample_service_env) sample_service"
    by (auto simp: service_inv_def sample_service_def valid_slots_def sample_cs_ctl_inv)
  obtain r reply' s' acts where "OnRemoteRequest_svc (list_parcel False) (sample_stub_env ''HANG_UP_ALL_CONNECTION'')
      sample_virtuals 0 [Token ''svc'', Int32 1] [] sample_service = Returned (r, reply', s', acts)"
    by (simp add: OnRemoteRequest_svc_def ReadInterfaceToken_def list_parcel_def sample_stub_env_def func_map FOUNDATION_UID_def
        OnHangUpAllConnectionInner_def answer_with_def sized_def ReadInt32_def MAX_SIZE_svc_def service_virtuals_def
        run_service_call_def acting_def case_prod_beta)
  with messages_keep_invariant [OF inv refusing_keeps this] show ?thesis by simp
qed

text \<open>A message that sets the barring password without the passwords: the null pointers are made strings.\<close>

lemma missing_password:
  assumes laws: "parcel_laws P C" and empty: "\<And>p t. C p = [] \<Longrightarrow> fst (run_state (rd P t) p) = None"
    and message: "C data = Token (e_descriptor e) # [Int32 n, Int32 k, ARestrictionType f]" "0 < n" "n \<le> 10"
      "e_codeName e code = ''SET_CALL_RESTRICTION_PWD''"
    and caller: "e_callingUid e = FOUNDATION_UID \<or> e_hasPermission e"
  shows "OnRemoteRequest_svc P e V code data reply s = Crashed"
proof -
  have none: "wp P C (ReadCString P) [] (\<lambda>v k. v = None)"
    using empty by (auto simp: wp_def ReadCString_def case_prod_beta)
  let ?args = "sized P (do {
     slot \<leftarrow> ReadInt32 P;
     facType \<leftarrow> ReadRestrictionType P;
     oldPassword \<leftarrow> ReadCString P;
     newPassword \<leftarrow> ReadCString P;
     State_Monad.return (case (oldPassword, newPassword) of
       (Some oldPw, Some newPw) \<Rightarrow> Accepted (Ss (OpSetCallRestrictionPassword facType oldPw newPw), slot)
     | _ \<Rightarrow> NullString) })"
  have args: "wp P C ?args [Int32 n, Int32 k, ARestrictionType f] (\<lambda>v k. v = NullString)"
    using message(2,3) by (intro wp_sized wp_bind wp_ReadInt32 wp_ReadRestrictionType wp_mono [OF none])
      (auto simp: wp_def case_prod_beta)
  obtain data' where d: "run_state (ReadInterfaceToken P) data = (e_descriptor e, data')"
      "C data' = [Int32 n, Int32 k, ARestrictionType f]"
    using wpD [OF wp_ReadInterfaceToken [of "\<lambda>v k'. v = e_descriptor e \<and> k' = [Int32 n, Int32 k, ARestrictionType f]" "e_descriptor e"]
        laws message(1)] by (metis prod.collapse)
  have "fst (run_state ?args data') = NullString"
    using wpD [OF args laws d(2), of "fst (run_state ?args data')" "snd (run_state ?args data')"] by simp
  then show ?thesis
    using d caller message(4)
    by (auto simp: OnRemoteRequest_svc_def func_map OnSetCallRestrictionPasswordInner_def slot_method_def answer_with_def)
qed

end
