(* ===== verification/ConfigRequest.thy ===== *)
theory ConfigRequest
  imports ImsRequest Emergency
begin

text \<open>
  \<^verbatim>\<open>services/utils/src/config_request.cpp\<close>: how the configuration of a slot reaches the IMS service or the
  modem. The effects are requests to the IMS client (\<open>ConfigIms\<close>, in the vocabulary of \<^verbatim>\<open>ImsRequest\<close>),
  requests to the core service (\<open>ConfigCore\<close>, \<^verbatim>\<open>CoreManagerInner\<close> with the handler of the slot), and the few other
  things the configuration does. The code dereferences the service singleton without a test; the configuration
  runs in the service, so it is there.
\<close>

section \<open>Effects\<close>

datatype core_req =
    CoreSetCallPreferenceMode int int
  | CoreGetCallPreferenceMode int
  | CoreSetVoNRSwitch int int
  | CoreSetMute int int
  | CoreGetMute int
  | CoreGetEmergencyCallList int
  | CoreSetEmergencyCallList int "EmergencyCall list"

datatype cfg_act =
    ConfigIms config_request
  | ConfigCore core_req
  | ReportGetImsFeatureResult errcode int
  | RedcapFactoryReset int
  | RedcapPreferredNetwork int

record request_env = svc_env +
  e_configResult :: "config_request \<Rightarrow> errcode"
  e_coreEccResult :: "int \<Rightarrow> EmergencyCall list \<Rightarrow> errcode"

section \<open>The two ways to a service\<close>

text \<open>Requests for which the IMS service has to be there: \<^verbatim>\<open>imsCallClient == nullptr ||
  imsCallClient->GetImsCallProxy() == nullptr\<close>.\<close>

definition config_ims :: "'x request_env_scheme \<Rightarrow> config_request \<Rightarrow> errcode \<times> cfg_act list" where
  "config_ims e rq =
     (if \<not> e_imsClient e \<or> \<not> e_imsProxy e then (CALL_ERR_RESOURCE_UNAVAILABLE, [])
      else (e_configResult e rq, [ConfigIms rq]))"

text \<open>Requests for which the modem stands in when there is no IMS service.\<close>

definition config_ims_or_core ::
    "'x request_env_scheme \<Rightarrow> int \<Rightarrow> config_request \<Rightarrow> core_req \<Rightarrow> errcode \<times> cfg_act list" where
  "config_ims_or_core e slotId rq core =
     (if NeedCallImsService e then
        if \<not> e_imsClient e then (CALL_ERR_RESOURCE_UNAVAILABLE, [])
        else (e_configResult e rq, [ConfigIms rq])
      else if \<not> e_handler e slotId then (CALL_ERR_RESOURCE_UNAVAILABLE, [])
      else (TELEPHONY_SUCCESS, [ConfigCore core]))"

definition config_core :: "'x request_env_scheme \<Rightarrow> int \<Rightarrow> core_req \<Rightarrow> errcode \<times> cfg_act list" where
  "config_core e slotId core =
     (if \<not> e_handler e slotId then (CALL_ERR_RESOURCE_UNAVAILABLE, []) else (TELEPHONY_SUCCESS, [ConfigCore core]))"

section \<open>The requests\<close>

definition SetDomainPreferenceModeRequest :: "'x request_env_scheme \<Rightarrow> int \<Rightarrow> int \<Rightarrow> errcode \<times> cfg_act list" where
  "SetDomainPreferenceModeRequest e slotId md =
     config_ims_or_core e slotId (RqSetDomainPreferenceMode slotId md) (CoreSetCallPreferenceMode slotId md)"

definition GetDomainPreferenceModeRequest :: "'x request_env_scheme \<Rightarrow> int \<Rightarrow> errcode \<times> cfg_act list" where
  "GetDomainPreferenceModeRequest e slotId =
     config_ims_or_core e slotId (RqGetDomainPreferenceMode slotId) (CoreGetCallPreferenceMode slotId)"

definition SetImsSwitchStatusRequest :: "'x request_env_scheme \<Rightarrow> int \<Rightarrow> bool \<Rightarrow> errcode \<times> cfg_act list" where
  "SetImsSwitchStatusRequest e slotId active = config_ims e (RqSetImsSwitchStatus slotId (of_bool active))"

definition SetCarrierVtConfigRequest :: "'x request_env_scheme \<Rightarrow> int \<Rightarrow> bool \<Rightarrow> errcode \<times> cfg_act list" where
  "SetCarrierVtConfigRequest e slotId active = config_ims e (RqSetCarrierVtConfig slotId (of_bool active))"

definition SetVoNRSwitchStatusRequest :: "'x request_env_scheme \<Rightarrow> int \<Rightarrow> int \<Rightarrow> errcode \<times> cfg_act list" where
  "SetVoNRSwitchStatusRequest e slotId st = config_core e slotId (CoreSetVoNRSwitch slotId st)"

definition GetImsSwitchStatusRequest_req :: "'x request_env_scheme \<Rightarrow> int \<Rightarrow> errcode \<times> cfg_act list" where
  "GetImsSwitchStatusRequest_req e slotId = config_ims e (RqGetImsSwitchStatus slotId)"

definition SetImsConfigRequest_string :: "'x request_env_scheme \<Rightarrow> int \<Rightarrow> string \<Rightarrow> errcode \<times> cfg_act list" where
  "SetImsConfigRequest_string e cfg txt = config_ims e (RqSetImsConfig_string cfg txt)"

definition SetImsConfigRequest_int :: "'x request_env_scheme \<Rightarrow> int \<Rightarrow> int \<Rightarrow> errcode \<times> cfg_act list" where
  "SetImsConfigRequest_int e cfg val = config_ims e (RqSetImsConfig_int cfg val)"

definition GetImsConfigRequest :: "'x request_env_scheme \<Rightarrow> int \<Rightarrow> errcode \<times> cfg_act list" where
  "GetImsConfigRequest e cfg = config_ims e (RqGetImsConfig cfg)"

definition SetImsFeatureValueRequest :: "'x request_env_scheme \<Rightarrow> int \<Rightarrow> int \<Rightarrow> errcode \<times> cfg_act list" where
  "SetImsFeatureValueRequest e ftype val = config_ims e (RqSetImsFeatureValue ftype val)"

text \<open>The out-parameter \<^verbatim>\<open>value\<close> goes down to \<^verbatim>\<open>ImsCallProxy::GetImsFeatureValue\<close>, which does not write
  to it: the caller's variable is as it was.\<close>

definition GetImsFeatureValueRequest :: "'x request_env_scheme \<Rightarrow> int \<Rightarrow> int \<Rightarrow> (errcode \<times> int) \<times> cfg_act list" where
  "GetImsFeatureValueRequest e ftype val =
     (let (r, acts) = config_ims e (RqGetImsFeatureValue ftype) in ((r, val), acts))"

definition SetMuteRequest :: "'x request_env_scheme \<Rightarrow> int \<Rightarrow> int \<Rightarrow> errcode \<times> cfg_act list" where
  "SetMuteRequest e slotId mt = config_ims_or_core e slotId (RqSetMute slotId mt) (CoreSetMute slotId mt)"

definition GetMuteRequest :: "'x request_env_scheme \<Rightarrow> int \<Rightarrow> errcode \<times> cfg_act list" where
  "GetMuteRequest e slotId = config_ims_or_core e slotId (RqGetMute slotId) (CoreGetMute slotId)"

definition GetEmergencyCallListRequest :: "'x request_env_scheme \<Rightarrow> int \<Rightarrow> errcode \<times> cfg_act list" where
  "GetEmergencyCallListRequest e slotId = config_core e slotId (CoreGetEmergencyCallList slotId)"

definition SetEmergencyCallListRequest ::
    "'x request_env_scheme \<Rightarrow> int \<Rightarrow> EmergencyCall list \<Rightarrow> errcode \<times> cfg_act list" where
  "SetEmergencyCallListRequest e slotId eccVec =
     (if \<not> e_handler e slotId then (CALL_ERR_RESOURCE_UNAVAILABLE, [])
      else (e_coreEccResult e slotId eccVec, [ConfigCore (CoreSetEmergencyCallList slotId eccVec)]))"

definition UpdateImsCapabilities_req ::
    "'x request_env_scheme \<Rightarrow> int \<Rightarrow> ImsCapability list \<Rightarrow> errcode \<times> cfg_act list" where
  "UpdateImsCapabilities_req e slotId caps = config_ims e (RqUpdateImsCapabilities slotId caps)"

definition NotifyOperatorConfigChanged_req :: "'x request_env_scheme \<Rightarrow> int \<Rightarrow> int \<Rightarrow> errcode \<times> cfg_act list" where
  "NotifyOperatorConfigChanged_req e slotId st = config_ims e (RqNotifyOperatorConfigChanged slotId st)"

text \<open>The client's result is dropped.\<close>

definition SetVideoCallWaiting_req :: "'x request_env_scheme \<Rightarrow> int \<Rightarrow> bool \<Rightarrow> errcode \<times> cfg_act list" where
  "SetVideoCallWaiting_req e slotId activate =
     (if \<not> e_imsClient e \<or> \<not> e_imsProxy e then (CALL_ERR_RESOURCE_UNAVAILABLE, [])
      else (TELEPHONY_SUCCESS, [ConfigIms (RqSetVideoCallWaiting slotId activate)]))"

lemmas config_request_defs =
  SetDomainPreferenceModeRequest_def GetDomainPreferenceModeRequest_def SetImsSwitchStatusRequest_def
  SetCarrierVtConfigRequest_def SetVoNRSwitchStatusRequest_def GetImsSwitchStatusRequest_req_def
  SetImsConfigRequest_string_def SetImsConfigRequest_int_def GetImsConfigRequest_def SetImsFeatureValueRequest_def
  GetImsFeatureValueRequest_def SetMuteRequest_def GetMuteRequest_def GetEmergencyCallListRequest_def
  SetEmergencyCallListRequest_def UpdateImsCapabilities_req_def NotifyOperatorConfigChanged_req_def
  SetVideoCallWaiting_req_def config_ims_def config_ims_or_core_def config_core_def

end
