(* ===== verification/RdbHelper.thy ===== *)
theory RdbHelper
  imports Prelude
begin

text \<open>
  \<^verbatim>\<open>services/common/src/cellular_call_rdb_helper.cpp\<close>: the queries of the emergency-number table and of the
  settings table. The data-share service is a parameter: whether a helper and a result set could be had, and the
  operations of the result set, each giving the value of its out-parameter after the call (and so what it leaves there
  when it fails). \<^verbatim>\<open>EccNum\<close> and the names of the columns (\<^verbatim>\<open>EccData\<close>) belong to another
  repository.

  The loop of \<^verbatim>\<open>QueryEccList\<close> passes its own counter to \<^verbatim>\<open>GetColumnIndex\<close>, so that after a
  round the counter is the number of the last column looked up. \<open>ecc_rows\<close> is this loop as it is, a partial function.
\<close>

section \<open>Result sets\<close>

datatype ecc_column = ECC_ID | ECC_NAME | ECC_MCC | ECC_MNC | ECC_NUMERIC | ECC_WITH_CARD | ECC_NO_CARD | ECC_FAKE

record EccNum =
  n_id :: int
  n_name :: string
  n_mcc :: string
  n_mnc :: string
  n_numeric :: string
  n_withcard :: string
  n_nocard :: string
  n_fake :: string

text \<open>A result set at a cursor: \<open>GoToRow_rs row cursor\<close> is the cursor after the call, \<open>GetColumnIndex_rs name old\<close>,
  \<open>GetInt_rs cursor column old\<close> and \<open>GetString_rs cursor column old\<close> the out-parameter after the call.\<close>

record result_set =
  GetRowCount_rs :: int
  GoToRow_rs :: "int \<Rightarrow> int \<Rightarrow> int"
  GetColumnIndex_rs :: "ecc_column \<Rightarrow> int \<Rightarrow> int"
  GetInt_rs :: "int \<Rightarrow> int \<Rightarrow> int \<Rightarrow> int"
  GetString_rs :: "int \<Rightarrow> int \<Rightarrow> string \<Rightarrow> string"

section \<open>QueryEccList\<close>

text \<open>One round of the loop: the row that was read, the cursor, and the counter as it is then. \<open>bean\<close> is the
  default-constructed structure.\<close>

definition ecc_row :: "EccNum \<Rightarrow> result_set \<Rightarrow> int \<Rightarrow> int \<Rightarrow> EccNum \<times> int \<times> int" where
  "ecc_row bean rs index cursor =
     (let cursor' = GoToRow_rs rs index cursor;
          i1 = GetColumnIndex_rs rs ECC_ID index;
          b1 = bean\<lparr>n_id := GetInt_rs rs cursor' i1 (n_id bean)\<rparr>;
          i2 = GetColumnIndex_rs rs ECC_NAME i1;
          b2 = b1\<lparr>n_name := GetString_rs rs cursor' i2 (n_name bean)\<rparr>;
          i3 = GetColumnIndex_rs rs ECC_MCC i2;
          b3 = b2\<lparr>n_mcc := GetString_rs rs cursor' i3 (n_mcc bean)\<rparr>;
          i4 = GetColumnIndex_rs rs ECC_MNC i3;
          b4 = b3\<lparr>n_mnc := GetString_rs rs cursor' i4 (n_mnc bean)\<rparr>;
          i5 = GetColumnIndex_rs rs ECC_NUMERIC i4;
          b5 = b4\<lparr>n_numeric := GetString_rs rs cursor' i5 (n_numeric bean)\<rparr>;
          i6 = GetColumnIndex_rs rs ECC_WITH_CARD i5;
          b6 = b5\<lparr>n_withcard := GetString_rs rs cursor' i6 (n_withcard bean)\<rparr>;
          i7 = GetColumnIndex_rs rs ECC_NO_CARD i6;
          b7 = b6\<lparr>n_nocard := GetString_rs rs cursor' i7 (n_nocard bean)\<rparr>;
          i8 = GetColumnIndex_rs rs ECC_FAKE i7;
          b8 = b7\<lparr>n_fake := GetString_rs rs cursor' i8 (n_fake bean)\<rparr>
      in (b8, cursor', i8))"

partial_function (option) ecc_rows ::
    "EccNum \<Rightarrow> result_set \<Rightarrow> int \<Rightarrow> int \<Rightarrow> EccNum list \<Rightarrow> EccNum list option" where
  "ecc_rows bean rs index cursor eccVec =
     (if index < GetRowCount_rs rs then
        let (b, cursor', index') = ecc_row bean rs index cursor in
        ecc_rows bean rs (index' + 1) cursor' (eccVec @ [b])
      else Some eccVec)"

text \<open>What the data-share service offers: \<open>None\<close> is no helper, \<open>Some None\<close> a query without a result set. A
  new result set stands before its first row.\<close>

definition QueryEccList ::
    "EccNum \<Rightarrow> (string \<Rightarrow> result_set option) option \<Rightarrow> string \<Rightarrow> EccNum list \<Rightarrow> (errcode \<times> EccNum list) option" where
  "QueryEccList bean share numeric eccVec =
     (case share of
        None \<Rightarrow> Some (TELEPHONY_ERR_LOCAL_PTR_NULL, eccVec)
      | Some query \<Rightarrow>
          (case query numeric of
             None \<Rightarrow> Some (TELEPHONY_ERR_LOCAL_PTR_NULL, eccVec)
           | Some rs \<Rightarrow> map_option (\<lambda>v. (TELEPHONY_SUCCESS, v)) (ecc_rows bean rs 0 (- 1) eccVec)))"

section \<open>Query\<close>

text \<open>The settings table: its rows have a column \<^verbatim>\<open>VALUE\<close>. \<open>GoToFirstRow_set\<close> is \<open>None\<close> where it does not
  answer \<^verbatim>\<open>E_OK\<close>.\<close>

record setting_set =
  GoToFirstRow_set :: "int option"
  GetColumnIndex_set :: "int \<Rightarrow> int"
  GetString_set :: "int \<Rightarrow> int \<Rightarrow> string \<Rightarrow> string"

definition Query ::
    "(string \<Rightarrow> string \<Rightarrow> setting_set option) option \<Rightarrow> string \<Rightarrow> string \<Rightarrow> string \<Rightarrow> errcode \<times> string" where
  "Query share uriString key val =
     (case share of
        None \<Rightarrow> (TELEPHONY_ERR_LOCAL_PTR_NULL, val)
      | Some query \<Rightarrow>
          (case query uriString key of
             None \<Rightarrow> (TELEPHONY_ERR_LOCAL_PTR_NULL, val)
           | Some rs \<Rightarrow>
               (case GoToFirstRow_set rs of
                  None \<Rightarrow> (TELEPHONY_ERR_DATABASE_READ_FAIL, val)
                | Some cursor \<Rightarrow>
                    let columnIndex = GetColumnIndex_set rs 0 in
                    (TELEPHONY_SUCCESS, GetString_set rs cursor columnIndex val))))"

section \<open>What the loop does\<close>

text \<open>A table with its columns in a fixed place: a look-up finds the column whatever the variable held.\<close>

definition fixed_columns :: "(ecc_column \<Rightarrow> int) \<Rightarrow> result_set \<Rightarrow> bool" where
  "fixed_columns col rs \<longleftrightarrow> (\<forall>c old. GetColumnIndex_rs rs c old = col c)"

text \<open>Row \<open>r\<close> of such a table.\<close>

definition row_of :: "EccNum \<Rightarrow> (ecc_column \<Rightarrow> int) \<Rightarrow> result_set \<Rightarrow> int \<Rightarrow> EccNum" where
  "row_of bean col rs cursor =
     \<lparr>n_id = GetInt_rs rs cursor (col ECC_ID) (n_id bean),
      n_name = GetString_rs rs cursor (col ECC_NAME) (n_name bean),
      n_mcc = GetString_rs rs cursor (col ECC_MCC) (n_mcc bean),
      n_mnc = GetString_rs rs cursor (col ECC_MNC) (n_mnc bean),
      n_numeric = GetString_rs rs cursor (col ECC_NUMERIC) (n_numeric bean),
      n_withcard = GetString_rs rs cursor (col ECC_WITH_CARD) (n_withcard bean),
      n_nocard = GetString_rs rs cursor (col ECC_NO_CARD) (n_nocard bean),
      n_fake = GetString_rs rs cursor (col ECC_FAKE) (n_fake bean)\<rparr>"

lemma ecc_row_fixed:
  "fixed_columns col rs \<Longrightarrow>
   ecc_row bean rs index cursor = (row_of bean col rs (GoToRow_rs rs index cursor), GoToRow_rs rs index cursor, col ECC_FAKE)"
  by (cases bean) (simp add: ecc_row_def row_of_def fixed_columns_def Let_def)

text \<open>Once the counter stands behind the last column, it comes back there after every round.\<close>

lemma ecc_rows_stuck:
  assumes "fixed_columns col rs"
  shows "ecc_rows bean rs index cursor vec = Some v \<Longrightarrow> index = col ECC_FAKE + 1 \<Longrightarrow> GetRowCount_rs rs \<le> index"
proof (rule ecc_rows.raw_induct
    [where P = "\<lambda>b r i c w v. r = rs \<longrightarrow> i = col ECC_FAKE + 1 \<longrightarrow> GetRowCount_rs rs \<le> i", rule_format])
  fix f b r i c w v
  assume IH: "\<And>b r i c w v. f b r i c w = Some v \<Longrightarrow> r = rs \<Longrightarrow> i = col ECC_FAKE + 1 \<Longrightarrow> GetRowCount_rs rs \<le> i"
    and body: "(if i < GetRowCount_rs r then let (x, c', i') = ecc_row b r i c in f b r (i' + 1) c' (w @ [x]) else Some w) = Some v"
    and i: "r = rs" "i = col ECC_FAKE + 1"
  show "GetRowCount_rs rs \<le> i"
  proof (rule ccontr)
    assume more: "\<not> GetRowCount_rs rs \<le> i"
    with body i ecc_row_fixed [OF assms, of b i c]
    have "f b rs i (GoToRow_rs rs i c) (w @ [row_of b col rs (GoToRow_rs rs i c)]) = Some v" by simp
    from IH [OF this refl i(2)] more show False by blast
  qed
qed simp_all

lemma ecc_rows_done: "GetRowCount_rs rs \<le> index \<Longrightarrow> ecc_rows bean rs index cursor vec = Some vec"
  by (subst ecc_rows.simps) simp

lemma ecc_rows_fixed:
  assumes "fixed_columns col rs"
  shows "ecc_rows bean rs 0 cursor vec =
    (if GetRowCount_rs rs \<le> 0 then Some vec
     else if GetRowCount_rs rs \<le> col ECC_FAKE + 1
       then Some (vec @ [row_of bean col rs (GoToRow_rs rs 0 cursor)])
     else None)"
proof (cases "GetRowCount_rs rs \<le> 0")
  case False
  let ?i = "col ECC_FAKE + 1"
  let ?c = "GoToRow_rs rs 0 cursor"
  let ?v = "vec @ [row_of bean col rs ?c]"
  have step: "ecc_rows bean rs 0 cursor vec = ecc_rows bean rs ?i ?c ?v"
    using False by (subst ecc_rows.simps) (simp add: ecc_row_fixed [OF assms])
  show ?thesis
  proof (cases "GetRowCount_rs rs \<le> ?i")
    case True
    with False step show ?thesis by (simp add: ecc_rows_done)
  next
    case more: False
    then have "ecc_rows bean rs ?i ?c ?v = None"
      using ecc_rows_stuck [OF assms, of bean ?i ?c ?v] by (cases "ecc_rows bean rs ?i ?c ?v") auto
    with False more step show ?thesis by simp
  qed
qed (simp add: ecc_rows_done)

text \<open>The query of the emergency-number table gives its first row only, and does not return when the table has more rows
  than the place of the last column admits.\<close>

lemma QueryEccList_fixed:
  assumes "share = Some query" and "query numeric = Some rs" and "fixed_columns col rs"
  shows "QueryEccList bean share numeric vec =
    (if GetRowCount_rs rs \<le> 0 then Some (TELEPHONY_SUCCESS, vec)
     else if GetRowCount_rs rs \<le> col ECC_FAKE + 1
       then Some (TELEPHONY_SUCCESS, vec @ [row_of bean col rs (GoToRow_rs rs 0 (- 1))])
     else None)"
  using assms by (simp add: QueryEccList_def ecc_rows_fixed)

end
