(* ===== verification/CallConfig.thy ===== *)
theory CallConfig
  imports ConfigRequest RdbHelper ControlBase
begin

text \<open>
  \<^verbatim>\<open>CellularCallConfig\<close> (\<^verbatim>\<open>services/utils/src/cellular_call_config.cpp\<close>), first part: its state, the
  operator configuration, the IMS and VoNR switches and the capabilities that are sent to the IMS service. The
  emergency-number lists are in \<open>EccConfig\<close>.

  The maps of the class are static, so there is one state; each operation takes it and gives the new one. Reading a
  missing entry with \<^verbatim>\<open>operator[]\<close> also stores the default; \<open>entry\<close> only gives the default, which no later
  reader can tell apart. The persistent stores (system parameters, the IMS-switch column of the SIM database) are the
  component \<open>world\<close>, an arbitrary type with the operations of a \<open>store\<close>; what is known of them is \<open>store_laws\<close>. The
  answers of the core service during one operation, and the constants of other repositories, are the environment.
  The record \<open>trace\<close> collects the effects in their order. Locks, logs and telemetry are left out.
\<close>

section \<open>State\<close>

record cellularNetworkState =
  isInService :: bool
  isRoaming :: bool

record EccList =
  plmn :: string
  eccInfoList :: "EmergencyCall list"

record OperatorSettings =
  imsSwitchOnByDefault :: "int \<rightharpoonup> bool"
  hideImsSwitch :: "int \<rightharpoonup> bool"
  volteSupported :: "int \<rightharpoonup> bool"
  carrierVtAvailable :: "int \<rightharpoonup> bool"
  nrModeSupportedList :: "int \<rightharpoonup> int list"
  volteProvisioningSupported :: "int \<rightharpoonup> bool"
  ssOverUtSupported :: "int \<rightharpoonup> bool"
  imsGbaRequired :: "int \<rightharpoonup> bool"
  utProvisioningSupported :: "int \<rightharpoonup> bool"
  imsPreferForEmergency :: "int \<rightharpoonup> bool"
  callWaitingServiceClass :: "int \<rightharpoonup> int"
  imsCallDisconnectResoninfoMapping :: "int \<rightharpoonup> string list"
  forceVolteSwitchOn :: "int \<rightharpoonup> bool"
  videoCallWaiting :: "int \<rightharpoonup> bool"
  imsSipCauseEnable :: "int \<rightharpoonup> bool"

record SwitchSettings = OperatorSettings +
  vonrSwithStatus :: "int \<rightharpoonup> int"
  shouldCheckImsAfterNvUpdate :: "int \<rightharpoonup> bool"
  networkServiceState :: "int \<rightharpoonup> cellularNetworkState"
  readyToCall_cfg :: "int \<rightharpoonup> bool"
  modeMap :: "int \<rightharpoonup> int"
  modeTempMap :: "int \<rightharpoonup> int"
  lastDisconnectCode :: int
  isOperatorConfigInit :: bool
  isRadioOn_cfg :: bool
  isOperatorConfigChanged :: bool

record EccSettings = SwitchSettings +
  eccListRadioMap :: "int \<rightharpoonup> EmergencyCall list"
  eccList3gppHasSim :: "EmergencyCall list"
  eccList3gppNoSim :: "EmergencyCall list"
  allEccList :: "int \<rightharpoonup> EmergencyCall list"
  simState :: "int \<rightharpoonup> int"
  curPlmn :: "int \<rightharpoonup> string"
  hplmnEccList :: "EccList list"
  currentPlmnEccList :: "EccList list"
  hplmnFakeEccList :: "EccList list"

record 'w CellularCallConfig = EccSettings +
  world :: 'w
  trace :: "cfg_act list"

definition entry :: "'v \<Rightarrow> (int \<rightharpoonup> 'v) \<Rightarrow> int \<Rightarrow> 'v" where
  "entry d m k = (case m k of None \<Rightarrow> d | Some v \<Rightarrow> v)"

definition insert_absent :: "int \<Rightarrow> 'v \<Rightarrow> (int \<rightharpoonup> 'v) \<Rightarrow> (int \<rightharpoonup> 'v)" where
  "insert_absent k v m = (case m k of None \<Rightarrow> m(k \<mapsto> v) | Some _ \<Rightarrow> m)"

lemma entry_simps [simp]:
  "entry d (m(k \<mapsto> v)) k = v"
  "k \<noteq> k' \<Longrightarrow> entry d (m(k \<mapsto> v)) k' = entry d m k'"
  "m k = Some v \<Longrightarrow> entry d m k = v"
  by (simp_all add: entry_def)

lemma dom_insert_absent [simp]: "dom (insert_absent k v m) = insert k (dom m)"
  by (auto simp: insert_absent_def split: option.splits)

section \<open>Surroundings\<close>

datatype SimState = SIM_STATE_READY | SIM_STATE_LOADED | SimState_other int

datatype NrMode = NR_MODE_NSA_AND_SA | NR_MODE_SA_ONLY | NrMode_other int

record OperatorConfig =
  stringArrayValue :: "string \<rightharpoonup> string list"
  intArrayValue :: "string \<rightharpoonup> int list"
  intValue :: "string \<rightharpoonup> int"
  boolValue :: "string \<rightharpoonup> bool"

text \<open>The persistent stores. \<open>GetParameter_st key default length\<close> is the string in a zeroed buffer of that length
  after the call; \<open>QueryImsSwitch_st slot old\<close> gives the result and the out-parameter after the call.\<close>

record 'w store =
  SetParameter_st :: "string \<Rightarrow> string \<Rightarrow> 'w \<Rightarrow> 'w"
  GetParameter_st :: "string \<Rightarrow> string \<Rightarrow> nat \<Rightarrow> 'w \<Rightarrow> string"
  GetIntParameter_st :: "string \<Rightarrow> int \<Rightarrow> 'w \<Rightarrow> int"
  SaveImsSwitch_st :: "int \<Rightarrow> int \<Rightarrow> 'w \<Rightarrow> errcode \<times> 'w"
  QueryImsSwitch_st :: "int \<Rightarrow> int \<Rightarrow> 'w \<Rightarrow> errcode \<times> int"

text \<open>Names and numbers of other repositories.\<close>

record cfg_names =
  k_CS_VOICE_ONLY :: int
  k_IMS_PS_VOICE_PREFERRED :: int
  k_IMS_PS_VOICE_ONLY :: int
  k_NR_AVAILABILITY_NSA :: int
  k_NR_AVAILABILITY_SA :: int
  k_NR_MODE_MIN :: int
  k_NR_MODE_MAX :: int
  k_DEFAULT_NETWORK_MODE :: int
  k_TYPE_VOICE_OVER_LTE :: int
  k_TYPE_SS_OVER_UT :: int
  k_IMS_REG_TECH_LTE :: int
  k_IMS_REG_TECH_NR :: int
  k_INVALID_OPERATOR_CONFIG_STATE :: int
  k_DEFAULT_CALL_WAITING_SERVICE_CLASS :: int
  k_DEFAULT_REASONINFO_MAPPING :: "string list"
  k_TYPE_CATEGORY :: int
  k_TYPE_HAS_CARD :: int
  k_TYPE_NO_CARD :: int
  k_TYPE_ALL :: int

record key_names = cfg_names +
  KEY_IMS_SWITCH_ON_BY_DEFAULT_BOOL :: string
  KEY_HIDE_IMS_SWITCH_BOOL :: string
  KEY_VOLTE_SUPPORTED_BOOL :: string
  KEY_VOLTE_PROVISIONING_SUPPORTED_BOOL :: string
  KEY_CARRIER_VT_AVAILABLE_BOOL :: string
  KEY_SS_OVER_UT_SUPPORTED_BOOL :: string
  KEY_IMS_GBA_REQUIRED_BOOL :: string
  KEY_UT_PROVISIONING_SUPPORTED_BOOL :: string
  KEY_IMS_PREFER_FOR_EMERGENCY_BOOL :: string
  KEY_FORCE_VOLTE_SWITCH_ON_BOOL :: string
  KEY_VIDEO_CALL_WAITING_ON_BOOL :: string
  KEY_NR_MODE_SUPPORTED_LIST_INT_ARRAY :: string
  KEY_CALL_WAITING_SERVICE_CLASS_INT :: string
  KEY_IMS_CALL_DISCONNECT_REASONINFO_MAPPING_STRING_ARRAY :: string
  KEY_EMERGENCY_CALL_STRING_ARRAY :: string

text \<open>The environment: \<open>e_uninit\<close> is the value an uninitialised local variable happens to have,
  \<open>e_strToInt\<close> the library's \<^verbatim>\<open>StrToInt\<close> with the value of its out-parameter, \<open>e_sameEcc\<close> the equality operator of
  \<^verbatim>\<open>EmergencyCall\<close>, \<open>e_redcap\<close> the build switch \<^verbatim>\<open>CELLULAR_CALL_REDCAP_ABILITY\<close>.\<close>

record 'w cfg_env = request_env +
  e_store :: "'w store"
  e_names :: key_names
  e_slots :: int
  e_redcap :: bool
  e_simId :: "int \<Rightarrow> int"
  e_simState :: "int \<Rightarrow> SimState"
  e_simPresent :: "int \<Rightarrow> bool"
  e_iccId :: "int \<Rightarrow> string"
  e_simIst :: "int \<Rightarrow> string"
  e_simNumeric :: "int \<Rightarrow> string"
  e_netNumeric :: "int \<Rightarrow> string"
  e_networkState :: "int \<Rightarrow> (RegServiceState \<times> bool) option"
  e_operatorConfig :: "int \<Rightarrow> errcode \<times> OperatorConfig"
  e_nrOption :: "int \<Rightarrow> errcode \<times> NrMode"
  e_eccShare :: "(string \<Rightarrow> result_set option) option"
  e_eccBean :: EccNum
  e_settingsShare :: "(string \<Rightarrow> string \<Rightarrow> setting_set option) option"
  e_strToInt :: "string \<Rightarrow> int \<Rightarrow> int"
  e_sameEcc :: "EmergencyCall \<Rightarrow> EmergencyCall \<Rightarrow> bool"
  e_uninit :: int

definition SIM_PRESENT :: int where "SIM_PRESENT = 1"
definition SIM_ABSENT :: int where "SIM_ABSENT = 0"
definition IMS_SWITCH_STATUS_UNKNOWN :: int where "IMS_SWITCH_STATUS_UNKNOWN = -1"
definition IMS_SWITCH_STATUS_OFF :: int where "IMS_SWITCH_STATUS_OFF = 0"
definition IMS_SWITCH_STATUS_ON :: int where "IMS_SWITCH_STATUS_ON = 1"
definition VONR_SWITCH_STATUS_UNKNOWN :: int where "VONR_SWITCH_STATUS_UNKNOWN = -1"
definition VONR_SWITCH_STATUS_OFF :: int where "VONR_SWITCH_STATUS_OFF = 0"
definition VONR_SWITCH_STATUS_ON :: int where "VONR_SWITCH_STATUS_ON = 1"
definition SAVE_IMS_SWITCH_FAILED :: int where "SAVE_IMS_SWITCH_FAILED = 0"
definition SAVE_IMS_SWITCH_SUCCESS_CHANGED :: int where "SAVE_IMS_SWITCH_SUCCESS_CHANGED = 1"
definition SAVE_IMS_SWITCH_SUCCESS_NOT_CHANGED :: int where "SAVE_IMS_SWITCH_SUCCESS_NOT_CHANGED = 2"
definition INVALID_SIM_ID :: int where "INVALID_SIM_ID = 0"
definition IMS_GBA_BIT :: nat where "IMS_GBA_BIT = 2"
definition SYSTEM_PARAMETER_LENGTH :: nat where "SYSTEM_PARAMETER_LENGTH = 2"
definition MCC_LEN :: nat where "MCC_LEN = 3"
definition IMS_CAUSE_BASE :: int where "IMS_CAUSE_BASE = 18432"
definition DISCONNECT_CODE :: string where "DISCONNECT_CODE = ''telephony.call.disconnectCode''"
definition KEY_IMS_SIP_CAUSE_CODE_ENABLE_ON_BOOL :: string where
  "KEY_IMS_SIP_CAUSE_CODE_ENABLE_ON_BOOL = ''ims_sip_cause_code_enable''"
definition NETWORK_SEARCH_SETTING_URI :: string where
  "NETWORK_SEARCH_SETTING_URI =
     ''datashare:///com.ohos.settingsdata/entry/settingsdata/SETTINGSDATA?Proxy=true&key=preferred_network_mode''"
definition PREFERRED_NETWORK_MODE :: string where
  "PREFERRED_NETWORK_MODE = ''settings.telephony.preferrednetworkmode''"
definition LAST_ICCID_KEY :: string where "LAST_ICCID_KEY = ''persist.telephony.last_iccid''"
definition IMSSWITCH_STATE :: string where "IMSSWITCH_STATE = ''persist.telephony.imsswitch''"
definition VONR_STATE :: string where "VONR_STATE = ''persist.telephony.vonrswitch''"
definition CAPABILITY_TYPE_VOICE :: int where "CAPABILITY_TYPE_VOICE = 0"
definition CAPABILITY_TYPE_VIDEO :: int where "CAPABILITY_TYPE_VIDEO = 1"
definition CAPABILITY_TYPE_UT :: int where "CAPABILITY_TYPE_UT = 2"
definition IMS_FEATURE_INT_VALUE_ENABLED :: int where "IMS_FEATURE_INT_VALUE_ENABLED = 1"

text \<open>\<^verbatim>\<open>std::to_string\<close> of a number.\<close>

fun nat_string :: "nat \<Rightarrow> string" where
  "nat_string n = (if n < 10 then [char_of (48 + n)] else nat_string (n div 10) @ [char_of (48 + n mod 10)])"

declare nat_string.simps [simp del]

definition to_string :: "int \<Rightarrow> string" where
  "to_string i = (if i < 0 then CHR ''-'' # nat_string (nat (- i)) else nat_string (nat i))"

end
