(* ===== verification/SwitchConfig.thy ===== *)
theory SwitchConfig
  imports CallConfig Supplement
begin

text \<open>
  \<^verbatim>\<open>CellularCallConfig\<close>, second part: defaults and operator configuration, the preference mode, the IMS and VoNR
  switches with the places where their state is kept, the capabilities sent to the IMS service, the network's clear
  code, and the forwarded requests.
\<close>

unbundle bit_operations_syntax

section \<open>Helpers\<close>

text \<open>Requests: their result, and the state with their effects.\<close>

definition emit :: "cfg_act list \<Rightarrow> 'w CellularCallConfig \<Rightarrow> 'w CellularCallConfig" where
  "emit acts c = c\<lparr>trace := trace c @ acts\<rparr>"

definition req :: "errcode \<times> cfg_act list \<Rightarrow> 'w CellularCallConfig \<Rightarrow> errcode \<times> 'w CellularCallConfig" where
  "req r c = (fst r, emit (snd r) c)"

definition SetParameter :: "'w cfg_env \<Rightarrow> string \<Rightarrow> string \<Rightarrow> 'w CellularCallConfig \<Rightarrow> 'w CellularCallConfig" where
  "SetParameter e key val c = c\<lparr>world := SetParameter_st (e_store e) key val (world c)\<rparr>"

definition IsValidSlotId_cfg :: "'w cfg_env \<Rightarrow> int \<Rightarrow> bool" where
  "IsValidSlotId_cfg e slotId \<longleftrightarrow> 0 \<le> slotId \<and> slotId < e_slots e"

definition sim_loaded :: "SimState \<Rightarrow> bool" where
  "sim_loaded s \<longleftrightarrow> s = SIM_STATE_LOADED \<or> s = SIM_STATE_READY"

section \<open>Defaults and operator configuration\<close>

definition init_slot :: "'w cfg_env \<Rightarrow> int \<Rightarrow> 'w CellularCallConfig \<Rightarrow> 'w CellularCallConfig" where
  "init_slot e i c =
     (let k = e_names e in
      c\<lparr>imsSwitchOnByDefault := insert_absent i False (imsSwitchOnByDefault c),
        hideImsSwitch := insert_absent i False (hideImsSwitch c),
        volteSupported := insert_absent i True (volteSupported c),
        carrierVtAvailable := insert_absent i True (carrierVtAvailable c),
        nrModeSupportedList :=
          insert_absent i [k_NR_AVAILABILITY_NSA k, k_NR_AVAILABILITY_SA k] (nrModeSupportedList c),
        volteProvisioningSupported := insert_absent i False (volteProvisioningSupported c),
        ssOverUtSupported := insert_absent i False (ssOverUtSupported c),
        imsGbaRequired := insert_absent i False (imsGbaRequired c),
        utProvisioningSupported := insert_absent i False (utProvisioningSupported c),
        imsPreferForEmergency := insert_absent i True (imsPreferForEmergency c),
        callWaitingServiceClass :=
          insert_absent i (k_DEFAULT_CALL_WAITING_SERVICE_CLASS k) (callWaitingServiceClass c),
        imsCallDisconnectResoninfoMapping :=
          insert_absent i (k_DEFAULT_REASONINFO_MAPPING k) (imsCallDisconnectResoninfoMapping c),
        forceVolteSwitchOn := insert_absent i False (forceVolteSwitchOn c),
        readyToCall_cfg := insert_absent i True (readyToCall_cfg c),
        vonrSwithStatus := insert_absent i VONR_SWITCH_STATUS_UNKNOWN (vonrSwithStatus c),
        networkServiceState :=
          insert_absent i \<lparr>isInService = False, isRoaming = False\<rparr> (networkServiceState c),
        videoCallWaiting := insert_absent i True (videoCallWaiting c),
        imsSipCauseEnable := insert_absent i False (imsSipCauseEnable c),
        shouldCheckImsAfterNvUpdate := insert_absent i True (shouldCheckImsAfterNvUpdate c)\<rparr>)"

definition InitDefaultOperatorConfig :: "'w cfg_env \<Rightarrow> 'w CellularCallConfig \<Rightarrow> 'w CellularCallConfig" where
  "InitDefaultOperatorConfig e c = fold (init_slot e) [0..e_slots e - 1] c"

definition CellularCallConfig_ctor :: "'w cfg_env \<Rightarrow> 'w CellularCallConfig \<Rightarrow> 'w CellularCallConfig" where
  "CellularCallConfig_ctor e c =
     (if \<not> isOperatorConfigInit c then (InitDefaultOperatorConfig e c)\<lparr>isOperatorConfigInit := True\<rparr> else c)"

definition ParseBoolOperatorConfigs :: "int \<Rightarrow> (int \<rightharpoonup> bool) \<Rightarrow> OperatorConfig \<Rightarrow> string \<Rightarrow> (int \<rightharpoonup> bool)" where
  "ParseBoolOperatorConfigs slotId config poc configName =
     (case boolValue poc configName of Some v \<Rightarrow> config(slotId \<mapsto> v) | None \<Rightarrow> config)"

definition ParseAndCacheOperatorConfigs ::
    "'w cfg_env \<Rightarrow> int \<Rightarrow> OperatorConfig \<Rightarrow> 'w CellularCallConfig \<Rightarrow> errcode \<times> 'w CellularCallConfig" where
  "ParseAndCacheOperatorConfigs e slotId poc c =
     (if \<not> IsValidSlotId_cfg e slotId then (TELEPHONY_ERROR, c)
      else let k = e_names e; parse = (\<lambda>m key. ParseBoolOperatorConfigs slotId m poc key) in
        (TELEPHONY_SUCCESS,
         c\<lparr>imsSwitchOnByDefault := parse (imsSwitchOnByDefault c) (KEY_IMS_SWITCH_ON_BY_DEFAULT_BOOL k),
           hideImsSwitch := parse (hideImsSwitch c) (KEY_HIDE_IMS_SWITCH_BOOL k),
           volteSupported := parse (volteSupported c) (KEY_VOLTE_SUPPORTED_BOOL k),
           volteProvisioningSupported :=
             parse (volteProvisioningSupported c) (KEY_VOLTE_PROVISIONING_SUPPORTED_BOOL k),
           carrierVtAvailable := parse (carrierVtAvailable c) (KEY_CARRIER_VT_AVAILABLE_BOOL k),
           ssOverUtSupported := parse (ssOverUtSupported c) (KEY_SS_OVER_UT_SUPPORTED_BOOL k),
           imsGbaRequired := parse (imsGbaRequired c) (KEY_IMS_GBA_REQUIRED_BOOL k),
           utProvisioningSupported := parse (utProvisioningSupported c) (KEY_UT_PROVISIONING_SUPPORTED_BOOL k),
           imsPreferForEmergency := parse (imsPreferForEmergency c) (KEY_IMS_PREFER_FOR_EMERGENCY_BOOL k),
           forceVolteSwitchOn := parse (forceVolteSwitchOn c) (KEY_FORCE_VOLTE_SWITCH_ON_BOOL k),
           videoCallWaiting := parse (videoCallWaiting c) (KEY_VIDEO_CALL_WAITING_ON_BOOL k),
           imsSipCauseEnable := parse (imsSipCauseEnable c) KEY_IMS_SIP_CAUSE_CODE_ENABLE_ON_BOOL,
           nrModeSupportedList :=
             (case intArrayValue poc (KEY_NR_MODE_SUPPORTED_LIST_INT_ARRAY k) of
                Some v \<Rightarrow> (nrModeSupportedList c)(slotId \<mapsto> v) | None \<Rightarrow> nrModeSupportedList c),
           callWaitingServiceClass :=
             (case intValue poc (KEY_CALL_WAITING_SERVICE_CLASS_INT k) of
                Some v \<Rightarrow> (callWaitingServiceClass c)(slotId \<mapsto> v) | None \<Rightarrow> callWaitingServiceClass c),
           imsCallDisconnectResoninfoMapping :=
             (case stringArrayValue poc (KEY_IMS_CALL_DISCONNECT_REASONINFO_MAPPING_STRING_ARRAY k) of
                Some v \<Rightarrow> (imsCallDisconnectResoninfoMapping c)(slotId \<mapsto> v)
              | None \<Rightarrow> imsCallDisconnectResoninfoMapping c)\<rparr>))"

section \<open>What the configuration answers\<close>

definition GetCarrierVtConfig :: "int \<Rightarrow> 'w CellularCallConfig \<Rightarrow> errcode \<times> bool" where
  "GetCarrierVtConfig slotId c =
     (TELEPHONY_SUCCESS, case carrierVtAvailable c slotId of Some v \<Rightarrow> v | None \<Rightarrow> False)"

definition GetVideoCallWaiting :: "int \<Rightarrow> 'w CellularCallConfig \<Rightarrow> errcode \<times> bool" where
  "GetVideoCallWaiting slotId c =
     (TELEPHONY_SUCCESS, case videoCallWaiting c slotId of Some v \<Rightarrow> v | None \<Rightarrow> False)"

text \<open>The getters of one slot share their form: an answer for a slot that does not exist, else the entry.\<close>

definition slot_entry :: "'w cfg_env \<Rightarrow> int \<Rightarrow> 'v \<Rightarrow> 'v \<Rightarrow> (int \<rightharpoonup> 'v) \<Rightarrow> 'v" where
  "slot_entry e slotId invalid d m = (if \<not> IsValidSlotId_cfg e slotId then invalid else entry d m slotId)"

definition GetCarrierVtAvailbleConfig :: "'w cfg_env \<Rightarrow> int \<Rightarrow> 'w CellularCallConfig \<Rightarrow> bool" where
  "GetCarrierVtAvailbleConfig e slotId c = slot_entry e slotId False False (carrierVtAvailable c)"

definition GetImsSwitchOnByDefaultConfig :: "'w cfg_env \<Rightarrow> int \<Rightarrow> 'w CellularCallConfig \<Rightarrow> bool" where
  "GetImsSwitchOnByDefaultConfig e slotId c = slot_entry e slotId True False (imsSwitchOnByDefault c)"

definition GethideImsSwitchConfig :: "'w cfg_env \<Rightarrow> int \<Rightarrow> 'w CellularCallConfig \<Rightarrow> bool" where
  "GethideImsSwitchConfig e slotId c = slot_entry e slotId False False (hideImsSwitch c)"

definition GetvolteSupportedConfig :: "'w cfg_env \<Rightarrow> int \<Rightarrow> 'w CellularCallConfig \<Rightarrow> bool" where
  "GetvolteSupportedConfig e slotId c = slot_entry e slotId False False (volteSupported c)"

definition GetNrModeSupportedListConfig :: "'w cfg_env \<Rightarrow> int \<Rightarrow> 'w CellularCallConfig \<Rightarrow> int list" where
  "GetNrModeSupportedListConfig e slotId c =
     slot_entry e slotId [k_NR_AVAILABILITY_NSA (e_names e), k_NR_AVAILABILITY_SA (e_names e)] []
       (nrModeSupportedList c)"

definition GetVolteProvisioningSupportedConfig :: "'w cfg_env \<Rightarrow> int \<Rightarrow> 'w CellularCallConfig \<Rightarrow> bool" where
  "GetVolteProvisioningSupportedConfig e slotId c = slot_entry e slotId False False (volteProvisioningSupported c)"

definition GetSsOverUtSupportedConfig :: "'w cfg_env \<Rightarrow> int \<Rightarrow> 'w CellularCallConfig \<Rightarrow> bool" where
  "GetSsOverUtSupportedConfig e slotId c = slot_entry e slotId False False (ssOverUtSupported c)"

definition GetImsGbaRequiredConfig :: "'w cfg_env \<Rightarrow> int \<Rightarrow> 'w CellularCallConfig \<Rightarrow> bool" where
  "GetImsGbaRequiredConfig e slotId c = slot_entry e slotId False False (imsGbaRequired c)"

definition GetUtProvisioningSupportedConfig :: "'w cfg_env \<Rightarrow> int \<Rightarrow> 'w CellularCallConfig \<Rightarrow> bool" where
  "GetUtProvisioningSupportedConfig e slotId c = slot_entry e slotId False False (utProvisioningSupported c)"

definition GetImsPreferForEmergencyConfig :: "'w cfg_env \<Rightarrow> int \<Rightarrow> 'w CellularCallConfig \<Rightarrow> bool" where
  "GetImsPreferForEmergencyConfig e slotId c = slot_entry e slotId True False (imsPreferForEmergency c)"

definition GetCallWaitingServiceClassConfig :: "'w cfg_env \<Rightarrow> int \<Rightarrow> 'w CellularCallConfig \<Rightarrow> int" where
  "GetCallWaitingServiceClassConfig e slotId c = slot_entry e slotId 1 0 (callWaitingServiceClass c)"

definition GetImsCallDisconnectResoninfoMappingConfig ::
    "'w cfg_env \<Rightarrow> int \<Rightarrow> 'w CellularCallConfig \<Rightarrow> string list" where
  "GetImsCallDisconnectResoninfoMappingConfig e slotId c =
     slot_entry e slotId [] [] (imsCallDisconnectResoninfoMapping c)"

definition GetForceVolteSwitchOnConfig :: "'w cfg_env \<Rightarrow> int \<Rightarrow> 'w CellularCallConfig \<Rightarrow> bool" where
  "GetForceVolteSwitchOnConfig e slotId c = slot_entry e slotId False False (forceVolteSwitchOn c)"

definition IsReadyToCall_cfg :: "'w cfg_env \<Rightarrow> int \<Rightarrow> 'w CellularCallConfig \<Rightarrow> bool" where
  "IsReadyToCall_cfg e slotId c = slot_entry e slotId False False (readyToCall_cfg c)"

definition SetReadyToCall_cfg :: "'w cfg_env \<Rightarrow> int \<Rightarrow> bool \<Rightarrow> 'w CellularCallConfig \<Rightarrow> 'w CellularCallConfig" where
  "SetReadyToCall_cfg e slotId b c =
     (if \<not> IsValidSlotId_cfg e slotId then c else c\<lparr>readyToCall_cfg := (readyToCall_cfg c)(slotId \<mapsto> b)\<rparr>)"

section \<open>Preference mode\<close>

definition SetDomainPreferenceMode ::
    "'w cfg_env \<Rightarrow> int \<Rightarrow> int \<Rightarrow> 'w CellularCallConfig \<Rightarrow> errcode \<times> 'w CellularCallConfig" where
  "SetDomainPreferenceMode e slotId md c =
     (if md < k_CS_VOICE_ONLY (e_names e) \<or> md > k_IMS_PS_VOICE_ONLY (e_names e)
        then (CALL_ERR_PARAMETER_OUT_OF_RANGE, c)
      else req (SetDomainPreferenceModeRequest e slotId md) (c\<lparr>modeTempMap := (modeTempMap c)(slotId \<mapsto> md)\<rparr>))"

definition GetDomainPreferenceMode ::
    "'w cfg_env \<Rightarrow> int \<Rightarrow> 'w CellularCallConfig \<Rightarrow> errcode \<times> 'w CellularCallConfig" where
  "GetDomainPreferenceMode e slotId c = req (GetDomainPreferenceModeRequest e slotId) c"

definition GetDomainPreferenceModeResponse_cfg ::
    "'w cfg_env \<Rightarrow> int \<Rightarrow> int \<Rightarrow> 'w CellularCallConfig \<Rightarrow> 'w CellularCallConfig" where
  "GetDomainPreferenceModeResponse_cfg e slotId md c =
     (if \<not> IsValidSlotId_cfg e slotId then c else c\<lparr>modeMap := (modeMap c)(slotId \<mapsto> md)\<rparr>)"

definition GetPreferenceMode :: "int \<Rightarrow> 'w CellularCallConfig \<Rightarrow> int" where
  "GetPreferenceMode slotId c = entry 0 (modeMap c) slotId"

definition SetTempMode :: "'w cfg_env \<Rightarrow> int \<Rightarrow> 'w CellularCallConfig \<Rightarrow> 'w CellularCallConfig" where
  "SetTempMode e slotId c =
     (if \<not> IsValidSlotId_cfg e slotId then c
      else c\<lparr>modeMap := (modeMap c)(slotId \<mapsto> entry 0 (modeTempMap c) slotId)\<rparr>)"

section \<open>Where the switches are kept\<close>

definition BooleanToImsSwitchValue :: "bool \<Rightarrow> int" where
  "BooleanToImsSwitchValue v = (if v then IMS_SWITCH_STATUS_ON else IMS_SWITCH_STATUS_OFF)"

definition saveImsSwitchStatusToLocal ::
    "'w cfg_env \<Rightarrow> int \<Rightarrow> int \<Rightarrow> 'w CellularCallConfig \<Rightarrow> 'w CellularCallConfig" where
  "saveImsSwitchStatusToLocal e slotId imsSwitchStatus c =
     SetParameter e (IMSSWITCH_STATE @ to_string slotId) (to_string imsSwitchStatus) c"

definition SaveVoNRState :: "'w cfg_env \<Rightarrow> int \<Rightarrow> int \<Rightarrow> 'w CellularCallConfig \<Rightarrow> 'w CellularCallConfig" where
  "SaveVoNRState e slotId st c = SetParameter e (VONR_STATE @ to_string slotId) (to_string st) c"

definition ObtainVoNRState :: "'w cfg_env \<Rightarrow> int \<Rightarrow> 'w CellularCallConfig \<Rightarrow> int" where
  "ObtainVoNRState e slotId c =
     GetIntParameter_st (e_store e) (VONR_STATE @ to_string slotId) VONR_SWITCH_STATUS_ON (world c)"

definition SaveImsSwitch :: "'w cfg_env \<Rightarrow> int \<Rightarrow> int \<Rightarrow> 'w CellularCallConfig \<Rightarrow> int \<times> 'w CellularCallConfig" where
  "SaveImsSwitch e slotId imsSwitchValue c =
     (let (queryRet, lastImsSwitchValue) = QueryImsSwitch_st (e_store e) slotId IMS_SWITCH_STATUS_UNKNOWN (world c) in
      if queryRet \<noteq> TELEPHONY_SUCCESS then (SAVE_IMS_SWITCH_FAILED, c)
      else if imsSwitchValue = lastImsSwitchValue then (SAVE_IMS_SWITCH_SUCCESS_NOT_CHANGED, c)
      else let (saveRet, w) = SaveImsSwitch_st (e_store e) slotId imsSwitchValue (world c); c1 = c\<lparr>world := w\<rparr> in
        if saveRet \<noteq> TELEPHONY_SUCCESS then (SAVE_IMS_SWITCH_FAILED, c1)
        else (SAVE_IMS_SWITCH_SUCCESS_CHANGED,
              SaveVoNRState e slotId imsSwitchValue (saveImsSwitchStatusToLocal e slotId imsSwitchValue c1)))"

text \<open>The value of the database, or the operator's default.\<close>

definition stored_or_default :: "'w cfg_env \<Rightarrow> int \<Rightarrow> 'w CellularCallConfig \<Rightarrow> int" where
  "stored_or_default e slotId c =
     (let (ret, v) = QueryImsSwitch_st (e_store e) slotId IMS_SWITCH_STATUS_UNKNOWN (world c) in
      if ret \<noteq> TELEPHONY_SUCCESS \<or> v = IMS_SWITCH_STATUS_UNKNOWN
      then if entry False (imsSwitchOnByDefault c) slotId then IMS_SWITCH_STATUS_ON else IMS_SWITCH_STATUS_OFF
      else v)"

definition saveImsSwitchStatusToLocalForPowerOn ::
    "'w cfg_env \<Rightarrow> int \<Rightarrow> 'w CellularCallConfig \<Rightarrow> 'w CellularCallConfig" where
  "saveImsSwitchStatusToLocalForPowerOn e slotId c =
     (if \<not> IsValidSlotId_cfg e slotId then c
      else SetParameter e (IMSSWITCH_STATE @ to_string slotId) (to_string (stored_or_default e slotId c)) c)"

definition GetSwitchStatus :: "'w cfg_env \<Rightarrow> int \<Rightarrow> 'w CellularCallConfig \<Rightarrow> int" where
  "GetSwitchStatus e slotId c =
     (let v = GetIntParameter_st (e_store e) (IMSSWITCH_STATE @ to_string slotId) IMS_SWITCH_STATUS_UNKNOWN (world c) in
      if v = IMS_SWITCH_STATUS_UNKNOWN then stored_or_default e slotId c else v)"

definition GetImsSwitchStatus :: "'w cfg_env \<Rightarrow> int \<Rightarrow> 'w CellularCallConfig \<Rightarrow> errcode \<times> bool" where
  "GetImsSwitchStatus e slotId c =
     (if hideImsSwitch c slotId = Some True then (TELEPHONY_SUCCESS, True)
      else (TELEPHONY_SUCCESS, GetSwitchStatus e slotId c \<noteq> 0))"

text \<open>The last ICCID is read into a buffer of \<^verbatim>\<open>SYSTEM_PARAMETER_LENGTH\<close> characters.\<close>

definition IsSimChanged :: "'w cfg_env \<Rightarrow> int \<Rightarrow> string \<Rightarrow> 'w CellularCallConfig \<Rightarrow> bool \<times> 'w CellularCallConfig" where
  "IsSimChanged e slotId iccid c =
     (let key = LAST_ICCID_KEY @ to_string slotId;
          lastIccid = GetParameter_st (e_store e) key '''' SYSTEM_PARAMETER_LENGTH (world c) in
      if iccid \<noteq> c_str lastIccid then (True, SetParameter e key (c_str iccid) c) else (False, c))"

definition ResetImsSwitch :: "'w cfg_env \<Rightarrow> int \<Rightarrow> 'w CellularCallConfig \<Rightarrow> 'w CellularCallConfig" where
  "ResetImsSwitch e slotId c =
     (if \<not> e_simPresent e slotId then c
      else let (changed, c1) = IsSimChanged e slotId (e_iccId e slotId) c in
        if changed \<and> entry False (forceVolteSwitchOn c1) slotId then
          let v = BooleanToImsSwitchValue (entry False (imsSwitchOnByDefault c1) slotId);
              (ret, w) = SaveImsSwitch_st (e_store e) slotId v (world c1); c2 = c1\<lparr>world := w\<rparr> in
          if ret \<noteq> TELEPHONY_SUCCESS then c2 else saveImsSwitchStatusToLocal e slotId v c2
        else c1)"

section \<open>Capabilities\<close>

definition IsGbaValid :: "'w cfg_env \<Rightarrow> int \<Rightarrow> 'w CellularCallConfig \<Rightarrow> bool" where
  "IsGbaValid e slotId c =
     (if entry False (imsGbaRequired c) slotId then
        let simistStr = e_simIst e slotId in
        if simistStr \<noteq> [] \<and> length simistStr > 1 then IMS_GBA_BIT AND of_char (simistStr ! 1) \<noteq> 0 else True
      else True)"

text \<open>A feature value of the IMS service: no request where it is not to be asked.\<close>

definition feature_enabled :: "'w cfg_env \<Rightarrow> int \<Rightarrow> 'w CellularCallConfig \<Rightarrow> bool \<times> 'w CellularCallConfig" where
  "feature_enabled e ftype c =
     (let ((result, val), acts) = GetImsFeatureValueRequest e ftype (e_uninit e); c1 = emit acts c in
      if result \<noteq> TELEPHONY_SUCCESS then (False, c1) else (val = IMS_FEATURE_INT_VALUE_ENABLED, c1))"

definition IsVolteProvisioned :: "'w cfg_env \<Rightarrow> int \<Rightarrow> 'w CellularCallConfig \<Rightarrow> bool \<times> 'w CellularCallConfig" where
  "IsVolteProvisioned e slotId c =
     (if entry False (volteProvisioningSupported c) slotId
      then feature_enabled e (k_TYPE_VOICE_OVER_LTE (e_names e)) c else (True, c))"

definition IsUtProvisioned :: "'w cfg_env \<Rightarrow> int \<Rightarrow> 'w CellularCallConfig \<Rightarrow> bool \<times> 'w CellularCallConfig" where
  "IsUtProvisioned e slotId c =
     (if entry False (utProvisioningSupported c) slotId
      then feature_enabled e (k_TYPE_SS_OVER_UT (e_names e)) c else (True, c))"

definition IsVonrSupported :: "'w cfg_env \<Rightarrow> int \<Rightarrow> bool \<Rightarrow> 'w CellularCallConfig \<Rightarrow> bool" where
  "IsVonrSupported e slotId isGbaValid c =
     (if k_NR_AVAILABILITY_SA (e_names e) \<notin> set (entry [] (nrModeSupportedList c) slotId) then False else isGbaValid)"

definition IsVonrSupportedForImsSwitch :: "'w cfg_env \<Rightarrow> int \<Rightarrow> bool \<Rightarrow> bool" where
  "IsVonrSupportedForImsSwitch e slotId isGbaValid =
     (let (queryRet, nrMode) = e_nrOption e slotId in
      if queryRet \<noteq> TELEPHONY_SUCCESS then isGbaValid
      else nrMode = NR_MODE_NSA_AND_SA \<or> nrMode = NR_MODE_SA_ONLY)"

definition IsVolteSupport :: "'w cfg_env \<Rightarrow> int \<Rightarrow> 'w CellularCallConfig \<Rightarrow> bool \<times> 'w CellularCallConfig" where
  "IsVolteSupport e slotId c =
     (if \<not> IsValidSlotId_cfg e slotId then (False, c)
      else let (_, imsSwitch) = GetImsSwitchStatus e slotId c;
               isGbaValid = IsGbaValid e slotId c;
               (isVolteProvisioned, c1) = IsVolteProvisioned e slotId c in
        (entry False (volteSupported c1) slotId \<and> isGbaValid \<and> imsSwitch \<and> isVolteProvisioned, c1))"

definition GetPreferredNetworkModeValue :: "'w cfg_env \<Rightarrow> int \<Rightarrow> int \<Rightarrow> int" where
  "GetPreferredNetworkModeValue e slotId networkMode =
     (let keyStr = PREFERRED_NETWORK_MODE @ ''_'' @ to_string slotId;
          (ret, val) = Query (e_settingsShare e) NETWORK_SEARCH_SETTING_URI keyStr '''' in
      if ret = TELEPHONY_SUCCESS then e_strToInt e val networkMode else networkMode)"

definition UpdateImsVoiceCapabilities ::
    "'w cfg_env \<Rightarrow> int \<Rightarrow> ImsCapability list \<Rightarrow> 'w CellularCallConfig \<Rightarrow> ImsCapability list \<times> 'w CellularCallConfig" where
  "UpdateImsVoiceCapabilities e slotId caps c =
     (let k = e_names e;
          networkMode = GetPreferredNetworkModeValue e slotId (k_DEFAULT_NETWORK_MODE k);
          caps1 = (if networkMode \<ge> k_NR_MODE_MIN k \<and> networkMode \<le> k_NR_MODE_MAX k then
              caps @ [\<lparr>cap_type = CAPABILITY_TYPE_VOICE, cap_radioTech = k_IMS_REG_TECH_NR k,
                       cap_enable = IsVonrSupportedForImsSwitch e slotId (IsGbaValid e slotId c)\<rparr>]
            else caps);
          (volte, c1) = IsVolteSupport e slotId c in
      (caps1 @ [\<lparr>cap_type = CAPABILITY_TYPE_VOICE, cap_radioTech = k_IMS_REG_TECH_LTE k, cap_enable = volte\<rparr>], c1))"

definition UpdateImsUtCapabilities ::
    "'w cfg_env \<Rightarrow> int \<Rightarrow> ImsCapability list \<Rightarrow> 'w CellularCallConfig \<Rightarrow> ImsCapability list \<times> 'w CellularCallConfig" where
  "UpdateImsUtCapabilities e slotId caps c =
     (let isGbaValid = IsGbaValid e slotId c;
          (enable, c1) = (if entry False (ssOverUtSupported c) slotId \<and> isGbaValid
            then IsUtProvisioned e slotId c else (False, c)) in
      (caps @ [\<lparr>cap_type = CAPABILITY_TYPE_UT, cap_radioTech = k_IMS_REG_TECH_LTE (e_names e), cap_enable = enable\<rparr>],
       c1))"

definition IsNeedTurnOnIms :: "ImsCapability list \<Rightarrow> bool" where
  "IsNeedTurnOnIms caps =
     list_ex (\<lambda>c. (cap_type c = CAPABILITY_TYPE_VOICE \<or> cap_type c = CAPABILITY_TYPE_VIDEO) \<and> cap_enable c) caps"

definition UpdateImsCapabilities ::
    "'w cfg_env \<Rightarrow> int \<Rightarrow> bool \<Rightarrow> bool \<Rightarrow> int \<Rightarrow> 'w CellularCallConfig \<Rightarrow> 'w CellularCallConfig" where
  "UpdateImsCapabilities e slotId needUpdateUtCapability isOpcChanged st c =
     (let (caps, c1) = UpdateImsVoiceCapabilities e slotId [] c;
          c2 = (if isOpcChanged then snd (req (NotifyOperatorConfigChanged_req e slotId st) c1) else c1);
          (caps1, c3) = (if needUpdateUtCapability then UpdateImsUtCapabilities e slotId caps c2 else (caps, c2));
          c4 = snd (req (UpdateImsCapabilities_req e slotId caps1) c3) in
      snd (req (SetImsSwitchStatusRequest e slotId (IsNeedTurnOnIms caps1)) c4))"

section \<open>Switching\<close>

definition SetImsSwitchStatus ::
    "'w cfg_env \<Rightarrow> int \<Rightarrow> bool \<Rightarrow> 'w CellularCallConfig \<Rightarrow> errcode \<times> 'w CellularCallConfig" where
  "SetImsSwitchStatus e slotId active c =
     (if \<not> entry False (volteSupported c) slotId then (CALL_ERR_VOLTE_NOT_SUPPORT, c)
      else let (prov, c1) = (if active then IsVolteProvisioned e slotId c else (False, c)) in
        if active \<and> \<not> prov then (CALL_ERR_VOLTE_PROVISIONING_DISABLED, c1)
        else if e_simId e slotId \<le> INVALID_SIM_ID then (TELEPHONY_ERR_SLOTID_INVALID, c1)
        else let (ret, c2) = SaveImsSwitch e slotId (BooleanToImsSwitchValue active) c1 in
          if ret = SAVE_IMS_SWITCH_FAILED then (TELEPHONY_ERR_DATABASE_WRITE_FAIL, c2)
          else if ret = SAVE_IMS_SWITCH_SUCCESS_NOT_CHANGED then (TELEPHONY_SUCCESS, c2)
          else if sim_loaded (e_simState e slotId) then
            (TELEPHONY_SUCCESS,
             UpdateImsCapabilities e slotId (\<not> active) False (k_INVALID_OPERATOR_CONFIG_STATE (e_names e)) c2)
          else (TELEPHONY_SUCCESS, c2))"

definition SetVoNRSwitchStatus ::
    "'w cfg_env \<Rightarrow> int \<Rightarrow> int \<Rightarrow> 'w CellularCallConfig \<Rightarrow> errcode \<times> 'w CellularCallConfig" where
  "SetVoNRSwitchStatus e slotId st c =
     (if \<not> IsVonrSupported e slotId (IsGbaValid e slotId c) c then (TELEPHONY_ERR_FAIL, c)
      else if sim_loaded (e_simState e slotId) then
        let c1 = snd (req (SetVoNRSwitchStatusRequest e slotId st) c) in
        (TELEPHONY_SUCCESS, c1\<lparr>vonrSwithStatus := (vonrSwithStatus c1)(slotId \<mapsto> st)\<rparr>)
      else (TELEPHONY_ERR_NO_SIM_CARD, c))"

definition GetVoNRSwitchStatus :: "'w cfg_env \<Rightarrow> int \<Rightarrow> 'w CellularCallConfig \<Rightarrow> errcode \<times> int" where
  "GetVoNRSwitchStatus e slotId c =
     (if \<not> IsVonrSupported e slotId (IsGbaValid e slotId c) c then (TELEPHONY_SUCCESS, VONR_SWITCH_STATUS_OFF)
      else (TELEPHONY_SUCCESS, ObtainVoNRState e slotId c))"

definition HandleSetVoNRSwitchResult ::
    "'w cfg_env \<Rightarrow> int \<Rightarrow> ErrType \<Rightarrow> 'w CellularCallConfig \<Rightarrow> 'w CellularCallConfig" where
  "HandleSetVoNRSwitchResult e slotId result c =
     (if result \<noteq> ErrType_NONE then c
      else let c1 = SaveVoNRState e slotId (entry 0 (vonrSwithStatus c) slotId) c;
               (caps, c2) = UpdateImsVoiceCapabilities e slotId [] c1 in
        snd (req (UpdateImsCapabilities_req e slotId caps) c2))"

definition SetRadioOn :: "bool \<Rightarrow> 'w CellularCallConfig \<Rightarrow> 'w CellularCallConfig" where
  "SetRadioOn b c = c\<lparr>isRadioOn_cfg := b\<rparr>"

definition SetPreferredNetworkByConfig :: "int \<Rightarrow> 'w CellularCallConfig \<Rightarrow> 'w CellularCallConfig" where
  "SetPreferredNetworkByConfig slotId c =
     (let isProcess = isOperatorConfigChanged c \<or> isRadioOn_cfg c; c1 = c\<lparr>isOperatorConfigChanged := False\<rparr> in
      if isProcess then emit [RedcapPreferredNetwork slotId] c1 else c1)"

definition HandleSetLteImsSwitchResult ::
    "'w cfg_env \<Rightarrow> int \<Rightarrow> ErrType \<Rightarrow> 'w CellularCallConfig \<Rightarrow> 'w CellularCallConfig" where
  "HandleSetLteImsSwitchResult e slotId result c =
     (if \<not> IsValidSlotId_cfg e slotId then c
      else if e_redcap e then SetPreferredNetworkByConfig slotId c else c)"

definition HandleFactoryReset :: "'w cfg_env \<Rightarrow> int \<Rightarrow> 'w CellularCallConfig \<Rightarrow> 'w CellularCallConfig" where
  "HandleFactoryReset e slotId c =
     (if \<not> IsValidSlotId_cfg e slotId then c
      else if \<not> e_simPresent e slotId then c
      else let (ret, c1) =
             SaveImsSwitch e slotId (BooleanToImsSwitchValue (entry False (imsSwitchOnByDefault c) slotId)) c;
               c2 = UpdateImsCapabilities e slotId True False (k_INVALID_OPERATOR_CONFIG_STATE (e_names e)) c1 in
        if e_redcap e then emit [RedcapFactoryReset slotId] c2 else c2)"

definition UpdateImsConfiguration ::
    "'w cfg_env \<Rightarrow> int \<Rightarrow> int \<Rightarrow> bool \<Rightarrow> 'w CellularCallConfig \<Rightarrow> 'w CellularCallConfig" where
  "UpdateImsConfiguration e slotId configState isOpcChanged c =
     (if \<not> IsValidSlotId_cfg e slotId then c
      else let (ret, operatorConfig) = e_operatorConfig e slotId in
        if ret \<noteq> TELEPHONY_SUCCESS then c
        else let (result, c1) = ParseAndCacheOperatorConfigs e slotId operatorConfig c in
          if result \<noteq> TELEPHONY_SUCCESS then c1
          else let c2 = saveImsSwitchStatusToLocalForPowerOn e slotId c1;
                   c3 = ResetImsSwitch e slotId c2;
                   c4 = UpdateImsCapabilities e slotId True isOpcChanged configState c3;
                   c5 = (case videoCallWaiting c4 slotId of
                           Some v \<Rightarrow> snd (req (SetVideoCallWaiting_req e slotId v) c4) | None \<Rightarrow> c4) in
            (case carrierVtAvailable c5 slotId of
               Some v \<Rightarrow> snd (req (SetCarrierVtConfigRequest e slotId v) c5) | None \<Rightarrow> c5))"

definition HandleOperatorConfigChanged ::
    "'w cfg_env \<Rightarrow> int \<Rightarrow> int \<Rightarrow> 'w CellularCallConfig \<Rightarrow> 'w CellularCallConfig" where
  "HandleOperatorConfigChanged e slotId st c =
     UpdateImsConfiguration e slotId st True (if e_redcap e then c\<lparr>isOperatorConfigChanged := True\<rparr> else c)"

section \<open>Forwarded requests\<close>

definition SetImsConfig_string ::
    "'w cfg_env \<Rightarrow> int \<Rightarrow> string \<Rightarrow> 'w CellularCallConfig \<Rightarrow> errcode \<times> 'w CellularCallConfig" where
  "SetImsConfig_string e cfg txt c = req (SetImsConfigRequest_string e cfg txt) c"

definition SetImsConfig_int ::
    "'w cfg_env \<Rightarrow> int \<Rightarrow> int \<Rightarrow> 'w CellularCallConfig \<Rightarrow> errcode \<times> 'w CellularCallConfig" where
  "SetImsConfig_int e cfg val c = req (SetImsConfigRequest_int e cfg val) c"

definition GetImsConfig :: "'w cfg_env \<Rightarrow> int \<Rightarrow> 'w CellularCallConfig \<Rightarrow> errcode \<times> 'w CellularCallConfig" where
  "GetImsConfig e cfg c = req (GetImsConfigRequest e cfg) c"

definition SetImsFeatureValue ::
    "'w cfg_env \<Rightarrow> int \<Rightarrow> int \<Rightarrow> 'w CellularCallConfig \<Rightarrow> errcode \<times> 'w CellularCallConfig" where
  "SetImsFeatureValue e ftype val c = req (SetImsFeatureValueRequest e ftype val) c"

definition GetImsFeatureValue :: "'w cfg_env \<Rightarrow> int \<Rightarrow> 'w CellularCallConfig \<Rightarrow> errcode \<times> 'w CellularCallConfig" where
  "GetImsFeatureValue e ftype c =
     (let ((ret, val), acts) = GetImsFeatureValueRequest e ftype (e_uninit e) in
      (ret, emit [ReportGetImsFeatureResult ret val] (emit acts c)))"

definition SetRttCapability ::
    "'w cfg_env \<Rightarrow> int \<Rightarrow> bool \<Rightarrow> 'w CellularCallConfig \<Rightarrow> errcode \<times> 'w CellularCallConfig" where
  "SetRttCapability e slotId isEnable c = req (SetCarrierVtConfigRequest e slotId (\<not> isEnable)) c"

definition SetMute_cfg :: "'w cfg_env \<Rightarrow> int \<Rightarrow> int \<Rightarrow> 'w CellularCallConfig \<Rightarrow> errcode \<times> 'w CellularCallConfig" where
  "SetMute_cfg e slotId mt c = req (SetMuteRequest e slotId mt) c"

definition GetMute_cfg :: "'w cfg_env \<Rightarrow> int \<Rightarrow> 'w CellularCallConfig \<Rightarrow> errcode \<times> 'w CellularCallConfig" where
  "GetMute_cfg e slotId c = req (GetMuteRequest e slotId) c"

definition GetEmergencyCallList_cfg ::
    "'w cfg_env \<Rightarrow> int \<Rightarrow> 'w CellularCallConfig \<Rightarrow> errcode \<times> 'w CellularCallConfig" where
  "GetEmergencyCallList_cfg e slotId c = req (GetEmergencyCallListRequest e slotId) c"

definition SetEmergencyCallList ::
    "'w cfg_env \<Rightarrow> int \<Rightarrow> EmergencyCall list \<Rightarrow> 'w CellularCallConfig \<Rightarrow> errcode \<times> 'w CellularCallConfig" where
  "SetEmergencyCallList e slotId eccVec c = req (SetEmergencyCallListRequest e slotId eccVec) c"

section \<open>Clear code\<close>

definition SetClearCode_cfg :: "'w cfg_env \<Rightarrow> int \<Rightarrow> int \<Rightarrow> 'w CellularCallConfig \<Rightarrow> 'w CellularCallConfig" where
  "SetClearCode_cfg e slotId cause c =
     (if \<not> IsValidSlotId_cfg e slotId then c
      else let c1 = (if lastDisconnectCode c \<noteq> 0
                     then SetParameter e DISCONNECT_CODE ''0'' (c\<lparr>lastDisconnectCode := 0\<rparr>) else c) in
        if \<not> IsValidSlotId_cfg e slotId \<or> cause \<le> 0 then c1
        else if cause \<ge> IMS_CAUSE_BASE \<and> \<not> entry False (imsSipCauseEnable c1) slotId then c1
        else let code = (if cause \<ge> IMS_CAUSE_BASE then cause - IMS_CAUSE_BASE else cause) in
          if code = 0 then c1
          else SetParameter e DISCONNECT_CODE (to_string code) (c1\<lparr>lastDisconnectCode := code\<rparr>))"

end
