(* ===== verification/EccConfig.thy ===== *)
theory EccConfig
  imports SwitchConfig "HOL-Library.Monad_Syntax"
begin

text \<open>
  \<^verbatim>\<open>CellularCallConfig\<close>, third part: the emergency-number lists. There are two: the list that goes to the modem
  (\<open>UpdateEccNumberList\<close>: the operator's configuration, or the entry of the emergency-number table for the home or the
  visited network, kept per network), and the list by which a dialled number is recognised (\<open>MergeEccCallList\<close>: the numbers
  of the modem, the fixed numbers of 3GPP for a present or an absent card, and the numbers of the home network that are only
  treated as emergency numbers). The events that lead to an update are here too.

  The queries and \<^verbatim>\<open>Split\<close> are partial (\<open>RdbHelper\<close>, \<open>Standardize\<close>): \<open>None\<close> is an operation that does not return.
\<close>

section \<open>Entries\<close>

text \<open>\<^verbatim>\<open>EmergencyInfo\<close> is the modem's entry, of another repository.\<close>

record EmergencyInfo =
  i_eccNum :: string
  i_category :: int
  i_simpresent :: int
  i_mcc :: string
  i_abnormalService :: int

definition BuildEmergencyCall :: "EmergencyInfo \<Rightarrow> EmergencyCall" where
  "BuildEmergencyCall info =
     \<lparr>eccNum = i_eccNum info, mcc = i_mcc info, eccType = i_category info, simpresent = i_simpresent info,
      abnormalService = i_abnormalService info\<rparr>"

text \<open>A number may carry a category before a plus sign.\<close>

definition BuildDefaultEmergencyCall :: "'w cfg_env \<Rightarrow> string \<Rightarrow> int \<Rightarrow> EmergencyCall" where
  "BuildDefaultEmergencyCall e num simType =
     (let k = e_names e;
          call = \<lparr>eccNum = num, mcc = '''', eccType = k_TYPE_CATEGORY k, simpresent = simType,
                  abnormalService = k_TYPE_ALL k\<rparr> in
      (case find_sub ''+'' num of
         None \<Rightarrow> call
       | Some pos \<Rightarrow> call\<lparr>eccType := atoi (c_str (take pos num)), eccNum := drop pos num\<rparr>))"

definition InitModeActive :: "'w cfg_env \<Rightarrow> 'w CellularCallConfig \<Rightarrow> 'w CellularCallConfig" where
  "InitModeActive e c =
     (let k = e_names e; slotId = 0;
          build = (\<lambda>simType. map (\<lambda>n. BuildDefaultEmergencyCall e n simType)) in
      c\<lparr>modeMap := (modeMap c)(slotId \<mapsto> k_IMS_PS_VOICE_PREFERRED k),
        eccListRadioMap := Map.empty,
        allEccList := Map.empty,
        eccList3gppHasSim := build (k_TYPE_HAS_CARD k) [''112'', ''911''],
        eccList3gppNoSim := build (k_TYPE_NO_CARD k)
          [''112'', ''911'', ''000'', ''08'', ''110'', ''118'', ''119'', ''999'']\<rparr>)"

section \<open>State of the card and the network\<close>

definition CheckAndUpdateSimState :: "'w cfg_env \<Rightarrow> int \<Rightarrow> 'w CellularCallConfig \<Rightarrow> bool \<times> 'w CellularCallConfig" where
  "CheckAndUpdateSimState e slotId c =
     (let simStateForEcc = (case e_simState e slotId of
            SIM_STATE_READY \<Rightarrow> SIM_PRESENT | SIM_STATE_LOADED \<Rightarrow> SIM_PRESENT | SimState_other _ \<Rightarrow> SIM_ABSENT) in
      (entry 0 (simState c) slotId \<noteq> simStateForEcc, c\<lparr>simState := (simState c)(slotId \<mapsto> simStateForEcc)\<rparr>))"

definition GetRoamingState :: "'w cfg_env \<Rightarrow> int \<Rightarrow> bool" where
  "GetRoamingState e slotId = (case e_networkState e slotId of None \<Rightarrow> False | Some (_, roaming) \<Rightarrow> roaming)"

definition GetMcc :: "'w cfg_env \<Rightarrow> int \<Rightarrow> string" where
  "GetMcc e slotId =
     (let imsi = e_simNumeric e slotId in if length imsi \<ge> MCC_LEN then take MCC_LEN imsi else imsi)"

text \<open>The out-parameter starts as false.\<close>

definition CheckHomeAndPresentState :: "'w cfg_env \<Rightarrow> int \<Rightarrow> 'w CellularCallConfig \<Rightarrow> errcode \<times> bool" where
  "CheckHomeAndPresentState e slotId c =
     (case e_networkState e slotId of
        None \<Rightarrow> (TELEPHONY_ERR_FAIL, False)
      | Some (regState, isRoam) \<Rightarrow>
          (TELEPHONY_SUCCESS,
           regState = REG_STATE_IN_SERVICE \<and> \<not> isRoam \<and> entry 0 (simState c) slotId = SIM_PRESENT))"

section \<open>The list for the modem\<close>

definition query_ecc :: "'w cfg_env \<Rightarrow> string \<Rightarrow> (errcode \<times> EccNum list) option" where
  "query_ecc e numeric = QueryEccList (e_eccBean e) (e_eccShare e) numeric []"

definition GetEccListFromResult ::
    "EccNum list \<Rightarrow> string list \<Rightarrow> string list \<Rightarrow> (string list \<times> string list) option" where
  "GetEccListFromResult eccVec callListWithCard callListNoCard =
     (case eccVec of
        [] \<Rightarrow> Some (callListWithCard, callListNoCard)
      | row # _ \<Rightarrow> do {
          withCard \<leftarrow> Split (n_withcard row) '','';
          noCard \<leftarrow> Split (n_nocard row) '','';
          Some (withCard, noCard) })"

text \<open>The outcome of looking for a list: it is settled, or the numbers for a network are to be taken over. The flag says
  whether it is the home network.\<close>

datatype ecc_source = EccSettled | EccNumbers bool "string list" "string list"

definition ProcessHplmnEccList ::
    "'w cfg_env \<Rightarrow> int \<Rightarrow> string \<Rightarrow> 'w CellularCallConfig \<Rightarrow> (ecc_source \<times> 'w CellularCallConfig) option" where
  "ProcessHplmnEccList e slotId hplmn c =
     (let callListWithCard = (case stringArrayValue (snd (e_operatorConfig e slotId))
              (KEY_EMERGENCY_CALL_STRING_ARRAY (e_names e)) of Some v \<Rightarrow> v | None \<Rightarrow> []) in
      if callListWithCard = [] then
        let cached = hplmnEccList c ! nat slotId in
        if plmn cached = hplmn then Some (EccSettled, snd (SetEmergencyCallList e slotId (eccInfoList cached) c))
        else do {
          (ret, eccVec) \<leftarrow> query_ecc e hplmn;
          if ret = TELEPHONY_SUCCESS then do {
            (withCard, noCard) \<leftarrow> GetEccListFromResult eccVec callListWithCard [];
            Some (EccNumbers True withCard noCard, c) }
          else Some (EccSettled, c) }
      else
        let eccInfo = map (\<lambda>it. BuildDefaultEmergencyCall e it (k_TYPE_HAS_CARD (e_names e))) callListWithCard in
        Some (EccSettled, snd (SetEmergencyCallList e slotId eccInfo c)))"

definition ProcessCurrentPlmnEccList ::
    "'w cfg_env \<Rightarrow> int \<Rightarrow> 'w CellularCallConfig \<Rightarrow> (ecc_source \<times> 'w CellularCallConfig) option" where
  "ProcessCurrentPlmnEccList e slotId c =
     (if entry [] (curPlmn c) slotId = [] \<and> e_netNumeric e slotId = [] then Some (EccSettled, c)
      else let c1 = (if entry [] (curPlmn c) slotId = []
                     then c\<lparr>curPlmn := (curPlmn c)(slotId \<mapsto> e_netNumeric e slotId)\<rparr> else c);
               cached = currentPlmnEccList c1 ! nat slotId; current = entry [] (curPlmn c1) slotId in
        if plmn cached = current then Some (EccSettled, snd (SetEmergencyCallList e slotId (eccInfoList cached) c1))
        else do {
          (ret, eccVec) \<leftarrow> query_ecc e current;
          if ret \<noteq> TELEPHONY_SUCCESS then Some (EccSettled, c1)
          else do {
            (withCard, noCard) \<leftarrow> GetEccListFromResult eccVec [] [];
            Some (EccNumbers False withCard noCard, c1) } })"

definition UpdateEccNumberList :: "'w cfg_env \<Rightarrow> int \<Rightarrow> 'w CellularCallConfig \<Rightarrow> 'w CellularCallConfig option" where
  "UpdateEccNumberList e slotId c =
     (if \<not> IsValidSlotId_cfg e slotId then Some c
      else let hplmn = e_simNumeric e slotId; (ret, isHomeAndPresent) = CheckHomeAndPresentState e slotId c in
        if ret \<noteq> TELEPHONY_SUCCESS then Some c
        else do {
          (source, c1) \<leftarrow> (if hplmn \<noteq> [] \<and> isHomeAndPresent then ProcessHplmnEccList e slotId hplmn c
                           else ProcessCurrentPlmnEccList e slotId c);
          (case source of
             EccSettled \<Rightarrow> Some c1
           | EccNumbers isHplmnEccList withCard noCard \<Rightarrow>
               let k = e_names e;
                   eccInfo = map (\<lambda>it. BuildDefaultEmergencyCall e it (k_TYPE_HAS_CARD k)) withCard @
                             map (\<lambda>it. BuildDefaultEmergencyCall e it (k_TYPE_NO_CARD k)) noCard;
                   c2 = (if isHplmnEccList
                     then c1\<lparr>hplmnEccList := (hplmnEccList c1)[nat slotId := \<lparr>plmn = hplmn, eccInfoList = eccInfo\<rparr>]\<rparr>
                     else c1\<lparr>currentPlmnEccList := (currentPlmnEccList c1)
                            [nat slotId := \<lparr>plmn = entry [] (curPlmn c1) slotId, eccInfoList = eccInfo\<rparr>]\<rparr>) in
               Some (snd (SetEmergencyCallList e slotId eccInfo c2))) })"

section \<open>The list that recognises\<close>

text \<open>\<^verbatim>\<open>std::find\<close> with the equality of the structure.\<close>

definition has_ecc :: "'w cfg_env \<Rightarrow> EmergencyCall \<Rightarrow> EmergencyCall list \<Rightarrow> bool" where
  "has_ecc e call l \<longleftrightarrow> list_ex (\<lambda>x. e_sameEcc e x call) l"

text \<open>Appending the entries that are not there yet, one after the other.\<close>

fun add_missing :: "'w cfg_env \<Rightarrow> EmergencyCall list \<Rightarrow> EmergencyCall list \<Rightarrow> EmergencyCall list" where
  "add_missing e [] l = l"
| "add_missing e (call # cs) l = add_missing e cs (if has_ecc e call l then l else l @ [call])"

definition UniqueEccCallList ::
    "'w cfg_env \<Rightarrow> int \<Rightarrow> EmergencyCall list \<Rightarrow> 'w CellularCallConfig \<Rightarrow> 'w CellularCallConfig" where
  "UniqueEccCallList e slotId eccList c = c\<lparr>allEccList := (allEccList c)(slotId \<mapsto> add_missing e eccList [])\<rparr>"

definition UpdateEccListByFakeEccList ::
    "'w cfg_env \<Rightarrow> int \<Rightarrow> EmergencyCall list \<Rightarrow> 'w CellularCallConfig \<Rightarrow> EmergencyCall list" where
  "UpdateEccListByFakeEccList e slotId eccList c =
     add_missing e (eccInfoList (hplmnFakeEccList c ! nat slotId)) eccList"

definition UpdateHplmnFakeEccList ::
    "'w cfg_env \<Rightarrow> string list \<Rightarrow> string \<Rightarrow> int \<Rightarrow> EmergencyCall list \<Rightarrow> string \<Rightarrow> 'w CellularCallConfig \<Rightarrow>
     EmergencyCall list \<times> 'w CellularCallConfig" where
  "UpdateHplmnFakeEccList e callList hplmn slotId eccList code c =
     (if callList = [] then (eccList, c)
      else let added = map (\<lambda>it. (BuildDefaultEmergencyCall e it (k_TYPE_HAS_CARD (e_names e)))\<lparr>mcc := code\<rparr>) callList;
               fake = hplmnFakeEccList c ! nat slotId in
        (eccList @ added,
         c\<lparr>hplmnFakeEccList := (hplmnFakeEccList c)
             [nat slotId := \<lparr>plmn = hplmn, eccInfoList = add_missing e added (eccInfoList fake)\<rparr>]\<rparr>))"

definition MergeEccCallList :: "'w cfg_env \<Rightarrow> int \<Rightarrow> 'w CellularCallConfig \<Rightarrow> 'w CellularCallConfig option" where
  "MergeEccCallList e slotId c =
     (let code = GetMcc e slotId; with_mcc = map (\<lambda>ecc. ecc\<lparr>mcc := code\<rparr>);
          radio = with_mcc (entry [] (eccListRadioMap c) slotId);
          hasSim = sim_loaded (e_simState e slotId);
          temp = (if hasSim then if code \<noteq> [] then radio @ with_mcc (eccList3gppHasSim c) else radio
                  else radio @ with_mcc (eccList3gppNoSim c));
          hplmn = e_simNumeric e slotId in
      if hasSim \<and> \<not> GetRoamingState e slotId \<and> hplmn \<noteq> [] then
        if plmn (hplmnFakeEccList c ! nat slotId) = hplmn
        then Some (UniqueEccCallList e slotId (UpdateEccListByFakeEccList e slotId temp c) c)
        else do {
          (_, eccVec) \<leftarrow> query_ecc e hplmn;
          (case eccVec of
             [] \<Rightarrow> Some (UniqueEccCallList e slotId temp c)
           | row # _ \<Rightarrow> do {
               callList \<leftarrow> Split (n_fake row) '','';
               (let (temp', c1) = UpdateHplmnFakeEccList e callList hplmn slotId temp code c in
                Some (UniqueEccCallList e slotId temp' c1)) }) }
      else Some (UniqueEccCallList e slotId temp c))"

definition UpdateEmergencyCallFromRadio ::
    "'w cfg_env \<Rightarrow> int \<Rightarrow> EmergencyInfo list \<Rightarrow> 'w CellularCallConfig \<Rightarrow> 'w CellularCallConfig option" where
  "UpdateEmergencyCallFromRadio e slotId infos c =
     (if \<not> IsValidSlotId_cfg e slotId then Some c
      else MergeEccCallList e slotId
             (c\<lparr>eccListRadioMap := (eccListRadioMap c)(slotId \<mapsto> map BuildEmergencyCall infos)\<rparr>))"

definition GetEccCallList :: "int \<Rightarrow> 'w CellularCallConfig \<Rightarrow> EmergencyCall list" where
  "GetEccCallList slotId c = entry [] (allEccList c) slotId"

section \<open>Events\<close>

definition check_ims_again :: "int \<Rightarrow> 'w CellularCallConfig \<Rightarrow> 'w CellularCallConfig" where
  "check_ims_again slotId c = c\<lparr>shouldCheckImsAfterNvUpdate := (shouldCheckImsAfterNvUpdate c)(slotId \<mapsto> True)\<rparr>"

definition HandleSimStateChanged :: "'w cfg_env \<Rightarrow> int \<Rightarrow> 'w CellularCallConfig \<Rightarrow> 'w CellularCallConfig option" where
  "HandleSimStateChanged e slotId c =
     (if \<not> IsValidSlotId_cfg e slotId then Some c
      else let (changed, c1) = CheckAndUpdateSimState e slotId c in
        do { c2 \<leftarrow> (if changed then UpdateEccNumberList e slotId c1 else Some c1); Some (check_ims_again slotId c2) })"

definition HandleSimRecordsLoaded :: "'w cfg_env \<Rightarrow> int \<Rightarrow> 'w CellularCallConfig \<Rightarrow> 'w CellularCallConfig option" where
  "HandleSimRecordsLoaded e slotId c =
     (if \<not> IsValidSlotId_cfg e slotId then Some c
      else do { c1 \<leftarrow> UpdateEccNumberList e slotId (snd (CheckAndUpdateSimState e slotId c));
                Some (check_ims_again slotId c1) })"

definition HandleResidentNetworkChange ::
    "'w cfg_env \<Rightarrow> int \<Rightarrow> string \<Rightarrow> 'w CellularCallConfig \<Rightarrow> 'w CellularCallConfig option" where
  "HandleResidentNetworkChange e slotId numeric c =
     (if \<not> IsValidSlotId_cfg e slotId then Some c
      else UpdateEccNumberList e slotId
             (snd (CheckAndUpdateSimState e slotId (c\<lparr>curPlmn := (curPlmn c)(slotId \<mapsto> numeric)\<rparr>))))"

definition HandleNetworkStateChange ::
    "'w cfg_env \<Rightarrow> int \<Rightarrow> 'w CellularCallConfig \<Rightarrow> 'w CellularCallConfig option" where
  "HandleNetworkStateChange e slotId c =
     (if \<not> IsValidSlotId_cfg e slotId then Some c
      else case networkServiceState c slotId of
        None \<Rightarrow> Some c
      | Some st \<Rightarrow>
          (case e_networkState e slotId of
             None \<Rightarrow> Some c
           | Some (regState, isRoam) \<Rightarrow>
               let isInSrv = (regState = REG_STATE_IN_SERVICE);
                   c1 = (if isInSrv \<and> entry False (shouldCheckImsAfterNvUpdate c) slotId
                     then (snd (req (GetImsSwitchStatusRequest_req e slotId) c))
                       \<lparr>shouldCheckImsAfterNvUpdate := (shouldCheckImsAfterNvUpdate c)(slotId \<mapsto> False)\<rparr>
                     else c) in
               if isInService st = isInSrv \<and> isRoaming st = isRoam then Some c1
               else UpdateEccNumberList e slotId (snd (CheckAndUpdateSimState e slotId
                      (c1\<lparr>networkServiceState := (networkServiceState c1)
                            (slotId \<mapsto> \<lparr>isInService = isInSrv, isRoaming = isRoam\<rparr>)\<rparr>)))))"

definition HandleSimAccountLoaded :: "'w cfg_env \<Rightarrow> int \<Rightarrow> 'w CellularCallConfig \<Rightarrow> 'w CellularCallConfig option" where
  "HandleSimAccountLoaded e slotId c =
     (if \<not> IsValidSlotId_cfg e slotId then Some c
      else UpdateEccNumberList e slotId
             (UpdateImsConfiguration e slotId (k_INVALID_OPERATOR_CONFIG_STATE (e_names e)) False
               (snd (CheckAndUpdateSimState e slotId c))))"

definition ClearCachedEcclist :: "int \<Rightarrow> 'w CellularCallConfig \<Rightarrow> 'w CellularCallConfig" where
  "ClearCachedEcclist slotId c =
     (let none = \<lparr>plmn = '''', eccInfoList = []\<rparr> in
      c\<lparr>hplmnEccList := (hplmnEccList c)[nat slotId := none],
        currentPlmnEccList := (currentPlmnEccList c)[nat slotId := none],
        hplmnFakeEccList := (hplmnFakeEccList c)[nat slotId := none]\<rparr>)"

fun ecc_list_change :: "'w cfg_env \<Rightarrow> int list \<Rightarrow> 'w CellularCallConfig \<Rightarrow> 'w CellularCallConfig option" where
  "ecc_list_change e [] c = Some c"
| "ecc_list_change e (i # is) c =
     do { c1 \<leftarrow> UpdateEccNumberList e i (ClearCachedEcclist i c); ecc_list_change e is c1 }"

definition HandleEccListChange :: "'w cfg_env \<Rightarrow> 'w CellularCallConfig \<Rightarrow> 'w CellularCallConfig option" where
  "HandleEccListChange e c = ecc_list_change e [0..e_slots e - 1] c"

end
