(* ===== verification/ConfigInv.thy ===== *)
theory ConfigInv
  imports EccConfig
begin

text \<open>
  What is always true of the configuration: the laws of the persistent stores (\<open>store_laws\<close>), every operation as a
  step with the answers of its moment (\<open>config_step\<close>), the shape of the state (\<open>config_ok\<close>) and the agreement of the two
  places that hold the IMS switch (\<open>switch_ok\<close>).
\<close>

section \<open>Numbers in parameters\<close>

lemma digits_value_snoc:
  "list_all is_digit s \<Longrightarrow> is_digit d \<Longrightarrow> digits_value a (s @ [d]) = 10 * digits_value a s + (int (of_char d) - 48)"
  by (induction s arbitrary: a) auto

lemma digit_char: "(n :: nat) < 10 \<Longrightarrow> is_digit (char_of (48 + n)) \<and> int (of_char (char_of (48 + n) :: char)) = 48 + int n"
proof -
  assume "n < 10"
  then have "n \<in> {0, 1, 2, 3, 4, 5, 6, 7, 8, 9}" by auto
  then show ?thesis by (auto simp: is_digit_def char_of_def bit_0)
qed

lemma nat_string_digits: "list_all is_digit (nat_string n) \<and> nat_string n \<noteq> []"
proof (induction n rule: nat_string.induct)
  case (1 n)
  then show ?case using digit_char [of n] digit_char [of "n mod 10"] by (subst (1 2) nat_string.simps) simp
qed

lemma digits_value_nat_string: "digits_value 0 (nat_string n) = int n"
proof (induction n rule: nat_string.induct)
  case (1 n)
  show ?case
  proof (cases "n < 10")
    case True
    then show ?thesis using digit_char [of n] by (subst nat_string.simps) simp
  next
    case False
    have "int n = 10 * int (n div 10) + int (n mod 10)"
      by (metis mult_div_mod_eq of_nat_add of_nat_mult of_nat_numeral)
    with False 1 digit_char [of "n mod 10"] nat_string_digits [of "n div 10"] show ?thesis
      by (subst nat_string.simps) (simp add: digits_value_snoc)
  qed
qed

definition signed_value :: "string \<Rightarrow> int" where
  "signed_value s = (case s of [] \<Rightarrow> 0 | c # cs \<Rightarrow> if c = CHR ''-'' then - digits_value 0 cs else digits_value 0 s)"

lemma nat_string_head: "nat_string n = d # ds \<Longrightarrow> is_digit d"
  using nat_string_digits [of n] by simp

lemma signed_value_to_string: "signed_value (to_string i) = i"
proof (cases "i < 0")
  case True
  then show ?thesis by (simp add: signed_value_def to_string_def digits_value_nat_string)
next
  case False
  obtain d ds where n: "nat_string (nat i) = d # ds" using nat_string_digits by (cases "nat_string (nat i)") auto
  then have "d \<noteq> CHR ''-''" using nat_string_head [OF n] by (auto simp: is_digit_def)
  with False n digits_value_nat_string [of "nat i"] show ?thesis by (simp add: signed_value_def to_string_def)
qed

lemma to_string_inject [simp]: "to_string i = to_string j \<longleftrightarrow> i = j"
  by (metis signed_value_to_string)

text \<open>The keys of the parameters.\<close>

lemmas key_defs = IMSSWITCH_STATE_def VONR_STATE_def LAST_ICCID_KEY_def DISCONNECT_CODE_def

lemma keys_differ [simp]:
  "IMSSWITCH_STATE @ s \<noteq> VONR_STATE @ t" "VONR_STATE @ t \<noteq> IMSSWITCH_STATE @ s"
  "IMSSWITCH_STATE @ s \<noteq> LAST_ICCID_KEY @ t" "LAST_ICCID_KEY @ t \<noteq> IMSSWITCH_STATE @ s"
  "IMSSWITCH_STATE @ s \<noteq> DISCONNECT_CODE" "DISCONNECT_CODE \<noteq> IMSSWITCH_STATE @ s"
  "VONR_STATE @ s \<noteq> LAST_ICCID_KEY @ t" "LAST_ICCID_KEY @ t \<noteq> VONR_STATE @ s"
  "VONR_STATE @ s \<noteq> DISCONNECT_CODE" "DISCONNECT_CODE \<noteq> VONR_STATE @ s"
  by (simp_all add: key_defs)

section \<open>The stores\<close>

definition int32 :: "int \<Rightarrow> bool" where
  "int32 n \<longleftrightarrow> - (2 ^ 31) \<le> n \<and> n < 2 ^ 31"

text \<open>A parameter that was set is read back as the number it shows, other parameters and the database keep what they have;
  a string is read through a buffer with room for its end; the database gives the value saved last.\<close>

definition store_laws :: "'w store \<Rightarrow> bool" where
  "store_laws S \<longleftrightarrow>
     (\<forall>k n d w. int32 n \<longrightarrow> GetIntParameter_st S k d (SetParameter_st S k (to_string n) w) = n) \<and>
     (\<forall>k k' v d w. k \<noteq> k' \<longrightarrow> GetIntParameter_st S k d (SetParameter_st S k' v w) = GetIntParameter_st S k d w) \<and>
     (\<forall>slot old k v w. QueryImsSwitch_st S slot old (SetParameter_st S k v w) = QueryImsSwitch_st S slot old w) \<and>
     (\<forall>k d m w. 0 < m \<longrightarrow> length (GetParameter_st S k d m w) < m) \<and>
     (\<forall>slot old w. int32 old \<longrightarrow> int32 (snd (QueryImsSwitch_st S slot old w))) \<and>
     (\<forall>slot v w. int32 v \<longrightarrow>
        (let (r, w') = SaveImsSwitch_st S slot v w in
         (\<forall>k d. GetIntParameter_st S k d w' = GetIntParameter_st S k d w) \<and>
         (\<forall>slot' old. slot' \<noteq> slot \<longrightarrow> QueryImsSwitch_st S slot' old w' = QueryImsSwitch_st S slot' old w) \<and>
         (\<forall>old. QueryImsSwitch_st S slot old w' =
            (if r = TELEPHONY_SUCCESS then (TELEPHONY_SUCCESS, v) else QueryImsSwitch_st S slot old w))))"

lemma store_param:
  assumes "store_laws S"
  shows "int32 n \<Longrightarrow> GetIntParameter_st S k d (SetParameter_st S k (to_string n) w) = n"
    and "k \<noteq> k' \<Longrightarrow> GetIntParameter_st S k d (SetParameter_st S k' v w) = GetIntParameter_st S k d w"
    and "QueryImsSwitch_st S slot old (SetParameter_st S k v w) = QueryImsSwitch_st S slot old w"
    and "0 < m \<Longrightarrow> length (GetParameter_st S k dflt m w) < m"
    and "int32 old \<Longrightarrow> int32 (snd (QueryImsSwitch_st S slot old w))"
  using assms by (simp_all add: store_laws_def)

lemma store_save:
  assumes "store_laws S" and "int32 v" and "SaveImsSwitch_st S slot v w = (r, w')"
  shows "GetIntParameter_st S k d w' = GetIntParameter_st S k d w"
    and "slot' \<noteq> slot \<Longrightarrow> QueryImsSwitch_st S slot' old w' = QueryImsSwitch_st S slot' old w"
    and "QueryImsSwitch_st S slot old w' =
       (if r = TELEPHONY_SUCCESS then (TELEPHONY_SUCCESS, v) else QueryImsSwitch_st S slot old w)"
proof -
  have "let (r, w') = SaveImsSwitch_st S slot v w in
         (\<forall>k d. GetIntParameter_st S k d w' = GetIntParameter_st S k d w) \<and>
         (\<forall>slot' old. slot' \<noteq> slot \<longrightarrow> QueryImsSwitch_st S slot' old w' = QueryImsSwitch_st S slot' old w) \<and>
         (\<forall>old. QueryImsSwitch_st S slot old w' =
            (if r = TELEPHONY_SUCCESS then (TELEPHONY_SUCCESS, v) else QueryImsSwitch_st S slot old w))"
    using assms(1,2) by (simp only: store_laws_def)
  with assms(3) show "GetIntParameter_st S k d w' = GetIntParameter_st S k d w"
    and "slot' \<noteq> slot \<Longrightarrow> QueryImsSwitch_st S slot' old w' = QueryImsSwitch_st S slot' old w"
    and "QueryImsSwitch_st S slot old w' =
       (if r = TELEPHONY_SUCCESS then (TELEPHONY_SUCCESS, v) else QueryImsSwitch_st S slot old w)"
    by simp_all
qed

lemma switch_values_int32 [simp]:
  "int32 IMS_SWITCH_STATUS_UNKNOWN" "int32 IMS_SWITCH_STATUS_OFF" "int32 IMS_SWITCH_STATUS_ON"
  "int32 (BooleanToImsSwitchValue b)"
  by (simp_all add: int32_def IMS_SWITCH_STATUS_UNKNOWN_def IMS_SWITCH_STATUS_OFF_def IMS_SWITCH_STATUS_ON_def
      BooleanToImsSwitchValue_def)

lemma switch_value_known [simp]: "BooleanToImsSwitchValue b \<noteq> IMS_SWITCH_STATUS_UNKNOWN"
  by (simp add: IMS_SWITCH_STATUS_UNKNOWN_def IMS_SWITCH_STATUS_OFF_def IMS_SWITCH_STATUS_ON_def BooleanToImsSwitchValue_def)

section \<open>Steps\<close>

text \<open>Every operation that changes the state. The answers may be different ones in every step; the build, the
  constants, the number of slots and the stores are fixed.\<close>

inductive config_step :: "'w cfg_env \<Rightarrow> 'w CellularCallConfig \<Rightarrow> 'w CellularCallConfig \<Rightarrow> bool" for e where
  "config_step e c (CellularCallConfig_ctor e c)"
| "config_step e c (InitModeActive e c)"
| "config_step e c (SetReadyToCall_cfg e slotId b c)"
| "config_step e c (snd (SetDomainPreferenceMode e slotId md c))"
| "config_step e c (snd (GetDomainPreferenceMode e slotId c))"
| "config_step e c (GetDomainPreferenceModeResponse_cfg e slotId md c)"
| "config_step e c (SetTempMode e slotId c)"
| "config_step e c (snd (SetImsSwitchStatus e slotId active c))"
| "config_step e c (snd (SetVoNRSwitchStatus e slotId st c))"
| "config_step e c (HandleSetVoNRSwitchResult e slotId result c)"
| "config_step e c (SetRadioOn b c)"
| "config_step e c (HandleSetLteImsSwitchResult e slotId result c)"
| "config_step e c (HandleFactoryReset e slotId c)"
| "config_step e c (UpdateImsConfiguration e slotId st b c)"
| "config_step e c (HandleOperatorConfigChanged e slotId st c)"
| "config_step e c (UpdateImsCapabilities e slotId ut opc st c)"
| "config_step e c (snd (IsVolteSupport e slotId c))"
| "config_step e c (snd (SetImsConfig_string e cfg txt c))"
| "config_step e c (snd (SetImsConfig_int e cfg val c))"
| "config_step e c (snd (GetImsConfig e cfg c))"
| "config_step e c (snd (SetImsFeatureValue e ftype val c))"
| "config_step e c (snd (GetImsFeatureValue e ftype c))"
| "config_step e c (snd (SetRttCapability e slotId b c))"
| "config_step e c (snd (SetMute_cfg e slotId mt c))"
| "config_step e c (snd (GetMute_cfg e slotId c))"
| "config_step e c (snd (GetEmergencyCallList_cfg e slotId c))"
| "config_step e c (snd (SetEmergencyCallList e slotId eccVec c))"
| "config_step e c (SetClearCode_cfg e slotId cause c)"
| "UpdateEmergencyCallFromRadio e slotId infos c = Some c' \<Longrightarrow> config_step e c c'"
| "HandleSimStateChanged e slotId c = Some c' \<Longrightarrow> config_step e c c'"
| "HandleSimRecordsLoaded e slotId c = Some c' \<Longrightarrow> config_step e c c'"
| "HandleResidentNetworkChange e slotId numeric c = Some c' \<Longrightarrow> config_step e c c'"
| "HandleNetworkStateChange e slotId c = Some c' \<Longrightarrow> config_step e c c'"
| "HandleSimAccountLoaded e slotId c = Some c' \<Longrightarrow> config_step e c c'"
| "HandleEccListChange e c = Some c' \<Longrightarrow> config_step e c c'"
| "config_step e c (SetPreferredNetworkByConfig slotId c)"

text \<open>The static state as the program starts, then the first constructor, then steps.\<close>

definition config_start :: "nat \<Rightarrow> 'w \<Rightarrow> 'w CellularCallConfig" where
  "config_start n w =
     (let none = replicate n \<lparr>plmn = '''', eccInfoList = []\<rparr> in
      \<lparr>imsSwitchOnByDefault = Map.empty, hideImsSwitch = Map.empty, volteSupported = Map.empty,
       carrierVtAvailable = Map.empty, nrModeSupportedList = Map.empty, volteProvisioningSupported = Map.empty,
       ssOverUtSupported = Map.empty, imsGbaRequired = Map.empty, utProvisioningSupported = Map.empty,
       imsPreferForEmergency = Map.empty, callWaitingServiceClass = Map.empty,
       imsCallDisconnectResoninfoMapping = Map.empty, forceVolteSwitchOn = Map.empty, videoCallWaiting = Map.empty,
       imsSipCauseEnable = Map.empty, vonrSwithStatus = Map.empty, shouldCheckImsAfterNvUpdate = Map.empty,
       networkServiceState = Map.empty, readyToCall_cfg = Map.empty, modeMap = Map.empty, modeTempMap = Map.empty,
       lastDisconnectCode = 0, isOperatorConfigInit = False, isRadioOn_cfg = False, isOperatorConfigChanged = False,
       eccListRadioMap = Map.empty, eccList3gppHasSim = [], eccList3gppNoSim = [], allEccList = Map.empty,
       simState = Map.empty, curPlmn = Map.empty, hplmnEccList = none, currentPlmnEccList = none,
       hplmnFakeEccList = none, world = w, trace = []\<rparr>)"

inductive config_reach ::
    "'w store \<Rightarrow> int \<Rightarrow> (EmergencyCall \<Rightarrow> EmergencyCall \<Rightarrow> bool) \<Rightarrow> 'w \<Rightarrow> 'w CellularCallConfig \<Rightarrow> bool"
  for S n same w where
  start: "e_slots e = n \<Longrightarrow> config_reach S n same w (CellularCallConfig_ctor e (config_start (nat n) w))"
| step: "config_reach S n same w c \<Longrightarrow> e_store e = S \<Longrightarrow> e_slots e = n \<Longrightarrow> e_sameEcc e = same \<Longrightarrow>
    config_step e c c' \<Longrightarrow> config_reach S n same w c'"

section \<open>The shape of the state\<close>

definition unique_ecc :: "(EmergencyCall \<Rightarrow> EmergencyCall \<Rightarrow> bool) \<Rightarrow> EmergencyCall list \<Rightarrow> bool" where
  "unique_ecc same l \<longleftrightarrow> sorted_wrt (\<lambda>x y. \<not> same x y) l"

definition slot_entries :: "int \<Rightarrow> 'a SwitchSettings_scheme \<Rightarrow> bool" where
  "slot_entries i c \<longleftrightarrow>
     imsSwitchOnByDefault c i \<noteq> None \<and> hideImsSwitch c i \<noteq> None \<and> volteSupported c i \<noteq> None \<and>
     carrierVtAvailable c i \<noteq> None \<and> nrModeSupportedList c i \<noteq> None \<and> volteProvisioningSupported c i \<noteq> None \<and>
     ssOverUtSupported c i \<noteq> None \<and> imsGbaRequired c i \<noteq> None \<and> utProvisioningSupported c i \<noteq> None \<and>
     imsPreferForEmergency c i \<noteq> None \<and> callWaitingServiceClass c i \<noteq> None \<and>
     imsCallDisconnectResoninfoMapping c i \<noteq> None \<and> forceVolteSwitchOn c i \<noteq> None \<and> videoCallWaiting c i \<noteq> None \<and>
     imsSipCauseEnable c i \<noteq> None \<and> vonrSwithStatus c i \<noteq> None \<and> shouldCheckImsAfterNvUpdate c i \<noteq> None \<and>
     networkServiceState c i \<noteq> None \<and> readyToCall_cfg c i \<noteq> None"

text \<open>Every slot has an entry in the maps of the defaults, the vectors have one entry per slot, the card of a slot is
  present or absent, and no emergency number is listed twice.\<close>

definition config_ok ::
    "int \<Rightarrow> (EmergencyCall \<Rightarrow> EmergencyCall \<Rightarrow> bool) \<Rightarrow> 'a EccSettings_scheme \<Rightarrow> bool" where
  "config_ok n same c \<longleftrightarrow>
     isOperatorConfigInit c \<and> (\<forall>i \<in> {0..<n}. slot_entries i c) \<and>
     length (hplmnEccList c) = nat n \<and> length (currentPlmnEccList c) = nat n \<and> length (hplmnFakeEccList c) = nat n \<and>
     ran (simState c) \<subseteq> {SIM_PRESENT, SIM_ABSENT} \<and>
     (\<forall>l \<in> ran (allEccList c). unique_ecc same l)"

definition same_settings :: "'a EccSettings_scheme \<Rightarrow> 'b EccSettings_scheme \<Rightarrow> bool" where
  "same_settings c c' \<longleftrightarrow> EccSettings.truncate c = EccSettings.truncate c'"

lemma config_ok_same: "same_settings c' c \<Longrightarrow> config_ok n same c' = config_ok n same c"
  by (simp add: same_settings_def EccSettings.defs config_ok_def slot_entries_def)

lemma same_settings_refl [simp]: "same_settings c c" by (simp add: same_settings_def)

lemma same_settings_trans: "same_settings c' c \<Longrightarrow> same_settings c'' c' \<Longrightarrow> same_settings c'' c"
  by (simp add: same_settings_def)

text \<open>Operations that only send requests and write to the stores.\<close>

lemma same_emit [simp]: "same_settings (emit acts c) c'" if "same_settings c c'"
  using that by (simp add: same_settings_def emit_def EccSettings.defs)

lemma same_world [simp]: "same_settings (c\<lparr>world := w\<rparr>) c'" if "same_settings c c'"
  using that by (simp add: same_settings_def EccSettings.defs)

lemma same_param [simp]: "same_settings (SetParameter e k v c) c'" if "same_settings c c'"
  using that by (simp add: SetParameter_def)

lemma same_req [simp]: "same_settings (snd (req r c)) c'" if "same_settings c c'"
  using that by (simp add: req_def)

lemma same_volte_prov [simp]: "same_settings (snd (IsVolteProvisioned e slotId c)) c'" if "same_settings c c'"
  using that by (simp add: IsVolteProvisioned_def feature_enabled_def Let_def split_def)

lemma same_ut_prov [simp]: "same_settings (snd (IsUtProvisioned e slotId c)) c'" if "same_settings c c'"
  using that by (simp add: IsUtProvisioned_def feature_enabled_def Let_def split_def)

lemma same_save [simp]: "same_settings (snd (SaveImsSwitch e slotId v c)) c'" if "same_settings c c'"
  using that by (simp add: SaveImsSwitch_def SaveVoNRState_def saveImsSwitchStatusToLocal_def Let_def split_def)

lemma same_power_on [simp]: "same_settings (saveImsSwitchStatusToLocalForPowerOn e slotId c) c'" if "same_settings c c'"
  using that by (simp add: saveImsSwitchStatusToLocalForPowerOn_def)

lemma same_sim_changed [simp]: "same_settings (snd (IsSimChanged e slotId iccid c)) c'" if "same_settings c c'"
  using that by (simp add: IsSimChanged_def Let_def)

lemma same_reset [simp]: "same_settings (ResetImsSwitch e slotId c) c'" if "same_settings c c'"
  using that by (simp add: ResetImsSwitch_def saveImsSwitchStatusToLocal_def Let_def split_def)

lemma same_volte [simp]: "same_settings (snd (IsVolteSupport e slotId c)) c'" if "same_settings c c'"
  using that by (simp add: IsVolteSupport_def Let_def split_def)

lemma same_voice [simp]: "same_settings (snd (UpdateImsVoiceCapabilities e slotId caps c)) c'" if "same_settings c c'"
  using that by (simp add: UpdateImsVoiceCapabilities_def Let_def split_def)

lemma same_ut [simp]: "same_settings (snd (UpdateImsUtCapabilities e slotId caps c)) c'" if "same_settings c c'"
  using that by (simp add: UpdateImsUtCapabilities_def Let_def split_def)

lemma same_capabilities [simp]: "same_settings (UpdateImsCapabilities e slotId ut opc st c) c'" if "same_settings c c'"
  using that by (simp add: UpdateImsCapabilities_def Let_def split_def)

lemma same_set_switch [simp]: "same_settings (snd (SetImsSwitchStatus e slotId active c)) c'" if "same_settings c c'"
  using that by (simp add: SetImsSwitchStatus_def Let_def split_def)

lemma same_factory [simp]: "same_settings (HandleFactoryReset e slotId c) c'" if "same_settings c c'"
  using that by (simp add: HandleFactoryReset_def Let_def split_def)

lemma same_vonr_result [simp]: "same_settings (HandleSetVoNRSwitchResult e slotId r c) c'" if "same_settings c c'"
  using that by (simp add: HandleSetVoNRSwitchResult_def SaveVoNRState_def Let_def split_def)

lemma same_ecc_request [simp]: "same_settings (snd (SetEmergencyCallList e slotId l c)) c'" if "same_settings c c'"
  using that by (simp add: SetEmergencyCallList_def)

lemmas same_forward =
  GetDomainPreferenceMode_def SetImsConfig_string_def SetImsConfig_int_def GetImsConfig_def SetImsFeatureValue_def
  GetImsFeatureValue_def SetRttCapability_def SetMute_cfg_def GetMute_cfg_def GetEmergencyCallList_cfg_def

section \<open>Every operation keeps the shape\<close>

text \<open>The constructor.\<close>

lemma insert_absent_entries [simp]:
  "insert_absent k v m i \<noteq> None \<longleftrightarrow> i = k \<or> m i \<noteq> None"
  "insert_absent k v m i = None \<longleftrightarrow> i \<noteq> k \<and> m i = None"
  by (auto simp: insert_absent_def split: option.splits)

lemma init_slot_entries: "slot_entries i (init_slot e k c) \<longleftrightarrow> i = k \<or> slot_entries i c"
  unfolding slot_entries_def init_slot_def Let_def by simp blast

lemma init_slots_entries: "slot_entries i (fold (init_slot e) ks c) \<longleftrightarrow> i \<in> set ks \<or> slot_entries i c"
  by (induction ks arbitrary: c) (auto simp: init_slot_entries)

definition ecc_parts :: "'a EccSettings_scheme \<Rightarrow> _" where
  "ecc_parts c = (hplmnEccList c, currentPlmnEccList c, hplmnFakeEccList c, simState c, allEccList c)"

lemma init_slots_ecc: "ecc_parts (fold (init_slot e) ks c) = ecc_parts c"
  by (induction ks arbitrary: c) (simp_all add: ecc_parts_def init_slot_def Let_def)

lemma init_flag_entries [simp]: "slot_entries i (c\<lparr>isOperatorConfigInit := b\<rparr>) = slot_entries i c"
  by (simp add: slot_entries_def)

lemma ctor_ok:
  assumes "e_slots e = n"
  shows "config_ok n same (CellularCallConfig_ctor e (config_start (nat n) w))"
proof -
  define d where "d = fold (init_slot e) [0..n - 1] (config_start (nat n) w)"
  have "ecc_parts d = ecc_parts (config_start (nat n) w)" by (simp add: d_def init_slots_ecc)
  moreover have "\<forall>i \<in> {0..<n}. slot_entries i d" by (simp add: d_def init_slots_entries)
  moreover have "\<not> isOperatorConfigInit (config_start (nat n) w)" by (simp add: config_start_def Let_def)
  then have "CellularCallConfig_ctor e (config_start (nat n) w) = d\<lparr>isOperatorConfigInit := True\<rparr>"
    using assms by (simp add: CellularCallConfig_ctor_def InitDefaultOperatorConfig_def d_def)
  ultimately show ?thesis by (simp add: config_ok_def ecc_parts_def config_start_def Let_def)
qed

lemma ctor_again: "config_ok n same c \<Longrightarrow> CellularCallConfig_ctor e c = c"
  by (simp add: CellularCallConfig_ctor_def config_ok_def)

text \<open>Writes to single fields.\<close>

lemmas ok_defs = config_ok_def slot_entries_def

lemma ok_fields [simp]:
  assumes "config_ok n same c"
  shows "config_ok n same (c\<lparr>modeMap := mm\<rparr>)" and "config_ok n same (c\<lparr>modeTempMap := mm\<rparr>)"
    and "config_ok n same (c\<lparr>lastDisconnectCode := code\<rparr>)"
    and "config_ok n same (c\<lparr>isRadioOn_cfg := b\<rparr>)" and "config_ok n same (c\<lparr>isOperatorConfigChanged := b\<rparr>)"
    and "config_ok n same (c\<lparr>eccListRadioMap := rm\<rparr>)" and "config_ok n same (c\<lparr>curPlmn := pm\<rparr>)"
    and "config_ok n same (c\<lparr>eccList3gppHasSim := l\<rparr>)" and "config_ok n same (c\<lparr>eccList3gppNoSim := l\<rparr>)"
    and "config_ok n same (c\<lparr>hplmnEccList := (hplmnEccList c)[k := el]\<rparr>)"
    and "config_ok n same (c\<lparr>currentPlmnEccList := (currentPlmnEccList c)[k := el]\<rparr>)"
    and "config_ok n same (c\<lparr>hplmnFakeEccList := (hplmnFakeEccList c)[k := el]\<rparr>)"
    and "config_ok n same (c\<lparr>readyToCall_cfg := (readyToCall_cfg c)(i \<mapsto> b)\<rparr>)"
    and "config_ok n same (c\<lparr>vonrSwithStatus := (vonrSwithStatus c)(i \<mapsto> v)\<rparr>)"
    and "config_ok n same (c\<lparr>shouldCheckImsAfterNvUpdate := (shouldCheckImsAfterNvUpdate c)(i \<mapsto> b)\<rparr>)"
    and "config_ok n same (c\<lparr>networkServiceState := (networkServiceState c)(i \<mapsto> ns)\<rparr>)"
    and "unique_ecc same l \<Longrightarrow> config_ok n same (c\<lparr>allEccList := (allEccList c)(i \<mapsto> l)\<rparr>)"
  using assms by (auto simp: ok_defs ran_def)

lemma ok_sameI: "config_ok n same c \<Longrightarrow> same_settings c' c \<Longrightarrow> config_ok n same c'"
  by (simp add: config_ok_same)

lemma ok_same [simp]:
  assumes "config_ok n same c"
  shows "config_ok n same (SetParameter e k v c)" and "config_ok n same (emit acts c)"
    and "config_ok n same (snd (req r c))" and "config_ok n same (snd (SetEmergencyCallList e slotId el c))"
    and "config_ok n same (UpdateImsCapabilities e slotId ut opc st c)"
    and "config_ok n same (ResetImsSwitch e slotId c)"
    and "config_ok n same (saveImsSwitchStatusToLocalForPowerOn e slotId c)"
  by (rule ok_sameI [OF assms], simp)+

lemma map_entries [simp]:
  "ParseBoolOperatorConfigs slotId m poc key i = None \<longleftrightarrow> m i = None \<and> (i = slotId \<longrightarrow> boolValue poc key = None)"
  "(case v of None \<Rightarrow> m' | Some x \<Rightarrow> m'(slotId \<mapsto> x)) i = None \<longleftrightarrow> m' i = None \<and> (i = slotId \<longrightarrow> v = None)"
  by (auto simp: ParseBoolOperatorConfigs_def split: option.splits)

lemma parse_ok:
  assumes "config_ok n same c"
  shows "config_ok n same (snd (ParseAndCacheOperatorConfigs e slotId poc c))"
proof (cases "IsValidSlotId_cfg e slotId")
  case True
  have "slot_entries i c \<Longrightarrow> slot_entries i (snd (ParseAndCacheOperatorConfigs e slotId poc c))" for i
    using True by (simp add: ParseAndCacheOperatorConfigs_def Let_def slot_entries_def)
  with assms True show ?thesis by (simp add: config_ok_def ParseAndCacheOperatorConfigs_def Let_def)
qed (use assms in \<open>simp add: ParseAndCacheOperatorConfigs_def\<close>)

lemma configuration_ok: "config_ok n same c \<Longrightarrow> config_ok n same (UpdateImsConfiguration e slotId st b c)"
  using parse_ok [of n same c e slotId]
  by (auto simp: UpdateImsConfiguration_def Let_def split_def split: option.splits)

lemma sim_state_ok: "config_ok n same c \<Longrightarrow> config_ok n same (snd (CheckAndUpdateSimState e slotId c))"
proof -
  assume ok: "config_ok n same c"
  define v where "v = (case e_simState e slotId of
    SIM_STATE_READY \<Rightarrow> SIM_PRESENT | SIM_STATE_LOADED \<Rightarrow> SIM_PRESENT | SimState_other _ \<Rightarrow> SIM_ABSENT)"
  have "v \<in> {SIM_PRESENT, SIM_ABSENT}" by (simp add: v_def split: SimState.splits)
  moreover have "ran (simState c) \<subseteq> {SIM_PRESENT, SIM_ABSENT}" using ok by (simp add: config_ok_def)
  ultimately have "ran ((simState c)(slotId \<mapsto> v)) \<subseteq> {SIM_PRESENT, SIM_ABSENT}"
    by (auto simp: ran_def split: if_splits)
  with ok show ?thesis
    by (simp add: config_ok_def slot_entries_def CheckAndUpdateSimState_def Let_def flip: v_def)
qed

text \<open>The emergency-number lists.\<close>

lemma add_missing_unique: "unique_ecc (e_sameEcc e) l \<Longrightarrow> unique_ecc (e_sameEcc e) (add_missing e cs l)"
  by (induction e cs l rule: add_missing.induct)
     (auto simp: has_ecc_def list_ex_iff unique_ecc_def sorted_wrt_append)

lemma unique_ok:
  "config_ok n same c \<Longrightarrow> e_sameEcc e = same \<Longrightarrow> config_ok n same (UniqueEccCallList e slotId l c)"
  using add_missing_unique [of e "[]" l] by (simp add: UniqueEccCallList_def unique_ecc_def)

lemma merge_ok:
  "MergeEccCallList e slotId c = Some c' \<Longrightarrow> e_sameEcc e = same \<Longrightarrow> config_ok n same c \<Longrightarrow> config_ok n same c'"
  by (auto simp: MergeEccCallList_def Let_def UpdateHplmnFakeEccList_def unique_ok
      split: if_splits option.splits Option.bind_splits list.splits)

lemma hplmn_ok:
  "ProcessHplmnEccList e slotId hplmn c = Some (source, c') \<Longrightarrow> config_ok n same c \<Longrightarrow> config_ok n same c'"
  by (auto simp: ProcessHplmnEccList_def Let_def split: if_splits Option.bind_splits)

lemma current_plmn_ok:
  "ProcessCurrentPlmnEccList e slotId c = Some (source, c') \<Longrightarrow> config_ok n same c \<Longrightarrow> config_ok n same c'"
  by (auto simp: ProcessCurrentPlmnEccList_def Let_def split: if_splits Option.bind_splits)

lemma ecc_number_list_ok:
  "UpdateEccNumberList e slotId c = Some c' \<Longrightarrow> config_ok n same c \<Longrightarrow> config_ok n same c'"
  by (auto simp: UpdateEccNumberList_def Let_def split_def split: if_splits Option.bind_splits ecc_source.splits
      dest!: hplmn_ok current_plmn_ok)

text \<open>The events.\<close>

lemma check_ims_ok [simp]: "config_ok n same c \<Longrightarrow> config_ok n same (check_ims_again slotId c)"
  by (simp add: check_ims_again_def)

lemma clear_ok: "config_ok n same c \<Longrightarrow> config_ok n same (ClearCachedEcclist slotId c)"
  by (simp add: ClearCachedEcclist_def Let_def config_ok_def slot_entries_def)

lemma ecc_change_ok: "ecc_list_change e is c = Some c' \<Longrightarrow> config_ok n same c \<Longrightarrow> config_ok n same c'"
  by (induction e "is" c rule: ecc_list_change.induct)
     (auto split: Option.bind_splits dest!: ecc_number_list_ok [OF _ clear_ok])

lemma resident_ok:
  "HandleResidentNetworkChange e slotId numeric c = Some c' \<Longrightarrow> config_ok n same c \<Longrightarrow> config_ok n same c'"
  by (auto simp: HandleResidentNetworkChange_def split: if_splits dest!: ecc_number_list_ok [OF _ sim_state_ok])

lemma network_state_ok:
  assumes "HandleNetworkStateChange e slotId c = Some c'" and "config_ok n same c"
  shows "config_ok n same c'"
proof -
  let ?c1 = "\<lambda>reg. if reg = REG_STATE_IN_SERVICE \<and> entry False (shouldCheckImsAfterNvUpdate c) slotId
    then (snd (req (GetImsSwitchStatusRequest_req e slotId) c))
      \<lparr>shouldCheckImsAfterNvUpdate := (shouldCheckImsAfterNvUpdate c)(slotId \<mapsto> False)\<rparr> else c"
  have c1: "config_ok n same (?c1 reg)" for reg
    using assms(2) by (auto simp: req_def emit_def config_ok_def slot_entries_def)
  show ?thesis
  proof (cases "IsValidSlotId_cfg e slotId \<and> networkServiceState c slotId \<noteq> None \<and> e_networkState e slotId \<noteq> None")
    case True
    then obtain st reg roam where h: "networkServiceState c slotId = Some st" "e_networkState e slotId = Some (reg, roam)"
      by auto
    define c1' where "c1' = ?c1 reg"
    define c2 where "c2 = c1'\<lparr>networkServiceState := (networkServiceState c1')
      (slotId \<mapsto> \<lparr>isInService = (reg = REG_STATE_IN_SERVICE), isRoaming = roam\<rparr>)\<rparr>"
    have "HandleNetworkStateChange e slotId c = (if isInService st = (reg = REG_STATE_IN_SERVICE) \<and> isRoaming st = roam then Some c1'
      else UpdateEccNumberList e slotId (snd (CheckAndUpdateSimState e slotId c2)))"
      using True h by (simp add: HandleNetworkStateChange_def Let_def c1'_def c2_def)
    with assms(1) have "c' = c1' \<or> UpdateEccNumberList e slotId (snd (CheckAndUpdateSimState e slotId c2)) = Some c'"
      by (auto split: if_split_asm)
    moreover have "config_ok n same c1'" unfolding c1'_def by (rule c1)
    moreover from this have "config_ok n same c2" unfolding c2_def by (rule ok_fields(16))
    ultimately show ?thesis using ecc_number_list_ok [OF _ sim_state_ok] by blast
  qed (use assms in \<open>auto simp: HandleNetworkStateChange_def split: if_splits option.splits\<close>)
qed

lemma init_mode_ok: "config_ok n same c \<Longrightarrow> config_ok n same (InitModeActive e c)"
  by (simp add: config_ok_def slot_entries_def InitModeActive_def Let_def)

lemma operator_config_ok: "config_ok n same c \<Longrightarrow> config_ok n same (HandleOperatorConfigChanged e slotId st c)"
  by (simp add: HandleOperatorConfigChanged_def configuration_ok)

lemma config_step_ok:
  assumes "config_step e c c'" and "e_sameEcc e = same" and "config_ok n same c"
  shows "config_ok n same c'"
  using assms(1)
proof cases
  case 29
  then show ?thesis using assms(3) merge_ok [OF _ assms(2) ok_fields(6) [OF assms(3)]]
    by (simp add: UpdateEmergencyCallFromRadio_def split: if_splits)
next
  case 30
  with assms(3) show ?thesis
    by (auto simp: HandleSimStateChanged_def Let_def split_def sim_state_ok
        split: if_splits Option.bind_splits dest!: ecc_number_list_ok [OF _ sim_state_ok])
next
  case 31
  with assms(3) show ?thesis
    by (auto simp: HandleSimRecordsLoaded_def split: if_splits Option.bind_splits
        dest!: ecc_number_list_ok [OF _ sim_state_ok])
next
  case 34
  with assms(3) show ?thesis
    by (auto simp: HandleSimAccountLoaded_def split: if_splits
        dest!: ecc_number_list_ok [OF _ configuration_ok [OF sim_state_ok]])
next
  case 35
  with assms(3) show ?thesis by (simp add: HandleEccListChange_def ecc_change_ok)
qed (use assms(3) resident_ok network_state_ok configuration_ok init_mode_ok operator_config_ok in
    \<open>auto simp: ctor_again Let_def SetReadyToCall_cfg_def SetDomainPreferenceMode_def
       GetDomainPreferenceModeResponse_cfg_def SetTempMode_def SetVoNRSwitchStatus_def SetRadioOn_def
       HandleSetLteImsSwitchResult_def SetPreferredNetworkByConfig_def
       SetClearCode_cfg_def same_forward split_def ok_sameI\<close>)

lemma config_reach_ok: "config_reach S n same w c \<Longrightarrow> config_ok n same c"
  by (induction rule: config_reach.induct) (auto simp: ctor_ok intro: config_step_ok)

end
