(* ===== verification/ConfigProps.thy ===== *)
theory ConfigProps
  imports ConfigInv Samples
begin

text \<open>
  Properties of the configuration: the shape of its state, the IMS switch that is read as it was set, and what a change
  of the operator configuration does to it.
\<close>

section \<open>What touches the stores\<close>

named_theorems world_simps \<open>operations that leave the stores alone\<close>

lemma world_requests [world_simps]:
  "world (emit acts c) = world c" "world (snd (req r c)) = world c"
  "world (snd (IsVolteProvisioned e slotId c)) = world c" "world (snd (IsUtProvisioned e slotId c)) = world c"
  "world (snd (SetEmergencyCallList e slotId l c)) = world c"
  by (simp_all add: emit_def req_def IsVolteProvisioned_def IsUtProvisioned_def feature_enabled_def
      SetEmergencyCallList_def Let_def split_def)

lemma world_capabilities [world_simps]:
  "world (snd (IsVolteSupport e slotId c)) = world c"
  "world (snd (UpdateImsVoiceCapabilities e slotId caps c)) = world c"
  "world (snd (UpdateImsUtCapabilities e slotId caps c)) = world c"
  "world (UpdateImsCapabilities e slotId ut opc st c) = world c"
  by (simp_all add: IsVolteSupport_def UpdateImsVoiceCapabilities_def UpdateImsUtCapabilities_def
      UpdateImsCapabilities_def Let_def split_def world_requests)

lemma world_state [world_simps]:
  "world (snd (CheckAndUpdateSimState e slotId c)) = world c"
  "world (snd (ParseAndCacheOperatorConfigs e slotId poc c)) = world c"
  "world (UniqueEccCallList e slotId l c) = world c"
  "world (check_ims_again slotId c) = world c"
  "world (ClearCachedEcclist slotId c) = world c"
  "world (InitModeActive e c) = world c"
  by (simp_all add: CheckAndUpdateSimState_def ParseAndCacheOperatorConfigs_def UniqueEccCallList_def
      check_ims_again_def ClearCachedEcclist_def InitModeActive_def Let_def)

lemma world_init: "world (fold (init_slot e) ks c) = world c"
  by (induction ks arbitrary: c) (simp_all add: init_slot_def Let_def)

lemma world_ctor [world_simps]: "world (CellularCallConfig_ctor e c) = world c"
  by (simp add: CellularCallConfig_ctor_def InitDefaultOperatorConfig_def world_init)

lemma world_ecc:
  "MergeEccCallList e slotId c = Some c' \<Longrightarrow> world c' = world c"
  "ProcessHplmnEccList e slotId hplmn c = Some (source, c') \<Longrightarrow> world c' = world c"
  "ProcessCurrentPlmnEccList e slotId c = Some (source, c') \<Longrightarrow> world c' = world c"
  by (auto simp: MergeEccCallList_def ProcessHplmnEccList_def ProcessCurrentPlmnEccList_def UpdateHplmnFakeEccList_def
      Let_def world_simps split: if_splits option.splits Option.bind_splits list.splits)

lemma world_ecc_list: "UpdateEccNumberList e slotId c = Some c' \<Longrightarrow> world c' = world c"
  by (auto simp: UpdateEccNumberList_def Let_def split_def world_simps
      split: if_splits Option.bind_splits ecc_source.splits dest!: world_ecc(2,3))

lemma world_ecc_change: "ecc_list_change e is c = Some c' \<Longrightarrow> world c' = world c"
  by (induction e "is" c rule: ecc_list_change.induct)
     (auto split: Option.bind_splits dest!: world_ecc_list simp: world_simps)

lemma world_network: "HandleNetworkStateChange e slotId c = Some c' \<Longrightarrow> world c' = world c"
  by (auto simp: HandleNetworkStateChange_def Let_def world_simps split: if_splits option.splits dest!: world_ecc_list)

section \<open>The two places of the IMS switch\<close>

text \<open>Where the database knows the switch of a slot, the parameter of the slot is missing or says the same.\<close>

definition switch_ok :: "'w store \<Rightarrow> 'w \<Rightarrow> bool" where
  "switch_ok S w \<longleftrightarrow> (\<forall>slot.
     let (r, v) = QueryImsSwitch_st S slot IMS_SWITCH_STATUS_UNKNOWN w;
         l = GetIntParameter_st S (IMSSWITCH_STATE @ to_string slot) IMS_SWITCH_STATUS_UNKNOWN w in
     r = TELEPHONY_SUCCESS \<and> v \<noteq> IMS_SWITCH_STATUS_UNKNOWN \<longrightarrow> l = IMS_SWITCH_STATUS_UNKNOWN \<or> l = v)"

lemma switch_ok_other:
  assumes "store_laws S" and "\<forall>slot. key \<noteq> IMSSWITCH_STATE @ to_string slot"
  shows "switch_ok S (SetParameter_st S key v w) = switch_ok S w"
proof -
  have "\<And>slot. IMSSWITCH_STATE @ to_string slot \<noteq> key" using assms(2) by metis
  then show ?thesis by (simp add: switch_ok_def store_param [OF assms(1)])
qed

text \<open>Writing to the parameter what the database has, or is known not to have.\<close>

lemma switch_ok_local:
  assumes laws: "store_laws S" and ok: "switch_ok S w" and v: "int32 v"
    and q: "QueryImsSwitch_st S slot IMS_SWITCH_STATUS_UNKNOWN w = (r, u)"
    and u: "r = TELEPHONY_SUCCESS \<and> u \<noteq> IMS_SWITCH_STATUS_UNKNOWN \<longrightarrow> u = v"
  shows "switch_ok S (SetParameter_st S (IMSSWITCH_STATE @ to_string slot) (to_string v) w)"
  unfolding switch_ok_def
proof (rule allI, goal_cases)
  case (1 slot')
  have "slot' \<noteq> slot \<Longrightarrow> IMSSWITCH_STATE @ to_string slot' \<noteq> IMSSWITCH_STATE @ to_string slot" by simp
  then show ?case
    using ok q u v by (cases "slot' = slot") (auto simp: switch_ok_def store_param [OF laws] Let_def split_def)
qed

lemma switch_ok_save:
  assumes laws: "store_laws S" and ok: "switch_ok S w" and v: "int32 v"
    and save: "SaveImsSwitch_st S slot v w = (r, w')"
  shows "switch_ok S
    (if r = TELEPHONY_SUCCESS then SetParameter_st S (IMSSWITCH_STATE @ to_string slot) (to_string v) w' else w')"
proof (cases "r = TELEPHONY_SUCCESS")
  case True
  note s = store_save [OF laws v save]
  have other: "slot' \<noteq> slot \<Longrightarrow> IMSSWITCH_STATE @ to_string slot' \<noteq> IMSSWITCH_STATE @ to_string slot" for slot' by simp
  show ?thesis unfolding switch_ok_def
  proof (rule allI, goal_cases)
    case (1 slot')
    show ?case using ok True other [of slot']
      by (cases "slot' = slot") (auto simp: switch_ok_def store_param [OF laws] s v Let_def split_def)
  qed
next
  case False
  note s = store_save [OF laws v save]
  have "QueryImsSwitch_st S slot' old w' = QueryImsSwitch_st S slot' old w" for slot' old
    using s(2,3) False by (cases "slot' = slot") simp_all
  with ok False s(1) show ?thesis by (simp add: switch_ok_def)
qed

section \<open>Every operation keeps them in agreement\<close>

lemma ok_param:
  assumes "store_laws (e_store e)" and "\<forall>slot. key \<noteq> IMSSWITCH_STATE @ to_string slot"
  shows "switch_ok (e_store e) (world (SetParameter e key v c)) = switch_ok (e_store e) (world c)"
  using switch_ok_other [OF assms] by (simp add: SetParameter_def)

lemma ok_vonr [simp]:
  "store_laws (e_store e) \<Longrightarrow>
   switch_ok (e_store e) (world (SaveVoNRState e slotId v c)) = switch_ok (e_store e) (world c)"
  by (simp add: SaveVoNRState_def ok_param)

lemma ok_save:
  assumes "store_laws (e_store e)" and "switch_ok (e_store e) (world c)" and "int32 v"
  shows "switch_ok (e_store e) (world (snd (SaveImsSwitch e slotId v c)))"
proof -
  obtain r w where s: "SaveImsSwitch_st (e_store e) slotId v (world c) = (r, w)" by fastforce
  from switch_ok_save [OF assms this] assms(1,2) s show ?thesis
    by (auto simp: SaveImsSwitch_def saveImsSwitchStatusToLocal_def SetParameter_def Let_def split_def split: if_splits)
qed

lemma stored_or_default_int32:
  assumes "store_laws (e_store e)"
  shows "int32 (stored_or_default e slotId c)"
  using store_param(5) [OF assms, of IMS_SWITCH_STATUS_UNKNOWN slotId "world c"]
  by (simp add: stored_or_default_def split_def Let_def)

lemma ok_power_on:
  assumes "store_laws (e_store e)" and "switch_ok (e_store e) (world c)"
  shows "switch_ok (e_store e) (world (saveImsSwitchStatusToLocalForPowerOn e slotId c))"
proof -
  obtain r u where q: "QueryImsSwitch_st (e_store e) slotId IMS_SWITCH_STATUS_UNKNOWN (world c) = (r, u)" by fastforce
  have "r = TELEPHONY_SUCCESS \<and> u \<noteq> IMS_SWITCH_STATUS_UNKNOWN \<longrightarrow> u = stored_or_default e slotId c"
    by (simp add: stored_or_default_def q)
  from switch_ok_local [OF assms stored_or_default_int32 [OF assms(1)] q this] assms(2) show ?thesis
    by (simp add: saveImsSwitchStatusToLocalForPowerOn_def SetParameter_def)
qed

lemma ok_sim_changed:
  assumes "store_laws (e_store e)" and "switch_ok (e_store e) (world c)"
  shows "switch_ok (e_store e) (world (snd (IsSimChanged e slotId iccid c)))"
  using assms by (simp add: IsSimChanged_def Let_def ok_param)

lemma ok_reset:
  assumes "store_laws (e_store e)" and "switch_ok (e_store e) (world c)"
  shows "switch_ok (e_store e) (world (ResetImsSwitch e slotId c))"
proof -
  let ?c1 = "snd (IsSimChanged e slotId (e_iccId e slotId) c)"
  let ?v = "BooleanToImsSwitchValue (entry False (imsSwitchOnByDefault ?c1) slotId)"
  obtain r w where s: "SaveImsSwitch_st (e_store e) slotId ?v (world ?c1) = (r, w)" by fastforce
  from switch_ok_save [OF assms(1) ok_sim_changed [OF assms] switch_values_int32(4) this]
    ok_sim_changed [OF assms, of slotId "e_iccId e slotId"] assms s show ?thesis
    by (auto simp: ResetImsSwitch_def saveImsSwitchStatusToLocal_def SetParameter_def Let_def split_def)
qed

lemma ok_configuration:
  assumes "store_laws (e_store e)" and "switch_ok (e_store e) (world c)"
  shows "switch_ok (e_store e) (world (UpdateImsConfiguration e slotId st b c))"
proof -
  let ?c1 = "snd (ParseAndCacheOperatorConfigs e slotId (snd (e_operatorConfig e slotId)) c)"
  have c1: "switch_ok (e_store e) (world ?c1)" using assms(2) by (simp add: world_simps)
  have "switch_ok (e_store e) (world (ResetImsSwitch e slotId (saveImsSwitchStatusToLocalForPowerOn e slotId ?c1)))"
    by (rule ok_reset [OF assms(1) ok_power_on [OF assms(1) c1]])
  with assms c1 show ?thesis
    by (auto simp: UpdateImsConfiguration_def Let_def split_def world_simps split: option.splits)
qed

lemma ok_set_switch:
  assumes "store_laws (e_store e)" and "switch_ok (e_store e) (world c)"
  shows "switch_ok (e_store e) (world (snd (SetImsSwitchStatus e slotId active c)))"
  using assms ok_save [OF assms(1)]
  by (auto simp: SetImsSwitchStatus_def Let_def split_def world_simps)

lemma ok_clear_code:
  assumes "store_laws (e_store e)" and "switch_ok (e_store e) (world c)"
  shows "switch_ok (e_store e) (world (SetClearCode_cfg e slotId cause c))"
  using assms by (auto simp: SetClearCode_cfg_def Let_def ok_param)

lemma step_switch_ok:
  assumes "config_step e c c'" and laws: "store_laws (e_store e)" and ok: "switch_ok (e_store e) (world c)"
  shows "switch_ok (e_store e) (world c')"
  using assms(1)
proof cases
  case (34 slotId)
  with ok ok_configuration [OF laws, of "snd (CheckAndUpdateSimState e slotId c)"] show ?thesis
    by (simp add: HandleSimAccountLoaded_def world_simps split: if_splits) (metis world_ecc_list)
next
  case 30
  with ok show ?thesis
    by (auto simp: HandleSimStateChanged_def Let_def split_def world_simps split: if_splits Option.bind_splits
        dest!: world_ecc_list)
next
  case 35
  with ok show ?thesis by (auto simp: HandleEccListChange_def dest!: world_ecc_change)
next
  case (33 slotId)
  with ok show ?thesis by (auto dest!: world_network)
qed (use ok laws ok_set_switch [OF laws ok] ok_configuration [OF laws] ok_clear_code [OF laws ok] ok_save [OF laws ok]
    in \<open>auto simp: world_simps SetReadyToCall_cfg_def SetDomainPreferenceMode_def
       GetDomainPreferenceModeResponse_cfg_def SetTempMode_def SetVoNRSwitchStatus_def SetRadioOn_def
       HandleSetLteImsSwitchResult_def SetPreferredNetworkByConfig_def HandleOperatorConfigChanged_def
       HandleSetVoNRSwitchResult_def HandleFactoryReset_def UpdateEmergencyCallFromRadio_def HandleSimRecordsLoaded_def
       HandleResidentNetworkChange_def same_forward split_def Let_def split: if_splits Option.bind_splits
       dest!: world_ecc(1) world_ecc_list\<close>)

lemma reach_switch_ok:
  assumes "config_reach S n same w c" and "store_laws S" and "switch_ok S w"
  shows "switch_ok S (world c)"
  using assms(1)
proof induction
  case (start e)
  with assms(3) show ?case by (simp add: world_simps config_start_def Let_def)
next
  case (step c e c')
  with step_switch_ok [of e c c'] assms(2) show ?case by simp
qed

section \<open>Setting and resetting the switch\<close>

lemma ParseAndCache_valid:
  "IsValidSlotId_cfg e slotId \<Longrightarrow> fst (ParseAndCacheOperatorConfigs e slotId poc c) = TELEPHONY_SUCCESS"
  by (simp add: ParseAndCacheOperatorConfigs_def Let_def)

lemma settings_same:
  assumes "same_settings c' c"
  shows "hideImsSwitch c' = hideImsSwitch c" and "imsSwitchOnByDefault c' = imsSwitchOnByDefault c"
    and "forceVolteSwitchOn c' = forceVolteSwitchOn c"
  using assms by (simp_all add: same_settings_def EccSettings.defs)

lemma switch_value_bool [simp]: "BooleanToImsSwitchValue b \<noteq> 0 \<longleftrightarrow> b"
  by (simp add: BooleanToImsSwitchValue_def IMS_SWITCH_STATUS_ON_def IMS_SWITCH_STATUS_OFF_def)

text \<open>The parameter is stale: the database already has the value to be set, the parameter says the opposite. Then a save changes
  nothing.\<close>

definition stale_parameter :: "'w cfg_env \<Rightarrow> int \<Rightarrow> bool \<Rightarrow> 'w CellularCallConfig \<Rightarrow> bool" where
  "stale_parameter e slotId active c \<longleftrightarrow>
     (let p = GetIntParameter_st (e_store e) (IMSSWITCH_STATE @ to_string slotId) IMS_SWITCH_STATUS_UNKNOWN (world c) in
      QueryImsSwitch_st (e_store e) slotId IMS_SWITCH_STATUS_UNKNOWN (world c) = (TELEPHONY_SUCCESS, BooleanToImsSwitchValue active) \<and>
      p \<noteq> IMS_SWITCH_STATUS_UNKNOWN \<and> (p \<noteq> 0) \<noteq> active)"

lemma saved_switch_exact:
  assumes laws: "store_laws (e_store e)"
    and s: "SaveImsSwitch e slotId (BooleanToImsSwitchValue b) c = (ret, c')" and ret: "ret \<noteq> SAVE_IMS_SWITCH_FAILED"
    and w: "world c'' = world c'"
  shows "QueryImsSwitch_st (e_store e) slotId IMS_SWITCH_STATUS_UNKNOWN (world c'') = (TELEPHONY_SUCCESS, BooleanToImsSwitchValue b) \<and>
    (GetSwitchStatus e slotId c'' \<noteq> 0 \<longleftrightarrow> (if stale_parameter e slotId b c then \<not> b else b))"
proof -
  let ?S = "e_store e" and ?v = "BooleanToImsSwitchValue b" and ?key = "IMSSWITCH_STATE @ to_string slotId"
  obtain q u where q: "QueryImsSwitch_st ?S slotId IMS_SWITCH_STATUS_UNKNOWN (world c) = (q, u)" by fastforce
  have q0: "q = TELEPHONY_SUCCESS" using s ret q by (auto simp: SaveImsSwitch_def split: if_splits)
  show ?thesis
  proof (cases "?v = u")
    case True
    then have "c' = c" using s q q0 by (simp add: SaveImsSwitch_def)
    then have "stored_or_default e slotId c'' = ?v" "world c'' = world c"
      using q q0 True switch_value_known [of b] w by (simp_all add: stored_or_default_def)
    with q q0 True switch_value_bool [of b] show ?thesis by (auto simp: GetSwitchStatus_def stale_parameter_def Let_def simp del: switch_value_bool)
  next
    case False
    then have "\<not> stale_parameter e slotId b c" using q by (auto simp: stale_parameter_def Let_def)
    moreover obtain r w1 where sv: "SaveImsSwitch_st ?S slotId ?v (world c) = (r, w1)" by fastforce
    moreover have r: "r = TELEPHONY_SUCCESS" using s ret q q0 False sv by (auto simp: SaveImsSwitch_def Let_def split: if_splits)
    then have "world c'' = SetParameter_st ?S (VONR_STATE @ to_string slotId) (to_string ?v)
        (SetParameter_st ?S ?key (to_string ?v) w1)"
      using s q q0 False sv w
      by (auto simp: SaveImsSwitch_def SaveVoNRState_def saveImsSwitchStatusToLocal_def SetParameter_def Let_def)
    ultimately show ?thesis
      using store_param(1) [OF laws switch_values_int32(4)] store_param(2) [OF laws keys_differ(1)] store_param(3) [OF laws]
        store_save(3) [OF laws switch_values_int32(4) sv] r
      by (simp add: GetSwitchStatus_def)
  qed
qed

lemma switch_set_get:
  assumes laws: "store_laws (e_store e)" and set: "SetImsSwitchStatus e slotId active c = (TELEPHONY_SUCCESS, c')"
  shows "QueryImsSwitch_st (e_store e) slotId IMS_SWITCH_STATUS_UNKNOWN (world c') = (TELEPHONY_SUCCESS, BooleanToImsSwitchValue active) \<and>
    GetImsSwitchStatus e slotId c' =
      (TELEPHONY_SUCCESS, hideImsSwitch c slotId = Some True \<or> (if stale_parameter e slotId active c then \<not> active else active))"
proof -
  let ?c1 = "snd (if active then IsVolteProvisioned e slotId c else (False, c))"
  obtain ret c2 where s: "SaveImsSwitch e slotId (BooleanToImsSwitchValue active) ?c1 = (ret, c2)" by fastforce
  have "ret \<noteq> SAVE_IMS_SWITCH_FAILED \<and> world c' = world c2"
    using set s by (auto simp: SetImsSwitchStatus_def Let_def split_def world_simps split: if_splits)
  with saved_switch_exact [OF laws s]
  have "QueryImsSwitch_st (e_store e) slotId IMS_SWITCH_STATUS_UNKNOWN (world c') = (TELEPHONY_SUCCESS, BooleanToImsSwitchValue active) \<and>
    (GetSwitchStatus e slotId c' \<noteq> 0 \<longleftrightarrow> (if stale_parameter e slotId active ?c1 then \<not> active else active))" by blast
  moreover have "stale_parameter e slotId active ?c1 = stale_parameter e slotId active c"
    by (simp add: stale_parameter_def world_simps)
  moreover have "hideImsSwitch c' = hideImsSwitch c"
    using settings_same(1) [OF same_set_switch [OF same_settings_refl, of e slotId active c]] set by simp
  ultimately show ?thesis by (auto simp: GetImsSwitchStatus_def)
qed

lemma agreeing_not_stale: "switch_ok (e_store e) (world c) \<Longrightarrow> \<not> stale_parameter e slotId active c"
proof -
  assume "switch_ok (e_store e) (world c)"
  from spec [OF this [unfolded switch_ok_def], of slotId] switch_value_known [of active] switch_value_bool [of active]
  show ?thesis by (auto simp: stale_parameter_def Let_def simp del: switch_value_bool)
qed

text \<open>The last ICCID does not fit the buffer, so a card is taken for a new one.\<close>

lemma sim_always_changed:
  assumes "store_laws (e_store e)" and "2 \<le> length iccid"
  shows "fst (IsSimChanged e slotId iccid c)"
proof -
  have "length (c_str (GetParameter_st (e_store e) key '''' SYSTEM_PARAMETER_LENGTH w)) < 2" for key w
    using store_param(4) [OF assms(1), of SYSTEM_PARAMETER_LENGTH key "''''" w]
    by (simp add: SYSTEM_PARAMETER_LENGTH_def c_str_def le_less_trans [OF length_takeWhile_le])
  with assms(2) have "iccid \<noteq> c_str (GetParameter_st (e_store e) key '''' SYSTEM_PARAMETER_LENGTH w)" for key w
    by (metis not_le)
  then show ?thesis by (simp add: IsSimChanged_def Let_def)
qed

lemma reset_to_default:
  assumes laws: "store_laws (e_store e)" and card: "e_simPresent e slotId" "2 \<le> length (e_iccId e slotId)"
    and force: "entry False (forceVolteSwitchOn c) slotId"
    and save: "\<And>v w. fst (SaveImsSwitch_st (e_store e) slotId v w) = TELEPHONY_SUCCESS"
    and w: "world c' = world (ResetImsSwitch e slotId c)"
  shows "GetSwitchStatus e slotId c' = BooleanToImsSwitchValue (entry False (imsSwitchOnByDefault c) slotId)"
proof -
  let ?S = "e_store e" and ?key = "IMSSWITCH_STATE @ to_string slotId"
  let ?c1 = "snd (IsSimChanged e slotId (e_iccId e slotId) c)"
  have same: "same_settings ?c1 c" by simp
  let ?v = "BooleanToImsSwitchValue (entry False (imsSwitchOnByDefault c) slotId)"
  have "ResetImsSwitch e slotId c =
    saveImsSwitchStatusToLocal e slotId ?v (?c1\<lparr>world := snd (SaveImsSwitch_st ?S slotId ?v (world ?c1))\<rparr>)"
    using card force save sim_always_changed [OF laws card(2), of slotId c]
    by (simp add: ResetImsSwitch_def Let_def split_def settings_same [OF same])
  with w have "GetIntParameter_st ?S ?key IMS_SWITCH_STATUS_UNKNOWN (world c') = ?v"
    by (simp add: saveImsSwitchStatusToLocal_def SetParameter_def store_param [OF laws])
  then show ?thesis by (simp add: GetSwitchStatus_def)
qed

lemma configuration_resets:
  assumes laws: "store_laws (e_store e)" and slot: "IsValidSlotId_cfg e slotId"
    and card: "e_simPresent e slotId" "2 \<le> length (e_iccId e slotId)"
    and conf: "e_operatorConfig e slotId = (TELEPHONY_SUCCESS, poc)"
    and force: "boolValue poc (KEY_FORCE_VOLTE_SWITCH_ON_BOOL (e_names e)) = Some True"
    and default: "boolValue poc (KEY_IMS_SWITCH_ON_BY_DEFAULT_BOOL (e_names e)) = Some d"
    and save: "\<And>v w. fst (SaveImsSwitch_st (e_store e) slotId v w) = TELEPHONY_SUCCESS"
  shows "GetSwitchStatus e slotId (UpdateImsConfiguration e slotId st b c) = BooleanToImsSwitchValue d"
proof -
  let ?c1 = "snd (ParseAndCacheOperatorConfigs e slotId poc c)"
  let ?c2 = "saveImsSwitchStatusToLocalForPowerOn e slotId ?c1"
  have same: "same_settings ?c2 ?c1" by simp
  have e1: "entry False (forceVolteSwitchOn ?c1) slotId" "entry False (imsSwitchOnByDefault ?c1) slotId = d"
    using slot force default by (simp_all add: ParseAndCacheOperatorConfigs_def Let_def ParseBoolOperatorConfigs_def)
  have "world (UpdateImsConfiguration e slotId st b c) = world (ResetImsSwitch e slotId ?c2)"
    using slot conf ParseAndCache_valid [OF slot, of poc c]
    by (auto simp: UpdateImsConfiguration_def Let_def split_def world_simps split: option.splits)
  from reset_to_default [OF laws card _ save this] e1 show ?thesis by (simp add: settings_same [OF same])
qed

section \<open>Concrete surroundings\<close>

text \<open>Parameters as strings and a database column, in which everything can be stored.\<close>

definition sample_store :: "((string \<rightharpoonup> string) \<times> (int \<rightharpoonup> int)) store" where
  "sample_store =
     \<lparr>SetParameter_st = (\<lambda>k v w. ((fst w)(k \<mapsto> v), snd w)),
      GetParameter_st = (\<lambda>k d m w. take (m - 1) (case fst w k of None \<Rightarrow> d | Some s \<Rightarrow> s)),
      GetIntParameter_st = (\<lambda>k d w. case fst w k of None \<Rightarrow> d | Some s \<Rightarrow> signed_value s),
      SaveImsSwitch_st = (\<lambda>slot v w. (TELEPHONY_SUCCESS, (fst w, (snd w)(slot \<mapsto> v)))),
      QueryImsSwitch_st = (\<lambda>slot old w. (TELEPHONY_SUCCESS,
        case snd w slot of None \<Rightarrow> old | Some v \<Rightarrow> if int32 v then v else old))\<rparr>"

lemma sample_store_laws [simp]: "store_laws sample_store"
  by (auto simp: store_laws_def sample_store_def signed_value_to_string Let_def split: option.splits)

definition sample_keys :: key_names where
  "sample_keys =
     \<lparr>k_CS_VOICE_ONLY = 1, k_IMS_PS_VOICE_PREFERRED = 3, k_IMS_PS_VOICE_ONLY = 4, k_NR_AVAILABILITY_NSA = 1,
      k_NR_AVAILABILITY_SA = 2, k_NR_MODE_MIN = 31, k_NR_MODE_MAX = 63, k_DEFAULT_NETWORK_MODE = 99,
      k_TYPE_VOICE_OVER_LTE = 0, k_TYPE_SS_OVER_UT = 2, k_IMS_REG_TECH_LTE = 1, k_IMS_REG_TECH_NR = 3,
      k_INVALID_OPERATOR_CONFIG_STATE = -1, k_DEFAULT_CALL_WAITING_SERVICE_CLASS = 1, k_DEFAULT_REASONINFO_MAPPING = [],
      k_TYPE_CATEGORY = 0, k_TYPE_HAS_CARD = 1, k_TYPE_NO_CARD = 0, k_TYPE_ALL = 0,
      KEY_IMS_SWITCH_ON_BY_DEFAULT_BOOL = ''on'', KEY_HIDE_IMS_SWITCH_BOOL = ''hide'',
      KEY_VOLTE_SUPPORTED_BOOL = ''volte'', KEY_VOLTE_PROVISIONING_SUPPORTED_BOOL = ''prov'',
      KEY_CARRIER_VT_AVAILABLE_BOOL = ''vt'', KEY_SS_OVER_UT_SUPPORTED_BOOL = ''ut'', KEY_IMS_GBA_REQUIRED_BOOL = ''gba'',
      KEY_UT_PROVISIONING_SUPPORTED_BOOL = ''utprov'', KEY_IMS_PREFER_FOR_EMERGENCY_BOOL = ''prefer'',
      KEY_FORCE_VOLTE_SWITCH_ON_BOOL = ''force'', KEY_VIDEO_CALL_WAITING_ON_BOOL = ''vcw'',
      KEY_NR_MODE_SUPPORTED_LIST_INT_ARRAY = ''nr'', KEY_CALL_WAITING_SERVICE_CLASS_INT = ''cw'',
      KEY_IMS_CALL_DISCONNECT_REASONINFO_MAPPING_STRING_ARRAY = ''reason'', KEY_EMERGENCY_CALL_STRING_ARRAY = ''ecc''\<rparr>"

definition sample_operator :: OperatorConfig where
  "sample_operator =
     \<lparr>stringArrayValue = Map.empty, intArrayValue = Map.empty, intValue = Map.empty,
      boolValue = [''force'' \<mapsto> True, ''on'' \<mapsto> True]\<rparr>"

text \<open>The emergency-number table: one row for every network; its columns in the order of the enumeration.\<close>

definition sample_columns :: "ecc_column \<Rightarrow> int" where
  "sample_columns c = (case c of ECC_ID \<Rightarrow> 0 | ECC_NAME \<Rightarrow> 1 | ECC_MCC \<Rightarrow> 2 | ECC_MNC \<Rightarrow> 3 | ECC_NUMERIC \<Rightarrow> 4
     | ECC_WITH_CARD \<Rightarrow> 5 | ECC_NO_CARD \<Rightarrow> 6 | ECC_FAKE \<Rightarrow> 7)"

definition sample_rows :: "int \<Rightarrow> result_set" where
  "sample_rows n =
     \<lparr>GetRowCount_rs = n, GoToRow_rs = (\<lambda>row _. row), GetColumnIndex_rs = (\<lambda>c _. sample_columns c),
      GetInt_rs = (\<lambda>row col old. row),
      GetString_rs = (\<lambda>row col old. if col = 5 then ''110,112'' else if col = 6 then ''112'' else if col = 7 then ''120''
        else ''46000'')\<rparr>"

definition blank_row :: EccNum where
  "blank_row = \<lparr>n_id = 0, n_name = [], n_mcc = [], n_mnc = [], n_numeric = [], n_withcard = [], n_nocard = [], n_fake = []\<rparr>"

definition sample_cfg :: "((string \<rightharpoonup> string) \<times> (int \<rightharpoonup> int)) cfg_env" where
  "sample_cfg =
     \<lparr>e_service = True, e_handler = (\<lambda>_. True), e_register = True, e_cbRegistered = True,
      e_imsClient = True, e_imsProxy = True, e_imsResult = (\<lambda>_. TELEPHONY_SUCCESS),
      e_satClient = True, e_satResult = (\<lambda>_. TELEPHONY_SUCCESS),
      e_zeroReport = zero_report, e_defaultReport = zero_report, e_videoStateInt = (\<lambda>_. 0), e_kMaxNumberLen = 100,
      e_configResult = (\<lambda>_. TELEPHONY_SUCCESS), e_coreEccResult = (\<lambda>_ _. TELEPHONY_SUCCESS),
      e_store = sample_store, e_names = sample_keys, e_slots = 2, e_redcap = False,
      e_simId = (\<lambda>_. 1), e_simState = (\<lambda>_. SIM_STATE_LOADED), e_simPresent = (\<lambda>_. True),
      e_iccId = (\<lambda>_. ''8986''), e_simIst = (\<lambda>_. ''''), e_simNumeric = (\<lambda>_. ''46000''),
      e_netNumeric = (\<lambda>_. ''46001''), e_networkState = (\<lambda>_. Some (REG_STATE_IN_SERVICE, False)),
      e_operatorConfig = (\<lambda>_. (TELEPHONY_SUCCESS, sample_operator)),
      e_nrOption = (\<lambda>_. (TELEPHONY_SUCCESS, NR_MODE_SA_ONLY)),
      e_eccShare = Some (\<lambda>_. Some (sample_rows 1)), e_eccBean = blank_row, e_settingsShare = None,
      e_strToInt = (\<lambda>_ old. old), e_sameEcc = (=), e_uninit = 0\<rparr>"

lemma sample_cfg_simps [simp]:
  "e_store sample_cfg = sample_store" "e_slots sample_cfg = 2" "e_sameEcc sample_cfg = (=)"
  "e_simPresent sample_cfg s" "e_iccId sample_cfg s = ''8986''" "e_names sample_cfg = sample_keys"
  "e_operatorConfig sample_cfg s = (TELEPHONY_SUCCESS, sample_operator)" "e_simId sample_cfg s = 1"
  "e_simState sample_cfg s = SIM_STATE_LOADED" "e_simNumeric sample_cfg s = ''46000''"
  "e_netNumeric sample_cfg s = ''46001''" "e_networkState sample_cfg s = Some (REG_STATE_IN_SERVICE, False)"
  "e_eccShare sample_cfg = Some (\<lambda>_. Some (sample_rows 1))" "e_eccBean sample_cfg = blank_row"
  "e_handler sample_cfg s" "e_coreEccResult sample_cfg s l = TELEPHONY_SUCCESS"
  by (simp_all add: sample_cfg_def)

lemma empty_switch_ok [simp]: "switch_ok sample_store (Map.empty, Map.empty)"
  by (simp add: switch_ok_def sample_store_def)

definition sample_config :: "((string \<rightharpoonup> string) \<times> (int \<rightharpoonup> int)) CellularCallConfig" where
  "sample_config = CellularCallConfig_ctor sample_cfg (config_start (nat 2) (Map.empty, Map.empty))"

lemma sample_config_reach [simp]: "config_reach sample_store 2 (=) (Map.empty, Map.empty) sample_config"
  unfolding sample_config_def by (rule config_reach.start) simp

section \<open>Properties\<close>

text \<open>C37: in every reachable state of the configuration every slot has its entry in each of the maps with defaults, the
  lists per network have one entry per slot, the card of a slot is recorded as present or absent, and no slot lists an
  emergency number twice. So no look-up of the code for an existing slot is out of range or falls back on a
  default-constructed value.\<close>

theorem config_well_formed:
  assumes "config_reach S n same w c"
  shows "config_ok n same c"
  using assms by (rule config_reach_ok)

theorem config_well_formed_witness:
  "config_ok 2 (=) (SetReadyToCall_cfg sample_cfg 1 False sample_config) \<and>
   IsReadyToCall_cfg sample_cfg 1 (SetReadyToCall_cfg sample_cfg 1 False sample_config) = False"
proof
  have "config_reach sample_store 2 (=) (Map.empty, Map.empty) (SetReadyToCall_cfg sample_cfg 1 False sample_config)"
    by (rule config_reach.step [OF sample_config_reach _ _ _ config_step.intros(3)]) simp_all
  then show "config_ok 2 (=) (SetReadyToCall_cfg sample_cfg 1 False sample_config)" by (rule config_well_formed)
  show "IsReadyToCall_cfg sample_cfg 1 (SetReadyToCall_cfg sample_cfg 1 False sample_config) = False"
    by (simp add: IsReadyToCall_cfg_def slot_entry_def SetReadyToCall_cfg_def IsValidSlotId_cfg_def)
qed

text \<open>C36: setting the IMS switch of a slot. When the setting succeeds, the database of the card has the value; the switch then reads as it
  was set, with two exceptions: it always reads as on while the operator hides it, and a stale parameter keeps reading as before, when the database
  already had the value and so nothing is written. From databases and parameters that agree, as empty ones do, no operation of
  the configuration leads to a stale parameter; a change from outside, as another card in the slot, may. That parameters can be written is assumed (the code
  does not look at the result of writing them).\<close>

theorem ims_switch_roundtrip:
  assumes "store_laws (e_store e)" and "SetImsSwitchStatus e slotId active c = (TELEPHONY_SUCCESS, c')"
  shows "QueryImsSwitch_st (e_store e) slotId IMS_SWITCH_STATUS_UNKNOWN (world c') = (TELEPHONY_SUCCESS, BooleanToImsSwitchValue active) \<and>
    GetImsSwitchStatus e slotId c' =
      (TELEPHONY_SUCCESS, hideImsSwitch c slotId = Some True \<or> (if stale_parameter e slotId active c then \<not> active else active)) \<and>
    (config_reach (e_store e) n same w c \<and> switch_ok (e_store e) w \<longrightarrow> \<not> stale_parameter e slotId active c)"
  using switch_set_get [OF assms] reach_switch_ok [OF _ assms(1)] agreeing_not_stale by blast

lemma sample_config_entries:
  "entry False (volteSupported sample_config) 0" "hideImsSwitch sample_config 0 = Some False"
  "entry False (volteProvisioningSupported sample_config) 0 = False" "world sample_config = (Map.empty, Map.empty)"
  by (simp_all add: sample_config_def CellularCallConfig_ctor_def InitDefaultOperatorConfig_def config_start_def Let_def
      init_slot_def insert_absent_def upto.simps)

theorem ims_switch_roundtrip_witness:
  "\<exists>c'. SetImsSwitchStatus sample_cfg 0 True sample_config = (TELEPHONY_SUCCESS, c') \<and>
     GetImsSwitchStatus sample_cfg 0 c' = (TELEPHONY_SUCCESS, True)"
proof -
  have "fst (SetImsSwitchStatus sample_cfg 0 True sample_config) = TELEPHONY_SUCCESS"
    by (simp add: SetImsSwitchStatus_def sample_config_entries IsVolteProvisioned_def SaveImsSwitch_def INVALID_SIM_ID_def
        sim_loaded_def SAVE_IMS_SWITCH_FAILED_def SAVE_IMS_SWITCH_SUCCESS_NOT_CHANGED_def
        SAVE_IMS_SWITCH_SUCCESS_CHANGED_def Let_def split_def)
       (simp add: sample_store_def)
  then have set: "SetImsSwitchStatus sample_cfg 0 True sample_config =
      (TELEPHONY_SUCCESS, snd (SetImsSwitchStatus sample_cfg 0 True sample_config))"
    by (metis prod.collapse)
  from ims_switch_roundtrip [OF _ this, of 2 "(=)" "(Map.empty, Map.empty)"] set show ?thesis
    by (auto simp: sample_config_entries)
qed

text \<open>C39: every change of the operator configuration sets the IMS switch back to the operator's default when the operator
  forces the switch, whether the card is a new one or not: the buffer for the last ICCID has two characters, so that
  the card of a longer ICCID always counts as changed, and what the user chose is lost.\<close>

theorem operator_resets_switch:
  assumes "store_laws (e_store e)" and "IsValidSlotId_cfg e slotId"
    and "e_simPresent e slotId" and "2 \<le> length (e_iccId e slotId)"
    and "e_operatorConfig e slotId = (TELEPHONY_SUCCESS, poc)"
    and "boolValue poc (KEY_FORCE_VOLTE_SWITCH_ON_BOOL (e_names e)) = Some True"
    and "boolValue poc (KEY_IMS_SWITCH_ON_BY_DEFAULT_BOOL (e_names e)) = Some d"
    and "\<forall>v w. fst (SaveImsSwitch_st (e_store e) slotId v w) = TELEPHONY_SUCCESS"
  shows "GetSwitchStatus e slotId (HandleOperatorConfigChanged e slotId st c) = BooleanToImsSwitchValue d"
  unfolding HandleOperatorConfigChanged_def
  by (rule configuration_resets [OF assms(1-7)]) (use assms(8) in blast)

theorem operator_resets_switch_witness:
  "GetSwitchStatus sample_cfg 0 (HandleOperatorConfigChanged sample_cfg 0 0
     (snd (SetImsSwitchStatus sample_cfg 0 False sample_config))) = IMS_SWITCH_STATUS_ON"
proof -
  have "GetSwitchStatus sample_cfg 0 (HandleOperatorConfigChanged sample_cfg 0 0
     (snd (SetImsSwitchStatus sample_cfg 0 False sample_config))) = BooleanToImsSwitchValue True"
    by (rule operator_resets_switch [of _ _ sample_operator])
       (simp_all add: IsValidSlotId_cfg_def sample_operator_def sample_keys_def, simp add: sample_store_def)
  then show ?thesis by (simp add: BooleanToImsSwitchValue_def)
qed

end
