(* ===== verification/EccProps.thy ===== *)
theory EccProps
  imports ConfigProps
begin

text \<open>
  Properties of the emergency-number lists: which dialled numbers are recognised after the modem has reported its
  list, that the kept lists are the ones of the table, and when the query of the table returns.
\<close>

section \<open>Merging\<close>








section \<open>The kept lists\<close>

text \<open>The list for the modem that the table gives for a network.\<close>

definition ecc_for_modem :: "'w cfg_env \<Rightarrow> string list \<Rightarrow> string list \<Rightarrow> EmergencyCall list" where
  "ecc_for_modem e withCard noCard =
     map (\<lambda>it. BuildDefaultEmergencyCall e it (k_TYPE_HAS_CARD (e_names e))) withCard @
     map (\<lambda>it. BuildDefaultEmergencyCall e it (k_TYPE_NO_CARD (e_names e))) noCard"

definition table_list :: "'w cfg_env \<Rightarrow> string \<Rightarrow> EmergencyCall list option" where
  "table_list e numeric =
     do { (ret, eccVec) \<leftarrow> query_ecc e numeric;
          (withCard, noCard) \<leftarrow> GetEccListFromResult eccVec [] [];
          if ret = TELEPHONY_SUCCESS then Some (ecc_for_modem e withCard noCard) else None }"

definition cache_ok :: "'w cfg_env \<Rightarrow> int \<Rightarrow> 'w CellularCallConfig \<Rightarrow> bool" where
  "cache_ok e slotId c \<longleftrightarrow>
     (\<forall>cached \<in> {hplmnEccList c ! nat slotId, currentPlmnEccList c ! nat slotId}.
        plmn cached \<noteq> [] \<longrightarrow> table_list e (plmn cached) = Some (eccInfoList cached))"

lemma table_list_query:
  assumes "table_list e numeric = Some l"
  obtains eccVec withCard noCard where "query_ecc e numeric = Some (TELEPHONY_SUCCESS, eccVec)"
    and "GetEccListFromResult eccVec [] [] = Some (withCard, noCard)" and "l = ecc_for_modem e withCard noCard"
  using assms by (auto simp: table_list_def split: Option.bind_splits if_splits)

lemma table_list_make:
  "query_ecc e numeric = Some (TELEPHONY_SUCCESS, eccVec) \<Longrightarrow> GetEccListFromResult eccVec [] [] = Some (withCard, noCard) \<Longrightarrow>
   table_list e numeric = Some (ecc_for_modem e withCard noCard)"
  by (simp add: table_list_def)

text \<open>What goes out for a network: the request with this list.\<close>

lemma SetEmergencyCallList_trace:
  "trace (snd (SetEmergencyCallList e slotId l c)) = trace c @ snd (SetEmergencyCallListRequest e slotId l)"
  by (simp add: SetEmergencyCallList_def req_def emit_def)

lemma cleared_fields [simp]:
  "simState (ClearCachedEcclist slotId c) = simState c" "curPlmn (ClearCachedEcclist slotId c) = curPlmn c"
  "trace (ClearCachedEcclist slotId c) = trace c"
  by (simp_all add: ClearCachedEcclist_def Let_def)

lemma cleared_lists:
  assumes "config_ok n same c" and "0 \<le> slotId" and "slotId < n"
  shows "hplmnEccList (ClearCachedEcclist slotId c) ! nat slotId = \<lparr>plmn = '''', eccInfoList = []\<rparr>"
    and "currentPlmnEccList (ClearCachedEcclist slotId c) ! nat slotId = \<lparr>plmn = '''', eccInfoList = []\<rparr>"
  using assms by (simp_all add: ClearCachedEcclist_def config_ok_def Let_def)

lemma home_same [simp]:
  "CheckHomeAndPresentState e slotId (ClearCachedEcclist slotId' c) = CheckHomeAndPresentState e slotId c"
  by (simp add: CheckHomeAndPresentState_def cong: option.case_cong)

text \<open>One update, by the network it is for: what goes out after the effects so far.\<close>

definition ecc_outcome :: "'w cfg_env \<Rightarrow> int \<Rightarrow> string \<Rightarrow> cfg_act list \<Rightarrow> cfg_act list option" where
  "ecc_outcome e slotId numeric tr =
     (case query_ecc e numeric of
       None \<Rightarrow> None
     | Some (ret, eccVec) \<Rightarrow>
         if ret \<noteq> TELEPHONY_SUCCESS then Some tr
         else map_option (\<lambda>(withCard, noCard).
           tr @ snd (SetEmergencyCallListRequest e slotId (ecc_for_modem e withCard noCard)))
           (GetEccListFromResult eccVec [] []))"

lemma update_home:
  assumes slot: "IsValidSlotId_cfg e slotId" and home: "CheckHomeAndPresentState e slotId c = (TELEPHONY_SUCCESS, True)"
    and h: "e_simNumeric e slotId = hplmn" "hplmn \<noteq> []"
    and none: "\<forall>v. stringArrayValue (snd (e_operatorConfig e slotId)) (KEY_EMERGENCY_CALL_STRING_ARRAY (e_names e)) = Some v \<longrightarrow> v = []"
    and cached: "plmn (hplmnEccList c ! nat slotId) = hplmn \<longrightarrow>
      table_list e hplmn = Some (eccInfoList (hplmnEccList c ! nat slotId))"
  shows "map_option trace (UpdateEccNumberList e slotId c) = ecc_outcome e slotId hplmn (trace c)"
proof (cases "plmn (hplmnEccList c ! nat slotId) = hplmn")
  case True
  with cached obtain eccVec withCard noCard where q: "query_ecc e hplmn = Some (TELEPHONY_SUCCESS, eccVec)"
    "GetEccListFromResult eccVec [] [] = Some (withCard, noCard)"
    "eccInfoList (hplmnEccList c ! nat slotId) = ecc_for_modem e withCard noCard"
    by (metis table_list_query)
  with True slot home h none show ?thesis
    by (auto simp: ecc_outcome_def UpdateEccNumberList_def ProcessHplmnEccList_def Let_def SetEmergencyCallList_trace split: option.splits)
next
  case False
  with slot home h none show ?thesis
    by (auto simp: ecc_outcome_def UpdateEccNumberList_def ProcessHplmnEccList_def Let_def SetEmergencyCallList_trace ecc_for_modem_def
        split: option.splits Option.bind_splits)
qed

text \<open>The network that is visited: what was reported, or else what the core service says.\<close>

definition visited :: "'w cfg_env \<Rightarrow> int \<Rightarrow> 'w CellularCallConfig \<Rightarrow> string" where
  "visited e slotId c = (if entry [] (curPlmn c) slotId = [] then e_netNumeric e slotId else entry [] (curPlmn c) slotId)"

lemma visited_clear [simp]: "visited e slotId (ClearCachedEcclist slotId' c) = visited e slotId c"
  by (simp add: visited_def)

lemma update_visited:
  assumes slot: "IsValidSlotId_cfg e slotId" and home: "CheckHomeAndPresentState e slotId c = (TELEPHONY_SUCCESS, b)"
    and h: "\<not> (e_simNumeric e slotId \<noteq> [] \<and> b)" and v: "visited e slotId c = current" "current \<noteq> []"
    and cached: "plmn (currentPlmnEccList c ! nat slotId) = current \<longrightarrow>
      table_list e current = Some (eccInfoList (currentPlmnEccList c ! nat slotId))"
  shows "map_option trace (UpdateEccNumberList e slotId c) = ecc_outcome e slotId current (trace c)"
proof (cases "plmn (currentPlmnEccList c ! nat slotId) = current")
  case True
  with cached obtain eccVec withCard noCard where q: "query_ecc e current = Some (TELEPHONY_SUCCESS, eccVec)"
    "GetEccListFromResult eccVec [] [] = Some (withCard, noCard)"
    "eccInfoList (currentPlmnEccList c ! nat slotId) = ecc_for_modem e withCard noCard"
    by (metis table_list_query)
  with True slot home h v show ?thesis
    by (auto simp: ecc_outcome_def UpdateEccNumberList_def ProcessCurrentPlmnEccList_def Let_def SetEmergencyCallList_trace visited_def
        split: if_splits)
next
  case False
  with slot home h v show ?thesis
    by (auto simp: ecc_outcome_def UpdateEccNumberList_def ProcessCurrentPlmnEccList_def Let_def SetEmergencyCallList_trace
        ecc_for_modem_def visited_def split: option.splits Option.bind_splits if_splits)
qed

lemma update_like_cleared:
  assumes ok: "config_ok n same c" and slot: "IsValidSlotId_cfg e slotId" "e_slots e = n" and cached: "cache_ok e slotId c"
  shows "map_option trace (UpdateEccNumberList e slotId c) =
    map_option trace (UpdateEccNumberList e slotId (ClearCachedEcclist slotId c))"
proof -
  let ?d = "ClearCachedEcclist slotId c" and ?h = "e_simNumeric e slotId" and ?v = "visited e slotId c"
  have s: "0 \<le> slotId" "slotId < n" using slot by (auto simp: IsValidSlotId_cfg_def)
  note d = cleared_lists [OF ok s]
  obtain r b where r: "CheckHomeAndPresentState e slotId c = (r, b)" by fastforce
  consider "r \<noteq> TELEPHONY_SUCCESS"
    | "r = TELEPHONY_SUCCESS" "b" "?h \<noteq> []"
      "\<forall>v. stringArrayValue (snd (e_operatorConfig e slotId)) (KEY_EMERGENCY_CALL_STRING_ARRAY (e_names e)) = Some v \<longrightarrow> v = []"
    | v where "r = TELEPHONY_SUCCESS" "b" "?h \<noteq> []" "v \<noteq> []"
      "stringArrayValue (snd (e_operatorConfig e slotId)) (KEY_EMERGENCY_CALL_STRING_ARRAY (e_names e)) = Some v"
    | "r = TELEPHONY_SUCCESS" "\<not> (?h \<noteq> [] \<and> b)" "?v \<noteq> []"
    | "r = TELEPHONY_SUCCESS" "\<not> (?h \<noteq> [] \<and> b)" "?v = []"
    by blast
  then show ?thesis
  proof cases
    case 1
    with r show ?thesis by (simp add: UpdateEccNumberList_def)
  next
    case 2
    note home = r [unfolded 2(1) eq_True [THEN iffD2, OF 2(2)]]
    have kept: "plmn (hplmnEccList c ! nat slotId) = ?h \<longrightarrow>
        table_list e ?h = Some (eccInfoList (hplmnEccList c ! nat slotId))"
      using 2(3) cached by (auto simp: cache_ok_def)
    have "map_option trace (UpdateEccNumberList e slotId ?d) = map_option trace (UpdateEccNumberList e slotId c)"
      using update_home [OF slot(1) home refl 2(3,4) kept]
        update_home [OF slot(1) home_same [of e slotId slotId c, unfolded home] refl 2(3,4)] 2(3) d
      by simp
    then show ?thesis by simp
  next
    case 3
    with r slot show ?thesis
      by (simp add: UpdateEccNumberList_def ProcessHplmnEccList_def Let_def SetEmergencyCallList_trace)
  next
    case 4
    note home = r [unfolded 4(1)]
    have kept: "plmn (currentPlmnEccList c ! nat slotId) = ?v \<longrightarrow>
        table_list e ?v = Some (eccInfoList (currentPlmnEccList c ! nat slotId))"
      using 4(3) cached by (auto simp: cache_ok_def)
    have "map_option trace (UpdateEccNumberList e slotId ?d) = map_option trace (UpdateEccNumberList e slotId c)"
      using update_visited [OF slot(1) home 4(2) refl 4(3) kept]
        update_visited [OF slot(1) home_same [of e slotId slotId c, unfolded home] 4(2) refl] 4(3) d
      by simp
    then show ?thesis by simp
  next
    case 5
    with r slot show ?thesis
      by (auto simp: ecc_outcome_def UpdateEccNumberList_def ProcessCurrentPlmnEccList_def Let_def visited_def split: if_splits)
  qed
qed

text \<open>What an update keeps, by the outcome of looking for a list.\<close>

definition keep_list :: "'w cfg_env \<Rightarrow> int \<Rightarrow> ecc_source \<Rightarrow> 'w CellularCallConfig \<Rightarrow> 'w CellularCallConfig" where
  "keep_list e slotId source c =
     (case source of
        EccSettled \<Rightarrow> c
      | EccNumbers home w nc \<Rightarrow>
          let l = ecc_for_modem e w nc in
          snd (SetEmergencyCallList e slotId l
            (if home then c\<lparr>hplmnEccList := (hplmnEccList c)[nat slotId := \<lparr>plmn = e_simNumeric e slotId, eccInfoList = l\<rparr>]\<rparr>
             else c\<lparr>currentPlmnEccList := (currentPlmnEccList c)
               [nat slotId := \<lparr>plmn = entry [] (curPlmn c) slotId, eccInfoList = l\<rparr>]\<rparr>)))"

lemma update_cases:
  assumes "UpdateEccNumberList e slotId c = Some c'"
  shows "c' = c \<or> (\<exists>source c1. c' = keep_list e slotId source c1 \<and>
    (ProcessHplmnEccList e slotId (e_simNumeric e slotId) c = Some (source, c1) \<or>
     ProcessCurrentPlmnEccList e slotId c = Some (source, c1)))"
proof (cases "IsValidSlotId_cfg e slotId \<and> fst (CheckHomeAndPresentState e slotId c) = TELEPHONY_SUCCESS")
  case True
  let ?p = "if e_simNumeric e slotId \<noteq> [] \<and> snd (CheckHomeAndPresentState e slotId c)
    then ProcessHplmnEccList e slotId (e_simNumeric e slotId) c else ProcessCurrentPlmnEccList e slotId c"
  have "UpdateEccNumberList e slotId c = Option.bind ?p (\<lambda>(source, c1). Some (keep_list e slotId source c1))"
    using True by (simp add: UpdateEccNumberList_def Let_def split_def keep_list_def ecc_for_modem_def cong: ecc_source.case_cong)
       (auto split: Option.bind_splits ecc_source.splits)
  with assms obtain source c1 where "?p = Some (source, c1)" "c' = keep_list e slotId source c1"
    by (auto split: Option.bind_splits)
  then show ?thesis by (metis (full_types))
qed (use assms in \<open>auto simp: UpdateEccNumberList_def split_def Let_def split: if_splits\<close>)

lemma cache_set [simp]: "cache_ok e slotId (snd (SetEmergencyCallList e slotId l d)) = cache_ok e slotId d"
  by (simp add: SetEmergencyCallList_def req_def emit_def cache_ok_def)

lemma cache_plmn [simp]: "cache_ok e slotId (d\<lparr>curPlmn := m\<rparr>) = cache_ok e slotId d"
  by (simp add: cache_ok_def)

lemma home_source:
  assumes "ProcessHplmnEccList e slotId hplmn c = Some (source, c1)" and "cache_ok e slotId c"
  shows "cache_ok e slotId c1 \<and> length (hplmnEccList c1) = length (hplmnEccList c) \<and>
    (\<forall>home w nc. source = EccNumbers home w nc \<longrightarrow> home \<and> table_list e hplmn = Some (ecc_for_modem e w nc))"
  using assms
  by (auto simp: ProcessHplmnEccList_def Let_def SetEmergencyCallList_def req_def emit_def cache_ok_def
      intro: table_list_make split: if_splits Option.bind_splits)

lemma visited_query:
  assumes "ProcessCurrentPlmnEccList e slotId c = Some (EccNumbers home w nc, c1)"
  shows "\<not> home \<and> (\<exists>b. query_ecc e (entry [] (curPlmn c1) slotId) = Some (TELEPHONY_SUCCESS, b) \<and>
    GetEccListFromResult b [] [] = Some (w, nc))"
  using assms by (auto simp: ProcessCurrentPlmnEccList_def Let_def split: if_splits Option.bind_splits)

lemma visited_source:
  assumes "ProcessCurrentPlmnEccList e slotId c = Some (source, c1)" and "cache_ok e slotId c"
  shows "cache_ok e slotId c1 \<and> length (currentPlmnEccList c1) = length (currentPlmnEccList c) \<and>
    (\<forall>home w nc. source = EccNumbers home w nc \<longrightarrow>
       \<not> home \<and> table_list e (entry [] (curPlmn c1) slotId) = Some (ecc_for_modem e w nc))"
proof (intro conjI allI impI)
  show "cache_ok e slotId c1" "length (currentPlmnEccList c1) = length (currentPlmnEccList c)"
    using assms by (auto simp: ProcessCurrentPlmnEccList_def Let_def SetEmergencyCallList_def req_def emit_def
        cache_ok_def split: if_splits Option.bind_splits)
  fix home w nc assume "source = EccNumbers home w nc"
  from visited_query [OF assms(1) [unfolded this]]
  show "\<not> home" "table_list e (entry [] (curPlmn c1) slotId) = Some (ecc_for_modem e w nc)"
    using table_list_make by blast+
qed

lemma update_keeps_cache:
  assumes ok: "config_ok n same c" and slot: "IsValidSlotId_cfg e slotId" "e_slots e = n"
    and cached: "cache_ok e slotId c" and up: "UpdateEccNumberList e slotId c = Some c'"
  shows "cache_ok e slotId c'"
proof -
  have len: "nat slotId < length (hplmnEccList c)" "nat slotId < length (currentPlmnEccList c)"
    using ok slot by (auto simp: config_ok_def IsValidSlotId_cfg_def)
  have keep: "cache_ok e slotId (keep_list e slotId source c1)"
    if "cache_ok e slotId c1" and "\<And>home w nc. source = EccNumbers home w nc \<Longrightarrow>
      (if home then nat slotId < length (hplmnEccList c1) \<and> table_list e (e_simNumeric e slotId) = Some (ecc_for_modem e w nc)
       else nat slotId < length (currentPlmnEccList c1) \<and>
         table_list e (entry [] (curPlmn c1) slotId) = Some (ecc_for_modem e w nc))" for source c1
    using that by (cases source) (auto simp: keep_list_def Let_def cache_ok_def SetEmergencyCallList_def req_def emit_def)
  from update_cases [OF up] show ?thesis
  proof (elim disjE exE conjE)
    fix source c1 assume c': "c' = keep_list e slotId source c1"
      and p: "ProcessHplmnEccList e slotId (e_simNumeric e slotId) c = Some (source, c1)"
    from home_source [OF p cached] len show ?thesis unfolding c' by (intro keep) auto
  next
    fix source c1 assume c': "c' = keep_list e slotId source c1" and p: "ProcessCurrentPlmnEccList e slotId c = Some (source, c1)"
    from visited_source [OF p cached] len show ?thesis unfolding c' by (intro keep) auto
  qed (use cached in simp)
qed

lemma clear_makes_cache: "config_ok n same c \<Longrightarrow> 0 \<le> slotId \<Longrightarrow> slotId < n \<Longrightarrow> cache_ok e slotId (ClearCachedEcclist slotId c)"
  using cleared_lists [of n same c slotId] by (simp add: cache_ok_def)

section \<open>Properties\<close>



lemma sample_row [simp]:
  "n_fake (row_of b sample_columns (sample_rows 1) 0) = ''120''"
  "n_withcard (row_of b sample_columns (sample_rows 1) 0) = ''110,112''"
  "n_nocard (row_of b sample_columns (sample_rows 1) 0) = ''112''"
  by (simp_all add: row_of_def sample_rows_def sample_columns_def)

lemma sample_splits [simp]:
  "Split ''120'' '','' = Some [''120'']" "Split ''112'' '','' = Some [''112'']"
  "Split ''110,112'' '','' = Some [''110'', ''112'']"
  by (simp_all add: Split_def split_loop.simps)

definition sample_ready :: "((string \<rightharpoonup> string) \<times> (int \<rightharpoonup> int)) CellularCallConfig" where
  "sample_ready = InitModeActive sample_cfg (config_start 2 (Map.empty, Map.empty))"



text \<open>C38: the kept lists change nothing: as long as they are what the table says, an update of the modem's list sends what it
  would send without them, and what it keeps is again what the table says.\<close>

theorem ecc_cache_equivalence:
  assumes "config_ok n same c" and "IsValidSlotId_cfg e slotId" and "e_slots e = n" and "cache_ok e slotId c"
  shows "map_option trace (UpdateEccNumberList e slotId c) =
      map_option trace (UpdateEccNumberList e slotId (ClearCachedEcclist slotId c)) \<and>
    pred_option (cache_ok e slotId) (UpdateEccNumberList e slotId c)"
  using update_like_cleared [OF assms] update_keeps_cache [OF assms] by (cases "UpdateEccNumberList e slotId c") auto

text \<open>C40: the query of the emergency-number table, with its columns in fixed places, gives the rows asked for only if there is at
  most one: of more rows it reads the first, and it never returns when there are more rows than the number of the column
  it looks up last admits, because the look-ups write to the counter of the loop.\<close>

theorem ecc_query_returns:
  assumes "share = Some query" and "query numeric = Some rs" and "fixed_columns col rs"
  shows "QueryEccList bean share numeric vec =
    (if GetRowCount_rs rs \<le> 0 then Some (TELEPHONY_SUCCESS, vec)
     else if GetRowCount_rs rs \<le> col ECC_FAKE + 1
       then Some (TELEPHONY_SUCCESS, vec @ [row_of bean col rs (GoToRow_rs rs 0 (- 1))])
     else None)"
  using assms by (rule QueryEccList_fixed)

theorem ecc_query_returns_witness:
  "QueryEccList blank_row (Some (\<lambda>_. Some (sample_rows 2))) ''46000'' [] =
     Some (TELEPHONY_SUCCESS, [row_of blank_row sample_columns (sample_rows 2) 0]) \<and>
   QueryEccList blank_row (Some (\<lambda>_. Some (sample_rows 9))) ''46000'' [] = None"
proof -
  have "fixed_columns sample_columns (sample_rows k)" for k by (simp add: fixed_columns_def sample_rows_def)
  from ecc_query_returns [OF refl refl this] show ?thesis by (simp add: sample_rows_def sample_columns_def)
qed

text \<open>As long as the table has no more rows for a network than the query can bear, every event that updates the
  emergency-number lists returns.\<close>

definition bearable_table :: "(ecc_column \<Rightarrow> int) \<Rightarrow> 'w cfg_env \<Rightarrow> bool" where
  "bearable_table col e \<longleftrightarrow> (\<forall>query numeric rs. e_eccShare e = Some query \<longrightarrow> query numeric = Some rs \<longrightarrow>
     fixed_columns col rs \<and> GetRowCount_rs rs \<le> col ECC_FAKE + 1)"

lemma bearable_query: "bearable_table col e \<Longrightarrow> \<exists>r. query_ecc e numeric = Some r"
proof (cases "e_eccShare e")
  case (Some query)
  assume "bearable_table col e"
  with Some show ?thesis
    using QueryEccList_fixed [of "Some query" query numeric _ col "e_eccBean e" "[]"]
    by (cases "query numeric") (auto simp: query_ecc_def bearable_table_def QueryEccList_def [of _ _ _ "[]"])
qed (simp add: query_ecc_def QueryEccList_def)

lemma comma_split: "\<exists>l. Split s '','' = Some l"
  using split_loop_correct [of "'',''" s "[]"] by (auto simp: Split_def)

lemma lists_returned: "\<exists>r. GetEccListFromResult vec w nc = Some r"
proof (cases vec)
  case (Cons row rows)
  obtain x y where "Split (n_withcard row) '','' = Some x" "Split (n_nocard row) '','' = Some y" using comma_split by blast
  with Cons show ?thesis by (simp add: GetEccListFromResult_def)
qed (simp add: GetEccListFromResult_def)

lemma update_returns:
  assumes "bearable_table col e"
  shows "UpdateEccNumberList e slotId c \<noteq> None"
proof -
  have q: "query_ecc e numeric \<noteq> None" "GetEccListFromResult vec w nc \<noteq> None" for numeric vec w nc
    using bearable_query [OF assms] lists_returned by auto
  have "ProcessHplmnEccList e slotId hplmn c \<noteq> None" for hplmn
    by (simp add: ProcessHplmnEccList_def Let_def bind_eq_None_conv q split_def del: not_None_eq)
  moreover have "ProcessCurrentPlmnEccList e slotId c \<noteq> None"
    by (simp add: ProcessCurrentPlmnEccList_def Let_def bind_eq_None_conv q split_def del: not_None_eq)
  ultimately show ?thesis
    by (simp add: UpdateEccNumberList_def Let_def split_def bind_eq_None_conv del: not_None_eq split: ecc_source.splits)
qed

lemma merge_returns:
  assumes "bearable_table col e"
  shows "MergeEccCallList e slotId c \<noteq> None"
proof -
  have q: "query_ecc e numeric \<noteq> None" "Split s '','' \<noteq> None" for numeric s
    using bearable_query [OF assms] comma_split by auto
  show ?thesis
    by (simp add: MergeEccCallList_def Let_def bind_eq_None_conv q split_def del: not_None_eq split: list.splits)
qed

lemma ecc_change_returns: "bearable_table col e \<Longrightarrow> ecc_list_change e is c \<noteq> None"
  by (induction "is" arbitrary: c) (simp_all add: bind_eq_None_conv update_returns del: not_None_eq)

theorem ecc_updates_return:
  assumes "bearable_table col e"
  shows "UpdateEmergencyCallFromRadio e slotId infos c \<noteq> None \<and> HandleSimStateChanged e slotId c \<noteq> None \<and>
    HandleSimRecordsLoaded e slotId c \<noteq> None \<and> HandleResidentNetworkChange e slotId numeric c \<noteq> None \<and>
    HandleNetworkStateChange e slotId c \<noteq> None \<and> HandleSimAccountLoaded e slotId c \<noteq> None \<and>
    HandleEccListChange e c \<noteq> None"
  by (intro conjI)
     (simp_all add: UpdateEmergencyCallFromRadio_def HandleSimStateChanged_def HandleSimRecordsLoaded_def
       HandleResidentNetworkChange_def HandleNetworkStateChange_def HandleSimAccountLoaded_def HandleEccListChange_def
       update_returns [OF assms] merge_returns [OF assms] ecc_change_returns [OF assms] Let_def split_def
       bind_eq_None_conv del: not_None_eq split: option.splits)

theorem ecc_updates_return_witness:
  "HandleEccListChange sample_cfg sample_ready \<noteq> None"
proof -
  have "bearable_table sample_columns sample_cfg"
    by (simp add: bearable_table_def fixed_columns_def sample_rows_def sample_columns_def)
  from ecc_updates_return [OF this] show ?thesis by blast
qed

text \<open>The first statement at a concrete state.\<close>

theorem ecc_cache_equivalence_witness:
  "map_option trace (UpdateEccNumberList sample_cfg 0 sample_config) =
     map_option trace (UpdateEccNumberList sample_cfg 0 (ClearCachedEcclist 0 sample_config)) \<and>
   pred_option (cache_ok sample_cfg 0) (UpdateEccNumberList sample_cfg 0 sample_config)"
proof (rule ecc_cache_equivalence)
  show ok: "config_ok 2 (=) sample_config" using sample_config_reach by (rule config_reach_ok)
  show "cache_ok sample_cfg 0 sample_config"
    using init_slots_ecc [of sample_cfg "[0..1]" "config_start (nat 2) (Map.empty, Map.empty)"]
    by (simp add: cache_ok_def sample_config_def CellularCallConfig_ctor_def InitDefaultOperatorConfig_def ecc_parts_def
        config_start_def Let_def)
qed (simp_all add: IsValidSlotId_cfg_def)

end
