(* ===== verification/Spec2Isabelle.thy ===== *)
theory Spec2Isabelle
  imports MmiSyntax Emergency Interception CsControl ImsControl SatControl Handler SsEndToEnd ServiceProps ImsCallbackProps ImsClientProps ImsClientThreads SatProps CallStubProps EccProps
begin

text \<open>
  A model of the cellular-call service of the telephony subsystem
  (\<^verbatim>\<open>telephony_cellular_call\<close>), and its correctness.

  \<^bold>\<open>The program.\<close> The service sits between the call manager, which owns the user's calls, and three
  networks: the modem (circuit-switched calls, CS), the IMS service and the satellite modem. For every SIM slot it
  keeps one handler (\<^verbatim>\<open>CellularCallHandler\<close>) that receives events, and up to three controls
  (\<^verbatim>\<open>CSControl\<close>, \<^verbatim>\<open>IMSControl\<close>, \<^verbatim>\<open>SatelliteControl\<close>), each a table of
  connections keyed by the index that the network gives a call. The call manager's requests
  (dial, hang up, answer, hold, \<dots>) go through a control to a connection, which sends a request to its network.
  The networks answer with lists of current calls; a control brings its table in line with the list and
  reports the calls, the ended ones with the reason of their end. A dialled text may be an MMI code,
  which is executed as a supplementary service instead.

  \<^bold>\<open>Theories.\<close> Each theory's opening text says which functions it translates; names are the source's, with
  a suffix (\<open>_cs\<close>, \<open>_ims\<close>, \<open>_sat\<close>, \<open>_supp\<close>, \<open>_stub\<close>) where several classes share one.

  \<^item> \<open>Prelude\<close>: result codes, strings, \<^verbatim>\<open>std::map\<close> as an ordered list of entries (\<open>omap\<close>), and the
    contract \<open>keyed_table\<close> of such a table, interpreted on \<open>omap\<close>.
  \<^item> \<open>Types\<close>: the structures and enumerations of \<^verbatim>\<open>services/common/include/cellular_call_data_struct.h\<close> and of
    the IMS and satellite interfaces; the requests and reports an operation can make (\<open>act\<close>).
  \<^item> \<open>Standardize\<close>: number formatting, the split of a dialled text into address and post-dial string, and the 64-bit FNV
    hash (\<^verbatim>\<open>services/utils/src/standardize_utils.cpp\<close>).
  \<^item> \<open>Regex\<close>, \<open>MmiCode\<close>, \<open>MmiHash\<close>, \<open>MmiSyntax\<close>: \<^verbatim>\<open>services/utils/src/mmi_code_utils.cpp\<close>.
    The matcher for the C++ regular expressions follows the order in which the standard's matcher tries its branches and is proved
    against the language of the expression; dispatch by hash is proved to be dispatch by code.
  \<^item> \<open>PhoneNumber\<close>: the changes the handler makes to reported numbers.
  \<^item> \<open>Emergency\<close>, \<open>ControlBase\<close>, \<open>Interception\<close>: emergency numbers
    (\<^verbatim>\<open>emergency_utils.cpp\<close>) and what every control does before it dials (\<^verbatim>\<open>control_base.cpp\<close>).
  \<^item> \<open>Connection\<close>, \<open>ConnectionCs\<close>, \<open>ConnectionIms\<close>: the connections
    (\<^verbatim>\<open>services/connection\<close>), the post-dial state machine among them.
  \<^item> \<open>CallSync\<close>: the contract \<open>call_sync\<close> of a loop over a reported list that looks up, updates and flags connections,
    and of the sweep after it, with what follows for the table; \<open>post_dial_loop\<close> extends it to the loops
    that also run the post-dial string. The three controls interpret them on their own loops.
  \<^item> \<open>CsControl\<close>, \<open>ImsControl\<close>, \<open>SatControl\<close>: the controls (\<^verbatim>\<open>services/control\<close>), their step
    relations and invariants.
  \<^item> \<open>Handler\<close>: the handler of a slot (\<^verbatim>\<open>services/manager/src/cellular_call_handler.cpp\<close>): call reports,
    disconnect reasons, SRVCC, and the invariant of the slot over all its steps.
  \<^item> \<open>SsRequest\<close>: the supplementary-service commands under way, with the contract \<open>pending_store\<close> of the table.
  \<^item> \<open>Supplement\<close>, \<open>SupplementAnswers\<close>: senders and answers of supplementary services
    (\<^verbatim>\<open>services/utils/src/cellular_call_supplement.cpp\<close>, the requests in \<^verbatim>\<open>services/common\<close>, the
    responses in the handler, the fall-back to CS in the IMS callback stub); \<open>SsEndToEnd\<close>: their composition.
  \<^item> \<open>Service\<close>: the service itself (\<^verbatim>\<open>services/manager/src/cellular_call_service.cpp\<close>): choice and creation
    of the controls, the checks of slot and SRVCC state, radio state, restart, and the supplementary services of the settings menu.
    \<open>ServiceInv\<close>: the contract \<open>control_store\<close> of the maps of controls, the step relation of the whole service (calls
    of the call manager and events of all handlers), its invariant and frame; \<open>ServiceProps\<close>: the properties of the service.
  \<^item> \<open>Parcel\<close>: the messages between processes, with the laws the code relies on and a precondition calculus for what is read
    and written. \<open>ImsCallback\<close>, \<open>ImsCallbackStub\<close>: the callbacks of the IMS service, written by
    \<^verbatim>\<open>ImsCallCallbackProxy\<close> and read and performed by \<^verbatim>\<open>ImsCallCallbackStub\<close>
    (\<^verbatim>\<open>services/ims_service_interaction/src\<close>); \<open>ImsCallbackProps\<close>: they arrive.
  \<^item> \<open>ServiceClient\<close>: the contract \<open>service_client\<close> of a client that connects before it sends. \<open>ImsRequest\<close>,
    \<open>ImsClient\<close>, \<open>ImsClientProps\<close>: the requests of \<^verbatim>\<open>ImsCallProxy\<close> and \<^verbatim>\<open>ImsCallClient\<close>, the
    connection to the IMS service and the handlers of the slots; \<open>ImsClientThreads\<close>: the threads that look for the connection
    at the same time, as a step relation at the places where the code holds no lock. \<open>SatIpc\<close>, \<open>SatClient\<close>, \<open>SatProps\<close>: the
    same for the satellite service (\<^verbatim>\<open>services/satellite_service_interaction/src\<close>), and its death.
  \<^item> \<open>CallStub\<close>: the stub of the service (\<^verbatim>\<open>services/manager/src/cellular_call_stub.cpp\<close>), which reads the messages
    of the call manager and calls the service; \<open>CallStubProps\<close>: what each message does, and the service behind the stub.
  \<^item> \<open>ConfigRequest\<close>, \<open>CallConfig\<close>, \<open>SwitchConfig\<close>, \<open>EccConfig\<close>: the configuration
    (\<^verbatim>\<open>services/utils/src/config_request.cpp\<close>, \<^verbatim>\<open>cellular_call_config.cpp\<close>): the operator's settings, the IMS and VoNR
    switches in the parameters and the database (\<open>store_laws\<close>), the capabilities, the emergency-number lists. \<open>RdbHelper\<close>: the
    queries of the database (\<^verbatim>\<open>services/common/src/cellular_call_rdb_helper.cpp\<close>), one of which need not return.
    \<open>ConfigInv\<close>: the step relation of the configuration and the shape of its state; \<open>ConfigProps\<close>, \<open>EccProps\<close>: its properties.
  \<^item> \<open>Samples\<close>: concrete surroundings and calls on which the properties are applied.

  \<^bold>\<open>How the code is modelled.\<close> A class is a record, a method a function from the object's state (and its arguments) to the
  result, the new state and the list of effects in order. An effect is a request to a network,
  a report to the call manager or an event sent to the handler; \<open>NullDeref\<close> marks a dereference that the code does not
  guard. What the surrounding system answers (which services exist, the radio and SIM state,
  the result of each request) is a record \<open>e\<close> of answers, on which the properties put hypotheses where they need
  some. Integers of the protocol are \<open>int\<close> (the code does no arithmetic on them that could overflow); the hash
  and the service-class mask are words of their width. Methods are
  modelled as run by one thread, from beginning to end; where a lock is released in the middle of a method and other threads can change
  what it has read (\<^verbatim>\<open>ImsCallClient::GetImsCallProxy\<close>), \<open>ImsClientThreads\<close> has the steps between, and shows that a
  thread alone does what the method does. The handler's event queue
  makes reports and answers single steps of the slot, so that runs are sequences of such steps. The one wait
  (\<^verbatim>\<open>HandleEcc\<close>) is a list of wake-ups that ends with the time-out, and is proved to return.

  \<^bold>\<open>What is proved.\<close> Syntax and codes: the MMI syntax is recognised exactly, dispatch by hash is exact, the tables of
  service codes agree. Dialling: an emergency number reaches the modem in every network state, at most six connections are
  passed, CLIR prefixes and post-dial digits take effect once and in order. Reports: the table of a control
  mirrors the reported list, each vanished call is reported once, and the end of CS calls waits until the modem has named the
  reason, also when it lists no call any more (beside an IMS control the handler asks for no reason: the exception is in the theorem). Calls: answering, hanging up, rejecting, dialling
  beside an active call. Invariants: every table is sorted, keyed by index and without left-over flags in each
  reachable state. Supplementary services: a command is found by its answer, whatever other commands came between, every accepted or refused code is
  reported once, a request that IMS gives back is repeated over CS. Service: what happens on one slot neither changes another nor
  depends on it; a missing slot or a
  running SRVCC refuses calls, with the operations that ask for neither named; a call whose control is gone is announced as ended, an
  emergency number reaches a network, at once or
  when the radio comes up, a restart of the call manager hangs up and ends every CS and IMS call it knew. Messages: the callbacks of the
  IMS service are decoded as the callback that was made and reach one handler; long transfer lists and the
  invalid index of a result are refused or dropped, and the answer to \<^verbatim>\<open>SendDtmf\<close>, the call list and the switch state, whose reader
  relies on the place after a block that could not be read, are left out; the message of a request determines
  the request, but for the pairs the theorem names; requests go out once and in order over a connection that is made, lost and made again with the service. Two threads
  that connect at once can register the callback twice, one alone registers it once. Configuration: the
  IMS switch reads as it was set while the operator lets the user see it and the parameter is written, and as the theorem says otherwise;
  an emergency number is recognised exactly when the lists the service keeps for modem, 3GPP and home network name it; keeping
  lists changes nothing. Several theorems state what the code does where it does
  not do what it means to; the findings of the manifest name them.

  \<^bold>\<open>Not modelled.\<close> Logging, tracing and HiSysEvent telemetry; video calls, start-up, dump and registration of the
  service with other services. What belongs to other
  repositories (core service, call manager, state registry, the system libraries) is a parameter of the definitions.
\<close>

end
